(* ===== verification/Prelude.thy ===== *)
theory Prelude
  imports Main "HOL-Library.Sublist"
begin

text \<open>
  Shared vocabulary of the development.

  The backend is written as asynchronous methods that read and write one PostgreSQL database
  and that fail by throwing. A method is modelled as a function from the state to an error or a
  result, together with the state it leaves (\<open>tx\<close>): a thrown error keeps the state reached so
  far, and only a database transaction rolls the tables back (theory Schema). This theory holds
  the combinators of that style, the rules by which an invariant is carried through a method
  body (\<open>keeps\<close>), and the generic facts on lists, options and JavaScript strings that the
  component theories share.
\<close>

named_theorems tx_simps \<open>unfolding rules of the transaction combinators\<close>
named_theorems keeps_intros \<open>rules that carry an invariant through a method body\<close>

section \<open>Methods that read and write a state and may throw\<close>

type_synonym ('e, 's, 'a) tx = "'s \<Rightarrow> ('e + 'a) \<times> 's"

definition tx_return :: "'a \<Rightarrow> ('e, 's, 'a) tx" where
  "tx_return x s = (Inr x, s)"

definition tx_throw :: "'e \<Rightarrow> ('e, 's, 'a) tx" where
  "tx_throw e s = (Inl e, s)"

definition tx_bind :: "('e, 's, 'a) tx \<Rightarrow> ('a \<Rightarrow> ('e, 's, 'b) tx) \<Rightarrow> ('e, 's, 'b) tx" where
  "tx_bind m f s = (case m s of (Inl e, s') \<Rightarrow> (Inl e, s') | (Inr x, s') \<Rightarrow> f x s')"

definition tx_then :: "('e, 's, 'a) tx \<Rightarrow> ('e, 's, 'b) tx \<Rightarrow> ('e, 's, 'b) tx" where
  "tx_then m k = tx_bind m (\<lambda>_. k)"

definition tx_gets :: "('s \<Rightarrow> 'a) \<Rightarrow> ('e, 's, 'a) tx" where
  "tx_gets f s = (Inr (f s), s)"

definition tx_modify :: "('s \<Rightarrow> 's) \<Rightarrow> ('e, 's, unit) tx" where
  "tx_modify f s = (Inr (), f s)"

definition tx_when :: "bool \<Rightarrow> ('e, 's, unit) tx \<Rightarrow> ('e, 's, unit) tx" where
  "tx_when b m = (if b then m else tx_return ())"

text \<open>A sequence of statements whose results are not used.\<close>

fun tx_seq :: "('e, 's, unit) tx list \<Rightarrow> ('e, 's, unit) tx" where
  "tx_seq [] = tx_return ()"
| "tx_seq (m # ms) = tx_then m (tx_seq ms)"

text \<open>\<open>try { m } catch (e) { h e }\<close>.\<close>

definition tx_catch :: "('e, 's, 'a) tx \<Rightarrow> ('e \<Rightarrow> ('e, 's, 'a) tx) \<Rightarrow> ('e, 's, 'a) tx" where
  "tx_catch m h s = (case m s of (Inl e, s') \<Rightarrow> h e s' | (Inr x, s') \<Rightarrow> (Inr x, s'))"

text \<open>A pure computation that may throw, used inside a method.\<close>

definition tx_lift :: "'e + 'a \<Rightarrow> ('e, 's, 'a) tx" where
  "tx_lift r s = (r, s)"

text \<open>\<open>rows[0]\<close> followed by a test for a missing row.\<close>

definition tx_require :: "'e \<Rightarrow> 'a option \<Rightarrow> ('e, 's, 'a) tx" where
  "tx_require e r = (case r of None \<Rightarrow> tx_throw e | Some x \<Rightarrow> tx_return x)"

lemmas tx_defs = tx_return_def tx_throw_def tx_bind_def tx_then_def tx_gets_def tx_modify_def
  tx_when_def tx_catch_def tx_lift_def tx_require_def

lemma tx_return_apply [tx_simps]: "tx_return x s = (Inr x, s)"
  by (simp add: tx_return_def)

lemma tx_throw_apply [tx_simps]: "tx_throw e s = (Inl e, s)"
  by (simp add: tx_throw_def)

lemma tx_gets_apply [tx_simps]: "tx_gets f s = (Inr (f s), s)"
  by (simp add: tx_gets_def)

lemma tx_modify_apply [tx_simps]: "tx_modify f s = (Inr (), f s)"
  by (simp add: tx_modify_def)

lemma tx_lift_apply [tx_simps]: "tx_lift r s = (r, s)"
  by (simp add: tx_lift_def)

lemma tx_bind_Inr [tx_simps]: "m s = (Inr x, s') \<Longrightarrow> tx_bind m f s = f x s'"
  by (simp add: tx_bind_def)

lemma tx_bind_Inl [tx_simps]: "m s = (Inl e, s') \<Longrightarrow> tx_bind m f s = (Inl e, s')"
  by (simp add: tx_bind_def)

lemma tx_then_Inr [tx_simps]: "m s = (Inr x, s') \<Longrightarrow> tx_then m k s = k s'"
  by (simp add: tx_then_def tx_bind_def)

lemma tx_then_Inl [tx_simps]: "m s = (Inl e, s') \<Longrightarrow> tx_then m k s = (Inl e, s')"
  by (simp add: tx_then_def tx_bind_def)

lemma tx_when_apply [tx_simps]: "tx_when b m s = (if b then m s else (Inr (), s))"
  by (simp add: tx_when_def tx_return_def)

lemma tx_require_Some [tx_simps]: "tx_require e (Some x) s = (Inr x, s)"
  by (simp add: tx_require_def tx_return_def)

lemma tx_require_None [tx_simps]: "tx_require e None s = (Inl e, s)"
  by (simp add: tx_require_def tx_throw_def)

text \<open>
  Elimination rules for a method that returned normally: each takes the method apart into the
  statements that ran, so that a functional property of a long handler is a linear proof.
\<close>

lemma tx_bind_InrE:
  assumes "tx_bind m f s = (Inr y, t)"
  obtains x s' where "m s = (Inr x, s')" and "f x s' = (Inr y, t)"
  using assms by (auto simp: tx_bind_def split: prod.splits sum.splits)

lemma tx_then_InrE:
  assumes "tx_then m k s = (Inr y, t)"
  obtains x s' where "m s = (Inr x, s')" and "k s' = (Inr y, t)"
  using assms unfolding tx_then_def by (rule tx_bind_InrE)

lemma tx_require_InrE:
  assumes "tx_require e r s = (Inr x, t)"
  obtains "r = Some x" and "t = s"
  using assms by (cases r) (simp_all add: tx_require_def tx_throw_def tx_return_def)

lemma tx_return_InrE:
  assumes "tx_return x s = (Inr y, t)"
  obtains "y = x" and "t = s"
  using assms by (simp add: tx_return_def)

lemma tx_gets_InrE:
  assumes "tx_gets f s = (Inr y, t)"
  obtains "y = f s" and "t = s"
  using assms unfolding tx_gets_def prod.inject sum.inject by blast

lemma tx_modify_InrE:
  assumes "tx_modify f s = (Inr y, t)"
  obtains "t = f s"
  using assms by (simp add: tx_modify_def)

lemma tx_lift_InrE:
  assumes "tx_lift r s = (Inr y, t)"
  obtains "r = Inr y" and "t = s"
  using assms by (simp add: tx_lift_def)

lemma tx_throw_InrE:
  assumes "tx_throw e s = (Inr y, t)"
  obtains False
  using assms by (simp add: tx_throw_def)

text \<open>A guard that returns did not throw.\<close>

lemma guard_InrE:
  assumes "tx_when b (tx_throw e) s = (Inr u, t)"
  obtains "\<not> b" and "t = s"
  using assms by (simp add: tx_when_def tx_return_def tx_throw_def split: if_splits)

lemmas tx_elims = tx_bind_InrE tx_then_InrE tx_require_InrE tx_return_InrE tx_gets_InrE
  tx_modify_InrE tx_lift_InrE tx_throw_InrE

section \<open>Invariants of methods\<close>

text \<open>\<open>keeps I m\<close>: whatever \<open>m\<close> returns or throws, it leaves \<open>I\<close> true if it found it true.\<close>

definition keeps :: "('s \<Rightarrow> bool) \<Rightarrow> ('e, 's, 'a) tx \<Rightarrow> bool" where
  "keeps I m \<longleftrightarrow> (\<forall>s. I s \<longrightarrow> I (snd (m s)))"

lemma keepsI: "(\<And>s. I s \<Longrightarrow> I (snd (m s))) \<Longrightarrow> keeps I m"
  by (simp add: keeps_def)

lemma keepsD: "keeps I m \<Longrightarrow> I s \<Longrightarrow> m s = (r, t) \<Longrightarrow> I t"
  by (metis keeps_def snd_conv)

lemma keeps_return [keeps_intros]: "keeps I (tx_return x)"
  by (simp add: keeps_def tx_return_def)

lemma keeps_throw [keeps_intros]: "keeps I (tx_throw e)"
  by (simp add: keeps_def tx_throw_def)

lemma keeps_gets [keeps_intros]: "keeps I (tx_gets f)"
  by (simp add: keeps_def tx_gets_def)

lemma keeps_lift [keeps_intros]: "keeps I (tx_lift r)"
  by (simp add: keeps_def tx_lift_def)

lemma keeps_require [keeps_intros]: "keeps I (tx_require e r)"
  by (simp add: keeps_def tx_require_def tx_return_def tx_throw_def split: option.splits)

lemma keeps_modify: "(\<And>s. I s \<Longrightarrow> I (f s)) \<Longrightarrow> keeps I (tx_modify f)"
  by (simp add: keeps_def tx_modify_def)

lemma keeps_bind [keeps_intros]:
  "keeps I m \<Longrightarrow> (\<And>x. keeps I (f x)) \<Longrightarrow> keeps I (tx_bind m f)"
  by (fastforce simp: keeps_def tx_bind_def split: prod.splits sum.splits)

lemma keeps_then [keeps_intros]: "keeps I m \<Longrightarrow> keeps I k \<Longrightarrow> keeps I (tx_then m k)"
  by (simp add: tx_then_def keeps_bind)

lemma keeps_when [keeps_intros]: "(b \<Longrightarrow> keeps I m) \<Longrightarrow> keeps I (tx_when b m)"
  by (simp add: tx_when_def keeps_return)

lemma keeps_seq [keeps_intros]: "(\<And>m. m \<in> set ms \<Longrightarrow> keeps I m) \<Longrightarrow> keeps I (tx_seq ms)"
  by (induction ms) (auto intro: keeps_intros)

lemma keeps_catch [keeps_intros]:
  "keeps I m \<Longrightarrow> (\<And>e. keeps I (h e)) \<Longrightarrow> keeps I (tx_catch m h)"
  by (fastforce simp: keeps_def tx_catch_def split: prod.splits sum.splits)

lemma keeps_if [keeps_intros]:
  "(b \<Longrightarrow> keeps I m) \<Longrightarrow> (\<not> b \<Longrightarrow> keeps I k) \<Longrightarrow> keeps I (if b then m else k)"
  by simp

lemma keeps_case_option [keeps_intros]:
  "(r = None \<Longrightarrow> keeps I m) \<Longrightarrow> (\<And>x. r = Some x \<Longrightarrow> keeps I (k x)) \<Longrightarrow>
    keeps I (case r of None \<Rightarrow> m | Some x \<Rightarrow> k x)"
  by (cases r) auto

lemma keeps_case_sum [keeps_intros]:
  "(\<And>e. r = Inl e \<Longrightarrow> keeps I (m e)) \<Longrightarrow> (\<And>x. r = Inr x \<Longrightarrow> keeps I (k x)) \<Longrightarrow>
    keeps I (case r of Inl e \<Rightarrow> m e | Inr x \<Rightarrow> k x)"
  by (cases r) auto

lemma keeps_case_prod [keeps_intros]:
  "(\<And>x y. p = (x, y) \<Longrightarrow> keeps I (m x y)) \<Longrightarrow> keeps I (case p of (x, y) \<Rightarrow> m x y)"
  by (cases p) auto

lemma keeps_let [keeps_intros]: "keeps I (f x) \<Longrightarrow> keeps I (let y = x in f y)"
  by simp

lemma keeps_conj: "keeps I m \<Longrightarrow> keeps J m \<Longrightarrow> keeps (\<lambda>s. I s \<and> J s) m"
  by (simp add: keeps_def)

section \<open>Rows of a table\<close>

text \<open>
  A table is the list of its rows in insertion order. \<open>UPDATE t SET ... WHERE p\<close> maps the
  rows that satisfy \<open>p\<close>; a select filters them.
\<close>

definition upd_where :: "('r \<Rightarrow> bool) \<Rightarrow> ('r \<Rightarrow> 'r) \<Rightarrow> 'r list \<Rightarrow> 'r list" where
  "upd_where p f rs = map (\<lambda>r. if p r then f r else r) rs"

lemma length_upd_where [simp]: "length (upd_where p f rs) = length rs"
  by (simp add: upd_where_def)

lemma upd_where_Nil [simp]: "upd_where p f [] = []"
  by (simp add: upd_where_def)

lemma upd_where_Cons [simp]:
  "upd_where p f (r # rs) = (if p r then f r else r) # upd_where p f rs"
  by (simp add: upd_where_def)

lemma upd_where_append [simp]: "upd_where p f (xs @ ys) = upd_where p f xs @ upd_where p f ys"
  by (simp add: upd_where_def)

lemma set_upd_where: "set (upd_where p f rs) = (\<lambda>r. if p r then f r else r) ` set rs"
  by (simp add: upd_where_def)

lemma in_upd_whereE:
  assumes "x \<in> set (upd_where p f rs)"
  obtains r where "r \<in> set rs" and "x = (if p r then f r else r)"
  using assms by (auto simp: set_upd_where)

lemma in_upd_where_keep: "r \<in> set rs \<Longrightarrow> \<not> p r \<Longrightarrow> r \<in> set (upd_where p f rs)"
  by (force simp: set_upd_where)

lemma in_upd_where_hit: "r \<in> set rs \<Longrightarrow> p r \<Longrightarrow> f r \<in> set (upd_where p f rs)"
  by (force simp: set_upd_where)

lemma upd_where_hits: "r \<in> set rs \<Longrightarrow> p r \<Longrightarrow> Q (f r) \<Longrightarrow> \<exists>x \<in> set (upd_where p f rs). Q x"
  by (blast intro: in_upd_where_hit)

text \<open>A column the update does not write keeps its values, row by row.\<close>

lemma map_upd_where_same: "(\<And>r. g (f r) = g r) \<Longrightarrow> map g (upd_where p f rs) = map g rs"
  by (simp add: upd_where_def)

lemma image_upd_where_same: "(\<And>r. g (f r) = g r) \<Longrightarrow> g ` set (upd_where p f rs) = g ` set rs"
  by (metis list.set_map map_upd_where_same)

lemma map_upd_where_cong:
  "(\<And>r. r \<in> set rs \<Longrightarrow> p r \<Longrightarrow> g (f r) = g r) \<Longrightarrow> map g (upd_where p f rs) = map g rs"
  by (simp add: upd_where_def)

lemma upd_where_none: "(\<And>r. r \<in> set rs \<Longrightarrow> \<not> p r) \<Longrightarrow> upd_where p f rs = rs"
  by (induction rs) auto

lemma filter_upd_where_same:
  "(\<And>r. q (f r) = q r) \<Longrightarrow> filter q (upd_where p f rs) = upd_where p f (filter q rs)"
  by (induction rs) auto

text \<open>The first row that satisfies a condition (\<open>rows[0]\<close> of a select).\<close>

lemma find_SomeD: "find p xs = Some x \<Longrightarrow> x \<in> set xs \<and> p x"
  by (auto simp: find_Some_iff)

lemma find_NoneD: "find p xs = None \<Longrightarrow> x \<in> set xs \<Longrightarrow> \<not> p x"
  by (auto simp: find_None_iff)

lemma distinct_map_eq: "distinct (map f xs) \<Longrightarrow> x \<in> set xs \<Longrightarrow> y \<in> set xs \<Longrightarrow> f x = f y \<Longrightarrow> x = y"
  by (auto simp: distinct_map dest: inj_onD)

text \<open>With a unique key, the row found is the only one.\<close>

lemma find_unique:
  assumes "distinct (map k xs)" and "x \<in> set xs" and "p x" and "\<And>y. p y \<Longrightarrow> k y = k x"
  shows "find p xs = Some x"
proof (cases "find p xs")
  case None
  with assms(2,3) show ?thesis by (auto simp: find_None_iff)
next
  case (Some y)
  then have "y \<in> set xs" "p y" by (auto dest: find_SomeD)
  with assms have "y = x" by (blast intro: distinct_map_eq)
  with Some show ?thesis by simp
qed

lemma find_by_key:
  assumes "distinct (map k xs)" and "\<And>y. p y \<longleftrightarrow> k y = v \<and> q y"
  shows "find p xs = Some x \<longleftrightarrow> x \<in> set xs \<and> k x = v \<and> q x"
proof
  assume "find p xs = Some x"
  then show "x \<in> set xs \<and> k x = v \<and> q x" using assms(2) by (auto dest: find_SomeD)
next
  assume x: "x \<in> set xs \<and> k x = v \<and> q x"
  show "find p xs = Some x" by (rule find_unique [OF assms(1)]) (use x assms(2) in auto)
qed

lemma find_filter_hd: "find p xs = (case filter p xs of [] \<Rightarrow> None | x # _ \<Rightarrow> Some x)"
  by (induction xs) auto

lemma find_app: "find p (xs @ ys) = (case find p xs of None \<Rightarrow> find p ys | Some x \<Rightarrow> Some x)"
  by (induction xs) auto

lemma find_upd_where_same:
  "(\<And>r. p (g r) = p r) \<Longrightarrow> find p xs = Some x \<Longrightarrow> find p (upd_where p g xs) = Some (g x)"
  by (induction xs) (auto split: if_splits)

text \<open>\<open>rows[0]\<close>.\<close>

definition first_row :: "'a list \<Rightarrow> 'a option" where
  "first_row rows = (case rows of [] \<Rightarrow> None | r # _ \<Rightarrow> Some r)"

lemma first_row_filter: "first_row (filter p xs) = find p xs"
  unfolding find_filter_hd first_row_def ..

section \<open>JavaScript strings\<close>

text \<open>
  A JavaScript string is a sequence of UTF-16 code units. The model's \<open>string\<close> holds code
  units below 256 (Isabelle's \<open>char\<close>), which is every string the code itself builds; white
  space and case mapping follow ECMAScript on that range.
\<close>

definition js_space :: "char \<Rightarrow> bool" where
  "js_space c \<longleftrightarrow> (let n = of_char c :: nat in 9 \<le> n \<and> n \<le> 13 \<or> n = 32 \<or> n = 160)"

definition js_trim :: "string \<Rightarrow> string" where
  "js_trim s = rev (dropWhile js_space (rev (dropWhile js_space s)))"

definition js_lower_char :: "char \<Rightarrow> char" where
  "js_lower_char c =
     (let n = of_char c :: nat
      in if 65 \<le> n \<and> n \<le> 90 \<or> 192 \<le> n \<and> n \<le> 214 \<or> 216 \<le> n \<and> n \<le> 222
         then char_of (n + 32) else c)"

definition js_lower :: "string \<Rightarrow> string" where
  "js_lower s = map js_lower_char s"

lemma js_trim_length: "length (js_trim s) \<le> length s"
  unfolding js_trim_def
  by (metis length_dropWhile_le length_rev order_trans)

lemma dropWhile_hd: "dropWhile p xs \<noteq> [] \<Longrightarrow> \<not> p (hd (dropWhile p xs))"
  by (rule hd_dropWhile)

lemma dropWhile_suffix: "suffix (dropWhile p xs) xs"
  by (rule suffix_dropWhile)

lemma dropWhile_eq_selfI: "xs = [] \<or> \<not> p (hd xs) \<Longrightarrow> dropWhile p xs = xs"
  by (cases xs) auto

text \<open>A trimmed string starts and ends with a character that is not white space.\<close>

lemma js_trim_hd: "js_trim s \<noteq> [] \<Longrightarrow> \<not> js_space (hd (js_trim s))"
proof -
  let ?u = "dropWhile js_space s"
  assume ne: "js_trim s \<noteq> []"
  have "suffix (dropWhile js_space (rev ?u)) (rev ?u)" by (rule suffix_dropWhile)
  then have "prefix (js_trim s) ?u"
    by (simp add: js_trim_def suffix_to_prefix)
  then obtain zs where zs: "?u = js_trim s @ zs" by (auto simp: prefix_def)
  with ne have "hd ?u = hd (js_trim s)" by simp
  moreover from zs ne have "?u \<noteq> []" by auto
  ultimately show ?thesis using hd_dropWhile [of js_space s] by simp
qed

lemma js_trim_last: "js_trim s \<noteq> [] \<Longrightarrow> \<not> js_space (last (js_trim s))"
  unfolding js_trim_def by (simp add: last_rev hd_dropWhile)

lemma js_trim_idem: "js_trim (js_trim s) = js_trim s"
proof (cases "js_trim s = []")
  case True
  show ?thesis unfolding True by (simp add: js_trim_def)
next
  case False
  then have "dropWhile js_space (js_trim s) = js_trim s"
    by (intro dropWhile_eq_selfI) (simp add: js_trim_hd)
  moreover from False have "dropWhile js_space (rev (js_trim s)) = rev (js_trim s)"
    by (intro dropWhile_eq_selfI) (simp add: hd_rev js_trim_last)
  ultimately show ?thesis by (simp add: js_trim_def [of "js_trim s"])
qed

text \<open>\<open>String(n)\<close> for a non-negative integer, and \<open>Number.parseInt(s, 10)\<close> on digits.\<close>

definition digit_char :: "nat \<Rightarrow> char" where
  "digit_char d = char_of (48 + d)"

definition is_digit :: "char \<Rightarrow> bool" where
  "is_digit c \<longleftrightarrow> (let n = of_char c :: nat in 48 \<le> n \<and> n \<le> 57)"

definition digit_val :: "char \<Rightarrow> nat" where
  "digit_val c = of_char c - 48"

fun show_nat :: "nat \<Rightarrow> string" where
  "show_nat n = (if n < 10 then [digit_char n] else show_nat (n div 10) @ [digit_char (n mod 10)])"

declare show_nat.simps [simp del]

definition parse_nat :: "string \<Rightarrow> nat" where
  "parse_nat s = foldl (\<lambda>acc c. 10 * acc + digit_val c) 0 s"

lemma digit_val_char [simp]: "d < 10 \<Longrightarrow> digit_val (digit_char d) = d"
  by (simp add: digit_val_def digit_char_def)

lemma is_digit_char [simp]: "d < 10 \<Longrightarrow> is_digit (digit_char d)"
  by (simp add: is_digit_def digit_char_def)

lemma show_nat_digits: "list_all is_digit (show_nat n)"
proof (induction n rule: show_nat.induct)
  case (1 n)
  then show ?case by (simp add: show_nat.simps [of n])
qed

lemma show_nat_ne [simp]: "show_nat n \<noteq> []"
  by (simp add: show_nat.simps [of n])

lemma parse_show_nat [simp]: "parse_nat (show_nat n) = n"
proof (induction n rule: show_nat.induct)
  case (1 n)
  then show ?case
    by (simp add: show_nat.simps [of n] parse_nat_def)
qed

lemma show_nat_inj: "show_nat m = show_nat n \<longleftrightarrow> m = n"
  by (metis parse_show_nat)

text \<open>\<open>xs.join(sep)\<close>.\<close>

fun js_join :: "string \<Rightarrow> string list \<Rightarrow> string" where
  "js_join sep [] = []"
| "js_join sep [x] = x"
| "js_join sep (x # y # ys) = x @ sep @ js_join sep (y # ys)"

text \<open>\<open>Set\<close> of the elements, in first-occurrence order.\<close>

fun js_uniq :: "'a list \<Rightarrow> 'a list" where
  "js_uniq [] = []"
| "js_uniq (x # xs) = x # js_uniq (filter (\<lambda>y. y \<noteq> x) xs)"

lemma set_js_uniq [simp]: "set (js_uniq xs) = set xs"
proof (induction xs rule: length_induct)
  case (1 xs)
  show ?case
  proof (cases xs)
    case (Cons y ys)
    have "length (filter (\<lambda>z. z \<noteq> y) ys) < length xs"
      using Cons by (simp add: le_imp_less_Suc)
    with 1 have "set (js_uniq (filter (\<lambda>z. z \<noteq> y) ys)) = set (filter (\<lambda>z. z \<noteq> y) ys)" by blast
    then show ?thesis using Cons by auto
  qed simp
qed

lemma distinct_js_uniq [simp]: "distinct (js_uniq xs)"
proof (induction xs rule: length_induct)
  case (1 xs)
  show ?case
  proof (cases xs)
    case (Cons y ys)
    have "length (filter (\<lambda>z. z \<noteq> y) ys) < length xs"
      using Cons by (simp add: le_imp_less_Suc)
    with 1 have "distinct (js_uniq (filter (\<lambda>z. z \<noteq> y) ys))" by blast
    then show ?thesis using Cons by auto
  qed simp
qed

text \<open>Whether a pattern occurs in a string (\<open>s.includes(p)\<close>).\<close>

definition js_includes :: "'a list \<Rightarrow> 'a list \<Rightarrow> bool" where
  "js_includes s p \<longleftrightarrow> sublist p s"

end
