(* ===== verification/Identifiers.thy ===== *)
theory Identifiers
  imports Prelude "HOL-Library.Word" "HOL-Library.Multiset"
begin

text \<open>
  The environment of the backend and \<open>src/common/domain/identifiers.ts\<close>: JSON values, their
  canonical order and the canonical digest.

  What the code takes from outside the repository is a field of the record \<open>env\<close>, passed to
  every definition that uses it: the uuid package (\<open>uuid_at n\<close> is the n-th identifier it hands
  out, \<open>uuid_valid\<close> its validator), SHA-256 and random bytes of node:crypto, the collation of
  \<open>localeCompare\<close>, the clock, and the validated configuration of the process.
\<close>

type_synonym byte = "8 word"
type_synonym uuid = string
type_synonym timestamp = int

record env =
  uuid_at :: "nat \<Rightarrow> uuid"
  uuid_valid :: "string \<Rightarrow> bool"
  sha256_hex :: "byte list \<Rightarrow> string"
  random32 :: "nat \<Rightarrow> byte list"
  locale_le :: "string \<Rightarrow> string \<Rightarrow> bool"
  now_ms :: timestamp
  worker_id :: string
  lease_seconds :: int
  workflow_version :: string
  app_environment :: string
  auth_mode :: string

section \<open>JSON values\<close>

text \<open>
  An object is the list of its entries in enumeration order (its keys are property names, never
  array indices, and occur once); the numbers the code stores are integers.
\<close>

datatype json =
    JNull
  | JBool bool
  | JNum int
  | JStr string
  | JArr "json list"
  | JObj "(string \<times> json) list"

definition json_opt :: "('a \<Rightarrow> json) \<Rightarrow> 'a option \<Rightarrow> json" where
  "json_opt f x = (case x of None \<Rightarrow> JNull | Some v \<Rightarrow> f v)"

definition json_get :: "string \<Rightarrow> json \<Rightarrow> json option" where
  "json_get k j = (case j of JObj es \<Rightarrow> map_of es k | _ \<Rightarrow> None)"

text \<open>
  \<open>Object.entries(value).sort(([l], [r]) => l.localeCompare(r))\<close>: a stable sort by the key,
  \<open>le l r\<close> standing for \<open>l.localeCompare(r) <= 0\<close>.
\<close>

fun insert_entry :: "(string \<Rightarrow> string \<Rightarrow> bool) \<Rightarrow> string \<times> 'a \<Rightarrow> (string \<times> 'a) list \<Rightarrow> (string \<times> 'a) list" where
  "insert_entry le x [] = [x]"
| "insert_entry le x (y # ys) =
     (if le (fst x) (fst y) then x # y # ys else y # insert_entry le x ys)"

definition sort_entries :: "(string \<Rightarrow> string \<Rightarrow> bool) \<Rightarrow> (string \<times> 'a) list \<Rightarrow> (string \<times> 'a) list" where
  "sort_entries le es = foldr (insert_entry le) es []"

lemma mset_insert_entry [simp]: "mset (insert_entry le x ys) = add_mset x (mset ys)"
  by (induction ys) auto

lemma mset_sort_entries [simp]: "mset (sort_entries le es) = mset es"
  by (induction es) (auto simp: sort_entries_def)

lemma set_sort_entries [simp]: "set (sort_entries le es) = set es"
  by (metis mset_sort_entries set_mset_mset)

lemma insert_entry_map:
  "insert_entry le (fst x, f (snd x)) (map (\<lambda>(k, v). (k, f v)) ys)
     = map (\<lambda>(k, v). (k, f v)) (insert_entry le x ys)"
  by (induction ys) (auto simp: split_beta)

lemma sort_entries_map:
  "sort_entries le (map (\<lambda>(k, v). (k, f v)) es) = map (\<lambda>(k, v). (k, f v)) (sort_entries le es)"
proof (induction es)
  case Nil
  show ?case by (simp add: sort_entries_def)
next
  case (Cons e es)
  then show ?case
    using insert_entry_map [of le e f "sort_entries le es"]
    by (cases e) (simp add: sort_entries_def)
qed

lemma size_entry_less: "(k, v) \<in> set es \<Longrightarrow> size (v :: json) < Suc (size_list (size_prod (\<lambda>_. 0) size) es)"
  by (induction es) auto

function (sequential) sortJson :: "(string \<Rightarrow> string \<Rightarrow> bool) \<Rightarrow> json \<Rightarrow> json" where
  "sortJson le (JArr vs) = JArr (map (sortJson le) vs)"
| "sortJson le (JObj es) = JObj (map (\<lambda>(k, v). (k, sortJson le v)) (sort_entries le es))"
| "sortJson le v = v"
  by pat_completeness auto
termination
proof (relation "measure (\<lambda>(le, j). size j)", goal_cases)
  case 1
  show ?case by simp
next
  case (2 le vs x)
  then show ?case by (induction vs) auto
next
  case (3 le es x k v)
  then have "(k, v) \<in> set (sort_entries le es)" by simp
  then have "(k, v) \<in> set es" by (simp only: set_sort_entries)
  then show ?case using size_entry_less [of k v es] by simp
qed

subsection \<open>JSON.stringify\<close>

definition hex_digit :: "nat \<Rightarrow> char" where
  "hex_digit d = (if d < 10 then char_of (48 + d) else char_of (87 + d))"

definition escape_char :: "char \<Rightarrow> string" where
  "escape_char c =
     (let n = of_char c :: nat
      in if n = 34 then [CHR 0x5C, CHR 0x22]
         else if n = 92 then [CHR 0x5C, CHR 0x5C]
         else if n = 8 then [CHR 0x5C, CHR ''b'']
         else if n = 9 then [CHR 0x5C, CHR ''t'']
         else if n = 10 then [CHR 0x5C, CHR ''n'']
         else if n = 12 then [CHR 0x5C, CHR ''f'']
         else if n = 13 then [CHR 0x5C, CHR ''r'']
         else if n < 32 then [CHR 0x5C] @ ''u00'' @ [hex_digit (n div 16), hex_digit (n mod 16)]
         else [c])"

definition json_string :: "string \<Rightarrow> string" where
  "json_string s = [CHR 0x22] @ concat (map escape_char s) @ [CHR 0x22]"

definition show_int :: "int \<Rightarrow> string" where
  "show_int i = (if i < 0 then ''-'' @ show_nat (nat (- i)) else show_nat (nat i))"

fun stringify :: "json \<Rightarrow> string" where
  "stringify JNull = ''null''"
| "stringify (JBool b) = (if b then ''true'' else ''false'')"
| "stringify (JNum i) = show_int i"
| "stringify (JStr s) = json_string s"
| "stringify (JArr vs) = ''['' @ js_join '','' (map stringify vs) @ '']''"
| "stringify (JObj es) =
     ''{'' @ js_join '','' (map (\<lambda>(k, v). json_string k @ '':'' @ stringify v) es) @ ''}''"

text \<open>UTF-8, the encoding in which a string is hashed and in which its bytes are counted.\<close>

definition utf8_char :: "char \<Rightarrow> byte list" where
  "utf8_char c =
     (let n = of_char c :: nat
      in if n < 128 then [of_nat n] else [of_nat (192 + n div 64), of_nat (128 + n mod 64)])"

definition utf8 :: "string \<Rightarrow> byte list" where
  "utf8 s = concat (map utf8_char s)"

definition canonicalDigest :: "env \<Rightarrow> json \<Rightarrow> string" where
  "canonicalDigest E v = sha256_hex E (utf8 (stringify (sortJson (locale_le E) v)))"

section \<open>Dates\<close>

text \<open>
  \<open>new Date(ms).toISOString()\<close>: the civil date of a time in milliseconds since the epoch (UTC,
  proleptic Gregorian calendar), four digits of year for the years 0 to 9999 and the signed
  six-digit form outside.
\<close>

definition pad_left :: "nat \<Rightarrow> string \<Rightarrow> string" where
  "pad_left n s = replicate (n - length s) (CHR ''0'') @ s"

definition civil_from_days :: "int \<Rightarrow> int \<times> int \<times> int" where
  "civil_from_days days =
     (let z = days + 719468;
          era = z div 146097;
          doe = z mod 146097;
          yoe = (doe - doe div 1460 + doe div 36524 - doe div 146096) div 365;
          doy = doe - (365 * yoe + yoe div 4 - yoe div 100);
          mp = (5 * doy + 2) div 153;
          d = doy - (153 * mp + 2) div 5 + 1;
          m = (if mp < 10 then mp + 3 else mp - 9)
      in (yoe + era * 400 + (if m \<le> 2 then 1 else 0), m, d))"

definition toISOString :: "timestamp \<Rightarrow> string" where
  "toISOString ms =
     (let (y, m, d) = civil_from_days (ms div 86400000);
          t = ms mod 86400000;
          two = (\<lambda>i. pad_left 2 (show_nat (nat i)));
          year = (if 0 \<le> y \<and> y \<le> 9999 then pad_left 4 (show_nat (nat y))
                  else (if y < 0 then ''-'' else ''+'') @ pad_left 6 (show_nat (nat \<bar>y\<bar>)))
      in year @ ''-'' @ two m @ ''-'' @ two d @ ''T'' @ two (t div 3600000) @ '':'' @
         two (t div 60000 mod 60) @ '':'' @ two (t div 1000 mod 60) @ ''.'' @
         pad_left 3 (show_nat (nat (t mod 1000))) @ ''Z'')"

section \<open>The canonical order does not depend on the order of the keys\<close>

text \<open>
  Two JSON values are the same value written in different orders: equal up to a permutation of
  the entries of every object.
\<close>

inductive json_same :: "json \<Rightarrow> json \<Rightarrow> bool" where
  same_refl: "json_same v v"
| same_arr: "list_all2 json_same us vs \<Longrightarrow> json_same (JArr us) (JArr vs)"
| same_obj: "list_all2 (\<lambda>d e. fst d = fst e \<and> json_same (snd d) (snd e)) ds es \<Longrightarrow>
     mset es = mset fs \<Longrightarrow> distinct (map fst fs) \<Longrightarrow> json_same (JObj ds) (JObj fs)"

text \<open>A collation that orders the keys totally.\<close>

definition total_collation :: "(string \<Rightarrow> string \<Rightarrow> bool) \<Rightarrow> bool" where
  "total_collation le \<longleftrightarrow>
     (\<forall>a b. le a b \<or> le b a) \<and> (\<forall>a b c. le a b \<longrightarrow> le b c \<longrightarrow> le a c) \<and>
     (\<forall>a b. le a b \<longrightarrow> le b a \<longrightarrow> a = b)"

definition sorted_entries :: "(string \<Rightarrow> string \<Rightarrow> bool) \<Rightarrow> (string \<times> 'a) list \<Rightarrow> bool" where
  "sorted_entries le es \<longleftrightarrow> sorted_wrt (\<lambda>a b. le (fst a) (fst b)) es"

lemma set_insert_entry [simp]: "set (insert_entry le x ys) = insert x (set ys)"
  by (induction ys) auto

lemma sorted_insert_entry:
  assumes "total_collation le" and "sorted_entries le ys"
  shows "sorted_entries le (insert_entry le x ys)"
  using assms(2)
proof (induction ys)
  case (Cons y ys)
  have tot: "\<And>a b. le a b \<or> le b a" and tr: "\<And>a b c. le a b \<Longrightarrow> le b c \<Longrightarrow> le a c"
    using assms(1) unfolding total_collation_def by blast+
  from Cons show ?case
    using tot [of "fst x" "fst y"] by (auto simp: sorted_entries_def intro: tr)
qed (simp add: sorted_entries_def)

lemma sorted_sort_entries: "total_collation le \<Longrightarrow> sorted_entries le (sort_entries le es)"
  by (induction es) (simp_all add: sort_entries_def sorted_insert_entry, simp add: sorted_entries_def)

text \<open>Two sorted lists of entries with distinct keys and the same entries are equal.\<close>

lemma sorted_entries_unique:
  assumes tc: "total_collation le"
  shows "sorted_entries le xs \<Longrightarrow> sorted_entries le ys \<Longrightarrow> mset xs = mset ys \<Longrightarrow>
    distinct (map fst xs) \<Longrightarrow> xs = ys"
proof (induction xs arbitrary: ys)
  case Nil
  then show ?case by simp
next
  case (Cons x xs)
  have anti: "\<And>a b. le a b \<Longrightarrow> le b a \<Longrightarrow> a = b"
    using tc unfolding total_collation_def by blast
  from Cons.prems(3) obtain y ys' where ys: "ys = y # ys'" by (cases ys) auto
  have sets: "set (x # xs) = set (y # ys')"
    using Cons.prems(3) ys by (metis set_mset_mset)
  have "x = y"
  proof (rule ccontr)
    assume "x \<noteq> y"
    with sets have "y \<in> set xs" "x \<in> set ys'" by auto
    with Cons.prems(1,2) ys have "le (fst x) (fst y)" "le (fst y) (fst x)"
      by (auto simp: sorted_entries_def)
    then have "fst x = fst y" by (rule anti)
    with \<open>y \<in> set xs\<close> Cons.prems(4) show False by (auto simp: image_iff)
  qed
  with Cons ys show ?case by (auto simp: sorted_entries_def)
qed

lemma distinct_fst_mset: "mset xs = mset ys \<Longrightarrow> distinct (map fst ys) \<Longrightarrow> distinct (map fst xs)"
  by (metis mset_eq_imp_distinct_iff mset_map)

lemma sortJson_same:
  assumes tc: "total_collation le"
  shows "json_same u v \<Longrightarrow> sortJson le u = sortJson le v"
proof (induction rule: json_same.induct)
  case (same_refl v)
  show ?case by simp
next
  case (same_arr us vs)
  then have "map (sortJson le) us = map (sortJson le) vs"
    by (induction rule: list_all2_induct) auto
  then show ?case by simp
next
  case (same_obj ds es fs)
  let ?m = "map (\<lambda>(k, v). (k, sortJson le v))"
  from same_obj(1) have "?m ds = ?m es"
    by (induction rule: list_all2_induct) (auto simp: split_beta)
  moreover have "sort_entries le (?m es) = sort_entries le (?m fs)"
  proof (rule sorted_entries_unique [OF tc])
    show "sorted_entries le (sort_entries le (?m es))" "sorted_entries le (sort_entries le (?m fs))"
      using tc by (simp_all add: sorted_sort_entries)
    have "mset (?m es) = mset (?m fs)" using same_obj(2) by (metis mset_map)
    then show "mset (sort_entries le (?m es)) = mset (sort_entries le (?m fs))" by simp
    have "distinct (map fst (?m fs))" using same_obj(3) by (simp add: comp_def split_beta)
    then show "distinct (map fst (sort_entries le (?m es)))"
      by (rule distinct_fst_mset [rotated]) (use \<open>mset (?m es) = mset (?m fs)\<close> in simp)
  qed
  ultimately have "sort_entries le (?m ds) = sort_entries le (?m fs)" by simp
  then show ?case by (simp add: sort_entries_map)
qed

text \<open>
  \<open>canonicalDigest\<close> depends on the JSON value only: two requests that differ in the order in
  which their object keys are written, at any depth, have the same digest, whatever the hash
  function, as long as the collation orders the keys totally.
\<close>

theorem canonicalDigest_key_order:
  assumes "total_collation (locale_le E)" and "json_same u v"
  shows "canonicalDigest E u = canonicalDigest E v"
  using sortJson_same [OF assms] by (simp add: canonicalDigest_def)

end
