(* ===== verification/Http_Common.thy ===== *)
theory Http_Common
  imports Identifiers
begin

text \<open>
  \<open>src/common\<close>: domain errors and the problem document every failed request ends in, the
  command headers, the correlation identifier, the tenant scope of a request and the object
  keys of a tenant.
\<close>

section \<open>Errors\<close>

record domain_error =
  de_status :: int
  de_code :: string
  de_detail :: string
  de_title :: string
  de_remediation :: "string list"
  de_errors :: "json list"

text \<open>The constructor \<open>new DomainError(options)\<close> with its defaults.\<close>

definition DomainError ::
  "int \<Rightarrow> string \<Rightarrow> string \<Rightarrow> string option \<Rightarrow> string list option \<Rightarrow> json list option \<Rightarrow> domain_error" where
  "DomainError status code detail title remediation errors =
     \<lparr>de_status = status, de_code = code, de_detail = detail,
      de_title = (case title of None \<Rightarrow> ''The command could not be completed'' | Some t \<Rightarrow> t),
      de_remediation = (case remediation of None \<Rightarrow> [] | Some r \<Rightarrow> r),
      de_errors = (case errors of None \<Rightarrow> [] | Some e \<Rightarrow> e)\<rparr>"

text \<open>
  What a method can throw: a \<open>DomainError\<close>, an \<open>HttpException\<close> of the framework (status,
  message, the \<open>message\<close> field of its response when it has one), a constraint violation
  reported by PostgreSQL (the constraint's name), or any other \<open>Error\<close>.
\<close>

datatype exn =
    Domain domain_error
  | HttpException int string "json option"
  | PgError string
  | JsError string

text \<open>\<open>{ field, rule }\<close>, the shape of one violation.\<close>

definition violation :: "(string \<times> string) list \<Rightarrow> json" where
  "violation kvs = JObj (map (\<lambda>(k, v). (k, JStr v)) kvs)"

subsection \<open>ProblemDetailsFilter\<close>

record problem =
  pr_type :: string
  pr_title :: string
  pr_status :: int
  pr_detail :: string
  pr_instance :: string
  pr_code :: string
  pr_trace_id :: string
  pr_errors :: "json list"
  pr_remediation :: "string list"

definition replace_char :: "char \<Rightarrow> char \<Rightarrow> string \<Rightarrow> string" where
  "replace_char a b s = map (\<lambda>c. if c = a then b else c) s"

definition toProblem ::
  "int \<Rightarrow> string \<Rightarrow> string \<Rightarrow> string \<Rightarrow> string \<Rightarrow> string \<Rightarrow> json list \<Rightarrow> string list \<Rightarrow> problem" where
  "toProblem status code title detail inst traceId errors remediation =
     \<lparr>pr_type = ''https://api.aicompanyos.dev/problems/'' @ replace_char (CHR ''_'') (CHR ''-'') code,
      pr_title = title, pr_status = status, pr_detail = detail, pr_instance = inst, pr_code = code,
      pr_trace_id = traceId, pr_errors = errors, pr_remediation = remediation\<rparr>"

text \<open>\<open>String(message)\<close> for the strings a validation pipe reports; other values are not printed.\<close>

definition message_entry :: "json \<Rightarrow> json" where
  "message_entry m = JObj [(''message'', (case m of JStr s \<Rightarrow> JStr s | v \<Rightarrow> JStr (stringify v)))]"

text \<open>
  \<open>catch(exception, host)\<close>: the problem document that is sent. \<open>traceId\<close> is the request's
  correlation identifier, or a new one when the request failed before it had one.
\<close>

definition catch_exception :: "string \<Rightarrow> string \<Rightarrow> exn \<Rightarrow> problem" where
  "catch_exception originalUrl traceId exception =
     (case exception of
        Domain d \<Rightarrow>
          toProblem (de_status d) (de_code d) (de_title d) (de_detail d) originalUrl traceId
            (de_errors d) (de_remediation d)
      | HttpException status message payload \<Rightarrow>
          (let errors = (case payload of Some (JArr ms) \<Rightarrow> map message_entry ms | _ \<Rightarrow> [])
           in toProblem status
                (if status = 400 then ''validation_failed'' else ''http_error'')
                (if status = 400 then ''Request validation failed''
                 else ''The request could not be completed'')
                (if status = 400 then ''One or more request fields are invalid.'' else message)
                originalUrl traceId errors [])
      | _ \<Rightarrow>
          toProblem 500 ''internal_error'' ''The service could not complete the request''
            ''An unexpected error occurred. Retry later or contact support with the trace ID.''
            originalUrl traceId [] [''retry_later'', ''contact_support''])"

section \<open>Command headers\<close>

definition invalid_idempotency_key :: exn where
  "invalid_idempotency_key = Domain (DomainError 400 ''validation_failed''
     ''Provide Idempotency-Key as a UUID.''
     (Some ''A valid idempotency key is required'')
     (Some [''provide_idempotency_key''])
     (Some [violation [(''field'', ''Idempotency-Key''), (''rule'', ''uuid'')]]))"

definition isUuid :: "env \<Rightarrow> string \<Rightarrow> bool" where
  "isUuid E v = uuid_valid E v"

definition requireIdempotencyKey :: "env \<Rightarrow> string option \<Rightarrow> exn + string" where
  "requireIdempotencyKey E value =
     (case value of
        None \<Rightarrow> Inl invalid_idempotency_key
      | Some v \<Rightarrow> if v = [] \<or> \<not> isUuid E v then Inl invalid_idempotency_key else Inr v)"

text \<open>The match of \<open>/^(?:W\/)?"(\d+)"$/\<close>: an optional weakness prefix and a quoted number.\<close>

definition dquote :: char where
  "dquote = CHR 0x22"

definition match_etag :: "string \<Rightarrow> string option" where
  "match_etag v =
     (let u = (if take 2 v = ''W/'' then drop 2 v else v)
      in if 3 \<le> length u \<and> hd u = dquote \<and> last u = dquote \<and> list_all is_digit (butlast (tl u))
         then Some (butlast (tl u)) else None)"

definition precondition_required :: exn where
  "precondition_required = Domain (DomainError 412 ''precondition_required''
     ''Refresh the resource and provide its ETag in If-Match.''
     (Some ''A current resource version is required'')
     (Some [''refresh_resource'', ''retry_command'']) None)"

definition requireEtag :: "string option \<Rightarrow> exn + nat" where
  "requireEtag value =
     (case Option.bind value match_etag of
        None \<Rightarrow> Inl precondition_required
      | Some digits \<Rightarrow> Inr (parse_nat digits))"

definition formatEtag :: "nat \<Rightarrow> string" where
  "formatEtag version = [dquote] @ show_nat version @ [dquote]"

lemma match_etag_quoted: "match_etag ([dquote] @ ds @ [dquote]) = (if ds \<noteq> [] \<and> list_all is_digit ds then Some ds else None)"
  by (cases ds) (auto simp: match_etag_def dquote_def Let_def)

text \<open>
  An ETag the service hands out is read back as the version it was made from, so the
  optimistic concurrency check of a command compares the version the client last saw; and the
  weak form of the same ETag, which proxies produce, is read as the same version.
\<close>

theorem etag_roundtrip:
  "requireEtag (Some (formatEtag v)) = Inr v \<and>
   requireEtag (Some (''W/'' @ formatEtag v)) = Inr v"
proof -
  have m: "match_etag (formatEtag v) = Some (show_nat v)"
    by (simp add: formatEtag_def match_etag_quoted [simplified] show_nat_digits)
  have "match_etag (''W/'' @ formatEtag v) = match_etag (formatEtag v)"
    by (simp add: match_etag_def formatEtag_def dquote_def)
  with m show ?thesis by (simp add: requireEtag_def)
qed

section \<open>The request\<close>

record request_actor =
  ra_id :: uuid
  ra_authSubject :: string
  ra_companyId :: "uuid option"
  ra_sessionId :: uuid

text \<open>\<open>CorrelationMiddleware.use\<close>: the identifier attached to the request and to its response.\<close>

definition correlation_use :: "env \<Rightarrow> nat \<Rightarrow> string option \<Rightarrow> exn + string" where
  "correlation_use E n supplied =
     (case supplied of
        None \<Rightarrow> Inr (uuid_at E n)
      | Some s \<Rightarrow>
          if s \<noteq> [] \<and> \<not> isUuid E s
          then Inl (Domain (DomainError 400 ''validation_failed''
                 ''X-Correlation-Id must be a UUID when provided.''
                 (Some ''The correlation identifier is invalid'') None None))
          else Inr s)"

section \<open>Tenant scope\<close>

definition tenantResourceNotFound :: exn where
  "tenantResourceNotFound = Domain (DomainError 404 ''resource_not_found''
     ''The requested resource does not exist.'' (Some ''Resource not found'') None None)"

definition requireCompanyScope :: "uuid option \<Rightarrow> exn + uuid" where
  "requireCompanyScope companyId =
     (case companyId of
        None \<Rightarrow> Inl tenantResourceNotFound
      | Some c \<Rightarrow> if c = [] then Inl tenantResourceNotFound else Inr c)"

definition companyScopeFromActor :: "request_actor \<Rightarrow> exn + uuid" where
  "companyScopeFromActor actor = requireCompanyScope (ra_companyId actor)"

lemma companyScopeFromActor_Inr:
  "companyScopeFromActor a = Inr c \<longleftrightarrow> ra_companyId a = Some c \<and> c \<noteq> []"
  by (auto simp: companyScopeFromActor_def requireCompanyScope_def split: option.splits if_splits)

section \<open>Object keys\<close>

definition is_hex :: "char \<Rightarrow> bool" where
  "is_hex c \<longleftrightarrow> (let n = of_char c :: nat
     in 48 \<le> n \<and> n \<le> 57 \<or> 65 \<le> n \<and> n \<le> 70 \<or> 97 \<le> n \<and> n \<le> 102)"

text \<open>\<open>[0-9a-f]{8}-[0-9a-f]{4}-[0-9a-f]{4}-[0-9a-f]{4}-[0-9a-f]{12}\<close> under the flag \<open>i\<close>.\<close>

definition uuid_shape :: "string \<Rightarrow> bool" where
  "uuid_shape s \<longleftrightarrow> length s = 36 \<and>
     (\<forall>i \<in> set [0..<36]. if i \<in> set [8, 13, 18, 23] then s ! i = CHR ''-'' else is_hex (s ! i))"

definition is_purpose_char :: "char \<Rightarrow> bool" where
  "is_purpose_char c \<longleftrightarrow> (let n = of_char c :: nat
     in 48 \<le> n \<and> n \<le> 57 \<or> 65 \<le> n \<and> n \<le> 90 \<or> 97 \<le> n \<and> n \<le> 122 \<or> n = 45)"

fun js_split :: "char \<Rightarrow> string \<Rightarrow> string list" where
  "js_split c [] = [[]]"
| "js_split c (x # xs) =
     (if x = c then [] # js_split c xs
      else case js_split c xs of [] \<Rightarrow> [[x]] | p # ps \<Rightarrow> (x # p) # ps)"

definition OBJECT_PURPOSES :: "string list" where
  "OBJECT_PURPOSES = [''quality-fixture'', ''attachment'']"

record object_key_parts =
  ok_companyId :: uuid
  ok_purpose :: string
  ok_objectId :: uuid
  ok_version :: int

definition buildObjectKey :: "object_key_parts \<Rightarrow> exn + string" where
  "buildObjectKey parts =
     (if ok_purpose parts \<notin> set OBJECT_PURPOSES then Inl (JsError ''Unsupported object purpose'')
      else if ok_version parts < 1 then Inl (JsError ''Object version must be a positive integer'')
      else Inr (''companies/'' @ ok_companyId parts @ ''/'' @ ok_purpose parts @ ''/'' @
                ok_objectId parts @ ''/'' @ show_int (ok_version parts)))"

text \<open>
  \<open>OBJECT_KEY_PATTERN.exec\<close>: none of the pattern's groups can hold a slash, so the match is the
  split at the slashes, each part tested against its group.
\<close>

definition parseObjectKey :: "string \<Rightarrow> object_key_parts option" where
  "parseObjectKey objectKey =
     (case js_split (CHR ''/'') objectKey of
        [p, c, purpose, ob, v] \<Rightarrow>
          if js_lower p = ''companies'' \<and> uuid_shape c \<and> purpose \<noteq> [] \<and>
             list_all is_purpose_char purpose \<and> uuid_shape ob \<and> v \<noteq> [] \<and> list_all is_digit v
          then if purpose \<in> set OBJECT_PURPOSES
               then Some \<lparr>ok_companyId = c, ok_purpose = purpose, ok_objectId = ob,
                          ok_version = int (parse_nat v)\<rparr>
               else None
          else None
      | _ \<Rightarrow> None)"

definition authorizeObjectAccess :: "uuid \<Rightarrow> string \<Rightarrow> bool" where
  "authorizeObjectAccess companyId objectKey =
     (case parseObjectKey objectKey of None \<Rightarrow> False | Some p \<Rightarrow> ok_companyId p = companyId)"

lemma js_split_none: "c \<notin> set xs \<Longrightarrow> js_split c xs = [xs]"
  by (induction xs) auto

lemma js_split_append: "c \<notin> set xs \<Longrightarrow> js_split c (xs @ c # ys) = xs # js_split c ys"
  by (induction xs) auto

lemma not_hex_slash: "\<not> is_hex (CHR ''/'')"
  by (simp add: is_hex_def)

lemma uuid_shape_no_slash:
  assumes "uuid_shape s"
  shows "CHR ''/'' \<notin> set s"
proof
  assume "CHR ''/'' \<in> set s"
  then obtain i where i: "i < length s" "s ! i = CHR ''/''" by (auto simp: in_set_conv_nth)
  with assms have "i \<in> set [0..<36]" unfolding uuid_shape_def by simp
  with assms have "if i \<in> set [8, 13, 18, 23] then s ! i = CHR ''-'' else is_hex (s ! i)"
    unfolding uuid_shape_def by blast
  with i(2) not_hex_slash show False by (simp split: if_splits)
qed

lemma digits_no_slash: "list_all is_digit s \<Longrightarrow> CHR ''/'' \<notin> set s"
  by (auto simp: list_all_iff is_digit_def)

lemma show_int_pos: "1 \<le> v \<Longrightarrow> show_int v = show_nat (nat v)"
  by (simp add: show_int_def)

lemma parse_build:
  assumes b: "buildObjectKey p = Inr k"
    and u: "uuid_shape (ok_companyId p)" "uuid_shape (ok_objectId p)"
  shows "parseObjectKey k = Some p"
proof -
  let ?v = "show_nat (nat (ok_version p))"
  from b have pu: "ok_purpose p \<in> set OBJECT_PURPOSES" and v: "1 \<le> ok_version p"
    and k: "k = ''companies'' @ CHR ''/'' # ok_companyId p @ CHR ''/'' # ok_purpose p @ CHR ''/'' #
               ok_objectId p @ CHR ''/'' # ?v"
    by (auto simp: buildObjectKey_def show_int_pos split: if_splits)
  from pu have pc: "ok_purpose p \<noteq> [] \<and> list_all is_purpose_char (ok_purpose p) \<and>
      CHR ''/'' \<notin> set (ok_purpose p)"
    by (auto simp: OBJECT_PURPOSES_def is_purpose_char_def)
  have nc: "CHR ''/'' \<notin> set ''companies''" by simp
  have "js_split (CHR ''/'') k = [''companies'', ok_companyId p, ok_purpose p, ok_objectId p, ?v]"
    unfolding k js_split_append [OF nc] js_split_append [OF uuid_shape_no_slash [OF u(1)]]
      js_split_append [OF pc [THEN conjunct2, THEN conjunct2]]
      js_split_append [OF uuid_shape_no_slash [OF u(2)]]
      js_split_none [OF digits_no_slash [OF show_nat_digits]] by simp
  moreover have "js_lower ''companies'' = ''companies''" by code_simp
  ultimately show ?thesis
    using u pc pu v by (simp add: parseObjectKey_def show_nat_digits)
qed

text \<open>
  Object keys separate tenants. A key built for one company parses back to exactly the parts
  it was built from, and access to it is authorised for that company and for no other one.
\<close>

theorem object_key_isolation:
  assumes "buildObjectKey p = Inr k"
    and "uuid_shape (ok_companyId p)" and "uuid_shape (ok_objectId p)"
  shows "parseObjectKey k = Some p \<and> (authorizeObjectAccess c k \<longleftrightarrow> c = ok_companyId p)"
  using parse_build [OF assms] by (auto simp: authorizeObjectAccess_def)

theorem object_key_isolation_witness:
  "let p = \<lparr>ok_companyId = ''019c0000-0000-7000-8000-00000000000a'', ok_purpose = ''attachment'',
            ok_objectId = ''019C0000-0000-7000-8000-00000000000B'', ok_version = 12\<rparr>
   in parseObjectKey (''companies/019c0000-0000-7000-8000-00000000000a/attachment/'' @
        ''019C0000-0000-7000-8000-00000000000B/12'') = Some p \<and>
      \<not> authorizeObjectAccess ''019c0000-0000-7000-8000-00000000000b''
        (''companies/019c0000-0000-7000-8000-00000000000a/attachment/'' @
        ''019C0000-0000-7000-8000-00000000000B/12'')"
proof -
  define p where "p = \<lparr>ok_companyId = ''019c0000-0000-7000-8000-00000000000a'',
    ok_purpose = ''attachment'', ok_objectId = ''019C0000-0000-7000-8000-00000000000B'',
    ok_version = 12\<rparr>"
  let ?k = "''companies/019c0000-0000-7000-8000-00000000000a/attachment/'' @
        ''019C0000-0000-7000-8000-00000000000B/12''"
  have b: "buildObjectKey p = Inr ?k" unfolding p_def by code_simp
  have u: "uuid_shape (ok_companyId p)" "uuid_shape (ok_objectId p)"
    unfolding p_def by code_simp+
  have "ok_companyId p \<noteq> ''019c0000-0000-7000-8000-00000000000b''" by (simp add: p_def)
  then show ?thesis
    using object_key_isolation [OF b u, of "''019c0000-0000-7000-8000-00000000000b''"]
    unfolding Let_def p_def [symmetric] by auto
qed

text \<open>
  Whatever a handler throws, the problem document carries the request's URL and trace identifier;
  an unexpected error (a constraint violation of the database, a thrown \<open>Error\<close>) is reported as
  the same opaque 500 document.
\<close>

lemma problem_opaque:
  "pr_instance (catch_exception url tr e) = url \<and> pr_trace_id (catch_exception url tr e) = tr \<and>
   catch_exception url tr (PgError c) = catch_exception url tr (JsError m) \<and>
   pr_status (catch_exception url tr (PgError c)) = 500"
  by (auto simp: catch_exception_def toProblem_def Let_def split: exn.split)

end
