(* ===== verification/Schema.thy ===== *)
theory Schema
  imports Http_Common
begin

text \<open>
  The PostgreSQL schema of \<open>src/infrastructure/database/migrations\<close>: one record per table with
  the table's columns, the database as the record of its tables, and one insert per table that
  checks the table's CHECK, UNIQUE and FOREIGN KEY constraints in turn and fails with the name of
  the first one violated, as the server does. Constraints that only say that a JSON column holds
  an array or an object are carried by the types; deferred foreign keys (the "current version"
  pointers) are checked by nobody before commit and are not modelled. An UPDATE is modelled
  without its CHECKs, and the theorems show that the updates of the code never violate them.

  A transaction runs a method and restores the tables when it throws; identifiers already handed
  out and calls already made to the object store are not undone.
\<close>

section \<open>Enumerations\<close>

datatype founder_status = F_ACTIVE | F_DISABLED

datatype company_status = C_ACTIVE | C_DELETING | C_DELETED

datatype initiative_status = I_DRAFT | I_ACTIVE | I_COMPLETED | I_FAILED | I_CANCELED

datatype run_state =
    R_DRAFT | R_QUALIFYING | R_AWAITING_FOUNDER_INPUT | R_AWAITING_BRIEF_APPROVAL
  | R_DESIGNING | R_AWAITING_DESIGN_APPROVAL | R_BUILDING | R_REVIEWING | R_REWORKING
  | R_AWAITING_FINAL_APPROVAL | R_BLOCKED | R_FAILED | R_CANCELED | R_COMPLETED

datatype run_stage = S_INTAKE | S_PRODUCT | S_DESIGN | S_BUILD | S_QA | S_FINAL | S_TERMINAL

datatype task_state =
    T_QUEUED | T_READY | T_RUNNING | T_AWAITING_INPUT | T_RETRY_WAIT
  | T_SUCCEEDED | T_BLOCKED | T_FAILED | T_CANCELED

datatype attempt_status = A_RUNNING | A_SUCCEEDED | A_FAILED | A_ABANDONED

datatype effect_status = E_RUNNING | E_SUCCEEDED | E_UNKNOWN

datatype wait_status = W_OPEN | W_RESOLVED | W_CANCELED | W_EXPIRED

datatype wait_kind =
    WK_CLARIFICATION | WK_BRIEF_APPROVAL | WK_DESIGN_APPROVAL | WK_FINAL_APPROVAL
  | WK_RECOVERY_DECISION

datatype record_state = K_PROCESSING | K_COMPLETED

datatype invite_status = V_PENDING | V_REDEEMED | V_REVOKED | V_EXPIRED

datatype session_status = SS_ACTIVE | SS_REVOKED

datatype object_state = O_STAGED | O_READY | O_DELETED

datatype scan_state = SC_PENDING | SC_CLEAN | SC_REJECTED | SC_QUARANTINED

datatype qualification_result = Qualified | Needs_clarification | Out_of_scope

fun run_state_text :: "run_state \<Rightarrow> string" where
  "run_state_text R_DRAFT = ''DRAFT''"
| "run_state_text R_QUALIFYING = ''QUALIFYING''"
| "run_state_text R_AWAITING_FOUNDER_INPUT = ''AWAITING_FOUNDER_INPUT''"
| "run_state_text R_AWAITING_BRIEF_APPROVAL = ''AWAITING_BRIEF_APPROVAL''"
| "run_state_text R_DESIGNING = ''DESIGNING''"
| "run_state_text R_AWAITING_DESIGN_APPROVAL = ''AWAITING_DESIGN_APPROVAL''"
| "run_state_text R_BUILDING = ''BUILDING''"
| "run_state_text R_REVIEWING = ''REVIEWING''"
| "run_state_text R_REWORKING = ''REWORKING''"
| "run_state_text R_AWAITING_FINAL_APPROVAL = ''AWAITING_FINAL_APPROVAL''"
| "run_state_text R_BLOCKED = ''BLOCKED''"
| "run_state_text R_FAILED = ''FAILED''"
| "run_state_text R_CANCELED = ''CANCELED''"
| "run_state_text R_COMPLETED = ''COMPLETED''"

fun stage_text :: "run_stage \<Rightarrow> string" where
  "stage_text S_INTAKE = ''INTAKE''"
| "stage_text S_PRODUCT = ''PRODUCT''"
| "stage_text S_DESIGN = ''DESIGN''"
| "stage_text S_BUILD = ''BUILD''"
| "stage_text S_QA = ''QA''"
| "stage_text S_FINAL = ''FINAL''"
| "stage_text S_TERMINAL = ''TERMINAL''"

fun task_state_text :: "task_state \<Rightarrow> string" where
  "task_state_text T_QUEUED = ''QUEUED''"
| "task_state_text T_READY = ''READY''"
| "task_state_text T_RUNNING = ''RUNNING''"
| "task_state_text T_AWAITING_INPUT = ''AWAITING_INPUT''"
| "task_state_text T_RETRY_WAIT = ''RETRY_WAIT''"
| "task_state_text T_SUCCEEDED = ''SUCCEEDED''"
| "task_state_text T_BLOCKED = ''BLOCKED''"
| "task_state_text T_FAILED = ''FAILED''"
| "task_state_text T_CANCELED = ''CANCELED''"

fun initiative_status_text :: "initiative_status \<Rightarrow> string" where
  "initiative_status_text I_DRAFT = ''DRAFT''"
| "initiative_status_text I_ACTIVE = ''ACTIVE''"
| "initiative_status_text I_COMPLETED = ''COMPLETED''"
| "initiative_status_text I_FAILED = ''FAILED''"
| "initiative_status_text I_CANCELED = ''CANCELED''"

fun company_status_text :: "company_status \<Rightarrow> string" where
  "company_status_text C_ACTIVE = ''ACTIVE''"
| "company_status_text C_DELETING = ''DELETING''"
| "company_status_text C_DELETED = ''DELETED''"

fun result_text :: "qualification_result \<Rightarrow> string" where
  "result_text Qualified = ''qualified''"
| "result_text Needs_clarification = ''needs_clarification''"
| "result_text Out_of_scope = ''out_of_scope''"

fun scan_state_text :: "scan_state \<Rightarrow> string" where
  "scan_state_text SC_PENDING = ''PENDING''"
| "scan_state_text SC_CLEAN = ''CLEAN''"
| "scan_state_text SC_REJECTED = ''REJECTED''"
| "scan_state_text SC_QUARANTINED = ''QUARANTINED''"

text \<open>\<open>state IN ('CANCELED', 'FAILED', 'COMPLETED')\<close>, the terminal states of a run.\<close>

definition terminal_run :: "run_state \<Rightarrow> bool" where
  "terminal_run st \<longleftrightarrow> st \<in> set [R_CANCELED, R_FAILED, R_COMPLETED]"

section \<open>Rows\<close>

record founder_row =
  fo_id :: uuid
  fo_auth_subject :: string
  fo_display_name :: string
  fo_status :: founder_status
  fo_created_at :: timestamp
  fo_updated_at :: timestamp

record company_row =
  co_id :: uuid
  co_founder_id :: uuid
  co_name :: string
  co_status :: company_status
  co_current_profile_version_id :: "uuid option"
  co_row_version :: nat
  co_created_at :: timestamp
  co_updated_at :: timestamp

record profile_row =
  cp_id :: uuid
  cp_company_id :: uuid
  cp_version :: nat
  cp_purpose :: string
  cp_target_customer :: string
  cp_constraints :: "string list"
  cp_normalized_limits :: json
  cp_acknowledged :: bool
  cp_created_by :: uuid
  cp_created_at :: timestamp

record initiative_row =
  in_id :: uuid
  in_company_id :: uuid
  in_type :: string
  in_title :: string
  in_status :: initiative_status
  in_current_goal_version_id :: "uuid option"
  in_row_version :: nat
  in_created_at :: timestamp
  in_updated_at :: timestamp

record goal_version_row =
  gv_id :: uuid
  gv_company_id :: uuid
  gv_initiative_id :: uuid
  gv_version :: nat
  gv_schema_version :: int
  gv_structured_goal :: json
  gv_attachment_ids :: "uuid list"
  gv_created_by :: uuid
  gv_created_at :: timestamp

record snapshot_row =
  cs_id :: uuid
  cs_company_id :: uuid
  cs_company_profile_version_id :: uuid
  cs_goal_version_id :: uuid
  cs_answer_version_ids :: "uuid list"
  cs_created_at :: timestamp

record run_row =
  r_id :: uuid
  r_company_id :: uuid
  r_initiative_id :: uuid
  r_context_snapshot_id :: uuid
  r_state :: run_state
  r_stage :: run_stage
  r_row_version :: nat
  r_workflow_version :: string
  r_policy_version :: string
  r_blocking_reason_code :: "string option"
  r_failure_reason_code :: "string option"
  r_cancellation_requested_at :: "timestamp option"
  r_created_at :: timestamp
  r_updated_at :: timestamp

record counter_row =
  rc_company_id :: uuid
  rc_run_id :: uuid
  rc_next_sequence :: nat

record employee_row =
  ed_id :: uuid
  ed_employee_key :: string
  ed_version :: nat

record task_row =
  t_id :: uuid
  t_company_id :: uuid
  t_run_id :: uuid
  t_type :: string
  t_owner_employee_definition_id :: "uuid option"
  t_state :: task_state
  t_priority :: int
  t_input_manifest :: json
  t_attempt_count :: nat
  t_row_version :: nat
  t_lease_owner :: "string option"
  t_lease_token :: "uuid option"
  t_lease_expires_at :: "timestamp option"
  t_available_at :: timestamp
  t_blocker_code :: "string option"
  t_created_at :: timestamp
  t_updated_at :: timestamp
  t_completed_at :: "timestamp option"

record attempt_row =
  ta_id :: uuid
  ta_company_id :: uuid
  ta_run_id :: uuid
  ta_task_id :: uuid
  ta_attempt_number :: nat
  ta_idempotency_key :: uuid
  ta_input_manifest :: json
  ta_runtime_manifest :: json
  ta_status :: attempt_status
  ta_result_class :: "string option"
  ta_output_refs :: json
  ta_usage :: json
  ta_started_at :: timestamp
  ta_completed_at :: "timestamp option"

record artifact_row =
  ar_id :: uuid
  ar_company_id :: uuid
  ar_run_id :: uuid
  ar_type :: string
  ar_logical_key :: string
  ar_current_version_id :: "uuid option"
  ar_created_at :: timestamp
  ar_updated_at :: timestamp

record artifact_version_row =
  av_id :: uuid
  av_company_id :: uuid
  av_run_id :: uuid
  av_artifact_id :: uuid
  av_version :: nat
  av_schema_version :: string
  av_content :: json
  av_checksum :: string
  av_size_bytes :: nat
  av_creator_type :: string
  av_creator_version :: string
  av_lineage :: json
  av_lifecycle_state :: string
  av_created_at :: timestamp

record policy_decision_row =
  pd_id :: uuid
  pd_company_id :: uuid
  pd_run_id :: uuid
  pd_task_id :: "uuid option"
  pd_attempt_id :: "uuid option"
  pd_actor_type :: string
  pd_actor_id :: string
  pd_action :: string
  pd_resource_digest :: string
  pd_context_digest :: string
  pd_policy_version :: string
  pd_result :: string
  pd_reason_code :: string
  pd_expires_at :: "timestamp option"
  pd_occurred_at :: timestamp

record budget_row =
  bl_company_id :: uuid
  bl_run_id :: uuid
  bl_category :: string
  bl_hard_limit :: nat
  bl_reserved :: nat
  bl_consumed :: nat

record event_row =
  ev_id :: uuid
  ev_schema_version :: nat
  ev_type :: string
  ev_company_id :: uuid
  ev_run_id :: "uuid option"
  ev_run_sequence :: "nat option"
  ev_actor_type :: string
  ev_actor_id :: string
  ev_actor_version :: "string option"
  ev_correlation_id :: uuid
  ev_causation_id :: "uuid option"
  ev_audience :: string
  ev_data_classification :: string
  ev_payload :: json
  ev_occurred_at :: timestamp

record outbox_row =
  om_id :: uuid
  om_event_id :: uuid
  om_topic :: string
  om_envelope :: json
  om_available_at :: timestamp
  om_lease_owner :: "string option"
  om_lease_token :: "uuid option"
  om_lease_expires_at :: "timestamp option"
  om_published_at :: "timestamp option"
  om_attempts :: nat
  om_created_at :: timestamp

record receipt_row =
  ir_consumer_name :: string
  ir_event_id :: uuid
  ir_processed_at :: "timestamp option"
  ir_result_digest :: "string option"

record idempotency_row =
  ik_id :: uuid
  ik_actor_id :: uuid
  ik_operation :: string
  ik_idempotency_key :: uuid
  ik_request_digest :: string
  ik_state :: record_state
  ik_response_status :: "int option"
  ik_response_body :: "json option"
  ik_created_at :: timestamp
  ik_completed_at :: "timestamp option"
  ik_expires_at :: timestamp

record wait_row =
  hw_id :: uuid
  hw_company_id :: uuid
  hw_run_id :: uuid
  hw_task_id :: uuid
  hw_workflow_version :: string
  hw_wait_kind :: wait_kind
  hw_wait_version :: nat
  hw_request_id :: uuid
  hw_request_version :: nat
  hw_expected_run_state :: run_state
  hw_expected_run_row_version :: nat
  hw_resume_run_state :: run_state
  hw_context_snapshot_id :: uuid
  hw_response_schema_id :: string
  hw_response_schema_version :: string
  hw_reason_codes :: "string list"
  hw_status :: wait_status
  hw_expires_at :: "timestamp option"
  hw_created_at :: timestamp
  hw_resolved_at :: "timestamp option"
  hw_resolved_by_command_id :: "uuid option"
  hw_resolved_by_event_id :: "uuid option"
  hw_continuation_task_id :: "uuid option"

record answer_row =
  ca_id :: uuid
  ca_company_id :: uuid
  ca_run_id :: uuid
  ca_wait_id :: uuid
  ca_version :: nat
  ca_request_id :: uuid
  ca_request_version :: nat
  ca_source_context_snapshot_id :: uuid
  ca_response_schema_id :: string
  ca_response_schema_version :: string
  ca_content :: json
  ca_content_digest :: string
  ca_created_by :: uuid
  ca_created_at :: timestamp

record snapshot_answer_row =
  sa_company_id :: uuid
  sa_context_snapshot_id :: uuid
  sa_answer_version_id :: uuid
  sa_ordinal :: nat

record projection_row =
  lp_consumer_name :: string
  lp_event_id :: uuid
  lp_projection_key :: string
  lp_result_digest :: string

record effect_row =
  me_effect_key :: string
  me_company_id :: uuid
  me_run_id :: uuid
  me_task_id :: uuid
  me_attempt_id :: uuid
  me_provider :: string
  me_status :: effect_status
  me_invocation_count :: nat
  me_output_digest :: "string option"
  me_usage :: json
  me_completed_at :: "timestamp option"

record invite_row =
  fi_id :: uuid
  fi_email :: string
  fi_display_name :: string
  fi_token_hash :: string
  fi_status :: invite_status
  fi_expires_at :: timestamp
  fi_session_ttl_seconds :: int
  fi_redeemed_founder_id :: "uuid option"
  fi_updated_at :: timestamp

record session_row =
  fs_id :: uuid
  fs_founder_id :: uuid
  fs_status :: session_status
  fs_expires_at :: timestamp
  fs_revoked_at :: "timestamp option"

record object_row =
  ob_id :: uuid
  ob_company_id :: uuid
  ob_purpose :: string
  ob_object_key :: string
  ob_checksum_sha256 :: string
  ob_size_bytes :: nat
  ob_version :: nat
  ob_lifecycle_state :: object_state
  ob_created_at :: timestamp
  ob_deleted_at :: "timestamp option"
  ob_declared_media_type :: "string option"
  ob_detected_media_type :: "string option"
  ob_original_filename :: "string option"
  ob_scan_state :: scan_state
  ob_expires_at :: "timestamp option"

record goal_attachment_row =
  ga_company_id :: uuid
  ga_goal_version_id :: uuid
  ga_object_id :: uuid
  ga_ordinal :: nat

record grant_row =
  rg_id :: uuid
  rg_company_id :: uuid
  rg_object_id :: uuid
  rg_run_id :: uuid
  rg_expires_at :: timestamp
  rg_consumed_at :: "timestamp option"

record qualification_row =
  gq_id :: uuid
  gq_company_id :: uuid
  gq_initiative_id :: uuid
  gq_goal_version_id :: uuid
  gq_run_id :: "uuid option"
  gq_result :: qualification_result
  gq_reason_codes :: "string list"
  gq_explanation :: string
  gq_proposal :: "string option"
  gq_clarification_questions :: "json list"
  gq_screen_estimate :: int
  gq_policy_version :: string

section \<open>The database and the state of the backend\<close>

record db =
  founders :: "founder_row list"
  companies :: "company_row list"
  company_profile_versions :: "profile_row list"
  initiatives :: "initiative_row list"
  goal_versions :: "goal_version_row list"
  context_snapshots :: "snapshot_row list"
  runs :: "run_row list"
  run_event_counters :: "counter_row list"
  employee_definitions :: "employee_row list"
  tasks :: "task_row list"
  task_attempts :: "attempt_row list"
  artifacts :: "artifact_row list"
  artifact_versions :: "artifact_version_row list"
  policy_decisions :: "policy_decision_row list"
  budget_ledgers :: "budget_row list"
  events :: "event_row list"
  outbox_messages :: "outbox_row list"
  inbox_receipts :: "receipt_row list"
  idempotency_records :: "idempotency_row list"
  human_waits :: "wait_row list"
  clarification_answer_versions :: "answer_row list"
  context_snapshot_answers :: "snapshot_answer_row list"
  local_event_projections :: "projection_row list"
  model_invocation_effects :: "effect_row list"
  founder_invites :: "invite_row list"
  founder_sessions :: "session_row list"
  object_records :: "object_row list"
  goal_version_attachments :: "goal_attachment_row list"
  attachment_retrieval_grants :: "grant_row list"
  goal_qualifications :: "qualification_row list"

datatype store_operation = Put | Get | Head | Delete

text \<open>
  The state of the backend: the database, the number of identifiers handed out, and the object
  store (its objects and the calls made to it).
\<close>

record sys =
  sys_db :: db
  sys_next :: nat
  sys_objects :: "string \<rightharpoonup> byte list"
  sys_calls :: "(store_operation \<times> string) list"

type_synonym 'a call = "(exn, sys, 'a) tx"

text \<open>The rows the first migration inserts: the four employee definitions.\<close>

definition seeded_employees :: "employee_row list" where
  "seeded_employees =
     [\<lparr>ed_id = ''019c0000-0000-7000-8000-000000000001'', ed_employee_key = ''EMP-PM'', ed_version = 1\<rparr>,
      \<lparr>ed_id = ''019c0000-0000-7000-8000-000000000002'', ed_employee_key = ''EMP-DES'', ed_version = 1\<rparr>,
      \<lparr>ed_id = ''019c0000-0000-7000-8000-000000000003'', ed_employee_key = ''EMP-ENG'', ed_version = 1\<rparr>,
      \<lparr>ed_id = ''019c0000-0000-7000-8000-000000000004'', ed_employee_key = ''EMP-QA'', ed_version = 1\<rparr>]"

definition empty_db :: db where
  "empty_db = \<lparr>founders = [], companies = [], company_profile_versions = [], initiatives = [],
     goal_versions = [], context_snapshots = [], runs = [], run_event_counters = [],
     employee_definitions = seeded_employees, tasks = [], task_attempts = [], artifacts = [],
     artifact_versions = [], policy_decisions = [], budget_ledgers = [], events = [],
     outbox_messages = [], inbox_receipts = [], idempotency_records = [], human_waits = [],
     clarification_answer_versions = [], context_snapshot_answers = [],
     local_event_projections = [], model_invocation_effects = [], founder_invites = [],
     founder_sessions = [], object_records = [], goal_version_attachments = [],
     attachment_retrieval_grants = [], goal_qualifications = []\<rparr>"

definition initial_sys :: sys where
  "initial_sys = \<lparr>sys_db = empty_db, sys_next = 0, sys_objects = Map.empty, sys_calls = []\<rparr>"

section \<open>Queries, updates and transactions\<close>

definition query :: "(db \<Rightarrow> 'a) \<Rightarrow> 'a call" where
  "query f = tx_gets (\<lambda>s. f (sys_db s))"

definition execute :: "(db \<Rightarrow> db) \<Rightarrow> unit call" where
  "execute f = tx_modify (\<lambda>s. s\<lparr>sys_db := f (sys_db s)\<rparr>)"

text \<open>\<open>INSERT\<close>: the constraints are tested in order, then the row is added.\<close>

definition insert_row :: "(string \<times> (db \<Rightarrow> bool)) list \<Rightarrow> (db \<Rightarrow> db) \<Rightarrow> unit call" where
  "insert_row checks upd s =
     (case find (\<lambda>(name, ok). \<not> ok (sys_db s)) checks of
        Some (name, _) \<Rightarrow> (Inl (PgError name), s)
      | None \<Rightarrow> (Inr (), s\<lparr>sys_db := upd (sys_db s)\<rparr>))"

definition transaction :: "'a call \<Rightarrow> 'a call" where
  "transaction m s =
     (case m s of
        (Inl e, s') \<Rightarrow> (Inl e, s'\<lparr>sys_db := sys_db s\<rparr>)
      | (Inr x, s') \<Rightarrow> (Inr x, s'))"

definition newId :: "env \<Rightarrow> uuid call" where
  "newId E s = (Inr (uuid_at E (sys_next s)), s\<lparr>sys_next := Suc (sys_next s)\<rparr>)"

lemma query_apply [tx_simps]: "query f s = (Inr (f (sys_db s)), s)"
  by (simp add: query_def tx_gets_def)

lemma execute_apply [tx_simps]: "execute f s = (Inr (), s\<lparr>sys_db := f (sys_db s)\<rparr>)"
  by (simp add: execute_def tx_modify_def)

lemma newId_apply [tx_simps]:
  "newId E s = (Inr (uuid_at E (sys_next s)), s\<lparr>sys_next := Suc (sys_next s)\<rparr>)"
  by (simp add: newId_def)

lemma query_InrE:
  assumes "query f s = (Inr y, t)"
  obtains "y = f (sys_db s)" and "t = s"
  using assms unfolding query_apply prod.inject sum.inject by blast

lemma execute_InrE:
  assumes "execute f s = (Inr y, t)"
  obtains "t = s\<lparr>sys_db := f (sys_db s)\<rparr>"
  using assms by (simp add: execute_apply)

lemma newId_InrE:
  assumes "newId E s = (Inr y, t)"
  obtains "y = uuid_at E (sys_next s)" and "t = s\<lparr>sys_next := Suc (sys_next s)\<rparr>"
  using assms unfolding newId_apply prod.inject sum.inject by blast

lemma find_violated_None:
  "find (\<lambda>(name, ok). \<not> ok d) checks = None \<longleftrightarrow> (\<forall>c \<in> set checks. snd c d)"
  unfolding find_None_iff case_prod_beta by blast

lemma insert_row_ok [tx_simps]:
  "\<forall>c \<in> set checks. snd c (sys_db s) \<Longrightarrow>
    insert_row checks upd s = (Inr (), s\<lparr>sys_db := upd (sys_db s)\<rparr>)"
  unfolding find_violated_None [symmetric] by (simp add: insert_row_def)

lemma insert_row_cases:
  obtains (ok) "insert_row checks upd s = (Inr (), s\<lparr>sys_db := upd (sys_db s)\<rparr>)"
    "\<forall>c \<in> set checks. snd c (sys_db s)"
  | (violated) n where "insert_row checks upd s = (Inl (PgError n), s)"
proof (cases "find (\<lambda>(name, ok). \<not> ok (sys_db s)) checks")
  case None
  then have "\<forall>c \<in> set checks. snd c (sys_db s)" by (simp only: find_violated_None)
  then show ?thesis using ok insert_row_ok by blast
next
  case (Some p)
  then show ?thesis using violated by (cases p) (simp add: insert_row_def)
qed

lemma insert_row_InrE:
  assumes "insert_row checks upd s = (Inr y, t)"
  obtains "\<forall>c \<in> set checks. snd c (sys_db s)" and "t = s\<lparr>sys_db := upd (sys_db s)\<rparr>"
  using assms by (cases rule: insert_row_cases [of checks upd s]) simp_all

lemma transaction_Inr: "transaction m s = (Inr x, t) \<longleftrightarrow> m s = (Inr x, t)"
  by (auto simp: transaction_def split: prod.splits sum.splits)

lemma transaction_Inl:
  "transaction m s = (Inl e, t) \<Longrightarrow> sys_db t = sys_db s"
  by (auto simp: transaction_def split: prod.splits sum.splits)

lemma transaction_InrE:
  assumes "transaction m s = (Inr x, t)"
  obtains "m s = (Inr x, t)"
  using assms by (simp add: transaction_Inr)

lemmas db_elims = tx_elims query_InrE execute_InrE newId_InrE insert_row_InrE transaction_InrE

subsection \<open>Invariants of the database\<close>

text \<open>\<open>db_keeps I m\<close>: the method keeps the property \<open>I\<close> of the tables.\<close>

definition db_keeps :: "(db \<Rightarrow> bool) \<Rightarrow> 'a call \<Rightarrow> bool" where
  "db_keeps I m = keeps (\<lambda>s. I (sys_db s)) m"

lemma db_keepsI: "(\<And>s. I (sys_db s) \<Longrightarrow> I (sys_db (snd (m s)))) \<Longrightarrow> db_keeps I m"
  by (simp add: db_keeps_def keeps_def)

lemma db_keepsD: "db_keeps I m \<Longrightarrow> I (sys_db s) \<Longrightarrow> m s = (r, t) \<Longrightarrow> I (sys_db t)"
  by (auto simp: db_keeps_def dest: keepsD)

lemma db_keeps_query [keeps_intros]: "db_keeps I (query f)"
  by (simp add: db_keeps_def query_def keeps_gets)

lemma db_keeps_newId [keeps_intros]: "db_keeps I (newId E)"
  by (simp add: db_keeps_def keeps_def newId_def)

lemma db_keeps_execute: "(\<And>d. I d \<Longrightarrow> I (f d)) \<Longrightarrow> db_keeps I (execute f)"
  by (simp add: db_keeps_def keeps_def execute_apply)

lemma db_keeps_insert:
  "(\<And>d. I d \<Longrightarrow> \<forall>c \<in> set checks. snd c d \<Longrightarrow> I (upd d)) \<Longrightarrow> db_keeps I (insert_row checks upd)"
proof (rule db_keepsI)
  fix s :: sys
  assume "\<And>d. I d \<Longrightarrow> \<forall>c \<in> set checks. snd c d \<Longrightarrow> I (upd d)" and "I (sys_db s)"
  then show "I (sys_db (snd (insert_row checks upd s)))"
    by (cases rule: insert_row_cases [of checks upd s]) simp_all
qed

lemma db_keeps_transaction [keeps_intros]: "db_keeps I m \<Longrightarrow> db_keeps I (transaction m)"
  by (fastforce simp: db_keeps_def keeps_def transaction_def split: prod.splits sum.splits)

lemma db_keeps_combinators [keeps_intros]:
  "db_keeps I (tx_return x)" "db_keeps I (tx_throw e)" "db_keeps I (tx_lift r)"
  "db_keeps I (tx_require e q)"
  "db_keeps I m \<Longrightarrow> (\<And>x. db_keeps I (f x)) \<Longrightarrow> db_keeps I (tx_bind m f)"
  "db_keeps I m \<Longrightarrow> db_keeps I k \<Longrightarrow> db_keeps I (tx_then m k)"
  "(b \<Longrightarrow> db_keeps I u) \<Longrightarrow> db_keeps I (tx_when b u)"
  "(\<And>v. v \<in> set ms \<Longrightarrow> db_keeps I v) \<Longrightarrow> db_keeps I (tx_seq ms)"
  "db_keeps I m \<Longrightarrow> (\<And>e. db_keeps I (h e)) \<Longrightarrow> db_keeps I (tx_catch m h)"
  unfolding db_keeps_def by (intro keeps_intros; assumption)+

lemma db_keeps_branches [keeps_intros]:
  "(b \<Longrightarrow> db_keeps I m) \<Longrightarrow> (\<not> b \<Longrightarrow> db_keeps I k) \<Longrightarrow> db_keeps I (if b then m else k)"
  "(r = None \<Longrightarrow> db_keeps I m) \<Longrightarrow> (\<And>x. r = Some x \<Longrightarrow> db_keeps I (f x)) \<Longrightarrow>
    db_keeps I (case r of None \<Rightarrow> m | Some x \<Rightarrow> f x)"
  "(\<And>e. q = Inl e \<Longrightarrow> db_keeps I (g e)) \<Longrightarrow> (\<And>y. q = Inr y \<Longrightarrow> db_keeps I (h y)) \<Longrightarrow>
    db_keeps I (case q of Inl e \<Rightarrow> g e | Inr y \<Rightarrow> h y)"
  "(\<And>y z. p = (y, z) \<Longrightarrow> db_keeps I (w y z)) \<Longrightarrow> db_keeps I (case p of (y, z) \<Rightarrow> w y z)"
  by (simp_all split: option.split sum.split prod.split)

lemma db_keeps_conj: "db_keeps I m \<Longrightarrow> db_keeps J m \<Longrightarrow> db_keeps (\<lambda>d. I d \<and> J d) m"
  by (simp add: db_keeps_def keeps_def)

text \<open>
  \<open>commits I m\<close>: a body that returns normally leaves \<open>I\<close> true. A body may break \<open>I\<close> on the way
  (an event is inserted before its outbox message) and throw there; the transaction around it
  then restores the tables, so a transaction over such a body keeps \<open>I\<close> whatever happens.
\<close>

named_theorems commits_intros \<open>rules that carry an invariant to the end of a transaction body\<close>

definition commits :: "(db \<Rightarrow> bool) \<Rightarrow> 'a call \<Rightarrow> bool" where
  "commits I m \<longleftrightarrow> (\<forall>s x t. I (sys_db s) \<longrightarrow> m s = (Inr x, t) \<longrightarrow> I (sys_db t))"

lemma commitsI: "(\<And>s x t. I (sys_db s) \<Longrightarrow> m s = (Inr x, t) \<Longrightarrow> I (sys_db t)) \<Longrightarrow> commits I m"
  by (simp add: commits_def)

lemma commitsD: "commits I m \<Longrightarrow> I (sys_db s) \<Longrightarrow> m s = (Inr x, t) \<Longrightarrow> I (sys_db t)"
  by (simp add: commits_def)

lemma db_keeps_commits: "db_keeps I m \<Longrightarrow> commits I m"
  by (auto intro: commitsI dest: db_keepsD)

lemma commits_conj: "commits I m \<Longrightarrow> commits J m \<Longrightarrow> commits (\<lambda>d. I d \<and> J d) m"
  unfolding commits_def by blast

lemma commits_transaction: "commits I m \<Longrightarrow> db_keeps I (transaction m)"
proof (rule db_keepsI)
  fix s :: sys
  assume c: "commits I m" and I: "I (sys_db s)"
  obtain r t where "m s = (r, t)" by (cases "m s")
  then show "I (sys_db (snd (transaction m s)))"
    using c I by (cases r) (auto simp: transaction_def dest: commitsD)
qed

lemma commits_return [commits_intros]: "commits I (tx_return x)"
  by (rule commitsI) (simp add: tx_return_def)

lemma commits_throw [commits_intros]: "commits I (tx_throw e)"
  by (rule commitsI) (simp add: tx_throw_def)

lemma commits_lift [commits_intros]: "commits I (tx_lift r)"
  by (rule commitsI) (simp add: tx_lift_def)

lemma commits_require [commits_intros]: "commits I (tx_require e r)"
  by (rule commitsI) (auto elim: tx_require_InrE)

lemma commits_query [commits_intros]: "commits I (query f)"
  by (rule commitsI) (simp add: query_apply)

lemma commits_newId [commits_intros]: "commits I (newId E)"
  by (rule commitsI) (auto simp: newId_apply)

lemma commits_execute: "(\<And>d. I d \<Longrightarrow> I (f d)) \<Longrightarrow> commits I (execute f)"
  by (rule db_keeps_commits) (rule db_keeps_execute)

lemma commits_insert:
  "(\<And>d. I d \<Longrightarrow> \<forall>c \<in> set checks. snd c d \<Longrightarrow> I (upd d)) \<Longrightarrow> commits I (insert_row checks upd)"
  by (rule db_keeps_commits) (rule db_keeps_insert)

lemma commits_bind [commits_intros]:
  "commits I m \<Longrightarrow> (\<And>x. commits I (f x)) \<Longrightarrow> commits I (tx_bind m f)"
  unfolding commits_def by (blast elim: tx_bind_InrE)

lemma commits_then [commits_intros]: "commits I m \<Longrightarrow> commits I k \<Longrightarrow> commits I (tx_then m k)"
  by (simp add: tx_then_def commits_bind)

lemma commits_when [commits_intros]: "(b \<Longrightarrow> commits I m) \<Longrightarrow> commits I (tx_when b m)"
  by (simp add: tx_when_def commits_return)

lemma commits_seq [commits_intros]: "(\<And>m. m \<in> set ms \<Longrightarrow> commits I m) \<Longrightarrow> commits I (tx_seq ms)"
  by (induction ms) (auto intro: commits_intros)

lemma commits_if [commits_intros]:
  "(b \<Longrightarrow> commits I m) \<Longrightarrow> (\<not> b \<Longrightarrow> commits I k) \<Longrightarrow> commits I (if b then m else k)"
  by simp

lemma commits_case_option [commits_intros]:
  "(r = None \<Longrightarrow> commits I m) \<Longrightarrow> (\<And>x. r = Some x \<Longrightarrow> commits I (k x)) \<Longrightarrow>
    commits I (case r of None \<Rightarrow> m | Some x \<Rightarrow> k x)"
  by (cases r) auto

lemma commits_case_sum [commits_intros]:
  "(\<And>e. r = Inl e \<Longrightarrow> commits I (m e)) \<Longrightarrow> (\<And>x. r = Inr x \<Longrightarrow> commits I (k x)) \<Longrightarrow>
    commits I (case r of Inl e \<Rightarrow> m e | Inr x \<Rightarrow> k x)"
  by (cases r) auto

lemma commits_case_prod [commits_intros]:
  "(\<And>x y. p = (x, y) \<Longrightarrow> commits I (m x y)) \<Longrightarrow> commits I (case p of (x, y) \<Rightarrow> m x y)"
  by (cases p) auto

lemma commits_let [commits_intros]: "commits I (f x) \<Longrightarrow> commits I (let y = x in f y)"
  by simp

text \<open>A method that leaves a part of the database alone.\<close>

definition untouched :: "(db \<Rightarrow> 'c) \<Rightarrow> 'a call \<Rightarrow> bool" where
  "untouched f m \<longleftrightarrow> (\<forall>c. db_keeps (\<lambda>d. f d = c) m)"

lemma untouchedD: "untouched f m \<Longrightarrow> m s = (r, t) \<Longrightarrow> f (sys_db t) = f (sys_db s)"
  by (auto simp: untouched_def dest: db_keepsD)

end
