(* ===== verification/Tables.thy ===== *)
theory Tables
  imports Schema
begin

text \<open>
  One insert per table, with the constraints of the CREATE TABLE statement (and of the unique
  indexes declared beside it) in the order in which the server tests them: CHECK, then UNIQUE,
  then FOREIGN KEY. A row is built by the caller; columns with a default are filled there.
\<close>

text \<open>No row has the key; some row satisfies the condition.\<close>

definition absent :: "('r \<Rightarrow> 'k) \<Rightarrow> 'k \<Rightarrow> 'r list \<Rightarrow> bool" where
  "absent key k rs \<longleftrightarrow> (\<forall>r \<in> set rs. key r \<noteq> k)"

definition present :: "('r \<Rightarrow> 'k) \<Rightarrow> 'k \<Rightarrow> 'r list \<Rightarrow> bool" where
  "present key k rs \<longleftrightarrow> (\<exists>r \<in> set rs. key r = k)"

definition between :: "nat \<Rightarrow> nat \<Rightarrow> 'a list \<Rightarrow> bool" where
  "between lo hi s \<longleftrightarrow> lo \<le> length s \<and> length s \<le> hi"

lemma absent_image: "absent key k rs \<longleftrightarrow> k \<notin> key ` set rs"
  by (auto simp: absent_def)

lemma present_image: "present key k rs \<longleftrightarrow> k \<in> key ` set rs"
  by (auto simp: present_def)

lemma absent_distinct: "distinct (map key rs) \<Longrightarrow> absent key (key r) rs \<Longrightarrow> distinct (map key (rs @ [r]))"
  by (auto simp: absent_def)

text \<open>An update that keeps a key keeps the references to it.\<close>

lemma present_upd_where:
  "(\<And>r. key (f r) = key r) \<Longrightarrow> present key k (upd_where p f rs) = present key k rs"
  unfolding present_def by (metis (no_types, lifting) image_iff image_upd_where_same)

text \<open>\<open>ORDER BY key LIMIT 1\<close>: the first row with the least key.\<close>

definition order_limit_1 :: "('a \<Rightarrow> 'k :: linorder) \<Rightarrow> 'a list \<Rightarrow> 'a option" where
  "order_limit_1 key xs = (if xs = [] then None else Some (arg_min_list key xs))"

lemma arg_min_list_le: "xs \<noteq> [] \<Longrightarrow> x \<in> set xs \<Longrightarrow> f (arg_min_list f xs) \<le> f x"
  by (simp add: f_arg_min_list_f)

lemma order_limit_1_Some:
  "order_limit_1 key xs = Some x \<Longrightarrow> x \<in> set xs \<and> (\<forall>y \<in> set xs. key x \<le> key y)"
  by (auto simp: order_limit_1_def arg_min_list_in arg_min_list_le split: if_splits)

lemma order_limit_1_None [simp]: "order_limit_1 key xs = None \<longleftrightarrow> xs = []"
  by (simp add: order_limit_1_def)

section \<open>Tenants and their profiles\<close>

definition insert_founder :: "founder_row \<Rightarrow> unit call" where
  "insert_founder r = insert_row
     [(''founders_pkey'', \<lambda>d. absent fo_id (fo_id r) (founders d)),
      (''founders_auth_subject_key'', \<lambda>d. absent fo_auth_subject (fo_auth_subject r) (founders d))]
     (\<lambda>d. d\<lparr>founders := founders d @ [r]\<rparr>)"

definition insert_company :: "company_row \<Rightarrow> unit call" where
  "insert_company r = insert_row
     [(''companies_name_check'', \<lambda>d. between 2 120 (co_name r)),
      (''companies_pkey'', \<lambda>d. absent co_id (co_id r) (companies d)),
      (''companies_founder_id_key'', \<lambda>d. absent co_founder_id (co_founder_id r) (companies d)),
      (''companies_founder_id_fkey'', \<lambda>d. present fo_id (co_founder_id r) (founders d))]
     (\<lambda>d. d\<lparr>companies := companies d @ [r]\<rparr>)"

definition insert_profile :: "profile_row \<Rightarrow> unit call" where
  "insert_profile r = insert_row
     [(''company_profile_versions_version_check'', \<lambda>d. 0 < cp_version r),
      (''company_profile_versions_purpose_check'', \<lambda>d. between 10 1000 (cp_purpose r)),
      (''company_profile_versions_target_customer_check'', \<lambda>d. between 3 500 (cp_target_customer r)),
      (''company_profile_versions_pkey'', \<lambda>d. absent cp_id (cp_id r) (company_profile_versions d)),
      (''company_profile_versions_company_id_version_key'',
        \<lambda>d. absent (\<lambda>x. (cp_company_id x, cp_version x)) (cp_company_id r, cp_version r)
              (company_profile_versions d)),
      (''company_profile_versions_company_id_fkey'', \<lambda>d. present co_id (cp_company_id r) (companies d)),
      (''company_profile_versions_created_by_fkey'', \<lambda>d. present fo_id (cp_created_by r) (founders d))]
     (\<lambda>d. d\<lparr>company_profile_versions := company_profile_versions d @ [r]\<rparr>)"

section \<open>Initiatives, goals and runs\<close>

text \<open>The partial unique index \<open>initiatives_one_active_prototype\<close> covers the rows it selects.\<close>

definition active_prototype :: "initiative_row \<Rightarrow> bool" where
  "active_prototype r \<longleftrightarrow> in_type r = ''PROTOTYPE'' \<and> in_status r \<in> set [I_DRAFT, I_ACTIVE]"

definition insert_initiative :: "initiative_row \<Rightarrow> unit call" where
  "insert_initiative r = insert_row
     [(''initiatives_type_check'', \<lambda>d. in_type r = ''PROTOTYPE''),
      (''initiatives_title_check'', \<lambda>d. between 3 160 (in_title r)),
      (''initiatives_pkey'', \<lambda>d. absent in_id (in_id r) (initiatives d)),
      (''initiatives_one_active_prototype'',
        \<lambda>d. active_prototype r \<longrightarrow> absent in_company_id (in_company_id r) (filter active_prototype (initiatives d))),
      (''initiatives_company_id_fkey'', \<lambda>d. present co_id (in_company_id r) (companies d))]
     (\<lambda>d. d\<lparr>initiatives := initiatives d @ [r]\<rparr>)"

definition insert_goal_version :: "goal_version_row \<Rightarrow> unit call" where
  "insert_goal_version r = insert_row
     [(''goal_versions_version_check'', \<lambda>d. 0 < gv_version r),
      (''goal_versions_schema_version_check'', \<lambda>d. gv_schema_version r = 1),
      (''goal_versions_pkey'', \<lambda>d. absent gv_id (gv_id r) (goal_versions d)),
      (''goal_versions_initiative_id_version_key'',
        \<lambda>d. absent (\<lambda>x. (gv_initiative_id x, gv_version x)) (gv_initiative_id r, gv_version r)
              (goal_versions d)),
      (''goal_versions_created_by_fkey'', \<lambda>d. present fo_id (gv_created_by r) (founders d)),
      (''goal_versions_company_id_initiative_id_fkey'',
        \<lambda>d. present (\<lambda>x. (in_company_id x, in_id x)) (gv_company_id r, gv_initiative_id r) (initiatives d))]
     (\<lambda>d. d\<lparr>goal_versions := goal_versions d @ [r]\<rparr>)"

definition insert_snapshot :: "snapshot_row \<Rightarrow> unit call" where
  "insert_snapshot r = insert_row
     [(''context_snapshots_pkey'', \<lambda>d. absent cs_id (cs_id r) (context_snapshots d)),
      (''context_snapshots_company_id_company_profile_version_id_fkey'',
        \<lambda>d. present (\<lambda>x. (cp_company_id x, cp_id x)) (cs_company_id r, cs_company_profile_version_id r)
              (company_profile_versions d)),
      (''context_snapshots_company_id_goal_version_id_fkey'',
        \<lambda>d. present (\<lambda>x. (gv_company_id x, gv_id x)) (cs_company_id r, cs_goal_version_id r) (goal_versions d))]
     (\<lambda>d. d\<lparr>context_snapshots := context_snapshots d @ [r]\<rparr>)"

definition insert_run :: "run_row \<Rightarrow> unit call" where
  "insert_run r = insert_row
     [(''runs_row_version_check'', \<lambda>d. 0 < r_row_version r),
      (''runs_pkey'', \<lambda>d. absent r_id (r_id r) (runs d)),
      (''runs_company_id_initiative_id_fkey'',
        \<lambda>d. present (\<lambda>x. (in_company_id x, in_id x)) (r_company_id r, r_initiative_id r) (initiatives d)),
      (''runs_company_id_context_snapshot_id_fkey'',
        \<lambda>d. present (\<lambda>x. (cs_company_id x, cs_id x)) (r_company_id r, r_context_snapshot_id r)
              (context_snapshots d))]
     (\<lambda>d. d\<lparr>runs := runs d @ [r]\<rparr>)"

definition insert_counter :: "counter_row \<Rightarrow> unit call" where
  "insert_counter r = insert_row
     [(''run_event_counters_next_sequence_check'', \<lambda>d. 0 < rc_next_sequence r),
      (''run_event_counters_pkey'', \<lambda>d. absent rc_run_id (rc_run_id r) (run_event_counters d)),
      (''run_event_counters_company_id_run_id_fkey'',
        \<lambda>d. present (\<lambda>x. (r_company_id x, r_id x)) (rc_company_id r, rc_run_id r) (runs d))]
     (\<lambda>d. d\<lparr>run_event_counters := run_event_counters d @ [r]\<rparr>)"

definition insert_qualification :: "qualification_row \<Rightarrow> unit call" where
  "insert_qualification r = insert_row
     [(''goal_qualifications_screen_estimate_check'', \<lambda>d. 0 \<le> gq_screen_estimate r),
      (''goal_qualifications_check'',
        \<lambda>d. if gq_result r = Out_of_scope then (case gq_proposal r of None \<Rightarrow> False | Some p \<Rightarrow> 0 < length p)
            else gq_proposal r = None),
      (''goal_qualifications_check1'',
        \<lambda>d. if gq_result r = Needs_clarification then between 1 5 (gq_clarification_questions r)
            else gq_clarification_questions r = []),
      (''goal_qualifications_pkey'', \<lambda>d. absent gq_id (gq_id r) (goal_qualifications d)),
      (''goal_qualifications_company_id_goal_version_id_key'',
        \<lambda>d. absent (\<lambda>x. (gq_company_id x, gq_goal_version_id x)) (gq_company_id r, gq_goal_version_id r)
              (goal_qualifications d)),
      (''goal_qualifications_company_id_initiative_id_fkey'',
        \<lambda>d. present (\<lambda>x. (in_company_id x, in_id x)) (gq_company_id r, gq_initiative_id r) (initiatives d)),
      (''goal_qualifications_company_id_goal_version_id_fkey'',
        \<lambda>d. present (\<lambda>x. (gv_company_id x, gv_id x)) (gq_company_id r, gq_goal_version_id r) (goal_versions d)),
      (''goal_qualifications_company_id_run_id_fkey'',
        \<lambda>d. case gq_run_id r of None \<Rightarrow> True
            | Some i \<Rightarrow> present (\<lambda>x. (r_company_id x, r_id x)) (gq_company_id r, i) (runs d))]
     (\<lambda>d. d\<lparr>goal_qualifications := goal_qualifications d @ [r]\<rparr>)"

definition insert_budget :: "budget_row \<Rightarrow> unit call" where
  "insert_budget r = insert_row
     [(''budget_ledgers_check'', \<lambda>d. bl_reserved r + bl_consumed r \<le> bl_hard_limit r),
      (''budget_ledgers_pkey'',
        \<lambda>d. absent (\<lambda>x. (bl_run_id x, bl_category x)) (bl_run_id r, bl_category r) (budget_ledgers d)),
      (''budget_ledgers_company_id_run_id_fkey'',
        \<lambda>d. present (\<lambda>x. (r_company_id x, r_id x)) (bl_company_id r, bl_run_id r) (runs d))]
     (\<lambda>d. d\<lparr>budget_ledgers := budget_ledgers d @ [r]\<rparr>)"

section \<open>Tasks, attempts and what they produce\<close>

definition insert_task :: "task_row \<Rightarrow> unit call" where
  "insert_task r = insert_row
     [(''tasks_row_version_check'', \<lambda>d. 0 < t_row_version r),
      (''tasks_pkey'', \<lambda>d. absent t_id (t_id r) (tasks d)),
      (''tasks_owner_employee_definition_id_fkey'',
        \<lambda>d. case t_owner_employee_definition_id r of None \<Rightarrow> True
            | Some i \<Rightarrow> present ed_id i (employee_definitions d)),
      (''tasks_company_id_run_id_fkey'',
        \<lambda>d. present (\<lambda>x. (r_company_id x, r_id x)) (t_company_id r, t_run_id r) (runs d))]
     (\<lambda>d. d\<lparr>tasks := tasks d @ [r]\<rparr>)"

definition insert_attempt :: "attempt_row \<Rightarrow> unit call" where
  "insert_attempt r = insert_row
     [(''task_attempts_attempt_number_check'', \<lambda>d. 0 < ta_attempt_number r),
      (''task_attempts_pkey'', \<lambda>d. absent ta_id (ta_id r) (task_attempts d)),
      (''task_attempts_task_id_attempt_number_key'',
        \<lambda>d. absent (\<lambda>x. (ta_task_id x, ta_attempt_number x)) (ta_task_id r, ta_attempt_number r)
              (task_attempts d)),
      (''task_attempts_idempotency_key_key'',
        \<lambda>d. absent ta_idempotency_key (ta_idempotency_key r) (task_attempts d)),
      (''task_attempts_company_id_run_id_task_id_fkey'',
        \<lambda>d. present (\<lambda>x. (t_company_id x, t_run_id x, t_id x))
              (ta_company_id r, ta_run_id r, ta_task_id r) (tasks d))]
     (\<lambda>d. d\<lparr>task_attempts := task_attempts d @ [r]\<rparr>)"

definition insert_artifact :: "artifact_row \<Rightarrow> unit call" where
  "insert_artifact r = insert_row
     [(''artifacts_pkey'', \<lambda>d. absent ar_id (ar_id r) (artifacts d)),
      (''artifacts_company_id_run_id_type_logical_key_key'',
        \<lambda>d. absent (\<lambda>x. (ar_company_id x, ar_run_id x, ar_type x, ar_logical_key x))
              (ar_company_id r, ar_run_id r, ar_type r, ar_logical_key r) (artifacts d)),
      (''artifacts_company_id_run_id_fkey'',
        \<lambda>d. present (\<lambda>x. (r_company_id x, r_id x)) (ar_company_id r, ar_run_id r) (runs d))]
     (\<lambda>d. d\<lparr>artifacts := artifacts d @ [r]\<rparr>)"

definition insert_artifact_version :: "artifact_version_row \<Rightarrow> unit call" where
  "insert_artifact_version r = insert_row
     [(''artifact_versions_version_check'', \<lambda>d. 0 < av_version r),
      (''artifact_versions_checksum_check'', \<lambda>d. length (av_checksum r) = 64),
      (''artifact_versions_pkey'', \<lambda>d. absent av_id (av_id r) (artifact_versions d)),
      (''artifact_versions_artifact_id_version_key'',
        \<lambda>d. absent (\<lambda>x. (av_artifact_id x, av_version x)) (av_artifact_id r, av_version r)
              (artifact_versions d)),
      (''artifact_versions_company_id_run_id_fkey'',
        \<lambda>d. present (\<lambda>x. (r_company_id x, r_id x)) (av_company_id r, av_run_id r) (runs d)),
      (''artifact_versions_company_id_artifact_id_fkey'',
        \<lambda>d. present (\<lambda>x. (ar_company_id x, ar_id x)) (av_company_id r, av_artifact_id r) (artifacts d))]
     (\<lambda>d. d\<lparr>artifact_versions := artifact_versions d @ [r]\<rparr>)"

definition insert_policy_decision :: "policy_decision_row \<Rightarrow> unit call" where
  "insert_policy_decision r = insert_row
     [(''policy_decisions_result_check'', \<lambda>d. pd_result r \<in> set [''ALLOW'', ''DENY'']),
      (''policy_decisions_pkey'', \<lambda>d. absent pd_id (pd_id r) (policy_decisions d)),
      (''policy_decisions_company_id_run_id_fkey'',
        \<lambda>d. present (\<lambda>x. (r_company_id x, r_id x)) (pd_company_id r, pd_run_id r) (runs d))]
     (\<lambda>d. d\<lparr>policy_decisions := policy_decisions d @ [r]\<rparr>)"

text \<open>
  The effect of a model invocation. \<open>ON CONFLICT (company_id, run_id, task_id) DO NOTHING\<close>
  skips the row when the task already has an effect; any other conflict is an error.
\<close>

definition effect_check :: "effect_row \<Rightarrow> bool" where
  "effect_check r \<longleftrightarrow>
     me_invocation_count r \<le> 1 \<and>
     (case me_status r of
        E_RUNNING \<Rightarrow> me_completed_at r = None \<and> me_output_digest r = None
      | E_SUCCEEDED \<Rightarrow> me_completed_at r \<noteq> None \<and> me_output_digest r \<noteq> None
      | E_UNKNOWN \<Rightarrow> me_completed_at r \<noteq> None)"

definition insert_effect_do_nothing :: "effect_row \<Rightarrow> unit call" where
  "insert_effect_do_nothing r =
     tx_bind (query (\<lambda>d. absent (\<lambda>x. (me_company_id x, me_run_id x, me_task_id x))
         (me_company_id r, me_run_id r, me_task_id r) (model_invocation_effects d)))
       (\<lambda>free. tx_when free (insert_row
         [(''model_invocation_effects_effect_key_check'', \<lambda>d. length (me_effect_key r) = 64),
          (''model_invocation_effects_check'', \<lambda>d. effect_check r),
          (''model_invocation_effects_pkey'',
            \<lambda>d. absent me_effect_key (me_effect_key r) (model_invocation_effects d)),
          (''model_invocation_effects_attempt_id_key'',
            \<lambda>d. absent me_attempt_id (me_attempt_id r) (model_invocation_effects d)),
          (''model_invocation_effects_company_id_run_id_task_id_fkey'',
            \<lambda>d. present (\<lambda>x. (t_company_id x, t_run_id x, t_id x))
                  (me_company_id r, me_run_id r, me_task_id r) (tasks d)),
          (''model_invocation_effects_company_id_attempt_id_fkey'',
            \<lambda>d. present (\<lambda>x. (ta_company_id x, ta_id x)) (me_company_id r, me_attempt_id r)
                  (task_attempts d))]
         (\<lambda>d. d\<lparr>model_invocation_effects := model_invocation_effects d @ [r]\<rparr>)))"

section \<open>Events and their delivery\<close>

definition insert_event :: "event_row \<Rightarrow> unit call" where
  "insert_event r = insert_row
     [(''events_check'', \<lambda>d. (ev_run_id r = None) = (ev_run_sequence r = None)),
      (''events_pkey'', \<lambda>d. absent ev_id (ev_id r) (events d)),
      (''events_run_id_run_sequence_key'',
        \<lambda>d. ev_run_id r \<noteq> None \<longrightarrow>
            absent (\<lambda>x. (ev_run_id x, ev_run_sequence x)) (ev_run_id r, ev_run_sequence r) (events d)),
      (''events_company_id_fkey'', \<lambda>d. present co_id (ev_company_id r) (companies d)),
      (''events_company_id_run_id_fkey'',
        \<lambda>d. case ev_run_id r of None \<Rightarrow> True
            | Some i \<Rightarrow> present (\<lambda>x. (r_company_id x, r_id x)) (ev_company_id r, i) (runs d))]
     (\<lambda>d. d\<lparr>events := events d @ [r]\<rparr>)"

definition insert_outbox :: "outbox_row \<Rightarrow> unit call" where
  "insert_outbox r = insert_row
     [(''outbox_messages_pkey'', \<lambda>d. absent om_id (om_id r) (outbox_messages d)),
      (''outbox_messages_event_id_key'', \<lambda>d. absent om_event_id (om_event_id r) (outbox_messages d)),
      (''outbox_messages_event_id_fkey'', \<lambda>d. present ev_id (om_event_id r) (events d))]
     (\<lambda>d. d\<lparr>outbox_messages := outbox_messages d @ [r]\<rparr>)"

text \<open>\<open>INSERT ... ON CONFLICT (consumer_name, event_id) DO NOTHING RETURNING event_id\<close>.\<close>

definition insert_receipt_returning :: "receipt_row \<Rightarrow> uuid list call" where
  "insert_receipt_returning r =
     tx_bind (query (\<lambda>d. absent (\<lambda>x. (ir_consumer_name x, ir_event_id x))
         (ir_consumer_name r, ir_event_id r) (inbox_receipts d)))
       (\<lambda>free. if free then tx_then (insert_row
           [(''inbox_receipts_event_id_fkey'', \<lambda>d. present ev_id (ir_event_id r) (events d))]
           (\<lambda>d. d\<lparr>inbox_receipts := inbox_receipts d @ [r]\<rparr>))
           (tx_return [ir_event_id r])
         else tx_return [])"

definition insert_projection :: "projection_row \<Rightarrow> unit call" where
  "insert_projection r = insert_row
     [(''local_event_projections_pkey'',
        \<lambda>d. absent (\<lambda>x. (lp_consumer_name x, lp_event_id x)) (lp_consumer_name r, lp_event_id r)
              (local_event_projections d)),
      (''local_event_projections_consumer_name_projection_key_key'',
        \<lambda>d. absent (\<lambda>x. (lp_consumer_name x, lp_projection_key x)) (lp_consumer_name r, lp_projection_key r)
              (local_event_projections d)),
      (''local_event_projections_event_id_fkey'', \<lambda>d. present ev_id (lp_event_id r) (events d))]
     (\<lambda>d. d\<lparr>local_event_projections := local_event_projections d @ [r]\<rparr>)"

text \<open>\<open>INSERT ... ON CONFLICT (actor_id, operation, idempotency_key) DO NOTHING\<close>.\<close>

definition ik_key :: "idempotency_row \<Rightarrow> uuid \<times> string \<times> uuid" where
  "ik_key r = (ik_actor_id r, ik_operation r, ik_idempotency_key r)"

definition insert_idempotency_do_nothing :: "idempotency_row \<Rightarrow> unit call" where
  "insert_idempotency_do_nothing r =
     tx_bind (query (\<lambda>d. absent ik_key (ik_key r) (idempotency_records d)))
       (\<lambda>free. tx_when free (insert_row
         [(''idempotency_records_pkey'', \<lambda>d. absent ik_id (ik_id r) (idempotency_records d)),
          (''idempotency_records_actor_id_fkey'', \<lambda>d. present fo_id (ik_actor_id r) (founders d))]
         (\<lambda>d. d\<lparr>idempotency_records := idempotency_records d @ [r]\<rparr>)))"

section \<open>Human waits\<close>

text \<open>The CHECK that ties the resolution columns of a wait to its status.\<close>

definition wait_check :: "wait_row \<Rightarrow> bool" where
  "wait_check r \<longleftrightarrow>
     (case hw_status r of
        W_OPEN \<Rightarrow> hw_resolved_at r = None \<and> hw_resolved_by_command_id r = None \<and>
          hw_resolved_by_event_id r = None \<and> hw_continuation_task_id r = None
      | W_RESOLVED \<Rightarrow> hw_resolved_at r \<noteq> None \<and> hw_resolved_by_command_id r \<noteq> None \<and>
          hw_resolved_by_event_id r \<noteq> None \<and> hw_continuation_task_id r \<noteq> None
      | _ \<Rightarrow> hw_resolved_at r \<noteq> None \<and> hw_continuation_task_id r = None)"

definition insert_wait :: "wait_row \<Rightarrow> unit call" where
  "insert_wait r = insert_row
     [(''human_waits_workflow_version_check'', \<lambda>d. 0 < length (hw_workflow_version r)),
      (''human_waits_wait_version_check'', \<lambda>d. 0 < hw_wait_version r),
      (''human_waits_request_version_check'', \<lambda>d. 0 < hw_request_version r),
      (''human_waits_expected_run_row_version_check'', \<lambda>d. 0 < hw_expected_run_row_version r),
      (''human_waits_response_schema_id_check'', \<lambda>d. 0 < length (hw_response_schema_id r)),
      (''human_waits_response_schema_version_check'', \<lambda>d. 0 < length (hw_response_schema_version r)),
      (''human_waits_check'',
        \<lambda>d. case hw_expires_at r of None \<Rightarrow> True | Some t \<Rightarrow> hw_created_at r < t),
      (''human_waits_check1'', \<lambda>d. wait_check r),
      (''human_waits_pkey'', \<lambda>d. absent hw_id (hw_id r) (human_waits d)),
      (''human_waits_one_open_per_run'',
        \<lambda>d. hw_status r = W_OPEN \<longrightarrow>
            absent hw_run_id (hw_run_id r) (filter (\<lambda>x. hw_status x = W_OPEN) (human_waits d))),
      (''human_waits_company_id_run_id_workflow_version_fkey'',
        \<lambda>d. present (\<lambda>x. (r_company_id x, r_id x, r_workflow_version x))
              (hw_company_id r, hw_run_id r, hw_workflow_version r) (runs d)),
      (''human_waits_company_id_context_snapshot_id_fkey'',
        \<lambda>d. present (\<lambda>x. (cs_company_id x, cs_id x)) (hw_company_id r, hw_context_snapshot_id r)
              (context_snapshots d)),
      (''human_waits_company_id_run_id_task_id_fkey'',
        \<lambda>d. present (\<lambda>x. (t_company_id x, t_run_id x, t_id x))
              (hw_company_id r, hw_run_id r, hw_task_id r) (tasks d))]
     (\<lambda>d. d\<lparr>human_waits := human_waits d @ [r]\<rparr>)"

definition insert_answer :: "answer_row \<Rightarrow> unit call" where
  "insert_answer r = insert_row
     [(''clarification_answer_versions_version_check'', \<lambda>d. ca_version r = 1),
      (''clarification_answer_versions_request_version_check'', \<lambda>d. 0 < ca_request_version r),
      (''clarification_answer_versions_content_digest_check'', \<lambda>d. length (ca_content_digest r) = 64),
      (''clarification_answer_versions_pkey'',
        \<lambda>d. absent ca_id (ca_id r) (clarification_answer_versions d)),
      (''clarification_answer_versions_wait_id_key'',
        \<lambda>d. absent ca_wait_id (ca_wait_id r) (clarification_answer_versions d)),
      (''clarification_answer_versions_company_id_run_id_wait_id_fkey'',
        \<lambda>d. present (\<lambda>x. (hw_company_id x, hw_run_id x, hw_id x, hw_request_id x, hw_request_version x,
                hw_context_snapshot_id x, hw_response_schema_id x, hw_response_schema_version x))
              (ca_company_id r, ca_run_id r, ca_wait_id r, ca_request_id r, ca_request_version r,
                ca_source_context_snapshot_id r, ca_response_schema_id r, ca_response_schema_version r)
              (human_waits d)),
      (''clarification_answer_versions_company_id_created_by_fkey'',
        \<lambda>d. present (\<lambda>x. (co_id x, co_founder_id x)) (ca_company_id r, ca_created_by r) (companies d))]
     (\<lambda>d. d\<lparr>clarification_answer_versions := clarification_answer_versions d @ [r]\<rparr>)"

definition insert_snapshot_answer :: "snapshot_answer_row \<Rightarrow> unit call" where
  "insert_snapshot_answer r = insert_row
     [(''context_snapshot_answers_pkey'',
        \<lambda>d. absent (\<lambda>x. (sa_company_id x, sa_context_snapshot_id x, sa_answer_version_id x))
              (sa_company_id r, sa_context_snapshot_id r, sa_answer_version_id r)
              (context_snapshot_answers d)),
      (''context_snapshot_answers_company_id_context_snapshot_id_ordinal_key'',
        \<lambda>d. absent (\<lambda>x. (sa_company_id x, sa_context_snapshot_id x, sa_ordinal x))
              (sa_company_id r, sa_context_snapshot_id r, sa_ordinal r) (context_snapshot_answers d)),
      (''context_snapshot_answers_company_id_context_snapshot_id_fkey'',
        \<lambda>d. present (\<lambda>x. (cs_company_id x, cs_id x)) (sa_company_id r, sa_context_snapshot_id r)
              (context_snapshots d)),
      (''context_snapshot_answers_company_id_answer_version_id_fkey'',
        \<lambda>d. present (\<lambda>x. (ca_company_id x, ca_id x)) (sa_company_id r, sa_answer_version_id r)
              (clarification_answer_versions d))]
     (\<lambda>d. d\<lparr>context_snapshot_answers := context_snapshot_answers d @ [r]\<rparr>)"

section \<open>Invites and sessions\<close>

definition insert_invite :: "invite_row \<Rightarrow> unit call" where
  "insert_invite r = insert_row
     [(''founder_invites_email_check'', \<lambda>d. between 3 320 (fi_email r)),
      (''founder_invites_display_name_check'', \<lambda>d. between 2 100 (fi_display_name r)),
      (''founder_invites_token_hash_check'', \<lambda>d. length (fi_token_hash r) = 64),
      (''founder_invites_session_ttl_seconds_check'',
        \<lambda>d. 1 \<le> fi_session_ttl_seconds r \<and> fi_session_ttl_seconds r \<le> 900),
      (''founder_invites_check'',
        \<lambda>d. (fi_status r = V_REDEEMED) = (fi_redeemed_founder_id r \<noteq> None)),
      (''founder_invites_pkey'', \<lambda>d. absent fi_id (fi_id r) (founder_invites d)),
      (''founder_invites_token_hash_key'', \<lambda>d. absent fi_token_hash (fi_token_hash r) (founder_invites d))]
     (\<lambda>d. d\<lparr>founder_invites := founder_invites d @ [r]\<rparr>)"

definition insert_session :: "session_row \<Rightarrow> unit call" where
  "insert_session r = insert_row
     [(''founder_sessions_check'', \<lambda>d. (fs_status r = SS_REVOKED) = (fs_revoked_at r \<noteq> None)),
      (''founder_sessions_pkey'', \<lambda>d. absent fs_id (fs_id r) (founder_sessions d)),
      (''founder_sessions_founder_id_fkey'', \<lambda>d. present fo_id (fs_founder_id r) (founders d))]
     (\<lambda>d. d\<lparr>founder_sessions := founder_sessions d @ [r]\<rparr>)"

section \<open>Objects and attachments\<close>

definition insert_object :: "object_row \<Rightarrow> unit call" where
  "insert_object r = insert_row
     [(''object_records_purpose_check'', \<lambda>d. ob_purpose r \<in> set [''quality-fixture'', ''attachment'']),
      (''object_records_checksum_sha256_check'', \<lambda>d. length (ob_checksum_sha256 r) = 64),
      (''object_records_version_check'', \<lambda>d. 0 < ob_version r),
      (''object_records_check'', \<lambda>d. (ob_lifecycle_state r = O_DELETED) = (ob_deleted_at r \<noteq> None)),
      (''object_records_attachment_metadata_check'',
        \<lambda>d. ob_purpose r \<noteq> ''attachment'' \<or> (ob_declared_media_type r \<noteq> None \<and>
            ob_detected_media_type r \<noteq> None \<and> ob_original_filename r \<noteq> None)),
      (''object_records_pkey'', \<lambda>d. absent ob_id (ob_id r) (object_records d)),
      (''object_records_company_id_object_key_key'',
        \<lambda>d. absent (\<lambda>x. (ob_company_id x, ob_object_key x)) (ob_company_id r, ob_object_key r)
              (object_records d)),
      (''object_records_company_id_fkey'', \<lambda>d. present co_id (ob_company_id r) (companies d))]
     (\<lambda>d. d\<lparr>object_records := object_records d @ [r]\<rparr>)"

definition insert_goal_attachment :: "goal_attachment_row \<Rightarrow> unit call" where
  "insert_goal_attachment r = insert_row
     [(''goal_version_attachments_pkey'',
        \<lambda>d. absent (\<lambda>x. (ga_company_id x, ga_goal_version_id x, ga_ordinal x))
              (ga_company_id r, ga_goal_version_id r, ga_ordinal r) (goal_version_attachments d)),
      (''goal_version_attachments_company_id_goal_version_id_object_id_key'',
        \<lambda>d. absent (\<lambda>x. (ga_company_id x, ga_goal_version_id x, ga_object_id x))
              (ga_company_id r, ga_goal_version_id r, ga_object_id r) (goal_version_attachments d)),
      (''goal_version_attachments_company_id_goal_version_id_fkey'',
        \<lambda>d. present (\<lambda>x. (gv_company_id x, gv_id x)) (ga_company_id r, ga_goal_version_id r) (goal_versions d)),
      (''goal_version_attachments_company_id_object_id_fkey'',
        \<lambda>d. present (\<lambda>x. (ob_company_id x, ob_id x)) (ga_company_id r, ga_object_id r) (object_records d))]
     (\<lambda>d. d\<lparr>goal_version_attachments := goal_version_attachments d @ [r]\<rparr>)"

definition insert_grant :: "grant_row \<Rightarrow> unit call" where
  "insert_grant r = insert_row
     [(''attachment_retrieval_grants_pkey'', \<lambda>d. absent rg_id (rg_id r) (attachment_retrieval_grants d)),
      (''attachment_retrieval_grants_company_id_object_id_fkey'',
        \<lambda>d. present (\<lambda>x. (ob_company_id x, ob_id x)) (rg_company_id r, rg_object_id r) (object_records d)),
      (''attachment_retrieval_grants_company_id_run_id_fkey'',
        \<lambda>d. present (\<lambda>x. (r_company_id x, r_id x)) (rg_company_id r, rg_run_id r) (runs d))]
     (\<lambda>d. d\<lparr>attachment_retrieval_grants := attachment_retrieval_grants d @ [r]\<rparr>)"

section \<open>What an insert does\<close>

text \<open>An insert that returns added its row at the end of its table and changed nothing else.\<close>

lemma inserted:
  "insert_founder r0 s = (Inr u, t) \<Longrightarrow> t = s\<lparr>sys_db := sys_db s\<lparr>founders := founders (sys_db s) @ [r0]\<rparr>\<rparr>"
  "insert_company r1 s = (Inr u, t) \<Longrightarrow> t = s\<lparr>sys_db := sys_db s\<lparr>companies := companies (sys_db s) @ [r1]\<rparr>\<rparr>"
  "insert_profile r2 s = (Inr u, t) \<Longrightarrow> t = s\<lparr>sys_db := sys_db s\<lparr>company_profile_versions := company_profile_versions (sys_db s) @ [r2]\<rparr>\<rparr>"
  "insert_initiative r3 s = (Inr u, t) \<Longrightarrow> t = s\<lparr>sys_db := sys_db s\<lparr>initiatives := initiatives (sys_db s) @ [r3]\<rparr>\<rparr>"
  "insert_goal_version r4 s = (Inr u, t) \<Longrightarrow> t = s\<lparr>sys_db := sys_db s\<lparr>goal_versions := goal_versions (sys_db s) @ [r4]\<rparr>\<rparr>"
  "insert_snapshot r5 s = (Inr u, t) \<Longrightarrow> t = s\<lparr>sys_db := sys_db s\<lparr>context_snapshots := context_snapshots (sys_db s) @ [r5]\<rparr>\<rparr>"
  "insert_run r6 s = (Inr u, t) \<Longrightarrow> t = s\<lparr>sys_db := sys_db s\<lparr>runs := runs (sys_db s) @ [r6]\<rparr>\<rparr>"
  "insert_counter r7 s = (Inr u, t) \<Longrightarrow> t = s\<lparr>sys_db := sys_db s\<lparr>run_event_counters := run_event_counters (sys_db s) @ [r7]\<rparr>\<rparr>"
  "insert_qualification r8 s = (Inr u, t) \<Longrightarrow> t = s\<lparr>sys_db := sys_db s\<lparr>goal_qualifications := goal_qualifications (sys_db s) @ [r8]\<rparr>\<rparr>"
  "insert_budget r9 s = (Inr u, t) \<Longrightarrow> t = s\<lparr>sys_db := sys_db s\<lparr>budget_ledgers := budget_ledgers (sys_db s) @ [r9]\<rparr>\<rparr>"
  "insert_task r10 s = (Inr u, t) \<Longrightarrow> t = s\<lparr>sys_db := sys_db s\<lparr>tasks := tasks (sys_db s) @ [r10]\<rparr>\<rparr>"
  "insert_object r11 s = (Inr u, t) \<Longrightarrow> t = s\<lparr>sys_db := sys_db s\<lparr>object_records := object_records (sys_db s) @ [r11]\<rparr>\<rparr>"
  "insert_goal_attachment r12 s = (Inr u, t) \<Longrightarrow> t = s\<lparr>sys_db := sys_db s\<lparr>goal_version_attachments := goal_version_attachments (sys_db s) @ [r12]\<rparr>\<rparr>"
  "insert_grant r13 s = (Inr u, t) \<Longrightarrow> t = s\<lparr>sys_db := sys_db s\<lparr>attachment_retrieval_grants := attachment_retrieval_grants (sys_db s) @ [r13]\<rparr>\<rparr>"
  "insert_invite r14 s = (Inr u, t) \<Longrightarrow> t = s\<lparr>sys_db := sys_db s\<lparr>founder_invites := founder_invites (sys_db s) @ [r14]\<rparr>\<rparr>"
  "insert_session r15 s = (Inr u, t) \<Longrightarrow> t = s\<lparr>sys_db := sys_db s\<lparr>founder_sessions := founder_sessions (sys_db s) @ [r15]\<rparr>\<rparr>"
  unfolding insert_founder_def insert_company_def insert_profile_def insert_initiative_def insert_goal_version_def insert_snapshot_def insert_run_def insert_counter_def insert_qualification_def insert_budget_def insert_task_def insert_object_def insert_goal_attachment_def insert_grant_def insert_invite_def insert_session_def
  by (elim insert_row_InrE; simp only:)+

end
