(* ===== verification/Samples.thy ===== *)
theory Samples
  imports Tables
begin

text \<open>
  A concrete environment and a small database, at which the theorems are applied: an injective
  stock of identifiers, a digest of 64 hexadecimal digits, the code-point collation, and one
  company with a drafted run whose first task is queued.
\<close>

section \<open>The environment\<close>

definition sample_uuid :: "nat \<Rightarrow> uuid" where
  "sample_uuid n = ''019c0000-0000-7000-8000-'' @ pad_left 12 (show_nat n)"

definition sample_id :: "nat \<Rightarrow> uuid" where
  "sample_id n = ''019c0000-0000-7000-9000-'' @ pad_left 12 (show_nat n)"

definition sample_hash :: "byte list \<Rightarrow> string" where
  "sample_hash bs = take 64 (map (\<lambda>b. hex_digit (nat (uint b mod 16))) bs @ replicate 64 (CHR ''0''))"

fun code_point_le :: "string \<Rightarrow> string \<Rightarrow> bool" where
  "code_point_le [] t = True"
| "code_point_le (c # s) [] = False"
| "code_point_le (c # s) (d # t) =
     (if c = d then code_point_le s t else (of_char c :: nat) < of_char d)"

definition sample_env :: env where
  "sample_env = \<lparr>uuid_at = sample_uuid, uuid_valid = uuid_shape, sha256_hex = sample_hash,
     random32 = (\<lambda>n. replicate 32 (of_nat n)), locale_le = code_point_le,
     now_ms = 1723435200000, worker_id = ''worker-1'', lease_seconds = 60,
     workflow_version = ''mvp-v1'', app_environment = ''test'', auth_mode = ''dev''\<rparr>"

lemma sample_hash_length [simp]: "length (sample_hash bs) = 64"
  by (simp add: sample_hash_def)

lemma code_point_le_total: "code_point_le s t \<or> code_point_le t s"
proof (induction s t rule: code_point_le.induct)
  case (3 c s d t)
  then show ?case using nat_neq_iff [of "of_char c" "of_char d"] by (cases "c = d") auto
qed auto

lemma code_point_le_antisym: "code_point_le s t \<Longrightarrow> code_point_le t s \<Longrightarrow> s = t"
proof (induction s t rule: code_point_le.induct)
  case (1 t)
  then show ?case by (cases t) auto
qed (auto split: if_splits)

lemma code_point_le_trans: "code_point_le s t \<Longrightarrow> code_point_le t u \<Longrightarrow> code_point_le s u"
proof (induction s t arbitrary: u rule: code_point_le.induct)
  case (3 c s d t)
  then show ?case by (cases u) (auto split: if_splits)
qed (auto split: if_splits)

lemma sample_collation: "total_collation code_point_le"
  unfolding total_collation_def
  using code_point_le_total code_point_le_antisym code_point_le_trans by blast

text \<open>
  Identifiers and digests are compared by these rules and not by evaluating them.
\<close>

lemma pad_left_length: "length s \<le> n \<Longrightarrow> length (pad_left n s) = n"
  by (simp add: pad_left_def)

lemma pad_left_show_inj: "pad_left k (show_nat m) = pad_left k (show_nat n) \<longleftrightarrow> m = n"
proof
  assume eq: "pad_left k (show_nat m) = pad_left k (show_nat n)"
  have "parse_nat (pad_left k (show_nat j)) = j" for j
  proof -
    have "foldl (\<lambda>acc c. 10 * acc + digit_val c) 0 (replicate i (CHR ''0'') @ s) =
        foldl (\<lambda>acc c. 10 * acc + digit_val c) 0 s" for i s
      by (induction i) (simp_all add: digit_val_def)
    then show ?thesis
      using parse_show_nat [of j] by (simp add: parse_nat_def pad_left_def del: parse_show_nat)
  qed
  with eq show "m = n" by metis
qed simp

lemma sample_uuid_inj [simp]: "sample_uuid m = sample_uuid n \<longleftrightarrow> m = n"
  by (simp add: sample_uuid_def pad_left_show_inj)

lemma sample_id_inj [simp]: "sample_id m = sample_id n \<longleftrightarrow> m = n"
  by (simp add: sample_id_def pad_left_show_inj)

lemma sample_id_uuid [simp]: "sample_id m \<noteq> sample_uuid n" "sample_uuid n \<noteq> sample_id m"
  by (simp_all add: sample_id_def sample_uuid_def)

lemma sample_ids_nonempty [simp]: "sample_id m \<noteq> []" "sample_uuid m \<noteq> []"
  by (simp_all add: sample_id_def sample_uuid_def)

lemma sample_env_simps [simp]:
  "uuid_at sample_env = sample_uuid" "now_ms sample_env = 1723435200000"
  "worker_id sample_env = ''worker-1''" "lease_seconds sample_env = 60"
  "workflow_version sample_env = ''mvp-v1''" "uuid_valid sample_env = uuid_shape"
  "app_environment sample_env = ''test''" "auth_mode sample_env = ''dev''"
  by (simp_all add: sample_env_def)

lemma sample_digest_length [simp]: "length (canonicalDigest sample_env v) = 64"
  by (simp add: canonicalDigest_def sample_env_def)

section \<open>The database\<close>

abbreviation sample_now :: timestamp where
  "sample_now \<equiv> 1723435000000"

definition sample_founder :: founder_row where
  "sample_founder = \<lparr>fo_id = sample_id 1, fo_auth_subject = ''founder-a'', fo_display_name = ''Ada'',
     fo_status = F_ACTIVE, fo_created_at = sample_now, fo_updated_at = sample_now\<rparr>"

definition sample_company :: company_row where
  "sample_company = \<lparr>co_id = sample_id 2, co_founder_id = sample_id 1, co_name = ''Acme'',
     co_status = C_ACTIVE, co_current_profile_version_id = Some (sample_id 3), co_row_version = 1,
     co_created_at = sample_now, co_updated_at = sample_now\<rparr>"

definition sample_profile :: profile_row where
  "sample_profile = \<lparr>cp_id = sample_id 3, cp_company_id = sample_id 2, cp_version = 1,
     cp_purpose = ''Help small teams plan'', cp_target_customer = ''small teams'',
     cp_constraints = [], cp_normalized_limits = JObj [], cp_acknowledged = True,
     cp_created_by = sample_id 1, cp_created_at = sample_now\<rparr>"

definition sample_initiative :: initiative_row where
  "sample_initiative = \<lparr>in_id = sample_id 4, in_company_id = sample_id 2, in_type = ''PROTOTYPE'',
     in_title = ''Planner'', in_status = I_ACTIVE, in_current_goal_version_id = Some (sample_id 5),
     in_row_version = 2, in_created_at = sample_now, in_updated_at = sample_now\<rparr>"

definition sample_goal :: goal_version_row where
  "sample_goal = \<lparr>gv_id = sample_id 5, gv_company_id = sample_id 2, gv_initiative_id = sample_id 4,
     gv_version = 1, gv_schema_version = 1,
     gv_structured_goal = JObj [(''problem'', JStr ''planning''),
       (''must_haves'', JArr [JObj [(''id'', JStr ''MH-1''), (''text'', JStr ''a list'')]])],
     gv_attachment_ids = [], gv_created_by = sample_id 1, gv_created_at = sample_now\<rparr>"

definition sample_snapshot :: snapshot_row where
  "sample_snapshot = \<lparr>cs_id = sample_id 6, cs_company_id = sample_id 2,
     cs_company_profile_version_id = sample_id 3, cs_goal_version_id = sample_id 5,
     cs_answer_version_ids = [], cs_created_at = sample_now\<rparr>"

definition sample_run :: run_row where
  "sample_run = \<lparr>r_id = sample_id 7, r_company_id = sample_id 2, r_initiative_id = sample_id 4,
     r_context_snapshot_id = sample_id 6, r_state = R_DRAFT, r_stage = S_INTAKE, r_row_version = 1,
     r_workflow_version = ''mvp-v1'', r_policy_version = ''mvp-v1'', r_blocking_reason_code = None,
     r_failure_reason_code = None, r_cancellation_requested_at = None,
     r_created_at = sample_now, r_updated_at = sample_now\<rparr>"

definition sample_task :: task_row where
  "sample_task = \<lparr>t_id = sample_id 8, t_company_id = sample_id 2, t_run_id = sample_id 7,
     t_type = ''CREATE_PRODUCT_BRIEF'',
     t_owner_employee_definition_id = Some ''019c0000-0000-7000-8000-000000000001'',
     t_state = T_QUEUED, t_priority = 100, t_input_manifest = JObj [], t_attempt_count = 0,
     t_row_version = 1, t_lease_owner = None, t_lease_token = None, t_lease_expires_at = None,
     t_available_at = sample_now, t_blocker_code = None, t_created_at = sample_now,
     t_updated_at = sample_now, t_completed_at = None\<rparr>"

definition sample_db :: db where
  "sample_db = empty_db\<lparr>founders := [sample_founder], companies := [sample_company],
     company_profile_versions := [sample_profile], initiatives := [sample_initiative],
     goal_versions := [sample_goal], context_snapshots := [sample_snapshot], runs := [sample_run],
     run_event_counters := [\<lparr>rc_company_id = sample_id 2, rc_run_id = sample_id 7, rc_next_sequence = 1\<rparr>],
     tasks := [sample_task]\<rparr>"

definition sample_sys :: sys where
  "sample_sys = initial_sys\<lparr>sys_db := sample_db, sys_next := 0\<rparr>"

lemmas sample_rows = sample_founder_def sample_company_def sample_profile_def sample_initiative_def
  sample_goal_def sample_snapshot_def sample_run_def sample_task_def

lemmas sample_state = sample_sys_def sample_db_def empty_db_def initial_sys_def seeded_employees_def
  sample_rows

text \<open>The rules by which a method is run on a concrete state.\<close>

lemmas tx_run = transaction_def tx_bind_def tx_then_def tx_when_def tx_return_def tx_throw_def
  tx_require_def tx_lift_def query_apply execute_apply newId_apply insert_row_def
  absent_def present_def

theorem canonicalDigest_key_order_witness:
  "canonicalDigest sample_env (JObj [(''a'', JNum 1), (''b'', JNum 2)]) =
   canonicalDigest sample_env (JObj [(''b'', JNum 2), (''a'', JNum 1)])"
proof (rule canonicalDigest_key_order)
  show "total_collation (locale_le sample_env)"
    by (simp add: sample_env_def sample_collation)
  show "json_same (JObj [(''a'', JNum 1), (''b'', JNum 2)]) (JObj [(''b'', JNum 2), (''a'', JNum 1)])"
    by (rule json_same.same_obj [where es = "[(''a'', JNum 1), (''b'', JNum 2)]"])
      (simp_all add: json_same.same_refl)
qed

end
