(* ===== verification/Governance.thy ===== *)
theory Governance
  imports Samples
begin

text \<open>
  \<open>src/modules/governance\<close>: the append-only event log with its transactional outbox
  (\<open>DomainEventService.append\<close>) and the idempotent command executor (\<open>CommandExecutor.run\<close>).

  The event log has an invariant that every transaction of the backend commits with
  (\<open>event_log_ok\<close>): the events of a run are numbered 1, 2, 3, ... without a gap, the counter of
  the run holds the next number, and the outbox holds one message per event, in the order of the
  events, whose envelope is the event. The locale \<open>command_body\<close> is the contract a command body
  owes the executor; every service that runs commands interprets it.
\<close>

section \<open>Events\<close>

record append_options =
  ae_companyId :: uuid
  ae_runId :: "uuid option"
  ae_type :: string
  ae_actorType :: string
  ae_actorId :: string
  ae_actorVersion :: "string option"
  ae_correlationId :: uuid
  ae_causationId :: "uuid option"
  ae_audience :: "string option"
  ae_dataClassification :: "string option"
  ae_payload :: json

text \<open>The envelope of an event, as the outbox carries it.\<close>

definition event_envelope :: "event_row \<Rightarrow> json" where
  "event_envelope e =
     JObj [(''event_id'', JStr (ev_id e)),
           (''schema_version'', JNum (int (ev_schema_version e))),
           (''type'', JStr (ev_type e)),
           (''company_id'', JStr (ev_company_id e)),
           (''run_id'', json_opt JStr (ev_run_id e)),
           (''run_sequence'', json_opt (\<lambda>n. JNum (int n)) (ev_run_sequence e)),
           (''actor'', JObj [(''type'', JStr (ev_actor_type e)), (''id'', JStr (ev_actor_id e)),
                             (''version'', json_opt JStr (ev_actor_version e))]),
           (''occurred_at'', JStr (toISOString (ev_occurred_at e))),
           (''correlation_id'', JStr (ev_correlation_id e)),
           (''causation_id'', json_opt JStr (ev_causation_id e)),
           (''audience'', JStr (ev_audience e)),
           (''data_classification'', JStr (ev_data_classification e)),
           (''payload'', ev_payload e)]"

text \<open>The values \<open>append\<close> inserts into \<open>events\<close>: the options, with their defaults filled.\<close>

definition new_event :: "env \<Rightarrow> append_options \<Rightarrow> uuid \<Rightarrow> nat option \<Rightarrow> event_row" where
  "new_event E options eventId sequence =
     \<lparr>ev_id = eventId, ev_schema_version = 1, ev_type = ae_type options,
      ev_company_id = ae_companyId options, ev_run_id = ae_runId options,
      ev_run_sequence = sequence, ev_actor_type = ae_actorType options,
      ev_actor_id = ae_actorId options, ev_actor_version = ae_actorVersion options,
      ev_correlation_id = ae_correlationId options, ev_causation_id = ae_causationId options,
      ev_audience = (case ae_audience options of None \<Rightarrow> ''FOUNDER'' | Some a \<Rightarrow> a),
      ev_data_classification = (case ae_dataClassification options of None \<Rightarrow> ''INTERNAL'' | Some c \<Rightarrow> c),
      ev_payload = ae_payload options, ev_occurred_at = now_ms E\<rparr>"

text \<open>The message \<open>append\<close> inserts into the outbox for an event.\<close>

definition event_topic :: "event_row \<Rightarrow> string" where
  "event_topic e = ''aico.'' @ ev_type e"

definition new_message :: "env \<Rightarrow> uuid \<Rightarrow> event_row \<Rightarrow> outbox_row" where
  "new_message E mid e =
     \<lparr>om_id = mid, om_event_id = ev_id e, om_topic = event_topic e, om_envelope = event_envelope e,
      om_available_at = now_ms E, om_lease_owner = None, om_lease_token = None,
      om_lease_expires_at = None, om_published_at = None, om_attempts = 0,
      om_created_at = now_ms E\<rparr>"

text \<open>
  The sequence number of the next event of a run: the counter row is read and incremented; a
  missing row is the failed property access of \<open>rows[0].sequence\<close>. An event of no run has no
  number.
\<close>

definition next_run_sequence :: "uuid \<Rightarrow> uuid option \<Rightarrow> nat option call" where
  "next_run_sequence companyId runId =
     (case runId of
        None \<Rightarrow> tx_return None
      | Some rid \<Rightarrow>
          tx_bind (query (\<lambda>d. find (\<lambda>c. rc_run_id c = rid \<and> rc_company_id c = companyId) (run_event_counters d)))
            (\<lambda>row. tx_bind (tx_require (JsError ''Cannot read properties of undefined (reading 'sequence')'') row)
            (\<lambda>c. tx_then (execute (\<lambda>d. d\<lparr>run_event_counters :=
                upd_where (\<lambda>c. rc_run_id c = rid \<and> rc_company_id c = companyId)
                  (\<lambda>c. c\<lparr>rc_next_sequence := rc_next_sequence c + 1\<rparr>) (run_event_counters d)\<rparr>))
              (tx_return (Some (rc_next_sequence c))))))"

definition DomainEvent_append :: "env \<Rightarrow> append_options \<Rightarrow> uuid call" where
  "DomainEvent_append E options =
     tx_bind (newId E) (\<lambda>eventId.
     tx_bind (next_run_sequence (ae_companyId options) (ae_runId options)) (\<lambda>sequence.
       let event = new_event E options eventId sequence
       in tx_then (insert_event event)
            (tx_bind (newId E) (\<lambda>mid.
               tx_then (insert_outbox (new_message E mid event)) (tx_return eventId)))))"

section \<open>The event log invariant\<close>

definition run_events :: "uuid \<Rightarrow> db \<Rightarrow> event_row list" where
  "run_events rid d = filter (\<lambda>e. ev_run_id e = Some rid) (events d)"

definition numbered :: "db \<Rightarrow> counter_row \<Rightarrow> bool" where
  "numbered d c \<longleftrightarrow> 0 < rc_next_sequence c \<and> map ev_run_sequence (run_events (rc_run_id c) d) = map Some [1..<rc_next_sequence c]"

definition message_content :: "outbox_row \<Rightarrow> uuid \<times> string \<times> json" where
  "message_content m = (om_event_id m, om_topic m, om_envelope m)"

definition event_content :: "event_row \<Rightarrow> uuid \<times> string \<times> json" where
  "event_content e = (ev_id e, event_topic e, event_envelope e)"

definition event_log_ok :: "db \<Rightarrow> bool" where
  "event_log_ok d \<longleftrightarrow>
     distinct (map rc_run_id (run_event_counters d)) \<and>
     list_all (numbered d) (run_event_counters d) \<and>
     (\<forall>e \<in> set (events d). \<forall>rid. ev_run_id e = Some rid \<longrightarrow>
        rid \<in> rc_run_id ` set (run_event_counters d)) \<and>
     distinct (map ev_id (events d)) \<and>
     map message_content (outbox_messages d) = map event_content (events d)"

text \<open>The columns and tables the invariant reads.\<close>

definition log_part :: "db \<Rightarrow> counter_row list \<times> event_row list \<times> (uuid \<times> string \<times> json) list" where
  "log_part d = (run_event_counters d, events d, map message_content (outbox_messages d))"

lemma event_log_ok_cong: "log_part d = log_part d' \<Longrightarrow> event_log_ok d = event_log_ok d'"
  by (simp add: log_part_def event_log_ok_def numbered_def [abs_def] run_events_def)

text \<open>A statement that leaves these alone keeps the invariant.\<close>

lemma log_keeps_execute:
  "(\<And>d. log_part (f d) = log_part d) \<Longrightarrow> db_keeps event_log_ok (execute f)"
  by (rule db_keeps_execute) (blast dest: event_log_ok_cong)

lemma log_keeps_insert:
  "(\<And>d. log_part (upd d) = log_part d) \<Longrightarrow> db_keeps event_log_ok (insert_row checks upd)"
  by (rule db_keeps_insert) (blast dest: event_log_ok_cong)

text \<open>The events appended by one call, and the counter of the run.\<close>

lemma next_run_sequence_InrE:
  assumes "next_run_sequence cid rid s = (Inr q, t)"
  obtains (none) "rid = None" "q = None" "t = s"
  | (some) r c where "rid = Some r" "c \<in> set (run_event_counters (sys_db s))" "rc_run_id c = r"
      "rc_company_id c = cid" "q = Some (rc_next_sequence c)"
      "t = s\<lparr>sys_db := sys_db s\<lparr>run_event_counters :=
         upd_where (\<lambda>c. rc_run_id c = r \<and> rc_company_id c = cid)
           (\<lambda>c. c\<lparr>rc_next_sequence := rc_next_sequence c + 1\<rparr>) (run_event_counters (sys_db s))\<rparr>\<rparr>"
proof (cases rid)
  case None
  with assms none show thesis by (simp add: next_run_sequence_def tx_return_def)
next
  case (Some r)
  have "\<exists>c. find (\<lambda>c. rc_run_id c = r \<and> rc_company_id c = cid) (run_event_counters (sys_db s)) = Some c
      \<and> q = Some (rc_next_sequence c)
      \<and> t = s\<lparr>sys_db := sys_db s\<lparr>run_event_counters :=
         upd_where (\<lambda>c. rc_run_id c = r \<and> rc_company_id c = cid)
           (\<lambda>c. c\<lparr>rc_next_sequence := rc_next_sequence c + 1\<rparr>) (run_event_counters (sys_db s))\<rparr>\<rparr>"
    using assms unfolding next_run_sequence_def Some option.case
    by (elim db_elims) (simp only: option.inject simp_thms)
  then show thesis using some [OF Some] by (blast dest: find_SomeD)
qed

lemma insert_event_InrE:
  assumes "insert_event r s = (Inr u, t)"
  obtains "ev_id r \<notin> ev_id ` set (events (sys_db s))"
    and "t = s\<lparr>sys_db := sys_db s\<lparr>events := events (sys_db s) @ [r]\<rparr>\<rparr>"
  using assms unfolding insert_event_def
  by (elim insert_row_InrE) (rule that, auto simp only: list.set ball_simps snd_conv absent_def)

lemma insert_outbox_InrE:
  assumes "insert_outbox r s = (Inr u, t)"
  obtains "t = s\<lparr>sys_db := sys_db s\<lparr>outbox_messages := outbox_messages (sys_db s) @ [r]\<rparr>\<rparr>"
  using assms unfolding insert_outbox_def by (elim insert_row_InrE) (rule that)

lemma DomainEvent_append_InrE:
  assumes "DomainEvent_append E o' s = (Inr eid, t)"
  obtains q s1 mid where "eid = uuid_at E (sys_next s)"
    and "next_run_sequence (ae_companyId o') (ae_runId o') (s\<lparr>sys_next := Suc (sys_next s)\<rparr>) = (Inr q, s1)"
    and "eid \<notin> ev_id ` set (events (sys_db s1))"
    and "sys_db t = sys_db s1\<lparr>events := events (sys_db s1) @ [new_event E o' eid q],
           outbox_messages := outbox_messages (sys_db s1) @ [new_message E mid (new_event E o' eid q)]\<rparr>"
    and "sys_next t = Suc (sys_next s1)" and "sys_objects t = sys_objects s1" and "sys_calls t = sys_calls s1"
  using assms unfolding DomainEvent_append_def Let_def insert_event_def insert_outbox_def
proof -
  let ?s0 = "s\<lparr>sys_next := Suc (sys_next s)\<rparr>"
  obtain q s1 where q: "next_run_sequence (ae_companyId o') (ae_runId o') ?s0 = (Inr q, s1)"
    and rest: "tx_then (insert_event (new_event E o' (uuid_at E (sys_next s)) q))
        (tx_bind (newId E) (\<lambda>mid. tx_then (insert_outbox (new_message E mid
          (new_event E o' (uuid_at E (sys_next s)) q))) (tx_return (uuid_at E (sys_next s)))))
        s1 = (Inr eid, t)"
    using assms unfolding DomainEvent_append_def Let_def by (elim tx_bind_InrE newId_InrE) (simp only:)
  let ?e = "new_event E o' (uuid_at E (sys_next s)) q"
  obtain u s2 where s2: "insert_event ?e s1 = (Inr u, s2)"
    and rest2: "tx_bind (newId E) (\<lambda>mid. tx_then (insert_outbox (new_message E mid ?e))
      (tx_return (uuid_at E (sys_next s)))) s2 = (Inr eid, t)"
    using rest by (rule tx_then_InrE)
  from rest2 obtain u' where out: "insert_outbox (new_message E (uuid_at E (sys_next s2)) ?e)
      (s2\<lparr>sys_next := Suc (sys_next s2)\<rparr>) = (Inr u', t)" and eid: "eid = uuid_at E (sys_next s)"
    by (elim tx_bind_InrE newId_InrE tx_then_InrE tx_return_InrE) (simp only:)
  show thesis
  proof (rule that [OF eid q])
    show "eid \<notin> ev_id ` set (events (sys_db s1))"
      using s2 eid by (auto elim!: insert_event_InrE simp: new_event_def)
  qed (use s2 out eid in \<open>auto elim!: insert_event_InrE insert_outbox_InrE\<close>)
qed

text \<open>Appending an event keeps the invariant.\<close>

lemma numbered_append_other:
  "ev_run_id e \<noteq> Some (rc_run_id c) \<Longrightarrow> numbered (d\<lparr>events := events d @ [e], outbox_messages := ms\<rparr>) c = numbered d c"
  by (simp add: numbered_def run_events_def)

lemma log_after_append_norun:
  assumes ok: "event_log_ok d" and new: "ev_id e \<notin> ev_id ` set (events d)" and run: "ev_run_id e = None"
    and m: "message_content m = event_content e"
  shows "event_log_ok (d\<lparr>events := events d @ [e], outbox_messages := outbox_messages d @ [m]\<rparr>)"
  using ok new run m by (auto simp: event_log_ok_def numbered_append_other list_all_iff)

lemma log_after_append_run:
  assumes ok: "event_log_ok d" and new: "ev_id e \<notin> ev_id ` set (events d)"
    and c: "c \<in> set (run_event_counters d)"
    and run: "ev_run_id e = Some (rc_run_id c)" and q: "ev_run_sequence e = Some (rc_next_sequence c)"
    and m: "message_content m = event_content e"
  shows "event_log_ok (d\<lparr>run_event_counters :=
            upd_where (\<lambda>x. rc_run_id x = rc_run_id c \<and> rc_company_id x = rc_company_id c)
              (\<lambda>c. c\<lparr>rc_next_sequence := rc_next_sequence c + 1\<rparr>) (run_event_counters d),
          events := events d @ [e], outbox_messages := outbox_messages d @ [m]\<rparr>)"
    (is "event_log_ok ?d'")
proof -
  let ?p = "\<lambda>x. rc_run_id x = rc_run_id c \<and> rc_company_id x = rc_company_id c"
  let ?cs = "upd_where ?p (\<lambda>c. c\<lparr>rc_next_sequence := rc_next_sequence c + 1\<rparr>) (run_event_counters d)"
  have ids: "map rc_run_id ?cs = map rc_run_id (run_event_counters d)"
    by (rule map_upd_where_same) simp
  have dist: "distinct (map rc_run_id (run_event_counters d))"
    and num: "\<And>x. x \<in> set (run_event_counters d) \<Longrightarrow> numbered d x"
    using ok by (auto simp: event_log_ok_def list_all_iff)
  have "numbered ?d' y" if y: "y \<in> set ?cs" for y
  proof -
    from y obtain x where x: "x \<in> set (run_event_counters d)"
      and yx: "y = (if ?p x then x\<lparr>rc_next_sequence := rc_next_sequence x + 1\<rparr> else x)"
      by (rule in_upd_whereE)
    show ?thesis
    proof (cases "rc_run_id x = rc_run_id c")
      case True
      with dist x c have "x = c" by (blast intro: distinct_map_eq)
      then show ?thesis using num [OF c] yx run q by (simp add: numbered_def run_events_def)
    next
      case False
      then show ?thesis using num [OF x] yx run by (simp add: numbered_def run_events_def)
    qed
  qed
  moreover have "rc_run_id c \<in> set (map rc_run_id (run_event_counters d))" using c by simp
  ultimately show ?thesis
    using ok new run m ids by (auto simp: event_log_ok_def list_all_iff simp flip: set_map)
qed

lemma message_new_event: "message_content (new_message E mid e) = event_content e"
  by (simp add: message_content_def new_message_def event_content_def)

lemma append_commits_log [commits_intros]: "commits event_log_ok (DomainEvent_append E opts)"
proof (rule commitsI)
  fix s :: sys and eid t
  assume ok: "event_log_ok (sys_db s)" and r: "DomainEvent_append E opts s = (Inr eid, t)"
  from r obtain q s1 mid where
    q: "next_run_sequence (ae_companyId opts) (ae_runId opts) (s\<lparr>sys_next := Suc (sys_next s)\<rparr>) = (Inr q, s1)"
    and new: "eid \<notin> ev_id ` set (events (sys_db s1))"
    and db: "sys_db t = sys_db s1\<lparr>events := events (sys_db s1) @ [new_event E opts eid q],
        outbox_messages := outbox_messages (sys_db s1) @ [new_message E mid (new_event E opts eid q)]\<rparr>"
    by (rule DomainEvent_append_InrE)
  have cols: "ev_id (new_event E opts eid q) = eid" "ev_run_id (new_event E opts eid q) = ae_runId opts"
    "ev_run_sequence (new_event E opts eid q) = q" by (simp_all add: new_event_def)
  from q show "event_log_ok (sys_db t)"
  proof (cases rule: next_run_sequence_InrE)
    case none
    then show ?thesis
      using log_after_append_norun [OF ok, of "new_event E opts eid q"] new db cols
      by (simp add: message_new_event)
  next
    case (some r c)
    then show ?thesis
      using log_after_append_run [OF ok, of "new_event E opts eid q" c] new db cols
      by (simp add: message_new_event)
  qed
qed

lemmas append_parts = DomainEvent_append_def next_run_sequence_def insert_event_def insert_outbox_def

text \<open>A property of the tables that does not read the log survives the appending of an event.\<close>

lemma append_keeps_frame:
  assumes "\<And>d x. I d \<Longrightarrow> I (d\<lparr>run_event_counters := x\<rparr>)" "\<And>d x. I d \<Longrightarrow> I (d\<lparr>events := x\<rparr>)"
    "\<And>d x. I d \<Longrightarrow> I (d\<lparr>outbox_messages := x\<rparr>)"
  shows "db_keeps I (DomainEvent_append E opts)"
  unfolding append_parts Let_def
  by (intro keeps_intros db_keeps_execute db_keeps_insert assms)

text \<open>The statements of a transaction body that leave the log alone, and the inserts.\<close>

lemma log_commits_execute:
  "(\<And>d. log_part (f d) = log_part d) \<Longrightarrow> commits event_log_ok (execute f)"
  by (rule db_keeps_commits) (rule log_keeps_execute)

lemma log_commits_insert:
  "(\<And>d. log_part (upd d) = log_part d) \<Longrightarrow> commits event_log_ok (insert_row checks upd)"
  by (rule db_keeps_commits) (rule log_keeps_insert)

lemma log_inserts [commits_intros]:
  "commits event_log_ok (insert_founder fo)" "commits event_log_ok (insert_company co)"
  "commits event_log_ok (insert_profile cp)" "commits event_log_ok (insert_initiative ini)"
  "commits event_log_ok (insert_goal_version gv)" "commits event_log_ok (insert_snapshot cs)"
  "commits event_log_ok (insert_run r)" "commits event_log_ok (insert_qualification gq)"
  "commits event_log_ok (insert_budget bl)" "commits event_log_ok (insert_task tk)"
  "commits event_log_ok (insert_attempt at)" "commits event_log_ok (insert_artifact ar)"
  "commits event_log_ok (insert_artifact_version av)" "commits event_log_ok (insert_policy_decision pd)"
  "commits event_log_ok (insert_effect_do_nothing ef)" "commits event_log_ok (insert_wait hw)"
  "commits event_log_ok (insert_answer ca)" "commits event_log_ok (insert_snapshot_answer sa)"
  "commits event_log_ok (insert_invite iv)" "commits event_log_ok (insert_session se)"
  "commits event_log_ok (insert_object ob)" "commits event_log_ok (insert_goal_attachment ga)"
  "commits event_log_ok (insert_grant rg)"
  unfolding insert_founder_def insert_company_def insert_profile_def insert_initiative_def
    insert_goal_version_def insert_snapshot_def insert_run_def insert_qualification_def insert_budget_def
    insert_task_def insert_attempt_def insert_artifact_def insert_artifact_version_def
    insert_policy_decision_def insert_effect_do_nothing_def insert_wait_def insert_answer_def
    insert_snapshot_answer_def insert_invite_def insert_session_def insert_object_def
    insert_goal_attachment_def insert_grant_def
  by (intro commits_intros log_commits_insert; simp add: log_part_def)+

text \<open>A run starts its log with an empty sequence.\<close>

lemma log_counter [commits_intros]: "rc_next_sequence c = 1 \<Longrightarrow> commits event_log_ok (insert_counter c)"
  unfolding insert_counter_def
  by (rule commits_insert)
    (auto simp: event_log_ok_def numbered_def run_events_def list_all_iff absent_def filter_empty_conv, fastforce)

text \<open>Appending an event touches no other table, and adds one event at the end of the log.\<close>

lemma append_shape:
  assumes r: "DomainEvent_append E opts s = (Inr eid, t)"
  obtains cs q ms where "sys_db t = sys_db s\<lparr>run_event_counters := cs,
      events := events (sys_db s) @ [new_event E opts eid q], outbox_messages := ms\<rparr>"
    and "sys_objects t = sys_objects s" and "sys_calls t = sys_calls s" and "sys_next s < sys_next t"
proof -
  from r obtain q s1 mid where
    q: "next_run_sequence (ae_companyId opts) (ae_runId opts) (s\<lparr>sys_next := Suc (sys_next s)\<rparr>) = (Inr q, s1)"
    and db: "sys_db t = sys_db s1\<lparr>events := events (sys_db s1) @ [new_event E opts eid q],
        outbox_messages := outbox_messages (sys_db s1) @ [new_message E mid (new_event E opts eid q)]\<rparr>"
    and rest: "sys_objects t = sys_objects s1" "sys_calls t = sys_calls s1" "sys_next t = Suc (sys_next s1)"
    by (rule DomainEvent_append_InrE)
  from q obtain cs where "sys_db s1 = sys_db s\<lparr>run_event_counters := cs\<rparr>"
    and "sys_objects s1 = sys_objects s" "sys_calls s1 = sys_calls s" "sys_next s1 = Suc (sys_next s)"
  proof (cases rule: next_run_sequence_InrE)
    case none
    show thesis by (rule that [of "run_event_counters (sys_db s)"]) (simp_all add: none)
  next
    case (some r c)
    show thesis by (rule that) (simp_all add: some)
  qed
  with db rest show thesis by (intro that) simp_all
qed

lemma event_sequence_fresh:
  assumes "event_log_ok d" and "c \<in> set (run_event_counters d)" and "e \<in> set (events d)"
    and "ev_run_id e = Some (rc_run_id c)"
  shows "ev_run_sequence e \<noteq> Some (rc_next_sequence c)"
proof -
  have "map ev_run_sequence (run_events (rc_run_id c) d) = map Some [1..<rc_next_sequence c]"
    using assms(1,2) by (auto simp: event_log_ok_def list_all_iff numbered_def)
  moreover have "ev_run_sequence e \<in> set (map ev_run_sequence (run_events (rc_run_id c) d))"
    using assms(3,4) by (simp add: run_events_def)
  ultimately show ?thesis by auto
qed

text \<open>Appending an event of a run succeeds when the ids are fresh and the rows it refers to exist.\<close>

definition appended :: "env \<Rightarrow> append_options \<Rightarrow> uuid \<Rightarrow> counter_row \<Rightarrow> sys \<Rightarrow> sys" where
  "appended E opts rid c s =
     (let e = new_event E opts (uuid_at E (sys_next s)) (Some (rc_next_sequence c)); d = sys_db s
      in s\<lparr>sys_next := Suc (Suc (sys_next s)), sys_db := d\<lparr>
           run_event_counters := upd_where (\<lambda>c. rc_run_id c = rid \<and> rc_company_id c = ae_companyId opts)
             (\<lambda>c. c\<lparr>rc_next_sequence := rc_next_sequence c + 1\<rparr>) (run_event_counters d),
           events := events d @ [e],
           outbox_messages := outbox_messages d @ [new_message E (uuid_at E (Suc (sys_next s))) e]\<rparr>\<rparr>)"

lemma log_message_events: "event_log_ok d \<Longrightarrow> map om_event_id (outbox_messages d) = map ev_id (events d)"
proof -
  assume "event_log_ok d"
  then have "map fst (map message_content (outbox_messages d)) = map fst (map event_content (events d))"
    by (simp only: event_log_ok_def)
  then show ?thesis by (simp add: comp_def message_content_def event_content_def)
qed

lemma append_runs:
  assumes log: "event_log_ok (sys_db s)" and run: "ae_runId opts = Some rid"
    and c: "c \<in> set (run_event_counters (sys_db s))" "rc_run_id c = rid" "rc_company_id c = ae_companyId opts"
    and co: "present co_id (ae_companyId opts) (companies (sys_db s))"
    and r: "present (\<lambda>x. (r_company_id x, r_id x)) (ae_companyId opts, rid) (runs (sys_db s))"
    and fresh: "uuid_at E (sys_next s) \<notin> ev_id ` set (events (sys_db s))"
      "uuid_at E (Suc (sys_next s)) \<notin> om_id ` set (outbox_messages (sys_db s))"
  shows "DomainEvent_append E opts s = (Inr (uuid_at E (sys_next s)), appended E opts rid c s)"
proof -
  let ?e = "uuid_at E (sys_next s)"
  have dist: "distinct (map rc_run_id (run_event_counters (sys_db s)))"
    using log by (simp add: event_log_ok_def)
  have find: "find (\<lambda>x. rc_run_id x = rid \<and> rc_company_id x = ae_companyId opts)
      (run_event_counters (sys_db s)) = Some c"
    by (rule find_unique [OF dist]) (use c in auto)
  have seq: "absent (\<lambda>x. (ev_run_id x, ev_run_sequence x)) (Some rid, Some (rc_next_sequence c)) (events (sys_db s))"
    using event_sequence_fresh [OF log c(1)] c(2) by (auto simp: absent_def)
  have ms: "map om_event_id (outbox_messages (sys_db s)) = map ev_id (events (sys_db s))"
    by (rule log_message_events [OF log])
  have "?e \<notin> om_event_id ` set (outbox_messages (sys_db s))"
    using fresh(1) ms by (metis list.set_map)
  then have a: "absent ev_id ?e (events (sys_db s))" "absent om_event_id ?e (outbox_messages (sys_db s))"
    "absent om_id (uuid_at E (Suc (sys_next s))) (outbox_messages (sys_db s))"
    using fresh by (simp_all add: absent_image)
  show ?thesis
    using a find seq co r
    by (simp add: DomainEvent_append_def Let_def tx_bind_def tx_then_def newId_apply next_run_sequence_def run
        query_apply execute_apply tx_require_def tx_return_def insert_event_def insert_outbox_def
        insert_row_def new_event_def new_message_def appended_def present_image)
qed

lemma append_succeeds:
  assumes "event_log_ok (sys_db s)" and "ae_runId opts = Some rid"
    and "c \<in> set (run_event_counters (sys_db s))" "rc_run_id c = rid" "rc_company_id c = ae_companyId opts"
    and "present co_id (ae_companyId opts) (companies (sys_db s))"
    and "present (\<lambda>x. (r_company_id x, r_id x)) (ae_companyId opts, rid) (runs (sys_db s))"
    and "uuid_at E (sys_next s) \<notin> ev_id ` set (events (sys_db s))"
      "uuid_at E (Suc (sys_next s)) \<notin> om_id ` set (outbox_messages (sys_db s))"
  shows "\<exists>t. DomainEvent_append E opts s = (Inr (uuid_at E (sys_next s)), t)"
  using append_runs [OF assms] by blast

text \<open>An event of a company that belongs to no run needs only the company and new identifiers.\<close>

definition appended_company :: "env \<Rightarrow> append_options \<Rightarrow> sys \<Rightarrow> sys" where
  "appended_company E opts s =
     (let e = new_event E opts (uuid_at E (sys_next s)) None; d = sys_db s
      in s\<lparr>sys_next := Suc (Suc (sys_next s)), sys_db := d\<lparr>events := events d @ [e],
           outbox_messages := outbox_messages d @ [new_message E (uuid_at E (Suc (sys_next s))) e]\<rparr>\<rparr>)"

lemma append_company_runs:
  assumes log: "event_log_ok (sys_db s)" and run: "ae_runId opts = None"
    and co: "present co_id (ae_companyId opts) (companies (sys_db s))"
    and fresh: "uuid_at E (sys_next s) \<notin> ev_id ` set (events (sys_db s))"
      "uuid_at E (Suc (sys_next s)) \<notin> om_id ` set (outbox_messages (sys_db s))"
  shows "DomainEvent_append E opts s = (Inr (uuid_at E (sys_next s)), appended_company E opts s)"
proof -
  have "uuid_at E (sys_next s) \<notin> om_event_id ` set (outbox_messages (sys_db s))"
    using fresh(1) log_message_events [OF log] by (metis list.set_map)
  with fresh have a: "absent ev_id (uuid_at E (sys_next s)) (events (sys_db s))"
    "absent om_event_id (uuid_at E (sys_next s)) (outbox_messages (sys_db s))"
    "absent om_id (uuid_at E (Suc (sys_next s))) (outbox_messages (sys_db s))"
    by (simp_all add: absent_image)
  show ?thesis
    using a co
    by (simp add: DomainEvent_append_def Let_def tx_bind_def tx_then_def newId_apply next_run_sequence_def run
        tx_return_def insert_event_def insert_outbox_def insert_row_def new_event_def new_message_def
        appended_company_def present_image)
qed

section \<open>Commands\<close>

record command_options =
  cx_actorId :: uuid
  cx_operation :: string
  cx_idempotencyKey :: uuid
  cx_request :: json
  cx_execute :: "(int \<times> json) call"

record command_result =
  cr_status :: int
  cr_body :: json
  cr_replayed :: bool

definition idempotency_key_reused :: exn where
  "idempotency_key_reused = Domain (DomainError 409 ''idempotency_key_reused''
     ''Use a new Idempotency-Key for a different command body.''
     (Some ''The idempotency key was already used'') (Some [''use_new_idempotency_key'']) None)"

text \<open>The record of a command that is being processed, with the defaults of its columns.\<close>

definition new_idempotency_record :: "env \<Rightarrow> command_options \<Rightarrow> uuid \<Rightarrow> string \<Rightarrow> idempotency_row" where
  "new_idempotency_record E options rid requestDigest =
     \<lparr>ik_id = rid, ik_actor_id = cx_actorId options, ik_operation = cx_operation options,
      ik_idempotency_key = cx_idempotencyKey options, ik_request_digest = requestDigest,
      ik_state = K_PROCESSING, ik_response_status = None, ik_response_body = None,
      ik_created_at = now_ms E, ik_completed_at = None,
      ik_expires_at = now_ms E + 24 * 3600000\<rparr>"

definition command_key :: "command_options \<Rightarrow> uuid \<times> string \<times> uuid" where
  "command_key options = (cx_actorId options, cx_operation options, cx_idempotencyKey options)"

definition find_record :: "command_options \<Rightarrow> db \<Rightarrow> idempotency_row option" where
  "find_record options d = find (\<lambda>r. ik_key r = command_key options) (idempotency_records d)"

text \<open>\<open>record.state === 'COMPLETED' && record.response_status && record.response_body\<close>.\<close>

definition stored_response :: "idempotency_row \<Rightarrow> command_result option" where
  "stored_response r =
     (case (ik_state r, ik_response_status r, ik_response_body r) of
        (K_COMPLETED, Some status, Some body) \<Rightarrow>
          if status = 0 \<or> body = JNull then None
          else Some \<lparr>cr_status = status, cr_body = body, cr_replayed = True\<rparr>
      | _ \<Rightarrow> None)"

definition complete_record :: "env \<Rightarrow> command_options \<Rightarrow> int \<Rightarrow> json \<Rightarrow> db \<Rightarrow> db" where
  "complete_record E options status body d = d\<lparr>idempotency_records :=
     upd_where (\<lambda>r. ik_key r = command_key options)
       (\<lambda>r. r\<lparr>ik_state := K_COMPLETED, ik_response_status := Some status,
              ik_response_body := Some body, ik_completed_at := Some (now_ms E)\<rparr>)
       (idempotency_records d)\<rparr>"

definition CommandExecutor_run :: "env \<Rightarrow> command_options \<Rightarrow> command_result call" where
  "CommandExecutor_run E options = transaction (
     let requestDigest = canonicalDigest E (cx_request options)
     in tx_bind (newId E) (\<lambda>rid.
        tx_then (insert_idempotency_do_nothing (new_idempotency_record E options rid requestDigest))
        (tx_bind (query (find_record options)) (\<lambda>rows.
         tx_bind (tx_require (JsError ''Cannot read properties of undefined'') rows) (\<lambda>r.
           if ik_request_digest r \<noteq> requestDigest then tx_throw idempotency_key_reused
           else case stored_response r of
              Some replay \<Rightarrow> tx_return replay
            | None \<Rightarrow>
                tx_bind (cx_execute options) (\<lambda>(status, body).
                tx_then (execute (complete_record E options status body))
                (tx_return \<lparr>cr_status = status, cr_body = body, cr_replayed = False\<rparr>)))))))"

text \<open>What the executor does when the key already has a record, and when it has none.\<close>

lemma find_record_present:
  "find_record opts d = Some r \<Longrightarrow> \<not> absent ik_key (command_key opts) (idempotency_records d)"
  by (auto simp: find_record_def absent_def dest: find_SomeD)

lemma ik_key_new: "ik_key (new_idempotency_record E opts rid dg) = command_key opts"
  by (simp add: ik_key_def new_idempotency_record_def command_key_def)

lemma run_existing:
  assumes "find_record opts (sys_db s) = Some r"
  shows "CommandExecutor_run E opts s = transaction (
     \<lambda>_. (if ik_request_digest r \<noteq> canonicalDigest E (cx_request opts) then tx_throw idempotency_key_reused
       else case stored_response r of
              Some replay \<Rightarrow> tx_return replay
            | None \<Rightarrow>
                tx_bind (cx_execute opts) (\<lambda>(status, body).
                tx_then (execute (complete_record E opts status body))
                (tx_return \<lparr>cr_status = status, cr_body = body, cr_replayed = False\<rparr>)))
     (s\<lparr>sys_next := Suc (sys_next s)\<rparr>)) s"
proof -
  have "insert_idempotency_do_nothing (new_idempotency_record E opts rid dg) s' = (Inr (), s')"
    if "sys_db s' = sys_db s" for rid dg and s' :: sys
    using find_record_present [OF assms] that
    by (simp add: insert_idempotency_do_nothing_def tx_bind_def query_apply ik_key_new tx_when_def tx_return_def)
  then show ?thesis
    unfolding CommandExecutor_run_def transaction_def Let_def
    using assms by (simp add: tx_bind_def newId_apply tx_then_def query_apply tx_require_def tx_return_def)
qed

text \<open>A record that a completed command left is replayed as it is.\<close>

lemma run_replays:
  assumes "find_record opts (sys_db s) = Some r"
    and "ik_request_digest r = canonicalDigest E (cx_request opts)" and "stored_response r = Some replay"
  shows "CommandExecutor_run E opts s = (Inr replay, s\<lparr>sys_next := Suc (sys_next s)\<rparr>)"
  unfolding run_existing [OF assms(1)] using assms(2,3) by (simp add: transaction_def tx_return_def)

lemma stored_response_replayed: "stored_response r = Some p \<Longrightarrow> cr_replayed p"
  by (auto simp: stored_response_def split: record_state.splits option.splits if_splits)

text \<open>After a normal return the record of the key holds the request's digest and the response.\<close>

lemma insert_idempotency_InrE:
  assumes "insert_idempotency_do_nothing r s = (Inr u, t)"
  obtains (kept) "\<not> absent ik_key (ik_key r) (idempotency_records (sys_db s))" "t = s"
  | (added) "absent ik_key (ik_key r) (idempotency_records (sys_db s))"
      "t = s\<lparr>sys_db := sys_db s\<lparr>idempotency_records := idempotency_records (sys_db s) @ [r]\<rparr>\<rparr>"
  using assms unfolding insert_idempotency_do_nothing_def
  by (elim tx_bind_InrE query_InrE) (auto simp: tx_when_apply elim!: insert_row_InrE split: if_splits)

lemma find_complete_record:
  "find_record opts (complete_record E opts status body d) =
     map_option (\<lambda>r. r\<lparr>ik_state := K_COMPLETED, ik_response_status := Some status,
       ik_response_body := Some body, ik_completed_at := Some (now_ms E)\<rparr>) (find_record opts d)"
proof -
  have "find (\<lambda>r. ik_key r = k) (upd_where (\<lambda>r. ik_key r = k)
      (\<lambda>r. r\<lparr>ik_state := K_COMPLETED, ik_response_status := Some status,
         ik_response_body := Some body, ik_completed_at := Some (now_ms E)\<rparr>) rs) =
    map_option (\<lambda>r. r\<lparr>ik_state := K_COMPLETED, ik_response_status := Some status,
       ik_response_body := Some body, ik_completed_at := Some (now_ms E)\<rparr>)
      (find (\<lambda>r. ik_key r = k) rs)" for k rs
    by (induction rs) (auto simp: ik_key_def)
  then show ?thesis by (simp add: find_record_def complete_record_def)
qed

lemma run_leaves_record:
  assumes run: "CommandExecutor_run E opts s = (Inr r, t)"
    and frame: "untouched idempotency_records (cx_execute opts)"
    and real: "cr_status r \<noteq> 0" "cr_body r \<noteq> JNull"
  obtains rec where "find_record opts (sys_db t) = Some rec"
    and "ik_request_digest rec = canonicalDigest E (cx_request opts)"
    and "stored_response rec = Some (r\<lparr>cr_replayed := True\<rparr>)"
proof -
  let ?dg = "canonicalDigest E (cx_request opts)"
  from run obtain s1 rec where rec: "find_record opts (sys_db s1) = Some rec"
    and rest: "(if ik_request_digest rec \<noteq> ?dg then tx_throw idempotency_key_reused
           else case stored_response rec of
              Some replay \<Rightarrow> tx_return replay
            | None \<Rightarrow>
                tx_bind (cx_execute opts) (\<lambda>(status, body).
                tx_then (execute (complete_record E opts status body))
                (tx_return \<lparr>cr_status = status, cr_body = body, cr_replayed = False\<rparr>))) s1 = (Inr r, t)"
    unfolding CommandExecutor_run_def Let_def
    by (elim transaction_InrE tx_bind_InrE newId_InrE tx_then_InrE query_InrE tx_require_InrE) (simp only:)
  from rest have dg: "ik_request_digest rec = ?dg"
    by (simp add: tx_throw_def split: if_splits)
  show thesis
  proof (cases "stored_response rec")
    case (Some p)
    with rest dg have "p = r" "t = s1" by (auto simp: tx_return_def)
    moreover from Some have "cr_replayed p" by (rule stored_response_replayed)
    ultimately show thesis using that [of rec] rec dg Some by simp
  next
    case None
    with rest dg obtain status body s2 where ex: "cx_execute opts s1 = (Inr (status, body), s2)"
      and t: "t = s2\<lparr>sys_db := complete_record E opts status body (sys_db s2)\<rparr>"
      and r: "r = \<lparr>cr_status = status, cr_body = body, cr_replayed = False\<rparr>"
      by (auto elim!: tx_bind_InrE tx_then_InrE execute_InrE tx_return_InrE)
    from untouchedD [OF frame ex] rec have "find_record opts (sys_db s2) = Some rec"
      by (simp add: find_record_def)
    with that [of "rec\<lparr>ik_state := K_COMPLETED, ik_response_status := Some status,
       ik_response_body := Some body, ik_completed_at := Some (now_ms E)\<rparr>"] t r dg real
    show thesis by (simp add: find_complete_record stored_response_def)
  qed
qed

text \<open>
  C9. A command is executed once per actor, operation and idempotency key. After it returned a
  response, running a command with the same key and a request with the same digest returns that
  response again, marked as replayed, and changes no table, whatever other commands ran in
  between, as long as the record of the key is still there; the body is not run a second time
  (the statement holds for every body of the second command).
\<close>

theorem idempotent_replay:
  assumes "CommandExecutor_run E opts s = (Inr r, t)"
    and "untouched idempotency_records (cx_execute opts)"
    and "cr_status r \<noteq> 0" and "cr_body r \<noteq> JNull"
    and "command_key again = command_key opts"
    and "canonicalDigest E' (cx_request again) = canonicalDigest E (cx_request opts)"
    and "find_record opts (sys_db u) = find_record opts (sys_db t)"
  shows "CommandExecutor_run E' again u =
    (Inr (r\<lparr>cr_replayed := True\<rparr>), u\<lparr>sys_next := Suc (sys_next u)\<rparr>)"
proof -
  obtain rec where rec: "find_record opts (sys_db t) = Some rec"
    and dg: "ik_request_digest rec = canonicalDigest E (cx_request opts)"
    and st: "stored_response rec = Some (r\<lparr>cr_replayed := True\<rparr>)"
    by (rule run_leaves_record [OF assms(1-4)])
  have "find_record again (sys_db u) = Some rec"
    using rec assms(5,7) by (simp add: find_record_def)
  then show ?thesis using dg assms(6) st by (intro run_replays) simp_all
qed

text \<open>A command of the sample founder: its body returns a resource and touches no table.\<close>

definition sample_command :: "json \<Rightarrow> command_options" where
  "sample_command request = \<lparr>cx_actorId = sample_id 1, cx_operation = ''resources.create'',
     cx_idempotencyKey = sample_id 9, cx_request = request,
     cx_execute = tx_return (201, JObj [(''id'', JNum 1)])\<rparr>"

lemma sample_command_runs:
  "\<exists>t. CommandExecutor_run sample_env (sample_command JNull) sample_sys =
     (Inr \<lparr>cr_status = 201, cr_body = JObj [(''id'', JNum 1)], cr_replayed = False\<rparr>, t)"
  by (simp add: CommandExecutor_run_def Let_def tx_run sample_state insert_idempotency_do_nothing_def
      new_idempotency_record_def sample_command_def find_record_def ik_key_def command_key_def stored_response_def)

theorem idempotent_replay_witness:
  "\<exists>t. CommandExecutor_run sample_env (sample_command JNull) sample_sys =
     (Inr \<lparr>cr_status = 201, cr_body = JObj [(''id'', JNum 1)], cr_replayed = False\<rparr>, t) \<and>
   CommandExecutor_run sample_env (sample_command JNull) t =
     (Inr \<lparr>cr_status = 201, cr_body = JObj [(''id'', JNum 1)], cr_replayed = True\<rparr>, t\<lparr>sys_next := Suc (sys_next t)\<rparr>)"
proof -
  from sample_command_runs obtain t where t: "CommandExecutor_run sample_env (sample_command JNull) sample_sys =
     (Inr \<lparr>cr_status = 201, cr_body = JObj [(''id'', JNum 1)], cr_replayed = False\<rparr>, t)" by blast
  have "untouched idempotency_records (cx_execute (sample_command JNull))"
    unfolding sample_command_def untouched_def by (auto intro: keeps_intros)
  from idempotent_replay [OF t this _ _ refl refl refl] t show ?thesis by simp
qed

text \<open>
  C10. A key that was used for a different request is refused: the command fails with 409
  \<open>idempotency_key_reused\<close> before its body runs, and the tables are as they were.
\<close>

theorem idempotency_key_reuse_refused:
  assumes "find_record opts (sys_db s) = Some r"
    and "ik_request_digest r \<noteq> canonicalDigest E (cx_request opts)"
  shows "CommandExecutor_run E opts s = (Inl idempotency_key_reused, s\<lparr>sys_next := Suc (sys_next s)\<rparr>)"
  unfolding run_existing [OF assms(1)] using assms(2) by (simp add: transaction_def tx_throw_def)

theorem idempotency_key_reuse_refused_witness:
  "\<exists>r. fst (CommandExecutor_run sample_env (sample_command JNull) (sample_sys\<lparr>sys_db :=
      sample_db\<lparr>idempotency_records := [r]\<rparr>\<rparr>)) = Inl idempotency_key_reused"
proof -
  let ?r = "new_idempotency_record sample_env (sample_command JNull) (sample_id 10) ''other request''"
  let ?s = "sample_sys\<lparr>sys_db := sample_db\<lparr>idempotency_records := [?r]\<rparr>\<rparr>"
  have f: "find_record (sample_command JNull) (sys_db ?s) = Some ?r"
    by (simp add: find_record_def ik_key_new)
  have "ik_request_digest ?r \<noteq> canonicalDigest sample_env (cx_request (sample_command JNull))"
  proof
    assume "ik_request_digest ?r = canonicalDigest sample_env (cx_request (sample_command JNull))"
    then have "length (ik_request_digest ?r) = 64" by simp
    then show False by (simp add: new_idempotency_record_def)
  qed
  from idempotency_key_reuse_refused [OF f this] show ?thesis by (intro exI [of _ ?r]) simp
qed

section \<open>The two ways a command returns\<close>

text \<open>
  A command that returns either replays a stored response and leaves the tables as they are, or it
  ran its body, on tables that differ from the given ones in the idempotency records only.
\<close>

lemma find_new_record:
  assumes "absent ik_key (command_key opts) (idempotency_records d)"
  shows "find_record opts (d\<lparr>idempotency_records := idempotency_records d @
      [new_idempotency_record E opts rid dg]\<rparr>) = Some (new_idempotency_record E opts rid dg)"
proof -
  have "find p (ws @ [w]) = Some w" if "find p ws = None" "p w" for p ws and w :: idempotency_row
    using that by (induction ws) (auto split: if_splits)
  moreover have "find (\<lambda>r. ik_key r = command_key opts) (idempotency_records d) = None"
    using assms by (auto simp: absent_def find_None_iff)
  ultimately show ?thesis by (simp add: find_record_def ik_key_new)
qed

lemma CommandExecutor_run_InrE:
  assumes run: "CommandExecutor_run E opts s = (Inr r, t)"
  obtains (replayed) "cr_replayed r" "sys_db t = sys_db s"
  | (executed) rs n s2 where "cx_execute opts (s\<lparr>sys_next := n, sys_db := sys_db s\<lparr>idempotency_records := rs\<rparr>\<rparr>) =
        (Inr (cr_status r, cr_body r), s2)"
      "t = s2\<lparr>sys_db := complete_record E opts (cr_status r) (cr_body r) (sys_db s2)\<rparr>" "\<not> cr_replayed r"
proof -
  let ?dg = "canonicalDigest E (cx_request opts)"
  let ?new = "new_idempotency_record E opts (uuid_at E (sys_next s)) ?dg"
  let ?s0 = "s\<lparr>sys_next := Suc (sys_next s)\<rparr>"
  from run obtain u s1 rec where ins: "insert_idempotency_do_nothing ?new ?s0 = (Inr u, s1)"
    and rec: "find_record opts (sys_db s1) = Some rec"
    and rest: "(if ik_request_digest rec \<noteq> ?dg then tx_throw idempotency_key_reused
           else case stored_response rec of
              Some replay \<Rightarrow> tx_return replay
            | None \<Rightarrow>
                tx_bind (cx_execute opts) (\<lambda>(status, body).
                tx_then (execute (complete_record E opts status body))
                (tx_return \<lparr>cr_status = status, cr_body = body, cr_replayed = False\<rparr>))) s1 = (Inr r, t)"
    unfolding CommandExecutor_run_def Let_def
    by (elim transaction_InrE tx_bind_InrE newId_InrE tx_then_InrE query_InrE tx_require_InrE) (simp only:)
  obtain rs where s1: "s1 = ?s0\<lparr>sys_db := sys_db s\<lparr>idempotency_records := rs\<rparr>\<rparr>"
    and same: "stored_response rec \<noteq> None \<Longrightarrow> rs = idempotency_records (sys_db s)"
    using ins
  proof (cases rule: insert_idempotency_InrE)
    case kept
    show thesis by (rule that [of "idempotency_records (sys_db s)"]) (simp_all add: kept)
  next
    case added
    then have "rec = ?new" using rec by (simp add: ik_key_new find_new_record)
    then show thesis
      by (intro that [of "idempotency_records (sys_db s) @ [?new]"])
        (simp_all add: added stored_response_def new_idempotency_record_def)
  qed
  from rest have dg: "ik_request_digest rec = ?dg" by (simp add: tx_throw_def split: if_splits)
  show thesis
  proof (cases "stored_response rec")
    case (Some p)
    with rest dg have "p = r" "t = s1" by (auto simp: tx_return_def)
    then show thesis
      using replayed stored_response_replayed [of rec] Some s1 same by simp
  next
    case None
    with rest dg obtain status body s2 where ex: "cx_execute opts s1 = (Inr (status, body), s2)"
      and t: "t = s2\<lparr>sys_db := complete_record E opts status body (sys_db s2)\<rparr>"
      and r: "r = \<lparr>cr_status = status, cr_body = body, cr_replayed = False\<rparr>"
      by (auto elim!: tx_bind_InrE tx_then_InrE execute_InrE tx_return_InrE)
    show thesis by (rule executed [of rs "Suc (sys_next s)" s2]) (use ex t r s1 in simp_all)
  qed
qed

text \<open>A command whose key is new runs its body, and returns when the body does.\<close>

lemma CommandExecutor_run_new:
  assumes "absent ik_key (command_key opts) (idempotency_records (sys_db s))"
    and "absent ik_id (uuid_at E (sys_next s)) (idempotency_records (sys_db s))"
    and "present fo_id (cx_actorId opts) (founders (sys_db s))"
    and "cx_execute opts (s\<lparr>sys_next := Suc (sys_next s), sys_db := sys_db s\<lparr>idempotency_records :=
        idempotency_records (sys_db s) @ [new_idempotency_record E opts (uuid_at E (sys_next s))
          (canonicalDigest E (cx_request opts))]\<rparr>\<rparr>) = (Inr (status, body), s2)"
  shows "CommandExecutor_run E opts s =
    (Inr \<lparr>cr_status = status, cr_body = body, cr_replayed = False\<rparr>,
     s2\<lparr>sys_db := complete_record E opts status body (sys_db s2)\<rparr>)"
proof -
  let ?new = "new_idempotency_record E opts (uuid_at E (sys_next s)) (canonicalDigest E (cx_request opts))"
  have new: "ik_id ?new = uuid_at E (sys_next s)" "ik_actor_id ?new = cx_actorId opts"
    "ik_request_digest ?new = canonicalDigest E (cx_request opts)" "stored_response ?new = None"
    by (simp_all add: new_idempotency_record_def stored_response_def)
  show ?thesis
    using assms new
    by (simp add: CommandExecutor_run_def Let_def transaction_def tx_bind_def tx_then_def newId_apply query_apply
        insert_idempotency_do_nothing_def ik_key_new tx_when_def insert_row_def find_new_record tx_require_def
        tx_return_def execute_apply)
qed

text \<open>When the body throws, the command throws the same and the tables are as they were.\<close>

lemma CommandExecutor_run_fails:
  assumes "absent ik_key (command_key opts) (idempotency_records (sys_db s))"
    and "absent ik_id (uuid_at E (sys_next s)) (idempotency_records (sys_db s))"
    and "present fo_id (cx_actorId opts) (founders (sys_db s))"
    and "cx_execute opts (s\<lparr>sys_next := Suc (sys_next s), sys_db := sys_db s\<lparr>idempotency_records :=
        idempotency_records (sys_db s) @ [new_idempotency_record E opts (uuid_at E (sys_next s))
          (canonicalDigest E (cx_request opts))]\<rparr>\<rparr>) = (Inl e, s2)"
  shows "CommandExecutor_run E opts s = (Inl e, s2\<lparr>sys_db := sys_db s\<rparr>)"
proof -
  let ?new = "new_idempotency_record E opts (uuid_at E (sys_next s)) (canonicalDigest E (cx_request opts))"
  have new: "ik_id ?new = uuid_at E (sys_next s)" "ik_actor_id ?new = cx_actorId opts"
    "ik_request_digest ?new = canonicalDigest E (cx_request opts)" "stored_response ?new = None"
    by (simp_all add: new_idempotency_record_def stored_response_def)
  show ?thesis
    using assms new
    by (simp add: CommandExecutor_run_def Let_def transaction_def tx_bind_def tx_then_def newId_apply query_apply
        insert_idempotency_do_nothing_def ik_key_new tx_when_def insert_row_def find_new_record tx_require_def
        tx_return_def execute_apply)
qed

section \<open>The contract of a command body\<close>

text \<open>
  A service hands the executor a body. The contract: whenever the body returns normally, the
  invariant \<open>I\<close> of the tables holds again, and \<open>I\<close> does not speak of the idempotency records,
  which the executor owns. Then every command of the service keeps \<open>I\<close>, whether it is executed,
  replayed, refused or fails.
\<close>

locale command_body =
  fixes I :: "db \<Rightarrow> bool" and body :: "'p \<Rightarrow> (int \<times> json) call"
  assumes body_commits: "commits I (body p)"
    and records_free: "I d \<Longrightarrow> I (d\<lparr>idempotency_records := rs\<rparr>)"
begin

lemma insert_record_commits: "commits I (insert_idempotency_do_nothing r)"
proof (rule commitsI)
  fix s :: sys and x t
  assume I: "I (sys_db s)" and "insert_idempotency_do_nothing r s = (Inr x, t)"
  from this(2) show "I (sys_db t)"
    by (cases rule: insert_idempotency_InrE) (use I in \<open>simp_all add: records_free\<close>)
qed

lemma complete_record_commits: "commits I (execute (complete_record E opts status b))"
  by (rule commits_execute) (simp add: complete_record_def records_free)

lemma command_keeps: "cx_execute opts = body p \<Longrightarrow> db_keeps I (CommandExecutor_run E opts)"
  unfolding CommandExecutor_run_def Let_def
  by (intro commits_transaction commits_intros insert_record_commits complete_record_commits)
    (simp add: body_commits)

end

text \<open>The event log is such an invariant: it does not read the idempotency records.\<close>

lemma event_log_records_free: "event_log_ok d \<Longrightarrow> event_log_ok (d\<lparr>idempotency_records := rs\<rparr>)"
  by (simp add: log_part_def event_log_ok_cong [of "d\<lparr>idempotency_records := rs\<rparr>" d])

end
