(* ===== verification/Durable_Wait.thy ===== *)
theory Durable_Wait
  imports Governance Reachability "HOL-Library.List_Lexorder" "HOL-Library.Char_ord" "HOL-Library.Product_Lexorder"
begin

text \<open>
  \<open>src/modules/durability-spike/durable-wait-spike.service.ts\<close>: a run is suspended on a human wait
  (\<open>open\<close>), resumed by one answer (\<open>answer\<close>, a command) or canceled with its wait
  (\<open>cancelFixture\<close>); \<open>inspect\<close>, \<open>eventEffect\<close> and \<open>appendConcurrentEvents\<close> are the probes of the
  durability tests. The waits have an invariant: the resolution columns of a wait agree with its
  status, and a run has at most one open wait.
\<close>

section \<open>Inputs\<close>

record open_wait_input =
  ow_actorId :: uuid
  ow_companyId :: uuid
  ow_runId :: uuid
  ow_taskId :: uuid
  ow_correlationId :: uuid
  ow_expectedRunVersion :: int
  ow_injectRollback :: bool

record answer_wait_input =
  aw_actorId :: uuid
  aw_companyId :: uuid
  aw_runId :: uuid
  aw_waitId :: uuid
  aw_requestId :: uuid
  aw_requestVersion :: int
  aw_workflowVersion :: string
  aw_expectedRunVersion :: int
  aw_schemaId :: string
  aw_schemaVersion :: string
  aw_content :: json
  aw_idempotencyKey :: uuid
  aw_correlationId :: uuid

section \<open>Locks and guards\<close>

definition wait_conflict :: "string \<Rightarrow> exn" where
  "wait_conflict code = Domain (DomainError 409 code
     ''The persisted durability-spike state does not permit this transition.''
     None (Some [''refresh_resource'']) None)"

definition assertAnswerShape :: "answer_wait_input \<Rightarrow> exn + unit" where
  "assertAnswerShape input =
     (if aw_schemaId input \<noteq> ''durable-wait-response'' \<or> aw_schemaVersion input \<noteq> ''1.0'' \<or>
         json_get ''decision'' (aw_content input) \<noteq> Some (JStr ''CONTINUE'') \<or>
         (case json_get ''note'' (aw_content input) of
            Some (JStr note) \<Rightarrow> length note < 1 \<or> 200 < length note
          | _ \<Rightarrow> True)
      then Inl (Domain (DomainError 400 ''validation_failed''
        ''The durability response does not match durable-wait-response/1.0.'' None None None))
      else Inr ())"

definition assertFounder :: "uuid \<Rightarrow> uuid \<Rightarrow> unit call" where
  "assertFounder companyId actorId =
     tx_bind (query (\<lambda>d. find (\<lambda>c. co_id c = companyId \<and> co_founder_id c = actorId) (companies d))) (\<lambda>row.
     tx_then (tx_require (Domain (DomainError 404 ''resource_not_found''
        ''The requested resource does not exist.'' None None None)) row)
     (tx_return ()))"

definition lockRun :: "uuid \<Rightarrow> uuid \<Rightarrow> run_row call" where
  "lockRun companyId runId =
     tx_bind (query (\<lambda>d. find (\<lambda>r. r_company_id r = companyId \<and> r_id r = runId) (runs d)))
       (tx_require (wait_conflict ''run_missing''))"

definition lockTask :: "uuid \<Rightarrow> uuid \<Rightarrow> uuid \<Rightarrow> task_row call" where
  "lockTask companyId runId taskId =
     tx_bind (query (\<lambda>d. find (\<lambda>t. t_company_id t = companyId \<and> t_run_id t = runId \<and> t_id t = taskId) (tasks d)))
       (tx_require (wait_conflict ''task_missing''))"

definition lockWait :: "uuid \<Rightarrow> uuid \<Rightarrow> uuid \<Rightarrow> wait_row call" where
  "lockWait companyId runId waitId =
     tx_bind (query (\<lambda>d. find (\<lambda>w. hw_company_id w = companyId \<and> hw_run_id w = runId \<and> hw_id w = waitId) (human_waits d)))
       (tx_require (wait_conflict ''wait_missing''))"

section \<open>Opening a wait\<close>

definition suspend_task :: "env \<Rightarrow> open_wait_input \<Rightarrow> db \<Rightarrow> db" where
  "suspend_task E input d = d\<lparr>tasks := upd_where
     (\<lambda>t. t_company_id t = ow_companyId input \<and> t_run_id t = ow_runId input \<and> t_id t = ow_taskId input)
     (\<lambda>t. t\<lparr>t_state := T_AWAITING_INPUT, t_lease_owner := None, t_lease_token := None,
            t_lease_expires_at := None, t_row_version := t_row_version t + 1, t_updated_at := now_ms E\<rparr>)
     (tasks d)\<rparr>"

definition suspend_run :: "env \<Rightarrow> open_wait_input \<Rightarrow> db \<Rightarrow> db" where
  "suspend_run E input d = d\<lparr>runs := upd_where
     (\<lambda>r. r_company_id r = ow_companyId input \<and> r_id r = ow_runId input)
     (\<lambda>r. r\<lparr>r_state := R_AWAITING_FOUNDER_INPUT, r_row_version := r_row_version r + 1, r_updated_at := now_ms E\<rparr>)
     (runs d)\<rparr>"

definition new_wait :: "env \<Rightarrow> open_wait_input \<Rightarrow> run_row \<Rightarrow> uuid \<Rightarrow> uuid \<Rightarrow> wait_row" where
  "new_wait E input run waitId requestId =
     \<lparr>hw_id = waitId, hw_company_id = ow_companyId input, hw_run_id = ow_runId input,
      hw_task_id = ow_taskId input, hw_workflow_version = r_workflow_version run,
      hw_wait_kind = WK_CLARIFICATION, hw_wait_version = 1, hw_request_id = requestId,
      hw_request_version = 1, hw_expected_run_state = R_AWAITING_FOUNDER_INPUT,
      hw_expected_run_row_version = r_row_version run + 1, hw_resume_run_state = r_state run,
      hw_context_snapshot_id = r_context_snapshot_id run,
      hw_response_schema_id = ''durable-wait-response'', hw_response_schema_version = ''1.0'',
      hw_reason_codes = [''AICO_002_DURABILITY_PROBE''], hw_status = W_OPEN,
      hw_expires_at = Some (now_ms E + 86400000), hw_created_at = now_ms E, hw_resolved_at = None,
      hw_resolved_by_command_id = None, hw_resolved_by_event_id = None, hw_continuation_task_id = None\<rparr>"

definition wait_opened_event :: "open_wait_input \<Rightarrow> run_row \<Rightarrow> uuid \<Rightarrow> uuid \<Rightarrow> append_options" where
  "wait_opened_event input run waitId requestId =
     \<lparr>ae_companyId = ow_companyId input, ae_runId = Some (ow_runId input),
      ae_type = ''founder_input_requested'', ae_actorType = ''SYSTEM'',
      ae_actorId = ''durable-wait-spike/v1'', ae_actorVersion = None,
      ae_correlationId = ow_correlationId input, ae_causationId = None, ae_audience = None,
      ae_dataClassification = None,
      ae_payload = JObj [(''wait_id'', JStr waitId), (''request_id'', JStr requestId),
        (''request_version'', JNum 1), (''wait_version'', JNum 1),
        (''workflow_version'', JStr (r_workflow_version run)),
        (''expected_run_state'', JStr ''AWAITING_FOUNDER_INPUT''),
        (''expected_run_version'', JNum (int (r_row_version run) + 1)),
        (''context_snapshot_id'', JStr (r_context_snapshot_id run))]\<rparr>"

definition opened_body :: "run_row \<Rightarrow> uuid \<Rightarrow> uuid \<Rightarrow> uuid \<Rightarrow> json" where
  "opened_body run waitId requestId eventId =
     JObj [(''wait_id'', JStr waitId), (''request_id'', JStr requestId), (''request_version'', JNum 1),
       (''wait_version'', JNum 1), (''event_id'', JStr eventId),
       (''run_version'', JNum (int (r_row_version run) + 1)),
       (''workflow_version'', JStr (r_workflow_version run)),
       (''context_snapshot_id'', JStr (r_context_snapshot_id run)),
       (''state'', JStr ''AWAITING_FOUNDER_INPUT'')]"

definition open_wait :: "env \<Rightarrow> open_wait_input \<Rightarrow> json call" where
  "open_wait E input = transaction (
     tx_then (assertFounder (ow_companyId input) (ow_actorId input))
     (tx_bind (lockRun (ow_companyId input) (ow_runId input)) (\<lambda>run.
      tx_bind (lockTask (ow_companyId input) (ow_runId input) (ow_taskId input)) (\<lambda>task.
      tx_then (tx_when (int (r_row_version run) \<noteq> ow_expectedRunVersion input \<or> r_state run \<noteq> R_DRAFT)
        (tx_throw (wait_conflict ''wait_open_precondition_failed'')))
      (tx_then (tx_when (t_state task \<notin> set [T_QUEUED, T_READY] \<or> t_lease_token task \<noteq> None)
        (tx_throw (wait_conflict ''task_not_waitable'')))
      (tx_bind (newId E) (\<lambda>waitId.
       tx_bind (newId E) (\<lambda>requestId.
       tx_then (execute (suspend_task E input))
       (tx_then (execute (suspend_run E input))
       (tx_then (insert_wait (new_wait E input run waitId requestId))
       (tx_bind (DomainEvent_append E (wait_opened_event input run waitId requestId)) (\<lambda>eventId.
        tx_then (tx_when (ow_injectRollback input)
          (tx_throw (JsError ''A2-TX-01 injected rollback before commit'')))
        (tx_return (opened_body run waitId requestId eventId))))))))))))))"

section \<open>Answering a wait\<close>

text \<open>The test of \<open>answer\<close> on the three locked rows.\<close>

definition answer_conflicts :: "answer_wait_input \<Rightarrow> wait_row \<Rightarrow> run_row \<Rightarrow> task_row \<Rightarrow> bool" where
  "answer_conflicts input w run task \<longleftrightarrow>
     hw_status w \<noteq> W_OPEN \<or> hw_request_id w \<noteq> aw_requestId input \<or>
     int (hw_request_version w) \<noteq> aw_requestVersion input \<or>
     hw_workflow_version w \<noteq> aw_workflowVersion input \<or>
     hw_response_schema_id w \<noteq> aw_schemaId input \<or>
     hw_response_schema_version w \<noteq> aw_schemaVersion input \<or>
     r_workflow_version run \<noteq> hw_workflow_version w \<or> r_state run \<noteq> hw_expected_run_state w \<or>
     int (r_row_version run) \<noteq> aw_expectedRunVersion input \<or>
     r_row_version run \<noteq> hw_expected_run_row_version w \<or>
     r_cancellation_requested_at run \<noteq> None \<or> t_state task \<noteq> T_AWAITING_INPUT \<or>
     t_lease_token task \<noteq> None"

definition new_answer :: "env \<Rightarrow> answer_wait_input \<Rightarrow> wait_row \<Rightarrow> uuid \<Rightarrow> answer_row" where
  "new_answer E input w answerVersionId =
     \<lparr>ca_id = answerVersionId, ca_company_id = aw_companyId input, ca_run_id = aw_runId input,
      ca_wait_id = aw_waitId input, ca_version = 1, ca_request_id = aw_requestId input,
      ca_request_version = nat (aw_requestVersion input),
      ca_source_context_snapshot_id = hw_context_snapshot_id w,
      ca_response_schema_id = aw_schemaId input, ca_response_schema_version = aw_schemaVersion input,
      ca_content = aw_content input, ca_content_digest = canonicalDigest E (aw_content input),
      ca_created_by = aw_actorId input, ca_created_at = now_ms E\<rparr>"

definition resumed_snapshot :: "env \<Rightarrow> answer_wait_input \<Rightarrow> snapshot_row \<Rightarrow> uuid \<Rightarrow> uuid \<Rightarrow> snapshot_row" where
  "resumed_snapshot E input source snapshotId answerVersionId =
     \<lparr>cs_id = snapshotId, cs_company_id = aw_companyId input,
      cs_company_profile_version_id = cs_company_profile_version_id source,
      cs_goal_version_id = cs_goal_version_id source,
      cs_answer_version_ids = cs_answer_version_ids source @ [answerVersionId],
      cs_created_at = now_ms E\<rparr>"

text \<open>\<open>jsonb || jsonb\<close>: objects are merged, the right one first; other values are concatenated as arrays.\<close>

fun json_items :: "json \<Rightarrow> json list" where
  "json_items (JArr vs) = vs"
| "json_items v = [v]"

fun jsonb_concat :: "json \<Rightarrow> json \<Rightarrow> json" where
  "jsonb_concat (JObj es) (JObj fs) = JObj (filter (\<lambda>(k, _). k \<notin> fst ` set fs) es @ fs)"
| "jsonb_concat v w = JArr (json_items v @ json_items w)"

definition resume_task :: "env \<Rightarrow> answer_wait_input \<Rightarrow> wait_row \<Rightarrow> uuid \<Rightarrow> uuid list \<Rightarrow> db \<Rightarrow> db" where
  "resume_task E input w snapshotId answerIds d = d\<lparr>tasks := upd_where
     (\<lambda>t. t_company_id t = aw_companyId input \<and> t_run_id t = aw_runId input \<and> t_id t = hw_task_id w)
     (\<lambda>t. t\<lparr>t_state := T_READY, t_available_at := now_ms E, t_lease_owner := None, t_lease_token := None,
            t_lease_expires_at := None, t_row_version := t_row_version t + 1, t_updated_at := now_ms E,
            t_input_manifest := jsonb_concat (t_input_manifest t)
              (JObj [(''context_snapshot_id'', JStr snapshotId),
                 (''answer_version_ids'', JArr (map JStr answerIds)), (''wait_id'', JStr (hw_id w)),
                 (''wait_version'', JNum 1), (''workflow_version'', JStr (hw_workflow_version w))])\<rparr>)
     (tasks d)\<rparr>"

definition resume_run :: "env \<Rightarrow> answer_wait_input \<Rightarrow> wait_row \<Rightarrow> uuid \<Rightarrow> db \<Rightarrow> db" where
  "resume_run E input w snapshotId d = d\<lparr>runs := upd_where
     (\<lambda>r. r_company_id r = aw_companyId input \<and> r_id r = aw_runId input)
     (\<lambda>r. r\<lparr>r_state := hw_resume_run_state w, r_context_snapshot_id := snapshotId,
            r_row_version := r_row_version r + 1, r_updated_at := now_ms E\<rparr>)
     (runs d)\<rparr>"

definition wait_resolved_event :: "answer_wait_input \<Rightarrow> wait_row \<Rightarrow> uuid \<Rightarrow> uuid \<Rightarrow> append_options" where
  "wait_resolved_event input w snapshotId answerVersionId =
     \<lparr>ae_companyId = aw_companyId input, ae_runId = Some (aw_runId input),
      ae_type = ''founder_input_resolved'', ae_actorType = ''FOUNDER'', ae_actorId = aw_actorId input,
      ae_actorVersion = None, ae_correlationId = aw_correlationId input,
      ae_causationId = Some (aw_waitId input), ae_audience = None, ae_dataClassification = None,
      ae_payload = JObj [(''wait_id'', JStr (aw_waitId input)), (''wait_version'', JNum 1),
        (''request_id'', JStr (aw_requestId input)), (''request_version'', JNum (aw_requestVersion input)),
        (''answer_version_id'', JStr answerVersionId), (''continuation_task_id'', JStr (hw_task_id w)),
        (''source_context_snapshot_id'', JStr (hw_context_snapshot_id w)),
        (''resumed_context_snapshot_id'', JStr snapshotId),
        (''workflow_version'', JStr (hw_workflow_version w)),
        (''resumed_state'', JStr (run_state_text (hw_resume_run_state w)))]\<rparr>"

definition resolve_wait :: "env \<Rightarrow> answer_wait_input \<Rightarrow> wait_row \<Rightarrow> uuid \<Rightarrow> db \<Rightarrow> db" where
  "resolve_wait E input w eventId d = d\<lparr>human_waits := upd_where
     (\<lambda>x. hw_company_id x = aw_companyId input \<and> hw_run_id x = aw_runId input \<and>
          hw_id x = aw_waitId input \<and> hw_status x = W_OPEN)
     (\<lambda>x. x\<lparr>hw_status := W_RESOLVED, hw_resolved_at := Some (now_ms E),
            hw_resolved_by_command_id := Some (aw_idempotencyKey input),
            hw_resolved_by_event_id := Some eventId, hw_continuation_task_id := Some (hw_task_id w)\<rparr>)
     (human_waits d)\<rparr>"

definition answered_body :: "env \<Rightarrow> answer_wait_input \<Rightarrow> wait_row \<Rightarrow> run_row \<Rightarrow> uuid \<Rightarrow> uuid \<Rightarrow> uuid \<Rightarrow> json" where
  "answered_body E input w run answerVersionId snapshotId eventId =
     JObj [(''wait_id'', JStr (aw_waitId input)), (''wait_version'', JNum 1),
       (''answer_version_id'', JStr answerVersionId), (''continuation_task_id'', JStr (hw_task_id w)),
       (''event_id'', JStr eventId), (''context_snapshot_id'', JStr snapshotId),
       (''run_version'', JNum (int (r_row_version run) + 1)),
       (''workflow_version'', JStr (hw_workflow_version w)),
       (''committed_at'', JStr (toISOString (now_ms E)))]"

text \<open>The statements of \<open>answer\<close> once the locked rows passed the test.\<close>

definition record_answer :: "env \<Rightarrow> answer_wait_input \<Rightarrow> wait_row \<Rightarrow> run_row \<Rightarrow> (int \<times> json) call" where
  "record_answer E input w run =
     tx_bind (newId E) (\<lambda>answerVersionId.
     tx_bind (newId E) (\<lambda>snapshotId.
     tx_bind (query (\<lambda>d. find (\<lambda>c. cs_company_id c = aw_companyId input \<and> cs_id c = hw_context_snapshot_id w)
       (context_snapshots d))) (\<lambda>row.
     tx_bind (tx_require (wait_conflict ''wait_context_missing'') row) (\<lambda>source.
     let answerIds = cs_answer_version_ids source @ [answerVersionId] in
     tx_then (insert_answer (new_answer E input w answerVersionId))
     (tx_then (insert_snapshot (resumed_snapshot E input source snapshotId answerVersionId))
     (tx_then (insert_snapshot_answer \<lparr>sa_company_id = aw_companyId input, sa_context_snapshot_id = snapshotId,
        sa_answer_version_id = answerVersionId, sa_ordinal = length answerIds - 1\<rparr>)
     (tx_then (execute (resume_task E input w snapshotId answerIds))
     (tx_then (execute (resume_run E input w snapshotId))
     (tx_bind (DomainEvent_append E (wait_resolved_event input w snapshotId answerVersionId)) (\<lambda>eventId.
      tx_then (execute (resolve_wait E input w eventId))
      (tx_return (202, answered_body E input w run answerVersionId snapshotId eventId))))))))))))"

definition answer_body :: "env \<Rightarrow> answer_wait_input \<Rightarrow> (int \<times> json) call" where
  "answer_body E input =
     tx_then (assertFounder (aw_companyId input) (aw_actorId input))
     (tx_bind (lockWait (aw_companyId input) (aw_runId input) (aw_waitId input)) (\<lambda>w.
      tx_bind (lockRun (aw_companyId input) (aw_runId input)) (\<lambda>run.
      tx_bind (lockTask (aw_companyId input) (aw_runId input) (hw_task_id w)) (\<lambda>task.
      tx_then (tx_when (answer_conflicts input w run task) (tx_throw (wait_conflict ''wait_state_conflict'')))
      (record_answer E input w run)))))"

definition answer_command :: "env \<Rightarrow> answer_wait_input \<Rightarrow> command_options" where
  "answer_command E input =
     \<lparr>cx_actorId = aw_actorId input, cx_operation = ''durability-spike.wait.answer'',
      cx_idempotencyKey = aw_idempotencyKey input,
      cx_request = JObj [(''companyId'', JStr (aw_companyId input)), (''runId'', JStr (aw_runId input)),
        (''waitId'', JStr (aw_waitId input)), (''requestId'', JStr (aw_requestId input)),
        (''requestVersion'', JNum (aw_requestVersion input)),
        (''workflowVersion'', JStr (aw_workflowVersion input)),
        (''expectedRunVersion'', JNum (aw_expectedRunVersion input)),
        (''schemaId'', JStr (aw_schemaId input)), (''schemaVersion'', JStr (aw_schemaVersion input)),
        (''content'', aw_content input)],
      cx_execute = answer_body E input\<rparr>"

definition answer :: "env \<Rightarrow> answer_wait_input \<Rightarrow> command_result call" where
  "answer E input = tx_then (tx_lift (assertAnswerShape input)) (CommandExecutor_run E (answer_command E input))"

section \<open>Canceling\<close>

definition cancel_waits :: "env \<Rightarrow> uuid \<Rightarrow> uuid \<Rightarrow> db \<Rightarrow> db" where
  "cancel_waits E companyId runId d = d\<lparr>human_waits := upd_where
     (\<lambda>w. hw_company_id w = companyId \<and> hw_run_id w = runId \<and> hw_status w = W_OPEN)
     (\<lambda>w. w\<lparr>hw_status := W_CANCELED, hw_resolved_at := Some (now_ms E)\<rparr>) (human_waits d)\<rparr>"

definition cancel_tasks :: "env \<Rightarrow> uuid \<Rightarrow> uuid \<Rightarrow> db \<Rightarrow> db" where
  "cancel_tasks E companyId runId d = d\<lparr>tasks := upd_where
     (\<lambda>t. t_company_id t = companyId \<and> t_run_id t = runId \<and> t_state t \<notin> set [T_SUCCEEDED, T_FAILED, T_CANCELED])
     (\<lambda>t. t\<lparr>t_state := T_CANCELED, t_lease_owner := None, t_lease_token := None, t_lease_expires_at := None,
            t_completed_at := Some (now_ms E), t_row_version := t_row_version t + 1, t_updated_at := now_ms E\<rparr>)
     (tasks d)\<rparr>"

definition cancel_run :: "env \<Rightarrow> uuid \<Rightarrow> uuid \<Rightarrow> db \<Rightarrow> db" where
  "cancel_run E companyId runId d = d\<lparr>runs := upd_where
     (\<lambda>r. r_company_id r = companyId \<and> r_id r = runId)
     (\<lambda>r. r\<lparr>r_state := R_CANCELED, r_stage := S_TERMINAL, r_cancellation_requested_at := Some (now_ms E),
            r_row_version := r_row_version r + 1, r_updated_at := now_ms E\<rparr>) (runs d)\<rparr>"

definition cancel_event :: "uuid \<Rightarrow> uuid \<Rightarrow> string \<Rightarrow> uuid \<Rightarrow> run_row \<Rightarrow> append_options" where
  "cancel_event companyId runId actorId correlationId run =
     \<lparr>ae_companyId = companyId, ae_runId = Some runId, ae_type = ''durability_cancel_probe'',
      ae_actorType = ''FOUNDER'', ae_actorId = actorId, ae_actorVersion = None,
      ae_correlationId = correlationId, ae_causationId = None, ae_audience = None,
      ae_dataClassification = None,
      ae_payload = JObj [(''prior_state'', JStr (run_state_text (r_state run))), (''state'', JStr ''CANCELED'')]\<rparr>"

definition cancelFixture :: "env \<Rightarrow> uuid \<Rightarrow> uuid \<Rightarrow> string \<Rightarrow> uuid \<Rightarrow> json call" where
  "cancelFixture E companyId runId actorId correlationId = transaction (
     tx_bind (lockRun companyId runId) (\<lambda>run.
     tx_then (tx_when (terminal_run (r_state run)) (tx_throw (wait_conflict ''run_terminal'')))
     (tx_then (execute (cancel_waits E companyId runId))
     (tx_then (execute (cancel_tasks E companyId runId))
     (tx_then (execute (cancel_run E companyId runId))
     (tx_bind (DomainEvent_append E (cancel_event companyId runId actorId correlationId run)) (\<lambda>eventId.
      tx_return (JObj [(''run_id'', JStr runId), (''event_id'', JStr eventId), (''state'', JStr ''CANCELED'')]))))))))"

section \<open>Probes\<close>

text \<open>The rows of the LEFT JOINs of \<open>inspect\<close>, and the one it keeps.\<close>

definition inspect_rows :: "uuid \<Rightarrow> uuid \<Rightarrow> db \<Rightarrow> (run_row \<times> wait_row option \<times> task_row option) list" where
  "inspect_rows companyId runId d =
     concat (map (\<lambda>r.
       let ws = filter (\<lambda>w. hw_company_id w = r_company_id r \<and> hw_run_id w = r_id r) (human_waits d)
       in concat (map (\<lambda>w.
            let ts = filter (\<lambda>t. t_company_id t = r_company_id r \<and> t_run_id t = r_id r \<and>
                      (case w of None \<Rightarrow> True | Some w' \<Rightarrow> t_id t = hw_task_id w')) (tasks d)
            in if ts = [] then [(r, w, None)] else map (\<lambda>t. (r, w, Some t)) ts)
          (if ws = [] then [None] else map Some ws)))
     (filter (\<lambda>r. r_company_id r = companyId \<and> r_id r = runId) (runs d)))"

definition wait_recency :: "wait_row option \<Rightarrow> nat \<times> timestamp" where
  "wait_recency w = (case w of None \<Rightarrow> (1, 0) | Some w' \<Rightarrow> (0, - hw_created_at w'))"

definition inspect_counts :: "uuid \<Rightarrow> uuid \<Rightarrow> db \<Rightarrow> json" where
  "inspect_counts companyId runId d =
     (let count = (\<lambda>n. JNum (int n)) in JObj
       [(''waits'', count (length (filter (\<lambda>w. hw_company_id w = companyId \<and> hw_run_id w = runId) (human_waits d)))),
        (''answers'', count (length (filter (\<lambda>a. ca_company_id a = companyId \<and> ca_run_id a = runId) (clarification_answer_versions d)))),
        (''events'', count (length (filter (\<lambda>e. ev_company_id e = companyId \<and> ev_run_id e = Some runId) (events d)))),
        (''outbox'', count (length (concat (map (\<lambda>m. filter (\<lambda>e. ev_id e = om_event_id m \<and> ev_company_id e = companyId \<and>
            ev_run_id e = Some runId) (events d)) (outbox_messages d))))),
        (''attempts'', count (length (filter (\<lambda>a. ta_company_id a = companyId \<and> ta_run_id a = runId) (task_attempts d)))),
        (''artifacts'', count (length (filter (\<lambda>a. ar_company_id a = companyId \<and> ar_run_id a = runId) (artifacts d)))),
        (''model_effects'', count (length (filter (\<lambda>e. me_company_id e = companyId \<and> me_run_id e = runId) (model_invocation_effects d)))),
        (''provider_invocations'', count (sum_list (map me_invocation_count
            (filter (\<lambda>e. me_company_id e = companyId \<and> me_run_id e = runId) (model_invocation_effects d))))),
        (''budget_reserved'', count (sum_list (map bl_reserved
            (filter (\<lambda>b. bl_company_id b = companyId \<and> bl_run_id b = runId) (budget_ledgers d))))),
        (''budget_consumed'', count (sum_list (map bl_consumed
            (filter (\<lambda>b. bl_company_id b = companyId \<and> bl_run_id b = runId) (budget_ledgers d)))))])"

record inspection =
  is_run :: run_row
  is_wait :: "wait_row option"
  is_task :: "task_row option"
  is_counts :: json

definition inspect :: "uuid \<Rightarrow> uuid \<Rightarrow> inspection call" where
  "inspect companyId runId =
     tx_bind (query (\<lambda>d. order_limit_1 (\<lambda>(r, w, t). wait_recency w) (inspect_rows companyId runId d))) (\<lambda>row.
     tx_bind (tx_require (wait_conflict ''run_missing'') row) (\<lambda>(r, w, t).
     tx_bind (query (inspect_counts companyId runId)) (\<lambda>counts.
     tx_return \<lparr>is_run = r, is_wait = w, is_task = t, is_counts = counts\<rparr>)))"

definition eventEffect :: "uuid \<Rightarrow> (outbox_row \<times> nat \<times> nat) call" where
  "eventEffect eventId =
     tx_bind (query (\<lambda>d. map_option (\<lambda>o'. (o',
          length (filter (\<lambda>i. ir_consumer_name i = ''local-event-projection/v1'' \<and> ir_event_id i = om_event_id o') (inbox_receipts d)),
          length (filter (\<lambda>p. lp_consumer_name p = ''local-event-projection/v1'' \<and> lp_event_id p = om_event_id o') (local_event_projections d))))
        (find (\<lambda>o'. om_event_id o' = eventId) (outbox_messages d))))
       (tx_require (wait_conflict ''event_outbox_missing''))"

text \<open>
  \<open>appendConcurrentEvents\<close> starts \<open>count\<close> transactions at once. Each locks the counter of the run,
  so the database runs them one after the other, in an order of its own: \<open>order\<close> lists the
  indices in that order. When some of them failed, the promise is rejected with the error of the
  first one that did; the others are committed all the same.
\<close>

definition probe_event :: "uuid \<Rightarrow> uuid \<Rightarrow> string \<Rightarrow> uuid \<Rightarrow> nat \<Rightarrow> append_options" where
  "probe_event companyId runId actorId correlationId index =
     \<lparr>ae_companyId = companyId, ae_runId = Some runId, ae_type = ''durability_sequence_probe'',
      ae_actorType = ''SYSTEM'', ae_actorId = actorId, ae_actorVersion = None,
      ae_correlationId = correlationId, ae_causationId = None, ae_audience = None,
      ae_dataClassification = None, ae_payload = JObj [(''probe_index'', JNum (int index))]\<rparr>"

fun append_all :: "(nat \<Rightarrow> uuid call) \<Rightarrow> nat list \<Rightarrow> (nat \<times> uuid) list call" where
  "append_all m [] s = (Inr [], s)"
| "append_all m (i # is) s =
     (case m i s of
        (Inl e, s') \<Rightarrow> (Inl e, snd (append_all m is s'))
      | (Inr x, s') \<Rightarrow>
          (case append_all m is s' of
             (Inl e, s'') \<Rightarrow> (Inl e, s'')
           | (Inr xs, s'') \<Rightarrow> (Inr ((i, x) # xs), s'')))"

definition appendConcurrentEvents ::
  "env \<Rightarrow> nat list \<Rightarrow> uuid \<Rightarrow> uuid \<Rightarrow> string \<Rightarrow> uuid \<Rightarrow> (uuid list \<times> nat list) call" where
  "appendConcurrentEvents E order companyId runId actorId correlationId =
     tx_bind (append_all (\<lambda>i. transaction (DomainEvent_append E (probe_event companyId runId actorId correlationId i))) order)
       (\<lambda>ids.
     let eventIds = map snd (sort_key fst ids) in
     tx_bind (query (\<lambda>d. sort (map (\<lambda>e. case ev_run_sequence e of None \<Rightarrow> 0 | Some n \<Rightarrow> n)
       (filter (\<lambda>e. ev_company_id e = companyId \<and> ev_id e \<in> set eventIds) (events d))))) (\<lambda>sequences.
     tx_return (eventIds, sequences)))"

section \<open>The waits and the log stay well formed\<close>

definition open_waits :: "db \<Rightarrow> wait_row list" where
  "open_waits d = filter (\<lambda>w. hw_status w = W_OPEN) (human_waits d)"

definition waits_ok :: "db \<Rightarrow> bool" where
  "waits_ok d \<longleftrightarrow> list_all wait_check (human_waits d) \<and> distinct (map hw_run_id (open_waits d))"

lemma waits_ok_cong: "human_waits d = human_waits d' \<Longrightarrow> waits_ok d = waits_ok d'"
  by (simp add: waits_ok_def open_waits_def)

text \<open>The updates of a wait close it; they keep the CHECK and open no wait.\<close>

lemma waits_ok_close:
  assumes ok: "waits_ok d" and c: "\<And>w. wait_check w \<Longrightarrow> p w \<Longrightarrow> wait_check (f w) \<and> hw_status (f w) \<noteq> W_OPEN"
  shows "waits_ok (d\<lparr>human_waits := upd_where p f (human_waits d)\<rparr>)"
proof -
  have "list_all wait_check (upd_where p f (human_waits d))"
    using ok c by (auto simp: waits_ok_def list_all_iff elim!: in_upd_whereE)
  moreover have "distinct (map hw_run_id (filter (\<lambda>w. hw_status w = W_OPEN) (upd_where p f ws)))"
    if "distinct (map hw_run_id (filter (\<lambda>w. hw_status w = W_OPEN) ws))" "\<And>w. w \<in> set ws \<Longrightarrow> wait_check w" for ws
    using that
  proof (induction ws)
    case (Cons w ws)
    have "set (map hw_run_id (filter (\<lambda>w. hw_status w = W_OPEN) (upd_where p f ws))) \<subseteq>
        set (map hw_run_id (filter (\<lambda>w. hw_status w = W_OPEN) ws))"
      using c Cons.prems(2) by (fastforce simp: set_upd_where)
    with Cons c show ?case by (auto split: if_splits)
  qed simp
  ultimately show ?thesis using ok by (simp add: waits_ok_def open_waits_def list_all_iff)
qed

lemma waits_ok_insert: "db_keeps waits_ok (insert_wait r)"
  unfolding insert_wait_def
  by (rule db_keeps_insert)
    (auto simp: waits_ok_def open_waits_def absent_def list_all_iff)

text \<open>Statements that do not touch the waits.\<close>

lemma waits_ok_other: "(\<And>d. human_waits (f d) = human_waits d) \<Longrightarrow> db_keeps waits_ok (execute f)"
  by (rule db_keeps_execute) (metis waits_ok_cong)

lemma waits_ok_append: "db_keeps waits_ok (DomainEvent_append E opts)"
  by (rule append_keeps_frame) (simp_all add: waits_ok_def open_waits_def)

lemma waits_ok_inserts:
  "db_keeps waits_ok (insert_answer ca)" "db_keeps waits_ok (insert_snapshot cs)"
  "db_keeps waits_ok (insert_snapshot_answer sa)"
  unfolding insert_answer_def insert_snapshot_def insert_snapshot_answer_def
  by (rule db_keeps_insert, simp add: waits_ok_def open_waits_def)+

lemma waits_ok_resolve: "db_keeps waits_ok (execute (resolve_wait E input w eventId))"
  unfolding resolve_wait_def
  by (rule db_keeps_execute) (rule waits_ok_close, simp_all add: wait_check_def)

lemma waits_ok_cancel: "db_keeps waits_ok (execute (cancel_waits E c r))"
  unfolding cancel_waits_def
  by (rule db_keeps_execute) (rule waits_ok_close, simp_all add: wait_check_def)

lemmas waits_ok_statements = waits_ok_other waits_ok_append waits_ok_inserts waits_ok_insert
  waits_ok_resolve waits_ok_cancel

lemmas wait_calls = open_wait_def answer_body_def record_answer_def cancelFixture_def
  assertFounder_def lockRun_def lockTask_def lockWait_def

lemmas wait_updates = suspend_task_def suspend_run_def resume_task_def resume_run_def
  cancel_tasks_def cancel_run_def cancel_waits_def resolve_wait_def

lemma waits_ok_calls:
  "db_keeps waits_ok (open_wait E input)" "db_keeps waits_ok (answer_body E input')"
  "db_keeps waits_ok (cancelFixture E c r a k)"
  unfolding wait_calls Let_def
  by (intro keeps_intros waits_ok_statements; simp add: wait_updates)+

lemma log_calls:
  "db_keeps event_log_ok (open_wait E input)" "commits event_log_ok (answer_body E input')"
  "db_keeps event_log_ok (cancelFixture E c r a k)"
  unfolding wait_calls Let_def
  by (intro commits_transaction commits_intros log_commits_execute; simp add: wait_updates log_part_def)+

interpretation answers: command_body "\<lambda>d. event_log_ok d \<and> waits_ok d" "answer_body E" for E
proof unfold_locales
  show "commits (\<lambda>d. event_log_ok d \<and> waits_ok d) (answer_body E p)" for p
    using log_calls(2) [of E p] db_keeps_commits [OF waits_ok_calls(2) [of E p]]
    unfolding commits_def by blast
  show "event_log_ok (d\<lparr>idempotency_records := rs\<rparr>) \<and> waits_ok (d\<lparr>idempotency_records := rs\<rparr>)"
    if "event_log_ok d \<and> waits_ok d" for d rs
    using that event_log_records_free by (simp add: waits_ok_def open_waits_def)
qed

lemma answer_keeps: "db_keeps (\<lambda>d. event_log_ok d \<and> waits_ok d) (answer E input)"
  unfolding answer_def by (intro keeps_intros answers.command_keeps [where p = input]) (simp add: answer_command_def)

text \<open>
  Opening, answering and canceling a wait, whatever they return or throw, keep the tables
  well formed: a run has at most one open wait, the resolution columns of every wait agree with
  its status (as the CHECK of the table demands, although the updates are written without it),
  and the event log is numbered without gaps and mirrored by the outbox.
\<close>

theorem waits_well_formed:
  "db_keeps (\<lambda>d. event_log_ok d \<and> waits_ok d) (open_wait E opening) \<and>
   db_keeps (\<lambda>d. event_log_ok d \<and> waits_ok d) (answer E answering) \<and>
   db_keeps (\<lambda>d. event_log_ok d \<and> waits_ok d) (cancelFixture E companyId runId actorId correlationId)"
  using answer_keeps db_keeps_conj [OF log_calls(1) waits_ok_calls(1)] db_keeps_conj [OF log_calls(3) waits_ok_calls(3)]
  by blast

section \<open>A wait is answered once\<close>

lemma assertFounder_InrE:
  assumes "assertFounder c a s = (Inr u, t)"
  obtains "t = s" and "present (\<lambda>x. (co_id x, co_founder_id x)) (c, a) (companies (sys_db s))"
  using assms unfolding assertFounder_def
  by (elim db_elims) (auto simp: present_def dest!: find_SomeD)

lemma lock_InrE:
  "lockRun c r s = (Inr run, t) \<Longrightarrow>
    t = s \<and> find (\<lambda>x. r_company_id x = c \<and> r_id x = r) (runs (sys_db s)) = Some run"
  "lockTask c r i s = (Inr task, t) \<Longrightarrow>
    t = s \<and> find (\<lambda>x. t_company_id x = c \<and> t_run_id x = r \<and> t_id x = i) (tasks (sys_db s)) = Some task"
  "lockWait c r j s = (Inr w, t) \<Longrightarrow>
    t = s \<and> find (\<lambda>x. hw_company_id x = c \<and> hw_run_id x = r \<and> hw_id x = j) (human_waits (sys_db s)) = Some w"
  unfolding lockRun_def lockTask_def lockWait_def by (auto elim!: db_elims)

lemma answer_body_InrE:
  assumes "answer_body E input s = (Inr r, t)"
  obtains w run task where
    "find (\<lambda>x. hw_company_id x = aw_companyId input \<and> hw_run_id x = aw_runId input \<and> hw_id x = aw_waitId input)
       (human_waits (sys_db s)) = Some w"
    and "\<not> answer_conflicts input w run task" and "record_answer E input w run s = (Inr r, t)"
proof -
  from assms obtain u s1 w s2 run s3 task s4 v s5 where
    "assertFounder (aw_companyId input) (aw_actorId input) s = (Inr u, s1)"
    "lockWait (aw_companyId input) (aw_runId input) (aw_waitId input) s1 = (Inr w, s2)"
    "lockRun (aw_companyId input) (aw_runId input) s2 = (Inr run, s3)"
    "lockTask (aw_companyId input) (aw_runId input) (hw_task_id w) s3 = (Inr task, s4)"
    "tx_when (answer_conflicts input w run task) (tx_throw (wait_conflict ''wait_state_conflict'')) s4 = (Inr v, s5)"
    "record_answer E input w run s5 = (Inr r, t)"
    unfolding answer_body_def by (elim tx_bind_InrE tx_then_InrE) (simp only:)
  then show thesis
    by (intro that [of w run task])
      (auto simp: tx_when_apply tx_throw_def elim!: assertFounder_InrE dest!: lock_InrE split: if_splits)
qed

lemma human_waits_untouched:
  "untouched human_waits (insert_answer ca)" "untouched human_waits (insert_snapshot cs)"
  "untouched human_waits (insert_snapshot_answer sa)" "untouched human_waits (DomainEvent_append E opts)"
  unfolding untouched_def insert_answer_def insert_snapshot_def insert_snapshot_answer_def
  by (intro allI db_keeps_insert append_keeps_frame; simp)+

lemma record_answer_InrE:
  assumes "record_answer E input w run s = (Inr r, t)"
  obtains eid where "human_waits (sys_db t) = human_waits (resolve_wait E input w eid (sys_db s))"
    and "fst r = 202"
proof -
  from assms obtain s1 c s2 u1 s3 u2 s4 u3 s5 eid s6 aid sid where
    "s1 = s\<lparr>sys_next := Suc (Suc (sys_next s))\<rparr>"
    and h: "insert_answer (new_answer E input w aid) s1 = (Inr u1, s2)"
    "insert_snapshot (resumed_snapshot E input c sid aid) s2 = (Inr u2, s3)"
    "insert_snapshot_answer \<lparr>sa_company_id = aw_companyId input, sa_context_snapshot_id = sid,
        sa_answer_version_id = aid, sa_ordinal = length (cs_answer_version_ids c @ [aid]) - 1\<rparr> s3 = (Inr u3, s4)"
    "s5 = s4\<lparr>sys_db := resume_run E input w sid (resume_task E input w sid (cs_answer_version_ids c @ [aid]) (sys_db s4))\<rparr>"
    "DomainEvent_append E (wait_resolved_event input w sid aid) s5 = (Inr eid, s6)"
    and t: "t = s6\<lparr>sys_db := resolve_wait E input w eid (sys_db s6)\<rparr>"
    and r: "r = (202, answered_body E input w run aid sid eid)"
    unfolding record_answer_def Let_def
    by (elim tx_bind_InrE tx_then_InrE newId_InrE query_InrE tx_require_InrE execute_InrE tx_return_InrE) simp
  then have "human_waits (sys_db s6) = human_waits (sys_db s)"
    by (simp add: untouchedD [OF human_waits_untouched(1) h(1)] untouchedD [OF human_waits_untouched(2) h(2)]
        untouchedD [OF human_waits_untouched(3) h(3)] untouchedD [OF human_waits_untouched(4) h(5)]
        resume_run_def resume_task_def)
  with t r show thesis by (intro that [of eid]) (simp_all add: resolve_wait_def)
qed

lemma answer_InrE:
  assumes "answer E input s = (Inr r, t)"
  obtains (replayed) "cr_replayed r" "sys_db t = sys_db s"
  | (answered) w eid run task where "w \<in> set (human_waits (sys_db s))" "hw_id w = aw_waitId input"
      "hw_company_id w = aw_companyId input" "hw_run_id w = aw_runId input" "\<not> answer_conflicts input w run task"
      "human_waits (sys_db t) = human_waits (resolve_wait E input w eid (sys_db s))" "cr_status r = 202"
proof -
  from assms have "CommandExecutor_run E (answer_command E input) s = (Inr r, t)"
    unfolding answer_def by (auto elim!: tx_then_InrE tx_lift_InrE)
  then show thesis
  proof (cases rule: CommandExecutor_run_InrE)
    case replayed
    then show thesis by (rule that(1))
  next
    case (executed rs n s2)
    then have "answer_body E input (s\<lparr>sys_next := n, sys_db := sys_db s\<lparr>idempotency_records := rs\<rparr>\<rparr>) =
        (Inr (cr_status r, cr_body r), s2)" by (simp add: answer_command_def)
    then obtain w run task where w: "find (\<lambda>x. hw_company_id x = aw_companyId input \<and> hw_run_id x = aw_runId input \<and>
         hw_id x = aw_waitId input) (human_waits (sys_db s)) = Some w" "\<not> answer_conflicts input w run task"
      and rec: "record_answer E input w run (s\<lparr>sys_next := n, sys_db := sys_db s\<lparr>idempotency_records := rs\<rparr>\<rparr>) =
        (Inr (cr_status r, cr_body r), s2)"
      by (rule answer_body_InrE) simp
    from rec obtain eid where "human_waits (sys_db s2) = human_waits (resolve_wait E input w eid (sys_db s))"
      "cr_status r = 202" by (rule record_answer_InrE) (simp add: resolve_wait_def)
    with w executed(2) find_SomeD [OF w(1)] show thesis
      by (intro that(2) [of w run task eid]) (simp_all add: complete_record_def)
  qed
qed

text \<open>A wait that is not open is not answered.\<close>

lemma closed_wait_refused:
  assumes "\<And>w. w \<in> set (human_waits (sys_db s)) \<Longrightarrow> hw_id w = aw_waitId input \<Longrightarrow> hw_status w \<noteq> W_OPEN"
    and "answer E input s = (r, t)"
  shows "sys_db t = sys_db s \<and> (case r of Inl _ \<Rightarrow> True | Inr c \<Rightarrow> cr_replayed c)"
proof (cases r)
  case (Inl e)
  have "sys_db t = sys_db s"
    using assms(2) unfolding Inl answer_def CommandExecutor_run_def
    by (auto simp: tx_then_def tx_bind_def tx_lift_def split: prod.splits sum.splits dest!: transaction_Inl)
  with Inl show ?thesis by simp
next
  case (Inr c)
  from assms(2) [unfolded Inr] show ?thesis
  proof (cases rule: answer_InrE)
    case replayed
    with Inr show ?thesis by simp
  next
    case (answered w eid run task)
    with assms(1) [of w] show ?thesis by (simp add: answer_conflicts_def)
  qed
qed

text \<open>
  C15. A wait is answered once. When a command answered a wait (and did not merely replay an
  earlier response), the wait is resolved by that command, and a second answer to it in that state, by
  whatever actor, key or content, leaves the tables as they are: it fails, or it replays the stored
  response.
\<close>

theorem answered_once:
  assumes "answer E input s = (Inr r, t)" and "\<not> cr_replayed r"
    and "distinct (map hw_id (human_waits (sys_db s)))"
  shows "(\<exists>w \<in> set (human_waits (sys_db t)). hw_id w = aw_waitId input \<and> hw_status w = W_RESOLVED \<and>
       hw_resolved_by_command_id w = Some (aw_idempotencyKey input)) \<and>
     (\<forall>E' again r' u. aw_waitId again = aw_waitId input \<longrightarrow> answer E' again t = (r', u) \<longrightarrow>
       sys_db u = sys_db t \<and> (case r' of Inl _ \<Rightarrow> True | Inr c \<Rightarrow> cr_replayed c))"
  using assms(1)
proof (cases rule: answer_InrE)
  case replayed
  with assms(2) show ?thesis by simp
next
  case (answered w eid run task)
  let ?p = "\<lambda>x. hw_company_id x = aw_companyId input \<and> hw_run_id x = aw_runId input \<and>
          hw_id x = aw_waitId input \<and> hw_status x = W_OPEN"
  let ?f = "\<lambda>x. x\<lparr>hw_status := W_RESOLVED, hw_resolved_at := Some (now_ms E),
            hw_resolved_by_command_id := Some (aw_idempotencyKey input),
            hw_resolved_by_event_id := Some eid, hw_continuation_task_id := Some (hw_task_id w)\<rparr>"
  have t: "human_waits (sys_db t) = upd_where ?p ?f (human_waits (sys_db s))"
    using answered(6) by (simp add: resolve_wait_def)
  have p: "?p w" using answered by (simp add: answer_conflicts_def)
  have "?f w \<in> set (human_waits (sys_db t))"
    unfolding t using answered(1) p by (rule in_upd_where_hit)
  moreover have "hw_status y \<noteq> W_OPEN" if "y \<in> set (human_waits (sys_db t))" "hw_id y = aw_waitId input" for y
  proof -
    from that(1) obtain x where x: "x \<in> set (human_waits (sys_db s))" "y = (if ?p x then ?f x else x)"
      unfolding t by (rule in_upd_whereE)
    then have "hw_id x = hw_id w" using that(2) answered(2) by (auto split: if_splits)
    with assms(3) x(1) answered(1) have "x = w" by (blast intro: distinct_map_eq)
    with x(2) p show ?thesis by simp
  qed
  ultimately show ?thesis
    using answered(2) by (auto intro!: bexI [of _ "?f w"] dest: closed_wait_refused [rotated])
qed

section \<open>An admissible answer resumes the run\<close>

text \<open>
  The answer is admissible: the wait, its run, its task and its context are there and pass the
  test, the actor owns the company, the references of the context hold, the log is well formed
  and the identifiers about to be drawn are new.
\<close>

definition can_answer :: "env \<Rightarrow> answer_wait_input \<Rightarrow> wait_row \<Rightarrow> run_row \<Rightarrow> task_row \<Rightarrow> snapshot_row \<Rightarrow> sys \<Rightarrow> bool" where
  "can_answer E input w run task source s \<longleftrightarrow>
     (let d = sys_db s; c = aw_companyId input; rid = aw_runId input; id = (\<lambda>i. uuid_at E (sys_next s + i)) in
      assertAnswerShape input = Inr () \<and>
      find (\<lambda>x. co_id x = c \<and> co_founder_id x = aw_actorId input) (companies d) \<noteq> None \<and>
      find (\<lambda>x. hw_company_id x = c \<and> hw_run_id x = rid \<and> hw_id x = aw_waitId input) (human_waits d) = Some w \<and>
      find (\<lambda>x. r_company_id x = c \<and> r_id x = rid) (runs d) = Some run \<and>
      find (\<lambda>x. t_company_id x = c \<and> t_run_id x = rid \<and> t_id x = hw_task_id w) (tasks d) = Some task \<and>
      find (\<lambda>x. cs_company_id x = c \<and> cs_id x = hw_context_snapshot_id w) (context_snapshots d) = Some source \<and>
      \<not> answer_conflicts input w run task \<and> 0 < hw_request_version w \<and>
      length (canonicalDigest E (aw_content input)) = 64 \<and>
      present (\<lambda>x. (cp_company_id x, cp_id x)) (c, cs_company_profile_version_id source) (company_profile_versions d) \<and>
      present (\<lambda>x. (gv_company_id x, gv_id x)) (c, cs_goal_version_id source) (goal_versions d) \<and>
      event_log_ok d \<and> present (\<lambda>x. (rc_company_id x, rc_run_id x)) (c, rid) (run_event_counters d) \<and>
      present fo_id (aw_actorId input) (founders d) \<and>
      absent ik_key (aw_actorId input, ''durability-spike.wait.answer'', aw_idempotencyKey input) (idempotency_records d) \<and>
      absent ca_wait_id (aw_waitId input) (clarification_answer_versions d) \<and>
      absent ik_id (id 0) (idempotency_records d) \<and> absent ca_id (id 1) (clarification_answer_versions d) \<and>
      absent cs_id (id 2) (context_snapshots d) \<and> absent sa_context_snapshot_id (id 2) (context_snapshot_answers d) \<and>
      absent ev_id (id 3) (events d) \<and> absent om_id (id 4) (outbox_messages d))"

lemma insert_answer_ok:
  assumes "ca_version r = 1" and "length (ca_content_digest r) = 64" and "0 < ca_request_version r"
    and "absent ca_id (ca_id r) (clarification_answer_versions (sys_db s))"
    and "absent ca_wait_id (ca_wait_id r) (clarification_answer_versions (sys_db s))"
    and "w \<in> set (human_waits (sys_db s))" "hw_company_id w = ca_company_id r" "hw_run_id w = ca_run_id r"
      "hw_id w = ca_wait_id r" "hw_request_id w = ca_request_id r" "hw_request_version w = ca_request_version r"
      "hw_context_snapshot_id w = ca_source_context_snapshot_id r"
      "hw_response_schema_id w = ca_response_schema_id r" "hw_response_schema_version w = ca_response_schema_version r"
    and "present (\<lambda>x. (co_id x, co_founder_id x)) (ca_company_id r, ca_created_by r) (companies (sys_db s))"
  shows "insert_answer r s = (Inr (), s\<lparr>sys_db := sys_db s\<lparr>clarification_answer_versions :=
     clarification_answer_versions (sys_db s) @ [r]\<rparr>\<rparr>)"
  unfolding insert_answer_def using assms
  by (intro insert_row_ok) (auto simp: present_image intro!: image_eqI [of _ _ w])

lemma insert_snapshot_answer_ok:
  assumes "absent sa_context_snapshot_id (sa_context_snapshot_id r) (context_snapshot_answers (sys_db s))"
    and "present (\<lambda>x. (cs_company_id x, cs_id x)) (sa_company_id r, sa_context_snapshot_id r) (context_snapshots (sys_db s))"
    and "present (\<lambda>x. (ca_company_id x, ca_id x)) (sa_company_id r, sa_answer_version_id r)
           (clarification_answer_versions (sys_db s))"
  shows "insert_snapshot_answer r s = (Inr (), s\<lparr>sys_db := sys_db s\<lparr>context_snapshot_answers :=
     context_snapshot_answers (sys_db s) @ [r]\<rparr>\<rparr>)"
  unfolding insert_snapshot_answer_def using assms
  by (intro insert_row_ok) (auto simp: absent_def)

lemma insert_snapshot_ok:
  assumes "absent cs_id (cs_id r) (context_snapshots (sys_db s))"
    and "present (\<lambda>x. (cp_company_id x, cp_id x)) (cs_company_id r, cs_company_profile_version_id r)
       (company_profile_versions (sys_db s))"
    and "present (\<lambda>x. (gv_company_id x, gv_id x)) (cs_company_id r, cs_goal_version_id r) (goal_versions (sys_db s))"
  shows "insert_snapshot r s = (Inr (), s\<lparr>sys_db := sys_db s\<lparr>context_snapshots := context_snapshots (sys_db s) @ [r]\<rparr>\<rparr>)"
  unfolding insert_snapshot_def using assms by (intro insert_row_ok) simp

lemma present_append [simp]: "present key k (rs @ [r]) \<longleftrightarrow> present key k rs \<or> key r = k"
  by (auto simp: present_def)

lemma find_present: "find p xs = Some x \<Longrightarrow> (\<And>y. p y \<Longrightarrow> key y = k) \<Longrightarrow> present key k xs"
  by (auto simp: present_def dest!: find_SomeD)

lemma resume_task_hit:
  assumes "task \<in> set (tasks d)"
    and "t_company_id task = aw_companyId input \<and> t_run_id task = aw_runId input \<and> t_id task = hw_task_id w"
  shows "\<exists>x \<in> set (tasks (resume_task E input w sid ids d)).
     t_id x = hw_task_id w \<and> t_state x = T_READY \<and> t_lease_token x = None"
  unfolding resume_task_def by (simp, rule upd_where_hits [OF assms(1)]) (use assms(2) in simp_all)

lemma guards_pass:
  assumes "find (\<lambda>x. co_id x = aw_companyId input \<and> co_founder_id x = aw_actorId input) (companies (sys_db s)) \<noteq> None"
    and "find (\<lambda>x. hw_company_id x = aw_companyId input \<and> hw_run_id x = aw_runId input \<and> hw_id x = aw_waitId input)
       (human_waits (sys_db s)) = Some w"
    and "find (\<lambda>x. r_company_id x = aw_companyId input \<and> r_id x = aw_runId input) (runs (sys_db s)) = Some run"
    and "find (\<lambda>x. t_company_id x = aw_companyId input \<and> t_run_id x = aw_runId input \<and> t_id x = hw_task_id w)
       (tasks (sys_db s)) = Some task"
    and "\<not> answer_conflicts input w run task"
  shows "answer_body E input s = record_answer E input w run s"
proof -
  from assms(1) obtain y where "find (\<lambda>x. co_id x = aw_companyId input \<and> co_founder_id x = aw_actorId input)
    (companies (sys_db s)) = Some y" by blast
  with assms(2-5) show ?thesis
    by (simp add: answer_body_def assertFounder_def lockWait_def lockRun_def lockTask_def
        tx_bind_def tx_then_def tx_when_def tx_require_def tx_return_def query_apply)
qed

text \<open>The body, from the state the executor hands it.\<close>

lemma record_answer_runs:
  assumes can: "can_answer E input w run task source s"
    and next': "sys_next s1 = Suc (sys_next s)" and db: "sys_db s1 = sys_db s\<lparr>idempotency_records := rs\<rparr>"
  obtains t aid sid eid q where "answer_body E input s1 = (Inr (202, answered_body E input w run aid sid eid), t)"
    and "new_answer E input w aid \<in> set (clarification_answer_versions (sys_db t))"
    and "resumed_snapshot E input source sid aid \<in> set (context_snapshots (sys_db t))"
    and "runs (sys_db t) = runs (resume_run E input w sid (sys_db s))"
    and "tasks (sys_db t) = tasks (resume_task E input w sid (cs_answer_version_ids source @ [aid]) (sys_db s))"
    and "human_waits (sys_db t) = human_waits (resolve_wait E input w eid (sys_db s))"
    and "events (sys_db t) = events (sys_db s) @ [new_event E (wait_resolved_event input w sid aid) eid q]"
proof -
  let ?d = "sys_db s1" let ?n = "sys_next s1"
  let ?aid = "uuid_at E ?n" let ?sid = "uuid_at E (Suc ?n)"
  let ?ids = "cs_answer_version_ids source @ [?aid]"
  let ?a = "new_answer E input w ?aid" let ?c = "resumed_snapshot E input source ?sid ?aid"
  let ?sa = "\<lparr>sa_company_id = aw_companyId input, sa_context_snapshot_id = ?sid,
        sa_answer_version_id = ?aid, sa_ordinal = length ?ids - 1\<rparr>"
  let ?s2 = "s1\<lparr>sys_next := Suc (Suc ?n)\<rparr>"
  let ?d3 = "?d\<lparr>clarification_answer_versions := clarification_answer_versions ?d @ [?a]\<rparr>"
  let ?d4 = "?d3\<lparr>context_snapshots := context_snapshots ?d @ [?c]\<rparr>"
  let ?d5 = "?d4\<lparr>context_snapshot_answers := context_snapshot_answers ?d @ [?sa]\<rparr>"
  let ?d6 = "resume_run E input w ?sid (resume_task E input w ?sid ?ids ?d5)"
  let ?o = "wait_resolved_event input w ?sid ?aid"
  note c = can [unfolded can_answer_def Let_def]
  have w: "find (\<lambda>x. hw_company_id x = aw_companyId input \<and> hw_run_id x = aw_runId input \<and> hw_id x = aw_waitId input)
      (human_waits (sys_db s)) = Some w" and nc: "\<not> answer_conflicts input w run task" using c by blast+
  have co: "present (\<lambda>x. (co_id x, co_founder_id x)) (aw_companyId input, aw_actorId input) (companies (sys_db s))"
    using c by (auto simp: find_None_iff present_def)
  have ru: "present (\<lambda>x. (r_company_id x, r_id x)) (aw_companyId input, aw_runId input) (runs (sys_db s))"
    using c by (auto elim: find_present)
  have a: "insert_answer ?a ?s2 = (Inr (), ?s2\<lparr>sys_db := ?d3\<rparr>)"
    using c find_SomeD [OF w] nc co next' db
    by (subst insert_answer_ok [where w = w]) (auto simp: new_answer_def answer_conflicts_def)
  have sn: "insert_snapshot ?c (?s2\<lparr>sys_db := ?d3\<rparr>) = (Inr (), ?s2\<lparr>sys_db := ?d4\<rparr>)"
    using c next' db by (subst insert_snapshot_ok) (auto simp: resumed_snapshot_def)
  have sa: "insert_snapshot_answer ?sa (?s2\<lparr>sys_db := ?d4\<rparr>) = (Inr (), ?s2\<lparr>sys_db := ?d5\<rparr>)"
    using c next' db by (subst insert_snapshot_answer_ok) (auto simp: resumed_snapshot_def new_answer_def)
  obtain ctr where ctr: "ctr \<in> set (run_event_counters (sys_db s))" "rc_company_id ctr = aw_companyId input"
    "rc_run_id ctr = aw_runId input" using c by (auto simp: present_def)
  have log: "event_log_ok ?d6"
    using c db event_log_ok_cong [of ?d6 "sys_db s"] by (simp add: log_part_def resume_run_def resume_task_def)
  have fresh: "uuid_at E (Suc (Suc (Suc (sys_next s)))) \<notin> ev_id ` set (events (sys_db s))"
    "uuid_at E (Suc (Suc (Suc (Suc (sys_next s))))) \<notin> om_id ` set (outbox_messages (sys_db s))"
    using c by (simp_all add: absent_image eval_nat_numeral)
  have "\<exists>t. DomainEvent_append E ?o (?s2\<lparr>sys_db := ?d6\<rparr>) = (Inr (uuid_at E (sys_next (?s2\<lparr>sys_db := ?d6\<rparr>))), t)"
  proof (rule append_succeeds [where rid = "aw_runId input" and c = ctr])
    show "event_log_ok (sys_db (?s2\<lparr>sys_db := ?d6\<rparr>))" using log by simp
    show "present co_id (ae_companyId ?o) (companies (sys_db (?s2\<lparr>sys_db := ?d6\<rparr>)))"
      using co db by (auto simp: wait_resolved_event_def resume_run_def resume_task_def present_def)
    show "present (\<lambda>x. (r_company_id x, r_id x)) (ae_companyId ?o, aw_runId input) (runs (sys_db (?s2\<lparr>sys_db := ?d6\<rparr>)))"
      using ru db by (simp add: wait_resolved_event_def resume_run_def resume_task_def present_upd_where)
  qed (use ctr db next' fresh in \<open>simp_all add: wait_resolved_event_def resume_run_def resume_task_def\<close>)
  then obtain eid s3 where ev: "DomainEvent_append E ?o (?s2\<lparr>sys_db := ?d6\<rparr>) = (Inr eid, s3)" by blast
  then obtain cs q ms where s3: "sys_db s3 = ?d6\<lparr>run_event_counters := cs,
      events := events ?d6 @ [new_event E ?o eid q], outbox_messages := ms\<rparr>"
    by (rule append_shape) simp
  let ?t = "s3\<lparr>sys_db := resolve_wait E input w eid (sys_db s3)\<rparr>"
  have src: "find (\<lambda>c. cs_company_id c = aw_companyId input \<and> cs_id c = hw_context_snapshot_id w)
      (context_snapshots ?d) = Some source" using c db by simp
  have body: "answer_body E input s1 = record_answer E input w run s1"
    by (rule guards_pass [where task = task]) (use c nc db in simp_all)
  have run: "answer_body E input s1 = (Inr (202, answered_body E input w run ?aid ?sid eid), ?t)"
    unfolding body record_answer_def Let_def tx_then_def tx_bind_def newId_apply query_apply execute_apply
      tx_require_def tx_return_def
    using src a sn sa ev by simp
  show thesis
    by (rule that [OF run, where q = q])
      (simp_all add: s3 db resolve_wait_def resume_run_def resume_task_def)
qed

lemma answer_runs:
  assumes "can_answer E input w run task source s"
  obtains t aid sid eid q where "answer E input s = (Inr \<lparr>cr_status = 202,
       cr_body = answered_body E input w run aid sid eid, cr_replayed = False\<rparr>, t)"
    and "new_answer E input w aid \<in> set (clarification_answer_versions (sys_db t))"
    and "resumed_snapshot E input source sid aid \<in> set (context_snapshots (sys_db t))"
    and "runs (sys_db t) = runs (resume_run E input w sid (sys_db s))"
    and "tasks (sys_db t) = tasks (resume_task E input w sid (cs_answer_version_ids source @ [aid]) (sys_db s))"
    and "events (sys_db t) = events (sys_db s) @ [new_event E (wait_resolved_event input w sid aid) eid q]"
proof -
  let ?o = "answer_command E input"
  let ?rs = "idempotency_records (sys_db s) @ [new_idempotency_record E ?o (uuid_at E (sys_next s))
    (canonicalDigest E (cx_request ?o))]"
  let ?s1 = "s\<lparr>sys_next := Suc (sys_next s), sys_db := sys_db s\<lparr>idempotency_records := ?rs\<rparr>\<rparr>"
  note c = assms [unfolded can_answer_def Let_def]
  obtain t aid sid eid q where b: "answer_body E input ?s1 = (Inr (202, answered_body E input w run aid sid eid), t)"
    and t: "new_answer E input w aid \<in> set (clarification_answer_versions (sys_db t))"
    "resumed_snapshot E input source sid aid \<in> set (context_snapshots (sys_db t))"
    "runs (sys_db t) = runs (resume_run E input w sid (sys_db s))"
    "tasks (sys_db t) = tasks (resume_task E input w sid (cs_answer_version_ids source @ [aid]) (sys_db s))"
    "events (sys_db t) = events (sys_db s) @ [new_event E (wait_resolved_event input w sid aid) eid q]"
    by (rule record_answer_runs [OF assms, of ?s1 ?rs]) simp_all
  let ?t = "t\<lparr>sys_db := complete_record E ?o 202 (answered_body E input w run aid sid eid) (sys_db t)\<rparr>"
  have k: "command_key ?o = (aw_actorId input, ''durability-spike.wait.answer'', aw_idempotencyKey input)"
    "cx_actorId ?o = aw_actorId input" "cx_execute ?o = answer_body E input"
    by (simp_all add: command_key_def answer_command_def)
  have run: "answer E input s = (Inr \<lparr>cr_status = 202,
       cr_body = answered_body E input w run aid sid eid, cr_replayed = False\<rparr>, ?t)"
    unfolding answer_def tx_then_def tx_bind_def tx_lift_def
    using CommandExecutor_run_new [of ?o s E 202 _ t] b c k by simp
  show thesis by (rule that [OF run]) (simp_all add: complete_record_def t)
qed

text \<open>
  C16. An admissible answer resumes the run. The command returns 202; the answer is stored with
  its digest, a new context snapshot extends the snapshot of the wait by exactly this answer, the
  run returns to the state it was suspended in, with the new context and the next row version,
  its task is ready again without a lease, and one event is appended to the log.
\<close>

theorem answer_resumes:
  assumes "can_answer E input w run task source s"
  shows "\<exists>t aid sid eid q task'. answer E input s = (Inr \<lparr>cr_status = 202,
       cr_body = answered_body E input w run aid sid eid, cr_replayed = False\<rparr>, t) \<and>
     new_answer E input w aid \<in> set (clarification_answer_versions (sys_db t)) \<and>
     resumed_snapshot E input source sid aid \<in> set (context_snapshots (sys_db t)) \<and>
     run\<lparr>r_state := hw_resume_run_state w, r_context_snapshot_id := sid,
       r_row_version := r_row_version run + 1, r_updated_at := now_ms E\<rparr> \<in> set (runs (sys_db t)) \<and>
     task' \<in> set (tasks (sys_db t)) \<and> t_id task' = hw_task_id w \<and> t_state task' = T_READY \<and>
     t_lease_token task' = None \<and>
     events (sys_db t) = events (sys_db s) @ [new_event E (wait_resolved_event input w sid aid) eid q]"
proof -
  note c = assms [unfolded can_answer_def Let_def]
  obtain t aid sid eid q where t: "answer E input s = (Inr \<lparr>cr_status = 202,
       cr_body = answered_body E input w run aid sid eid, cr_replayed = False\<rparr>, t)"
    "new_answer E input w aid \<in> set (clarification_answer_versions (sys_db t))"
    "resumed_snapshot E input source sid aid \<in> set (context_snapshots (sys_db t))"
    "runs (sys_db t) = runs (resume_run E input w sid (sys_db s))"
    "tasks (sys_db t) = tasks (resume_task E input w sid (cs_answer_version_ids source @ [aid]) (sys_db s))"
    "events (sys_db t) = events (sys_db s) @ [new_event E (wait_resolved_event input w sid aid) eid q]"
    by (rule answer_runs [OF assms])
  have "run \<in> set (runs (sys_db s)) \<and> r_company_id run = aw_companyId input \<and> r_id run = aw_runId input"
    using c find_SomeD [of _ "runs (sys_db s)" run] by blast
  then have "run\<lparr>r_state := hw_resume_run_state w, r_context_snapshot_id := sid,
       r_row_version := r_row_version run + 1, r_updated_at := now_ms E\<rparr> \<in> set (runs (sys_db t))"
    unfolding t(4) resume_run_def by (auto simp: set_upd_where)
  moreover have "task \<in> set (tasks (sys_db s))" "t_company_id task = aw_companyId input \<and> t_run_id task = aw_runId input \<and>
      t_id task = hw_task_id w"
    using c find_SomeD [of _ "tasks (sys_db s)" task] by (blast, blast)
  from resume_task_hit [OF this] obtain task' where "task' \<in> set (tasks (sys_db t))" "t_id task' = hw_task_id w"
    "t_state task' = T_READY" "t_lease_token task' = None" unfolding t(5) by metis
  ultimately show ?thesis using t(1-3,6)
    by (intro exI [of _ t] exI [of _ aid] exI [of _ sid] exI [of _ eid] exI [of _ q] exI [of _ task']) simp
qed

section \<open>Concurrent events are numbered without gaps\<close>

text \<open>What one append of the run needs, and leaves for the next one.\<close>

definition can_append :: "env \<Rightarrow> uuid \<Rightarrow> uuid \<Rightarrow> nat \<Rightarrow> sys \<Rightarrow> bool" where
  "can_append E cid rid n s \<longleftrightarrow>
     event_log_ok (sys_db s) \<and> present co_id cid (companies (sys_db s)) \<and>
     present (\<lambda>x. (r_company_id x, r_id x)) (cid, rid) (runs (sys_db s)) \<and>
     \<lparr>rc_company_id = cid, rc_run_id = rid, rc_next_sequence = n\<rparr> \<in> set (run_event_counters (sys_db s)) \<and>
     (\<forall>i \<ge> sys_next s. uuid_at E i \<notin> ev_id ` set (events (sys_db s)) \<and>
        uuid_at E i \<notin> om_id ` set (outbox_messages (sys_db s)))"

lemma append_step:
  assumes can: "can_append E cid rid n s" and inj: "inj (uuid_at E)"
    and o: "ae_companyId opts = cid" "ae_runId opts = Some rid"
  defines "c \<equiv> \<lparr>rc_company_id = cid, rc_run_id = rid, rc_next_sequence = n\<rparr>"
  shows "transaction (DomainEvent_append E opts) s = (Inr (uuid_at E (sys_next s)), appended E opts rid c s)"
    and "can_append E cid rid (Suc n) (appended E opts rid c s)"
proof -
  let ?t = "appended E opts rid c s"
  have a: "DomainEvent_append E opts s = (Inr (uuid_at E (sys_next s)), ?t)"
    using can o by (intro append_runs) (simp_all add: can_append_def c_def)
  then show "transaction (DomainEvent_append E opts) s = (Inr (uuid_at E (sys_next s)), ?t)"
    by (simp add: transaction_Inr)
  have log: "event_log_ok (sys_db ?t)"
    using commitsD [OF append_commits_log _ a] can by (simp add: can_append_def)
  have "c \<in> set (run_event_counters (sys_db s))" using can by (simp add: can_append_def c_def)
  then have "c\<lparr>rc_next_sequence := Suc n\<rparr> \<in> set (run_event_counters (sys_db ?t))"
    using o by (force simp: appended_def Let_def set_upd_where c_def)
  moreover have "uuid_at E i \<noteq> uuid_at E (sys_next s)" "uuid_at E i \<noteq> uuid_at E (Suc (sys_next s))"
    if "Suc (Suc (sys_next s)) \<le> i" for i
    using that inj by (auto dest: injD)
  ultimately show "can_append E cid rid (Suc n) ?t"
    using can log by (auto simp: can_append_def appended_def Let_def c_def new_event_def new_message_def)
qed

lemma append_all_runs:
  assumes "can_append E cid rid n s" and inj: "inj (uuid_at E)"
    and o: "\<And>i. ae_companyId (opt i) = cid \<and> ae_runId (opt i) = Some rid"
  shows "\<exists>t es. append_all (\<lambda>i. transaction (DomainEvent_append E (opt i))) ks s = (Inr (zip ks (map ev_id es)), t) \<and>
     events (sys_db t) = events (sys_db s) @ es \<and> can_append E cid rid (n + length ks) t \<and>
     map ev_run_sequence es = map Some [n..<n + length ks] \<and> list_all (\<lambda>e. ev_company_id e = cid) es"
  using assms(1)
proof (induction ks arbitrary: n s)
  case Nil
  then show ?case by (intro exI [of _ s] exI [of _ "[]"]) simp
next
  case (Cons k ks)
  let ?c = "\<lparr>rc_company_id = cid, rc_run_id = rid, rc_next_sequence = n\<rparr>"
  let ?e = "new_event E (opt k) (uuid_at E (sys_next s)) (Some n)"
  note st = append_step [OF Cons.prems inj, of "opt k"]
  from Cons.IH [OF st(2)] o obtain t es where
    t: "append_all (\<lambda>i. transaction (DomainEvent_append E (opt i))) ks (appended E (opt k) rid ?c s) =
        (Inr (zip ks (map ev_id es)), t)"
    "events (sys_db t) = events (sys_db (appended E (opt k) rid ?c s)) @ es"
    "can_append E cid rid (Suc n + length ks) t" "map ev_run_sequence es = map Some [Suc n..<Suc n + length ks]"
    "list_all (\<lambda>e. ev_company_id e = cid) es" by blast
  have e: "ev_id ?e = uuid_at E (sys_next s)" "ev_run_sequence ?e = Some n" "ev_company_id ?e = cid"
    using o by (simp_all add: new_event_def)
  have seq: "map ev_run_sequence (?e # es) = map Some [n..<n + length (k # ks)]"
    using t(4) e(2) by (simp add: upt_conv_Cons del: upt_Suc)
  have "events (sys_db t) = events (sys_db s) @ (?e # es)"
    using t(2) by (simp add: appended_def Let_def)
  then show ?case
    using t st(1) o e seq by (intro exI [of _ t] exI [of _ "?e # es"]) (simp del: upt_Suc)
qed

text \<open>
  Concurrent events of a run are numbered without gaps. When \<open>appendConcurrentEvents\<close> starts any
  number of transactions and the database runs them in whatever order, all of them commit, and
  the sequence numbers read back are the next consecutive numbers of the run.
\<close>

theorem concurrent_events_consecutive:
  assumes "can_append E companyId runId n s" and "inj (uuid_at E)"
  shows "\<exists>ids t. appendConcurrentEvents E order companyId runId actorId correlationId s =
       (Inr (ids, [n..<n + length order]), t) \<and> length ids = length order \<and> distinct ids \<and>
     can_append E companyId runId (n + length order) t"
proof -
  let ?opt = "probe_event companyId runId actorId correlationId"
  have "ae_companyId (?opt i) = companyId \<and> ae_runId (?opt i) = Some runId" for i
    by (simp add: probe_event_def)
  from append_all_runs [where opt = ?opt and ks = order, OF assms this] obtain t es where
    t: "append_all (\<lambda>i. transaction (DomainEvent_append E (?opt i))) order s = (Inr (zip order (map ev_id es)), t)"
    "events (sys_db t) = events (sys_db s) @ es" "can_append E companyId runId (n + length order) t"
    "map ev_run_sequence es = map Some [n..<n + length order]" "list_all (\<lambda>e. ev_company_id e = companyId) es" by blast
  have len: "length es = length order" using arg_cong [OF t(4), of length] by simp
  let ?ids = "map snd (sort_key fst (zip order (map ev_id es)))"
  have "mset ?ids = mset (map snd (zip order (map ev_id es)))"
    unfolding mset_map by simp
  then have mids: "mset ?ids = mset (map ev_id es)" using len by (simp only: map_snd_zip length_map)
  have "distinct (map ev_id (events (sys_db t)))" using t(3) by (simp add: can_append_def event_log_ok_def)
  then have dist: "distinct (map ev_id es)" and new: "ev_id ` set (events (sys_db s)) \<inter> ev_id ` set es = {}"
    unfolding t(2) by auto
  have ids: "set ?ids = ev_id ` set es" using arg_cong [OF mids, of set_mset] by simp
  have "filter (\<lambda>e. ev_company_id e = companyId \<and> ev_id e \<in> set ?ids) (events (sys_db t)) = es"
    unfolding t(2) ids filter_append using new t(5) by (auto simp: filter_empty_conv filter_id_conv list_all_iff)
  moreover have "map (\<lambda>e. case ev_run_sequence e of None \<Rightarrow> 0 | Some n \<Rightarrow> n) es = [n..<n + length order]"
    using arg_cong [OF t(4), of "map (case_option 0 id)"] by (simp add: comp_def option.case_eq_if id_def)
  ultimately have "appendConcurrentEvents E order companyId runId actorId correlationId s =
      (Inr (?ids, [n..<n + length order]), t)"
    using t(1) by (simp add: appendConcurrentEvents_def tx_bind_def query_apply tx_return_def Let_def sort_upt)
  moreover have "distinct ?ids" using dist mset_eq_imp_distinct_iff [OF mids] by blast
  moreover have "length ?ids = length order" using len by simp
  ultimately show ?thesis using t(3) by (intro exI [of _ ?ids] exI [of _ t]) simp
qed

section \<open>Opening a wait\<close>

text \<open>A wait may be opened: the rows are there and pass the tests, and the new identifiers are new.\<close>

definition can_open :: "env \<Rightarrow> open_wait_input \<Rightarrow> run_row \<Rightarrow> task_row \<Rightarrow> sys \<Rightarrow> bool" where
  "can_open E input run task s \<longleftrightarrow>
     (let d = sys_db s; c = ow_companyId input; rid = ow_runId input; id = (\<lambda>i. uuid_at E (sys_next s + i)) in
      find (\<lambda>x. co_id x = c \<and> co_founder_id x = ow_actorId input) (companies d) \<noteq> None \<and>
      find (\<lambda>x. r_company_id x = c \<and> r_id x = rid) (runs d) = Some run \<and>
      find (\<lambda>x. t_company_id x = c \<and> t_run_id x = rid \<and> t_id x = ow_taskId input) (tasks d) = Some task \<and>
      int (r_row_version run) = ow_expectedRunVersion input \<and> r_state run = R_DRAFT \<and>
      t_state task \<in> set [T_QUEUED, T_READY] \<and> t_lease_token task = None \<and>
      0 < length (r_workflow_version run) \<and>
      present (\<lambda>x. (cs_company_id x, cs_id x)) (c, r_context_snapshot_id run) (context_snapshots d) \<and>
      event_log_ok d \<and> present (\<lambda>x. (rc_company_id x, rc_run_id x)) (c, rid) (run_event_counters d) \<and>
      absent hw_run_id rid (open_waits d) \<and> absent hw_id (id 0) (human_waits d) \<and>
      absent ev_id (id 2) (events d) \<and> absent om_id (id 3) (outbox_messages d))"

lemma insert_wait_ok:
  assumes "0 < length (hw_workflow_version r)" "0 < hw_wait_version r" "0 < hw_request_version r"
    "0 < hw_expected_run_row_version r" "0 < length (hw_response_schema_id r)" "0 < length (hw_response_schema_version r)" "hw_expires_at r = Some x" "hw_created_at r < x" "wait_check r"
    and "absent hw_id (hw_id r) (human_waits (sys_db s))" "absent hw_run_id (hw_run_id r) (open_waits (sys_db s))"
    and "present (\<lambda>x. (r_company_id x, r_id x, r_workflow_version x))
       (hw_company_id r, hw_run_id r, hw_workflow_version r) (runs (sys_db s))"
    and "present (\<lambda>x. (cs_company_id x, cs_id x)) (hw_company_id r, hw_context_snapshot_id r) (context_snapshots (sys_db s))"
    and "present (\<lambda>x. (t_company_id x, t_run_id x, t_id x)) (hw_company_id r, hw_run_id r, hw_task_id r) (tasks (sys_db s))"
  shows "insert_wait r s = (Inr (), s\<lparr>sys_db := sys_db s\<lparr>human_waits := human_waits (sys_db s) @ [r]\<rparr>\<rparr>)"
  unfolding insert_wait_def using assms by (intro insert_row_ok) (simp add: open_waits_def)

text \<open>
  A drafted run is suspended on a wait, or nothing happens. When the wait may be opened, the
  transaction commits: the run and its task wait for the founder, each with the next row version,
  the task without a lease, one wait is open for the run, bound to its context and to the row
  version the run now has, and one event is appended. With the injected failure, which is thrown
  after the last statement, the call fails and every table is as it was.
\<close>

theorem open_wait_suspends:
  assumes "can_open E input run task s"
  shows "\<exists>t. if ow_injectRollback input
     then open_wait E input s = (Inl (JsError ''A2-TX-01 injected rollback before commit''), t) \<and> sys_db t = sys_db s
     else \<exists>wid rid eid q task'.
       open_wait E input s = (Inr (opened_body run wid rid eid), t) \<and>
       human_waits (sys_db t) = human_waits (sys_db s) @ [new_wait E input run wid rid] \<and>
       run\<lparr>r_state := R_AWAITING_FOUNDER_INPUT, r_row_version := r_row_version run + 1,
         r_updated_at := now_ms E\<rparr> \<in> set (runs (sys_db t)) \<and>
       task' \<in> set (tasks (sys_db t)) \<and> t_id task' = ow_taskId input \<and> t_state task' = T_AWAITING_INPUT \<and>
       t_lease_token task' = None \<and> t_row_version task' = t_row_version task + 1 \<and>
       events (sys_db t) = events (sys_db s) @ [new_event E (wait_opened_event input run wid rid) eid q]"
proof -
  let ?d = "sys_db s" let ?n = "sys_next s"
  let ?w = "new_wait E input run (uuid_at E ?n) (uuid_at E (Suc ?n))"
  let ?d1 = "suspend_run E input (suspend_task E input ?d)"
  let ?d2 = "?d1\<lparr>human_waits := human_waits ?d @ [?w]\<rparr>"
  let ?s1 = "s\<lparr>sys_next := Suc (Suc ?n), sys_db := ?d1\<rparr>"
  let ?s2 = "s\<lparr>sys_next := Suc (Suc ?n), sys_db := ?d2\<rparr>"
  let ?o = "wait_opened_event input run (uuid_at E ?n) (uuid_at E (Suc ?n))"
  note c = assms [unfolded can_open_def Let_def]
  have fr: "find (\<lambda>x. r_company_id x = ow_companyId input \<and> r_id x = ow_runId input) (runs ?d) = Some run"
    and ft: "find (\<lambda>x. t_company_id x = ow_companyId input \<and> t_run_id x = ow_runId input \<and> t_id x = ow_taskId input)
      (tasks ?d) = Some task" using c by blast+
  obtain co where fc: "find (\<lambda>x. co_id x = ow_companyId input \<and> co_founder_id x = ow_actorId input) (companies ?d) = Some co"
    using c by blast
  note r = find_SomeD [OF fr] and k = find_SomeD [OF ft] and co = find_SomeD [OF fc]
  have pr: "present (\<lambda>x. (r_company_id x, r_id x, r_workflow_version x))
      (ow_companyId input, ow_runId input, r_workflow_version run) (runs ?d)"
    and pt: "present (\<lambda>x. (t_company_id x, t_run_id x, t_id x)) (ow_companyId input, ow_runId input, ow_taskId input) (tasks ?d)"
    and pr2: "present (\<lambda>x. (r_company_id x, r_id x)) (ow_companyId input, ow_runId input) (runs ?d)"
    using r k by (auto simp: present_def)
  have ins: "insert_wait ?w ?s1 = (Inr (), ?s2)"
    using c pr pt by (subst insert_wait_ok [where x = "now_ms E + 86400000"])
      (simp_all add: new_wait_def wait_check_def suspend_run_def suspend_task_def open_waits_def present_upd_where)
  obtain ctr where ctr: "ctr \<in> set (run_event_counters ?d)" "rc_company_id ctr = ow_companyId input"
    "rc_run_id ctr = ow_runId input" using c by (auto simp: present_def)
  have log: "event_log_ok ?d2"
    using c event_log_ok_cong [of ?d2 ?d] by (simp add: log_part_def suspend_run_def suspend_task_def)
  have fresh: "uuid_at E (Suc (Suc ?n)) \<notin> ev_id ` set (events ?d)"
    "uuid_at E (Suc (Suc (Suc ?n))) \<notin> om_id ` set (outbox_messages ?d)"
    using c by (simp_all add: absent_image eval_nat_numeral)
  have "\<exists>t. DomainEvent_append E ?o ?s2 = (Inr (uuid_at E (sys_next ?s2)), t)"
  proof (rule append_succeeds [where rid = "ow_runId input" and c = ctr])
    show "present co_id (ae_companyId ?o) (companies (sys_db ?s2))"
      using co by (auto simp: wait_opened_event_def suspend_run_def suspend_task_def present_def)
    show "present (\<lambda>x. (r_company_id x, r_id x)) (ae_companyId ?o, ow_runId input) (runs (sys_db ?s2))"
      using pr2 by (simp add: wait_opened_event_def suspend_run_def suspend_task_def present_upd_where)
  qed (use log ctr fresh in \<open>simp_all add: wait_opened_event_def suspend_run_def suspend_task_def\<close>)
  then obtain eid t where ev: "DomainEvent_append E ?o ?s2 = (Inr eid, t)" by blast
  then obtain cs q ms where t: "sys_db t = ?d2\<lparr>run_event_counters := cs,
      events := events ?d2 @ [new_event E ?o eid q], outbox_messages := ms\<rparr>"
    by (rule append_shape) simp
  have eval: "open_wait E input s = (if ow_injectRollback input
      then (Inl (JsError ''A2-TX-01 injected rollback before commit''), t\<lparr>sys_db := sys_db s\<rparr>)
      else (Inr (opened_body run (uuid_at E ?n) (uuid_at E (Suc ?n)) eid), t))"
    unfolding open_wait_def assertFounder_def lockRun_def lockTask_def transaction_def tx_then_def tx_bind_def
      query_apply newId_apply execute_apply tx_require_def tx_return_def tx_when_def tx_throw_def
    using fc fr ft c ins ev by simp
  have ru: "run\<lparr>r_state := R_AWAITING_FOUNDER_INPUT, r_row_version := r_row_version run + 1,
      r_updated_at := now_ms E\<rparr> \<in> set (runs (sys_db t))"
    using r by (simp add: t suspend_run_def suspend_task_def) (auto simp: set_upd_where)
  have "\<exists>x \<in> set (tasks (sys_db t)). t_id x = ow_taskId input \<and> t_state x = T_AWAITING_INPUT \<and>
      t_lease_token x = None \<and> t_row_version x = t_row_version task + 1"
    unfolding t suspend_run_def suspend_task_def
    by (simp, rule upd_where_hits [OF conjunct1 [OF k]]) (use k in simp_all)
  then obtain task' where "task' \<in> set (tasks (sys_db t))" "t_id task' = ow_taskId input" "t_state task' = T_AWAITING_INPUT"
    "t_lease_token task' = None" "t_row_version task' = t_row_version task + 1" by blast
  moreover have "human_waits (sys_db t) = human_waits ?d @ [?w]"
    "events (sys_db t) = events ?d @ [new_event E ?o eid q]"
    by (simp_all add: t suspend_run_def suspend_task_def)
  ultimately show ?thesis
    unfolding eval using ru by (cases "ow_injectRollback input") (auto intro!: exI [of _ "t\<lparr>sys_db := sys_db s\<rparr>"], blast)
qed

end
