(* ===== verification/Durable_Wait_Witnesses.thy ===== *)
theory Durable_Wait_Witnesses
  imports Durable_Wait
begin

text \<open>The guarantees on human waits at the sample run: drafted, suspended on a wait, and answered.\<close>

definition sample_opening :: open_wait_input where
  "sample_opening = \<lparr>ow_actorId = sample_id 1, ow_companyId = sample_id 2, ow_runId = sample_id 7,
     ow_taskId = sample_id 8, ow_correlationId = sample_id 30, ow_expectedRunVersion = 1,
     ow_injectRollback = False\<rparr>"

definition sample_waiting :: sys where
  "sample_waiting = sample_sys\<lparr>sys_db := sample_db\<lparr>
     human_waits := [new_wait sample_env sample_opening sample_run (sample_id 31) (sample_id 32)],
     runs := [sample_run\<lparr>r_state := R_AWAITING_FOUNDER_INPUT, r_row_version := 2\<rparr>],
     tasks := [sample_task\<lparr>t_state := T_AWAITING_INPUT, t_row_version := 2\<rparr>]\<rparr>\<rparr>"

definition sample_answer :: answer_wait_input where
  "sample_answer = \<lparr>aw_actorId = sample_id 1, aw_companyId = sample_id 2, aw_runId = sample_id 7,
     aw_waitId = sample_id 31, aw_requestId = sample_id 32, aw_requestVersion = 1,
     aw_workflowVersion = ''mvp-v1'', aw_expectedRunVersion = 2,
     aw_schemaId = ''durable-wait-response'', aw_schemaVersion = ''1.0'',
     aw_content = JObj [(''decision'', JStr ''CONTINUE''), (''note'', JStr ''ok'')],
     aw_idempotencyKey = sample_id 33, aw_correlationId = sample_id 34\<rparr>"

lemma sample_log_empty: "event_log_ok (sys_db sample_sys)" "event_log_ok (sys_db sample_waiting)"
  by (simp_all add: sample_waiting_def sample_state event_log_ok_def numbered_def run_events_def)

lemma sample_can_open: "can_open sample_env sample_opening sample_run sample_task sample_sys"
  unfolding can_open_def Let_def
  using sample_log_empty(1) by (simp add: sample_opening_def sample_state open_waits_def present_def absent_def)

lemma sample_can_answer:
  "can_answer sample_env sample_answer (new_wait sample_env sample_opening sample_run (sample_id 31) (sample_id 32))
     (sample_run\<lparr>r_state := R_AWAITING_FOUNDER_INPUT, r_row_version := 2\<rparr>)
     (sample_task\<lparr>t_state := T_AWAITING_INPUT, t_row_version := 2\<rparr>) sample_snapshot sample_waiting"
  unfolding can_answer_def Let_def
  using sample_log_empty(2)
  by (simp add: sample_waiting_def sample_answer_def sample_opening_def sample_state new_wait_def answer_conflicts_def
      assertAnswerShape_def json_get_def present_def absent_def)

theorem open_wait_suspends_witness:
  "\<exists>(t :: sys) wid rid eid. open_wait sample_env sample_opening sample_sys =
     (Inr (opened_body sample_run wid rid eid), t)"
proof -
  have "\<not> ow_injectRollback sample_opening" by (simp add: sample_opening_def)
  then show ?thesis using open_wait_suspends [OF sample_can_open] by auto
qed

theorem answer_resumes_witness:
  "\<exists>(t :: sys) r. answer sample_env sample_answer sample_waiting = (Inr r, t) \<and> cr_status r = 202 \<and>
     length (clarification_answer_versions (sys_db t)) > 0"
  using answer_resumes [OF sample_can_answer] by fastforce

theorem answered_once_witness:
  "\<exists>(t :: sys) r. answer sample_env sample_answer sample_waiting = (Inr r, t) \<and>
     (\<exists>w \<in> set (human_waits (sys_db t)). hw_id w = sample_id 31 \<and> hw_status w = W_RESOLVED)"
proof -
  obtain t r where t: "answer sample_env sample_answer sample_waiting = (Inr r, t)" "\<not> cr_replayed r"
    by (rule answer_runs [OF sample_can_answer]) auto
  have "distinct (map hw_id (human_waits (sys_db sample_waiting)))"
    by (simp add: sample_waiting_def)
  from answered_once [OF t this] t(1) show ?thesis by (auto simp: sample_answer_def)
qed

theorem concurrent_events_consecutive_witness:
  "\<exists>(t :: sys) ids. appendConcurrentEvents sample_env [2, 0, 1] (sample_id 2) (sample_id 7) ''probe'' (sample_id 34) sample_sys =
     (Inr (ids, [1, 2, 3]), t) \<and> length ids = 3"
proof -
  have "can_append sample_env (sample_id 2) (sample_id 7) 1 sample_sys"
    unfolding can_append_def using sample_log_empty(1) by (simp add: sample_state present_def)
  moreover have "inj (uuid_at sample_env)" by (simp add: inj_on_def)
  ultimately have "\<exists>ids t. appendConcurrentEvents sample_env [2, 0, 1] (sample_id 2) (sample_id 7) ''probe'' (sample_id 34) sample_sys =
       (Inr (ids, [1..<1 + length [2 :: nat, 0, 1]]), t) \<and> length ids = length [2 :: nat, 0, 1] \<and> distinct ids \<and>
     can_append sample_env (sample_id 2) (sample_id 7) (1 + length [2 :: nat, 0, 1]) t"
    by (rule concurrent_events_consecutive)
  then show ?thesis by (auto simp: upt_conv_Cons)
qed

end
