(* ===== verification/Js_Regex.thy ===== *)
theory Js_Regex
  imports Prelude
begin

text \<open>
  The regular expressions the backend uses, as ECMAScript runs them: a backtracking matcher that
  returns every way to match at a position, the preferred one first, with the captured groups;
  \<open>test\<close> and \<open>matchAll\<close> over it. \<open>Lit\<close>, \<open>Among\<close> and \<open>Except\<close> compare as under the flag \<open>i\<close>, \<open>Exact\<close> and \<open>Of\<close> without it;
  \<open>Not_next cs\<close> is the lookahead \<open>(?![cs])\<close>. A declarative semantics says which
  text an expression matches between which neighbours, and the matcher is shown equivalent to it.
\<close>

section \<open>Expressions\<close>

datatype rx_class = Among string | Except string | Of string | Digit | Space | Dash_space

datatype rx =
    Eps
  | Lit string
  | Exact string
  | Class rx_class
  | Many rx_class "nat option"
  | Seq rx rx
  | Alt rx rx
  | Opt rx
  | Bound
  | Start
  | End
  | Line_start
  | Line_end
  | Not_next string
  | Group nat rx

text \<open>The flag \<open>i\<close>: ASCII letters are compared without case; no other character folds to one.\<close>

definition fold_case :: "char \<Rightarrow> char" where
  "fold_case c = (let n = of_char c :: nat in if 65 \<le> n \<and> n \<le> 90 then char_of (n + 32) else c)"

fun in_class :: "rx_class \<Rightarrow> char \<Rightarrow> bool" where
  "in_class (Among cs) c = (fold_case c \<in> set cs)"
| "in_class (Except cs) c = (fold_case c \<notin> set cs)"
| "in_class (Of cs) c = (c \<in> set cs)"
| "in_class Digit c = is_digit c"
| "in_class Space c = js_space c"
| "in_class Dash_space c = (c = CHR ''-'' \<or> js_space c)"

definition is_word :: "char \<Rightarrow> bool" where
  "is_word c \<longleftrightarrow> (let n = of_char c :: nat in
     48 \<le> n \<and> n \<le> 57 \<or> 65 \<le> n \<and> n \<le> 90 \<or> n = 95 \<or> 97 \<le> n \<and> n \<le> 122)"

fun word_at :: "string \<Rightarrow> bool" where
  "word_at [] = False"
| "word_at (c # cs) = is_word c"

fun seqs :: "rx list \<Rightarrow> rx" where
  "seqs [] = Eps"
| "seqs (r # rs) = Seq r (seqs rs)"

fun alts :: "rx \<Rightarrow> rx list \<Rightarrow> rx" where
  "alts r [] = r"
| "alts r (q # qs) = Alt r (alts q qs)"

text \<open>\<open>Line_start\<close> and \<open>Line_end\<close> are \<open>^\<close> and \<open>$\<close> under the flag \<open>m\<close>.\<close>

fun line_break_at :: "string \<Rightarrow> bool" where
  "line_break_at [] = True"
| "line_break_at (c # cs) = (c = CHR 0x0A \<or> c = CHR 0x0D)"

section \<open>The matcher\<close>

text \<open>A position: the text before it, reversed, the text after it, and the groups captured so far.\<close>

type_synonym rx_pos = "string \<times> string \<times> (nat \<times> string) list"

fun strip_lit :: "string \<Rightarrow> string \<Rightarrow> string \<Rightarrow> (string \<times> string) option" where
  "strip_lit [] pre rest = Some (pre, rest)"
| "strip_lit (p # ps) pre [] = None"
| "strip_lit (p # ps) pre (c # cs) = (if fold_case c = p then strip_lit ps (c # pre) cs else None)"

text \<open>A greedy repetition of a class: one to \<open>limit\<close> characters, the longest first.\<close>

fun many :: "rx_class \<Rightarrow> nat \<Rightarrow> string \<Rightarrow> string \<Rightarrow> (string \<times> string) list" where
  "many c 0 pre rest = []"
| "many c (Suc n) pre [] = []"
| "many c (Suc n) pre (x # xs) = (if in_class c x then many c n (x # pre) xs @ [(x # pre, xs)] else [])"

fun strip_exact :: "string \<Rightarrow> string \<Rightarrow> string \<Rightarrow> (string \<times> string) option" where
  "strip_exact [] pre rest = Some (pre, rest)"
| "strip_exact (p # ps) pre [] = None"
| "strip_exact (p # ps) pre (c # cs) = (if c = p then strip_exact ps (c # pre) cs else None)"

fun rx_run :: "rx \<Rightarrow> rx_pos \<Rightarrow> rx_pos list" where
  "rx_run Eps p = [p]"
| "rx_run (Lit s) (pre, rest, g) =
     (case strip_lit s pre rest of None \<Rightarrow> [] | Some (pre', rest') \<Rightarrow> [(pre', rest', g)])"
| "rx_run (Exact s) (pre, rest, g) =
     (case strip_exact s pre rest of None \<Rightarrow> [] | Some (pre', rest') \<Rightarrow> [(pre', rest', g)])"
| "rx_run (Class c) (pre, rest, g) =
     (case rest of [] \<Rightarrow> [] | x # xs \<Rightarrow> if in_class c x then [(x # pre, xs, g)] else [])"
| "rx_run (Many c limit) (pre, rest, g) =
     map (\<lambda>(pre', rest'). (pre', rest', g))
       (many c (case limit of None \<Rightarrow> length rest | Some n \<Rightarrow> n) pre rest)"
| "rx_run (Seq r q) p = concat (map (rx_run q) (rx_run r p))"
| "rx_run (Alt r q) p = rx_run r p @ rx_run q p"
| "rx_run (Opt r) p = rx_run r p @ [p]"
| "rx_run Bound (pre, rest, g) = (if word_at pre \<noteq> word_at rest then [(pre, rest, g)] else [])"
| "rx_run Start (pre, rest, g) = (if pre = [] then [(pre, rest, g)] else [])"
| "rx_run End (pre, rest, g) = (if rest = [] then [(pre, rest, g)] else [])"
| "rx_run Line_start (pre, rest, g) = (if line_break_at pre then [(pre, rest, g)] else [])"
| "rx_run Line_end (pre, rest, g) = (if line_break_at rest then [(pre, rest, g)] else [])"
| "rx_run (Not_next cs) (pre, rest, g) =
     (case rest of [] \<Rightarrow> [(pre, rest, g)] | x # xs \<Rightarrow> if x \<in> set cs then [] else [(pre, rest, g)])"
| "rx_run (Group i r) (pre, rest, g) =
     map (\<lambda>(pre', rest', g'). (pre', rest', (i, take (length rest - length rest') rest) # g'))
       (rx_run r (pre, rest, g))"

text \<open>The first match at or after a position (\<open>exec\<close>), \<open>test\<close>, and \<open>matchAll\<close>.\<close>

fun rx_exec :: "rx \<Rightarrow> string \<Rightarrow> string \<Rightarrow> (string \<times> rx_pos) option" where
  "rx_exec r pre rest =
     (case rx_run r (pre, rest, []) of
        p # _ \<Rightarrow> Some (rest, p)
      | [] \<Rightarrow> (case rest of [] \<Rightarrow> None | c # cs \<Rightarrow> rx_exec r (c # pre) cs))"

declare rx_exec.simps [simp del]

definition rx_test :: "rx \<Rightarrow> string \<Rightarrow> bool" where
  "rx_test r text \<longleftrightarrow> rx_exec r [] text \<noteq> None"

text \<open>After a match of the empty string the search moves on by one character.\<close>

function rx_all :: "rx \<Rightarrow> string \<Rightarrow> string \<Rightarrow> (nat \<times> string) list list" where
  "rx_all r pre rest =
     (case rx_exec r pre rest of
        None \<Rightarrow> []
      | Some (at, pre', rest', g) \<Rightarrow>
          if length rest' < length rest then g # rx_all r pre' rest'
          else g # (case rest of [] \<Rightarrow> [] | c # cs \<Rightarrow> rx_all r (c # pre) cs))"
  by pat_completeness auto
termination by (relation "measure (\<lambda>(r, pre, rest). length rest)") auto

declare rx_all.simps [simp del]

definition matchAll :: "rx \<Rightarrow> string \<Rightarrow> (nat \<times> string) list list" where
  "matchAll r text = rx_all r [] text"

section \<open>What an expression matches\<close>

text \<open>\<open>matches r pre w post\<close>: the text \<open>w\<close>, after \<open>pre\<close> (reversed) and before \<open>post\<close>, is a match.\<close>

inductive matches :: "rx \<Rightarrow> string \<Rightarrow> string \<Rightarrow> string \<Rightarrow> bool" where
  m_eps: "matches Eps pre [] post"
| m_lit: "map fold_case w = s \<Longrightarrow> matches (Lit s) pre w post"
| m_exact: "matches (Exact s) pre s post"
| m_class: "in_class c x \<Longrightarrow> matches (Class c) pre [x] post"
| m_many: "w \<noteq> [] \<Longrightarrow> list_all (in_class c) w \<Longrightarrow> (case limit of None \<Rightarrow> True | Some n \<Rightarrow> length w \<le> n) \<Longrightarrow>
    matches (Many c limit) pre w post"
| m_seq: "matches r pre u (v @ post) \<Longrightarrow> matches q (rev u @ pre) v post \<Longrightarrow> matches (Seq r q) pre (u @ v) post"
| m_alt1: "matches r pre w post \<Longrightarrow> matches (Alt r q) pre w post"
| m_alt2: "matches q pre w post \<Longrightarrow> matches (Alt r q) pre w post"
| m_opt0: "matches (Opt r) pre [] post"
| m_opt1: "matches r pre w post \<Longrightarrow> matches (Opt r) pre w post"
| m_bound: "word_at pre \<noteq> word_at post \<Longrightarrow> matches Bound pre [] post"
| m_start: "matches Start [] [] post"
| m_end: "matches End pre [] []"
| m_line_start: "line_break_at pre \<Longrightarrow> matches Line_start pre [] post"
| m_line_end: "line_break_at post \<Longrightarrow> matches Line_end pre [] post"
| m_not_next: "(case post of [] \<Rightarrow> True | x # xs \<Rightarrow> x \<notin> set cs) \<Longrightarrow> matches (Not_next cs) pre [] post"
| m_group: "matches r pre w post \<Longrightarrow> matches (Group i r) pre w post"

inductive_simps matches_simps:
  "matches Eps pre w post" "matches (Lit s) pre w post" "matches (Class c) pre w post"
  "matches (Many c limit) pre w post" "matches (Seq r q) pre w post" "matches (Alt r q) pre w post"
  "matches (Opt r) pre w post" "matches Bound pre w post" "matches Start pre w post"
  "matches End pre w post" "matches Line_start pre w post" "matches Line_end pre w post" "matches (Exact s) pre w post" "matches (Not_next cs) pre w post" "matches (Group i r) pre w post"

definition occurs :: "rx \<Rightarrow> string \<Rightarrow> bool" where
  "occurs r text \<longleftrightarrow> (\<exists>pre w post. text = pre @ w @ post \<and> matches r (rev pre) w post)"

section \<open>The matcher finds exactly the matches\<close>

lemma strip_lit_Some:
  "strip_lit s pre rest = Some (pre', rest') \<longleftrightarrow>
    (\<exists>w. rest = w @ rest' \<and> pre' = rev w @ pre \<and> map fold_case w = s)"
proof (induction s pre rest rule: strip_lit.induct)
  case (3 p ps pre c cs)
  then show ?case by (auto simp: Cons_eq_append_conv map_eq_Cons_conv)
qed auto

lemma strip_exact_Some:
  "strip_exact s pre rest = Some (pre', rest') \<longleftrightarrow> rest = s @ rest' \<and> pre' = rev s @ pre"
  by (induction s pre rest rule: strip_exact.induct) auto

lemma in_many:
  "(pre', rest') \<in> set (many c n pre rest) \<longleftrightarrow>
    (\<exists>w. rest = w @ rest' \<and> pre' = rev w @ pre \<and> w \<noteq> [] \<and> list_all (in_class c) w \<and> length w \<le> n)"
proof (induction c n pre rest rule: many.induct)
  case (3 c n pre x xs)
  show ?case
  proof
    assume "(pre', rest') \<in> set (many c (Suc n) pre (x # xs))"
    then show "\<exists>w. x # xs = w @ rest' \<and> pre' = rev w @ pre \<and> w \<noteq> [] \<and> list_all (in_class c) w \<and> length w \<le> Suc n"
      using 3 by (auto split: if_splits intro: exI [of _ "[x]"])
  next
    assume "\<exists>w. x # xs = w @ rest' \<and> pre' = rev w @ pre \<and> w \<noteq> [] \<and> list_all (in_class c) w \<and> length w \<le> Suc n"
    then obtain v where "xs = v @ rest'" "pre' = rev v @ x # pre" "in_class c x" "list_all (in_class c) v" "length v \<le> n"
      by (auto simp: Cons_eq_append_conv)
    with 3 show "(pre', rest') \<in> set (many c (Suc n) pre (x # xs))"
      by (cases "v = []") auto
  qed
qed auto

lemma rx_run_matches:
  "(\<exists>g'. (pre', rest', g') \<in> set (rx_run r (pre, rest, g))) \<longleftrightarrow>
    (\<exists>w. rest = w @ rest' \<and> pre' = rev w @ pre \<and> matches r pre w rest')"
proof (induction r arbitrary: pre rest g pre' rest')
  case (Lit s)
  have "(\<exists>g'. (pre', rest', g') \<in> set (rx_run (Lit s) (pre, rest, g))) \<longleftrightarrow> strip_lit s pre rest = Some (pre', rest')"
    by (auto split: option.split)
  then show ?case by (simp add: strip_lit_Some matches_simps)
next
  case (Exact s)
  have "(\<exists>g'. (pre', rest', g') \<in> set (rx_run (Exact s) (pre, rest, g))) \<longleftrightarrow> strip_exact s pre rest = Some (pre', rest')"
    by (auto split: option.split)
  then show ?case by (simp add: strip_exact_Some matches_simps)
next
  case (Class c)
  then show ?case by (cases rest) (auto simp: matches_simps)
next
  case (Not_next cs)
  then show ?case by (cases rest) (auto simp: matches_simps)
next
  case (Many c limit)
  let ?n = "case limit of None \<Rightarrow> length rest | Some n \<Rightarrow> n"
  have "(\<exists>g'. (pre', rest', g') \<in> set (rx_run (Many c limit) (pre, rest, g))) \<longleftrightarrow>
      (pre', rest') \<in> set (many c ?n pre rest)" by force
  then show ?case by (cases limit) (auto simp: in_many matches_simps)
next
  case (Seq r q)
  show ?case
  proof
    assume "\<exists>g'. (pre', rest', g') \<in> set (rx_run (Seq r q) (pre, rest, g))"
    then obtain p1 r1 g1 g' where a: "(p1, r1, g1) \<in> set (rx_run r (pre, rest, g))"
      "(pre', rest', g') \<in> set (rx_run q (p1, r1, g1))" by auto
    from a(1) Seq.IH(1) obtain u where u: "rest = u @ r1" "p1 = rev u @ pre" "matches r pre u r1" by blast
    from a(2) Seq.IH(2) obtain v where v: "r1 = v @ rest'" "pre' = rev v @ p1" "matches q p1 v rest'" by blast
    from u v show "\<exists>w. rest = w @ rest' \<and> pre' = rev w @ pre \<and> matches (Seq r q) pre w rest'"
      by (intro exI [of _ "u @ v"]) (auto intro: matches.intros)
  next
    assume "\<exists>w. rest = w @ rest' \<and> pre' = rev w @ pre \<and> matches (Seq r q) pre w rest'"
    then obtain u v where uv: "rest = u @ v @ rest'" "pre' = rev v @ rev u @ pre"
      "matches r pre u (v @ rest')" "matches q (rev u @ pre) v rest'" by (auto simp: matches_simps)
    from uv Seq.IH(1) obtain g1 where "(rev u @ pre, v @ rest', g1) \<in> set (rx_run r (pre, rest, g))" by blast
    moreover from uv Seq.IH(2) obtain g' where "(pre', rest', g') \<in> set (rx_run q (rev u @ pre, v @ rest', g1))" by blast
    ultimately show "\<exists>g'. (pre', rest', g') \<in> set (rx_run (Seq r q) (pre, rest, g))" by auto
  qed
next
  case (Alt r q)
  show ?case
    unfolding rx_run.simps set_append Un_iff ex_disj_distrib Alt.IH matches_simps by blast
next
  case (Opt r)
  have "(\<exists>g'. (pre', rest', g') \<in> set (rx_run (Opt r) (pre, rest, g))) \<longleftrightarrow>
      (\<exists>g'. (pre', rest', g') \<in> set (rx_run r (pre, rest, g))) \<or> pre' = pre \<and> rest' = rest" by auto
  then show ?case unfolding Opt.IH matches_simps by auto
next
  case (Group i r)
  have "(\<exists>g'. (pre', rest', g') \<in> set (rx_run (Group i r) (pre, rest, g))) \<longleftrightarrow>
      (\<exists>g'. (pre', rest', g') \<in> set (rx_run r (pre, rest, g)))" by force
  then show ?case unfolding Group.IH matches_simps .
qed (auto simp: matches_simps)

lemma rx_run_none: "rx_run r (pre, rest, g) = [] \<longleftrightarrow> (\<forall>w post. rest = w @ post \<longrightarrow> \<not> matches r pre w post)"
proof
  assume e: "rx_run r (pre, rest, g) = []"
  show "\<forall>w post. rest = w @ post \<longrightarrow> \<not> matches r pre w post"
    using rx_run_matches [of _ _ r pre rest g] unfolding e by auto
next
  assume n: "\<forall>w post. rest = w @ post \<longrightarrow> \<not> matches r pre w post"
  show "rx_run r (pre, rest, g) = []"
  proof (cases "rx_run r (pre, rest, g)")
    case (Cons p ps)
    then have "(fst p, fst (snd p), snd (snd p)) \<in> set (rx_run r (pre, rest, g))" by simp
    then have "\<exists>g'. (fst p, fst (snd p), g') \<in> set (rx_run r (pre, rest, g))" by blast
    with n show ?thesis unfolding rx_run_matches by blast
  qed
qed

lemma rx_exec_none:
  "rx_exec r pre rest = None \<longleftrightarrow> (\<forall>u w post. rest = u @ w @ post \<longrightarrow> \<not> matches r (rev u @ pre) w post)"
proof (induction rest arbitrary: pre)
  case Nil
  then show ?case using rx_run_none [of r pre "[]" "[]"] by (subst rx_exec.simps) (auto split: list.split)
next
  case (Cons c cs)
  have "rx_exec r pre (c # cs) = None \<longleftrightarrow> rx_run r (pre, c # cs, []) = [] \<and> rx_exec r (c # pre) cs = None"
    by (subst rx_exec.simps) (auto split: list.split)
  also have "\<dots> \<longleftrightarrow> (\<forall>w post. c # cs = w @ post \<longrightarrow> \<not> matches r pre w post) \<and>
      (\<forall>u w post. cs = u @ w @ post \<longrightarrow> \<not> matches r (rev (c # u) @ pre) w post)"
    unfolding rx_run_none Cons.IH by simp
  also have "\<dots> \<longleftrightarrow> (\<forall>u w post. c # cs = u @ w @ post \<longrightarrow> \<not> matches r (rev u @ pre) w post)"
  proof (intro iffI conjI allI impI; (elim conjE)?)
    fix u w post
    assume "\<forall>w post. c # cs = w @ post \<longrightarrow> \<not> matches r pre w post"
      "\<forall>u w post. cs = u @ w @ post \<longrightarrow> \<not> matches r (rev (c # u) @ pre) w post" "c # cs = u @ w @ post"
    then show "\<not> matches r (rev u @ pre) w post" by (cases u) auto
  next
    fix w post
    assume "\<forall>u w post. c # cs = u @ w @ post \<longrightarrow> \<not> matches r (rev u @ pre) w post" "c # cs = w @ post"
    then show "\<not> matches r pre w post" by (metis append_Nil rev.simps(1))
  next
    fix u w post
    assume "\<forall>u w post. c # cs = u @ w @ post \<longrightarrow> \<not> matches r (rev u @ pre) w post" "cs = u @ w @ post"
    then show "\<not> matches r (rev (c # u) @ pre) w post" by (metis append_Cons)
  qed
  finally show ?case .
qed

text \<open>\<open>test\<close> holds exactly if the text contains a match.\<close>

lemma rx_test_occurs: "rx_test r text \<longleftrightarrow> occurs r text"
  unfolding rx_test_def occurs_def rx_exec_none by auto

text \<open>Rules by which a search is run on a given text.\<close>

lemma rx_exec_skip: "rx_run r (pre, c # cs, []) = [] \<Longrightarrow> rx_exec r pre (c # cs) = rx_exec r (c # pre) cs"
  by (subst rx_exec.simps) simp

lemma rx_exec_end: "rx_run r (pre, [], []) = [] \<Longrightarrow> rx_exec r pre [] = None"
  by (subst rx_exec.simps) simp

lemma rx_all_none: "rx_exec r pre rest = None \<Longrightarrow> rx_all r pre rest = []"
  by (subst rx_all.simps) simp

lemmas rx_eval = rx_exec_skip rx_exec_end is_word_def fold_case_def is_digit_def js_space_def numeral_2_eq_2

end
