(* ===== verification/Qualification.thy ===== *)
theory Qualification
  imports Js_Regex Tables
begin

text \<open>
  \<open>src/modules/initiatives\<close>: the qualification policy (\<open>policy/qualification-policy.ts\<close>), the
  evaluation of a structured goal against it (\<open>goal-qualification.ts\<close>), the request body of a goal
  with its validation (\<open>dto/create-goal.dto.ts\<close>) and the scope policy (\<open>goal-scope.policy.ts\<close>).
  Every goal is qualified, needs clarification, or is out of scope; the theorems say when, and that
  the outcome always satisfies the constraints of the table it is stored in.
\<close>

section \<open>The policy\<close>

record qualification_policy =
  qp_policyVersion :: string
  qp_allowedCategories :: "string list"
  qp_maxPersonas :: int
  qp_maxFlows :: int
  qp_maxScreens :: int
  qp_platform :: string
  qp_template :: string
  qp_clientOnly :: bool
  qp_dataMode :: string
  qp_deniedCapabilities :: "string list"
  qp_maxClarificationQuestions :: nat

definition QUALIFICATION_POLICY_VERSION :: string where
  "QUALIFICATION_POLICY_VERSION = ''1.0.0''"

definition QUALIFICATION_POLICY :: qualification_policy where
  "QUALIFICATION_POLICY =
     \<lparr>qp_policyVersion = QUALIFICATION_POLICY_VERSION,
      qp_allowedCategories = [
       ''crud_workspace'', ''dashboard_reporting'', ''intake_onboarding'',
       ''catalog_directory'', ''planning_scheduling'', ''content_library''],
      qp_maxPersonas = 1, qp_maxFlows = 1, qp_maxScreens = 5,
      qp_platform = ''responsive_browser'', qp_template = ''react_typescript_template_v1'',
      qp_clientOnly = True, qp_dataMode = ''mock_or_local'',
      qp_deniedCapabilities = [
       ''production_deployment'', ''generated_backend'', ''production_database'',
       ''real_authentication'', ''real_payment'', ''email_delivery'',
       ''third_party_business_api'', ''sensitive_data'', ''native_mobile'', ''native_desktop'',
       ''browser_extension'', ''multi_user_collaboration'', ''multiple_primary_flows'',
       ''multiple_concurrent_initiatives'', ''custom_employees'', ''arbitrary_shell'',
       ''unrestricted_network'', ''external_business_action''],
      qp_maxClarificationQuestions = 5\<rparr>"

datatype goal_reason_code =
    GOAL_CATEGORY_UNSUPPORTED
  | GOAL_TOO_MANY_PERSONAS
  | GOAL_TOO_MANY_FLOWS
  | GOAL_TOO_MANY_SCREENS
  | GOAL_PLATFORM_UNSUPPORTED
  | GOAL_TEMPLATE_UNAVAILABLE
  | GOAL_REQUIRES_BACKEND
  | GOAL_REQUIRES_REAL_DATA
  | GOAL_CAPABILITY_UNSUPPORTED
  | GOAL_NEEDS_CLARIFICATION

definition GOAL_REASON_CODE_ORDER :: "goal_reason_code list" where
  "GOAL_REASON_CODE_ORDER =
     [GOAL_CATEGORY_UNSUPPORTED,
      GOAL_TOO_MANY_PERSONAS,
      GOAL_TOO_MANY_FLOWS,
      GOAL_TOO_MANY_SCREENS,
      GOAL_PLATFORM_UNSUPPORTED,
      GOAL_TEMPLATE_UNAVAILABLE,
      GOAL_REQUIRES_BACKEND,
      GOAL_REQUIRES_REAL_DATA,
      GOAL_CAPABILITY_UNSUPPORTED,
      GOAL_NEEDS_CLARIFICATION]"

fun reason_text :: "goal_reason_code \<Rightarrow> string" where
  "reason_text GOAL_CATEGORY_UNSUPPORTED = ''GOAL_CATEGORY_UNSUPPORTED''"
| "reason_text GOAL_TOO_MANY_PERSONAS = ''GOAL_TOO_MANY_PERSONAS''"
| "reason_text GOAL_TOO_MANY_FLOWS = ''GOAL_TOO_MANY_FLOWS''"
| "reason_text GOAL_TOO_MANY_SCREENS = ''GOAL_TOO_MANY_SCREENS''"
| "reason_text GOAL_PLATFORM_UNSUPPORTED = ''GOAL_PLATFORM_UNSUPPORTED''"
| "reason_text GOAL_TEMPLATE_UNAVAILABLE = ''GOAL_TEMPLATE_UNAVAILABLE''"
| "reason_text GOAL_REQUIRES_BACKEND = ''GOAL_REQUIRES_BACKEND''"
| "reason_text GOAL_REQUIRES_REAL_DATA = ''GOAL_REQUIRES_REAL_DATA''"
| "reason_text GOAL_CAPABILITY_UNSUPPORTED = ''GOAL_CAPABILITY_UNSUPPORTED''"
| "reason_text GOAL_NEEDS_CLARIFICATION = ''GOAL_NEEDS_CLARIFICATION''"

fun founder_message :: "goal_reason_code \<Rightarrow> string" where
  "founder_message GOAL_CATEGORY_UNSUPPORTED =
     ''This prototype category is not enabled for the private alpha.''"
| "founder_message GOAL_TOO_MANY_PERSONAS =
     ''The goal contains more than one primary persona.''"
| "founder_message GOAL_TOO_MANY_FLOWS =
     ''The goal contains more than one primary user flow.''"
| "founder_message GOAL_TOO_MANY_SCREENS =
     ''The proposed flow needs more than five screens or routes.''"
| "founder_message GOAL_PLATFORM_UNSUPPORTED =
     ''The requested output is not a responsive browser prototype.''"
| "founder_message GOAL_TEMPLATE_UNAVAILABLE =
     ''The requested stack does not fit the fixed private-alpha template.''"
| "founder_message GOAL_REQUIRES_BACKEND =
     ''The requested behavior requires a generated backend or production service.''"
| "founder_message GOAL_REQUIRES_REAL_DATA =
     ''The requested behavior requires real, sensitive, or external data.''"
| "founder_message GOAL_CAPABILITY_UNSUPPORTED =
     ''The goal requests a capability outside the private-alpha boundary.''"
| "founder_message GOAL_NEEDS_CLARIFICATION =
     ''The goal is missing information required to qualify the primary flow.''"

fun next_action :: "goal_reason_code \<Rightarrow> string" where
  "next_action GOAL_CATEGORY_UNSUPPORTED =
     ''Choose an eligible category or submit a new, narrower goal version.''"
| "next_action GOAL_TOO_MANY_PERSONAS =
     ''Choose one primary persona and submit a new goal version.''"
| "next_action GOAL_TOO_MANY_FLOWS =
     ''Choose one flow to prototype and submit a new goal version.''"
| "next_action GOAL_TOO_MANY_SCREENS =
     ''Narrow the flow to five screens or fewer and submit a new goal version.''"
| "next_action GOAL_PLATFORM_UNSUPPORTED =
     ''Reframe the goal as a responsive web flow or cancel this initiative.''"
| "next_action GOAL_TEMPLATE_UNAVAILABLE =
     ''Accept the fixed React and TypeScript template or narrow the goal.''"
| "next_action GOAL_REQUIRES_BACKEND =
     ''Replace it with a client-side mock interaction and submit a new goal version.''"
| "next_action GOAL_REQUIRES_REAL_DATA =
     ''Use safe local mock data and submit a new goal version.''"
| "next_action GOAL_CAPABILITY_UNSUPPORTED =
     ''Review the cited limitation, remove that capability, and submit a new goal version.''"
| "next_action GOAL_NEEDS_CLARIFICATION =
     ''Answer the bounded clarification questions or cancel the initiative.''"

section \<open>Goals and their qualification\<close>

record must_have =
  mh_id :: string
  mh_text :: string

record goal_constraints =
  gc_max_screens :: int
  gc_primary_flows :: int
  gc_client_only :: bool
  gc_data_mode :: string

record structured_goal =
  sg_target_user :: string
  sg_problem :: string
  sg_desired_outcome :: string
  sg_primary_flow :: string
  sg_must_haves :: "must_have list"
  sg_non_goals :: "string list"
  sg_visual_direction :: string
  sg_constraints :: goal_constraints
  sg_reference_ids :: "uuid list"

record clarification_question =
  q_id :: string
  q_code :: string
  q_prompt :: string

record qualification_finding =
  qf_reason_code :: goal_reason_code
  qf_rule :: string
  qf_field :: "string option"
  qf_capability :: "string option"

record public_qualification =
  gq_q_result :: qualification_result
  gq_q_reason_codes :: "goal_reason_code list"
  gq_q_explanation :: string
  gq_q_proposal :: "string option"
  gq_q_questions :: "clarification_question list"
  gq_q_screen_estimate :: int
  gq_q_policy_version :: string

record goal_qualification = public_qualification +
  gq_q_findings :: "qualification_finding list"

definition publicGoalQualification :: "goal_qualification \<Rightarrow> public_qualification" where
  "publicGoalQualification q =
     \<lparr>gq_q_result = gq_q_result q, gq_q_reason_codes = gq_q_reason_codes q,
      gq_q_explanation = gq_q_explanation q, gq_q_proposal = gq_q_proposal q,
      gq_q_questions = gq_q_questions q, gq_q_screen_estimate = gq_q_screen_estimate q,
      gq_q_policy_version = gq_q_policy_version q\<rparr>"

definition MISSING_TARGET_USER :: rx where
  "MISSING_TARGET_USER =
     seqs [Start, Group 1 (alts (Lit ''tbd'') [Lit ''n/a'', Lit ''na'', Lit ''unknown'', Lit ''todo'', seqs [Lit ''user'', Opt (Lit ''s'')], Lit ''people'', Lit ''someone'', Lit ''tbc'']), End]"

definition VAGUE_TEXT :: rx where
  "VAGUE_TEXT =
     seqs [Start, Group 1 (alts (Lit ''tbd'') [Lit ''n/a'', Lit ''na'', Lit ''unknown'', Lit ''todo'', Lit ''tbc'', Lit ''not sure'']), Bound]"

definition WORD_NUMBER :: "(string \<times> nat) list" where
  "WORD_NUMBER = [(''six'', 6), (''seven'', 7), (''eight'', 8), (''nine'', 9), (''ten'', 10),
     (''eleven'', 11), (''twelve'', 12)]"

record denied_capability =
  dc_capability :: string
  dc_reason_code :: goal_reason_code
  dc_rule :: string
  dc_patterns :: "rx list"

definition DENIED_CAPABILITY_PATTERNS :: "denied_capability list" where
  "DENIED_CAPABILITY_PATTERNS = [
     \<lparr>dc_capability = ''production_deployment'', dc_reason_code = GOAL_CAPABILITY_UNSUPPORTED, dc_rule = ''denied_capability'',
      dc_patterns =
       [seqs [Bound, Lit ''production deploy'', Opt (alts (Lit ''ment'') [Lit ''ing'']), Bound],
        seqs [Bound, Lit ''deploy'', Opt (alts (Lit ''ing'') [Lit ''ed'']), Lit '' '', Opt (Lit ''the ''), alts (Lit ''prototype'') [Lit ''app'', Lit ''application''], Lit '' to production'', Bound],
        seqs [Bound, Lit ''deploy to '', alts (Lit ''aws'') [Lit ''gcp'', Lit ''azure'', Lit ''vercel'', Lit ''netlify'', Lit ''kubernetes''], Bound],
        seqs [Bound, Lit ''production hosting'', Bound]]\<rparr>,
     \<lparr>dc_capability = ''generated_backend'', dc_reason_code = GOAL_REQUIRES_BACKEND, dc_rule = ''denied_capability'',
      dc_patterns =
       [seqs [Bound, Lit ''generated backend'', Bound],
        seqs [Bound, Lit ''backend rest api'', Bound],
        seqs [Bound, Lit ''rest api server'', Bound],
        seqs [Bound, Lit ''graphql server'', Bound],
        seqs [Bound, Lit ''express server'', Bound],
        seqs [Bound, Lit ''nestjs backend'', Bound],
        seqs [Bound, Lit ''production service'', Bound]]\<rparr>,
     \<lparr>dc_capability = ''production_database'', dc_reason_code = GOAL_REQUIRES_BACKEND, dc_rule = ''denied_capability'',
      dc_patterns =
       [seqs [Bound, Lit ''production database'', Bound],
        seqs [Bound, Lit ''postgres'', Opt (Lit ''ql''), Lit '' production'', Bound],
        seqs [Bound, Lit ''connect to '', Opt (Lit ''the ''), alts (Lit ''company'') [Lit ''production''], Lit '' database'', Bound]]\<rparr>,
     \<lparr>dc_capability = ''real_authentication'', dc_reason_code = GOAL_CAPABILITY_UNSUPPORTED, dc_rule = ''denied_capability'',
      dc_patterns =
       [seqs [Bound, Lit ''real '', Opt (Lit ''user ''), Lit ''authentication'', Bound],
        seqs [Bound, Lit ''production '', alts (Lit ''login'') [Lit ''authentication''], Bound],
        seqs [Bound, Lit ''oauth'', Opt (Lit ''2''), Lit '' login'', Bound],
        seqs [Bound, Lit ''single sign'', Class (Among ''- ''), Lit ''on'', Bound]]\<rparr>,
     \<lparr>dc_capability = ''real_payment'', dc_reason_code = GOAL_CAPABILITY_UNSUPPORTED, dc_rule = ''denied_capability'',
      dc_patterns =
       [seqs [Bound, Lit ''stripe'', Bound],
        seqs [Bound, Lit ''paypal'', Bound],
        seqs [Bound, Lit ''real payment'', Opt (Lit ''s''), Bound],
        seqs [Bound, Lit ''process'', Opt (Lit ''ing''), Lit '' payment'', Opt (Lit ''s''), Bound],
        seqs [Bound, Lit ''payment processing'', Bound],
        seqs [Bound, Lit ''charge '', Opt (alts (Lit ''a '') [Lit ''the '']), Lit ''credit card'', Opt (Lit ''s''), Bound],
        seqs [Bound, Lit ''checkout with '', Opt (Lit ''real ''), Lit ''card'', Opt (Lit ''s''), Bound]]\<rparr>,
     \<lparr>dc_capability = ''email_delivery'', dc_reason_code = GOAL_CAPABILITY_UNSUPPORTED, dc_rule = ''denied_capability'',
      dc_patterns =
       [seqs [Bound, Lit ''send'', Opt (alts (Lit ''s'') [Lit ''ing'']), Lit '' '', Opt (Lit ''transactional ''), Lit ''email'', Opt (Lit ''s''), Bound],
        seqs [Bound, Lit ''email delivery'', Bound]]\<rparr>,
     \<lparr>dc_capability = ''third_party_business_api'', dc_reason_code = GOAL_CAPABILITY_UNSUPPORTED, dc_rule = ''denied_capability'',
      dc_patterns =
       [seqs [Bound, Lit ''salesforce'', Bound],
        seqs [Bound, Lit ''hubspot'', Bound],
        seqs [Bound, Lit ''third'', Class (Among ''- ''), Lit ''party '', Opt (Lit ''business ''), Lit ''api'', Bound],
        seqs [Bound, Lit ''external crm api'', Bound]]\<rparr>,
     \<lparr>dc_capability = ''sensitive_data'', dc_reason_code = GOAL_CAPABILITY_UNSUPPORTED, dc_rule = ''denied_capability'',
      dc_patterns =
       [seqs [Bound, Lit ''ssn'', Bound],
        seqs [Bound, Lit ''social security number'', Opt (Lit ''s''), Bound],
        seqs [Bound, Lit ''real customer '', alts (Lit ''pii'') [Lit ''data''], Bound],
        seqs [Bound, Lit ''credit card number'', Opt (Lit ''s''), Bound],
        seqs [Bound, Lit ''passport number'', Opt (Lit ''s''), Bound],
        seqs [Bound, Lit ''medical record'', Opt (Lit ''s''), Bound],
        seqs [Bound, Lit ''phi'', Bound]]\<rparr>,
     \<lparr>dc_capability = ''native_mobile'', dc_reason_code = GOAL_PLATFORM_UNSUPPORTED, dc_rule = ''denied_capability'',
      dc_patterns =
       [seqs [Bound, Lit ''ios app'', Bound],
        seqs [Bound, Lit ''android app'', Bound],
        seqs [Bound, Lit ''react native'', Bound],
        seqs [Bound, Lit ''native mobile'', Bound],
        seqs [Bound, Lit ''swift'', Opt (Lit ''ui''), Lit '' app'', Bound]]\<rparr>,
     \<lparr>dc_capability = ''native_desktop'', dc_reason_code = GOAL_PLATFORM_UNSUPPORTED, dc_rule = ''denied_capability'',
      dc_patterns =
       [seqs [Bound, Lit ''electron'', Bound],
        seqs [Bound, Lit ''native desktop'', Bound],
        seqs [Bound, Lit ''desktop app'', Bound]]\<rparr>,
     \<lparr>dc_capability = ''browser_extension'', dc_reason_code = GOAL_PLATFORM_UNSUPPORTED, dc_rule = ''denied_capability'',
      dc_patterns =
       [seqs [Bound, Lit ''browser extension'', Bound],
        seqs [Bound, Lit ''chrome extension'', Bound]]\<rparr>,
     \<lparr>dc_capability = ''multi_user_collaboration'', dc_reason_code = GOAL_CAPABILITY_UNSUPPORTED, dc_rule = ''denied_capability'',
      dc_patterns =
       [seqs [Bound, Lit ''real'', Class (Among ''- ''), Lit ''time collaboration'', Bound],
        seqs [Bound, Lit ''multi'', Class (Among ''- ''), Lit ''user editing'', Bound],
        seqs [Bound, Lit ''concurrent users collaborating'', Bound]]\<rparr>,
     \<lparr>dc_capability = ''multiple_primary_flows'', dc_reason_code = GOAL_TOO_MANY_FLOWS, dc_rule = ''denied_capability'',
      dc_patterns =
       [seqs [Bound, alts (Lit ''two'') [Lit ''2'', Lit ''three'', Lit ''3'', Lit ''multiple''], Lit '' '', Opt (Lit ''primary ''), Opt (Lit ''user ''), Lit ''flows'', Bound],
        seqs [Bound, Lit ''second '', Opt (Lit ''primary ''), Lit ''user flow'', Bound]]\<rparr>,
     \<lparr>dc_capability = ''multiple_concurrent_initiatives'', dc_reason_code = GOAL_CAPABILITY_UNSUPPORTED, dc_rule = ''denied_capability'',
      dc_patterns =
       [seqs [Bound, Lit ''two initiatives at once'', Bound],
        seqs [Bound, Lit ''concurrent initiatives'', Bound]]\<rparr>,
     \<lparr>dc_capability = ''custom_employees'', dc_reason_code = GOAL_CAPABILITY_UNSUPPORTED, dc_rule = ''denied_capability'',
      dc_patterns =
       [seqs [Bound, Lit ''custom employee'', Opt (Lit ''s''), Bound],
        seqs [Bound, Lit ''custom agent role'', Bound],
        seqs [Bound, Lit ''write a new employee definition'', Bound]]\<rparr>,
     \<lparr>dc_capability = ''arbitrary_shell'', dc_reason_code = GOAL_CAPABILITY_UNSUPPORTED, dc_rule = ''denied_capability'',
      dc_patterns =
       [seqs [Bound, Lit ''arbitrary shell'', Bound],
        seqs [Bound, Lit ''unrestricted shell'', Bound],
        seqs [Bound, Lit ''run bash'', Bound]]\<rparr>,
     \<lparr>dc_capability = ''unrestricted_network'', dc_reason_code = GOAL_CAPABILITY_UNSUPPORTED, dc_rule = ''denied_capability'',
      dc_patterns =
       [seqs [Bound, Lit ''unrestricted network'', Bound],
        seqs [Bound, Lit ''open internet access from the sandbox'', Bound]]\<rparr>,
     \<lparr>dc_capability = ''external_business_action'', dc_reason_code = GOAL_CAPABILITY_UNSUPPORTED, dc_rule = ''denied_capability'',
      dc_patterns =
       [seqs [Bound, Lit ''send a wire'', Bound],
        seqs [Bound, Lit ''charge the customer in production'', Bound],
        seqs [Bound, Lit ''mutate production systems'', Bound]]\<rparr>]"

section \<open>Readings of the text\<close>

definition requestedText :: "structured_goal \<Rightarrow> string" where
  "requestedText goal = js_join [CHR 0x0A]
     ([sg_target_user goal, sg_problem goal, sg_desired_outcome goal, sg_primary_flow goal,
       sg_visual_direction goal] @ map mh_text (sg_must_haves goal))"

definition screen_pattern :: rx where
  "screen_pattern =
     seqs [Bound, alts (Group 1 (Many Digit (Some 2))) [Group 2 (alts (Lit ''six'') [Lit ''seven'', Lit ''eight'', Lit ''nine'', Lit ''ten'', Lit ''eleven'', Lit ''twelve''])], Many Dash_space None, alts (Lit ''screen'') [Lit ''route'', Lit ''page''], Opt (Lit ''s''), Bound]"

text \<open>The number a match stands for: its digits, or its number word.\<close>

definition screen_number :: "(nat \<times> string) list \<Rightarrow> nat option" where
  "screen_number groups =
     (case map_of groups 1 of
        Some digits \<Rightarrow> Some (parse_nat digits)
      | None \<Rightarrow> (case map_of groups 2 of None \<Rightarrow> None | Some word \<Rightarrow> map_of WORD_NUMBER (js_lower word)))"

definition screenEstimateFromText :: "string \<Rightarrow> int" where
  "screenEstimateFromText text =
     foldl (\<lambda>highest groups. case screen_number groups of
         None \<Rightarrow> highest
       | Some n \<Rightarrow> if highest < int n then int n else highest) 0 (matchAll screen_pattern text)"

definition persona_patterns :: "rx list" where
  "persona_patterns =
    [seqs [Bound, alts (Lit ''two'') [Lit ''2'', Lit ''three'', Lit ''3'', Lit ''multiple''], Lit '' '', Opt (Lit ''primary ''), Lit ''personas'', Bound],
     seqs [Bound, Lit ''and also '', Opt (Lit ''for ''), alts (seqs [Lit ''admin'', Opt (Lit ''s'')]) [seqs [Lit ''customer'', Opt (Lit ''s'')], seqs [Lit ''operator'', Opt (Lit ''s'')]], Lit '' as '', Opt (Lit ''a ''), Lit ''primary'', Bound],
     seqs [Bound, Lit ''for both '', Many (Except [CHR ''.'', CHR 0x0A]) None, Lit '' and '', Many (Except [CHR ''.'', CHR 0x0A]) None, Lit '' as primary users'', Bound]]"

definition personaCountFromText :: "string \<Rightarrow> int" where
  "personaCountFromText text = (if list_ex (\<lambda>p. rx_test p text) persona_patterns then 2 else 1)"

definition uniqueReasonCodes :: "qualification_finding list \<Rightarrow> goal_reason_code list" where
  "uniqueReasonCodes findings =
     filter (\<lambda>code. code \<in> set (map qf_reason_code findings)) GOAL_REASON_CODE_ORDER"

definition explanationFor :: "goal_reason_code list \<Rightarrow> qualification_result \<Rightarrow> string" where
  "explanationFor codes result =
     (if result = Qualified then ''This goal fits the private-alpha prototype boundary: one primary persona, one primary flow, five screens or fewer, a client-only React prototype, and local mock data.''
      else let messages = map founder_message codes
           in if result = Out_of_scope then js_join '' '' messages @ '' The submitted goal was not changed.''
              else js_join '' '' messages)"

definition proposalFor :: "goal_reason_code list \<Rightarrow> qualification_finding list \<Rightarrow> string" where
  "proposalFor codes findings =
     (let actions = js_uniq (map next_action codes);
          capabilities = js_uniq (filter (\<lambda>c. c \<noteq> []) (List.map_filter qf_capability findings));
          capabilityClause = (if capabilities \<noteq> []
            then '' Remove '' @ js_join '', '' capabilities @ '' from the requested behavior.'' else '''')
      in ''Keep one primary persona, one primary flow, and five screens or fewer using local mock data.'' @
         capabilityClause @ '' '' @ js_join '' '' actions)"

section \<open>The evaluation\<close>

definition rule_finding :: "goal_reason_code \<Rightarrow> string \<Rightarrow> string \<Rightarrow> qualification_finding" where
  "rule_finding code rule field =
     \<lparr>qf_reason_code = code, qf_rule = rule, qf_field = Some field, qf_capability = None\<rparr>"

definition category_patterns :: "rx list" where
  "category_patterns =
    [seqs [Bound, Lit ''general'', Class (Among ''- ''), Lit ''purpose coding'', Bound],
     seqs [Bound, Lit ''unrestricted agent'', Bound],
     seqs [Bound, Lit ''custom coding sandbox'', Bound]]"

definition template_pattern :: rx where
  "template_pattern =
     seqs [Bound, alts (Lit ''rails'') [Lit ''django'', Lit ''laravel'', Lit ''flutter'', Lit ''swiftui''], Bound]"

definition react_pattern :: rx where
  "react_pattern = seqs [Bound, Lit ''react'', Bound]"

definition rule_findings :: "structured_goal \<Rightarrow> qualification_finding list" where
  "rule_findings goal =
     (let text = requestedText goal; c = sg_constraints goal in
      (if list_ex (\<lambda>p. rx_test p text) category_patterns
       then [rule_finding GOAL_CATEGORY_UNSUPPORTED ''allowed_categories'' ''goal''] else []) @
      (if qp_maxPersonas QUALIFICATION_POLICY < personaCountFromText text
       then [rule_finding GOAL_TOO_MANY_PERSONAS ''one_primary_persona'' ''goal.target_user''] else []) @
      (if gc_primary_flows c \<noteq> qp_maxFlows QUALIFICATION_POLICY
       then [rule_finding GOAL_TOO_MANY_FLOWS ''one_primary_flow'' ''goal.constraints.primary_flows''] else []) @
      (if qp_maxScreens QUALIFICATION_POLICY < gc_max_screens c
       then [rule_finding GOAL_TOO_MANY_SCREENS ''max_five_screens'' ''goal.constraints.max_screens'']
       else if qp_maxScreens QUALIFICATION_POLICY < screenEstimateFromText text
       then [rule_finding GOAL_TOO_MANY_SCREENS ''max_five_screens'' ''goal.primary_flow''] else []) @
      (if \<not> gc_client_only c
       then [rule_finding GOAL_REQUIRES_BACKEND ''client_only'' ''goal.constraints.client_only''] else []) @
      (if gc_data_mode c \<noteq> qp_dataMode QUALIFICATION_POLICY
       then [rule_finding GOAL_REQUIRES_REAL_DATA ''mock_or_local_data'' ''goal.constraints.data_mode''] else []) @
      (if rx_test template_pattern text \<and> \<not> rx_test react_pattern text
       then [rule_finding GOAL_TEMPLATE_UNAVAILABLE ''fixed_react_template'' ''goal''] else []))"

definition capability_findings :: "string \<Rightarrow> qualification_finding list" where
  "capability_findings text =
     map (\<lambda>entry. \<lparr>qf_reason_code = dc_reason_code entry, qf_rule = dc_rule entry, qf_field = None,
            qf_capability = Some (dc_capability entry)\<rparr>)
       (filter (\<lambda>entry. list_ex (\<lambda>p. rx_test p text) (dc_patterns entry)) DENIED_CAPABILITY_PATTERNS)"

text \<open>A question is numbered when it is asked.\<close>

definition ask :: "bool \<Rightarrow> string \<Rightarrow> string \<Rightarrow> clarification_question list \<Rightarrow> clarification_question list" where
  "ask missing code prompt questions =
     (if missing then questions @ [\<lparr>q_id = ''Q'' @ show_nat (length questions + 1), q_code = code, q_prompt = prompt\<rparr>]
      else questions)"

definition vague :: "nat \<Rightarrow> string \<Rightarrow> bool" where
  "vague n s \<longleftrightarrow> length (js_trim s) < n \<or> rx_test VAGUE_TEXT (js_trim s)"

definition clarifications :: "structured_goal \<Rightarrow> clarification_question list" where
  "clarifications goal =
     ask (sg_must_haves goal = []) ''missing_must_have''
       ''Which must-have belongs in this prototype versus a later version?''
     (ask (vague 12 (sg_primary_flow goal)) ''vague_flow''
       ''What is the single primary flow, from first action to done?''
     (ask (vague 20 (sg_desired_outcome goal)) ''vague_outcome''
       ''What should that user have accomplished at the end of the primary flow?''
     (ask (vague 20 (sg_problem goal)) ''vague_problem''
       ''What specific problem should this five-screen prototype solve for that user?''
     (ask (rx_test MISSING_TARGET_USER (js_trim (sg_target_user goal))) ''missing_target_user''
       ''Who is the single primary user of this prototype?'' []))))"

definition evaluateGoalQualification :: "structured_goal \<Rightarrow> goal_qualification" where
  "evaluateGoalQualification goal =
     (let text = requestedText goal;
          screenEstimate = max (gc_max_screens (sg_constraints goal)) (screenEstimateFromText text);
          findings = rule_findings goal @ capability_findings text;
          outOfScopeCodes = uniqueReasonCodes findings
      in if outOfScopeCodes \<noteq> []
         then \<lparr>gq_q_result = Out_of_scope, gq_q_reason_codes = outOfScopeCodes,
           gq_q_explanation = explanationFor outOfScopeCodes Out_of_scope,
           gq_q_proposal = Some (proposalFor outOfScopeCodes findings), gq_q_questions = [],
           gq_q_screen_estimate = screenEstimate, gq_q_policy_version = QUALIFICATION_POLICY_VERSION,
           gq_q_findings = findings\<rparr>
         else
           let boundedQuestions = take (qp_maxClarificationQuestions QUALIFICATION_POLICY) (clarifications goal)
           in case boundedQuestions of
             q # _ \<Rightarrow> \<lparr>gq_q_result = Needs_clarification, gq_q_reason_codes = [GOAL_NEEDS_CLARIFICATION],
               gq_q_explanation = explanationFor [GOAL_NEEDS_CLARIFICATION] Needs_clarification,
               gq_q_proposal = None, gq_q_questions = boundedQuestions,
               gq_q_screen_estimate = screenEstimate, gq_q_policy_version = QUALIFICATION_POLICY_VERSION,
               gq_q_findings = [rule_finding GOAL_NEEDS_CLARIFICATION ''clarification_required''
                 (if q_code q = ''missing_target_user'' then ''goal.target_user'' else ''goal'')]\<rparr>
           | [] \<Rightarrow> \<lparr>gq_q_result = Qualified, gq_q_reason_codes = [],
               gq_q_explanation = explanationFor [] Qualified, gq_q_proposal = None, gq_q_questions = [],
               gq_q_screen_estimate = screenEstimate, gq_q_policy_version = QUALIFICATION_POLICY_VERSION,
               gq_q_findings = []\<rparr>)"

section \<open>The request body and the scope policy\<close>

record create_goal_dto =
  cg_schema_version :: int
  cg_goal :: structured_goal
  cg_attachment_ids :: "uuid list"
  cg_start_run :: bool

text \<open>
  The constraints of the validation decorators. That a value has the declared type is carried by
  the types; \<open>isUUID\<close> is the test of the validation library.
\<close>

definition MustHaveDto_ok :: "must_have \<Rightarrow> bool" where
  "MustHaveDto_ok m \<longleftrightarrow>
     (case mh_id m of
        CHR ''M'' # CHR ''H'' # CHR ''-'' # ds \<Rightarrow> length ds = 3 \<and> list_all is_digit ds
      | _ \<Rightarrow> False) \<and>
     between 3 500 (mh_text m)"

definition GoalConstraintsDto_ok :: "goal_constraints \<Rightarrow> bool" where
  "GoalConstraintsDto_ok c \<longleftrightarrow>
     1 \<le> gc_max_screens c \<and> gc_max_screens c \<le> 5 \<and>
     1 \<le> gc_primary_flows c \<and> gc_primary_flows c \<le> 1 \<and>
     gc_data_mode c \<in> set [''mock_or_local'']"

definition StructuredGoalDto_ok :: "(string \<Rightarrow> bool) \<Rightarrow> structured_goal \<Rightarrow> bool" where
  "StructuredGoalDto_ok isUUID g \<longleftrightarrow>
     between 3 300 (sg_target_user g) \<and> between 10 1000 (sg_problem g) \<and>
     between 10 1000 (sg_desired_outcome g) \<and> between 5 500 (sg_primary_flow g) \<and>
     length (sg_must_haves g) \<le> 20 \<and> list_all MustHaveDto_ok (sg_must_haves g) \<and>
     length (sg_non_goals g) \<le> 20 \<and> list_all (between 1 500) (sg_non_goals g) \<and>
     between 3 500 (sg_visual_direction g) \<and> GoalConstraintsDto_ok (sg_constraints g) \<and>
     length (sg_reference_ids g) \<le> 20 \<and> list_all isUUID (sg_reference_ids g)"

definition CreateGoalDto_ok :: "(string \<Rightarrow> bool) \<Rightarrow> create_goal_dto \<Rightarrow> bool" where
  "CreateGoalDto_ok isUUID dto \<longleftrightarrow>
     1 \<le> cg_schema_version dto \<and> cg_schema_version dto \<le> 1 \<and> StructuredGoalDto_ok isUUID (cg_goal dto) \<and>
     length (cg_attachment_ids dto) \<le> 5 \<and> distinct (cg_attachment_ids dto) \<and>
     list_all isUUID (cg_attachment_ids dto)"

definition canonicalStructuredGoal :: "structured_goal \<Rightarrow> json" where
  "canonicalStructuredGoal goal = JObj
     [(''target_user'', JStr (sg_target_user goal)), (''problem'', JStr (sg_problem goal)),
      (''desired_outcome'', JStr (sg_desired_outcome goal)), (''primary_flow'', JStr (sg_primary_flow goal)),
      (''must_haves'', JArr (map (\<lambda>m. JObj [(''id'', JStr (mh_id m)), (''text'', JStr (mh_text m))]) (sg_must_haves goal))),
      (''non_goals'', JArr (map JStr (sg_non_goals goal))),
      (''visual_direction'', JStr (sg_visual_direction goal)),
      (''constraints'', JObj
        [(''max_screens'', JNum (gc_max_screens (sg_constraints goal))),
         (''primary_flows'', JNum (gc_primary_flows (sg_constraints goal))),
         (''client_only'', JBool (gc_client_only (sg_constraints goal))),
         (''data_mode'', JStr (gc_data_mode (sg_constraints goal)))]),
      (''reference_ids'', JArr (map JStr (sg_reference_ids goal)))]"

definition question_json :: "clarification_question \<Rightarrow> json" where
  "question_json q = JObj [(''id'', JStr (q_id q)), (''code'', JStr (q_code q)), (''prompt'', JStr (q_prompt q))]"

definition public_json :: "public_qualification \<Rightarrow> json" where
  "public_json q = JObj
     [(''result'', JStr (result_text (gq_q_result q))),
      (''reason_codes'', JArr (map (\<lambda>c. JStr (reason_text c)) (gq_q_reason_codes q))),
      (''explanation'', JStr (gq_q_explanation q)), (''proposal'', json_opt JStr (gq_q_proposal q)),
      (''clarification_questions'', JArr (map question_json (gq_q_questions q))),
      (''screen_estimate'', JNum (gq_q_screen_estimate q)),
      (''policy_version'', JStr (gq_q_policy_version q))]"

text \<open>A property whose value is undefined is left out.\<close>

definition finding_json :: "qualification_finding \<Rightarrow> json" where
  "finding_json f = JObj ([(''rule'', JStr (qf_rule f))] @
     (case qf_field f of None \<Rightarrow> [] | Some x \<Rightarrow> [(''field'', JStr x)]) @
     (case qf_capability f of None \<Rightarrow> [] | Some x \<Rightarrow> [(''capability'', JStr x)]) @
     [(''reason_code'', JStr (reason_text (qf_reason_code f)))])"

definition toOutOfScopeError :: "goal_qualification \<Rightarrow> exn" where
  "toOutOfScopeError q = Domain (DomainError 422 ''goal_out_of_scope'' (gq_q_explanation q)
     (Some ''The goal exceeds the Prototype Initiative boundary'')
     (Some [''narrow_goal'', ''submit_new_goal_version''])
     (Some (map finding_json (gq_q_findings q) @
        [JObj [(''qualification'', public_json (publicGoalQualification q))]])))"

definition assertCommand :: "create_goal_dto \<Rightarrow> exn + unit" where
  "assertCommand dto =
     (let violations =
        (if \<not> cg_start_run dto
         then [JObj [(''rule'', JStr ''first_slice_requires_start_run''), (''field'', JStr ''start_run'')]] else []) @
        (if length (js_uniq (map mh_id (sg_must_haves (cg_goal dto)))) \<noteq> length (sg_must_haves (cg_goal dto))
         then [JObj [(''rule'', JStr ''unique_must_have_ids''), (''field'', JStr ''goal.must_haves'')]] else [])
      in if violations \<noteq> []
         then Inl (Domain (DomainError 422 ''goal_out_of_scope''
           ''Submit a new goal version that fits the bounded client-side prototype scope.''
           (Some ''The goal exceeds the Prototype Initiative boundary'')
           (Some [''narrow_goal'', ''submit_new_goal_version'']) (Some violations)))
         else Inr ())"

definition GoalScope_evaluate :: "create_goal_dto \<Rightarrow> exn + goal_qualification" where
  "GoalScope_evaluate dto =
     (case assertCommand dto of Inl e \<Rightarrow> Inl e | Inr u \<Rightarrow> Inr (evaluateGoalQualification (cg_goal dto)))"

definition assertSupported :: "create_goal_dto \<Rightarrow> exn + unit" where
  "assertSupported dto =
     (case GoalScope_evaluate dto of
        Inl e \<Rightarrow> Inl e
      | Inr q \<Rightarrow> if gq_q_result q = Out_of_scope then Inl (toOutOfScopeError q) else Inr ())"

section \<open>Outcomes\<close>

lemma uniqueReasonCodes_set: "set (uniqueReasonCodes fs) = set (map qf_reason_code fs)"
proof -
  have "c \<in> set GOAL_REASON_CODE_ORDER" for c
    by (cases c) (simp_all add: GOAL_REASON_CODE_ORDER_def)
  then show ?thesis by (auto simp: uniqueReasonCodes_def)
qed

lemma uniqueReasonCodes_Nil: "uniqueReasonCodes fs = [] \<longleftrightarrow> fs = []"
  using uniqueReasonCodes_set [of fs] by (metis list.map_disc_iff set_empty)

lemma uniqueReasonCodes_order:
  "subseq (uniqueReasonCodes fs) GOAL_REASON_CODE_ORDER" "distinct (uniqueReasonCodes fs)"
proof -
  have "distinct GOAL_REASON_CODE_ORDER" by (simp add: GOAL_REASON_CODE_ORDER_def)
  then show "distinct (uniqueReasonCodes fs)" by (simp only: uniqueReasonCodes_def distinct_filter)
qed (simp only: uniqueReasonCodes_def subseq_filter_left)

text \<open>
  The policy's order of the reason codes as the order of their type: \<open>uniqueReasonCodes\<close> then sorts the codes of the
  findings and removes duplicates.
\<close>

definition reason_rank :: "goal_reason_code \<Rightarrow> nat" where
  "reason_rank c = length (takeWhile (\<lambda>x. x \<noteq> c) GOAL_REASON_CODE_ORDER)"

lemma reason_rank_inj: "reason_rank c = reason_rank d \<Longrightarrow> c = d"
  by (cases c; cases d; simp add: reason_rank_def GOAL_REASON_CODE_ORDER_def)

instantiation goal_reason_code :: linorder
begin

definition less_eq_goal_reason_code :: "goal_reason_code \<Rightarrow> goal_reason_code \<Rightarrow> bool" where
  "less_eq_goal_reason_code c d \<longleftrightarrow> reason_rank c \<le> reason_rank d"

definition less_goal_reason_code :: "goal_reason_code \<Rightarrow> goal_reason_code \<Rightarrow> bool" where
  "less_goal_reason_code c d \<longleftrightarrow> reason_rank c < reason_rank d"

instance
  by standard (auto simp: less_eq_goal_reason_code_def less_goal_reason_code_def dest: reason_rank_inj)

end

lemma order_sorted: "sorted GOAL_REASON_CODE_ORDER"
  by (simp add: GOAL_REASON_CODE_ORDER_def less_eq_goal_reason_code_def reason_rank_def)

lemma uniqueReasonCodes_sorted: "uniqueReasonCodes fs = sorted_list_of_set (set (map qf_reason_code fs))"
proof -
  have "sorted (uniqueReasonCodes fs)" unfolding uniqueReasonCodes_def by (rule sorted_wrt_filter [OF order_sorted])
  from sorted_list_of_set.idem_if_sorted_distinct [OF this uniqueReasonCodes_order(2)] show ?thesis
    by (simp only: uniqueReasonCodes_set)
qed

text \<open>Questions are numbered from one, and there are at most five.\<close>

definition numbered_questions :: "clarification_question list \<Rightarrow> bool" where
  "numbered_questions qs \<longleftrightarrow> map q_id qs = map (\<lambda>i. ''Q'' @ show_nat i) [1..<length qs + 1]"

lemma ask_numbered: "numbered_questions qs \<Longrightarrow> numbered_questions (ask b c p qs)"
  by (cases "qs = []") (auto simp: ask_def numbered_questions_def Suc_le_eq)

lemma ask_length: "length qs \<le> n \<Longrightarrow> length (ask b c p qs) \<le> Suc n"
  by (simp add: ask_def)

lemma clarifications_numbered: "numbered_questions (clarifications goal)"
  unfolding clarifications_def by (intro ask_numbered) (simp add: numbered_questions_def)

lemma clarifications_bound: "length (clarifications goal) \<le> 5"
proof -
  have "length (clarifications goal) \<le> Suc (Suc (Suc (Suc (Suc 0))))"
    unfolding clarifications_def by (intro ask_length) simp
  then show ?thesis by simp
qed

lemma all_questions_kept: "take (qp_maxClarificationQuestions QUALIFICATION_POLICY) (clarifications goal) = clarifications goal"
  using clarifications_bound by (simp add: QUALIFICATION_POLICY_def)

definition all_findings :: "structured_goal \<Rightarrow> qualification_finding list" where
  "all_findings goal = rule_findings goal @ capability_findings (requestedText goal)"

lemma evaluate_cases:
  obtains (out) "all_findings goal \<noteq> []" "gq_q_result (evaluateGoalQualification goal) = Out_of_scope"
      "gq_q_reason_codes (evaluateGoalQualification goal) = uniqueReasonCodes (all_findings goal)"
      "gq_q_findings (evaluateGoalQualification goal) = all_findings goal"
      "gq_q_proposal (evaluateGoalQualification goal) =
         Some (proposalFor (uniqueReasonCodes (all_findings goal)) (all_findings goal))"
      "gq_q_questions (evaluateGoalQualification goal) = []"
  | (needs) "all_findings goal = []" "clarifications goal \<noteq> []"
      "gq_q_result (evaluateGoalQualification goal) = Needs_clarification"
      "gq_q_reason_codes (evaluateGoalQualification goal) = [GOAL_NEEDS_CLARIFICATION]"
      "gq_q_proposal (evaluateGoalQualification goal) = None"
      "gq_q_questions (evaluateGoalQualification goal) = clarifications goal"
  | (fits) "all_findings goal = []" "clarifications goal = []"
      "gq_q_result (evaluateGoalQualification goal) = Qualified"
      "gq_q_reason_codes (evaluateGoalQualification goal) = []" "gq_q_findings (evaluateGoalQualification goal) = []"
      "gq_q_proposal (evaluateGoalQualification goal) = None" "gq_q_questions (evaluateGoalQualification goal) = []"
proof (cases "all_findings goal = []")
  case False
  then have e: "uniqueReasonCodes (rule_findings goal @ capability_findings (requestedText goal)) \<noteq> []"
    unfolding uniqueReasonCodes_Nil all_findings_def .
  show thesis
    by (rule out [OF False]) (simp_all only: evaluateGoalQualification_def Let_def e all_findings_def not_False_eq_True if_True
        goal_qualification.simps public_qualification.simps)
next
  case True
  then have e: "uniqueReasonCodes (rule_findings goal @ capability_findings (requestedText goal)) = []"
    by (simp add: uniqueReasonCodes_Nil all_findings_def)
  show thesis
  proof (cases "clarifications goal")
    case Nil
    show thesis
      by (rule fits) (simp_all add: evaluateGoalQualification_def Let_def e Nil True)
  next
    case (Cons q qs)
    have k: "take (qp_maxClarificationQuestions QUALIFICATION_POLICY) (q # qs) = q # qs"
      using all_questions_kept [of goal] by (simp only: Cons)
    show thesis
      by (rule needs) (simp_all add: evaluateGoalQualification_def Let_def e k Cons True)
  qed
qed

text \<open>The row a qualification is stored in.\<close>

definition qualification_row_of :: "public_qualification \<Rightarrow> uuid \<Rightarrow> uuid \<Rightarrow> uuid \<Rightarrow> uuid \<Rightarrow> uuid \<Rightarrow> qualification_row" where
  "qualification_row_of q qualificationId companyId initiativeId goalVersionId runId =
     \<lparr>gq_id = qualificationId, gq_company_id = companyId, gq_initiative_id = initiativeId,
      gq_goal_version_id = goalVersionId, gq_run_id = Some runId, gq_result = gq_q_result q,
      gq_reason_codes = map reason_text (gq_q_reason_codes q), gq_explanation = gq_q_explanation q,
      gq_proposal = gq_q_proposal q, gq_clarification_questions = map question_json (gq_q_questions q),
      gq_screen_estimate = gq_q_screen_estimate q, gq_policy_version = gq_q_policy_version q\<rparr>"

text \<open>
  C21. A goal has exactly one outcome, and every field of the outcome agrees with it. Out of scope:
  at least one finding, the reason codes are the codes of the findings, each once and sorted by the
  policy's order, a proposal is made and nothing is asked. Needs clarification: one to five
  questions, numbered Q1, Q2, ... in the order they are asked, and no proposal. Qualified: no
  reason code, no finding, no question, no proposal.
\<close>

theorem qualification_outcome:
  "case gq_q_result (evaluateGoalQualification goal) of
     Out_of_scope \<Rightarrow>
       gq_q_findings (evaluateGoalQualification goal) \<noteq> [] \<and>
       gq_q_reason_codes (evaluateGoalQualification goal) =
         sorted_list_of_set (set (map qf_reason_code (gq_q_findings (evaluateGoalQualification goal)))) \<and>
       gq_q_proposal (evaluateGoalQualification goal) \<noteq> None \<and> gq_q_questions (evaluateGoalQualification goal) = []
   | Needs_clarification \<Rightarrow>
       gq_q_reason_codes (evaluateGoalQualification goal) = [GOAL_NEEDS_CLARIFICATION] \<and>
       gq_q_proposal (evaluateGoalQualification goal) = None \<and>
       between 1 5 (gq_q_questions (evaluateGoalQualification goal)) \<and>
       numbered_questions (gq_q_questions (evaluateGoalQualification goal))
   | Qualified \<Rightarrow>
       gq_q_reason_codes (evaluateGoalQualification goal) = [] \<and> gq_q_findings (evaluateGoalQualification goal) = [] \<and>
       gq_q_proposal (evaluateGoalQualification goal) = None \<and> gq_q_questions (evaluateGoalQualification goal) = []"
  by (cases goal rule: evaluate_cases)
    (simp_all add: uniqueReasonCodes_sorted clarifications_numbered between_def
      clarifications_bound Suc_le_eq)

lemma foldl_estimate: "0 \<le> (h :: int) \<Longrightarrow> 0 \<le> foldl (\<lambda>highest groups. case screen_number groups of
         None \<Rightarrow> highest | Some n \<Rightarrow> if highest < int n then int n else highest) h gs"
  by (induction gs arbitrary: h) (auto split: option.split)

lemma estimate_nonneg: "0 \<le> screenEstimateFromText text"
  by (simp add: screenEstimateFromText_def foldl_estimate)

lemma evaluate_estimate: "gq_q_screen_estimate (evaluateGoalQualification goal) =
   max (gc_max_screens (sg_constraints goal)) (screenEstimateFromText (requestedText goal))"
  by (simp add: evaluateGoalQualification_def Let_def split: list.split)

lemma proposalFor_nonempty: "proposalFor codes fs \<noteq> []"
  by (simp add: proposalFor_def Let_def)

text \<open>
  The table accepts every qualification. The row built from any goal passes the CHECK
  constraints of \<open>goal_qualifications\<close>: its insertion can fail only on a key (the row is stored
  when the keys are new and the rows it refers to exist).
\<close>

theorem qualification_row_accepted:
  assumes "r = qualification_row_of (publicGoalQualification (evaluateGoalQualification goal)) qid cid iid gvid rid"
    and "absent gq_id qid (goal_qualifications (sys_db s))"
    and "absent (\<lambda>x. (gq_company_id x, gq_goal_version_id x)) (cid, gvid) (goal_qualifications (sys_db s))"
    and "present (\<lambda>x. (in_company_id x, in_id x)) (cid, iid) (initiatives (sys_db s))"
    and "present (\<lambda>x. (gv_company_id x, gv_id x)) (cid, gvid) (goal_versions (sys_db s))"
    and "present (\<lambda>x. (r_company_id x, r_id x)) (cid, rid) (runs (sys_db s))"
  shows "insert_qualification r s =
    (Inr (), s\<lparr>sys_db := sys_db s\<lparr>goal_qualifications := goal_qualifications (sys_db s) @ [r]\<rparr>\<rparr>)"
proof -
  let ?q = "evaluateGoalQualification goal"
  have cols: "gq_screen_estimate r = gq_q_screen_estimate ?q" "gq_result r = gq_q_result ?q" "gq_proposal r = gq_q_proposal ?q"
    "gq_clarification_questions r = map question_json (gq_q_questions ?q)" "gq_id r = qid" "gq_company_id r = cid"
    "gq_goal_version_id r = gvid" "gq_initiative_id r = iid" "gq_run_id r = Some rid"
    by (simp_all add: assms(1) qualification_row_of_def publicGoalQualification_def)
  have "0 \<le> gq_screen_estimate r"
    using estimate_nonneg [of "requestedText goal"] by (simp add: cols evaluate_estimate max_def)
  moreover have "if gq_result r = Out_of_scope then (case gq_proposal r of None \<Rightarrow> False | Some p \<Rightarrow> 0 < length p)
      else gq_proposal r = None"
    unfolding cols by (cases goal rule: evaluate_cases) (simp_all add: proposalFor_nonempty)
  moreover have "if gq_result r = Needs_clarification then between 1 5 (gq_clarification_questions r)
      else gq_clarification_questions r = []"
    unfolding cols by (cases goal rule: evaluate_cases) (simp_all add: between_def clarifications_bound Suc_le_eq)
  ultimately show ?thesis
    unfolding insert_qualification_def using assms(2-6) by (intro insert_row_ok) (simp add: cols)
qed

text \<open>When a rule of the policy is violated, in terms of what the text contains.\<close>

definition breaks_boundary :: "structured_goal \<Rightarrow> bool" where
  "breaks_boundary goal \<longleftrightarrow>
     (let text = requestedText goal; c = sg_constraints goal in
      (\<exists>p \<in> set (category_patterns @ persona_patterns). occurs p text) \<or>
      gc_primary_flows c \<noteq> 1 \<or> 5 < gc_max_screens c \<or> 5 < screenEstimateFromText text \<or>
      \<not> gc_client_only c \<or> gc_data_mode c \<noteq> ''mock_or_local'' \<or>
      (occurs template_pattern text \<and> \<not> occurs react_pattern text) \<or>
      (\<exists>entry \<in> set DENIED_CAPABILITY_PATTERNS. \<exists>p \<in> set (dc_patterns entry). occurs p text))"

lemma some_rule_finding: "rule_findings goal \<noteq> [] \<longleftrightarrow>
     (\<exists>p \<in> set (category_patterns @ persona_patterns). occurs p (requestedText goal)) \<or>
      gc_primary_flows (sg_constraints goal) \<noteq> 1 \<or> 5 < gc_max_screens (sg_constraints goal) \<or>
      5 < screenEstimateFromText (requestedText goal) \<or> \<not> gc_client_only (sg_constraints goal) \<or>
      gc_data_mode (sg_constraints goal) \<noteq> ''mock_or_local'' \<or>
      (occurs template_pattern (requestedText goal) \<and> \<not> occurs react_pattern (requestedText goal))"
  unfolding rule_findings_def Let_def
  by (auto simp: QUALIFICATION_POLICY_def personaCountFromText_def rx_test_occurs list_ex_iff)

lemma some_capability_finding: "capability_findings text \<noteq> [] \<longleftrightarrow>
   (\<exists>entry \<in> set DENIED_CAPABILITY_PATTERNS. \<exists>p \<in> set (dc_patterns entry). occurs p text)"
  unfolding capability_findings_def by (auto simp: filter_empty_conv rx_test_occurs list_ex_iff)

text \<open>
  C26. A goal is out of scope exactly if it breaks the boundary: its text contains a phrase of a
  denied capability, of an unsupported category or of a second persona, it names a foreign
  template and not React, it asks for more than five screens in its constraints or in words, or its
  constraints leave the one client-side flow on mock data. In particular nothing is rejected for
  another reason, and no denied phrase passes; the search is the declarative one (some part of the
  text matches between its neighbours), not the backtracking matcher.
\<close>

theorem out_of_scope_iff:
  "gq_q_result (evaluateGoalQualification goal) = Out_of_scope \<longleftrightarrow> breaks_boundary goal"
proof -
  have "all_findings goal \<noteq> [] \<longleftrightarrow> breaks_boundary goal"
    using some_rule_finding [of goal] some_capability_finding [of "requestedText goal"]
    unfolding all_findings_def breaks_boundary_def Let_def append_is_Nil_conv by blast
  then show ?thesis by (cases goal rule: evaluate_cases) simp_all
qed

text \<open>
  What validation leaves for the policy. For a request body that passed the validation of
  its fields, no goal is rejected for real data, and the screen estimate exceeds five only if the text says so; the goal
  still has to be client-only, which the validation does not ask.
\<close>

theorem validated_goal_findings:
  assumes "CreateGoalDto_ok isUUID dto" and "q = evaluateGoalQualification (cg_goal dto)"
  shows "(GOAL_REQUIRES_REAL_DATA \<notin> set (gq_q_reason_codes q)) \<and>
     (GOAL_TOO_MANY_SCREENS \<in> set (gq_q_reason_codes q)) = (5 < screenEstimateFromText (requestedText (cg_goal dto))) \<and>
     (5 < gq_q_screen_estimate q) = (5 < screenEstimateFromText (requestedText (cg_goal dto)))"
proof -
  let ?g = "cg_goal dto"
  have c: "gc_primary_flows (sg_constraints ?g) = 1" "gc_max_screens (sg_constraints ?g) \<le> 5"
    "gc_data_mode (sg_constraints ?g) = ''mock_or_local''"
    using assms(1) by (auto simp: CreateGoalDto_ok_def StructuredGoalDto_ok_def GoalConstraintsDto_ok_def)
  have rules: "GOAL_REQUIRES_REAL_DATA \<notin> qf_reason_code ` set (rule_findings ?g)"
    "GOAL_TOO_MANY_SCREENS \<in> qf_reason_code ` set (rule_findings ?g) \<longleftrightarrow> 5 < screenEstimateFromText (requestedText ?g)"
    using c unfolding rule_findings_def Let_def
    by (auto simp: QUALIFICATION_POLICY_def rule_finding_def split: if_splits)
  have "dc_reason_code e \<notin> {GOAL_REQUIRES_REAL_DATA, GOAL_TOO_MANY_SCREENS}" if "e \<in> set DENIED_CAPABILITY_PATTERNS" for e
    using that by (auto simp: DENIED_CAPABILITY_PATTERNS_def)
  then have "GOAL_REQUIRES_REAL_DATA \<notin> qf_reason_code ` set (capability_findings (requestedText ?g))"
    "GOAL_TOO_MANY_SCREENS \<notin> qf_reason_code ` set (capability_findings (requestedText ?g))"
    by (auto simp: capability_findings_def) metis+
  with rules have f: "GOAL_REQUIRES_REAL_DATA \<notin> qf_reason_code ` set (all_findings ?g)"
    "GOAL_TOO_MANY_SCREENS \<in> qf_reason_code ` set (all_findings ?g) \<longleftrightarrow> 5 < screenEstimateFromText (requestedText ?g)"
    by (auto simp: all_findings_def)
  then have "(GOAL_REQUIRES_REAL_DATA \<notin> set (gq_q_reason_codes q)) \<and>
     (GOAL_TOO_MANY_SCREENS \<in> set (gq_q_reason_codes q)) = (5 < screenEstimateFromText (requestedText ?g))"
    unfolding assms(2) by (cases ?g rule: evaluate_cases) (simp_all add: uniqueReasonCodes_set)
  moreover have "(5 < gq_q_screen_estimate q) = (5 < screenEstimateFromText (requestedText ?g))"
    using c(2) by (auto simp: assms(2) evaluate_estimate)
  ultimately show ?thesis by blast
qed

section \<open>A count the estimate misses\<close>

lemma digit_facts:
  assumes "is_digit a"
  shows "fold_case a = a" "is_word a" "\<not> js_space a" "a \<noteq> CHR ''-''"
  using assms by (auto simp: is_digit_def fold_case_def is_word_def js_space_def Let_def)

lemma digit_not_letter: "is_digit a \<Longrightarrow> \<not> is_digit x \<Longrightarrow> a \<noteq> x"
  by auto

lemma screen_tail_none:
  "word_at pre \<Longrightarrow> list_all is_digit ds \<Longrightarrow> rx_exec screen_pattern pre (ds @ '' screens'') = None"
proof (induction ds arbitrary: pre)
  case Nil
  then show ?case by (simp add: rx_eval screen_pattern_def)
next
  case (Cons d ds)
  then have "is_word d" by (simp add: digit_facts)
  with Cons have "rx_run screen_pattern (pre, d # ds @ '' screens'', []) = []"
    by (simp add: screen_pattern_def)
  moreover have "rx_exec screen_pattern (d # pre) (ds @ '' screens'') = None"
    using Cons \<open>is_word d\<close> by simp
  ultimately show ?case by (simp add: rx_exec_skip)
qed

lemma many_digits:
  assumes "is_digit a" "is_digit b" "is_digit c"
  shows "rx_run screen_pattern ([], a # b # c # rest, []) = []"
proof -
  note d = assms [THEN digit_facts(1)] assms [THEN digit_facts(2)] assms [THEN digit_facts(3)] assms [THEN digit_facts(4)]
  have "a \<notin> set ''snet''" using digit_not_letter [OF assms(1)] by (auto simp: is_digit_def)
  then show ?thesis using assms d by (simp add: screen_pattern_def numeral_2_eq_2)
qed

lemma show_nat_length: "10 ^ k \<le> n \<Longrightarrow> k < length (show_nat n)"
proof (induction k arbitrary: n)
  case (Suc k)
  then have "10 ^ k \<le> n div 10" by simp
  with Suc.IH have "k < length (show_nat (n div 10))" .
  moreover have "\<not> n < 10" using Suc.prems by (metis leD le_trans mult.right_neutral mult_le_mono2 not_less one_le_numeral one_le_power power_Suc)
  ultimately show ?case by (subst show_nat.simps) simp
qed simp

text \<open>
  Large screen counts are not seen. Only numbers of one or two digits are counted, so a text
  that asks for \<open>n\<close> screens with \<open>n\<close> of three digits or more is estimated at no screens at all, and the
  limit of five screens does not reject it.
\<close>

theorem large_screen_counts_ignored:
  assumes "100 \<le> n"
  shows "screenEstimateFromText (show_nat n @ '' screens'') = 0"
proof -
  have "2 < length (show_nat n)" using show_nat_length [of 2 n] assms by simp
  then obtain a b c ds where n: "show_nat n = a # b # c # ds"
    by (auto simp: numeral_2_eq_2 Suc_le_length_iff simp flip: Suc_le_eq)
  then have d: "is_digit a" "is_digit b" "is_digit c" "list_all is_digit ds"
    using show_nat_digits [of n] by simp_all
  then have "rx_exec screen_pattern [a] ((b # c # ds) @ '' screens'') = None"
    by (intro screen_tail_none) (simp_all add: digit_facts)
  with many_digits [OF d(1-3)] have "rx_exec screen_pattern [] (show_nat n @ '' screens'') = None"
    unfolding n by (simp add: rx_exec_skip)
  then show ?thesis by (simp add: screenEstimateFromText_def matchAll_def rx_all_none)
qed
end
