(* ===== verification/Qualification_Witnesses.thy ===== *)
theory Qualification_Witnesses
  imports Qualification Samples
begin

text \<open>The qualification theorems at a sample goal.\<close>

definition sample_structured :: structured_goal where
  "sample_structured = \<lparr>sg_target_user = ''busy owner'', sg_problem = ''plans are kept in many notes'',
     sg_desired_outcome = ''one plan for the week ahead'', sg_primary_flow = ''add and order items'',
     sg_must_haves = [\<lparr>mh_id = ''MH-001'', mh_text = ''a list''\<rparr>], sg_non_goals = [],
     sg_visual_direction = ''plain'',
     sg_constraints = \<lparr>gc_max_screens = 3, gc_primary_flows = 1, gc_client_only = True,
       gc_data_mode = ''mock_or_local''\<rparr>,
     sg_reference_ids = []\<rparr>"

definition sample_goal_dto :: create_goal_dto where
  "sample_goal_dto = \<lparr>cg_schema_version = 1, cg_goal = sample_structured, cg_attachment_ids = [], cg_start_run = True\<rparr>"

lemma sample_dto_ok: "CreateGoalDto_ok isUUID sample_goal_dto"
  by (simp add: CreateGoalDto_ok_def StructuredGoalDto_ok_def GoalConstraintsDto_ok_def MustHaveDto_ok_def
      sample_goal_dto_def sample_structured_def between_def is_digit_def)

theorem qualification_row_accepted_witness:
  "\<exists>r (t :: sys). insert_qualification r sample_sys = (Inr (), t) \<and>
     gq_screen_estimate r = gq_q_screen_estimate (evaluateGoalQualification sample_structured)"
proof -
  let ?q = "publicGoalQualification (evaluateGoalQualification sample_structured)"
  let ?r = "qualification_row_of ?q (sample_id 40) (sample_id 2) (sample_id 4) (sample_id 5) (sample_id 7)"
  have "insert_qualification ?r sample_sys = (Inr (), sample_sys\<lparr>sys_db := sys_db sample_sys\<lparr>goal_qualifications :=
      goal_qualifications (sys_db sample_sys) @ [?r]\<rparr>\<rparr>)"
    by (rule qualification_row_accepted [OF refl]) (simp_all add: sample_state absent_def present_def)
  then show ?thesis
    by (intro exI [of _ ?r]) (simp add: qualification_row_of_def publicGoalQualification_def)
qed

theorem validated_goal_findings_witness:
  "GOAL_REQUIRES_REAL_DATA \<notin> set (gq_q_reason_codes (evaluateGoalQualification (cg_goal sample_goal_dto)))"
  using validated_goal_findings [OF sample_dto_ok refl] by blast

theorem large_screen_counts_ignored_witness: "screenEstimateFromText (show_nat 100 @ '' screens'') = 0"
  by (rule large_screen_counts_ignored) simp

end
