(* ===== verification/Encodings.thy ===== *)
theory Encodings
  imports Schema
begin

text \<open>
  The two byte encodings the attachment code relies on: UTF-8 as Node's \<open>Buffer\<close> decodes it (an
  ill-formed sequence becomes U+FFFD) and encodes it, and Base64. Both are the standard's
  algorithms; code points and sextets are natural numbers. The lemmas are the round trips.
\<close>

section \<open>UTF-8\<close>

definition scalar :: "nat \<Rightarrow> bool" where
  "scalar cp \<longleftrightarrow> cp < 55296 \<or> 57344 \<le> cp \<and> cp < 1114112"

definition utf8_encode_cp :: "nat \<Rightarrow> nat list" where
  "utf8_encode_cp cp =
     (if cp < 128 then [cp]
      else if cp < 2048 then [192 + cp div 64, 128 + cp mod 64]
      else if cp < 65536 then [224 + cp div 4096, 128 + cp div 64 mod 64, 128 + cp mod 64]
      else [240 + cp div 262144, 128 + cp div 4096 mod 64, 128 + cp div 64 mod 64, 128 + cp mod 64])"

definition utf8_encode :: "nat list \<Rightarrow> nat list" where
  "utf8_encode cps = concat (map utf8_encode_cp cps)"

text \<open>
  The first byte of a longer sequence: how many bytes follow, the range of the next one, and the
  bits it contributes.
\<close>

definition utf8_lead :: "nat \<Rightarrow> (nat \<times> nat \<times> nat \<times> nat) option" where
  "utf8_lead b =
     (if 194 \<le> b \<and> b \<le> 223 then Some (1, 128, 191, b - 192)
      else if b = 224 then Some (2, 160, 191, 0)
      else if b = 237 then Some (2, 128, 159, 13)
      else if 225 \<le> b \<and> b \<le> 239 then Some (2, 128, 191, b - 224)
      else if b = 240 then Some (3, 144, 191, 0)
      else if 241 \<le> b \<and> b \<le> 243 then Some (3, 128, 191, b - 240)
      else if b = 244 then Some (3, 128, 143, 4)
      else None)"

fun utf8_continue :: "nat \<Rightarrow> nat \<Rightarrow> nat \<Rightarrow> nat \<Rightarrow> nat list \<Rightarrow> nat \<times> nat list" where
  "utf8_continue 0 lo hi acc bs = (acc, bs)"
| "utf8_continue (Suc n) lo hi acc [] = (65533, [])"
| "utf8_continue (Suc n) lo hi acc (b # bs) =
     (if lo \<le> b \<and> b \<le> hi then utf8_continue n 128 191 (acc * 64 + (b - 128)) bs else (65533, b # bs))"

lemma utf8_continue_length: "utf8_continue n lo hi acc bs = (cp, rest) \<Longrightarrow> length rest \<le> length bs"
  by (induction n lo hi acc bs rule: utf8_continue.induct) (auto split: if_splits)

function utf8_decode :: "nat list \<Rightarrow> nat list" where
  "utf8_decode [] = []"
| "utf8_decode (b # bs) =
     (if b < 128 then b # utf8_decode bs
      else case utf8_lead b of
          None \<Rightarrow> 65533 # utf8_decode bs
        | Some (n, lo, hi, acc) \<Rightarrow>
            fst (utf8_continue n lo hi acc bs) # utf8_decode (snd (utf8_continue n lo hi acc bs)))"
  by pat_completeness auto
termination
proof (relation "measure length", goal_cases)
  case (4 b bs x2 n y lo z hi acc)
  show ?case
    using utf8_continue_length [of n lo hi acc bs "fst (utf8_continue n lo hi acc bs)" "snd (utf8_continue n lo hi acc bs)"]
    by simp
qed simp_all

text \<open>A scalar value is decoded from its encoding, and decoding yields scalar values only.\<close>

lemma div_bounds: "(n :: nat) div k * k \<le> n" "0 < k \<Longrightarrow> n < n div k * k + k"
  by simp (metis add.commute dividend_less_div_times)

lemma sextet: "(n :: nat) div k div 64 * 64 + n div k mod 64 = n div k" "(n :: nat) div 64 * 64 + n mod 64 = n"
  by simp_all

lemma decode_encode_cp:
  assumes "scalar cp"
  shows "utf8_decode (utf8_encode_cp cp @ rest) = cp # utf8_decode rest"
proof -
  consider "cp < 128" | "128 \<le> cp" "cp < 2048" | "2048 \<le> cp" "cp < 65536" | "65536 \<le> cp" "cp < 1114112"
    using assms by (fastforce simp: scalar_def)
  then show ?thesis
  proof cases
    case 2
    then have "2 \<le> cp div 64" "cp div 64 < 32" by simp_all
    then have "utf8_lead (192 + cp div 64) = Some (1, 128, 191, cp div 64)" by (simp add: utf8_lead_def)
    with 2 show ?thesis by (simp add: utf8_encode_cp_def)
  next
    case 3
    define q where "q = cp div 4096"
    have d: "cp div 64 div 64 = q" by (simp add: q_def div_mult2_eq [symmetric])
    have q: "q < 16" "q * 64 + cp div 64 mod 64 = cp div 64"
      using 3 sextet(1) [of cp 64] by (simp_all add: q_def d [unfolded q_def])
    then have lead: "utf8_lead (224 + q) = Some (2, if q = 0 then 160 else 128, if q = 13 then 159 else 191, q)"
      by (simp add: utf8_lead_def)
    have "q = 0 \<Longrightarrow> 32 \<le> cp div 64 mod 64" "q = 13 \<Longrightarrow> cp div 64 mod 64 \<le> 31"
      using q 3 assms div_bounds [of cp 64] div_bounds [of cp 4096] unfolding scalar_def q_def [symmetric] by linarith+
    with 3 q lead show ?thesis by (auto simp: utf8_encode_cp_def numeral_2_eq_2 q_def [symmetric] add.commute)
  next
    case 4
    define q where "q = cp div 262144"
    have d: "cp div 4096 div 64 = q" "cp div 64 div 64 = cp div 4096" by (simp_all add: q_def div_mult2_eq [symmetric])
    have q: "q < 5" "q * 64 + cp div 4096 mod 64 = cp div 4096" "cp div 4096 * 64 + cp div 64 mod 64 = cp div 64"
      using 4 sextet(1) [of cp 4096] sextet(1) [of cp 64] by (simp_all add: q_def d [unfolded q_def])
    then have lead: "utf8_lead (240 + q) = Some (3, if q = 0 then 144 else 128, if q = 4 then 143 else 191, q)"
      by (simp add: utf8_lead_def)
    have "q = 0 \<Longrightarrow> 16 \<le> cp div 4096 mod 64" "q = 4 \<Longrightarrow> cp div 4096 mod 64 \<le> 15"
      using q 4 div_bounds [of cp 4096] div_bounds [of cp 262144] unfolding q_def [symmetric] by linarith+
    moreover have "cp div 4096 mod 64 \<le> 63" by (simp add: less_Suc_eq_le [symmetric])
    ultimately show ?thesis using 4 q lead by (auto simp: utf8_encode_cp_def numeral_3_eq_3 q_def [symmetric] add.commute)
  qed (simp add: utf8_encode_cp_def)
qed

lemma decode_encode: "list_all scalar cps \<Longrightarrow> utf8_decode (utf8_encode cps) = cps"
  by (induction cps) (simp_all add: utf8_encode_def decode_encode_cp)

lemma continue_range:
  "utf8_continue n 128 191 acc bs = (cp, rest) \<Longrightarrow> cp = 65533 \<or> acc * 64 ^ n \<le> cp \<and> cp < Suc acc * 64 ^ n"
proof (induction n arbitrary: acc bs)
  case (Suc n)
  show ?case
  proof (cases bs)
    case (Cons b bs')
    with Suc.prems consider "cp = 65533" | "128 \<le> b" "b \<le> 191" "utf8_continue n 128 191 (acc * 64 + (b - 128)) bs' = (cp, rest)"
      by (auto split: if_splits)
    then show ?thesis
    proof cases
      case 2
      have "acc * 64 * 64 ^ n \<le> (acc * 64 + (b - 128)) * 64 ^ n" "Suc (acc * 64 + (b - 128)) * 64 ^ n \<le> Suc acc * 64 * 64 ^ n"
        using 2(1,2) by (intro mult_le_mono1; simp)+
      moreover have "acc * 64 ^ Suc n = acc * 64 * 64 ^ n" "Suc acc * 64 ^ Suc n = Suc acc * 64 * 64 ^ n"
        by (simp_all add: algebra_simps)
      ultimately show ?thesis using Suc.IH [OF 2(3)] by linarith
    qed simp
  qed (use Suc.prems in simp)
qed simp

lemma continue_first:
  assumes "utf8_continue (Suc n) lo hi acc bs = (cp, rest)" and "128 \<le> lo" and "lo \<le> hi"
  shows "cp = 65533 \<or> (acc * 64 + (lo - 128)) * 64 ^ n \<le> cp \<and> cp < Suc (acc * 64 + (hi - 128)) * 64 ^ n"
proof (cases bs)
  case (Cons b bs')
  with assms(1) consider "cp = 65533" | "lo \<le> b" "b \<le> hi" "utf8_continue n 128 191 (acc * 64 + (b - 128)) bs' = (cp, rest)"
    by (auto split: if_splits)
  then show ?thesis
  proof cases
    case 2
    have "(acc * 64 + (lo - 128)) * 64 ^ n \<le> (acc * 64 + (b - 128)) * 64 ^ n"
      "Suc (acc * 64 + (b - 128)) * 64 ^ n \<le> Suc (acc * 64 + (hi - 128)) * 64 ^ n"
      using 2(1,2) assms(2) by (intro mult_le_mono1; simp)+
    with continue_range [OF 2(3)] show ?thesis by linarith
  qed simp
qed (use assms in simp)

lemma scalar_continue:
  assumes "utf8_lead b = Some (n, lo, hi, acc)" and "utf8_continue n lo hi acc bs = (cp, rest)"
  shows "scalar cp"
proof -
  have "0 < n" "128 \<le> lo" "lo \<le> hi" using assms(1) by (auto simp: utf8_lead_def split: if_splits)
  then have "cp = 65533 \<or> (acc * 64 + (lo - 128)) * 64 ^ (n - 1) \<le> cp \<and> cp < Suc (acc * 64 + (hi - 128)) * 64 ^ (n - 1)"
    using continue_first [of "n - 1" lo hi acc bs cp rest] assms(2) by simp
  then show ?thesis
    using assms(1) by (elim disjE) (auto simp: utf8_lead_def scalar_def split: if_splits)
qed

lemma scalar_decode: "list_all scalar (utf8_decode bs)"
proof (induction bs rule: utf8_decode.induct)
  case (2 b bs)
  have "scalar (fst (utf8_continue n lo hi acc bs))" if "utf8_lead b = Some (n, lo, hi, acc)" for n lo hi acc
    by (rule scalar_continue [OF that]) (rule prod.collapse [symmetric])
  with 2 show ?case by (auto simp: scalar_def split: option.split)
qed simp

text \<open>Decoding and encoding again gives the bytes back exactly if they were well-formed UTF-8.\<close>

lemma utf8_reencode: "utf8_encode (utf8_decode bs) = bs \<longleftrightarrow> (\<exists>cps. list_all scalar cps \<and> bs = utf8_encode cps)"
  using scalar_decode decode_encode by metis

section \<open>Base64\<close>

definition base64_alphabet :: string where
  "base64_alphabet = ''ABCDEFGHIJKLMNOPQRSTUVWXYZabcdefghijklmnopqrstuvwxyz0123456789+/''"

definition base64_char :: "nat \<Rightarrow> char" where
  "base64_char i =
     (if i < 26 then char_of (65 + i) else if i < 52 then char_of (71 + i)
      else if i < 62 then char_of (i - 4) else if i = 62 then CHR ''+'' else CHR ''/'')"

definition base64_val :: "char \<Rightarrow> nat option" where
  "base64_val c =
     (let n = of_char c :: nat in
      if 65 \<le> n \<and> n \<le> 90 then Some (n - 65) else if 97 \<le> n \<and> n \<le> 122 then Some (n - 71)
      else if 48 \<le> n \<and> n \<le> 57 then Some (n + 4) else if n = 43 then Some 62
      else if n = 47 then Some 63 else None)"

fun base64_encode :: "byte list \<Rightarrow> string" where
  "base64_encode [] = []"
| "base64_encode [a] = [base64_char (unat a div 4), base64_char (unat a mod 4 * 16), CHR ''='', CHR ''='']"
| "base64_encode [a, b] = [base64_char (unat a div 4), base64_char (unat a mod 4 * 16 + unat b div 16),
     base64_char (unat b mod 16 * 4), CHR ''='']"
| "base64_encode (a # b # c # bs) = base64_char (unat a div 4) # base64_char (unat a mod 4 * 16 + unat b div 16) #
     base64_char (unat b mod 16 * 4 + unat c div 64) # base64_char (unat c mod 64) # base64_encode bs"

fun base64_bytes :: "nat list \<Rightarrow> byte list" where
  "base64_bytes (p # q # r # t # ps) = of_nat (p * 4 + q div 16) # of_nat (q mod 16 * 16 + r div 4) #
     of_nat (r mod 4 * 64 + t) # base64_bytes ps"
| "base64_bytes [p, q, r] = [of_nat (p * 4 + q div 16), of_nat (q mod 16 * 16 + r div 4)]"
| "base64_bytes [p, q] = [of_nat (p * 4 + q div 16)]"
| "base64_bytes _ = []"

text \<open>\<open>Buffer.from(value, 'base64')\<close> for a value of alphabet characters followed by \<open>=\<close> signs.\<close>

definition base64_decode :: "string \<Rightarrow> byte list" where
  "base64_decode value = base64_bytes (List.map_filter base64_val (takeWhile (\<lambda>c. c \<noteq> CHR ''='') value))"

lemma base64_val_char [simp]: "i < 64 \<Longrightarrow> base64_val (base64_char i) = Some i"
  by (auto simp: base64_val_def base64_char_def Let_def)

lemma base64_char_pad [simp]: "i < 64 \<Longrightarrow> base64_char i \<noteq> CHR ''=''"
  using base64_val_char [of i] by (auto simp: base64_val_def)

lemma unat_byte: "unat (b :: byte) < 256"
  using unsigned_less [of b, where 'a = nat] by simp

lemma byte_bounds [simp]: "unat (a :: byte) div 4 < 64" "unat (a :: byte) mod 4 * 16 + unat (b :: byte) div 16 < 64"
  "unat (b :: byte) mod 16 * 4 + unat (c :: byte) div 64 < 64" "unat (a :: byte) mod 4 * 16 < 64" "unat (b :: byte) mod 16 * 4 < 64"
  using unat_byte [of a] unat_byte [of b] unat_byte [of c] by simp_all

lemma base64_decode_encode: "base64_decode (base64_encode bs) = bs"
proof (induction bs rule: base64_encode.induct)
  case (4 a b c bs)
  have "unat b mod 16 * 16 div 16 = unat b mod 16" by simp
  have "unat a div 4 * 4 + (unat a mod 4 * 16 + unat b div 16) div 16 = unat a"
    "(unat a mod 4 * 16 + unat b div 16) mod 16 * 16 + (unat b mod 16 * 4 + unat c div 64) div 4 = unat b"
    "(unat b mod 16 * 4 + unat c div 64) mod 4 * 64 + unat c mod 64 = unat c"
    using unat_byte [of a] unat_byte [of b] unat_byte [of c] by simp_all
  with 4 show ?case by (simp add: base64_decode_def map_filter_simps)
next
  case (2 a)
  have "unat a div 4 * 4 + unat a mod 4 * 16 div 16 = unat a" by simp
  then show ?case by (simp add: base64_decode_def map_filter_simps)
next
  case (3 a b)
  have "unat a div 4 * 4 + (unat a mod 4 * 16 + unat b div 16) div 16 = unat a"
    "(unat a mod 4 * 16 + unat b div 16) mod 16 * 16 + unat b mod 16 * 4 div 4 = unat b"
    using unat_byte [of a] unat_byte [of b] by simp_all
  then show ?case by (simp add: base64_decode_def map_filter_simps)
qed (simp add: base64_decode_def map_filter_simps)

lemma base64_encode_length: "length (base64_encode bs) mod 4 = 0"
  by (induction bs rule: base64_encode.induct) simp_all

text \<open>An encoding is its alphabet characters followed by at most two padding characters.\<close>

lemma base64_encode_shape:
  "\<exists>cs k. base64_encode bs = cs @ replicate k (CHR ''='') \<and> k \<le> 2 \<and> CHR ''='' \<notin> set cs"
proof (induction bs rule: base64_encode.induct)
  case (2 a)
  show ?case by (rule exI [of _ "[base64_char (unat a div 4), base64_char (unat a mod 4 * 16)]"], rule exI [of _ 2])
    (use base64_char_pad [THEN not_sym] in \<open>simp add: numeral_2_eq_2\<close>)
next
  case (3 a b)
  show ?case by (rule exI [of _ "[base64_char (unat a div 4), base64_char (unat a mod 4 * 16 + unat b div 16),
      base64_char (unat b mod 16 * 4)]"], rule exI [of _ 1]) (use base64_char_pad [THEN not_sym] in simp)
next
  case (4 a b c bs)
  then obtain cs k where "base64_encode bs = cs @ replicate k (CHR ''='')" "k \<le> 2" "CHR ''='' \<notin> set cs" by blast
  then show ?case
    by (intro exI [of _ "base64_char (unat a div 4) # base64_char (unat a mod 4 * 16 + unat b div 16) #
     base64_char (unat b mod 16 * 4 + unat c div 64) # base64_char (unat c mod 64) # cs"] exI [of _ k])
      (use base64_char_pad [THEN not_sym] in simp)
qed simp

end
