(* ===== verification/Attachment_Validation.thy ===== *)
theory Attachment_Validation
  imports Encodings Js_Regex "HOL-Library.Extended_Nat"
begin

text \<open>
  \<open>attachment-policy.ts\<close> and \<open>attachment-validator.ts\<close>: the limits, the file name policy, the
  detection of the media type by content, the denied classes, the pixel and page counts read from
  the file, and the validation that runs them in order. A body is a list of bytes; a read outside
  it is the error value that Node's \<open>readUInt16BE\<close> throws, and the counts are extended naturals.
\<close>

section \<open>The policy\<close>

definition ATTACHMENT_ALLOWED_MEDIA_TYPES :: "string list" where
  "ATTACHMENT_ALLOWED_MEDIA_TYPES =
     [''text/plain'', ''text/markdown'', ''application/pdf'', ''image/png'', ''image/jpeg'', ''image/webp'']"

definition ATTACHMENT_PER_FILE_MAX_BYTES :: "(string \<times> nat) list" where
  "ATTACHMENT_PER_FILE_MAX_BYTES =
     [(''text/plain'', 262144), (''text/markdown'', 262144), (''application/pdf'', 10485760),
      (''image/png'', 5242880), (''image/jpeg'', 5242880), (''image/webp'', 5242880)]"

record attachment_policy =
  ap_maxCount :: nat
  ap_aggregateMaxBytes :: nat
  ap_pdfPagesMax :: nat
  ap_imagePixelsMax :: nat
  ap_grantTtlSeconds :: int

definition ATTACHMENT_POLICY :: attachment_policy where
  "ATTACHMENT_POLICY = \<lparr>ap_maxCount = 5, ap_aggregateMaxBytes = 20971520, ap_pdfPagesMax = 50,
     ap_imagePixelsMax = 20000000, ap_grantTtlSeconds = 60\<rparr>"

definition DENIED_FILENAME_EXTENSIONS :: "string list" where
  "DENIED_FILENAME_EXTENSIONS =
     [''exe'', ''bat'', ''cmd'', ''com'', ''dll'', ''html'', ''htm'', ''js'', ''mjs'', ''svg'',
      ''zip'', ''rar'', ''7z'', ''scr'', ''ps1'', ''sh'']"

section \<open>Input and result\<close>

record attachment_input =
  ai_declaredMediaType :: string
  ai_filename :: string
  ai_contentSha256 :: string
  ai_body :: "byte list"

record attachment_success =
  as_mediaType :: string
  as_checksumSha256 :: string
  as_safeFilename :: string
  as_sizeBytes :: nat

text \<open>The function \<open>fail\<close>, which throws.\<close>

definition fail_attachment :: "string \<Rightarrow> string \<Rightarrow> string \<Rightarrow> exn" where
  "fail_attachment code rule field = Domain (DomainError 422 code
     ''The file failed a required safety or type check and was not stored.''
     (Some ''The attachment could not be accepted'') (Some [''replace_attachment''])
     (Some [violation [(''field'', field), (''rule'', rule)]]))"

section \<open>File names\<close>

definition control_char :: "char \<Rightarrow> bool" where
  "control_char c \<longleftrightarrow> (let code = of_char c :: nat in code \<le> 31 \<or> code = 127)"

definition alnum_char :: "char \<Rightarrow> bool" where
  "alnum_char c \<longleftrightarrow> (let n = of_char c :: nat in 48 \<le> n \<and> n \<le> 57 \<or> 65 \<le> n \<and> n \<le> 90 \<or> 97 \<le> n \<and> n \<le> 122)"

text \<open>\<open>/^[A-Za-z0-9][A-Za-z0-9._ -]*$/\<close>.\<close>

definition safe_name :: "string \<Rightarrow> bool" where
  "safe_name name = (case name of [] \<Rightarrow> False
     | c # cs \<Rightarrow> alnum_char c \<and> list_all (\<lambda>x. alnum_char x \<or> x \<in> set ''._ -'') cs)"

definition file_extension :: "string \<Rightarrow> string" where
  "file_extension name = (if js_includes name ''.'' then js_lower (last (js_split (CHR ''.'') name)) else [])"

definition sanitizeAttachmentFilename :: "string \<Rightarrow> exn + string" where
  "sanitizeAttachmentFilename filename =
     (let unsafe = Inl (fail_attachment ''attachment_validation_failed'' ''safe_filename'' ''filename'')
      in if js_includes filename ''..'' \<or> js_includes filename ''/'' \<or> js_includes filename [CHR 0x5C] then unsafe
      else let trimmed = js_trim filename
      in if trimmed = [] \<or> trimmed = ''.'' \<or> trimmed = ''..'' then unsafe
      else if 200 < length trimmed \<or> list_ex control_char trimmed then unsafe
      else if \<not> safe_name trimmed then unsafe
      else if file_extension trimmed \<in> set DENIED_FILENAME_EXTENSIONS
           then Inl (fail_attachment ''attachment_unsafe'' ''executable_filename'' ''filename'')
      else Inr trimmed)"

section \<open>Content\<close>

text \<open>\<open>toString('latin1')\<close>, and \<open>toString('ascii')\<close>, which clears the highest bit of each byte.\<close>

definition latin1 :: "byte list \<Rightarrow> string" where
  "latin1 bs = map (\<lambda>b. char_of (unat b)) bs"

definition ascii :: "byte list \<Rightarrow> string" where
  "ascii bs = map (\<lambda>b. char_of (unat b mod 128)) bs"

definition subarray :: "nat \<Rightarrow> nat \<Rightarrow> byte list \<Rightarrow> byte list" where
  "subarray i j bs = take (j - i) (drop i bs)"

definition PNG_SIG :: "byte list" where
  "PNG_SIG = [0x89, 0x50, 0x4e, 0x47, 0x0d, 0x0a, 0x1a, 0x0a]"

definition isMostlyText :: "byte list \<Rightarrow> bool" where
  "isMostlyText body \<longleftrightarrow> utf8_encode (utf8_decode (map unat body)) = map unat body"

definition detectMediaType :: "byte list \<Rightarrow> string" where
  "detectMediaType body =
     (if 8 \<le> length body \<and> subarray 0 8 body = PNG_SIG then ''image/png''
      else if 3 \<le> length body \<and> body ! 0 = 0xff \<and> body ! 1 = 0xd8 \<and> body ! 2 = 0xff then ''image/jpeg''
      else if 12 \<le> length body \<and> ascii (subarray 0 4 body) = ''RIFF'' \<and> ascii (subarray 8 12 body) = ''WEBP''
           then ''image/webp''
      else if 5 \<le> length body \<and> ascii (subarray 0 5 body) = ''%PDF-'' then ''application/pdf''
      else if 0 \<in> set body \<or> \<not> isMostlyText body then ''unknown''
      else ''text/plain'')"

definition EICAR :: string where
  "EICAR = ''X5O!P%@AP[4'' @ [CHR 0x5C] @ ''PZX54(P^)7CC)7}$EICAR-STANDARD-ANTIVIRUS-TEST-FILE!$H+H*''"

text \<open>The patterns, with the delimiters \<open>[\s>]\<close> and \<open>(?:\s|\/|>>)\<close> they end in.\<close>

definition space_or_gt :: rx where
  "space_or_gt = Alt (Class Space) (Lit ''>'')"

definition pdf_delimiter :: rx where
  "pdf_delimiter = alts (Class Space) [Exact ''/'', Exact ''>>'']"

definition html_pattern :: rx where
  "html_pattern = alts (Lit ''<!doctype html'') [Seq (Lit ''<html'') space_or_gt, Seq (Lit ''<script'') space_or_gt]"

definition svg_pattern :: rx where
  "svg_pattern = Seq (Lit ''<svg'') space_or_gt"

definition encrypt_pattern :: rx where
  "encrypt_pattern = Seq (Exact ''/Encrypt'') pdf_delimiter"

definition embedded_pattern :: rx where
  "embedded_pattern = Seq (Exact ''/EmbeddedFile'') pdf_delimiter"

definition active_pattern :: rx where
  "active_pattern = seqs [Exact ''/'',
     alts (Exact ''JavaScript'') [Exact ''JS'', Exact ''RichMedia'', Exact ''Launch''], pdf_delimiter]"

definition page_pattern :: rx where
  "page_pattern = seqs [Exact ''/Type'', Opt (Many Space None), Exact ''/Page'', Not_next ''s'']"

definition deniedClass :: "byte list \<Rightarrow> string \<Rightarrow> string option" where
  "deniedClass body detected =
     (let head = latin1 (subarray 0 (min (length body) 4096) body);
          pdf = detected = ''application/pdf''
      in if 2 \<le> length body \<and> body ! 0 = 0x4d \<and> body ! 1 = 0x5a then Some ''executable''
      else if 4 \<le> length body \<and> subarray 0 4 body = [0x7f, 0x45, 0x4c, 0x46] then Some ''executable''
      else if 4 \<le> length body \<and> prefix (''PK'' @ [CHR 0x03, CHR 0x04]) head then Some ''archive''
      else if prefix ''#!'' head then Some ''script''
      else if rx_test html_pattern head then Some ''html''
      else if rx_test svg_pattern head then Some ''svg''
      else if pdf \<and> rx_test encrypt_pattern head then Some ''encrypted_pdf''
      else if pdf \<and> rx_test embedded_pattern head then Some ''embedded_file''
      else if pdf \<and> rx_test active_pattern head then Some ''active_content''
      else if pdf \<and> js_includes head ''<html'' then Some ''polyglot''
      else if js_includes body (utf8 EICAR) then Some ''malware''
      else None)"

section \<open>Pixels and pages\<close>

definition out_of_range :: exn where
  "out_of_range = JsError ''ERR_OUT_OF_RANGE''"

definition readUInt16BE :: "byte list \<Rightarrow> nat \<Rightarrow> exn + nat" where
  "readUInt16BE body i = (if i + 2 \<le> length body then Inr (unat (body ! i) * 256 + unat (body ! (i + 1))) else Inl out_of_range)"

definition readUInt32BE :: "byte list \<Rightarrow> nat \<Rightarrow> exn + nat" where
  "readUInt32BE body i =
     (if i + 4 \<le> length body
      then Inr (unat (body ! i) * 16777216 + unat (body ! (i + 1)) * 65536 + unat (body ! (i + 2)) * 256 + unat (body ! (i + 3)))
      else Inl out_of_range)"

definition area :: "exn + nat \<Rightarrow> exn + nat \<Rightarrow> exn + enat" where
  "area h w = (case h of Inl e \<Rightarrow> Inl e | Inr x \<Rightarrow> (case w of Inl e \<Rightarrow> Inl e | Inr y \<Rightarrow> Inr (enat (x * y))))"

definition pngPixels :: "byte list \<Rightarrow> exn + enat" where
  "pngPixels body = (if length body < 24 then Inr \<infinity> else area (readUInt32BE body 16) (readUInt32BE body 20))"

text \<open>
  One round of the loop over the segments of a JPEG at an offset: its result (\<open>Inl\<close>), or the next
  offset (\<open>Inr\<close>).
\<close>

definition frame_marker :: "nat \<Rightarrow> bool" where
  "frame_marker marker \<longleftrightarrow> 0xc0 \<le> marker \<and> marker \<le> 0xcf \<and> marker \<noteq> 0xc4 \<and> marker \<noteq> 0xc8 \<and> marker \<noteq> 0xcc"

definition jpeg_round :: "byte list \<Rightarrow> nat \<Rightarrow> (exn + enat) + nat" where
  "jpeg_round body offset =
     (if \<not> offset + 9 < length body then Inl (Inr \<infinity>)
      else if body ! offset \<noteq> 0xff then Inr (offset + 1)
      else case readUInt16BE body (offset + 2) of
          Inl e \<Rightarrow> Inl (Inl e)
        | Inr segment \<Rightarrow>
            if frame_marker (unat (body ! (offset + 1)))
            then Inl (area (readUInt16BE body (offset + 5)) (readUInt16BE body (offset + 7)))
            else Inr (offset + (2 + segment)))"

lemma jpeg_round_progress: "jpeg_round body offset = Inr next \<Longrightarrow> offset < next \<and> offset + 9 < length body"
  by (auto simp: jpeg_round_def split: if_splits sum.splits)

function jpeg_scan :: "byte list \<Rightarrow> nat \<Rightarrow> exn + enat" where
  "jpeg_scan body offset = (case jpeg_round body offset of Inl r \<Rightarrow> r | Inr next \<Rightarrow> jpeg_scan body next)"
  by pat_completeness auto
termination
  by (relation "measure (\<lambda>(body, offset). length body - offset)") (auto dest: jpeg_round_progress)

declare jpeg_scan.simps [simp del]

definition jpegPixels :: "byte list \<Rightarrow> exn + enat" where
  "jpegPixels body = jpeg_scan body 2"

definition webpPixels :: "byte list \<Rightarrow> exn + enat" where
  "webpPixels body =
     (if length body < 30 then Inr \<infinity>
      else if ascii (subarray 12 16 body) = ''VP8X''
      then let b = (\<lambda>i. unat (body ! i));
               width = 1 + b 24 + b 25 * 256 + b 26 * 65536;
               height = 1 + b 27 + b 28 * 256 + b 29 * 65536
           in Inr (enat (width * height))
      else Inr 1)"

text \<open>\<open>text.match(/.../g)\<close> is null when there is no match, and the count is then 1.\<close>

definition pdfPageCount :: "byte list \<Rightarrow> nat" where
  "pdfPageCount body = (case matchAll page_pattern (latin1 body) of [] \<Rightarrow> 1 | pages \<Rightarrow> length pages)"

section \<open>Validation\<close>

definition too_many_pixels :: "string \<Rightarrow> string \<Rightarrow> (byte list \<Rightarrow> exn + enat) \<Rightarrow> byte list \<Rightarrow> exn option" where
  "too_many_pixels detected mediaType pixels body =
     (if detected \<noteq> mediaType then None
      else case pixels body of
          Inl e \<Rightarrow> Some e
        | Inr n \<Rightarrow> if enat (ap_imagePixelsMax ATTACHMENT_POLICY) < n
                   then Some (fail_attachment ''attachment_image_too_large'' ''parser_limits_enforced'' ''file'') else None)"

definition firstSome :: "'a option list \<Rightarrow> 'a option" where
  "firstSome xs = (case List.map_filter id xs of [] \<Rightarrow> None | x # _ \<Rightarrow> Some x)"

text \<open>The checks of the content, after the file name and the digest.\<close>

definition effective_type :: "string \<Rightarrow> byte list \<Rightarrow> string" where
  "effective_type declared body =
     (let detected = detectMediaType body
      in if declared = ''text/markdown'' \<and> detected = ''text/plain'' then ''text/markdown'' else detected)"

definition content_error :: "string \<Rightarrow> byte list \<Rightarrow> exn option" where
  "content_error declared body =
     (let detected = effective_type declared body
      in if detected = ''unknown'' then Some (fail_attachment ''attachment_unsafe'' ''unknown_type'' ''file'')
      else if detected \<notin> set ATTACHMENT_ALLOWED_MEDIA_TYPES
           then Some (fail_attachment ''attachment_type_unsupported'' ''detected_type_allowlisted'' ''file'')
      else if detected \<noteq> declared
           then Some (fail_attachment ''attachment_validation_failed'' ''declared_matches_detected'' ''declared_media_type'')
      else case deniedClass body detected of
          Some denied \<Rightarrow> Some (fail_attachment ''attachment_unsafe''
            (if denied = ''malware'' then ''malware_scan_clean'' else denied) ''file'')
        | None \<Rightarrow>
            if detected = ''application/pdf'' \<and> ap_pdfPagesMax ATTACHMENT_POLICY < pdfPageCount body
            then Some (fail_attachment ''attachment_pdf_too_long'' ''parser_limits_enforced'' ''file'')
            else firstSome
              [too_many_pixels detected ''image/png'' pngPixels body,
               too_many_pixels detected ''image/jpeg'' jpegPixels body,
               too_many_pixels detected ''image/webp'' webpPixels body])"

definition validateAttachmentIngest :: "env \<Rightarrow> attachment_input \<Rightarrow> exn + attachment_success" where
  "validateAttachmentIngest E input =
     (if ai_declaredMediaType input \<notin> set ATTACHMENT_ALLOWED_MEDIA_TYPES
      then Inl (fail_attachment ''attachment_type_unsupported'' ''declared_type_allowlisted'' ''declared_media_type'')
      else case sanitizeAttachmentFilename (ai_filename input) of
          Inl e \<Rightarrow> Inl e
        | Inr safeFilename \<Rightarrow>
            if length (ai_body input) = 0
            then Inl (fail_attachment ''attachment_validation_failed'' ''byte_limit'' ''file'')
            else if (case map_of ATTACHMENT_PER_FILE_MAX_BYTES (ai_declaredMediaType input) of
                       None \<Rightarrow> False | Some limit \<Rightarrow> limit < length (ai_body input))
            then Inl (fail_attachment ''attachment_too_large'' ''byte_limit'' ''file'')
            else let checksumSha256 = sha256_hex E (ai_body input)
            in if checksumSha256 \<noteq> js_lower (ai_contentSha256 input)
            then Inl (fail_attachment ''attachment_validation_failed'' ''sha256_verified'' ''content_sha256'')
            else case content_error (ai_declaredMediaType input) (ai_body input) of
                Some e \<Rightarrow> Inl e
              | None \<Rightarrow> Inr \<lparr>as_mediaType = ai_declaredMediaType input, as_checksumSha256 = checksumSha256,
                          as_safeFilename = safeFilename, as_sizeBytes = length (ai_body input)\<rparr>)"

section \<open>The scan of a JPEG ends and reads inside the file\<close>

lemma jpeg_round_cases:
  obtains (found) n where "jpeg_round body offset = Inl (Inr n)"
  | (on) further where "jpeg_round body offset = Inr further"
proof (cases "offset + 9 < length body")
  case True
  then have r: "readUInt16BE body (offset + k) = Inr (unat (body ! (offset + k)) * 256 + unat (body ! (offset + k + 1)))"
    if "k \<le> 8" for k
    using that by (simp add: readUInt16BE_def)
  show thesis
  proof (cases "body ! offset = 0xff \<and> frame_marker (unat (body ! (offset + 1)))")
    case True
    then show thesis
      using \<open>offset + 9 < length body\<close> r [of 2] r [of 5] r [of 7] by (intro found) (simp add: jpeg_round_def area_def)
  next
    case False
    then have "jpeg_round body offset = Inr (if body ! offset = 0xff
        then offset + (2 + (unat (body ! (offset + 2)) * 256 + unat (body ! (offset + 2 + 1)))) else offset + 1)"
      using \<open>offset + 9 < length body\<close> r [of 2] by (auto simp: jpeg_round_def)
    then show thesis by (rule on)
  qed
next
  case False
  then show thesis by (intro found) (simp add: jpeg_round_def)
qed

lemma jpeg_scan_returns: "\<exists>n. jpeg_scan body offset = Inr n"
proof (induction body offset rule: jpeg_scan.induct)
  case (1 body offset)
  show ?case
  proof (cases rule: jpeg_round_cases [of body offset])
    case found
    then show ?thesis by (subst jpeg_scan.simps) simp
  next
    case on
    with 1 show ?thesis by (subst jpeg_scan.simps) simp
  qed
qed

definition jpeg_rounds :: "byte list \<Rightarrow> nat \<Rightarrow> (exn + enat) + nat \<Rightarrow> (exn + enat) + nat" where
  "jpeg_rounds body n = (case_sum Inl (jpeg_round body)) ^^ n"

lemma jpeg_rounds_Suc: "jpeg_rounds body (Suc n) r = jpeg_rounds body n (case_sum Inl (jpeg_round body) r)"
  by (simp add: jpeg_rounds_def funpow_swap1)

lemma jpeg_rounds_scan: "\<exists>n \<le> Suc (length body - offset). jpeg_rounds body n (Inr offset) = Inl (jpeg_scan body offset)"
proof (induction body offset rule: jpeg_scan.induct)
  case (1 body offset)
  show ?case
  proof (cases rule: jpeg_round_cases [of body offset])
    case (found n)
    then show ?thesis
      by (subst jpeg_scan.simps) (auto intro!: exI [of _ 1] simp: jpeg_rounds_def)
  next
    case (on further)
    with 1 obtain n where "n \<le> Suc (length body - further)" "jpeg_rounds body n (Inr further) = Inl (jpeg_scan body further)" by blast
    moreover have "Suc (length body - further) \<le> length body - offset"
      using jpeg_round_progress [OF on] by linarith
    ultimately show ?thesis
      using on by (subst jpeg_scan.simps) (auto intro!: exI [of _ "Suc n"] simp: jpeg_rounds_Suc)
  qed
qed

text \<open>
  C35. The scan for the frame of a JPEG ends on every file, also on one made to mislead it: after
  at most one round more than the file has bytes the loop is left with a number of pixels or infinity,
  never with an out-of-range read.
\<close>

theorem jpeg_scan_terminates:
  "\<exists>n px. n \<le> Suc (length body) \<and> jpeg_rounds body n (Inr 2) = Inl (Inr px) \<and> jpegPixels body = Inr px"
proof -
  obtain n where "n \<le> Suc (length body - 2)" "jpeg_rounds body n (Inr 2) = Inl (jpeg_scan body 2)"
    using jpeg_rounds_scan by blast
  moreover obtain px where "jpeg_scan body 2 = Inr px" using jpeg_scan_returns by blast
  ultimately show ?thesis
    by (intro exI [of _ n] exI [of _ px]) (simp add: jpegPixels_def)
qed

section \<open>Every failure is an unprocessable attachment\<close>

lemma png_returns: "\<exists>n. pngPixels body = Inr n"
  by (simp add: pngPixels_def area_def readUInt32BE_def)

lemma webp_returns: "\<exists>n. webpPixels body = Inr n"
  by (simp add: webpPixels_def Let_def)

lemma jpeg_returns: "\<exists>n. jpegPixels body = Inr n"
  by (simp add: jpegPixels_def jpeg_scan_returns)

definition attachment_codes :: "string list" where
  "attachment_codes = [''attachment_type_unsupported'', ''attachment_validation_failed'', ''attachment_unsafe'',
     ''attachment_too_large'', ''attachment_pdf_too_long'', ''attachment_image_too_large'']"

definition attachment_failure :: "exn \<Rightarrow> bool" where
  "attachment_failure e \<longleftrightarrow> (\<exists>code \<in> set attachment_codes. \<exists>rule field. e = fail_attachment code rule field)"

lemma attachment_failureI: "code \<in> set attachment_codes \<Longrightarrow> attachment_failure (fail_attachment code rule field)"
  by (auto simp: attachment_failure_def)

lemma too_many_pixels_failure:
  assumes "too_many_pixels detected m pixels body = Some e" and "\<exists>n. pixels body = Inr n"
  shows "attachment_failure e"
  using assms by (auto simp: too_many_pixels_def attachment_codes_def intro!: attachment_failureI split: if_splits sum.splits)

lemma firstSome_in: "firstSome xs = Some x \<Longrightarrow> Some x \<in> set xs"
  by (induction xs) (auto simp: firstSome_def map_filter_simps split: option.splits)

lemma firstSome_None: "firstSome xs = None \<longleftrightarrow> (\<forall>x \<in> set xs. x = None)"
  by (induction xs) (auto simp: firstSome_def map_filter_simps split: option.splits)

lemma content_error_failure:
  assumes "content_error declared body = Some e"
  shows "attachment_failure e"
proof -
  let ?d = "effective_type declared body"
  have "attachment_failure e" if "firstSome
              [too_many_pixels ?d ''image/png'' pngPixels body,
               too_many_pixels ?d ''image/jpeg'' jpegPixels body,
               too_many_pixels ?d ''image/webp'' webpPixels body] = Some e"
    using firstSome_in [OF that] too_many_pixels_failure png_returns jpeg_returns webp_returns by fastforce
  with assms show ?thesis
    unfolding content_error_def Let_def
    by (auto simp: attachment_codes_def intro: attachment_failureI split: if_splits option.splits)
qed

lemma sanitize_failure: "sanitizeAttachmentFilename name = Inl e \<Longrightarrow> attachment_failure e"
  by (auto simp: sanitizeAttachmentFilename_def Let_def attachment_codes_def intro: attachment_failureI split: if_splits)

text \<open>
  Validation fails in one way only. Whatever bytes, names and digests are sent, an attachment
  that is not accepted is refused with status 422, one of the six attachment codes, and one
  violation that names the field and the rule; the parsers never read past the end of the file.
\<close>

theorem attachment_refusal:
  "case validateAttachmentIngest E input of
     Inl e \<Rightarrow> \<exists>code rule field. code \<in> set attachment_codes \<and> e = fail_attachment code rule field
   | Inr v \<Rightarrow> as_mediaType v = ai_declaredMediaType input \<and> as_sizeBytes v = length (ai_body input)"
proof -
  have "attachment_failure e" if "validateAttachmentIngest E input = Inl e" for e
    using that unfolding validateAttachmentIngest_def Let_def
    by (auto simp: attachment_codes_def intro: attachment_failureI sanitize_failure content_error_failure
        split: if_splits sum.splits option.splits)
  moreover have "as_mediaType v = ai_declaredMediaType input \<and> as_sizeBytes v = length (ai_body input)"
    if "validateAttachmentIngest E input = Inr v" for v
    using that unfolding validateAttachmentIngest_def Let_def by (auto split: if_splits sum.splits option.splits)
  ultimately show ?thesis
    unfolding attachment_failure_def by (cases "validateAttachmentIngest E input") (simp, blast, simp)
qed

section \<open>What an accepted attachment is\<close>

text \<open>A name that can be stored: no separator, no control character, no denied extension.\<close>

definition storable_name :: "string \<Rightarrow> bool" where
  "storable_name name \<longleftrightarrow> name \<noteq> [] \<and> length name \<le> 200 \<and> alnum_char (hd name) \<and> \<not> js_space (last name) \<and>
     list_all (\<lambda>c. \<not> control_char c \<and> c \<notin> set [CHR ''/'', CHR 0x5C, CHR '':'', CHR 0x22, CHR ''<'']) name \<and>
     \<not> sublist ''..'' name \<and> file_extension name \<notin> set DENIED_FILENAME_EXTENSIONS"

lemma js_trim_sublist: "sublist (js_trim s) s"
proof -
  have "suffix (dropWhile js_space (rev (dropWhile js_space s))) (rev (dropWhile js_space s))" by (rule suffix_dropWhile)
  then have "prefix (js_trim s) (dropWhile js_space s)" by (simp add: js_trim_def suffix_to_prefix)
  then show ?thesis
    using suffix_dropWhile [of js_space s] by (meson prefix_imp_sublist suffix_imp_sublist sublist_order.order_trans)
qed

lemma sanitize_Inr:
  assumes "sanitizeAttachmentFilename filename = Inr name"
  shows "name = js_trim filename \<and> storable_name name"
proof -
  let ?t = "js_trim filename"
  from assms have f: "\<not> sublist ''..'' filename" "?t \<noteq> []" "length ?t \<le> 200" "\<not> list_ex control_char ?t" "safe_name ?t"
    "file_extension ?t \<notin> set DENIED_FILENAME_EXTENSIONS" "name = ?t"
    by (auto simp: sanitizeAttachmentFilename_def js_includes_def Let_def split: if_splits)
  have "alnum_char c \<or> c \<in> set ''._ -''" if "c \<in> set ?t" for c
    using f(5) that by (auto simp: safe_name_def list_all_iff split: list.splits)
  then have "c \<notin> set [CHR ''/'', CHR 0x5C, CHR '':'', CHR 0x22, CHR ''<'']" if "c \<in> set ?t" for c
    using that by (fastforce simp: alnum_char_def)
  moreover have "\<not> sublist ''..'' ?t" using f(1) js_trim_sublist sublist_order.order_trans by blast
  moreover have "alnum_char (hd ?t)" using f(2,5) by (cases ?t) (simp_all add: safe_name_def)
  ultimately show ?thesis
    using f js_trim_last [of filename] by (auto simp: storable_name_def list_all_iff list_ex_iff)
qed

text \<open>The parser limits of a media type.\<close>

definition within_limits :: "string \<Rightarrow> byte list \<Rightarrow> bool" where
  "within_limits m body \<longleftrightarrow>
     (if m = ''application/pdf'' then pdfPageCount body \<le> 50
      else if m = ''image/png'' then (\<exists>n. pngPixels body = Inr n \<and> n \<le> 20000000)
      else if m = ''image/jpeg'' then (\<exists>n. jpegPixels body = Inr n \<and> n \<le> 20000000)
      else if m = ''image/webp'' then (\<exists>n. webpPixels body = Inr n \<and> n \<le> 20000000)
      else True)"

lemma too_many_pixels_None:
  "too_many_pixels m m pixels body = None \<longleftrightarrow> (\<exists>n. pixels body = Inr n \<and> n \<le> 20000000)"
  by (auto simp: too_many_pixels_def ATTACHMENT_POLICY_def numeral_eq_enat not_less split: sum.splits)

lemma content_ok:
  assumes "content_error declared body = None"
  shows "effective_type declared body = declared \<and> deniedClass body declared = None \<and> within_limits declared body"
proof -
  from assms have t: "effective_type declared body = declared"
    unfolding content_error_def Let_def by (auto split: if_splits)
  with assms have d: "deniedClass body declared = None"
    unfolding content_error_def Let_def by (auto split: if_splits option.splits)
  from assms t d have p: "declared = ''application/pdf'' \<longrightarrow> pdfPageCount body \<le> 50"
    unfolding content_error_def Let_def by (auto simp: ATTACHMENT_POLICY_def split: if_splits)
  from assms t d have "firstSome [too_many_pixels declared ''image/png'' pngPixels body,
      too_many_pixels declared ''image/jpeg'' jpegPixels body, too_many_pixels declared ''image/webp'' webpPixels body] = None"
    unfolding content_error_def Let_def by (auto split: if_splits)
  then have f: "too_many_pixels declared ''image/png'' pngPixels body = None"
    "too_many_pixels declared ''image/jpeg'' jpegPixels body = None" "too_many_pixels declared ''image/webp'' webpPixels body = None"
    by (simp_all add: firstSome_None)
  have px: "\<exists>n. pixels body = Inr n \<and> n \<le> 20000000"
    if "too_many_pixels declared m pixels body = None" "declared = m" for m pixels
    using that by (simp add: too_many_pixels_None)
  have "within_limits declared body"
    unfolding within_limits_def using p px [OF f(1)] px [OF f(2)] px [OF f(3)] by presburger
  with t d show ?thesis by blast
qed

lemma validated_checksum: "validateAttachmentIngest E input = Inr v \<Longrightarrow> as_checksumSha256 v = sha256_hex E (ai_body input)"
  unfolding validateAttachmentIngest_def Let_def by (auto split: if_splits sum.splits option.splits)

text \<open>
  C30. What was accepted is safe to store. An accepted attachment has an allowed type which its
  content confirms (Markdown being text), between one byte and the limit of its type, the SHA-256
  the client announced, a name without separators, control characters or a denied extension, no
  denied content class, and no more pages or pixels than the limits allow.
\<close>

theorem accepted_attachment:
  assumes "validateAttachmentIngest E input = Inr v"
  shows "as_mediaType v \<in> set ATTACHMENT_ALLOWED_MEDIA_TYPES \<and>
     effective_type (as_mediaType v) (ai_body input) = as_mediaType v \<and>
     0 < as_sizeBytes v \<and> as_sizeBytes v \<le> the (map_of ATTACHMENT_PER_FILE_MAX_BYTES (as_mediaType v)) \<and>
     as_checksumSha256 v = sha256_hex E (ai_body input) \<and> js_lower (ai_contentSha256 input) = as_checksumSha256 v \<and>
     storable_name (as_safeFilename v) \<and> deniedClass (ai_body input) (as_mediaType v) = None \<and>
     within_limits (as_mediaType v) (ai_body input)"
proof -
  let ?m = "ai_declaredMediaType input"
  from assms have c: "?m \<in> set ATTACHMENT_ALLOWED_MEDIA_TYPES" "length (ai_body input) \<noteq> 0"
    "\<not> (case map_of ATTACHMENT_PER_FILE_MAX_BYTES ?m of None \<Rightarrow> False | Some limit \<Rightarrow> limit < length (ai_body input))"
    "sha256_hex E (ai_body input) = js_lower (ai_contentSha256 input)" "content_error ?m (ai_body input) = None"
    and v: "as_mediaType v = ?m" "as_sizeBytes v = length (ai_body input)" "as_checksumSha256 v = sha256_hex E (ai_body input)"
      "sanitizeAttachmentFilename (ai_filename input) = Inr (as_safeFilename v)"
    unfolding validateAttachmentIngest_def Let_def by (auto split: if_splits sum.splits option.splits)
  have "map_of ATTACHMENT_PER_FILE_MAX_BYTES ?m \<noteq> None"
    using c(1) by (auto simp: ATTACHMENT_ALLOWED_MEDIA_TYPES_def ATTACHMENT_PER_FILE_MAX_BYTES_def)
  with c(3) have "length (ai_body input) \<le> the (map_of ATTACHMENT_PER_FILE_MAX_BYTES ?m)" by auto
  with c v content_ok [OF c(5)] sanitize_Inr [OF v(4), THEN conjunct2] show ?thesis by simp
qed

end
