(* ===== verification/Objects.thy ===== *)
theory Objects
  imports Tables
begin

text \<open>
  \<open>src/modules/objects\<close>: the port of the object store (\<open>ObjectStorePort\<close>, an interface the services
  are given), the store in memory that implements it, and \<open>ObjectAccessService\<close>. The locale states
  what the services rely on; the service is shown to implement, over any such port, a map from
  company and object to bytes, and the locale is interpreted on the store in memory.
\<close>

section \<open>The port and the store in memory\<close>

record object_store_port =
  port_put :: "string \<Rightarrow> byte list \<Rightarrow> unit call"
  port_get :: "string \<Rightarrow> byte list call"
  port_head :: "string \<Rightarrow> nat call"
  port_delete :: "string \<Rightarrow> unit call"

definition object_store_miss :: exn where
  "object_store_miss = JsError ''object_store_miss''"

definition record_call :: "store_operation \<Rightarrow> string \<Rightarrow> unit call" where
  "record_call operation key = tx_modify (\<lambda>s. s\<lparr>sys_calls := sys_calls s @ [(operation, key)]\<rparr>)"

definition memory_put :: "string \<Rightarrow> byte list \<Rightarrow> unit call" where
  "memory_put key body = tx_then (record_call Put key) (tx_modify (\<lambda>s. s\<lparr>sys_objects := (sys_objects s)(key \<mapsto> body)\<rparr>))"

definition memory_get :: "string \<Rightarrow> byte list call" where
  "memory_get key = tx_then (record_call Get key)
     (tx_bind (tx_gets (\<lambda>s. sys_objects s key)) (tx_require object_store_miss))"

definition memory_head :: "string \<Rightarrow> nat call" where
  "memory_head key = tx_then (record_call Head key)
     (tx_bind (tx_gets (\<lambda>s. sys_objects s key)) (\<lambda>found.
      tx_bind (tx_require object_store_miss found) (\<lambda>body. tx_return (length body))))"

definition memory_delete :: "string \<Rightarrow> unit call" where
  "memory_delete key = tx_then (record_call Delete key)
     (tx_modify (\<lambda>s. s\<lparr>sys_objects := (sys_objects s)(key := None)\<rparr>))"

definition MemoryObjectStore :: object_store_port where
  "MemoryObjectStore = \<lparr>port_put = memory_put, port_get = memory_get, port_head = memory_head, port_delete = memory_delete\<rparr>"

section \<open>ObjectAccessService\<close>

definition new_fixture :: "env \<Rightarrow> uuid \<Rightarrow> uuid \<Rightarrow> string \<Rightarrow> byte list \<Rightarrow> object_row" where
  "new_fixture E objectId companyId objectKey body =
     \<lparr>ob_id = objectId, ob_company_id = companyId, ob_purpose = ''quality-fixture'', ob_object_key = objectKey,
      ob_checksum_sha256 = sha256_hex E body, ob_size_bytes = length body, ob_version = 1,
      ob_lifecycle_state = O_READY, ob_created_at = now_ms E, ob_deleted_at = None,
      ob_declared_media_type = None, ob_detected_media_type = None, ob_original_filename = None,
      ob_scan_state = SC_CLEAN, ob_expires_at = None\<rparr>"

definition ObjectAccess_put :: "env \<Rightarrow> object_store_port \<Rightarrow> uuid \<Rightarrow> byte list \<Rightarrow> (uuid \<times> string \<times> string) call" where
  "ObjectAccess_put E port companyId body =
     tx_bind (newId E) (\<lambda>objectId.
     tx_bind (tx_lift (buildObjectKey \<lparr>ok_companyId = companyId, ok_purpose = ''quality-fixture'',
                ok_objectId = objectId, ok_version = 1\<rparr>)) (\<lambda>objectKey.
     tx_then (insert_object (new_fixture E objectId companyId objectKey body))
     (tx_then (port_put port objectKey body)
     (tx_return (objectId, objectKey, sha256_hex E body)))))"

definition own_ready :: "uuid \<Rightarrow> uuid \<Rightarrow> object_row \<Rightarrow> bool" where
  "own_ready companyId objectId r \<longleftrightarrow>
     ob_company_id r = companyId \<and> ob_id r = objectId \<and> ob_lifecycle_state r = O_READY"

definition loadOwnRecord :: "uuid \<Rightarrow> uuid \<Rightarrow> object_row call" where
  "loadOwnRecord companyId objectId =
     tx_bind (query (\<lambda>d. find (own_ready companyId objectId) (object_records d))) (tx_require tenantResourceNotFound)"

definition ObjectAccess_get :: "object_store_port \<Rightarrow> uuid \<Rightarrow> uuid \<Rightarrow> byte list call" where
  "ObjectAccess_get port companyId objectId =
     tx_bind (loadOwnRecord companyId objectId) (\<lambda>r. port_get port (ob_object_key r))"

definition ObjectAccess_head :: "object_store_port \<Rightarrow> uuid \<Rightarrow> uuid \<Rightarrow> nat call" where
  "ObjectAccess_head port companyId objectId =
     tx_bind (loadOwnRecord companyId objectId) (\<lambda>r. port_head port (ob_object_key r))"

definition mark_deleted :: "env \<Rightarrow> uuid \<Rightarrow> uuid \<Rightarrow> db \<Rightarrow> db" where
  "mark_deleted E companyId objectId d = d\<lparr>object_records :=
     upd_where (own_ready companyId objectId)
       (\<lambda>r. r\<lparr>ob_lifecycle_state := O_DELETED, ob_deleted_at := Some (now_ms E)\<rparr>) (object_records d)\<rparr>"

definition ObjectAccess_delete :: "env \<Rightarrow> object_store_port \<Rightarrow> uuid \<Rightarrow> uuid \<Rightarrow> unit call" where
  "ObjectAccess_delete E port companyId objectId =
     tx_bind (loadOwnRecord companyId objectId) (\<lambda>r.
     tx_then (port_delete port (ob_object_key r)) (execute (mark_deleted E companyId objectId)))"

section \<open>The abstract store of a company\<close>

text \<open>
  The abstract state maps a company and an object to the bytes. The invariant: identifiers are
  unique, every key is the one built from the record, and a ready record's object is in the store.
\<close>

definition own_objects :: "(sys \<Rightarrow> string \<rightharpoonup> byte list) \<Rightarrow> sys \<Rightarrow> uuid \<Rightarrow> uuid \<rightharpoonup> byte list" where
  "own_objects contents s companyId objectId =
     (case find (own_ready companyId objectId) (object_records (sys_db s)) of
        None \<Rightarrow> None | Some r \<Rightarrow> contents s (ob_object_key r))"

definition well_keyed :: "object_row \<Rightarrow> bool" where
  "well_keyed r \<longleftrightarrow> uuid_shape (ob_company_id r) \<and> uuid_shape (ob_id r) \<and>
     buildObjectKey \<lparr>ok_companyId = ob_company_id r, ok_purpose = ob_purpose r, ok_objectId = ob_id r,
       ok_version = int (ob_version r)\<rparr> = Inr (ob_object_key r)"

definition objects_ok :: "(sys \<Rightarrow> string \<rightharpoonup> byte list) \<Rightarrow> sys \<Rightarrow> bool" where
  "objects_ok contents s \<longleftrightarrow> distinct (map ob_id (object_records (sys_db s))) \<and>
     (\<forall>r \<in> set (object_records (sys_db s)). well_keyed r \<and>
        (ob_lifecycle_state r = O_READY \<longrightarrow> contents s (ob_object_key r) \<noteq> None))"

text \<open>The key of a record determines its company and its identifier.\<close>

lemma well_keyed_inj:
  assumes "well_keyed r" "well_keyed q" "ob_object_key r = ob_object_key q"
  shows "ob_id r = ob_id q \<and> ob_company_id r = ob_company_id q"
proof -
  have "parseObjectKey (ob_object_key x) = Some \<lparr>ok_companyId = ob_company_id x, ok_purpose = ob_purpose x,
      ok_objectId = ob_id x, ok_version = int (ob_version x)\<rparr>" if "well_keyed x" for x
    using that unfolding well_keyed_def by (intro parse_build) simp_all
  from this [OF assms(1)] this [OF assms(2)] assms(3) show ?thesis by simp
qed

lemma objects_ok_record:
  assumes "objects_ok contents s" "find (own_ready c i) (object_records (sys_db s)) = Some r"
  shows "r \<in> set (object_records (sys_db s))" "own_ready c i r" "well_keyed r" "contents s (ob_object_key r) \<noteq> None"
    "ob_company_id r = c" "ob_id r = i"
  using find_SomeD [OF assms(2)] assms(1) by (auto simp: objects_ok_def own_ready_def)

section \<open>The contract of the port\<close>

locale object_store =
  fixes port :: object_store_port and contents :: "sys \<Rightarrow> string \<rightharpoonup> byte list"
  assumes put_law: "port_put port k b s = (r, t) \<Longrightarrow>
      r = Inr () \<and> contents t = (contents s)(k \<mapsto> b) \<and> sys_db t = sys_db s"
    and get_law: "port_get port k s = (bytes, t) \<Longrightarrow>
      bytes = (case contents s k of None \<Rightarrow> Inl object_store_miss | Some b \<Rightarrow> Inr b) \<and>
      contents t = contents s \<and> sys_db t = sys_db s"
    and head_law: "port_head port k s = (len, t) \<Longrightarrow>
      len = (case contents s k of None \<Rightarrow> Inl object_store_miss | Some b \<Rightarrow> Inr (length b)) \<and>
      contents t = contents s \<and> sys_db t = sys_db s"
    and delete_law: "port_delete port k s = (r, t) \<Longrightarrow>
      r = Inr () \<and> contents t = (contents s)(k := None) \<and> sys_db t = sys_db s"
    and contents_db: "contents (s\<lparr>sys_db := d\<rparr>) = contents s"
    and contents_next: "contents (s\<lparr>sys_next := n\<rparr>) = contents s"
begin

lemma load_cases:
  obtains (missing) "find (own_ready c i) (object_records (sys_db s)) = None"
      "loadOwnRecord c i s = (Inl tenantResourceNotFound, s)" "own_objects contents s c i = None"
  | (found) r where "find (own_ready c i) (object_records (sys_db s)) = Some r"
      "loadOwnRecord c i s = (Inr r, s)" "own_objects contents s c i = contents s (ob_object_key r)"
  by (cases "find (own_ready c i) (object_records (sys_db s))")
    (simp_all add: loadOwnRecord_def tx_bind_def query_apply tx_require_def tx_throw_def tx_return_def own_objects_def)

lemma same_objects: "sys_db t = sys_db s \<Longrightarrow> contents t = contents s \<Longrightarrow>
    own_objects contents t = own_objects contents s \<and> objects_ok contents t = objects_ok contents s"
  by (simp add: own_objects_def objects_ok_def fun_eq_iff split: option.split)

lemma get_refines:
  assumes "objects_ok contents s" "ObjectAccess_get port c i s = (r, t)"
  shows "r = (case own_objects contents s c i of None \<Rightarrow> Inl tenantResourceNotFound | Some b \<Rightarrow> Inr b) \<and>
    own_objects contents t = own_objects contents s \<and> objects_ok contents t"
proof (cases rule: load_cases [of c i s])
  case missing
  with assms show ?thesis by (auto simp: ObjectAccess_get_def tx_bind_def)
next
  case (found q)
  with assms(2) have g: "port_get port (ob_object_key q) s = (r, t)" by (simp add: ObjectAccess_get_def tx_bind_def)
  from objects_ok_record(4) [OF assms(1) found(1)] get_law [OF g] same_objects [of t s] assms(1) found(3)
  show ?thesis by auto
qed

lemma head_refines:
  assumes "objects_ok contents s" "ObjectAccess_head port c i s = (r, t)"
  shows "r = (case own_objects contents s c i of None \<Rightarrow> Inl tenantResourceNotFound | Some b \<Rightarrow> Inr (length b)) \<and>
    own_objects contents t = own_objects contents s \<and> objects_ok contents t"
proof (cases rule: load_cases [of c i s])
  case missing
  with assms show ?thesis by (auto simp: ObjectAccess_head_def tx_bind_def)
next
  case (found q)
  with assms(2) have g: "port_head port (ob_object_key q) s = (r, t)" by (simp add: ObjectAccess_head_def tx_bind_def)
  from objects_ok_record(4) [OF assms(1) found(1)] head_law [OF g] same_objects [of t s] assms(1) found(3)
  show ?thesis by auto
qed

text \<open>Deleting one object leaves every other object of every company where it is.\<close>

lemma delete_refines:
  assumes ok: "objects_ok contents s" and run: "ObjectAccess_delete E port c i s = (r, t)"
  shows "r = (case own_objects contents s c i of None \<Rightarrow> Inl tenantResourceNotFound | Some b \<Rightarrow> Inr ()) \<and>
    own_objects contents t = (own_objects contents s)(c := (own_objects contents s c)(i := None)) \<and> objects_ok contents t"
proof (cases rule: load_cases [of c i s])
  case missing
  with assms have "r = Inl tenantResourceNotFound" "t = s" by (auto simp: ObjectAccess_delete_def tx_bind_def)
  moreover have "(own_objects contents s)(c := (own_objects contents s c)(i := None)) = own_objects contents s"
    using missing(3) by (auto simp: fun_eq_iff)
  ultimately show ?thesis using missing(3) ok by simp
next
  case (found q)
  let ?rs = "object_records (sys_db s)" and ?f = "\<lambda>r. r\<lparr>ob_lifecycle_state := O_DELETED, ob_deleted_at := Some (now_ms E)\<rparr>"
  note q = objects_ok_record [OF ok found(1)]
  obtain r' u where del: "port_delete port (ob_object_key q) s = (r', u)" by fastforce
  note law = delete_law [OF del]
  with run found(2) del have r: "r = Inr ()" and t: "t = u\<lparr>sys_db := mark_deleted E c i (sys_db s)\<rparr>"
    by (auto simp: ObjectAccess_delete_def tx_bind_def tx_then_def execute_apply)
  have c: "contents t = (contents s)(ob_object_key q := None)" using law t contents_db by simp
  have rs: "object_records (sys_db t) = upd_where (own_ready c i) ?f ?rs" using t by (simp add: mark_deleted_def)
  have other: "contents t (ob_object_key p) = contents s (ob_object_key p)" if "p \<in> set ?rs" "ob_id p \<noteq> i" for p
    using that c q(3,6) ok well_keyed_inj [of p q] by (auto simp: objects_ok_def)
  have fnd: "find (own_ready c' i') (upd_where (own_ready c i) ?f ps) =
      (if c' = c \<and> i' = i then None else find (own_ready c' i') ps)" for c' i' and ps :: "object_row list"
  proof (induction ps)
    case (Cons p ps)
    have "\<not> own_ready c' i' (?f p)" "own_ready c i p \<Longrightarrow> own_ready c' i' p \<longleftrightarrow> c' = c \<and> i' = i"
      by (auto simp: own_ready_def)
    with Cons.IH show ?case by (cases "own_ready c i p") auto
  qed simp
  have "own_objects contents t c' i' = ((own_objects contents s)(c := (own_objects contents s c)(i := None))) c' i'" for c' i'
  proof (cases "find (own_ready c' i') ?rs")
    case None
    then show ?thesis by (auto simp: own_objects_def rs fnd)
  next
    case (Some p)
    note p = objects_ok_record [OF ok Some]
    show ?thesis
    proof (cases "i' = i")
      case True
      have "distinct (map ob_id ?rs)" using ok by (simp add: objects_ok_def)
      then have "p = q" using p(1,6) q(1,6) True by (intro distinct_map_eq [of ob_id ?rs]) simp_all
      then have "c' = c" using p(5) q(5) by simp
      with True show ?thesis by (simp add: own_objects_def rs fnd)
    next
      case False
      then show ?thesis using Some p other [of p] by (auto simp: own_objects_def rs fnd)
    qed
  qed
  moreover have "objects_ok contents t"
  proof -
    have "map ob_id (upd_where (own_ready c i) ?f ?rs) = map ob_id ?rs" by (rule map_upd_where_same) simp
    moreover have "well_keyed x \<and> (ob_lifecycle_state x = O_READY \<longrightarrow> contents t (ob_object_key x) \<noteq> None)"
      if "x \<in> set (upd_where (own_ready c i) ?f ?rs)" for x
      using that
    proof (cases rule: in_upd_whereE)
      case (1 p)
      have wk: "well_keyed p" "ob_lifecycle_state p = O_READY \<Longrightarrow> contents s (ob_object_key p) \<noteq> None"
        using ok 1 by (auto simp: objects_ok_def)
      show ?thesis
      proof (cases "own_ready c i p")
        case True
        then show ?thesis using 1 wk by (simp add: well_keyed_def)
      next
        case False
        have "p = q" if "ob_id p = i"
          using ok 1 q(1,6) that by (intro distinct_map_eq [of ob_id ?rs]) (simp_all add: objects_ok_def)
        with False q(2) have "ob_id p \<noteq> i" by blast
        with False show ?thesis using 1 wk other [of p] by simp
      qed
    qed
    ultimately show ?thesis using ok by (simp add: objects_ok_def rs)
  qed
  moreover obtain b where "own_objects contents s c i = Some b" using q(4) found(3) by auto
  ultimately show ?thesis using r by (simp add: fun_eq_iff)
qed

lemma put_refines:
  assumes ok: "objects_ok contents s" and ids: "uuid_shape c" "uuid_shape (uuid_at E (sys_next s))"
    and run: "ObjectAccess_put E port c body s = (r, t)"
  shows "(case r of
      Inl e \<Rightarrow> own_objects contents t = own_objects contents s
    | Inr (objectId, key, checksum) \<Rightarrow> own_objects contents s c objectId = None \<and>
        own_objects contents t = (own_objects contents s)(c := (own_objects contents s c)(objectId \<mapsto> body))) \<and> objects_ok contents t"
proof -
  let ?i = "uuid_at E (sys_next s)" and ?s = "s\<lparr>sys_next := Suc (sys_next s)\<rparr>" and ?rs = "object_records (sys_db s)"
  obtain key where key: "buildObjectKey \<lparr>ok_companyId = c, ok_purpose = ''quality-fixture'', ok_objectId = ?i, ok_version = 1\<rparr> = Inr key"
    by (simp add: buildObjectKey_def OBJECT_PURPOSES_def)
  let ?row = "new_fixture E ?i c key body"
  have same: "own_objects contents ?s = own_objects contents s \<and> objects_ok contents ?s = objects_ok contents s"
    by (rule same_objects) (simp_all add: contents_next)
  show ?thesis
  proof (cases "insert_object ?row ?s")
    case (Pair x u)
    show ?thesis
    proof (cases x)
      case (Inl e)
      then have "u = ?s"
        using Pair by (cases rule: insert_row_cases [of _ _ ?s]) (auto simp: insert_object_def insert_row_def split: option.splits)
      with run key Pair Inl have "r = Inl e" "t = ?s"
        by (auto simp: ObjectAccess_put_def tx_bind_def newId_apply tx_lift_def tx_then_def)
      then show ?thesis using same ok by simp
    next
      case (Inr y)
      with Pair have ins: "insert_object ?row ?s = (Inr y, u)" by simp
      then have new: "absent ob_id ?i ?rs" and u: "u = ?s\<lparr>sys_db := sys_db s\<lparr>object_records := ?rs @ [?row]\<rparr>\<rparr>"
        unfolding insert_object_def by (auto elim!: insert_row_InrE simp: new_fixture_def)
      obtain r' v where pt: "port_put port key body u = (r', v)" by fastforce
      note law = put_law [OF pt]
      with run key ins pt have r: "r = Inr (?i, key, sha256_hex E body)" and t: "t = v"
        by (auto simp: ObjectAccess_put_def tx_bind_def newId_apply tx_lift_def tx_then_def tx_return_def)
      have rs: "object_records (sys_db t) = ?rs @ [?row]" using t law u by simp
      have c: "contents t = (contents s)(key \<mapsto> body)" using t law u by (simp add: contents_db contents_next)
      have wk: "well_keyed ?row" using ids key by (simp add: well_keyed_def new_fixture_def)
      have other: "contents t (ob_object_key p) = contents s (ob_object_key p)" if "p \<in> set ?rs" for p
      proof -
        have "ob_id p \<noteq> ?i" using new that by (auto simp: absent_def)
        then show ?thesis using ok that c wk well_keyed_inj [of p ?row] by (auto simp: objects_ok_def new_fixture_def)
      qed
      have fnd: "find (own_ready c' i') (?rs @ [?row]) = (if c' = c \<and> i' = ?i then Some ?row else find (own_ready c' i') ?rs)" for c' i'
      proof -
        have "find P (ps @ [p]) = (case find P ps of None \<Rightarrow> if P p then Some p else None | Some z \<Rightarrow> Some z)" for P ps and p :: object_row
          by (induction ps) auto
        moreover have "find (own_ready c' ?i) ?rs = None"
          using new by (auto simp: find_None_iff own_ready_def absent_def)
        ultimately show ?thesis by (auto simp: own_ready_def new_fixture_def split: option.split)
      qed
      have "own_objects contents t c' i' = ((own_objects contents s)(c := (own_objects contents s c)(?i \<mapsto> body))) c' i'" for c' i'
      proof (cases "c' = c \<and> i' = ?i")
        case True
        have "ob_object_key ?row = key" by (simp add: new_fixture_def)
        with True show ?thesis by (simp add: own_objects_def rs fnd c)
      next
        case False
        then have "own_objects contents t c' i' = own_objects contents s c' i'"
          using other objects_ok_record(1) [OF ok, of c' i'] by (simp only: own_objects_def rs fnd if_False split: option.split) simp
        with False show ?thesis by auto
      qed
      moreover have "own_objects contents s c ?i = None"
        using new by (auto simp: own_objects_def own_ready_def absent_def split: option.split dest!: find_SomeD)
      moreover have "objects_ok contents t"
        using ok new wk other c by (auto simp: objects_ok_def rs absent_def new_fixture_def)
      ultimately show ?thesis using r by (simp add: fun_eq_iff)
    qed
  qed
qed

end

text \<open>The store in memory keeps the contract.\<close>

interpretation memory: object_store MemoryObjectStore sys_objects
  by unfold_locales
    (auto simp: MemoryObjectStore_def memory_put_def memory_get_def memory_head_def memory_delete_def record_call_def
      tx_then_def tx_bind_def tx_modify_def tx_gets_def tx_require_def tx_return_def tx_throw_def split: option.splits)

text \<open>
  C27. The object service implements a map per company. As long as the records and the store agree,
  reading returns the bytes last stored under the identifier, or 404, also for an object of another
  company; storing adds one object under a new identifier, deleting removes that one, and neither
  changes an object of another company or another object of this one; and records and store agree
  again.
\<close>

theorem object_access_refines:
  assumes "objects_ok sys_objects s" and "uuid_shape c" and "uuid_shape (uuid_at E (sys_next s))"
  shows "(case ObjectAccess_get MemoryObjectStore c i s of (r, t) \<Rightarrow>
       r = (case own_objects sys_objects s c i of None \<Rightarrow> Inl tenantResourceNotFound | Some b \<Rightarrow> Inr b) \<and>
       own_objects sys_objects t = own_objects sys_objects s \<and> objects_ok sys_objects t) \<and>
     (case ObjectAccess_head MemoryObjectStore c i s of (r, t) \<Rightarrow>
       r = (case own_objects sys_objects s c i of None \<Rightarrow> Inl tenantResourceNotFound | Some b \<Rightarrow> Inr (length b)) \<and>
       own_objects sys_objects t = own_objects sys_objects s \<and> objects_ok sys_objects t) \<and>
     (case ObjectAccess_delete E MemoryObjectStore c i s of (r, t) \<Rightarrow>
       r = (case own_objects sys_objects s c i of None \<Rightarrow> Inl tenantResourceNotFound | Some b \<Rightarrow> Inr ()) \<and>
       own_objects sys_objects t = (own_objects sys_objects s)(c := (own_objects sys_objects s c)(i := None)) \<and>
       objects_ok sys_objects t) \<and>
     (case ObjectAccess_put E MemoryObjectStore c body s of (r, t) \<Rightarrow>
       (case r of
          Inl e \<Rightarrow> own_objects sys_objects t = own_objects sys_objects s
        | Inr (objectId, key, checksum) \<Rightarrow> own_objects sys_objects s c objectId = None \<and>
            own_objects sys_objects t = (own_objects sys_objects s)(c := (own_objects sys_objects s c)(objectId \<mapsto> body))) \<and>
       objects_ok sys_objects t)"
proof (intro conjI)
  show "case ObjectAccess_get MemoryObjectStore c i s of (r, t) \<Rightarrow>
       r = (case own_objects sys_objects s c i of None \<Rightarrow> Inl tenantResourceNotFound | Some b \<Rightarrow> Inr b) \<and>
       own_objects sys_objects t = own_objects sys_objects s \<and> objects_ok sys_objects t"
    unfolding split_beta by (rule memory.get_refines [OF assms(1)]) simp
  show "case ObjectAccess_head MemoryObjectStore c i s of (r, t) \<Rightarrow>
       r = (case own_objects sys_objects s c i of None \<Rightarrow> Inl tenantResourceNotFound | Some b \<Rightarrow> Inr (length b)) \<and>
       own_objects sys_objects t = own_objects sys_objects s \<and> objects_ok sys_objects t"
    unfolding split_beta by (rule memory.head_refines [OF assms(1)]) simp
  show "case ObjectAccess_delete E MemoryObjectStore c i s of (r, t) \<Rightarrow>
       r = (case own_objects sys_objects s c i of None \<Rightarrow> Inl tenantResourceNotFound | Some b \<Rightarrow> Inr ()) \<and>
       own_objects sys_objects t = (own_objects sys_objects s)(c := (own_objects sys_objects s c)(i := None)) \<and>
       objects_ok sys_objects t"
    unfolding split_beta by (rule memory.delete_refines [OF assms(1)]) simp
  show "case ObjectAccess_put E MemoryObjectStore c body s of (r, t) \<Rightarrow>
       (case r of
          Inl e \<Rightarrow> own_objects sys_objects t = own_objects sys_objects s
        | Inr (objectId, key, checksum) \<Rightarrow> own_objects sys_objects s c objectId = None \<and>
            own_objects sys_objects t = (own_objects sys_objects s)(c := (own_objects sys_objects s c)(objectId \<mapsto> body))) \<and>
       objects_ok sys_objects t"
  proof (cases "ObjectAccess_put E MemoryObjectStore c body s")
    case (Pair r t)
    with memory.put_refines [OF assms Pair] show ?thesis by simp
  qed
qed

end
