(* ===== verification/Attachments.thy ===== *)
theory Attachments
  imports Attachment_Validation Objects Governance
begin

text \<open>
  \<open>attachments.service.ts\<close> and \<open>attachment-retrieval.service.ts\<close>: a founder uploads a file as a
  command, reads its metadata, binds files to a goal version, and a run retrieves them. The bytes
  go to the object store port, everything else to the tables.
\<close>

section \<open>The request\<close>

record create_attachment_dto =
  ca_declared_media_type :: string
  ca_filename :: string
  ca_content_sha256 :: string
  ca_content_base64 :: string

text \<open>\<open>/^[A-Za-z0-9+/]+={0,2}$/\<close> and the other decorators of \<open>CreateAttachmentDto\<close>.\<close>

definition base64_shape :: "string \<Rightarrow> bool" where
  "base64_shape value \<longleftrightarrow>
     (let alphabet = (\<lambda>c. base64_val c \<noteq> None)
      in takeWhile alphabet value \<noteq> [] \<and> length (dropWhile alphabet value) \<le> 2 \<and>
         list_all (\<lambda>c. c = CHR ''='') (dropWhile alphabet value))"

definition CreateAttachmentDto_ok :: "create_attachment_dto \<Rightarrow> bool" where
  "CreateAttachmentDto_ok dto \<longleftrightarrow>
     between 1 100 (ca_declared_media_type dto) \<and> between 1 200 (ca_filename dto) \<and>
     length (ca_content_sha256 dto) = 64 \<and> list_all is_hex (ca_content_sha256 dto) \<and>
     between 4 14000000 (ca_content_base64 dto) \<and> base64_shape (ca_content_base64 dto)"

definition malformed_base64 :: exn where
  "malformed_base64 = Domain (DomainError 400 ''validation_failed''
     ''One or more request fields are invalid.'' (Some ''Request validation failed'')
     (Some [''correct_request_fields'']) (Some [violation [(''field'', ''content_base64''), (''rule'', ''base64'')]]))"

text \<open>\<open>value.replace(/=+$/, '')\<close>.\<close>

definition strip_padding :: "string \<Rightarrow> string" where
  "strip_padding value = rev (dropWhile (\<lambda>c. c = CHR ''='') (rev value))"

definition decodeBody :: "string \<Rightarrow> exn + byte list" where
  "decodeBody value =
     (if length value mod 4 \<noteq> 0 then Inl malformed_base64
      else let body = base64_decode value
      in if strip_padding (base64_encode body) \<noteq> strip_padding value then Inl malformed_base64 else Inr body)"

section \<open>Ingestion\<close>

definition attachment_json :: "uuid \<Rightarrow> string option \<Rightarrow> string option \<Rightarrow> string \<Rightarrow> nat \<Rightarrow> string option \<Rightarrow> scan_state \<Rightarrow> timestamp option \<Rightarrow> json" where
  "attachment_json objectId declared detected checksum size_bytes filename scan expires =
     JObj [(''id'', JStr objectId), (''media_type'', json_opt JStr (case detected of None \<Rightarrow> declared | Some m \<Rightarrow> Some m)),
       (''size_bytes'', JNum (int size_bytes)), (''checksum_sha256'', JStr checksum),
       (''scan_state'', JStr (scan_state_text scan)), (''filename'', json_opt JStr filename),
       (''expires_at'', json_opt (\<lambda>t. JStr (toISOString t)) expires)]"

definition new_attachment :: "env \<Rightarrow> uuid \<Rightarrow> uuid \<Rightarrow> string \<Rightarrow> attachment_success \<Rightarrow> object_row" where
  "new_attachment E objectId companyId objectKey v =
     \<lparr>ob_id = objectId, ob_company_id = companyId, ob_purpose = ''attachment'', ob_object_key = objectKey,
      ob_checksum_sha256 = as_checksumSha256 v, ob_size_bytes = as_sizeBytes v, ob_version = 1,
      ob_lifecycle_state = O_READY, ob_created_at = now_ms E, ob_deleted_at = None,
      ob_declared_media_type = Some (as_mediaType v), ob_detected_media_type = Some (as_mediaType v),
      ob_original_filename = Some (as_safeFilename v), ob_scan_state = SC_CLEAN, ob_expires_at = None\<rparr>"

definition ingested_event :: "uuid \<Rightarrow> uuid \<Rightarrow> uuid \<Rightarrow> uuid \<Rightarrow> attachment_success \<Rightarrow> append_options" where
  "ingested_event companyId actorId correlationId objectId v =
     \<lparr>ae_companyId = companyId, ae_runId = None, ae_type = ''attachment_ingested'', ae_actorType = ''FOUNDER'',
      ae_actorId = actorId, ae_actorVersion = None, ae_correlationId = correlationId, ae_causationId = None,
      ae_audience = None, ae_dataClassification = None,
      ae_payload = JObj [(''attachment_id'', JStr objectId), (''media_type'', JStr (as_mediaType v)),
        (''size_bytes'', JNum (int (as_sizeBytes v))), (''checksum_sha256'', JStr (as_checksumSha256 v)),
        (''scan_state'', JStr ''CLEAN'')]\<rparr>"

definition rejected_event :: "uuid \<Rightarrow> uuid \<Rightarrow> uuid \<Rightarrow> domain_error \<Rightarrow> create_attachment_dto \<Rightarrow> nat \<Rightarrow> append_options" where
  "rejected_event companyId actorId correlationId error dto sizeBytes =
     \<lparr>ae_companyId = companyId, ae_runId = None, ae_type = ''attachment_rejected'', ae_actorType = ''FOUNDER'',
      ae_actorId = actorId, ae_actorVersion = None, ae_correlationId = correlationId, ae_causationId = None,
      ae_audience = None, ae_dataClassification = None,
      ae_payload = JObj [(''reason_code'', JStr (de_code error)),
        (''declared_media_type'', JStr (ca_declared_media_type dto)), (''size_bytes'', JNum (int sizeBytes))]\<rparr>"

text \<open>\<open>auditRejection\<close>, in a transaction of its own.\<close>

definition auditRejection :: "env \<Rightarrow> uuid \<Rightarrow> uuid \<Rightarrow> uuid \<Rightarrow> domain_error \<Rightarrow> create_attachment_dto \<Rightarrow> nat \<Rightarrow> unit call" where
  "auditRejection E companyId actorId correlationId error dto sizeBytes = transaction (
     tx_bind (DomainEvent_append E (rejected_event companyId actorId correlationId error dto sizeBytes)) (\<lambda>_. tx_return ()))"

definition ingest_body :: "env \<Rightarrow> object_store_port \<Rightarrow> uuid \<Rightarrow> uuid \<Rightarrow> uuid \<Rightarrow> attachment_success \<Rightarrow> byte list \<Rightarrow> (int \<times> json) call" where
  "ingest_body E port companyId actorId correlationId v body =
     tx_bind (newId E) (\<lambda>objectId.
     tx_bind (tx_lift (buildObjectKey \<lparr>ok_companyId = companyId, ok_purpose = ''attachment'',
                ok_objectId = objectId, ok_version = 1\<rparr>)) (\<lambda>objectKey.
     tx_then (insert_object (new_attachment E objectId companyId objectKey v))
     (tx_then (port_put port objectKey body)
     (tx_bind (DomainEvent_append E (ingested_event companyId actorId correlationId objectId v)) (\<lambda>_.
      tx_return (201, attachment_json objectId (Some (as_mediaType v)) (Some (as_mediaType v)) (as_checksumSha256 v)
        (as_sizeBytes v) (Some (as_safeFilename v)) SC_CLEAN None))))))"

definition ingest_command :: "env \<Rightarrow> object_store_port \<Rightarrow> uuid \<Rightarrow> uuid \<Rightarrow> uuid \<Rightarrow> uuid \<Rightarrow> create_attachment_dto \<Rightarrow> attachment_success \<Rightarrow> byte list \<Rightarrow> command_options" where
  "ingest_command E port companyId actorId idempotencyKey correlationId dto v body =
     \<lparr>cx_actorId = actorId, cx_operation = ''attachments.ingest'', cx_idempotencyKey = idempotencyKey,
      cx_request = JObj [(''declared_media_type'', JStr (ca_declared_media_type dto)),
        (''filename'', JStr (as_safeFilename v)), (''content_sha256'', JStr (as_checksumSha256 v))],
      cx_execute = ingest_body E port companyId actorId correlationId v body\<rparr>"

definition validation_input :: "create_attachment_dto \<Rightarrow> byte list \<Rightarrow> attachment_input" where
  "validation_input dto body = \<lparr>ai_declaredMediaType = ca_declared_media_type dto, ai_filename = ca_filename dto,
     ai_contentSha256 = ca_content_sha256 dto, ai_body = body\<rparr>"

definition Attachments_ingest :: "env \<Rightarrow> object_store_port \<Rightarrow> request_actor \<Rightarrow> uuid \<Rightarrow> uuid \<Rightarrow> create_attachment_dto \<Rightarrow> command_result call" where
  "Attachments_ingest E port actor idempotencyKey correlationId dto =
     tx_bind (tx_lift (companyScopeFromActor actor)) (\<lambda>companyId.
     tx_bind (tx_lift (decodeBody (ca_content_base64 dto))) (\<lambda>body.
       case validateAttachmentIngest E (validation_input dto body) of
         Inl e \<Rightarrow>
           tx_then
             (case e of
                Domain error \<Rightarrow> tx_when (de_status error = 422)
                  (auditRejection E companyId (ra_id actor) correlationId error dto (length body))
              | _ \<Rightarrow> tx_return ())
             (tx_throw e)
       | Inr v \<Rightarrow> CommandExecutor_run E (ingest_command E port companyId (ra_id actor) idempotencyKey correlationId dto v body)))"

section \<open>Metadata\<close>

definition available_attachment :: "env \<Rightarrow> object_row \<Rightarrow> bool" where
  "available_attachment E r \<longleftrightarrow> ob_purpose r = ''attachment'' \<and> ob_lifecycle_state r = O_READY \<and> ob_scan_state r = SC_CLEAN \<and>
     (case ob_expires_at r of None \<Rightarrow> True | Some t \<Rightarrow> now_ms E < t)"

definition metadataResponse :: "object_row \<Rightarrow> json" where
  "metadataResponse r = attachment_json (ob_id r) (ob_declared_media_type r) (ob_detected_media_type r)
     (ob_checksum_sha256 r) (ob_size_bytes r) (ob_original_filename r) (ob_scan_state r) (ob_expires_at r)"

definition getMetadata :: "env \<Rightarrow> request_actor \<Rightarrow> uuid \<Rightarrow> json call" where
  "getMetadata E actor attachmentId =
     tx_bind (tx_lift (companyScopeFromActor actor)) (\<lambda>companyId.
     tx_bind (query (\<lambda>d. find (\<lambda>r. ob_company_id r = companyId \<and> ob_id r = attachmentId \<and> available_attachment E r)
         (object_records d))) (\<lambda>row.
     tx_bind (tx_require tenantResourceNotFound row) (\<lambda>r. tx_return (metadataResponse r))))"

section \<open>Binding to a goal version\<close>

definition attachment_ids_error :: "string \<Rightarrow> string \<Rightarrow> string \<Rightarrow> string \<Rightarrow> string \<Rightarrow> exn" where
  "attachment_ids_error code title detail rule remediation = Domain (DomainError 422 code detail (Some title)
     (Some [remediation]) (Some [violation [(''field'', ''attachment_ids''), (''rule'', rule)]]))"

definition count_exceeded :: exn where
  "count_exceeded = attachment_ids_error ''attachment_count_exceeded'' ''Too many attachments''
     ''A goal version can reference at most five validated attachments.'' ''count_limit'' ''remove_extra_attachments''"

definition not_unique :: exn where
  "not_unique = attachment_ids_error ''attachment_validation_failed'' ''The attachment could not be accepted''
     ''Attachment references must be unique, validated, and in the current company.'' ''unique'' ''replace_attachment''"

definition not_linkable :: exn where
  "not_linkable = attachment_ids_error ''attachment_validation_failed'' ''The attachment could not be accepted''
     ''Unvalidated, rejected, or expired attachment references cannot be linked.'' ''validated_ready_unexpired''
     ''replace_attachment''"

definition total_exceeded :: exn where
  "total_exceeded = attachment_ids_error ''attachment_total_exceeded'' ''Attachments exceed the aggregate size limit''
     ''The combined attachments exceed the twenty MiB run limit.'' ''aggregate_byte_limit'' ''remove_extra_attachments''"

definition assertLinkable :: "env \<Rightarrow> object_row \<Rightarrow> unit call" where
  "assertLinkable E row =
     (let expired = (case ob_expires_at row of None \<Rightarrow> False | Some t \<Rightarrow> t \<le> now_ms E)
      in tx_when (ob_purpose row \<noteq> ''attachment'' \<or> ob_lifecycle_state row \<noteq> O_READY \<or>
           ob_scan_state row \<noteq> SC_CLEAN \<or> expired) (tx_throw not_linkable))"

definition new_link :: "uuid \<Rightarrow> uuid \<Rightarrow> uuid \<Rightarrow> nat \<Rightarrow> goal_attachment_row" where
  "new_link companyId goalVersionId attachmentId ordinal =
     \<lparr>ga_company_id = companyId, ga_goal_version_id = goalVersionId, ga_object_id = attachmentId, ga_ordinal = ordinal\<rparr>"

text \<open>The loop over the entries of \<open>attachmentIds\<close>, from an ordinal and the bytes counted so far.\<close>

fun bind_entries :: "env \<Rightarrow> uuid \<Rightarrow> uuid \<Rightarrow> object_row list \<Rightarrow> nat \<Rightarrow> nat \<Rightarrow> uuid list \<Rightarrow> unit call" where
  "bind_entries E companyId goalVersionId rows ordinal aggregate [] = tx_return ()"
| "bind_entries E companyId goalVersionId rows ordinal aggregate (attachmentId # ids) =
     tx_bind (tx_require tenantResourceNotFound (find (\<lambda>r. ob_id r = attachmentId) rows)) (\<lambda>row.
     tx_then (assertLinkable E row)
     (let total = aggregate + ob_size_bytes row
      in tx_then (tx_when (ap_aggregateMaxBytes ATTACHMENT_POLICY < total) (tx_throw total_exceeded))
         (tx_then (insert_goal_attachment (new_link companyId goalVersionId attachmentId ordinal))
         (bind_entries E companyId goalVersionId rows (ordinal + 1) total ids))))"

definition bindToGoalVersion :: "env \<Rightarrow> uuid \<Rightarrow> uuid \<Rightarrow> uuid list \<Rightarrow> unit call" where
  "bindToGoalVersion E companyId goalVersionId attachmentIds =
     (if attachmentIds = [] then tx_return ()
      else if ap_maxCount ATTACHMENT_POLICY < length attachmentIds then tx_throw count_exceeded
      else if \<not> distinct attachmentIds then tx_throw not_unique
      else tx_bind (query (\<lambda>d. filter (\<lambda>r. ob_company_id r = companyId \<and> ob_id r \<in> set attachmentIds) (object_records d)))
        (\<lambda>rows. tx_then (tx_when (length rows \<noteq> length attachmentIds) (tx_throw tenantResourceNotFound))
           (bind_entries E companyId goalVersionId rows 0 0 attachmentIds)))"

section \<open>Retrieval for a run\<close>

text \<open>The rows of the join of runs, snapshots, links and objects.\<close>

definition linked_objects :: "uuid \<Rightarrow> uuid \<Rightarrow> uuid \<Rightarrow> db \<Rightarrow> object_row list" where
  "linked_objects companyId runId attachmentId d =
     [stored. r \<leftarrow> runs d, r_company_id r = companyId, r_id r = runId,
         cs \<leftarrow> context_snapshots d, cs_id cs = r_context_snapshot_id r, cs_company_id cs = r_company_id r,
         g \<leftarrow> goal_version_attachments d, ga_company_id g = r_company_id r,
         ga_goal_version_id g = cs_goal_version_id cs, ga_object_id g = attachmentId,
         stored \<leftarrow> object_records d, ob_company_id stored = r_company_id r, ob_id stored = ga_object_id g]"

definition retrievable :: "env \<Rightarrow> uuid \<Rightarrow> object_row \<Rightarrow> bool" where
  "retrievable E companyId row \<longleftrightarrow>
     ob_scan_state row = SC_CLEAN \<and> ob_lifecycle_state row = O_READY \<and>
     (case ob_expires_at row of None \<Rightarrow> True | Some t \<Rightarrow> now_ms E < t) \<and>
     prefix (''companies/'' @ companyId @ ''/attachment/'') (ob_object_key row)"

definition new_grant :: "env \<Rightarrow> uuid \<Rightarrow> uuid \<Rightarrow> uuid \<Rightarrow> uuid \<Rightarrow> grant_row" where
  "new_grant E grantId companyId attachmentId runId =
     \<lparr>rg_id = grantId, rg_company_id = companyId, rg_object_id = attachmentId, rg_run_id = runId,
      rg_expires_at = now_ms E + ap_grantTtlSeconds ATTACHMENT_POLICY * 1000, rg_consumed_at = Some (now_ms E)\<rparr>"

definition retrieveForRun :: "env \<Rightarrow> object_store_port \<Rightarrow> request_actor \<Rightarrow> uuid \<Rightarrow> uuid \<Rightarrow> (byte list \<times> string option \<times> string option) call" where
  "retrieveForRun E port actor runId attachmentId =
     tx_bind (tx_lift (companyScopeFromActor actor)) (\<lambda>companyId.
     tx_bind (query (linked_objects companyId runId attachmentId)) (\<lambda>linked.
     tx_bind (tx_require tenantResourceNotFound (case linked of [] \<Rightarrow> None | row # _ \<Rightarrow> Some row)) (\<lambda>row.
     tx_then (tx_when (\<not> retrievable E companyId row) (tx_throw tenantResourceNotFound))
     (tx_bind (newId E) (\<lambda>grantId.
      tx_then (insert_grant (new_grant E grantId companyId attachmentId runId))
      (tx_bind (port_get port (ob_object_key row)) (\<lambda>body.
       tx_return (body, ob_detected_media_type row, ob_original_filename row))))))))"

section \<open>One spelling per file\<close>

lemma base64_shapeE:
  assumes "base64_shape value"
  obtains cs k where "value = cs @ replicate k (CHR ''='')" and "CHR ''='' \<notin> set cs" and "k \<le> 2"
proof -
  let ?p = "\<lambda>c. base64_val c \<noteq> None"
  have "dropWhile ?p value = replicate (length (dropWhile ?p value)) (CHR ''='')"
    using assms by (simp add: base64_shape_def Let_def list_all_iff replicate_length_same)
  moreover have "CHR ''='' \<notin> set (takeWhile ?p value)"
    using set_takeWhileD [of "CHR ''=''" ?p "value"] by (auto simp: base64_val_def)
  ultimately show thesis
    using assms takeWhile_dropWhile_id [of ?p "value"]
    by (intro that [of "takeWhile ?p value" "length (dropWhile ?p value)"]) (simp_all add: base64_shape_def Let_def)
qed

lemma strip_padding_append: "CHR ''='' \<notin> set cs \<Longrightarrow> strip_padding (cs @ replicate k (CHR ''='')) = cs"
proof -
  assume "CHR ''='' \<notin> set cs"
  then have "dropWhile (\<lambda>c. c = CHR ''='') (rev cs) = rev cs"
    by (intro dropWhile_eq_selfI) (metis hd_in_set set_rev)
  moreover have "dropWhile (\<lambda>c. c = CHR ''='') (replicate k (CHR ''='') @ xs) = dropWhile (\<lambda>c. c = CHR ''='') xs" for xs
    by (induction k) simp_all
  ultimately show ?thesis by (simp add: strip_padding_def)
qed

text \<open>
  A file is uploaded in exactly one spelling. Of the texts the request validation admits, the
  decoder accepts the Base64 encodings of byte strings and nothing else (no text whose unused bits
  are set or whose padding is missing), and returns the bytes that were encoded.
\<close>

theorem decodeBody_iff:
  assumes "CreateAttachmentDto_ok dto"
  shows "decodeBody (ca_content_base64 dto) = Inr body \<longleftrightarrow> ca_content_base64 dto = base64_encode body"
proof
  let ?v = "ca_content_base64 dto"
  assume d: "decodeBody ?v = Inr body"
  have "base64_shape ?v" using assms by (simp add: CreateAttachmentDto_ok_def)
  then obtain cs k where v: "?v = cs @ replicate k (CHR ''='')" "CHR ''='' \<notin> set cs" "k \<le> 2" by (rule base64_shapeE)
  obtain ds j where e: "base64_encode body = ds @ replicate j (CHR ''='')" "j \<le> 2" "CHR ''='' \<notin> set ds"
    using base64_encode_shape by blast
  from d have "length ?v mod 4 = 0" "strip_padding (base64_encode body) = strip_padding ?v"
    by (auto simp: decodeBody_def Let_def split: if_splits)
  then have "(length cs + k) mod 4 = 0" "ds = cs"
    unfolding v(1) e(1) strip_padding_append [OF v(2)] strip_padding_append [OF e(3)] by simp_all
  moreover have "(length ds + j) mod 4 = 0"
    using base64_encode_length [of body] by (simp add: e(1))
  ultimately have "j = k" using v(3) e(2) by presburger
  with \<open>ds = cs\<close> show "?v = base64_encode body" by (simp add: v(1) e(1))
next
  assume "ca_content_base64 dto = base64_encode body"
  then show "decodeBody (ca_content_base64 dto) = Inr body"
    by (simp add: decodeBody_def base64_encode_length base64_decode_encode)
qed

section \<open>Uploads\<close>

text \<open>
  A refused upload leaves one trace. When the file fails validation the founder gets the
  validation error, and the only change is one \<open>attachment_rejected\<close> event with its message, which
  carries the error code, the declared type and the size and not the content; no record is made and the object
  store is not called.
\<close>

theorem refused_upload_audited:
  assumes "ra_companyId actor = Some c" and "c \<noteq> []"
    and "decodeBody (ca_content_base64 dto) = Inr body"
    and "validateAttachmentIngest E (validation_input dto body) = Inl (Domain error)"
    and "event_log_ok (sys_db s)" and "present co_id c (companies (sys_db s))"
    and "uuid_at E (sys_next s) \<notin> ev_id ` set (events (sys_db s))"
    and "uuid_at E (Suc (sys_next s)) \<notin> om_id ` set (outbox_messages (sys_db s))"
  shows "Attachments_ingest E port actor key correlationId dto s =
    (Inl (Domain error), appended_company E (rejected_event c (ra_id actor) correlationId error dto (length body)) s)"
proof -
  let ?o = "rejected_event c (ra_id actor) correlationId error dto (length body)"
  have "de_status error = 422"
    using attachment_refusal [where E = E and input = "validation_input dto body"] assms(4)
    by (auto simp: fail_attachment_def DomainError_def)
  moreover have "DomainEvent_append E ?o s = (Inr (uuid_at E (sys_next s)), appended_company E ?o s)"
    by (rule append_company_runs [OF assms(5)]) (use assms(6-8) in \<open>simp_all add: rejected_event_def\<close>)
  moreover have "companyScopeFromActor actor = Inr c"
    using assms(1,2) by (simp add: companyScopeFromActor_Inr)
  ultimately show ?thesis
    using assms(3,4)
    by (simp add: Attachments_ingest_def auditRejection_def transaction_def tx_bind_def tx_then_def tx_lift_def
        tx_when_def tx_return_def tx_throw_def)
qed

lemma ingest_body_InrE:
  assumes "ingest_body E MemoryObjectStore c a k v body s = (Inr q, t)"
  obtains i objectKey where "buildObjectKey \<lparr>ok_companyId = c, ok_purpose = ''attachment'', ok_objectId = i, ok_version = 1\<rparr> = Inr objectKey"
    and "absent ob_id i (object_records (sys_db s))"
    and "object_records (sys_db t) = object_records (sys_db s) @ [new_attachment E i c objectKey v]"
    and "sys_objects t objectKey = Some body"
    and "q = (201, metadataResponse (new_attachment E i c objectKey v))"
proof -
  let ?i = "uuid_at E (sys_next s)"
  obtain objectKey where
    key: "buildObjectKey \<lparr>ok_companyId = c, ok_purpose = ''attachment'', ok_objectId = ?i, ok_version = 1\<rparr> = Inr objectKey"
    by (simp add: buildObjectKey_def OBJECT_PURPOSES_def)
  with assms obtain u u' s1 s2 eid s3 where
    ins: "insert_object (new_attachment E ?i c objectKey v) (s\<lparr>sys_next := Suc (sys_next s)\<rparr>) = (Inr u, s1)"
    and put: "port_put MemoryObjectStore objectKey body s1 = (Inr u', s2)"
    and ev: "DomainEvent_append E (ingested_event c a k ?i v) s2 = (Inr eid, s3)" and t: "t = s3"
    and q: "q = (201, attachment_json ?i (Some (as_mediaType v)) (Some (as_mediaType v)) (as_checksumSha256 v)
        (as_sizeBytes v) (Some (as_safeFilename v)) SC_CLEAN None)"
    unfolding ingest_body_def
    by (elim tx_bind_InrE newId_InrE tx_lift_InrE tx_then_InrE tx_return_InrE) (simp only: sum.inject)
  from ins have new: "absent ob_id ?i (object_records (sys_db s))"
    and s1: "object_records (sys_db s1) = object_records (sys_db s) @ [new_attachment E ?i c objectKey v]"
    unfolding insert_object_def by (auto elim!: insert_row_InrE simp: new_attachment_def)
  from memory.put_law [OF put] have s2: "sys_db s2 = sys_db s1" "sys_objects s2 objectKey = Some body" by simp_all
  from ev obtain "object_records (sys_db s3) = object_records (sys_db s2)" "sys_objects s3 = sys_objects s2"
    by (rule append_shape) simp
  then show thesis
    using new s1 s2 t q by (intro that [OF key]) (simp_all add: metadataResponse_def new_attachment_def)
qed

text \<open>
  What was uploaded can be read. An upload that is answered and not replayed has decoded and
  validated the file, adds one ready record of the founder's company for it, has its bytes under the
  record's key in the store, and answers with the metadata that a later read of the attachment returns.
\<close>

theorem upload_readable:
  assumes "Attachments_ingest E MemoryObjectStore actor key correlationId dto s = (Inr r, t)"
    and "\<not> cr_replayed r"
  shows "\<exists>c body v row. ra_companyId actor = Some c \<and> decodeBody (ca_content_base64 dto) = Inr body \<and>
     validateAttachmentIngest E (validation_input dto body) = Inr v \<and>
     object_records (sys_db t) = object_records (sys_db s) @ [row] \<and> ob_company_id row = c \<and>
     ob_checksum_sha256 row = sha256_hex E body \<and> sys_objects t (ob_object_key row) = Some body \<and>
     cr_status r = 201 \<and> getMetadata E actor (ob_id row) t = (Inr (cr_body r), t)"
proof -
  from assms(1) obtain c body v where c: "companyScopeFromActor actor = Inr c"
    and body: "decodeBody (ca_content_base64 dto) = Inr body"
    and v: "validateAttachmentIngest E (validation_input dto body) = Inr v"
    and run: "CommandExecutor_run E (ingest_command E MemoryObjectStore c (ra_id actor) key correlationId dto v body) s = (Inr r, t)"
    unfolding Attachments_ingest_def
    by (elim tx_bind_InrE tx_lift_InrE) (auto elim!: tx_then_InrE simp: tx_throw_def split: sum.splits)
  from run show ?thesis
  proof (cases rule: CommandExecutor_run_InrE)
    case replayed
    with assms(2) show ?thesis by simp
  next
    case (executed rs n s2)
    then have ex: "ingest_body E MemoryObjectStore c (ra_id actor) correlationId v body
        (s\<lparr>sys_next := n, sys_db := sys_db s\<lparr>idempotency_records := rs\<rparr>\<rparr>) = (Inr (cr_status r, cr_body r), s2)"
      by (simp add: ingest_command_def)
    from ex obtain i objectKey where new: "absent ob_id i (object_records (sys_db s))"
      and rs: "object_records (sys_db s2) = object_records (sys_db s) @ [new_attachment E i c objectKey v]"
      and st: "sys_objects s2 objectKey = Some body" "cr_status r = 201" "cr_body r = metadataResponse (new_attachment E i c objectKey v)"
      by (rule ingest_body_InrE) simp
    let ?row = "new_attachment E i c objectKey v"
    have t: "object_records (sys_db t) = object_records (sys_db s) @ [?row]" "sys_objects t = sys_objects s2"
      using executed(2) rs by (simp_all add: complete_record_def)
    have row: "ob_id ?row = i" "ob_company_id ?row = c" "ob_object_key ?row = objectKey"
      "ob_checksum_sha256 ?row = as_checksumSha256 v" "available_attachment E ?row"
      by (simp_all add: new_attachment_def available_attachment_def)
    have "find (\<lambda>r. ob_company_id r = c \<and> ob_id r = i \<and> available_attachment E r) (object_records (sys_db t)) = Some ?row"
    proof -
      have "find p (ps @ [x]) = Some x" if "\<forall>y \<in> set ps. \<not> p y" "p x" for p ps and x :: object_row
        using that by (induction ps) auto
      then show ?thesis using new row by (simp add: t absent_def)
    qed
    then have "getMetadata E actor i t = (Inr (cr_body r), t)"
      using c st(3) by (simp add: getMetadata_def tx_bind_def tx_lift_def query_apply tx_require_def tx_return_def)
    moreover have "as_checksumSha256 v = sha256_hex E body"
      using validated_checksum [OF v] by (simp add: validation_input_def)
    ultimately show ?thesis
      using c body v t st row by (intro exI [of _ c] exI [of _ body] exI [of _ v] exI [of _ ?row]) (simp add: companyScopeFromActor_Inr)
  qed
qed

section \<open>Limits of a goal version\<close>

lemma assertLinkable_InrE:
  assumes "assertLinkable E row s = (Inr u, t)"
  obtains "available_attachment E row" and "t = s"
  using assms unfolding assertLinkable_def Let_def
  by (elim guard_InrE) (auto simp: available_attachment_def not_le split: option.splits)

lemma insert_link_InrE:
  assumes "insert_goal_attachment r s = (Inr u, t)"
  obtains "t = s\<lparr>sys_db := sys_db s\<lparr>goal_version_attachments := goal_version_attachments (sys_db s) @ [r]\<rparr>\<rparr>"
  using assms unfolding insert_goal_attachment_def by (elim insert_row_InrE) (rule that)

lemma bind_entries_InrE:
  assumes "bind_entries E c gv rows n agg ids s = (Inr u, t)" and "agg \<le> ap_aggregateMaxBytes ATTACHMENT_POLICY"
  shows "\<exists>bound. map ob_id bound = ids \<and> set bound \<subseteq> set rows \<and> list_all (available_attachment E) bound \<and>
    agg + sum_list (map ob_size_bytes bound) \<le> ap_aggregateMaxBytes ATTACHMENT_POLICY \<and>
    t = s\<lparr>sys_db := sys_db s\<lparr>goal_version_attachments := goal_version_attachments (sys_db s) @
      map2 (new_link c gv) ids [n..<n + length ids]\<rparr>\<rparr>"
  using assms
proof (induction ids arbitrary: n agg s)
  case Nil
  then show ?case by (simp add: tx_return_def)
next
  case (Cons i ids)
  from Cons.prems(1) obtain row s1 where row: "find (\<lambda>r. ob_id r = i) rows = Some row"
    and ok: "available_attachment E row" and sum: "agg + ob_size_bytes row \<le> ap_aggregateMaxBytes ATTACHMENT_POLICY"
    and s1: "s1 = s\<lparr>sys_db := sys_db s\<lparr>goal_version_attachments := goal_version_attachments (sys_db s) @ [new_link c gv i n]\<rparr>\<rparr>"
    and rest: "bind_entries E c gv rows (n + 1) (agg + ob_size_bytes row) ids s1 = (Inr u, t)"
    unfolding bind_entries.simps Let_def
    by (elim tx_bind_InrE tx_then_InrE tx_require_InrE assertLinkable_InrE guard_InrE insert_link_InrE)
      (simp only: not_less)
  from Cons.IH [OF rest sum] obtain bound where b: "map ob_id bound = ids" "set bound \<subseteq> set rows"
    "list_all (available_attachment E) bound"
    "agg + ob_size_bytes row + sum_list (map ob_size_bytes bound) \<le> ap_aggregateMaxBytes ATTACHMENT_POLICY"
    "t = s1\<lparr>sys_db := sys_db s1\<lparr>goal_version_attachments := goal_version_attachments (sys_db s1) @
      map2 (new_link c gv) ids [n + 1..<n + 1 + length ids]\<rparr>\<rparr>" by blast
  have "[n..<n + length (i # ids)] = n # [n + 1..<n + 1 + length ids]" by (simp add: upt_conv_Cons del: upt_Suc)
  then show ?case
    using b find_SomeD [OF row] ok by (intro exI [of _ "row # bound"]) (simp add: s1 del: upt_Suc)
qed

text \<open>
  C29. What a goal version can refer to. Binding succeeds only for at most five different
  attachments of the company, each stored, scanned clean and not expired, together at most twenty
  MiB; it then adds one link per attachment, numbered in the order of the request, and changes
  nothing else.
\<close>

theorem bound_attachments:
  assumes "bindToGoalVersion E c gv ids s = (Inr u, t)"
  shows "distinct ids \<and> length ids \<le> 5 \<and>
    (\<exists>rows. map ob_id rows = ids \<and> set rows \<subseteq> set (object_records (sys_db s)) \<and>
       list_all (\<lambda>r. ob_company_id r = c \<and> available_attachment E r) rows \<and>
       sum_list (map ob_size_bytes rows) \<le> 20971520) \<and>
    t = s\<lparr>sys_db := sys_db s\<lparr>goal_version_attachments := goal_version_attachments (sys_db s) @
      map2 (new_link c gv) ids [0..<length ids]\<rparr>\<rparr>"
proof (cases "ids = []")
  case True
  with assms show ?thesis by (simp add: bindToGoalVersion_def tx_return_def)
next
  case False
  let ?rows = "filter (\<lambda>r. ob_company_id r = c \<and> ob_id r \<in> set ids) (object_records (sys_db s))"
  from assms False have ids: "length ids \<le> 5" "distinct ids"
    and b: "bind_entries E c gv ?rows 0 0 ids s = (Inr u, t)"
    unfolding bindToGoalVersion_def
    by (auto simp: tx_throw_def tx_bind_def tx_then_def query_apply tx_when_def tx_return_def ATTACHMENT_POLICY_def split: if_splits)
  from bind_entries_InrE [OF b] obtain bound where "map ob_id bound = ids" "set bound \<subseteq> set ?rows"
    "list_all (available_attachment E) bound" "sum_list (map ob_size_bytes bound) \<le> 20971520"
    "t = s\<lparr>sys_db := sys_db s\<lparr>goal_version_attachments := goal_version_attachments (sys_db s) @
      map2 (new_link c gv) ids [0..<length ids]\<rparr>\<rparr>" by (auto simp: ATTACHMENT_POLICY_def)
  with ids show ?thesis by (intro conjI exI [of _ bound]) (auto simp: list_all_iff)
qed

section \<open>Isolation of retrieval\<close>

lemma in_linked_objects: "row \<in> set (linked_objects c runId i d) \<longleftrightarrow>
    row \<in> set (object_records d) \<and> ob_company_id row = c \<and> ob_id row = i \<and>
    (\<exists>r \<in> set (runs d). r_company_id r = c \<and> r_id r = runId \<and>
      (\<exists>cs \<in> set (context_snapshots d). cs_id cs = r_context_snapshot_id r \<and> cs_company_id cs = c \<and>
        (\<exists>g \<in> set (goal_version_attachments d). ga_company_id g = c \<and> ga_goal_version_id g = cs_goal_version_id cs \<and>
          ga_object_id g = i)))"
  by (auto simp: linked_objects_def)

text \<open>
  A run reads only what it was given. Bytes are returned only for an object of the founder's own
  company that is bound to the goal version of the run, in its company, scanned clean, not deleted
  and not expired; they are the bytes in the store, and a grant for this object and run is recorded
  as consumed. Every other request ends before the object store is called.
\<close>

theorem retrieval_isolated:
  "case retrieveForRun E MemoryObjectStore actor runId attachmentId s of
     (Inl e, t) \<Rightarrow> if e = object_store_miss then True else sys_calls t = sys_calls s \<and> sys_db t = sys_db s
   | (Inr (body, mediaType, filename), t) \<Rightarrow> \<exists>c row.
       ra_companyId actor = Some c \<and> row \<in> set (linked_objects c runId attachmentId (sys_db s)) \<and>
       ob_company_id row = c \<and> retrievable E c row \<and> sys_objects s (ob_object_key row) = Some body \<and>
       attachment_retrieval_grants (sys_db t) = attachment_retrieval_grants (sys_db s) @
         [new_grant E (uuid_at E (sys_next s)) c attachmentId runId] \<and>
       sys_calls t = sys_calls s @ [(Get, ob_object_key row)]"
proof (cases "companyScopeFromActor actor")
  case (Inl e)
  then show ?thesis by (simp add: retrieveForRun_def tx_bind_def tx_lift_def)
next
  case (Inr c)
  show ?thesis
  proof (cases "linked_objects c runId attachmentId (sys_db s)")
    case Nil
    with Inr show ?thesis
      by (simp add: retrieveForRun_def tx_bind_def tx_lift_def query_apply tx_require_def tx_throw_def)
  next
    case (Cons row rows)
    then have row: "row \<in> set (linked_objects c runId attachmentId (sys_db s))" by simp
    then have co: "ob_company_id row = c" by (simp add: in_linked_objects)
    let ?s = "s\<lparr>sys_next := Suc (sys_next s)\<rparr>" and ?g = "new_grant E (uuid_at E (sys_next s)) c attachmentId runId"
    note run = retrieveForRun_def tx_bind_def tx_then_def tx_lift_def query_apply tx_require_def tx_throw_def
      tx_return_def tx_when_def newId_apply
    show ?thesis
    proof (cases "retrievable E c row")
      case False
      with Inr Cons show ?thesis by (simp add: run)
    next
      case True
      show ?thesis
        unfolding insert_grant_def
      proof (cases rule: insert_row_cases [of
          "[(''attachment_retrieval_grants_pkey'', \<lambda>d. absent rg_id (rg_id ?g) (attachment_retrieval_grants d)),
            (''attachment_retrieval_grants_company_id_object_id_fkey'',
              \<lambda>d. present (\<lambda>x. (ob_company_id x, ob_id x)) (rg_company_id ?g, rg_object_id ?g) (object_records d)),
            (''attachment_retrieval_grants_company_id_run_id_fkey'',
              \<lambda>d. present (\<lambda>x. (r_company_id x, r_id x)) (rg_company_id ?g, rg_run_id ?g) (runs d))]"
          "\<lambda>d. d\<lparr>attachment_retrieval_grants := attachment_retrieval_grants d @ [?g]\<rparr>" ?s])
        case ok
        then have "insert_grant ?g ?s = (Inr (), ?s\<lparr>sys_db := sys_db s\<lparr>attachment_retrieval_grants :=
            attachment_retrieval_grants (sys_db s) @ [?g]\<rparr>\<rparr>)" by (simp add: insert_grant_def)
        moreover have "ra_companyId actor = Some c" using Inr by (simp add: companyScopeFromActor_Inr)
        ultimately show ?thesis
          using Inr Cons True co row
          by (cases "sys_objects s (ob_object_key row)")
            (auto simp: run MemoryObjectStore_def memory_get_def record_call_def tx_modify_def tx_gets_def)
      next
        case (violated n)
        then have "insert_grant ?g ?s = (Inl (PgError n), ?s)" by (simp add: insert_grant_def)
        with Inr Cons True show ?thesis by (simp add: run)
      qed
    qed
  qed
qed

end
