(* ===== verification/Attachment_Witnesses.thy ===== *)
theory Attachment_Witnesses
  imports Attachments
begin

text \<open>The theorems on objects and attachments at a two-byte text file of the sample company.\<close>

definition sample_actor :: request_actor where
  "sample_actor = \<lparr>ra_id = sample_id 1, ra_authSubject = ''founder-a'', ra_companyId = Some (sample_id 2),
     ra_sessionId = sample_id 90\<rparr>"

definition sample_file :: "byte list" where
  "sample_file = [0x6f, 0x6b]"

definition sample_upload :: "string \<Rightarrow> create_attachment_dto" where
  "sample_upload filename = \<lparr>ca_declared_media_type = ''text/plain'', ca_filename = filename,
     ca_content_sha256 = ''fb'' @ replicate 62 (CHR ''0''), ca_content_base64 = ''b2s=''\<rparr>"

lemma sample_file_hash: "sample_hash sample_file = ''fb'' @ replicate 62 (CHR ''0'')"
proof -
  have "hex_digit 15 = CHR ''f''" "hex_digit 11 = CHR ''b''" by code_simp+
  then show ?thesis by (simp add: sample_hash_def sample_file_def)
qed

lemma sample_upload_ok: "CreateAttachmentDto_ok (sample_upload ''notes.txt'')"
proof -
  have "base64_shape ''b2s=''" "is_hex (CHR ''f'')" "is_hex (CHR ''b'')" "is_hex (CHR ''0'')" by code_simp+
  then show ?thesis by (simp add: CreateAttachmentDto_ok_def sample_upload_def between_def list_all_iff)
qed

lemma sample_file_decoded: "decodeBody ''b2s='' = Inr sample_file"
  by code_simp

lemma sample_name: "sanitizeAttachmentFilename ''notes.txt'' = Inr ''notes.txt''"
  by code_simp

lemma sample_text: "detectMediaType sample_file = ''text/plain''"
  by code_simp

lemma sample_not_denied: "deniedClass sample_file ''text/plain'' = None"
  by code_simp

lemma sample_env_hash: "sha256_hex sample_env = sample_hash"
  by (simp add: sample_env_def)

lemma sample_validated:
  "validateAttachmentIngest sample_env (validation_input (sample_upload ''notes.txt'') sample_file) =
    Inr \<lparr>as_mediaType = ''text/plain'', as_checksumSha256 = sample_hash sample_file, as_safeFilename = ''notes.txt'',
         as_sizeBytes = 2\<rparr>"
proof -
  have len: "length sample_file = 2" by (simp add: sample_file_def)
  have t: "effective_type ''text/plain'' sample_file = ''text/plain''" by (simp add: effective_type_def sample_text)
  have c: "content_error ''text/plain'' sample_file = None"
    by (simp add: content_error_def t ATTACHMENT_ALLOWED_MEDIA_TYPES_def sample_not_denied firstSome_None too_many_pixels_def)
  have "js_lower (''fb'' @ replicate 62 (CHR ''0'')) = ''fb'' @ replicate 62 (CHR ''0'')"
    by (simp add: js_lower_def js_lower_char_def)
  then show ?thesis
    by (simp add: validateAttachmentIngest_def validation_input_def sample_upload_def sample_name c len sample_env_hash
        sample_file_hash ATTACHMENT_ALLOWED_MEDIA_TYPES_def ATTACHMENT_PER_FILE_MAX_BYTES_def Let_def)
qed

theorem accepted_attachment_witness: "storable_name ''notes.txt'' \<and> within_limits ''text/plain'' sample_file"
  using accepted_attachment [OF sample_validated] by (simp add: validation_input_def)

theorem decodeBody_iff_witness: "decodeBody ''b2s='' = Inr sample_file \<longleftrightarrow> ''b2s='' = base64_encode sample_file"
  using decodeBody_iff [OF sample_upload_ok, of sample_file] by (simp add: sample_upload_def)

lemma sample_log: "event_log_ok (sys_db sample_sys)"
  by (simp add: event_log_ok_def sample_state numbered_def run_events_def)

lemma sample_no_events: "events (sys_db sample_sys) = []" "outbox_messages (sys_db sample_sys) = []"
  by (simp_all add: sample_state)

lemma sample_has_company: "present co_id (sample_id 2) (companies (sys_db sample_sys))"
  by (simp add: sample_state present_def)

lemma sample_actor_fields: "ra_companyId sample_actor = Some (sample_id 2)" "ra_id sample_actor = sample_id 1"
  by (simp_all add: sample_actor_def)

theorem refused_upload_audited_witness:
  "\<exists>e (t :: sys). Attachments_ingest sample_env MemoryObjectStore sample_actor (sample_id 9) (sample_id 10)
      (sample_upload ''../secret'') sample_sys = (Inl (Domain e), t) \<and> length (events (sys_db t)) = 1"
proof -
  have s: "sanitizeAttachmentFilename ''../secret'' = Inl (fail_attachment ''attachment_validation_failed'' ''safe_filename'' ''filename'')"
    by code_simp
  obtain e where e: "validateAttachmentIngest sample_env (validation_input (sample_upload ''../secret'') sample_file) = Inl (Domain e)"
    by (simp add: validateAttachmentIngest_def validation_input_def sample_upload_def s ATTACHMENT_ALLOWED_MEDIA_TYPES_def
        fail_attachment_def)
  have d: "decodeBody (ca_content_base64 (sample_upload ''../secret'')) = Inr sample_file"
    by (simp add: sample_upload_def sample_file_decoded)
  have "Attachments_ingest sample_env MemoryObjectStore sample_actor (sample_id 9) (sample_id 10) (sample_upload ''../secret'') sample_sys =
    (Inl (Domain e), appended_company sample_env (rejected_event (sample_id 2) (ra_id sample_actor) (sample_id 10) e
      (sample_upload ''../secret'') (length sample_file)) sample_sys)"
    by (rule refused_upload_audited [OF sample_actor_fields(1) sample_ids_nonempty(1) d e sample_log sample_has_company])
      (simp_all add: sample_no_events)
  then show ?thesis by (simp add: appended_company_def Let_def sample_no_events)
qed

lemma sample_upload_body: "ca_content_base64 (sample_upload filename) = ''b2s=''"
  by (simp add: sample_upload_def)

theorem upload_readable_witness:
  "\<exists>r (t :: sys) row. Attachments_ingest sample_env MemoryObjectStore sample_actor (sample_id 9) (sample_id 10)
      (sample_upload ''notes.txt'') sample_sys = (Inr r, t) \<and> object_records (sys_db t) = [row] \<and>
      sys_objects t (ob_object_key row) = Some sample_file"
proof -
  let ?v = "\<lparr>as_mediaType = ''text/plain'', as_checksumSha256 = sample_hash sample_file, as_safeFilename = ''notes.txt'',
         as_sizeBytes = 2\<rparr>"
  let ?o = "ingest_command sample_env MemoryObjectStore (sample_id 2) (sample_id 1) (sample_id 9) (sample_id 10) (sample_upload ''notes.txt'') ?v sample_file"
  obtain k where k: "buildObjectKey \<lparr>ok_companyId = sample_id 2, ok_purpose = ''attachment'', ok_objectId = sample_uuid 1, ok_version = 1\<rparr> = Inr k"
    by (simp add: buildObjectKey_def OBJECT_PURPOSES_def)
  have "\<exists>b s2. ingest_body sample_env MemoryObjectStore (sample_id 2) (sample_id 1) (sample_id 10) ?v sample_file
      (sample_sys\<lparr>sys_next := 1, sys_db := sys_db sample_sys\<lparr>idempotency_records := rs\<rparr>\<rparr>) = (Inr (201, b), s2)" for rs
    using k by (simp add: ingest_body_def tx_bind_def tx_then_def newId_apply tx_lift_def insert_object_def insert_row_def
        new_attachment_def MemoryObjectStore_def memory_put_def record_call_def tx_modify_def DomainEvent_append_def
        next_run_sequence_def ingested_event_def tx_return_def Let_def insert_event_def insert_outbox_def new_event_def
        new_message_def sample_state absent_def present_def sample_hash_length)
  then obtain b s2 where body: "cx_execute ?o (sample_sys\<lparr>sys_next := Suc (sys_next sample_sys), sys_db := sys_db sample_sys\<lparr>idempotency_records :=
        idempotency_records (sys_db sample_sys) @ [new_idempotency_record sample_env ?o (uuid_at sample_env (sys_next sample_sys))
          (canonicalDigest sample_env (cx_request ?o))]\<rparr>\<rparr>) = (Inr (201, b), s2)"
    by (simp add: ingest_command_def sample_sys_def initial_sys_def) blast
  have "CommandExecutor_run sample_env ?o sample_sys = (Inr \<lparr>cr_status = 201, cr_body = b, cr_replayed = False\<rparr>,
     s2\<lparr>sys_db := complete_record sample_env ?o 201 b (sys_db s2)\<rparr>)"
    by (rule CommandExecutor_run_new [OF _ _ _ body])
      (simp_all add: sample_state absent_def present_def ingest_command_def)
  then have run: "Attachments_ingest sample_env MemoryObjectStore sample_actor (sample_id 9) (sample_id 10) (sample_upload ''notes.txt'') sample_sys =
      (Inr \<lparr>cr_status = 201, cr_body = b, cr_replayed = False\<rparr>, s2\<lparr>sys_db := complete_record sample_env ?o 201 b (sys_db s2)\<rparr>)"
    using sample_validated sample_file_decoded
    by (simp add: Attachments_ingest_def tx_bind_def tx_lift_def companyScopeFromActor_def requireCompanyScope_def
        sample_actor_fields sample_upload_body)
  have "\<not> cr_replayed \<lparr>cr_status = 201, cr_body = b, cr_replayed = False\<rparr>" by simp
  from upload_readable [OF run this] run show ?thesis
    using sample_file_decoded by (auto simp: sample_upload_def sample_state)
qed

theorem bound_attachments_witness:
  "\<exists>row. ob_id row = sample_id 50 \<and> fst (bindToGoalVersion sample_env (sample_id 2) (sample_id 5) [sample_id 50]
      (sample_sys\<lparr>sys_db := sample_db\<lparr>object_records := [row]\<rparr>\<rparr>)) = Inr () \<and> ob_size_bytes row \<le> 20971520"
proof -
  let ?v = "\<lparr>as_mediaType = ''text/plain'', as_checksumSha256 = sample_hash sample_file, as_safeFilename = ''notes.txt'',
         as_sizeBytes = 2\<rparr>"
  let ?row = "new_attachment sample_env (sample_id 50) (sample_id 2) ''k'' ?v"
  let ?s = "sample_sys\<lparr>sys_db := sample_db\<lparr>object_records := [?row]\<rparr>\<rparr>"
  obtain t where run: "bindToGoalVersion sample_env (sample_id 2) (sample_id 5) [sample_id 50] ?s = (Inr (), t)"
    by (simp add: bindToGoalVersion_def ATTACHMENT_POLICY_def tx_bind_def tx_then_def query_apply tx_when_def tx_return_def
        tx_require_def assertLinkable_def Let_def insert_goal_attachment_def insert_row_def new_link_def new_attachment_def
        sample_state absent_def present_def)
  from bound_attachments [OF run] have "ob_size_bytes ?row \<le> 20971520" by (auto simp: new_attachment_def)
  with run show ?thesis by (intro exI [of _ ?row]) (simp add: new_attachment_def)
qed

theorem object_access_refines_witness:
  "\<exists>i (t :: sys). own_objects sys_objects t (sample_id 2) i = Some sample_file"
proof -
  have ok: "objects_ok sys_objects sample_sys" by (simp add: objects_ok_def sample_state)
  have ids: "uuid_shape (sample_id 2)" "uuid_shape (uuid_at sample_env (sys_next sample_sys))"
    by code_simp+
  obtain x t where run: "ObjectAccess_put sample_env MemoryObjectStore (sample_id 2) sample_file sample_sys = (Inr x, t)"
    by (simp add: ObjectAccess_put_def tx_bind_def tx_then_def newId_apply tx_lift_def buildObjectKey_def OBJECT_PURPOSES_def
        insert_object_def insert_row_def new_fixture_def MemoryObjectStore_def memory_put_def record_call_def tx_modify_def
        tx_return_def sample_state absent_def present_def sample_env_hash)
  obtain i k c where x: "x = (i, k, c)" by (cases x) auto
  from object_access_refines [OF ok ids, where body = sample_file, THEN conjunct2, THEN conjunct2, THEN conjunct2] run
  have "own_objects sys_objects t = (own_objects sys_objects sample_sys)(sample_id 2 :=
      (own_objects sys_objects sample_sys (sample_id 2))(i \<mapsto> sample_file))" by (simp add: x)
  then show ?thesis by (intro exI [of _ i] exI [of _ t]) simp
qed

end
