(* ===== verification/Auth.thy ===== *)
theory Auth
  imports Samples Encodings Reachability
begin

text \<open>
  \<open>src/modules/auth\<close>: invites, sessions and access tokens. A development adapter issues an invite
  with a random token whose digest alone is stored; redeeming it creates the founder and a session and
  signs an access token; every request is authenticated by its token, whose session and founder are
  looked up; signing out revokes the session.

  The JWT library is not part of the repository: a \<open>jwt\<close> record holds its two operations, used
  with the secret, issuer and audience of the configuration, and \<open>jwt_laws\<close> the documented behaviour
  that a signed payload verifies until the second in which it expires. Identifiers presented to SQL are
  taken to be UUIDs in the canonical form.
\<close>

section \<open>Tokens\<close>

definition INVITE_TOKEN_BYTES :: nat where
  "INVITE_TOKEN_BYTES = 32"

definition DEFAULT_INVITE_TTL_SECONDS :: int where
  "DEFAULT_INVITE_TTL_SECONDS = 86400"

definition DEFAULT_SESSION_TTL_SECONDS :: int where
  "DEFAULT_SESSION_TTL_SECONDS = 900"

text \<open>\<open>toString('base64url')\<close>: the alphabet ends with \<open>-\<close> and \<open>_\<close>, and there is no padding.\<close>

definition base64url_char :: "char \<Rightarrow> char" where
  "base64url_char c = (if c = CHR ''+'' then CHR ''-'' else if c = CHR ''/'' then CHR ''_'' else c)"

definition base64url :: "byte list \<Rightarrow> string" where
  "base64url bs = map base64url_char (takeWhile (\<lambda>c. c \<noteq> CHR ''='') (base64_encode bs))"

text \<open>The random bytes of a token are drawn from the same supply as the identifiers.\<close>

definition newInviteToken :: "env \<Rightarrow> string call" where
  "newInviteToken E s =
     (Inr (base64url (take INVITE_TOKEN_BYTES (random32 E (sys_next s)))), s\<lparr>sys_next := Suc (sys_next s)\<rparr>)"

definition hashInviteToken :: "env \<Rightarrow> string \<Rightarrow> string" where
  "hashInviteToken E token = sha256_hex E (utf8 token)"

definition founderAuthSubject :: "string \<Rightarrow> string" where
  "founderAuthSubject email = ''founder:'' @ js_lower (js_trim email)"

definition signedResourceAccessAllowed :: "env \<Rightarrow> session_status \<Rightarrow> timestamp \<Rightarrow> bool" where
  "signedResourceAccessAllowed E status expiresAt \<longleftrightarrow> status = SS_ACTIVE \<and> now_ms E < expiresAt"

text \<open>The claims of an access token; a claim the token does not have is \<open>None\<close>.\<close>

record access_token_payload =
  pl_sub :: "string option"
  pl_auth_subject :: "string option"
  pl_type :: "string option"
  pl_sid :: "string option"
  pl_jti :: "string option"

datatype jwt_outcome = Verified access_token_payload | TokenExpiredError | OtherJwtError

record jwt =
  jwt_sign :: "timestamp \<Rightarrow> access_token_payload \<Rightarrow> int \<Rightarrow> string"
  jwt_verify :: "timestamp \<Rightarrow> string \<Rightarrow> jwt_outcome"

definition jwt_laws :: "jwt \<Rightarrow> bool" where
  "jwt_laws J \<longleftrightarrow> (\<forall>t t' p ttl. t \<le> t' \<and> t' div 1000 < t div 1000 + ttl \<longrightarrow>
     jwt_verify J t' (jwt_sign J t p ttl) = Verified p)"

section \<open>Errors\<close>

definition invalidInvite :: exn where
  "invalidInvite = Domain (DomainError 401 ''authentication_required'' ''Provide a valid, unexpired invite token.''
     (Some ''Authentication is required'') (Some [''authenticate'']) None)"

definition authenticationRequired :: exn where
  "authenticationRequired = Domain (DomainError 401 ''authentication_required'' ''Provide a valid, unexpired bearer token.''
     (Some ''Authentication is required'') (Some [''authenticate'']) None)"

definition sessionInactive :: "string \<Rightarrow> exn" where
  "sessionInactive code = Domain (DomainError 401 code ''Authenticate again with an active invited account.''
     (Some ''The session is no longer active'') (Some [''authenticate'']) None)"

definition unavailableRegistration :: "'a call" where
  "unavailableRegistration = tx_throw (Domain (DomainError 404 ''resource_not_found''
     ''The requested resource does not exist.'' (Some ''Resource not found'') None None))"

definition bearerRequired :: exn where
  "bearerRequired = Domain (DomainError 401 ''authentication_required'' ''Provide an Authorization header with a bearer token.''
     (Some ''Authentication is required'') (Some [''authenticate'']) None)"

section \<open>Invites\<close>

record issue_invite_dto =
  iv_email :: string
  iv_display_name :: string
  iv_invite_ttl_seconds :: "int option"
  iv_session_ttl_seconds :: "int option"

text \<open>The validated and transformed body; \<open>isEmail\<close> is the predicate of the validator package.\<close>

definition IssueInviteDto_ok :: "(string \<Rightarrow> bool) \<Rightarrow> issue_invite_dto \<Rightarrow> bool" where
  "IssueInviteDto_ok isEmail dto \<longleftrightarrow>
     isEmail (iv_email dto) \<and> length (iv_email dto) \<le> 320 \<and> js_lower (js_trim (iv_email dto)) = iv_email dto \<and>
     between 2 100 (iv_display_name dto) \<and> js_trim (iv_display_name dto) = iv_display_name dto \<and>
     (case iv_invite_ttl_seconds dto of None \<Rightarrow> True | Some n \<Rightarrow> 1 \<le> n \<and> n \<le> 86400) \<and>
     (case iv_session_ttl_seconds dto of None \<Rightarrow> True | Some n \<Rightarrow> 1 \<le> n \<and> n \<le> 900)"

definition RedeemInviteDto_ok :: "string \<Rightarrow> bool" where
  "RedeemInviteDto_ok invite_token \<longleftrightarrow> between 16 128 invite_token \<and> js_trim invite_token = invite_token"

record issued_invite =
  ii_invite_id :: uuid
  ii_invite_token :: string
  ii_expires_at :: string
  ii_session_ttl_seconds :: int

definition assertDevelopmentAdapter :: "env \<Rightarrow> unit call" where
  "assertDevelopmentAdapter E =
     tx_when (auth_mode E \<noteq> ''development'' \<or> app_environment E \<notin> set [''local'', ''test'']) unavailableRegistration"

definition new_invite :: "env \<Rightarrow> uuid \<Rightarrow> string \<Rightarrow> issue_invite_dto \<Rightarrow> invite_row" where
  "new_invite E inviteId token dto =
     \<lparr>fi_id = inviteId, fi_email = iv_email dto, fi_display_name = iv_display_name dto,
      fi_token_hash = hashInviteToken E token, fi_status = V_PENDING,
      fi_expires_at = now_ms E + (case iv_invite_ttl_seconds dto of None \<Rightarrow> DEFAULT_INVITE_TTL_SECONDS | Some n \<Rightarrow> n) * 1000,
      fi_session_ttl_seconds = (case iv_session_ttl_seconds dto of None \<Rightarrow> DEFAULT_SESSION_TTL_SECONDS | Some n \<Rightarrow> n),
      fi_redeemed_founder_id = None, fi_updated_at = now_ms E\<rparr>"

definition issueInvite :: "env \<Rightarrow> issue_invite_dto \<Rightarrow> issued_invite call" where
  "issueInvite E dto =
     tx_then (assertDevelopmentAdapter E)
     (tx_bind (newInviteToken E) (\<lambda>token.
      tx_bind (newId E) (\<lambda>inviteId.
      tx_then (insert_invite (new_invite E inviteId token dto))
      (tx_return \<lparr>ii_invite_id = inviteId, ii_invite_token = token,
         ii_expires_at = toISOString (fi_expires_at (new_invite E inviteId token dto)),
         ii_session_ttl_seconds = fi_session_ttl_seconds (new_invite E inviteId token dto)\<rparr>))))"

section \<open>Redeeming an invite\<close>

record access_grant =
  ag_access_token :: string
  ag_expires_in :: int
  ag_founder_id :: uuid
  ag_session_id :: uuid

text \<open>\<open>status <> 'PENDING'\<close> or expired, for the invite found by the digest of the token.\<close>

definition invite_expired :: "env \<Rightarrow> invite_row \<Rightarrow> bool" where
  "invite_expired E invite \<longleftrightarrow> fi_expires_at invite \<le> now_ms E"

definition expire_invite :: "env \<Rightarrow> invite_row \<Rightarrow> db \<Rightarrow> db" where
  "expire_invite E invite d = d\<lparr>founder_invites :=
     upd_where (\<lambda>r. fi_id r = fi_id invite \<and> fi_status r = V_PENDING)
       (\<lambda>r. r\<lparr>fi_status := V_EXPIRED, fi_updated_at := now_ms E\<rparr>) (founder_invites d)\<rparr>"

definition redeem_invite_row :: "env \<Rightarrow> invite_row \<Rightarrow> uuid \<Rightarrow> db \<Rightarrow> db" where
  "redeem_invite_row E invite founderId d = d\<lparr>founder_invites :=
     upd_where (\<lambda>r. fi_id r = fi_id invite \<and> fi_status r = V_PENDING)
       (\<lambda>r. r\<lparr>fi_status := V_REDEEMED, fi_redeemed_founder_id := Some founderId, fi_updated_at := now_ms E\<rparr>)
       (founder_invites d)\<rparr>"

text \<open>\<open>INSERT INTO founders ... ON CONFLICT (auth_subject) DO UPDATE SET display_name\<close>.\<close>

definition upsert_founder :: "env \<Rightarrow> uuid \<Rightarrow> string \<Rightarrow> string \<Rightarrow> unit call" where
  "upsert_founder E founderId authSubject displayName s =
     (if present fo_auth_subject authSubject (founders (sys_db s))
      then execute (\<lambda>d. d\<lparr>founders := upd_where (\<lambda>r. fo_auth_subject r = authSubject)
             (\<lambda>r. r\<lparr>fo_display_name := displayName, fo_updated_at := now_ms E\<rparr>) (founders d)\<rparr>) s
      else insert_founder \<lparr>fo_id = founderId, fo_auth_subject = authSubject, fo_display_name = displayName,
             fo_status = F_ACTIVE, fo_created_at = now_ms E, fo_updated_at = now_ms E\<rparr> s)"

text \<open>Founders joined with their company that is not deleted (\<open>LEFT JOIN companies\<close>).\<close>

definition founder_rows :: "(founder_row \<Rightarrow> bool) \<Rightarrow> db \<Rightarrow> (founder_row \<times> uuid option) list" where
  "founder_rows p d = concat (map (\<lambda>f.
     case filter (\<lambda>c. co_founder_id c = fo_id f \<and> co_status c \<noteq> C_DELETED) (companies d) of
       [] \<Rightarrow> [(f, None)]
     | cs \<Rightarrow> map (\<lambda>c. (f, Some (co_id c))) cs) (filter p (founders d)))"

definition active_founder :: "(founder_row \<times> uuid option) option \<Rightarrow> exn + founder_row \<times> uuid option" where
  "active_founder row =
     (case row of
        None \<Rightarrow> Inl (sessionInactive ''session_revoked'')
      | Some f \<Rightarrow> if fo_status (fst f) \<noteq> F_ACTIVE then Inl (sessionInactive ''session_revoked'') else Inr f)"

definition insertSession :: "env \<Rightarrow> uuid \<Rightarrow> int \<Rightarrow> session_row call" where
  "insertSession E founderId sessionTtl =
     tx_bind (newId E) (\<lambda>sessionId.
       let session = \<lparr>fs_id = sessionId, fs_founder_id = founderId, fs_status = SS_ACTIVE,
             fs_expires_at = now_ms E + sessionTtl * 1000, fs_revoked_at = None\<rparr>
       in tx_then (insert_session session) (tx_return session))"

definition token_payload :: "founder_row \<Rightarrow> session_row \<Rightarrow> access_token_payload" where
  "token_payload founder session =
     \<lparr>pl_sub = Some (fo_id founder), pl_auth_subject = Some (fo_auth_subject founder), pl_type = Some ''founder'',
      pl_sid = Some (fs_id session), pl_jti = Some (fs_id session)\<rparr>"

definition issueAccessToken :: "jwt \<Rightarrow> env \<Rightarrow> founder_row \<Rightarrow> session_row \<Rightarrow> int \<Rightarrow> access_grant" where
  "issueAccessToken J E founder session sessionTtl =
     \<lparr>ag_access_token = jwt_sign J (now_ms E) (token_payload founder session) sessionTtl, ag_expires_in = sessionTtl,
      ag_founder_id = fo_id founder, ag_session_id = fs_id session\<rparr>"

definition session_ttl :: "invite_row \<Rightarrow> int" where
  "session_ttl invite = (if fi_session_ttl_seconds invite = 0 then DEFAULT_SESSION_TTL_SECONDS else fi_session_ttl_seconds invite)"

definition accept_invite :: "jwt \<Rightarrow> env \<Rightarrow> invite_row \<Rightarrow> access_grant call" where
  "accept_invite J E invite =
     (let authSubject = founderAuthSubject (fi_email invite)
      in tx_bind (newId E) (\<lambda>founderId.
         tx_then (upsert_founder E founderId authSubject (fi_display_name invite))
         (tx_bind (query (\<lambda>d. first_row (founder_rows (\<lambda>f. fo_auth_subject f = authSubject) d))) (\<lambda>row.
          tx_bind (tx_lift (active_founder row)) (\<lambda>(founder, _).
          tx_bind (insertSession E (fo_id founder) (session_ttl invite)) (\<lambda>session.
          tx_then (execute (redeem_invite_row E invite (fo_id founder)))
          (tx_return (issueAccessToken J E founder session (session_ttl invite)))))))))"

text \<open>The refusal of an invite: an expired one is marked first, in the transaction that the error then rolls back.\<close>

definition refuse_invite :: "env \<Rightarrow> invite_row \<Rightarrow> 'a call" where
  "refuse_invite E invite =
     tx_then (tx_when (fi_status invite = V_PENDING \<and> invite_expired E invite) (execute (expire_invite E invite)))
       (tx_throw invalidInvite)"

definition redeemInvite :: "jwt \<Rightarrow> env \<Rightarrow> string \<Rightarrow> access_grant call" where
  "redeemInvite J E invite_token =
     (let tokenHash = hashInviteToken E invite_token
      in transaction (
         tx_bind (query (\<lambda>d. find (\<lambda>r. fi_token_hash r = tokenHash) (founder_invites d))) (\<lambda>row.
           case row of
             None \<Rightarrow> tx_throw invalidInvite
           | Some invite \<Rightarrow>
               if fi_status invite \<noteq> V_PENDING \<or> invite_expired E invite then refuse_invite E invite
               else accept_invite J E invite)))"

section \<open>Sessions\<close>

definition signOut :: "env \<Rightarrow> request_actor \<Rightarrow> unit call" where
  "signOut E actor = execute (\<lambda>d. d\<lparr>founder_sessions :=
     upd_where (\<lambda>r. fs_id r = ra_sessionId actor \<and> fs_founder_id r = ra_id actor \<and> fs_status r = SS_ACTIVE)
       (\<lambda>r. r\<lparr>fs_status := SS_REVOKED, fs_revoked_at := Some (now_ms E)\<rparr>) (founder_sessions d)\<rparr>)"

definition assertSignedResourceAccess :: "env \<Rightarrow> session_status \<Rightarrow> timestamp \<Rightarrow> unit call" where
  "assertSignedResourceAccess E status expiresAt =
     tx_when (\<not> signedResourceAccessAllowed E status expiresAt)
       (tx_throw (sessionInactive (if status = SS_REVOKED then ''session_revoked'' else ''session_expired'')))"

definition access_payload :: "jwt \<Rightarrow> env \<Rightarrow> string \<Rightarrow> exn + access_token_payload" where
  "access_payload J E token =
     (case jwt_verify J (now_ms E) token of
        TokenExpiredError \<Rightarrow> Inl (sessionInactive ''session_expired'')
      | OtherJwtError \<Rightarrow> Inl authenticationRequired
      | Verified payload \<Rightarrow>
          if pl_type payload \<noteq> Some ''founder'' \<or> pl_sid payload = None \<or> pl_sid payload = Some [] \<or>
             pl_jti payload \<noteq> pl_sid payload
          then Inl authenticationRequired else Inr payload)"

definition verifyAccessToken :: "jwt \<Rightarrow> env \<Rightarrow> string \<Rightarrow> request_actor call" where
  "verifyAccessToken J E token =
     tx_bind (tx_lift (access_payload J E token)) (\<lambda>payload.
     tx_bind (query (\<lambda>d. find (\<lambda>r. Some (fs_id r) = pl_sid payload \<and> Some (fs_founder_id r) = pl_sub payload)
         (founder_sessions d))) (\<lambda>row.
     tx_bind (tx_require authenticationRequired row) (\<lambda>session.
     tx_then (tx_when (fs_status session = SS_REVOKED) (tx_throw (sessionInactive ''session_revoked'')))
     (tx_then (tx_when (fs_expires_at session \<le> now_ms E) (tx_throw (sessionInactive ''session_expired'')))
     (tx_bind (query (\<lambda>d. first_row (founder_rows (\<lambda>f. Some (fo_id f) = pl_sub payload \<and>
         Some (fo_auth_subject f) = pl_auth_subject payload) d))) (\<lambda>found.
      tx_bind (tx_lift (active_founder found)) (\<lambda>(founder, company).
      tx_then (assertSignedResourceAccess E (fs_status session) (fs_expires_at session))
      (tx_return \<lparr>ra_id = fo_id founder, ra_authSubject = fo_auth_subject founder, ra_companyId = company,
         ra_sessionId = fs_id session\<rparr>))))))))"

section \<open>The guard of the routes\<close>

text \<open>
  \<open>JwtAuthGuard.canActivate\<close>: the actor attached to the request, \<open>None\<close> for a public route. The header
  is split at its spaces; the scheme is the first part and the token the second.
\<close>

definition canActivate :: "jwt \<Rightarrow> env \<Rightarrow> bool \<Rightarrow> string option \<Rightarrow> request_actor option call" where
  "canActivate J E isPublic authorization =
     (if isPublic then tx_return None
      else case (case authorization of None \<Rightarrow> [] | Some h \<Rightarrow> js_split (CHR '' '') h) of
          scheme # token # _ \<Rightarrow>
            if scheme \<noteq> ''Bearer'' \<or> token = [] then tx_throw bearerRequired
            else tx_bind (verifyAccessToken J E token) (\<lambda>actor. tx_return (Some actor))
        | _ \<Rightarrow> tx_throw bearerRequired)"

definition CurrentActor :: "request_actor option \<Rightarrow> exn + request_actor" where
  "CurrentActor attached =
     (case attached of
        None \<Rightarrow> Inl (JsError ''Authenticated actor was not attached to the request'')
      | Some actor \<Rightarrow> Inr actor)"

section \<open>Keys\<close>

text \<open>The unique keys and CHECKs of the founders, companies, invites and sessions.\<close>

definition tenants_ok :: "db \<Rightarrow> bool" where
  "tenants_ok d \<longleftrightarrow> distinct (map fo_id (founders d)) \<and> distinct (map fo_auth_subject (founders d)) \<and>
     distinct (map co_id (companies d)) \<and> distinct (map co_founder_id (companies d))"

definition sessions_ok :: "db \<Rightarrow> bool" where
  "sessions_ok d \<longleftrightarrow> distinct (map fs_id (founder_sessions d)) \<and>
     (\<forall>r \<in> set (founder_sessions d). ((fs_status r = SS_REVOKED) = (fs_revoked_at r \<noteq> None)) \<and>
        fs_founder_id r \<in> fo_id ` set (founders d))"

definition invites_ok :: "db \<Rightarrow> bool" where
  "invites_ok d \<longleftrightarrow> distinct (map fi_id (founder_invites d)) \<and> distinct (map fi_token_hash (founder_invites d)) \<and>
     (\<forall>r \<in> set (founder_invites d). (fi_status r = V_REDEEMED) = (fi_redeemed_founder_id r \<noteq> None))"

definition auth_ok :: "db \<Rightarrow> bool" where
  "auth_ok d \<longleftrightarrow> tenants_ok d \<and> sessions_ok d \<and> invites_ok d"

lemma auth_ok_keys:
  assumes "auth_ok d"
  shows "distinct (map fo_id (founders d))" and "distinct (map fo_auth_subject (founders d))"
    and "distinct (map co_id (companies d))" and "distinct (map co_founder_id (companies d))"
    and "distinct (map fs_id (founder_sessions d))" and "distinct (map fi_id (founder_invites d))"
    and "distinct (map fi_token_hash (founder_invites d))"
  using assms by (simp_all add: auth_ok_def tenants_ok_def sessions_ok_def invites_ok_def)

text \<open>The company a founder acts for: the one that is not deleted.\<close>

definition live_company :: "db \<Rightarrow> uuid \<Rightarrow> uuid option" where
  "live_company d founderId =
     map_option co_id (find (\<lambda>c. co_founder_id c = founderId \<and> co_status c \<noteq> C_DELETED) (companies d))"

lemma first_row_concat:
  "(\<And>x. x \<in> set xs \<Longrightarrow> f x \<noteq> []) \<Longrightarrow> first_row (concat (map f xs)) = Option.bind (first_row xs) (\<lambda>x. first_row (f x))"
  by (cases xs) (auto simp: first_row_def split: list.split)

lemma first_founder_row:
  "first_row (founder_rows p d) = map_option (\<lambda>f. (f, live_company d (fo_id f))) (find p (founders d))"
proof -
  let ?g = "\<lambda>f. case filter (\<lambda>c. co_founder_id c = fo_id f \<and> co_status c \<noteq> C_DELETED) (companies d) of
       [] \<Rightarrow> [(f, None)] | cs \<Rightarrow> map (\<lambda>c. (f, Some (co_id c))) cs"
  have g: "first_row (?g f) = Some (f, live_company d (fo_id f))" "?g f \<noteq> []" for f
    unfolding live_company_def find_filter_hd by (auto simp: first_row_def split: list.split)
  have "first_row (founder_rows p d) = Option.bind (first_row (filter p (founders d))) (\<lambda>f. first_row (?g f))"
    unfolding founder_rows_def by (rule first_row_concat) (rule g(2))
  also have "\<dots> = map_option (\<lambda>f. (f, live_company d (fo_id f))) (find p (founders d))"
    unfolding find_filter_hd g(1) by (auto simp: first_row_def split: list.split)
  finally show ?thesis .
qed

section \<open>Who is authenticated\<close>

lemma access_payload_Inr:
  "access_payload J E token = Inr p \<longleftrightarrow> jwt_verify J (now_ms E) token = Verified p \<and> pl_type p = Some ''founder'' \<and>
     pl_sid p \<noteq> None \<and> pl_sid p \<noteq> Some [] \<and> pl_jti p = pl_sid p"
  by (auto simp: access_payload_def split: jwt_outcome.splits)

lemma active_founder_Inr: "active_founder row = Inr f \<longleftrightarrow> row = Some f \<and> fo_status (fst f) = F_ACTIVE"
  by (auto simp: active_founder_def split: option.splits if_splits)

definition token_session :: "access_token_payload \<Rightarrow> db \<Rightarrow> session_row option" where
  "token_session p d = find (\<lambda>r. Some (fs_id r) = pl_sid p \<and> Some (fs_founder_id r) = pl_sub p) (founder_sessions d)"

definition token_founder :: "access_token_payload \<Rightarrow> db \<Rightarrow> founder_row option" where
  "token_founder p d = find (\<lambda>f. Some (fo_id f) = pl_sub p \<and> Some (fo_auth_subject f) = pl_auth_subject p) (founders d)"

lemma verifyAccessToken_run:
  "verifyAccessToken J E token s = (r, t) \<Longrightarrow> t = s \<and>
     (r = Inr actor \<longleftrightarrow> (\<exists>p session f. access_payload J E token = Inr p \<and> token_session p (sys_db s) = Some session \<and>
        fs_status session = SS_ACTIVE \<and> now_ms E < fs_expires_at session \<and> token_founder p (sys_db s) = Some f \<and>
        fo_status f = F_ACTIVE \<and> actor = \<lparr>ra_id = fo_id f, ra_authSubject = fo_auth_subject f,
          ra_companyId = live_company (sys_db s) (fo_id f), ra_sessionId = fs_id session\<rparr>))"
  unfolding verifyAccessToken_def first_founder_row token_session_def [symmetric] token_founder_def [symmetric]
  by (cases "access_payload J E token")
    (auto simp: tx_bind_def tx_then_def tx_lift_def query_apply tx_require_def tx_when_def tx_return_def tx_throw_def
      active_founder_def assertSignedResourceAccess_def signedResourceAccessAllowed_def
      split: option.splits if_splits session_status.splits founder_status.splits)

lemma verifyAccessToken_InrE:
  assumes "verifyAccessToken J E token s = (Inr actor, t)"
  obtains p session f where "access_payload J E token = Inr p" and "token_session p (sys_db s) = Some session"
    and "fs_status session = SS_ACTIVE" and "now_ms E < fs_expires_at session" and "token_founder p (sys_db s) = Some f"
    and "fo_status f = F_ACTIVE" and "ra_id actor = fo_id f" and "ra_sessionId actor = fs_id session" and "t = s"
  using verifyAccessToken_run [OF assms, of actor] by fastforce

lemma live_company_Some:
  assumes "distinct (map co_founder_id (companies d))"
  shows "live_company d fid = Some c \<longleftrightarrow> (\<exists>r \<in> set (companies d). co_id r = c \<and> co_founder_id r = fid \<and> co_status r \<noteq> C_DELETED)"
  using find_by_key [OF assms, of "\<lambda>c. co_founder_id c = fid \<and> co_status c \<noteq> C_DELETED" fid "\<lambda>c. co_status c \<noteq> C_DELETED"]
  unfolding live_company_def by auto

text \<open>
  C7. A bearer token authenticates a request exactly when it verifies as a founder token whose session and
  identity are live: the session it names exists, belongs to the founder it names, is not revoked and has not
  expired, and that founder exists under the subject it names and is active. The actor then carries exactly these
  identifiers, and the tenant it acts for is the founder's company that is not deleted. The check changes nothing.
\<close>

theorem bearer_token_accepted_iff:
  assumes "auth_ok (sys_db s)" and "verifyAccessToken J E token s = (r, t)"
  shows "t = s \<and> (r = Inr actor \<longleftrightarrow>
    (\<exists>p. jwt_verify J (now_ms E) token = Verified p \<and> pl_type p = Some ''founder'' \<and> pl_sid p = Some (ra_sessionId actor) \<and>
       pl_jti p = pl_sid p \<and> ra_sessionId actor \<noteq> [] \<and> pl_sub p = Some (ra_id actor) \<and>
       pl_auth_subject p = Some (ra_authSubject actor)) \<and>
    (\<exists>session \<in> set (founder_sessions (sys_db s)). fs_id session = ra_sessionId actor \<and>
       fs_founder_id session = ra_id actor \<and> fs_status session = SS_ACTIVE \<and> now_ms E < fs_expires_at session) \<and>
    (\<exists>f \<in> set (founders (sys_db s)). fo_id f = ra_id actor \<and> fo_auth_subject f = ra_authSubject actor \<and>
       fo_status f = F_ACTIVE) \<and>
    ra_companyId actor = live_company (sys_db s) (ra_id actor))" (is "_ \<and> (_ \<longleftrightarrow> ?rhs)")
proof (rule conjI)
  note run = verifyAccessToken_run [OF assms(2)] and keys = auth_ok_keys [OF assms(1)]
  show "t = s" using run by blast
  have sess: "token_session p (sys_db s) = Some x \<longleftrightarrow> x \<in> set (founder_sessions (sys_db s)) \<and>
      fs_id x = the (pl_sid p) \<and> Some (fs_founder_id x) = pl_sub p" if "pl_sid p \<noteq> None" for p x
    unfolding token_session_def by (rule find_by_key [OF keys(5)]) (use that in force)
  have foun: "token_founder p (sys_db s) = Some x \<longleftrightarrow> x \<in> set (founders (sys_db s)) \<and>
      fo_id x = the (pl_sub p) \<and> Some (fo_auth_subject x) = pl_auth_subject p" if "pl_sub p \<noteq> None" for p x
    unfolding token_founder_def by (rule find_by_key [OF keys(1)]) (use that in force)
  show "r = Inr actor \<longleftrightarrow> ?rhs"
  proof
    assume "r = Inr actor"
    with run obtain p session f where p: "access_payload J E token = Inr p" and x: "token_session p (sys_db s) = Some session"
      "fs_status session = SS_ACTIVE" "now_ms E < fs_expires_at session" and f: "token_founder p (sys_db s) = Some f"
      "fo_status f = F_ACTIVE" and a: "actor = \<lparr>ra_id = fo_id f, ra_authSubject = fo_auth_subject f,
          ra_companyId = live_company (sys_db s) (fo_id f), ra_sessionId = fs_id session\<rparr>" by blast
    from p have sid: "pl_sid p \<noteq> None" by (simp add: access_payload_Inr)
    with sess x(1) have x': "session \<in> set (founder_sessions (sys_db s))" "Some (fs_id session) = pl_sid p"
      "Some (fs_founder_id session) = pl_sub p" by auto
    then have "pl_sub p \<noteq> None" by (metis option.distinct(1))
    with foun f(1) have f': "f \<in> set (founders (sys_db s))" "Some (fo_id f) = pl_sub p"
      "Some (fo_auth_subject f) = pl_auth_subject p" by auto
    with x' have "fs_founder_id session = fo_id f" by (metis option.inject)
    with p x x' f f' show ?rhs by (auto simp: access_payload_Inr a)
  next
    assume rhs: ?rhs
    then obtain p session f where p: "access_payload J E token = Inr p" "pl_sid p = Some (ra_sessionId actor)"
        "pl_sub p = Some (ra_id actor)" "pl_auth_subject p = Some (ra_authSubject actor)"
      and x: "session \<in> set (founder_sessions (sys_db s))" "fs_id session = ra_sessionId actor"
        "fs_founder_id session = ra_id actor" "fs_status session = SS_ACTIVE" "now_ms E < fs_expires_at session"
      and f: "f \<in> set (founders (sys_db s))" "fo_id f = ra_id actor" "fo_auth_subject f = ra_authSubject actor"
        "fo_status f = F_ACTIVE" and c: "ra_companyId actor = live_company (sys_db s) (ra_id actor)"
      by (auto simp: access_payload_Inr)
    have "token_session p (sys_db s) = Some session" "token_founder p (sys_db s) = Some f"
      using sess foun p x f by auto
    moreover have "actor = \<lparr>ra_id = fo_id f, ra_authSubject = fo_auth_subject f,
          ra_companyId = live_company (sys_db s) (fo_id f), ra_sessionId = fs_id session\<rparr>"
      using f x c by simp
    ultimately show "r = Inr actor" using run p(1) x(4,5) f(4) by blast
  qed
qed

section \<open>What redeeming an invite does\<close>

lemma upsert_founder_InrE:
  assumes "upsert_founder E i a n s = (Inr u, t)"
  obtains (known) "a \<in> fo_auth_subject ` set (founders (sys_db s))"
      and "t = s\<lparr>sys_db := sys_db s\<lparr>founders := upd_where (\<lambda>r. fo_auth_subject r = a)
             (\<lambda>r. r\<lparr>fo_display_name := n, fo_updated_at := now_ms E\<rparr>) (founders (sys_db s))\<rparr>\<rparr>"
  | (created) "a \<notin> fo_auth_subject ` set (founders (sys_db s))" and "i \<notin> fo_id ` set (founders (sys_db s))"
      and "t = s\<lparr>sys_db := sys_db s\<lparr>founders := founders (sys_db s) @ [\<lparr>fo_id = i, fo_auth_subject = a, fo_display_name = n,
             fo_status = F_ACTIVE, fo_created_at = now_ms E, fo_updated_at = now_ms E\<rparr>]\<rparr>\<rparr>"
  using assms unfolding upsert_founder_def
  by (auto simp: execute_apply present_image insert_founder_def absent_image split: if_splits elim!: insert_row_InrE)

lemma insertSession_InrE:
  assumes "insertSession E f ttl s = (Inr x, t)"
  obtains "fs_founder_id x = f" and "fs_status x = SS_ACTIVE" and "fs_expires_at x = now_ms E + ttl * 1000" and "fs_revoked_at x = None"
    and "fs_id x \<notin> fs_id ` set (founder_sessions (sys_db s))" and "f \<in> fo_id ` set (founders (sys_db s))"
    and "fs_id x = uuid_at E (sys_next s)"
    and "sys_db t = sys_db s\<lparr>founder_sessions := founder_sessions (sys_db s) @ [x]\<rparr>"
proof -
  from assms obtain i s1 u s2 where n: "newId E s = (Inr i, s1)"
    and ins: "insert_session \<lparr>fs_id = i, fs_founder_id = f, fs_status = SS_ACTIVE, fs_expires_at = now_ms E + ttl * 1000, fs_revoked_at = None\<rparr> s1 = (Inr u, t)"
    and x: "x = \<lparr>fs_id = i, fs_founder_id = f, fs_status = SS_ACTIVE, fs_expires_at = now_ms E + ttl * 1000, fs_revoked_at = None\<rparr>"
    unfolding insertSession_def Let_def by (elim tx_bind_InrE tx_then_InrE tx_return_InrE) (simp only:)
  from n have s1: "sys_db s1 = sys_db s" "i = uuid_at E (sys_next s)" by (auto elim: newId_InrE)
  from ins have "i \<notin> fs_id ` set (founder_sessions (sys_db s1))" "f \<in> fo_id ` set (founders (sys_db s1))"
    unfolding insert_session_def by (auto elim!: insert_row_InrE simp: absent_image present_image)
  with inserted(16) [OF ins] s1 x show thesis by (intro that) simp_all
qed

lemma accept_invite_InrE:
  assumes "accept_invite J E invite s = (Inr g, t)"
  obtains fs f x where "upsert_founder E (uuid_at E (sys_next s)) (founderAuthSubject (fi_email invite)) (fi_display_name invite)
        (s\<lparr>sys_next := Suc (sys_next s)\<rparr>) = (Inr (), s\<lparr>sys_next := Suc (sys_next s), sys_db := sys_db s\<lparr>founders := fs\<rparr>\<rparr>)"
    and "find (\<lambda>f. fo_auth_subject f = founderAuthSubject (fi_email invite)) fs = Some f" and "fo_status f = F_ACTIVE"
    and "fs_founder_id x = fo_id f" and "fs_status x = SS_ACTIVE" and "fs_expires_at x = now_ms E + session_ttl invite * 1000"
    and "fs_revoked_at x = None"
    and "fs_id x \<notin> fs_id ` set (founder_sessions (sys_db s))" and "fs_id x = uuid_at E (Suc (sys_next s))"
    and "g = issueAccessToken J E f x (session_ttl invite)"
    and "sys_db t = redeem_invite_row E invite (fo_id f) (sys_db s\<lparr>founders := fs,
        founder_sessions := founder_sessions (sys_db s) @ [x]\<rparr>)"
proof -
  let ?a = "founderAuthSubject (fi_email invite)" and ?s = "s\<lparr>sys_next := Suc (sys_next s)\<rparr>"
  from assms obtain u s2 row p x s3 where up: "upsert_founder E (uuid_at E (sys_next s)) ?a (fi_display_name invite) ?s = (Inr u, s2)"
    and row: "row = first_row (founder_rows (\<lambda>f. fo_auth_subject f = ?a) (sys_db s2))" and p: "active_founder row = Inr p"
    and x: "insertSession E (fo_id (fst p)) (session_ttl invite) s2 = (Inr x, s3)"
    and g: "g = issueAccessToken J E (fst p) x (session_ttl invite)"
    and t: "t = s3\<lparr>sys_db := redeem_invite_row E invite (fo_id (fst p)) (sys_db s3)\<rparr>"
    unfolding accept_invite_def Let_def case_prod_beta
    by (elim tx_bind_InrE tx_then_InrE newId_InrE query_InrE execute_InrE tx_lift_InrE tx_return_InrE)
      (simp only: sum.inject)
  obtain fs where s2: "s2 = s\<lparr>sys_next := Suc (sys_next s), sys_db := sys_db s\<lparr>founders := fs\<rparr>\<rparr>"
    using up by (cases rule: upsert_founder_InrE) (simp_all (no_asm_simp))
  from p row have f: "find (\<lambda>f. fo_auth_subject f = ?a) fs = Some (fst p)" "fo_status (fst p) = F_ACTIVE"
    by (auto simp: active_founder_Inr first_founder_row s2)
  from x have "fs_founder_id x = fo_id (fst p)" "fs_status x = SS_ACTIVE" "fs_expires_at x = now_ms E + session_ttl invite * 1000"
    "fs_revoked_at x = None"
    "fs_id x \<notin> fs_id ` set (founder_sessions (sys_db s2))" "fs_id x = uuid_at E (sys_next s2)"
    "sys_db s3 = sys_db s2\<lparr>founder_sessions := founder_sessions (sys_db s2) @ [x]\<rparr>" by (auto elim: insertSession_InrE)
  with up s2 f g t show thesis by (intro that [of fs "fst p" x]) simp_all
qed

lemma redeemInvite_refused:
  assumes "find (\<lambda>r. fi_token_hash r = hashInviteToken E token) (founder_invites (sys_db s)) = Some invite"
    and "fi_status invite \<noteq> V_PENDING \<or> invite_expired E invite"
  shows "redeemInvite J E token s = (Inl invalidInvite, s)"
  using assms
  by (auto simp: redeemInvite_def Let_def transaction_def tx_bind_def query_apply refuse_invite_def tx_then_def tx_when_def
      execute_apply tx_throw_def tx_return_def)

lemma redeemInvite_InrE:
  assumes "redeemInvite J E token s = (Inr g, t)"
  obtains invite where "find (\<lambda>r. fi_token_hash r = hashInviteToken E token) (founder_invites (sys_db s)) = Some invite"
    and "fi_status invite = V_PENDING" and "now_ms E < fi_expires_at invite" and "accept_invite J E invite s = (Inr g, t)"
proof (cases "find (\<lambda>r. fi_token_hash r = hashInviteToken E token) (founder_invites (sys_db s))")
  case None
  with assms show thesis
    by (simp add: redeemInvite_def Let_def transaction_def tx_bind_def query_apply tx_throw_def)
next
  case (Some invite)
  show thesis
  proof (cases "fi_status invite \<noteq> V_PENDING \<or> invite_expired E invite")
    case True
    with redeemInvite_refused [OF Some True, of J] assms show thesis by simp
  next
    case False
    with assms Some show thesis
      by (intro that [OF Some]) (simp_all add: redeemInvite_def Let_def transaction_Inr tx_bind_def query_apply invite_expired_def)
  qed
qed

section \<open>The invariant\<close>

lemma upsert_keys:
  assumes "upsert_founder E i a n s = (Inr u, t)" and "tenants_ok (sys_db s)"
  shows "tenants_ok (sys_db t) \<and> fo_id ` set (founders (sys_db s)) \<subseteq> fo_id ` set (founders (sys_db t))"
  using assms
proof (cases rule: upsert_founder_InrE)
  case known
  have m: "map fo_id (founders (sys_db t)) = map fo_id (founders (sys_db s))"
    "map fo_auth_subject (founders (sys_db t)) = map fo_auth_subject (founders (sys_db s))"
    using known(2) by (simp_all add: map_upd_where_same)
  moreover have "fo_id ` set (founders (sys_db t)) = fo_id ` set (founders (sys_db s))" using m(1) by (metis list.set_map)
  ultimately show ?thesis using assms(2) known(2) by (simp add: tenants_ok_def)
next
  case created
  with assms(2) show ?thesis by (auto simp: tenants_ok_def)
qed

lemma redeem_row_keys: "invites_ok d \<Longrightarrow> invites_ok (redeem_invite_row E invite f d)"
proof -
  assume ok: "invites_ok d"
  have m: "map fi_id (founder_invites (redeem_invite_row E invite f d)) = map fi_id (founder_invites d)"
    "map fi_token_hash (founder_invites (redeem_invite_row E invite f d)) = map fi_token_hash (founder_invites d)"
    by (simp_all add: redeem_invite_row_def map_upd_where_same)
  with ok show ?thesis
    unfolding invites_ok_def by (auto simp: redeem_invite_row_def elim!: in_upd_whereE)
qed

lemma accept_keeps_auth: "commits auth_ok (accept_invite J E invite)"
proof (rule commitsI)
  fix s :: sys and g t
  assume ok: "auth_ok (sys_db s)" and "accept_invite J E invite s = (Inr g, t)"
  from this(2) show "auth_ok (sys_db t)"
  proof (cases rule: accept_invite_InrE)
    case (1 fs f x)
    have ten: "tenants_ok (sys_db s\<lparr>founders := fs\<rparr>) \<and> fo_id ` set (founders (sys_db s)) \<subseteq> fo_id ` set fs"
      using upsert_keys [OF 1(1)] ok by (simp add: auth_ok_def)
    have f: "fo_id f \<in> fo_id ` set fs" using 1(2) by (auto dest: find_SomeD)
    let ?d = "sys_db s\<lparr>founders := fs, founder_sessions := founder_sessions (sys_db s) @ [x]\<rparr>"
    have "sessions_ok ?d" using ok ten f 1(4,5,7,8) by (auto simp: auth_ok_def sessions_ok_def)
    moreover have "invites_ok (redeem_invite_row E invite (fo_id f) ?d)"
      using ok by (intro redeem_row_keys) (simp add: auth_ok_def invites_ok_def)
    ultimately show ?thesis using ten
      by (simp add: 1(11) auth_ok_def tenants_ok_def sessions_ok_def redeem_invite_row_def invites_ok_def)
  qed
qed

lemma issueInvite_keeps_auth: "db_keeps auth_ok (issueInvite E dto)"
proof -
  have "db_keeps auth_ok (insert_invite r)" for r
    unfolding insert_invite_def
    by (rule db_keeps_insert) (auto simp: auth_ok_def tenants_ok_def sessions_ok_def invites_ok_def absent_image)
  moreover have "db_keeps auth_ok (newInviteToken E)"
    by (rule db_keepsI) (simp add: newInviteToken_def)
  ultimately show ?thesis
    unfolding issueInvite_def assertDevelopmentAdapter_def unavailableRegistration_def by (intro keeps_intros)
qed

lemma redeemInvite_keeps_auth: "db_keeps auth_ok (redeemInvite J E token)"
proof -
  have "commits auth_ok (refuse_invite E invite)" for invite
    unfolding refuse_invite_def by (rule commitsI) (auto elim!: tx_then_InrE simp: tx_throw_def)
  then show ?thesis
    unfolding redeemInvite_def Let_def
    by (intro commits_transaction commits_intros accept_keeps_auth)
qed

lemma signOut_keeps_auth: "db_keeps auth_ok (signOut E actor)"
proof -
  have "sessions_ok (d\<lparr>founder_sessions := upd_where (\<lambda>r. fs_id r = i \<and> fs_founder_id r = f \<and> fs_status r = SS_ACTIVE)
      (\<lambda>r. r\<lparr>fs_status := SS_REVOKED, fs_revoked_at := Some n\<rparr>) (founder_sessions d)\<rparr>)" if "sessions_ok d" for d i f n
    using that unfolding sessions_ok_def by (auto simp: map_upd_where_same elim!: in_upd_whereE)
  then show ?thesis
    unfolding signOut_def by (intro db_keeps_execute) (simp add: auth_ok_def tenants_ok_def invites_ok_def)
qed

lemma verifyAccessToken_keeps: "db_keeps I (verifyAccessToken J E token)"
proof (rule db_keepsI)
  fix s :: sys
  assume "I (sys_db s)"
  moreover obtain r t where v: "verifyAccessToken J E token s = (r, t)" by (cases "verifyAccessToken J E token s")
  moreover from v have "t = s" using verifyAccessToken_run by blast
  ultimately show "I (sys_db (snd (verifyAccessToken J E token s)))" by simp
qed

text \<open>
  Every operation of the authentication service, whatever it returns or throws, keeps the keys and
  CHECKs of the founders, companies, sessions and invites: one founder per subject, one company per
  founder, one invite per token, a redeemed invite names its founder, and a revoked session its time.
\<close>

theorem auth_tables_kept:
  "db_keeps auth_ok (issueInvite E dto) \<and> db_keeps auth_ok (redeemInvite J E token) \<and>
   db_keeps auth_ok (signOut E actor) \<and> db_keeps auth_ok (verifyAccessToken J E token)"
  by (intro conjI issueInvite_keeps_auth redeemInvite_keeps_auth signOut_keeps_auth verifyAccessToken_keeps)

section \<open>The authentication system\<close>

text \<open>
  The steps that can happen to the invites and sessions: the operations of this service in any
  environment (so at any time), and whatever leaves both tables alone, as all other services do.
\<close>

inductive auth_step :: "jwt \<Rightarrow> sys \<Rightarrow> sys \<Rightarrow> bool" for J where
  step_issue: "issueInvite E dto s = (r, t) \<Longrightarrow> auth_step J s t"
| step_redeem: "redeemInvite J E token s = (r', t) \<Longrightarrow> auth_step J s t"
| step_sign_out: "signOut E actor s = (r'', t) \<Longrightarrow> auth_step J s t"
| step_elsewhere: "founder_invites (sys_db t) = founder_invites (sys_db s) \<Longrightarrow>
    founder_sessions (sys_db t) = founder_sessions (sys_db s) \<Longrightarrow> auth_step J s t"

inductive_cases auth_stepE: "auth_step J s t"

text \<open>What a method does to the tables of invites and sessions, whatever it returns.\<close>

lemma issueInvite_tables:
  assumes "issueInvite E dto s = (r, t)"
  shows "founder_sessions (sys_db t) = founder_sessions (sys_db s) \<and>
    (founder_invites (sys_db t) = founder_invites (sys_db s) \<or>
     (\<exists>i. founder_invites (sys_db t) = founder_invites (sys_db s) @ [i] \<and> fi_status i = V_PENDING \<and>
       absent fi_token_hash (fi_token_hash i) (founder_invites (sys_db s))))"
proof -
  have ins: "insert_invite i u = (q, v) \<Longrightarrow> v = u \<or> (v = u\<lparr>sys_db := sys_db u\<lparr>founder_invites := founder_invites (sys_db u) @ [i]\<rparr>\<rparr> \<and>
      absent fi_token_hash (fi_token_hash i) (founder_invites (sys_db u)))" for i u q v
    unfolding insert_invite_def
    by (cases rule: insert_row_cases [of "[(''founder_invites_email_check'', \<lambda>d. between 3 320 (fi_email i)),
      (''founder_invites_display_name_check'', \<lambda>d. between 2 100 (fi_display_name i)),
      (''founder_invites_token_hash_check'', \<lambda>d. length (fi_token_hash i) = 64),
      (''founder_invites_session_ttl_seconds_check'',
        \<lambda>d. 1 \<le> fi_session_ttl_seconds i \<and> fi_session_ttl_seconds i \<le> 900),
      (''founder_invites_check'',
        \<lambda>d. (fi_status i = V_REDEEMED) = (fi_redeemed_founder_id i \<noteq> None)),
      (''founder_invites_pkey'', \<lambda>d. absent fi_id (fi_id i) (founder_invites d)),
      (''founder_invites_token_hash_key'', \<lambda>d. absent fi_token_hash (fi_token_hash i) (founder_invites d))]"
      "\<lambda>d. d\<lparr>founder_invites := founder_invites d @ [i]\<rparr>" u]) simp_all
  from assms show ?thesis
    by (auto simp: issueInvite_def assertDevelopmentAdapter_def unavailableRegistration_def newInviteToken_def tx_then_def
        tx_bind_def tx_when_def tx_throw_def tx_return_def newId_apply split: if_splits prod.splits sum.splits dest!: ins)
      (simp_all add: new_invite_def)
qed

lemma redeemInvite_tables:
  assumes "redeemInvite J E token s = (r, t)"
  shows "sys_db t = sys_db s \<or> (\<exists>g invite x fid. r = Inr g \<and>
     find (\<lambda>r. fi_token_hash r = hashInviteToken E token) (founder_invites (sys_db s)) = Some invite \<and> fi_status invite = V_PENDING \<and>
     founder_sessions (sys_db t) = founder_sessions (sys_db s) @ [x] \<and> fs_id x \<notin> fs_id ` set (founder_sessions (sys_db s)) \<and>
     founder_invites (sys_db t) = founder_invites (redeem_invite_row E invite fid (sys_db s)))"
proof (cases r)
  case (Inl e)
  have "redeemInvite J E token s = transaction (tx_bind (query (\<lambda>d. find (\<lambda>r. fi_token_hash r = hashInviteToken E token) (founder_invites d)))
      (\<lambda>row. case row of None \<Rightarrow> tx_throw invalidInvite | Some invite \<Rightarrow>
         if fi_status invite \<noteq> V_PENDING \<or> invite_expired E invite then refuse_invite E invite else accept_invite J E invite)) s"
    by (simp only: redeemInvite_def Let_def)
  with assms Inl show ?thesis by (auto dest: transaction_Inl)
next
  case (Inr g)
  from assms [unfolded Inr] obtain invite where i: "find (\<lambda>r. fi_token_hash r = hashInviteToken E token) (founder_invites (sys_db s)) = Some invite"
    "fi_status invite = V_PENDING" "now_ms E < fi_expires_at invite" "accept_invite J E invite s = (Inr g, t)" by (rule redeemInvite_InrE)
  from i(4) show ?thesis
  proof (cases rule: accept_invite_InrE)
    case (1 fs f x)
    show ?thesis
      by (rule disjI2, rule exI [of _ g], rule exI [of _ invite], rule exI [of _ x], rule exI [of _ "fo_id f"])
        (simp add: Inr i 1(8,11) redeem_invite_row_def)
  qed
qed

text \<open>Once no pending invite has a digest, none will: the digest stays taken. Likewise for a revoked session.\<close>

definition token_spent :: "string \<Rightarrow> sys \<Rightarrow> bool" where
  "token_spent h s \<longleftrightarrow> (\<exists>r \<in> set (founder_invites (sys_db s)). fi_token_hash r = h) \<and>
     (\<forall>r \<in> set (founder_invites (sys_db s)). fi_token_hash r = h \<longrightarrow> fi_status r \<noteq> V_PENDING)"

definition session_revoked :: "uuid \<Rightarrow> sys \<Rightarrow> bool" where
  "session_revoked i s \<longleftrightarrow> (\<exists>r \<in> set (founder_sessions (sys_db s)). fs_id r = i) \<and>
     (\<forall>r \<in> set (founder_sessions (sys_db s)). fs_id r = i \<longrightarrow> fs_status r = SS_REVOKED)"

lemma redeem_row_spent: "token_spent h s \<Longrightarrow> founder_invites (sys_db t) = founder_invites (redeem_invite_row E i f (sys_db s)) \<Longrightarrow>
    token_spent h t"
  unfolding token_spent_def redeem_invite_row_def
  by (auto elim!: in_upd_whereE intro: upd_where_hits in_upd_where_keep split: if_splits)

lemma step_keeps_spent: "auth_step J s t \<Longrightarrow> token_spent h s \<Longrightarrow> token_spent h t"
proof (erule auth_stepE)
  fix E dto r
  assume sp: "token_spent h s" and "issueInvite E dto s = (r, t)"
  from issueInvite_tables [OF this(2)] sp show "token_spent h t"
    by (auto simp: token_spent_def absent_image)
next
  fix E token r
  assume sp: "token_spent h s" and "redeemInvite J E token s = (r, t)"
  from redeemInvite_tables [OF this(2)] show "token_spent h t"
  proof
    assume "sys_db t = sys_db s"
    with sp show ?thesis by (simp add: token_spent_def)
  next
    assume "\<exists>g invite x fid. r = Inr g \<and>
     find (\<lambda>r. fi_token_hash r = hashInviteToken E token) (founder_invites (sys_db s)) = Some invite \<and> fi_status invite = V_PENDING \<and>
     founder_sessions (sys_db t) = founder_sessions (sys_db s) @ [x] \<and> fs_id x \<notin> fs_id ` set (founder_sessions (sys_db s)) \<and>
     founder_invites (sys_db t) = founder_invites (redeem_invite_row E invite fid (sys_db s))"
    with sp redeem_row_spent show ?thesis by blast
  qed
qed (auto simp: token_spent_def signOut_def execute_apply)

lemma step_keeps_revoked: "auth_step J s t \<Longrightarrow> session_revoked i s \<Longrightarrow> session_revoked i t"
proof (erule auth_stepE)
  fix E dto r
  assume "session_revoked i s" and "issueInvite E dto s = (r, t)"
  from issueInvite_tables [OF this(2)] this(1) show "session_revoked i t" by (simp add: session_revoked_def)
next
  fix E token r
  assume "session_revoked i s" and "redeemInvite J E token s = (r, t)"
  from redeemInvite_tables [OF this(2)] this(1) show "session_revoked i t"
    by (auto simp: session_revoked_def)
next
  fix E actor r
  assume "session_revoked i s" and "signOut E actor s = (r, t)"
  then show "session_revoked i t"
    by (force simp: session_revoked_def signOut_def execute_apply set_upd_where)
qed (simp add: session_revoked_def)

interpretation spent: invariant_of "token_spent h" "auth_step J" "token_spent h" for h J
  by unfold_locales (auto intro: step_keeps_spent)

interpretation revoked: invariant_of "session_revoked i" "auth_step J" "session_revoked i" for i J
  by unfold_locales (auto intro: step_keeps_revoked)

lemma redeemed_is_spent:
  assumes "distinct (map fi_token_hash (founder_invites (sys_db s)))" and "redeemInvite J E token s = (Inr g, t)"
  shows "token_spent (hashInviteToken E token) t"
proof -
  let ?h = "hashInviteToken E token"
  from assms(2) obtain invite where i: "find (\<lambda>r. fi_token_hash r = ?h) (founder_invites (sys_db s)) = Some invite"
    "fi_status invite = V_PENDING" "now_ms E < fi_expires_at invite" "accept_invite J E invite s = (Inr g, t)" by (rule redeemInvite_InrE)
  from i(1) have inv: "invite \<in> set (founder_invites (sys_db s))" "fi_token_hash invite = ?h" by (auto dest: find_SomeD)
  let ?q = "\<lambda>r. fi_id r = fi_id invite \<and> fi_status r = V_PENDING"
  from i(4) obtain fid where t: "founder_invites (sys_db t) = upd_where ?q
      (\<lambda>r. r\<lparr>fi_status := V_REDEEMED, fi_redeemed_founder_id := Some fid, fi_updated_at := now_ms E\<rparr>) (founder_invites (sys_db s))"
    by (cases rule: accept_invite_InrE) (simp add: redeem_invite_row_def)
  have same: "r = invite" if "r \<in> set (founder_invites (sys_db s))" "fi_token_hash r = ?h" for r
    using distinct_map_eq [OF assms(1) that(1) inv(1)] that(2) inv(2) by simp
  let ?f = "\<lambda>r. r\<lparr>fi_status := V_REDEEMED, fi_redeemed_founder_id := Some fid, fi_updated_at := now_ms E\<rparr>"
  have "\<exists>r \<in> set (founder_invites (sys_db t)). fi_token_hash r = ?h"
    unfolding t by (rule upd_where_hits [OF inv(1)]) (simp_all add: i(2) inv(2))
  moreover have "fi_status r \<noteq> V_PENDING" if r: "r \<in> set (founder_invites (sys_db t))" "fi_token_hash r = ?h" for r
  proof -
    from r(1) obtain q where q: "q \<in> set (founder_invites (sys_db s))"
      "r = (if ?q q then ?f q else q)"
      unfolding t by (rule in_upd_whereE)
    with r(2) have "q = invite" by (intro same) (simp_all split: if_splits)
    with q(2) i(2) show ?thesis by simp
  qed
  ultimately show ?thesis unfolding token_spent_def by blast
qed

text \<open>
  C13. An invite is redeemed once. After a redemption that succeeded, whatever happens to the tables in
  between and whatever the clock says, redeeming the same token fails with 401 and changes nothing.
\<close>

theorem invite_redeemed_once:
  assumes "auth_ok (sys_db s)" and "redeemInvite J E token s = (Inr g, t)" and "(auth_step J)\<^sup>*\<^sup>* t u"
    and "sha256_hex E' = sha256_hex E"
  shows "redeemInvite J E' token u = (Inl invalidInvite, u)"
proof -
  let ?h = "hashInviteToken E token"
  have "token_spent ?h t" by (rule redeemed_is_spent [OF auth_ok_keys(7) [OF assms(1)] assms(2)])
  with assms(3) have "token_spent ?h u" by (rule spent.steps_inv)
  then obtain r where "find (\<lambda>r. fi_token_hash r = ?h) (founder_invites (sys_db u)) = Some r" "fi_status r \<noteq> V_PENDING"
    unfolding token_spent_def
    by (cases "find (\<lambda>r. fi_token_hash r = ?h) (founder_invites (sys_db u))") (auto dest: find_SomeD find_NoneD)
  moreover have "hashInviteToken E' token = ?h" by (simp add: hashInviteToken_def assms(4))
  ultimately show ?thesis by (intro redeemInvite_refused) auto
qed

text \<open>
  C14. Signing out ends the session for good. After the actor of an authenticated request signed out, no
  token authenticates as that session again, whatever happens in between.
\<close>

theorem sign_out_ends_session:
  assumes "auth_ok (sys_db s)" and "verifyAccessToken J E token s = (Inr actor, s)" and "signOut E' actor s = (r, t)"
    and "(auth_step J)\<^sup>*\<^sup>* t u" and "verifyAccessToken J E'' token' u = (Inr other, v)"
  shows "ra_sessionId other \<noteq> ra_sessionId actor"
proof -
  from assms(2) obtain p x f where "token_session p (sys_db s) = Some x" "fs_status x = SS_ACTIVE"
    and "token_founder p (sys_db s) = Some f" and a: "ra_sessionId actor = fs_id x" "ra_id actor = fo_id f"
    by (rule verifyAccessToken_InrE)
  then have "x \<in> set (founder_sessions (sys_db s))" "Some (fs_founder_id x) = pl_sub p" "Some (fo_id f) = pl_sub p"
    "fs_status x = SS_ACTIVE"
    by (auto simp: token_session_def token_founder_def dest!: find_SomeD)
  then have x: "x \<in> set (founder_sessions (sys_db s))" "fs_founder_id x = fo_id f" "fs_status x = SS_ACTIVE"
    by (simp, metis option.inject, simp)
  let ?q = "\<lambda>r. fs_id r = fs_id x \<and> fs_founder_id r = fo_id f \<and> fs_status r = SS_ACTIVE"
  let ?f = "\<lambda>r. r\<lparr>fs_status := SS_REVOKED, fs_revoked_at := Some (now_ms E')\<rparr>"
  have t: "founder_sessions (sys_db t) = upd_where ?q ?f (founder_sessions (sys_db s))"
    using assms(3) by (auto simp: signOut_def execute_apply a)
  have "\<exists>r \<in> set (founder_sessions (sys_db t)). fs_id r = fs_id x"
    unfolding t by (rule upd_where_hits [OF x(1)]) (simp_all add: x)
  moreover have "fs_status r = SS_REVOKED" if r: "r \<in> set (founder_sessions (sys_db t))" "fs_id r = fs_id x" for r
  proof -
    from r(1) obtain q where q: "q \<in> set (founder_sessions (sys_db s))" "r = (if ?q q then ?f q else q)"
      unfolding t by (rule in_upd_whereE)
    from q(2) r(2) have "fs_id q = fs_id x" by (simp split: if_splits)
    with auth_ok_keys(5) [OF assms(1)] q(1) x(1) have "q = x" by (rule distinct_map_eq)
    with q(2) x show ?thesis by simp
  qed
  ultimately have "session_revoked (fs_id x) t" unfolding session_revoked_def by blast
  with assms(4) have "session_revoked (fs_id x) u" by (rule revoked.steps_inv)
  moreover from assms(5) obtain p' y where "token_session p' (sys_db u) = Some y"
    "fs_status y = SS_ACTIVE" and o: "ra_sessionId other = fs_id y" by (rule verifyAccessToken_InrE)
  ultimately show ?thesis
    unfolding a o session_revoked_def token_session_def by (auto dest!: find_SomeD)
qed

lemma seconds_less: "m div 1000 + 1 \<le> n div 1000 + k \<Longrightarrow> m < n + k * 1000" for m n k :: int
  using pos_mod_bound [of 1000 m] pos_mod_sign [of 1000 n] mult_div_mod_eq [of 1000 m] mult_div_mod_eq [of 1000 n]
  by linarith

text \<open>
  C32. The token handed out for an invite authenticates. From the moment the invite is redeemed until the
  second in which the token expires, its bearer is the founder of the grant, in the session of the grant, as long as the tables are
  those the redemption left.
\<close>

theorem redeemed_token_authenticates:
  assumes "jwt_laws J" and "auth_ok (sys_db s)" and "redeemInvite J E token s = (Inr g, t)"
    and "uuid_at E (Suc (sys_next s)) \<noteq> []"
    and "now_ms E \<le> now_ms E'" and "now_ms E' div 1000 < now_ms E div 1000 + ag_expires_in g"
  shows "\<exists>actor. verifyAccessToken J E' (ag_access_token g) t = (Inr actor, t) \<and> ra_id actor = ag_founder_id g \<and>
    ra_sessionId actor = ag_session_id g \<and> ra_companyId actor = live_company (sys_db t) (ag_founder_id g)"
proof -
  from assms(3) obtain invite where i: "find (\<lambda>r. fi_token_hash r = hashInviteToken E token) (founder_invites (sys_db s)) = Some invite"
    "fi_status invite = V_PENDING" "now_ms E < fi_expires_at invite" "accept_invite J E invite s = (Inr g, t)" by (rule redeemInvite_InrE)
  obtain r t' where v: "verifyAccessToken J E' (ag_access_token g) t = (r, t')" by (cases "verifyAccessToken J E' (ag_access_token g) t")
  from i(4) show ?thesis
  proof (cases rule: accept_invite_InrE)
    case (1 fs f x)
    let ?p = "token_payload f x" and ?ttl = "session_ttl invite"
    let ?a = "\<lparr>ra_id = fo_id f, ra_authSubject = fo_auth_subject f, ra_companyId = live_company (sys_db t) (fo_id f),
        ra_sessionId = fs_id x\<rparr>"
    have g: "ag_expires_in g = ?ttl" "ag_access_token g = jwt_sign J (now_ms E) ?p ?ttl" "ag_founder_id g = fo_id f"
      "ag_session_id g = fs_id x" by (simp_all add: 1(10) issueAccessToken_def)
    have "jwt_verify J (now_ms E') (ag_access_token g) = Verified ?p"
      using assms(1,5,6) by (simp add: jwt_laws_def g)
    then have p: "access_payload J E' (ag_access_token g) = Inr ?p"
      using assms(4) by (simp add: access_payload_Inr token_payload_def 1(9))
    have ok: "auth_ok (sys_db t)"
      using accept_keeps_auth assms(2) i(4) by (rule commitsD)
    note keys = auth_ok_keys [OF this]
    have t: "founder_sessions (sys_db t) = founder_sessions (sys_db s) @ [x]" "founders (sys_db t) = fs"
      by (simp_all add: 1(11) redeem_invite_row_def)
    have "token_session ?p (sys_db t) = Some x"
      unfolding token_session_def by (rule find_unique [OF keys(5)]) (simp_all add: t token_payload_def 1(4))
    moreover have "token_founder ?p (sys_db t) = Some f"
      unfolding token_founder_def
      by (rule find_unique [OF keys(1)]) (use 1(2) in \<open>auto simp: t token_payload_def dest: find_SomeD\<close>)
    moreover have "now_ms E' < fs_expires_at x"
    proof -
      have "now_ms E' div 1000 + 1 \<le> now_ms E div 1000 + ?ttl" using assms(6) by (simp add: g)
      then show ?thesis unfolding 1(6) by (rule seconds_less)
    qed
    ultimately have "\<exists>p session f. access_payload J E' (ag_access_token g) = Inr p \<and> token_session p (sys_db t) = Some session \<and>
        fs_status session = SS_ACTIVE \<and> now_ms E' < fs_expires_at session \<and> token_founder p (sys_db t) = Some f \<and>
        fo_status f = F_ACTIVE \<and> ?a = \<lparr>ra_id = fo_id f, ra_authSubject = fo_auth_subject f,
          ra_companyId = live_company (sys_db t) (fo_id f), ra_sessionId = fs_id session\<rparr>"
      using p 1(3,5) by (intro exI [of _ ?p] exI [of _ x] exI [of _ f]) (simp only: simp_thms)
    with verifyAccessToken_run [OF v, of ?a] have "r = Inr ?a" "t' = t" by (simp_all only: simp_thms)
    with v show ?thesis by (intro exI [of _ ?a]) (simp add: g)
  qed
qed

definition no_expired_invite :: "sys \<Rightarrow> bool" where
  "no_expired_invite s \<longleftrightarrow> (\<forall>r \<in> set (founder_invites (sys_db s)). fi_status r \<noteq> V_EXPIRED)"

lemma step_keeps_unexpired: "auth_step J s t \<Longrightarrow> no_expired_invite s \<Longrightarrow> no_expired_invite t"
proof (erule auth_stepE)
  fix E dto r
  assume "no_expired_invite s" and "issueInvite E dto s = (r, t)"
  from issueInvite_tables [OF this(2)] this(1) show "no_expired_invite t" by (auto simp: no_expired_invite_def)
next
  fix E token r
  assume "no_expired_invite s" and "redeemInvite J E token s = (r, t)"
  from redeemInvite_tables [OF this(2)] this(1) show "no_expired_invite t"
    by (auto simp: no_expired_invite_def redeem_invite_row_def elim!: in_upd_whereE split: if_splits)
qed (auto simp: no_expired_invite_def signOut_def execute_apply)

interpretation unexpired: invariant_of no_expired_invite "auth_step J" no_expired_invite for J
  by unfold_locales (auto intro: step_keeps_unexpired)

text \<open>
  An invite is never marked expired. An expired invite is refused, but the update that marks it is part
  of the transaction that the error rolls back: the tables are as they were, and the status \<open>EXPIRED\<close> is
  never reached by the operations of the service.
\<close>

theorem expired_mark_rolled_back:
  assumes "find (\<lambda>r. fi_token_hash r = hashInviteToken E token) (founder_invites (sys_db s)) = Some invite"
    and "fi_status invite = V_PENDING" and "fi_expires_at invite \<le> now_ms E" and "reach no_expired_invite (auth_step J) s"
  shows "redeemInvite J E token s = (Inl invalidInvite, s) \<and> (\<forall>r \<in> set (founder_invites (sys_db s)). fi_status r \<noteq> V_EXPIRED)"
proof
  show "redeemInvite J E token s = (Inl invalidInvite, s)"
    using assms(1-3) by (intro redeemInvite_refused) (auto simp: invite_expired_def)
  show "\<forall>r \<in> set (founder_invites (sys_db s)). fi_status r \<noteq> V_EXPIRED"
    using unexpired.reach_inv [OF assms(4)] by (simp add: no_expired_invite_def)
qed

section \<open>From the invite to the session\<close>

text \<open>A token is 43 characters of the URL-safe alphabet, so the body that redeems it passes validation.\<close>

lemma base64url_length: "length (base64url bs) = (4 * length bs + 2) div 3"
  by (induction bs rule: base64_encode.induct) (simp_all add: base64url_def)

lemma base64_char_set: "base64_char i \<in> set base64_alphabet"
proof -
  have all: "list_all (\<lambda>i. base64_char i \<in> set base64_alphabet) [0..<64]" by code_simp
  have "base64_char i = base64_char 63" if "63 \<le> i" using that by (simp add: base64_char_def)
  with all show ?thesis by (cases "i < 64") (auto simp: list_all_iff)
qed

lemma base64_encode_chars: "set (base64_encode bs) \<subseteq> insert (CHR ''='') (set base64_alphabet)"
  by (induction bs rule: base64_encode.induct) (simp_all add: base64_char_set)

lemma base64url_no_space: "c \<in> set (base64url bs) \<Longrightarrow> \<not> js_space c"
proof -
  have all: "list_all (\<lambda>c. \<not> js_space (base64url_char c)) base64_alphabet" by code_simp
  assume "c \<in> set (base64url bs)"
  then obtain b where "c = base64url_char b" "b \<in> set (base64_encode bs)" "b \<noteq> CHR ''=''"
    by (auto simp: base64url_def dest: set_takeWhileD)
  with all base64_encode_chars [of bs] show ?thesis by (auto simp: list_all_iff)
qed

lemma js_trim_no_space: "(\<And>c. c \<in> set s \<Longrightarrow> \<not> js_space c) \<Longrightarrow> js_trim s = s"
proof -
  assume a: "\<And>c. c \<in> set s \<Longrightarrow> \<not> js_space c"
  have d: "(\<And>c. c \<in> set u \<Longrightarrow> \<not> js_space c) \<Longrightarrow> dropWhile js_space u = u" for u by (cases u) auto
  have "dropWhile js_space s = s" "dropWhile js_space (rev s) = rev s" using a by (intro d; simp)+
  then show ?thesis by (simp add: js_trim_def)
qed

lemma invite_token_valid: "length bs = 32 \<Longrightarrow> RedeemInviteDto_ok (base64url bs)"
  using js_trim_no_space [of "base64url bs"] base64url_no_space [of _ bs]
  by (simp add: RedeemInviteDto_ok_def between_def base64url_length)

lemma issueInvite_InrE:
  assumes "issueInvite E dto s = (Inr i, t)"
  obtains "auth_mode E = ''development''" and "app_environment E = ''local'' \<or> app_environment E = ''test''"
    and "t = s\<lparr>sys_next := Suc (Suc (sys_next s)), sys_db := sys_db s\<lparr>founder_invites := founder_invites (sys_db s) @
        [new_invite E (ii_invite_id i) (ii_invite_token i) dto]\<rparr>\<rparr>"
    and "absent fi_token_hash (fi_token_hash (new_invite E (ii_invite_id i) (ii_invite_token i) dto)) (founder_invites (sys_db s))"
    and "1 \<le> fi_session_ttl_seconds (new_invite E (ii_invite_id i) (ii_invite_token i) dto)"
    and "ii_session_ttl_seconds i = fi_session_ttl_seconds (new_invite E (ii_invite_id i) (ii_invite_token i) dto)"
    and "ii_invite_token i = base64url (take INVITE_TOKEN_BYTES (random32 E (sys_next s)))"
proof -
  from assms obtain a b tok s1 iid s2 c where dev: "assertDevelopmentAdapter E s = (Inr a, b)"
    and tok: "newInviteToken E b = (Inr tok, s1)" and iid: "newId E s1 = (Inr iid, s2)"
    and ins: "insert_invite (new_invite E iid tok dto) s2 = (Inr c, t)"
    and i: "i = \<lparr>ii_invite_id = iid, ii_invite_token = tok,
         ii_expires_at = toISOString (fi_expires_at (new_invite E iid tok dto)),
         ii_session_ttl_seconds = fi_session_ttl_seconds (new_invite E iid tok dto)\<rparr>"
    unfolding issueInvite_def by (elim tx_bind_InrE tx_then_InrE tx_return_InrE) (simp only:)
  from dev have env: "auth_mode E = ''development''" "app_environment E = ''local'' \<or> app_environment E = ''test''" and b: "b = s"
    by (auto simp: assertDevelopmentAdapter_def unavailableRegistration_def elim!: guard_InrE)
  from tok iid b have s2: "s2 = s\<lparr>sys_next := Suc (Suc (sys_next s))\<rparr>"
    and tok': "tok = base64url (take INVITE_TOKEN_BYTES (random32 E (sys_next s)))" by (auto simp: newInviteToken_def newId_apply)
  have "t = s2\<lparr>sys_db := sys_db s2\<lparr>founder_invites := founder_invites (sys_db s2) @ [new_invite E iid tok dto]\<rparr>\<rparr>"
    using inserted(15) [OF ins] .
  moreover from ins have "absent fi_token_hash (fi_token_hash (new_invite E iid tok dto)) (founder_invites (sys_db s2))"
      "1 \<le> fi_session_ttl_seconds (new_invite E iid tok dto)"
    unfolding insert_invite_def by (auto elim!: insert_row_InrE)
  ultimately show thesis by (intro that [OF env]) (simp_all add: i s2 tok')
qed

text \<open>The upsert finds or makes the founder of a subject, unless that founder is disabled.\<close>

lemma upsert_founder_run:
  assumes "\<And>f. f \<in> set (founders (sys_db s)) \<Longrightarrow> fo_auth_subject f = a \<Longrightarrow> fo_status f = F_ACTIVE"
    and "i \<notin> fo_id ` set (founders (sys_db s))"
  obtains fs f where "upsert_founder E i a n s = (Inr (), s\<lparr>sys_db := sys_db s\<lparr>founders := fs\<rparr>\<rparr>)"
    and "find (\<lambda>f. fo_auth_subject f = a) fs = Some f" and "fo_status f = F_ACTIVE" and "fo_display_name f = n"
proof (cases "find (\<lambda>f. fo_auth_subject f = a) (founders (sys_db s))")
  case None
  then have "a \<notin> fo_auth_subject ` set (founders (sys_db s))" by (auto simp: find_None_iff)
  with assms(2) have "upsert_founder E i a n s = (Inr (), s\<lparr>sys_db := sys_db s\<lparr>founders := founders (sys_db s) @
      [\<lparr>fo_id = i, fo_auth_subject = a, fo_display_name = n, fo_status = F_ACTIVE, fo_created_at = now_ms E, fo_updated_at = now_ms E\<rparr>]\<rparr>\<rparr>)"
    by (simp add: upsert_founder_def present_image insert_founder_def insert_row_def absent_image)
  moreover have "find (\<lambda>f. fo_auth_subject f = a) (founders (sys_db s) @ [\<lparr>fo_id = i, fo_auth_subject = a, fo_display_name = n,
      fo_status = F_ACTIVE, fo_created_at = now_ms E, fo_updated_at = now_ms E\<rparr>]) =
      Some \<lparr>fo_id = i, fo_auth_subject = a, fo_display_name = n, fo_status = F_ACTIVE, fo_created_at = now_ms E, fo_updated_at = now_ms E\<rparr>"
    by (simp add: find_app None)
  ultimately show thesis by (rule that) simp_all
next
  case (Some f)
  then have "a \<in> fo_auth_subject ` set (founders (sys_db s))" by (auto dest: find_SomeD)
  then have "upsert_founder E i a n s = (Inr (), s\<lparr>sys_db := sys_db s\<lparr>founders := upd_where (\<lambda>r. fo_auth_subject r = a)
      (\<lambda>r. r\<lparr>fo_display_name := n, fo_updated_at := now_ms E\<rparr>) (founders (sys_db s))\<rparr>\<rparr>)"
    by (simp add: upsert_founder_def present_image execute_apply)
  from this find_upd_where_same [OF _ Some] show thesis
    by (rule that) (use Some assms(1) in \<open>auto dest: find_SomeD\<close>)
qed

text \<open>
  An invite that was issued can be redeemed. Its token passes the validation of the redeeming request; until it
  expires, and unless the founder of that address is disabled, the token is exchanged for a grant: the founder with the address as subject exists afterwards
  under the invited name, and has a new active session that lasts as long as the invite said.
\<close>

theorem issued_invite_redeemable:
  assumes "auth_ok (sys_db s)" and "issueInvite E dto s = (Inr i, t)" and "sha256_hex E' = sha256_hex E"
    and "now_ms E' < now_ms E + (case iv_invite_ttl_seconds dto of None \<Rightarrow> 86400 | Some n \<Rightarrow> n) * 1000"
    and "\<And>f. f \<in> set (founders (sys_db s)) \<Longrightarrow> fo_auth_subject f = founderAuthSubject (iv_email dto) \<Longrightarrow> fo_status f = F_ACTIVE"
    and "uuid_at E' (sys_next t) \<notin> fo_id ` set (founders (sys_db s))"
    and "uuid_at E' (Suc (sys_next t)) \<notin> fs_id ` set (founder_sessions (sys_db s))"
    and "length (random32 E (sys_next s)) = 32"
  shows "RedeemInviteDto_ok (ii_invite_token i) \<and> (\<exists>g u. redeemInvite J E' (ii_invite_token i) t = (Inr g, u) \<and>
    (\<exists>f \<in> set (founders (sys_db u)). fo_id f = ag_founder_id g \<and> fo_auth_subject f = founderAuthSubject (iv_email dto) \<and>
       fo_display_name f = iv_display_name dto) \<and>
    (\<exists>x \<in> set (founder_sessions (sys_db u)). fs_id x = ag_session_id g \<and> fs_founder_id x = ag_founder_id g \<and>
       fs_status x = SS_ACTIVE \<and> fs_expires_at x = now_ms E' + ii_session_ttl_seconds i * 1000))"
proof (rule conjI)
  have "ii_invite_token i = base64url (take INVITE_TOKEN_BYTES (random32 E (sys_next s)))"
    using assms(2) by (rule issueInvite_InrE)
  with assms(8) show "RedeemInviteDto_ok (ii_invite_token i)" by (simp add: INVITE_TOKEN_BYTES_def invite_token_valid)
next
  let ?r = "new_invite E (ii_invite_id i) (ii_invite_token i) dto" and ?a = "founderAuthSubject (iv_email dto)"
  let ?s = "t\<lparr>sys_next := Suc (sys_next t)\<rparr>"
  from assms(2) have t: "t = s\<lparr>sys_next := Suc (Suc (sys_next s)), sys_db := sys_db s\<lparr>founder_invites :=
      founder_invites (sys_db s) @ [?r]\<rparr>\<rparr>" and new: "absent fi_token_hash (fi_token_hash ?r) (founder_invites (sys_db s))"
    and ttl: "1 \<le> fi_session_ttl_seconds ?r" "ii_session_ttl_seconds i = fi_session_ttl_seconds ?r"
    by - (erule issueInvite_InrE, assumption)+
  have h: "hashInviteToken E' (ii_invite_token i) = fi_token_hash ?r"
    by (simp add: hashInviteToken_def new_invite_def assms(3))
  have found: "find (\<lambda>r. fi_token_hash r = hashInviteToken E' (ii_invite_token i)) (founder_invites (sys_db t)) = Some ?r"
  proof -
    have "find (\<lambda>r. fi_token_hash r = fi_token_hash ?r) (founder_invites (sys_db s)) = None"
      using new unfolding find_None_iff absent_image by (metis imageI)
    then show ?thesis unfolding h by (simp add: t find_app)
  qed
  obtain fs f where up: "upsert_founder E' (uuid_at E' (sys_next t)) ?a (iv_display_name dto) ?s =
      (Inr (), ?s\<lparr>sys_db := sys_db ?s\<lparr>founders := fs\<rparr>\<rparr>)"
    and f: "find (\<lambda>f. fo_auth_subject f = ?a) fs = Some f" "fo_status f = F_ACTIVE" "fo_display_name f = iv_display_name dto"
    by (rule upsert_founder_run [where s = ?s and a = ?a and n = "iv_display_name dto" and E = E'])
      (use assms(5,6) in \<open>auto simp: t\<close>)
  have fin: "f \<in> set fs" "fo_auth_subject f = ?a" using f(1) by (auto dest: find_SomeD)
  let ?x = "\<lparr>fs_id = uuid_at E' (Suc (sys_next t)), fs_founder_id = fo_id f, fs_status = SS_ACTIVE,
      fs_expires_at = now_ms E' + fi_session_ttl_seconds ?r * 1000, fs_revoked_at = None\<rparr>"
  let ?g = "issueAccessToken J E' f ?x (fi_session_ttl_seconds ?r)"
  let ?u = "?s\<lparr>sys_next := Suc (Suc (sys_next t)), sys_db := redeem_invite_row E' ?r (fo_id f) (sys_db ?s\<lparr>founders := fs,
        founder_sessions := founder_sessions (sys_db t) @ [?x]\<rparr>)\<rparr>"
  have row: "fi_email ?r = iv_email dto" "fi_display_name ?r = iv_display_name dto" "fi_status ?r = V_PENDING"
    "\<not> invite_expired E' ?r" "session_ttl ?r = fi_session_ttl_seconds ?r"
    using assms(4) ttl(1)
    by (auto simp: new_invite_def invite_expired_def DEFAULT_INVITE_TTL_SECONDS_def session_ttl_def split: option.splits)
  have "insertSession E' (fo_id f) (fi_session_ttl_seconds ?r) (?s\<lparr>sys_db := sys_db ?s\<lparr>founders := fs\<rparr>\<rparr>) =
      (Inr ?x, ?s\<lparr>sys_next := Suc (Suc (sys_next t)), sys_db := sys_db ?s\<lparr>founders := fs, founder_sessions := founder_sessions (sys_db t) @ [?x]\<rparr>\<rparr>)"
    using assms(7) fin
    by (simp add: insertSession_def Let_def tx_bind_def tx_then_def newId_apply insert_session_def insert_row_def absent_image present_image
        tx_return_def t)
  then have "accept_invite J E' ?r t = (Inr ?g, ?u)"
    using up f(1,2)
    by (simp add: accept_invite_def Let_def row tx_bind_def tx_then_def newId_apply query_apply first_founder_row tx_lift_def active_founder_def
        execute_apply tx_return_def)
  then have "redeemInvite J E' (ii_invite_token i) t = (Inr ?g, ?u)"
    using found row by (simp add: redeemInvite_def Let_def transaction_def tx_bind_def query_apply)
  moreover have "f \<in> set (founders (sys_db ?u))" "?x \<in> set (founder_sessions (sys_db ?u))"
    by (simp_all add: fin redeem_invite_row_def)
  moreover have "ag_founder_id ?g = fo_id f" "ag_session_id ?g = fs_id ?x" by (simp_all add: issueAccessToken_def)
  ultimately show "\<exists>g u. redeemInvite J E' (ii_invite_token i) t = (Inr g, u) \<and>
    (\<exists>f \<in> set (founders (sys_db u)). fo_id f = ag_founder_id g \<and> fo_auth_subject f = ?a \<and> fo_display_name f = iv_display_name dto) \<and>
    (\<exists>x \<in> set (founder_sessions (sys_db u)). fs_id x = ag_session_id g \<and> fs_founder_id x = ag_founder_id g \<and>
       fs_status x = SS_ACTIVE \<and> fs_expires_at x = now_ms E' + ii_session_ttl_seconds i * 1000)"
    by (intro exI [of _ ?g] exI [of _ ?u] conjI bexI [of _ f] bexI [of _ ?x]) (simp_all add: fin f(3) ttl(2))
qed

end
