(* ===== verification/Runs.thy ===== *)
theory Runs
  imports Governance "HOL-Library.List_Lexorder" "HOL-Library.Char_ord" "HOL-Library.Product_Lexorder"
begin

text \<open>
  \<open>src/modules/runs\<close>: the reads of a run by its founder: the run with its frozen context, its tasks, the
  pages of its event log, and the refusal to delete it. Every query names the company of the actor.

  Rows whose order the queries leave open (the groups of the task counts) are listed in table order.
\<close>

section \<open>Parameters\<close>

record event_query =
  eq_after_sequence :: nat
  eq_limit :: nat
  eq_type :: "string option"

definition EventQueryDto_ok :: "event_query \<Rightarrow> bool" where
  "EventQueryDto_ok q \<longleftrightarrow> 1 \<le> eq_limit q \<and> eq_limit q \<le> 200"

text \<open>The defaults of the fields of \<open>EventQueryDto\<close>.\<close>

definition event_query_defaults :: event_query where
  "event_query_defaults = \<lparr>eq_after_sequence = 0, eq_limit = 100, eq_type = None\<rparr>"

record task_query =
  tq_limit :: nat
  tq_state :: "string option"
  tq_type :: "string option"

definition TaskQueryDto_ok :: "task_query \<Rightarrow> bool" where
  "TaskQueryDto_ok q \<longleftrightarrow> 1 \<le> tq_limit q \<and> tq_limit q \<le> 100 \<and>
     (case tq_state q of None \<Rightarrow> True | Some st \<Rightarrow> st \<in> set [''QUEUED'', ''READY'', ''RUNNING'', ''AWAITING_INPUT'',
        ''RETRY_WAIT'', ''SUCCEEDED'', ''BLOCKED'', ''FAILED'', ''CANCELED''])"

text \<open>An optional filter: absent and empty strings filter nothing.\<close>

definition filtered_by :: "string option \<Rightarrow> string \<Rightarrow> bool" where
  "filtered_by wanted actual \<longleftrightarrow> (case wanted of None \<Rightarrow> True | Some w \<Rightarrow> w = [] \<or> actual = w)"

definition runNotFound :: exn where
  "runNotFound = Domain (DomainError 404 ''resource_not_found'' ''The requested resource does not exist.''
     (Some ''Resource not found'') None None)"

section \<open>A run with its context\<close>

text \<open>
  The joined row: the run, its context snapshot, the profile version and the goal version the snapshot
  names, and the qualification of that goal version when there is one (\<open>LEFT JOIN\<close>).
\<close>

definition left_join :: "'a list \<Rightarrow> 'a option list" where
  "left_join rows = (if rows = [] then [None] else map Some rows)"

definition run_rows :: "uuid \<Rightarrow> uuid \<Rightarrow> db \<Rightarrow>
    (run_row \<times> snapshot_row \<times> profile_row \<times> goal_version_row \<times> qualification_row option) list" where
  "run_rows companyId runId d =
     [(r, cs, p, gv, q).
        r \<leftarrow> filter (\<lambda>r. r_company_id r = companyId \<and> r_id r = runId) (runs d),
        cs \<leftarrow> filter (\<lambda>cs. cs_id cs = r_context_snapshot_id r \<and> cs_company_id cs = r_company_id r) (context_snapshots d),
        p \<leftarrow> filter (\<lambda>p. cp_id p = cs_company_profile_version_id cs \<and> cp_company_id p = r_company_id r) (company_profile_versions d),
        gv \<leftarrow> filter (\<lambda>gv. gv_id gv = cs_goal_version_id cs \<and> gv_company_id gv = r_company_id r) (goal_versions d),
        q \<leftarrow> left_join (filter (\<lambda>q. gq_company_id q = r_company_id r \<and> gq_goal_version_id q = gv_id gv) (goal_qualifications d))]"

definition task_counts :: "uuid \<Rightarrow> uuid \<Rightarrow> db \<Rightarrow> (task_state \<times> nat) list" where
  "task_counts companyId runId d =
     (let states = map t_state (filter (\<lambda>t. t_company_id t = companyId \<and> t_run_id t = runId) (tasks d))
      in map (\<lambda>st. (st, count_list states st)) (remdups states))"

text \<open>\<open>ORDER BY gva.ordinal, o.id\<close>.\<close>

definition frozen_attachments :: "uuid \<Rightarrow> uuid \<Rightarrow> db \<Rightarrow> object_row list" where
  "frozen_attachments companyId goalVersionId d =
     map snd (sort_key (\<lambda>(g, ob). (ga_ordinal g, ob_id ob))
       [(g, ob). g \<leftarrow> filter (\<lambda>g. ga_company_id g = companyId \<and> ga_goal_version_id g = goalVersionId) (goal_version_attachments d),
          ob \<leftarrow> filter (\<lambda>ob. ob_company_id ob = ga_company_id g \<and> ob_id ob = ga_object_id g) (object_records d)])"

definition profile_context :: "profile_row \<Rightarrow> json" where
  "profile_context p = JObj [(''id'', JStr (cp_id p)), (''version'', JNum (int (cp_version p))),
     (''purpose'', JStr (cp_purpose p)), (''target_customer'', JStr (cp_target_customer p)),
     (''constraints'', JArr (map JStr (cp_constraints p))), (''normalized_limits'', cp_normalized_limits p),
     (''created_at'', JStr (toISOString (cp_created_at p)))]"

definition goal_context :: "goal_version_row \<Rightarrow> json" where
  "goal_context gv = JObj [(''id'', JStr (gv_id gv)), (''version'', JNum (int (gv_version gv))),
     (''schema_version'', JNum (gv_schema_version gv)), (''structured_goal'', gv_structured_goal gv),
     (''created_by'', JStr ''FOUNDER''), (''created_at'', JStr (toISOString (gv_created_at gv)))]"

definition attachment_context :: "object_row \<Rightarrow> json" where
  "attachment_context ob = JObj [(''id'', JStr (ob_id ob)), (''media_type'', json_opt JStr (ob_detected_media_type ob)),
     (''size_bytes'', JNum (int (ob_size_bytes ob))), (''checksum_sha256'', JStr (ob_checksum_sha256 ob)),
     (''filename'', json_opt JStr (ob_original_filename ob))]"

definition qualification_context :: "qualification_row option \<Rightarrow> json" where
  "qualification_context row =
     (case row of
        None \<Rightarrow> JNull
      | Some q \<Rightarrow> JObj [(''result'', JStr (result_text (gq_result q))),
          (''reason_codes'', JArr (map JStr (gq_reason_codes q))), (''explanation'', JStr (gq_explanation q)),
          (''proposal'', json_opt JStr (gq_proposal q)), (''clarification_questions'', JArr (gq_clarification_questions q)),
          (''screen_estimate'', JNum (gq_screen_estimate q)), (''policy_version'', JStr (gq_policy_version q))])"

definition run_summary :: "run_row \<Rightarrow> (task_state \<times> nat) list \<Rightarrow> json" where
  "run_summary r counts = JObj
     [(''task_counts'', JObj (map (\<lambda>(st, n). (task_state_text st, JNum (int n))) counts)),
      (''pending_decisions'', JNum (if prefix ''AWAITING_'' (run_state_text (r_state r)) then 1 else 0)),
      (''blocking_reason'', json_opt JStr (case r_blocking_reason_code r of None \<Rightarrow> r_failure_reason_code r | Some b \<Rightarrow> Some b))]"

definition Runs_get :: "request_actor \<Rightarrow> uuid \<Rightarrow> json call" where
  "Runs_get actor runId =
     tx_bind (tx_lift (companyScopeFromActor actor)) (\<lambda>companyId.
     tx_bind (query (\<lambda>d. first_row (run_rows companyId runId d))) (\<lambda>row.
     tx_bind (tx_require runNotFound row) (\<lambda>(r, cs, p, gv, q).
     tx_bind (query (task_counts companyId runId)) (\<lambda>counts.
     tx_bind (query (frozen_attachments companyId (cs_goal_version_id cs))) (\<lambda>attachments.
     tx_return (JObj
       [(''id'', JStr (r_id r)), (''initiative_id'', JStr (r_initiative_id r)), (''state'', JStr (run_state_text (r_state r))),
        (''stage'', JStr (stage_text (r_stage r))), (''version'', JNum (int (r_row_version r))),
        (''workflow_version'', JStr (r_workflow_version r)), (''policy_version'', JStr (r_policy_version r)),
        (''context'', JObj
          [(''company_profile_version_id'', JStr (cs_company_profile_version_id cs)),
           (''goal_version_id'', JStr (cs_goal_version_id cs)),
           (''answer_version_ids'', JArr (map JStr (cs_answer_version_ids cs))),
           (''company_profile'', profile_context p), (''goal'', goal_context gv),
           (''attachments'', JArr (map attachment_context attachments))]),
        (''qualification'', qualification_context q), (''summary'', run_summary r counts),
        (''created_at'', JStr (toISOString (r_created_at r))), (''updated_at'', JStr (toISOString (r_updated_at r)))]))))))"

section \<open>Tasks, events, deletion\<close>

definition assertRun :: "uuid \<Rightarrow> uuid \<Rightarrow> unit call" where
  "assertRun companyId runId =
     tx_bind (query (\<lambda>d. find (\<lambda>r. r_company_id r = companyId \<and> r_id r = runId) (runs d))) (\<lambda>row.
     tx_bind (tx_require runNotFound row) (\<lambda>_. tx_return ()))"

definition task_entry :: "task_row \<times> employee_row option \<Rightarrow> json" where
  "task_entry = (\<lambda>(t, e). JObj
     [(''id'', JStr (t_id t)), (''type'', JStr (t_type t)), (''state'', JStr (task_state_text (t_state t))),
      (''priority'', JNum (t_priority t)), (''attempt_count'', JNum (int (t_attempt_count t))),
      (''row_version'', JNum (int (t_row_version t))), (''blocker_code'', json_opt JStr (t_blocker_code t)),
      (''created_at'', JStr (toISOString (t_created_at t))), (''updated_at'', JStr (toISOString (t_updated_at t))),
      (''completed_at'', json_opt (\<lambda>n. JStr (toISOString n)) (t_completed_at t)),
      (''employee_key'', json_opt (\<lambda>r. JStr (ed_employee_key r)) e),
      (''employee_version'', json_opt (\<lambda>r. JNum (int (ed_version r))) e)])"

definition Runs_tasks :: "request_actor \<Rightarrow> uuid \<Rightarrow> task_query \<Rightarrow> json list call" where
  "Runs_tasks actor runId q =
     tx_bind (tx_lift (companyScopeFromActor actor)) (\<lambda>companyId.
     tx_then (assertRun companyId runId)
     (tx_bind (query (\<lambda>d. take (tq_limit q) (sort_key (\<lambda>(t, e). (t_created_at t, t_id t))
         [(t, e). t \<leftarrow> filter (\<lambda>t. t_company_id t = companyId \<and> t_run_id t = runId \<and>
              filtered_by (tq_state q) (task_state_text (t_state t)) \<and> filtered_by (tq_type q) (t_type t)) (tasks d),
            e \<leftarrow> left_join (filter (\<lambda>e. Some (ed_id e) = t_owner_employee_definition_id t) (employee_definitions d))])))
       (\<lambda>rows. tx_return (map task_entry rows))))"

definition event_entry :: "event_row \<Rightarrow> json" where
  "event_entry e = JObj
     [(''event_id'', JStr (ev_id e)), (''schema_version'', JNum (int (ev_schema_version e))), (''type'', JStr (ev_type e)),
      (''run_sequence'', json_opt (\<lambda>n. JNum (int n)) (ev_run_sequence e)),
      (''actor'', JObj [(''type'', JStr (ev_actor_type e)), (''id'', JStr (ev_actor_id e)),
         (''version'', json_opt JStr (ev_actor_version e))]),
      (''occurred_at'', JStr (toISOString (ev_occurred_at e))), (''correlation_id'', JStr (ev_correlation_id e)),
      (''causation_id'', json_opt JStr (ev_causation_id e)), (''audience'', JStr (ev_audience e)),
      (''payload'', ev_payload e)]"

text \<open>\<open>run_sequence > $3\<close> is not true of a null sequence.\<close>

definition after_sequence :: "nat \<Rightarrow> event_row \<Rightarrow> bool" where
  "after_sequence n e \<longleftrightarrow> (case ev_run_sequence e of None \<Rightarrow> False | Some k \<Rightarrow> n < k)"

definition sequence_of :: "event_row \<Rightarrow> nat" where
  "sequence_of e = (case ev_run_sequence e of None \<Rightarrow> 0 | Some k \<Rightarrow> k)"

definition Runs_events :: "request_actor \<Rightarrow> uuid \<Rightarrow> event_query \<Rightarrow> (json list \<times> bool) call" where
  "Runs_events actor runId q =
     tx_bind (tx_lift (companyScopeFromActor actor)) (\<lambda>companyId.
     tx_then (assertRun companyId runId)
     (tx_bind (query (\<lambda>d. take (eq_limit q + 1) (sort_key sequence_of (filter (\<lambda>e. ev_company_id e = companyId \<and>
         ev_run_id e = Some runId \<and> after_sequence (eq_after_sequence q) e \<and> filtered_by (eq_type q) (ev_type e)) (events d)))))
       (\<lambda>rows. tx_return (map event_entry (take (eq_limit q) rows), eq_limit q < length rows))))"

definition denyDelete :: "request_actor \<Rightarrow> uuid \<Rightarrow> unit call" where
  "denyDelete actor runId =
     tx_bind (tx_lift (companyScopeFromActor actor)) (\<lambda>companyId.
     tx_then (assertRun companyId runId)
       (tx_throw (Domain (DomainError 403 ''action_denied'' ''Run deletion is not available in this release.''
          (Some ''The action is not allowed'') None None))))"

section \<open>The pages of the event log\<close>

lemma run_events_sequence:
  assumes "event_log_ok d"
  shows "map ev_run_sequence (run_events rid d) = map Some [1..<Suc (length (run_events rid d))]"
proof (cases "run_events rid d = []")
  case False
  then obtain e where "e \<in> set (events d)" "ev_run_id e = Some rid"
    by (auto simp: run_events_def filter_empty_conv)
  with assms obtain c where "c \<in> set (run_event_counters d)" "rc_run_id c = rid" by (auto simp: event_log_ok_def)
  with assms have n: "0 < rc_next_sequence c" and m: "map ev_run_sequence (run_events rid d) = map Some [1..<rc_next_sequence c]"
    by (auto simp: event_log_ok_def numbered_def list_all_iff)
  from m have "length (run_events rid d) = rc_next_sequence c - 1" by (metis length_map length_upt)
  with n m show ?thesis by simp
qed simp

lemma nth_sequence:
  assumes "event_log_ok d" and "i < length (run_events rid d)"
  shows "ev_run_sequence (run_events rid d ! i) = Some (Suc i)"
proof -
  have "map ev_run_sequence (run_events rid d) ! i = map Some [1..<Suc (length (run_events rid d))] ! i"
    by (simp only: run_events_sequence [OF assms(1)])
  with assms(2) show ?thesis by (simp del: upt_Suc)
qed

lemma filter_upper:
  "(\<And>i. i < length xs \<Longrightarrow> P (xs ! i) = (n \<le> i)) \<Longrightarrow> filter P xs = drop n xs"
proof (induction xs arbitrary: n)
  case (Cons x xs)
  have x: "P x = (n = 0)" using Cons.prems [of 0] by simp
  have "P (xs ! i) = (n - 1 \<le> i)" if "i < length xs" for i using Cons.prems [of "Suc i"] that by auto
  then have "filter P xs = drop (n - 1) xs" by (rule Cons.IH)
  with x show ?case by (cases n) simp_all
qed simp

lemma after_drop: "event_log_ok d \<Longrightarrow> filter (after_sequence n) (run_events rid d) = drop n (run_events rid d)"
  by (rule filter_upper) (simp add: after_sequence_def nth_sequence less_Suc_eq_le)

lemma events_sorted: "event_log_ok d \<Longrightarrow> sorted (map sequence_of (run_events rid d))"
  by (simp add: sorted_iff_nth_mono sequence_of_def nth_sequence)

definition own_events :: "uuid \<Rightarrow> db \<Rightarrow> bool" where
  "own_events companyId d \<longleftrightarrow> (\<forall>e \<in> set (events d). \<forall>rid. ev_run_id e = Some rid \<longrightarrow>
     (\<exists>r \<in> set (runs d). r_id r = rid \<and> r_company_id r = ev_company_id e)) \<and> distinct (map r_id (runs d))"

lemma page_rows:
  assumes "event_log_ok d" and "own_events c d" and "find (\<lambda>r. r_company_id r = c \<and> r_id r = rid) (runs d) = Some r"
  shows "sort_key sequence_of (filter (\<lambda>e. ev_company_id e = c \<and> ev_run_id e = Some rid \<and> after_sequence n e \<and> P e) (events d)) =
    filter P (drop n (run_events rid d))"
proof -
  have r: "r \<in> set (runs d)" "r_company_id r = c" "r_id r = rid" using assms(3) by (auto dest: find_SomeD)
  have "ev_company_id e = c" if "e \<in> set (events d)" "ev_run_id e = Some rid" for e
  proof -
    from assms(2) that obtain x where x: "x \<in> set (runs d)" "r_id x = rid" "r_company_id x = ev_company_id e"
      by (auto simp: own_events_def)
    with r assms(2) have "x = r" by (intro distinct_map_eq [of r_id]) (simp_all add: own_events_def)
    with x r show ?thesis by simp
  qed
  then have "filter (\<lambda>e. ev_company_id e = c \<and> ev_run_id e = Some rid \<and> after_sequence n e \<and> P e) (events d) =
      filter P (filter (after_sequence n) (run_events rid d))"
    unfolding run_events_def filter_filter by (intro filter_cong) auto
  also have "\<dots> = filter P (drop n (run_events rid d))" by (simp only: after_drop [OF assms(1)])
  finally have f: "filter (\<lambda>e. ev_company_id e = c \<and> ev_run_id e = Some rid \<and> after_sequence n e \<and> P e) (events d) =
      filter P (drop n (run_events rid d))" .
  have "sorted (map sequence_of (drop n (run_events rid d)))"
    using events_sorted [OF assms(1), of rid] by (simp add: drop_map [symmetric] sorted_wrt_drop)
  then have "sorted (map sequence_of (filter P (drop n (run_events rid d))))" by (rule sorted_filter)
  then show ?thesis unfolding f by (rule sort_key_id_if_sorted)
qed

lemma Runs_events_run:
  assumes "event_log_ok (sys_db s)" and "own_events c (sys_db s)" and "ra_companyId actor = Some c" and "c \<noteq> []"
    and "find (\<lambda>r. r_company_id r = c \<and> r_id r = rid) (runs (sys_db s)) = Some r"
    and "rows = filter (\<lambda>e. filtered_by (eq_type q) (ev_type e)) (drop (eq_after_sequence q) (run_events rid (sys_db s)))"
  shows "Runs_events actor rid q s = (Inr (map event_entry (take (eq_limit q) rows), eq_limit q < length rows), s)"
proof -
  have c: "companyScopeFromActor actor = Inr c" using assms(3,4) by (simp add: companyScopeFromActor_Inr)
  let ?sorted = "sort_key sequence_of (filter (\<lambda>e. ev_company_id e = c \<and> ev_run_id e = Some rid \<and>
      after_sequence (eq_after_sequence q) e \<and> filtered_by (eq_type q) (ev_type e)) (events (sys_db s)))"
  have "Runs_events actor rid q s = (Inr (map event_entry (take (eq_limit q) (take (eq_limit q + 1) ?sorted)),
      eq_limit q < length (take (eq_limit q + 1) ?sorted)), s)"
    using assms(5)
    by (simp add: Runs_events_def c tx_bind_def tx_then_def tx_lift_def assertRun_def query_apply tx_require_def tx_return_def
        del: take_take length_take length_sort)
  then show ?thesis
    unfolding page_rows [OF assms(1,2,5), of "eq_after_sequence q" "\<lambda>e. filtered_by (eq_type q) (ev_type e)"] assms(6) [symmetric]
    by (simp add: min_def)
qed

text \<open>
  A client that follows the pages: it asks for the events after the last one it has, until a page says that
  there are no more.
\<close>

definition page_cursor :: "json list \<Rightarrow> nat" where
  "page_cursor page = (case json_get ''run_sequence'' (last page) of Some (JNum n) \<Rightarrow> nat n | _ \<Rightarrow> 0)"

fun follow_pages :: "request_actor \<Rightarrow> uuid \<Rightarrow> nat \<Rightarrow> nat \<Rightarrow> nat \<Rightarrow> sys \<Rightarrow> json list option" where
  "follow_pages actor runId limit after 0 s = None"
| "follow_pages actor runId limit after (Suc fuel) s =
     (case fst (Runs_events actor runId \<lparr>eq_after_sequence = after, eq_limit = limit, eq_type = None\<rparr> s) of
        Inl _ \<Rightarrow> None
      | Inr (page, hasMore) \<Rightarrow>
          if hasMore then map_option (\<lambda>rest. page @ rest) (follow_pages actor runId limit (page_cursor page) fuel s)
          else Some page)"

lemma page_cursor_last:
  assumes "event_log_ok d" and "0 < limit" and "after + limit < length (run_events rid d)"
  shows "page_cursor (map event_entry (take limit (drop after (run_events rid d)))) = after + limit"
proof -
  let ?p = "take limit (drop after (run_events rid d))"
  have "last ?p = run_events rid d ! (after + limit - 1)"
    using assms(2,3) by (subst last_conv_nth) auto
  moreover have "ev_run_sequence (run_events rid d ! (after + limit - 1)) = Some (after + limit)"
    using nth_sequence [OF assms(1), of "after + limit - 1" rid] assms(2,3) by simp
  moreover have "?p \<noteq> []" using assms(2,3) by simp
  ultimately show ?thesis by (simp add: page_cursor_def last_map event_entry_def json_get_def json_opt_def)
qed

text \<open>
  C31. The pages of the event log add up to the log. A founder who reads a run's events page by page, with any
  page size, following the sequence number of the last event of each page, gets every event of the run exactly
  once and in order, after as many requests as there are events at most.
\<close>

theorem event_pages_complete:
  assumes "event_log_ok (sys_db s)" and "own_events c (sys_db s)" and "ra_companyId actor = Some c" and "c \<noteq> []"
    and "find (\<lambda>r. r_company_id r = c \<and> r_id r = runId) (runs (sys_db s)) = Some r"
    and "1 \<le> limit" and "length (run_events runId (sys_db s)) < fuel"
  shows "follow_pages actor runId limit 0 fuel s = Some (map event_entry (run_events runId (sys_db s)))"
proof -
  let ?es = "run_events runId (sys_db s)"
  have "length ?es < after + fuel \<Longrightarrow> after \<le> length ?es \<Longrightarrow>
      follow_pages actor runId limit after fuel s = Some (map event_entry (drop after ?es))" for after
  proof (induction fuel arbitrary: after)
    case (Suc fuel)
    have page: "Runs_events actor runId \<lparr>eq_after_sequence = after, eq_limit = limit, eq_type = None\<rparr> s =
        (Inr (map event_entry (take limit (drop after ?es)), limit < length (drop after ?es)), s)"
      using Runs_events_run [OF assms(1-5) refl, of "\<lparr>eq_after_sequence = after, eq_limit = limit, eq_type = None\<rparr>"]
      by (simp add: filtered_by_def)
    show ?case
    proof (cases "limit < length (drop after ?es)")
      case True
      then have "follow_pages actor runId limit (after + limit) fuel s = Some (map event_entry (drop (after + limit) ?es))"
        using Suc.prems assms(6) by (intro Suc.IH) auto
      moreover have "page_cursor (map event_entry (take limit (drop after ?es))) = after + limit"
        using True assms(6) by (intro page_cursor_last [OF assms(1)]) auto
      moreover have "take limit (drop after ?es) @ drop (after + limit) ?es = drop after ?es"
        by (metis add.commute append_take_drop_id drop_drop)
      ultimately show ?thesis using True by (simp add: page map_append [symmetric] del: map_append)
    next
      case False
      then show ?thesis by (simp add: page)
    qed
  qed simp
  from this [of 0] assms(7) show ?thesis by simp
qed

section \<open>What a founder can learn\<close>

text \<open>The rows of one company, and the employees, which belong to none.\<close>

definition own_rows :: "('r \<Rightarrow> uuid) \<Rightarrow> uuid \<Rightarrow> 'r list \<Rightarrow> 'r list" where
  "own_rows company c rows = filter (\<lambda>r. company r = c) rows"

definition same_view :: "uuid \<Rightarrow> db \<Rightarrow> db \<Rightarrow> bool" where
  "same_view c d d' \<longleftrightarrow>
     own_rows r_company_id c (runs d) = own_rows r_company_id c (runs d') \<and>
     own_rows cs_company_id c (context_snapshots d) = own_rows cs_company_id c (context_snapshots d') \<and>
     own_rows cp_company_id c (company_profile_versions d) = own_rows cp_company_id c (company_profile_versions d') \<and>
     own_rows gv_company_id c (goal_versions d) = own_rows gv_company_id c (goal_versions d') \<and>
     own_rows gq_company_id c (goal_qualifications d) = own_rows gq_company_id c (goal_qualifications d') \<and>
     own_rows ga_company_id c (goal_version_attachments d) = own_rows ga_company_id c (goal_version_attachments d') \<and>
     own_rows ob_company_id c (object_records d) = own_rows ob_company_id c (object_records d') \<and>
     own_rows t_company_id c (tasks d) = own_rows t_company_id c (tasks d') \<and>
     own_rows ev_company_id c (events d) = own_rows ev_company_id c (events d') \<and>
     employee_definitions d = employee_definitions d'"

text \<open>A filter that asks for the company sees the own rows only.\<close>

lemma own_filter:
  assumes "own_rows k c xs = own_rows k c ys" and "\<And>x. P x \<Longrightarrow> k x = c"
  shows "filter P xs = filter P ys"
proof -
  have "filter P zs = filter P (own_rows k c zs)" for zs
    unfolding own_rows_def filter_filter using assms(2) by (intro filter_cong) auto
  with assms(1) show ?thesis by metis
qed

lemma concat_map_cong: "xs = ys \<Longrightarrow> (\<And>x. x \<in> set ys \<Longrightarrow> f x = g x) \<Longrightarrow> concat (map f xs) = concat (map g ys)"
  by (metis map_cong)

lemma map_rows_cong: "xs = ys \<Longrightarrow> map f xs = map f ys"
  by simp

lemma own_run_rows:
  assumes "same_view c d d'"
  shows "run_rows c rid d = run_rows c rid d'"
  unfolding run_rows_def
  by (intro concat_map_cong map_rows_cong arg_cong [where f = left_join] own_filter [where k = r_company_id and c = c]
      own_filter [where k = cs_company_id and c = c] own_filter [where k = cp_company_id and c = c]
      own_filter [where k = gv_company_id and c = c] own_filter [where k = gq_company_id and c = c])
    (use assms in \<open>auto simp: same_view_def\<close>)

lemma own_task_counts: "same_view c d d' \<Longrightarrow> task_counts c rid d = task_counts c rid d'"
  unfolding task_counts_def by (subst own_filter [where k = t_company_id and c = c]) (auto simp: same_view_def)

lemma own_attachments:
  assumes "same_view c d d'"
  shows "frozen_attachments c gvid d = frozen_attachments c gvid d'"
  unfolding frozen_attachments_def
  by (intro arg_cong [where f = "\<lambda>xs. map snd (sort_key f xs)" for f] concat_map_cong map_rows_cong
      own_filter [where k = ga_company_id and c = c] own_filter [where k = ob_company_id and c = c])
    (use assms in \<open>auto simp: same_view_def\<close>)

lemma own_find_run:
  "same_view c d d' \<Longrightarrow> find (\<lambda>r. r_company_id r = c \<and> r_id r = rid) (runs d) = find (\<lambda>r. r_company_id r = c \<and> r_id r = rid) (runs d')"
  unfolding find_filter_hd by (subst own_filter [where k = r_company_id and c = c]) (auto simp: same_view_def)

text \<open>
  C28. A founder's reads depend on the own company's rows only. If two databases agree on the rows of a company,
  then whatever else they hold, every read of a run by that company's founder (the run and its context, its
  tasks, its events, the answer to a deletion) gives the same answer or fails with the same error, so nothing of
  another tenant can be learned from them; and no read changes anything.
\<close>

theorem run_reads_isolated:
  assumes "ra_companyId actor = Some c" and "same_view c (sys_db s) (sys_db s')"
  shows "fst (Runs_get actor runId s) = fst (Runs_get actor runId s') \<and>
    fst (Runs_tasks actor runId tq s) = fst (Runs_tasks actor runId tq s') \<and>
    fst (Runs_events actor runId eq s) = fst (Runs_events actor runId eq s') \<and>
    fst (denyDelete actor runId s) = fst (denyDelete actor runId s') \<and>
    snd (Runs_get actor runId s) = s \<and> snd (Runs_tasks actor runId tq s) = s \<and>
    snd (Runs_events actor runId eq s) = s \<and> snd (denyDelete actor runId s) = s"
proof (cases "companyScopeFromActor actor")
  case (Inl e)
  then show ?thesis
    by (simp add: Runs_get_def Runs_tasks_def Runs_events_def denyDelete_def tx_bind_def tx_lift_def)
next
  case (Inr c')
  with assms(1) have c: "companyScopeFromActor actor = Inr c" by (simp add: companyScopeFromActor_Inr)
  note view = assms(2)
  have t: "filter (\<lambda>t. t_company_id t = c \<and> P t) (tasks (sys_db s)) = filter (\<lambda>t. t_company_id t = c \<and> P t) (tasks (sys_db s'))" for P
    by (rule own_filter [where k = t_company_id and c = c]) (use view in \<open>auto simp: same_view_def\<close>)
  have e: "filter (\<lambda>e. ev_company_id e = c \<and> P e) (events (sys_db s)) = filter (\<lambda>e. ev_company_id e = c \<and> P e) (events (sys_db s'))" for P
    by (rule own_filter [where k = ev_company_id and c = c]) (use view in \<open>auto simp: same_view_def\<close>)
  have emp: "employee_definitions (sys_db s) = employee_definitions (sys_db s')" using view by (simp add: same_view_def)
  show ?thesis
    unfolding Runs_get_def Runs_tasks_def Runs_events_def denyDelete_def assertRun_def c
    using own_run_rows [OF view] own_task_counts [OF view] own_attachments [OF view] own_find_run [OF view]
    by (simp add: tx_bind_def tx_then_def tx_lift_def query_apply tx_require_def tx_return_def tx_throw_def t e emp
        split: option.split prod.split)
qed

end
