(* ===== verification/Configuration.thy ===== *)
theory Configuration
  imports Auth
begin

text \<open>
  \<open>src/config\<close> and \<open>src/modules/health\<close>: the validation of the environment variables, the configuration that
  is read from them, the redaction of configuration texts, and the readiness check.

  The Joi library converts and checks single values: its conversions to a number and to a boolean, its URI
  check and the text of its messages are the fields of a \<open>joi\<close> record. The variables are a list of names and
  values; a variable that is not set is absent.
\<close>

section \<open>Validation\<close>

type_synonym environment = "(string \<times> string) list"

record joi =
  joi_integer :: "string \<Rightarrow> int option"
  joi_boolean :: "string \<Rightarrow> bool option"
  joi_uri :: "string list \<Rightarrow> string \<Rightarrow> bool"
  joi_message :: "string \<Rightarrow> string \<Rightarrow> string"

text \<open>
  The kinds of rules of \<open>configurationSchema\<close>: a string from a list, a number in a range, a string of a least
  length, a URI with one of the schemes (any when the list is empty), a boolean, and the pattern of the workflow version.
\<close>

datatype rule =
    One_of "string list"
  | In_range int int
  | Min_length nat
  | Uri "string list"
  | Boolean
  | Workflow_pattern

record key_rule =
  kr_key :: string
  kr_rule :: rule
  kr_required :: bool

text \<open>\<open>/^prototype-run\/v[1-9][0-9]*$/\<close>.\<close>

definition workflow_pattern :: "string \<Rightarrow> bool" where
  "workflow_pattern v \<longleftrightarrow> prefix ''prototype-run/v'' v \<and>
     (case drop (length ''prototype-run/v'') v of [] \<Rightarrow> False
      | c # ds \<Rightarrow> is_digit c \<and> c \<noteq> CHR ''0'' \<and> list_all is_digit ds)"

definition configurationSchema :: "key_rule list" where
  "configurationSchema =
     [\<lparr>kr_key = ''NODE_ENV'', kr_rule = One_of [''development'', ''test'', ''production''], kr_required = False\<rparr>,
      \<lparr>kr_key = ''APP_ENV'', kr_rule = One_of [''local'', ''test'', ''staging'', ''production''], kr_required = False\<rparr>,
      \<lparr>kr_key = ''PORT'', kr_rule = In_range 0 65535, kr_required = False\<rparr>,
      \<lparr>kr_key = ''LOG_LEVEL'', kr_rule = One_of [''fatal'', ''error'', ''warn'', ''info'', ''debug'', ''trace''], kr_required = False\<rparr>,
      \<lparr>kr_key = ''DATABASE_URL'', kr_rule = Uri [''postgres'', ''postgresql''], kr_required = True\<rparr>,
      \<lparr>kr_key = ''DATABASE_SSL'', kr_rule = Boolean, kr_required = False\<rparr>,
      \<lparr>kr_key = ''AUTH_MODE'', kr_rule = One_of [''development'', ''jwt''], kr_required = False\<rparr>,
      \<lparr>kr_key = ''JWT_SECRET'', kr_rule = Min_length 32, kr_required = True\<rparr>,
      \<lparr>kr_key = ''JWT_ISSUER'', kr_rule = Min_length 1, kr_required = True\<rparr>,
      \<lparr>kr_key = ''JWT_AUDIENCE'', kr_rule = Min_length 1, kr_required = True\<rparr>,
      \<lparr>kr_key = ''WORKER_ID'', kr_rule = Min_length 1, kr_required = False\<rparr>,
      \<lparr>kr_key = ''WORKER_POLL_INTERVAL_MS'', kr_rule = In_range 50 60000, kr_required = False\<rparr>,
      \<lparr>kr_key = ''WORKER_LEASE_SECONDS'', kr_rule = In_range 5 900, kr_required = False\<rparr>,
      \<lparr>kr_key = ''MODEL_PROVIDER'', kr_rule = One_of [''deterministic''], kr_required = False\<rparr>,
      \<lparr>kr_key = ''WORKFLOW_VERSION'', kr_rule = Workflow_pattern, kr_required = False\<rparr>,
      \<lparr>kr_key = ''OBJECT_STORAGE_ENDPOINT'', kr_rule = Uri [], kr_required = True\<rparr>,
      \<lparr>kr_key = ''OBJECT_STORAGE_REGION'', kr_rule = Min_length 1, kr_required = True\<rparr>,
      \<lparr>kr_key = ''OBJECT_STORAGE_BUCKET'', kr_rule = Min_length 3, kr_required = True\<rparr>,
      \<lparr>kr_key = ''OBJECT_STORAGE_ACCESS_KEY'', kr_rule = Min_length 1, kr_required = True\<rparr>,
      \<lparr>kr_key = ''OBJECT_STORAGE_SECRET_KEY'', kr_rule = Min_length 8, kr_required = True\<rparr>,
      \<lparr>kr_key = ''OBJECT_STORAGE_FORCE_PATH_STYLE'', kr_rule = Boolean, kr_required = False\<rparr>]"

fun rule_accepts :: "joi \<Rightarrow> rule \<Rightarrow> string \<Rightarrow> bool" where
  "rule_accepts J (One_of vs) v = (v \<in> set vs)"
| "rule_accepts J (In_range lo hi) v = (case joi_integer J v of None \<Rightarrow> False | Some n \<Rightarrow> lo \<le> n \<and> n \<le> hi)"
| "rule_accepts J (Min_length n) v = (v \<noteq> [] \<and> n \<le> length v)"
| "rule_accepts J (Uri schemes) v = joi_uri J schemes v"
| "rule_accepts J Boolean v = (joi_boolean J v \<noteq> None)"
| "rule_accepts J Workflow_pattern v = workflow_pattern v"

text \<open>The keys a rule rejects, with the kind of violation.\<close>

definition schema_violations :: "joi \<Rightarrow> environment \<Rightarrow> (string \<times> string) list" where
  "schema_violations J config = concat (map (\<lambda>k. case map_of config (kr_key k) of
       None \<Rightarrow> if kr_required k then [(kr_key k, ''any.required'')] else []
     | Some v \<Rightarrow> if rule_accepts J (kr_rule k) v then [] else [(kr_key k, ''invalid'')]) configurationSchema)"

text \<open>A value after conversion, with its default.\<close>

definition string_value :: "environment \<Rightarrow> string \<Rightarrow> string \<Rightarrow> string" where
  "string_value config key dflt = (case map_of config key of None \<Rightarrow> dflt | Some v \<Rightarrow> v)"

definition boolean_value :: "joi \<Rightarrow> environment \<Rightarrow> string \<Rightarrow> bool \<Rightarrow> bool" where
  "boolean_value J config key dflt =
     (case map_of config key of None \<Rightarrow> dflt | Some v \<Rightarrow> (case joi_boolean J v of None \<Rightarrow> dflt | Some b \<Rightarrow> b))"

text \<open>The custom rule over the converted values; it runs when no single rule was violated.\<close>

definition custom_message :: "joi \<Rightarrow> environment \<Rightarrow> string option" where
  "custom_message J config =
     (let app_env = string_value config ''APP_ENV'' ''local''; mode = string_value config ''AUTH_MODE'' ''development'' in
      if mode = ''development'' \<and> app_env \<noteq> ''local'' \<and> app_env \<noteq> ''test''
      then Some ''AUTH_MODE=development is restricted to APP_ENV=local|test''
      else if app_env = ''staging'' \<or> app_env = ''production''
      then (if \<not> boolean_value J config ''DATABASE_SSL'' False
            then Some ''DATABASE_SSL must be true when APP_ENV is staging or production''
            else if \<not> prefix ''https://'' (string_value config ''OBJECT_STORAGE_ENDPOINT'' '''')
            then Some ''OBJECT_STORAGE_ENDPOINT must use https when APP_ENV is staging or production''
            else None)
      else None)"

definition validation_messages :: "joi \<Rightarrow> environment \<Rightarrow> string list" where
  "validation_messages J config =
     (case schema_violations J config of
        [] \<Rightarrow> (case custom_message J config of None \<Rightarrow> [] | Some m \<Rightarrow> [m])
      | vs \<Rightarrow> map (\<lambda>(key, rule). joi_message J key rule) vs)"

section \<open>Redaction\<close>

definition redacted_mark :: string where
  "redacted_mark = ''[REDACTED]''"

definition url_delimiter :: "char \<Rightarrow> bool" where
  "url_delimiter c \<longleftrightarrow> c \<in> set '':@/?#''"

text \<open>
  \<open>text.replace(/:([^:@/?#]+)@/g, ':[REDACTED]@')\<close>: a colon, a longest non-empty run of other characters, an \<open>@\<close>.
\<close>

function redact_urls :: "string \<Rightarrow> string" where
  "redact_urls [] = []"
| "redact_urls (c # cs) =
     (let run = takeWhile (\<lambda>x. \<not> url_delimiter x) cs; rest = dropWhile (\<lambda>x. \<not> url_delimiter x) cs
      in if c = CHR '':'' \<and> run \<noteq> [] \<and> rest \<noteq> [] \<and> hd rest = CHR ''@''
         then '':'' @ redacted_mark @ ''@'' @ redact_urls (tl rest)
         else c # redact_urls cs)"
  by pat_completeness auto

termination
proof (relation "measure length")
  fix c :: char and cs run rest :: string
  assume "rest = dropWhile (\<lambda>x. \<not> url_delimiter x) cs"
  then have "length rest \<le> length cs" by (simp add: length_dropWhile_le)
  then show "(tl rest, c # cs) \<in> measure length" by simp
qed simp_all

text \<open>\<open>text.split(separator)\<close> for a separator that is not empty.\<close>

fun split_once :: "string \<Rightarrow> string \<Rightarrow> (string \<times> string) option" where
  "split_once sep [] = None"
| "split_once sep (c # cs) =
     (if prefix sep (c # cs) then Some ([], drop (length sep) (c # cs))
      else map_option (\<lambda>(before, rest). (c # before, rest)) (split_once sep cs))"

lemma split_once_Some: "split_once sep s = Some (before, rest) \<Longrightarrow> s = before @ sep @ rest"
proof (induction s arbitrary: before)
  case (Cons c cs)
  show ?case
  proof (cases "prefix sep (c # cs)")
    case True
    with Cons.prems show ?thesis by (auto simp: prefix_def)
  next
    case False
    with Cons show ?thesis by auto
  qed
qed simp

function split_string :: "string \<Rightarrow> string \<Rightarrow> string list" where
  "split_string sep s =
     (if sep = [] then [s]
      else case split_once sep s of None \<Rightarrow> [s] | Some (before, rest) \<Rightarrow> before # split_string sep rest)"
  by pat_completeness auto

termination
  by (relation "measure (\<lambda>(sep, s). length s)") (auto dest!: split_once_Some)

declare split_string.simps [simp del]

fun join_with :: "string \<Rightarrow> string list \<Rightarrow> string" where
  "join_with mark [] = []"
| "join_with mark [p] = p"
| "join_with mark (p # q # ps) = p @ mark @ join_with mark (q # ps)"

definition secret_key :: "string \<Rightarrow> bool" where
  "secret_key key \<longleftrightarrow> list_ex (js_includes (js_lower key)) [''secret'', ''password'', ''access_key'', ''credential'']"

definition redactable :: "string \<times> string \<Rightarrow> bool" where
  "redactable entry \<longleftrightarrow> snd entry \<noteq> [] \<and>
     (secret_key (fst entry) \<or> fst entry = ''DATABASE_URL'' \<or> fst entry = ''JWT_SECRET'')"

definition redact_value :: "string \<Rightarrow> string \<Rightarrow> string" where
  "redact_value raw text = (if js_includes text raw then join_with redacted_mark (split_string raw text) else text)"

definition redactConfigurationText :: "string \<Rightarrow> environment \<Rightarrow> string" where
  "redactConfigurationText text config =
     foldl (\<lambda>redacted entry. if redactable entry then redact_value (snd entry) redacted else redacted) (redact_urls text) config"

definition formatConfigurationError :: "string list \<Rightarrow> environment \<Rightarrow> string" where
  "formatConfigurationError messages config =
     redactConfigurationText (''Config validation error: '' @ join_with ''; '' messages) config"

definition assertConfiguration :: "joi \<Rightarrow> environment \<Rightarrow> exn + environment" where
  "assertConfiguration J config =
     (case validation_messages J config of
        [] \<Rightarrow> Inr config
      | messages \<Rightarrow> Inl (JsError (formatConfigurationError messages config)))"

section \<open>The configuration that is read\<close>

text \<open>\<open>Number.parseInt(text, 10)\<close>: white space, a sign, and the longest run of digits; \<open>None\<close> is \<open>NaN\<close>.\<close>

definition js_parse_int :: "string \<Rightarrow> int option" where
  "js_parse_int text =
     (let u = dropWhile js_space text;
          (negative, v) = (case u of c # cs \<Rightarrow> if c = CHR ''-'' then (True, cs) else if c = CHR ''+'' then (False, cs) else (False, u)
                           | [] \<Rightarrow> (False, []));
          ds = takeWhile is_digit v
      in if ds = [] then None else Some ((if negative then - 1 else 1) * int (parse_nat ds)))"

record app_config =
  ac_environment :: string
  ac_nodeEnvironment :: string
  ac_port :: "int option"
  ac_logLevel :: string

definition appConfig :: "environment \<Rightarrow> app_config" where
  "appConfig env = \<lparr>ac_environment = string_value env ''APP_ENV'' ''local'',
     ac_nodeEnvironment = string_value env ''NODE_ENV'' ''development'',
     ac_port = js_parse_int (string_value env ''PORT'' ''3000''), ac_logLevel = string_value env ''LOG_LEVEL'' ''info''\<rparr>"

record auth_config =
  au_mode :: string
  au_jwtSecret :: string
  au_issuer :: string
  au_audience :: string

definition authConfig :: "environment \<Rightarrow> auth_config" where
  "authConfig env = \<lparr>au_mode = string_value env ''AUTH_MODE'' ''development'', au_jwtSecret = string_value env ''JWT_SECRET'' [],
     au_issuer = string_value env ''JWT_ISSUER'' ''aico-backend'', au_audience = string_value env ''JWT_AUDIENCE'' ''aico-control-plane''\<rparr>"

record database_config =
  dc_url :: string
  dc_ssl :: bool

definition databaseConfig :: "environment \<Rightarrow> database_config" where
  "databaseConfig env = \<lparr>dc_url = string_value env ''DATABASE_URL'' [], dc_ssl = (map_of env ''DATABASE_SSL'' = Some ''true'')\<rparr>"

record worker_config =
  wc_id :: string
  wc_pollIntervalMs :: "int option"
  wc_leaseSeconds :: "int option"
  wc_modelProvider :: string
  wc_workflowVersion :: string

definition workerConfig :: "environment \<Rightarrow> worker_config" where
  "workerConfig env = \<lparr>wc_id = string_value env ''WORKER_ID'' ''local-worker-1'',
     wc_pollIntervalMs = js_parse_int (string_value env ''WORKER_POLL_INTERVAL_MS'' ''500''),
     wc_leaseSeconds = js_parse_int (string_value env ''WORKER_LEASE_SECONDS'' ''30''),
     wc_modelProvider = string_value env ''MODEL_PROVIDER'' ''deterministic'',
     wc_workflowVersion = string_value env ''WORKFLOW_VERSION'' ''prototype-run/v1''\<rparr>"

record object_storage_config =
  oc_endpoint :: string
  oc_region :: string
  oc_bucket :: string
  oc_accessKey :: string
  oc_secretKey :: string
  oc_forcePathStyle :: bool

definition objectStorageConfig :: "environment \<Rightarrow> object_storage_config" where
  "objectStorageConfig env = \<lparr>oc_endpoint = string_value env ''OBJECT_STORAGE_ENDPOINT'' [],
     oc_region = string_value env ''OBJECT_STORAGE_REGION'' ''us-east-1'', oc_bucket = string_value env ''OBJECT_STORAGE_BUCKET'' [],
     oc_accessKey = string_value env ''OBJECT_STORAGE_ACCESS_KEY'' [], oc_secretKey = string_value env ''OBJECT_STORAGE_SECRET_KEY'' [],
     oc_forcePathStyle = (map_of env ''OBJECT_STORAGE_FORCE_PATH_STYLE'' \<noteq> Some ''false'')\<rparr>"

section \<open>Health\<close>

datatype probe_state = Up | Down

datatype migration_state = Compatible | Missing | Unknown

record readiness_checks =
  rk_database :: probe_state
  rk_object_store :: probe_state
  rk_migrations :: migration_state

text \<open>The outcomes of the three probes; an error is a rejected promise.\<close>

record readiness_ports =
  rp_pingDatabase :: "exn + unit"
  rp_migrationCompatible :: "exn + bool"
  rp_pingObjectStore :: "exn + unit"

definition collectReadiness :: "readiness_ports \<Rightarrow> bool \<times> readiness_checks" where
  "collectReadiness ports =
     (let checks = \<lparr>rk_database = Down, rk_object_store = Down, rk_migrations = Unknown\<rparr> in
      case rp_pingDatabase ports of
        Inl _ \<Rightarrow> (False, checks)
      | Inr _ \<Rightarrow>
          (case rp_migrationCompatible ports of
             Inl _ \<Rightarrow> (False, checks\<lparr>rk_database := Up\<rparr>)
           | Inr compatible \<Rightarrow>
               let checked = checks\<lparr>rk_database := Up, rk_migrations := (if compatible then Compatible else Missing)\<rparr> in
               (case rp_pingObjectStore ports of
                  Inl _ \<Rightarrow> (False, checked)
                | Inr _ \<Rightarrow> (rk_migrations checked = Compatible, checked\<lparr>rk_object_store := Up\<rparr>))))"

fun probe_text :: "probe_state \<Rightarrow> string" where
  "probe_text Up = ''up''"
| "probe_text Down = ''down''"

fun migration_text :: "migration_state \<Rightarrow> string" where
  "migration_text Compatible = ''compatible''"
| "migration_text Missing = ''missing''"
| "migration_text Unknown = ''unknown''"

definition checks_json :: "readiness_checks \<Rightarrow> json" where
  "checks_json c = JObj [(''database'', JStr (probe_text (rk_database c))), (''object_store'', JStr (probe_text (rk_object_store c))),
     (''migrations'', JStr (migration_text (rk_migrations c)))]"

definition livenessBody :: "string \<Rightarrow> json" where
  "livenessBody role = JObj [(''status'', JStr ''ok''), (''role'', JStr role)]"

text \<open>\<open>HealthController.readiness\<close>; a \<open>ServiceUnavailableException\<close> with an object has no message list.\<close>

definition readiness :: "readiness_ports \<Rightarrow> exn + json" where
  "readiness ports =
     (let (ready, checks) = collectReadiness ports in
      if \<not> ready then Inl (HttpException 503 ''Service Unavailable Exception'' None)
      else Inr (JObj [(''status'', JStr ''ready''), (''role'', JStr ''api''), (''checks'', checks_json checks)]))"

section \<open>What an accepted configuration guarantees\<close>

lemma accepted_rules:
  assumes "assertConfiguration J config = Inr c"
  shows "k \<in> set configurationSchema \<Longrightarrow> map_of config (kr_key k) = Some v \<Longrightarrow> rule_accepts J (kr_rule k) v"
    and "custom_message J config = None"
proof -
  from assms have m: "validation_messages J config = []" by (simp add: assertConfiguration_def split: list.splits)
  then have v: "schema_violations J config = []"
    by (auto simp: validation_messages_def split: list.splits)
  with m show "custom_message J config = None" by (auto simp: validation_messages_def split: option.splits)
  show "rule_accepts J (kr_rule k) v" if "k \<in> set configurationSchema" "map_of config (kr_key k) = Some v"
  proof (rule ccontr)
    assume "\<not> rule_accepts J (kr_rule k) v"
    with that have "(kr_key k, ''invalid'') \<in> set (schema_violations J config)"
      by (force simp: schema_violations_def)
    with v show False by simp
  qed
qed

text \<open>
  Invites exist in development only. When the environment was accepted and names a stage other than
  \<open>local\<close> or \<open>test\<close>, the authentication mode is not \<open>development\<close>, the object store is reached over https, and a
  server that runs with this configuration answers every attempt to issue an invite with 404 and issues none.
\<close>

theorem no_invites_in_production:
  assumes "assertConfiguration J config = Inr c" and "ac_environment (appConfig config) \<notin> {''local'', ''test''}"
    and "app_environment E = ac_environment (appConfig config)" and "auth_mode E = au_mode (authConfig config)"
  shows "au_mode (authConfig config) = ''jwt'' \<and> prefix ''https://'' (oc_endpoint (objectStorageConfig config)) \<and>
    issueInvite E dto s = unavailableRegistration s"
proof -
  note custom = accepted_rules(2) [OF assms(1)]
  let ?app = "string_value config ''APP_ENV'' ''local''" and ?mode = "string_value config ''AUTH_MODE'' ''development''"
  have env: "?app \<noteq> ''local''" "?app \<noteq> ''test''" using assms(2) by (simp_all add: appConfig_def)
  have "v \<in> {''local'', ''test'', ''staging'', ''production''}" if "map_of config ''APP_ENV'' = Some v" for v
    using accepted_rules(1) [OF assms(1), of "\<lparr>kr_key = ''APP_ENV'', kr_rule = One_of [''local'', ''test'', ''staging'', ''production''], kr_required = False\<rparr>" v] that
    by (simp add: configurationSchema_def)
  with env have stage: "?app = ''staging'' \<or> ?app = ''production''"
    unfolding string_value_def by (cases "map_of config ''APP_ENV''") simp_all
  have dev: "?mode \<noteq> ''development''"
    using custom env by (simp add: custom_message_def Let_def split: if_splits)
  have "v \<in> {''development'', ''jwt''}" if "map_of config ''AUTH_MODE'' = Some v" for v
    using accepted_rules(1) [OF assms(1), of "\<lparr>kr_key = ''AUTH_MODE'', kr_rule = One_of [''development'', ''jwt''], kr_required = False\<rparr>" v] that
    by (simp add: configurationSchema_def)
  with dev have jwt: "?mode = ''jwt''"
    unfolding string_value_def by (cases "map_of config ''AUTH_MODE''") simp_all
  have "prefix ''https://'' (string_value config ''OBJECT_STORAGE_ENDPOINT'' [])"
    using custom env stage dev unfolding custom_message_def Let_def by (simp split: if_splits)
  moreover have "issueInvite E dto s = unavailableRegistration s"
    using jwt assms(4)
    by (simp add: issueInvite_def assertDevelopmentAdapter_def authConfig_def tx_then_def tx_bind_def tx_when_def
        unavailableRegistration_def tx_throw_def)
  ultimately show ?thesis using jwt by (simp add: authConfig_def objectStorageConfig_def)
qed

text \<open>
  The TLS switch is validated one way and read another. For a production environment that was accepted, the
  validated \<open>DATABASE_SSL\<close> is true, but the connection uses TLS only if the variable is exactly \<open>true\<close>: any other
  spelling that the validator accepts as true passes the check and turns TLS off.
\<close>

theorem tls_switch_misread:
  assumes "assertConfiguration J config = Inr c" and "string_value config ''APP_ENV'' ''local'' = ''production''"
    and "map_of config ''DATABASE_SSL'' = Some spelling" and "spelling \<noteq> ''true''"
  shows "joi_boolean J spelling = Some True \<and> \<not> dc_ssl (databaseConfig config)"
proof -
  have "boolean_value J config ''DATABASE_SSL'' False"
    using accepted_rules(2) [OF assms(1)] assms(2) by (simp add: custom_message_def Let_def split: if_splits)
  then show ?thesis using assms(3,4)
    by (auto simp: boolean_value_def databaseConfig_def split: option.splits)
qed

section \<open>No secret is printed\<close>

lemma sublist_apart:
  assumes "sublist raw (xs @ c # ys)" and "c \<notin> set raw"
  shows "sublist raw xs \<or> sublist raw ys"
proof -
  consider "sublist raw xs" | "sublist raw (c # ys)"
    | us vs where "raw = us @ vs" "suffix us xs" "prefix vs (c # ys)"
    using assms(1) by (auto simp: sublist_append)
  then show ?thesis
  proof cases
    case 2
    then have "prefix raw (c # ys) \<or> sublist raw ys" by (simp add: sublist_Cons_right)
    with assms(2) show ?thesis by (cases raw) auto
  next
    case (3 us vs)
    with assms(2) have "vs = []" by (cases vs) auto
    with 3 have "suffix raw xs" by simp
    then show ?thesis by (auto intro: suffix_imp_sublist)
  qed simp
qed

definition maskable :: "string \<Rightarrow> bool" where
  "maskable raw \<longleftrightarrow> CHR ''['' \<notin> set raw \<and> CHR '']'' \<notin> set raw \<and> \<not> sublist raw ''REDACTED''"

lemma mark_apart:
  assumes "sublist raw (p @ redacted_mark @ rest)" and "maskable raw"
  shows "sublist raw p \<or> sublist raw rest"
proof -
  have "p @ redacted_mark @ rest = p @ CHR ''['' # (''REDACTED'' @ CHR '']'' # rest)" by (simp add: redacted_mark_def)
  with assms(1) have "sublist raw (p @ CHR ''['' # (''REDACTED'' @ CHR '']'' # rest))" by (simp only:)
  then have "sublist raw p \<or> sublist raw (''REDACTED'' @ CHR '']'' # rest)"
    by (rule sublist_apart) (use assms(2) in \<open>simp add: maskable_def\<close>)
  then show ?thesis
  proof
    assume "sublist raw (''REDACTED'' @ CHR '']'' # rest)"
    then have "sublist raw ''REDACTED'' \<or> sublist raw rest"
      by (rule sublist_apart) (use assms(2) in \<open>simp add: maskable_def\<close>)
    with assms(2) show ?thesis by (simp add: maskable_def)
  qed simp
qed

lemma join_apart: "sublist raw (join_with redacted_mark ps) \<Longrightarrow> maskable raw \<Longrightarrow> ps \<noteq> [] \<Longrightarrow> \<exists>p \<in> set ps. sublist raw p"
proof (induction ps rule: induct_list012)
  case (3 p q ps)
  from "3.prems"(1) have "sublist raw (p @ redacted_mark @ join_with redacted_mark (q # ps))" by simp
  then have "sublist raw p \<or> sublist raw (join_with redacted_mark (q # ps))" using "3.prems"(2) by (rule mark_apart)
  with 3 show ?case by auto
qed simp_all

lemma split_once_before: "split_once sep s = Some (before, rest) \<Longrightarrow> sep \<noteq> [] \<Longrightarrow> \<not> sublist sep before"
proof (induction s arbitrary: before)
  case (Cons c cs)
  show ?case
  proof (cases "prefix sep (c # cs)")
    case True
    with Cons.prems show ?thesis by simp
  next
    case False
    with Cons.prems obtain b where b: "split_once sep cs = Some (b, rest)" "before = c # b" by auto
    have "prefix (c # b) (c # cs)" using split_once_Some [OF b(1)] by simp
    with False have "\<not> prefix sep (c # b)" using prefix_order.trans by blast
    with Cons.IH [OF b(1) Cons.prems(2)] b(2) show ?thesis by (simp add: sublist_Cons_right)
  qed
qed simp

lemma split_once_None: "split_once sep s = None \<Longrightarrow> sep \<noteq> [] \<Longrightarrow> \<not> sublist sep s"
  by (induction s) (auto simp: sublist_Cons_right split: if_splits)

lemma split_pieces:
  "sep \<noteq> [] \<Longrightarrow> p \<in> set (split_string sep s) \<Longrightarrow> \<not> sublist sep p \<and> sublist p s"
proof (induction sep s rule: split_string.induct)
  case (1 sep s)
  show ?case
  proof (cases "split_once sep s")
    case None
    with 1 split_once_None [OF None] show ?thesis by (simp add: split_string.simps [of sep s])
  next
    case (Some x)
    then obtain before rest where x: "split_once sep s = Some (before, rest)" by (cases x) simp
    note s = split_once_Some [OF x]
    from 1 x consider "p = before" | "p \<in> set (split_string sep rest)" by (auto simp: split_string.simps [of sep s])
    then show ?thesis
    proof cases
      case 1
      with split_once_before [OF x \<open>sep \<noteq> []\<close>] s show ?thesis by (auto simp: sublist_def)
    next
      case 2
      with "1.IH" x \<open>sep \<noteq> []\<close> have "\<not> sublist sep p \<and> sublist p rest" by blast
      moreover have "sublist rest s" using sublist_appendI [of rest "before @ sep" "[]"] by (simp add: s)
      ultimately show ?thesis using sublist_order.order.trans by blast
    qed
  qed
qed

lemma split_nonempty: "split_string sep s \<noteq> []"
  by (subst split_string.simps) (auto split: option.splits prod.splits)

lemma redact_value_hides:
  assumes "raw \<noteq> []" and "maskable raw"
  shows "\<not> sublist raw (redact_value raw text)"
proof (cases "js_includes text raw")
  case True
  then show ?thesis
    using join_apart [OF _ assms(2) split_nonempty] split_pieces [OF assms(1)] by (auto simp: redact_value_def)
qed (simp add: redact_value_def js_includes_def)

lemma redact_value_keeps_hidden:
  assumes "\<not> sublist other text" and "maskable other" and "raw \<noteq> []"
  shows "\<not> sublist other (redact_value raw text)"
proof
  assume "sublist other (redact_value raw text)"
  with assms(1) have "sublist other (join_with redacted_mark (split_string raw text))" by (auto simp: redact_value_def split: if_splits)
  with assms(2) obtain p where "p \<in> set (split_string raw text)" "sublist other p" using join_apart split_nonempty by blast
  with split_pieces [OF assms(3)] assms(1) show False using sublist_order.order.trans by blast
qed

text \<open>
  C34. No secret of the configuration is printed. In the text of a configuration error (in any redacted text), the
  value of a variable whose name says that it is a secret, of the database URL and of the JWT secret does not occur,
  whatever the validator's messages quote and whatever the other variables hold; provided this value is not empty, holds no
  square bracket and is not a part of the word REDACTED that replaces it. The proviso is needed: see \<open>part_of_mark_shown\<close>.
\<close>

theorem secrets_redacted:
  assumes "entry \<in> set config" and "snd entry \<noteq> []"
    and "secret_key (fst entry) \<or> fst entry \<in> {''DATABASE_URL'', ''JWT_SECRET''}"
    and masks: "maskable (snd entry)"
  shows "\<not> sublist (snd entry) (redactConfigurationText text config)"
proof -
  have secret: "redactable entry" using assms(2,3) by (auto simp: redactable_def)
  let ?step = "\<lambda>redacted e. if redactable e then redact_value (snd e) redacted else redacted"
  have keep: "\<not> sublist raw (foldl ?step t es)" if "\<not> sublist raw t" "maskable raw" for raw t es
    using that(1)
  proof (induction es arbitrary: t)
    case (Cons e es)
    have "\<not> sublist raw (?step t e)"
      using redact_value_keeps_hidden [OF Cons.prems that(2), of "snd e"] Cons.prems by (simp add: redactable_def)
    then show ?case using Cons.IH by simp
  qed simp
  have "entry \<in> set es \<Longrightarrow> \<not> sublist (snd entry) (foldl ?step t es)" for t es
  proof (induction es arbitrary: t)
    case (Cons e es)
    show ?case
    proof (cases "entry = e")
      case True
      with secret masks assms(2) show ?thesis by (simp add: keep redact_value_hides)
    next
      case False
      with Cons show ?thesis by simp
    qed
  qed simp
  with assms(1) show ?thesis by (simp add: redactConfigurationText_def)
qed

text \<open>A secret that is a part of the mark is printed with every mark.\<close>

lemma part_of_mark_shown:
  "sublist ''ACT'' (redactConfigurationText ''key ACT is bad'' [(''OBJECT_STORAGE_SECRET_KEY'', ''ACT'')])"
proof -
  have "redactConfigurationText ''key ACT is bad'' [(''OBJECT_STORAGE_SECRET_KEY'', ''ACT'')] = ''key [RED'' @ ''ACT'' @ ''ED] is bad''"
    by code_simp
  then show ?thesis by (simp only: sublist_appendI)
qed

lemma ready_iff:
  "fst (collectReadiness ports) \<longleftrightarrow> rp_pingDatabase ports = Inr () \<and> rp_migrationCompatible ports = Inr True \<and> rp_pingObjectStore ports = Inr ()"
  by (auto simp: collectReadiness_def Let_def split: sum.splits if_splits)

section \<open>At a concrete environment\<close>

definition sample_joi :: joi where
  "sample_joi = \<lparr>joi_integer = (\<lambda>v. if list_all is_digit v then Some (int (parse_nat v)) else None),
     joi_boolean = (\<lambda>v. if js_lower v = ''true'' then Some True else if js_lower v = ''false'' then Some False else None),
     joi_uri = (\<lambda>schemes v. js_includes v ''://''), joi_message = (\<lambda>key rule. key @ '' '' @ rule)\<rparr>"

definition production_env :: "string \<Rightarrow> environment" where
  "production_env ssl = [(''APP_ENV'', ''production''), (''AUTH_MODE'', ''jwt''), (''DATABASE_SSL'', ssl),
     (''DATABASE_URL'', ''postgres://db/aico''), (''JWT_SECRET'', ''a-secret-of-at-least-32-characters!''), (''JWT_ISSUER'', ''aico''),
     (''JWT_AUDIENCE'', ''api''), (''OBJECT_STORAGE_ENDPOINT'', ''https://objects''), (''OBJECT_STORAGE_REGION'', ''eu''),
     (''OBJECT_STORAGE_BUCKET'', ''aico''), (''OBJECT_STORAGE_ACCESS_KEY'', ''key-1''), (''OBJECT_STORAGE_SECRET_KEY'', ''secret-1'')]"

lemma production_accepted: "assertConfiguration sample_joi (production_env ''TRUE'') = Inr (production_env ''TRUE'')"
  by code_simp

theorem no_invites_in_production_witness:
  "issueInvite (sample_env\<lparr>app_environment := ''production'', auth_mode := ''jwt''\<rparr>) dto sample_sys = unavailableRegistration sample_sys"
  using no_invites_in_production [OF production_accepted, of "sample_env\<lparr>app_environment := ''production'', auth_mode := ''jwt''\<rparr>" dto sample_sys]
  by (simp add: appConfig_def authConfig_def string_value_def production_env_def)

theorem tls_switch_misread_witness:
  "joi_boolean sample_joi ''TRUE'' = Some True \<and> \<not> dc_ssl (databaseConfig (production_env ''TRUE''))"
  by (rule tls_switch_misread [OF production_accepted]) (simp_all add: string_value_def production_env_def)

theorem secrets_redacted_witness:
  "\<not> sublist ''secret-1'' (redactConfigurationText ''key secret-1 is bad'' (production_env ''true''))"
proof -
  have "maskable ''secret-1''" by code_simp
  moreover have "secret_key ''OBJECT_STORAGE_SECRET_KEY''" by code_simp
  ultimately show ?thesis
    using secrets_redacted [of "(''OBJECT_STORAGE_SECRET_KEY'', ''secret-1'')" "production_env ''true''"]
    by (simp add: production_env_def)
qed

end
