(* ===== verification/Companies.thy ===== *)
theory Companies
  imports Governance
begin

text \<open>
  \<open>src/modules/companies\<close>: the company of a founder and the versions of its profile. Creating a company
  inserts it with the first version of its profile; replacing the profile compares the version the client
  saw, inserts the next version and moves the pointer of the company to it. Both are commands, so they are
  idempotent and leave one event.
\<close>

section \<open>The request bodies and the policy\<close>

record normalized_limits_dto =
  nl_max_screens :: int
  nl_primary_flows :: int
  nl_data_mode :: string

record company_profile_dto =
  pf_purpose :: string
  pf_target_customer :: string
  pf_constraints :: "string list"
  pf_normalized_limits :: normalized_limits_dto
  pf_acknowledged :: bool

record create_company_dto =
  cc_name :: string
  cc_profile :: company_profile_dto

text \<open>The validated and transformed bodies: the texts are trimmed before they are measured, the constraints are not.\<close>

definition NormalizedLimitsDto_ok :: "normalized_limits_dto \<Rightarrow> bool" where
  "NormalizedLimitsDto_ok n \<longleftrightarrow> 1 \<le> nl_max_screens n \<and> nl_max_screens n \<le> 5 \<and> 1 \<le> nl_primary_flows n \<and>
     nl_primary_flows n \<le> 1 \<and> nl_data_mode n \<in> set [''mock_or_local'']"

definition CompanyProfileDto_ok :: "company_profile_dto \<Rightarrow> bool" where
  "CompanyProfileDto_ok p \<longleftrightarrow>
     js_trim (pf_purpose p) = pf_purpose p \<and> between 10 1000 (pf_purpose p) \<and>
     js_trim (pf_target_customer p) = pf_target_customer p \<and> between 3 500 (pf_target_customer p) \<and>
     between 1 20 (pf_constraints p) \<and> list_all (between 1 200) (pf_constraints p) \<and>
     NormalizedLimitsDto_ok (pf_normalized_limits p)"

definition CreateCompanyDto_ok :: "create_company_dto \<Rightarrow> bool" where
  "CreateCompanyDto_ok dto \<longleftrightarrow>
     js_trim (cc_name dto) = cc_name dto \<and> between 2 120 (cc_name dto) \<and> CompanyProfileDto_ok (cc_profile dto)"

definition warning_not_acknowledged :: exn where
  "warning_not_acknowledged = Domain (DomainError 422 ''unsupported_sensitive_data''
     ''Acknowledge that the company profile must not include real customer or other sensitive data.''
     (Some ''Sensitive-data warning was not acknowledged'') (Some [''acknowledge_sensitive_data_warning''])
     (Some [violation [(''field'', ''sensitive_data_warning_acknowledged''), (''rule'', ''must_acknowledge'')]]))"

definition outside_boundary :: "string \<Rightarrow> json list \<Rightarrow> exn" where
  "outside_boundary detail errors = Domain (DomainError 422 ''domain_rule_violated'' detail
     (Some ''The company profile is outside the MVP boundary'') (Some [''correct_company_profile'']) (Some errors))"

definition field_rule :: "string \<Rightarrow> string \<Rightarrow> json" where
  "field_rule field rule = violation [(''field'', field), (''rule'', rule)]"

definition profile_violations :: "company_profile_dto \<Rightarrow> json list" where
  "profile_violations p =
     (let n = pf_normalized_limits p in
      (if length (js_trim (pf_purpose p)) < 10 \<or> 1000 < length (js_trim (pf_purpose p))
       then [field_rule ''purpose'' ''purpose_length''] else []) @
      (if length (js_trim (pf_target_customer p)) < 3 \<or> 500 < length (js_trim (pf_target_customer p))
       then [field_rule ''target_customer'' ''target_customer_length''] else []) @
      (if length (pf_constraints p) < 1 \<or> 20 < length (pf_constraints p) \<or>
          list_ex (\<lambda>item. length (js_trim item) = 0 \<or> 200 < length (js_trim item)) (pf_constraints p)
       then [field_rule ''constraints'' ''durable_constraints_required''] else []) @
      (if nl_max_screens n < 1 \<or> 5 < nl_max_screens n
       then [field_rule ''normalized_limits.max_screens'' ''max_five_screens''] else []) @
      (if nl_primary_flows n \<noteq> 1 then [field_rule ''normalized_limits.primary_flows'' ''one_primary_flow''] else []) @
      (if nl_data_mode n \<noteq> ''mock_or_local'' then [field_rule ''normalized_limits.data_mode'' ''mock_or_local_data''] else []))"

definition assertProfile :: "company_profile_dto \<Rightarrow> exn + unit" where
  "assertProfile p =
     (if \<not> pf_acknowledged p then Inl warning_not_acknowledged
      else if 0 < length (profile_violations p)
      then Inl (outside_boundary ''Submit name, purpose, target customer, durable constraints, and normalized limits that fit the bounded prototype.''
        (profile_violations p))
      else Inr ())"

definition assertName :: "string \<Rightarrow> exn + unit" where
  "assertName name =
     (if length (js_trim name) < 2 \<or> 120 < length (js_trim name)
      then Inl (outside_boundary ''Submit a company name between 2 and 120 characters.'' [field_rule ''name'' ''company_name_length''])
      else Inr ())"

definition assertCreate :: "string \<Rightarrow> company_profile_dto \<Rightarrow> exn + unit" where
  "assertCreate name profile = (case assertName name of Inl e \<Rightarrow> Inl e | Inr _ \<Rightarrow> assertProfile profile)"

section \<open>Rows and responses\<close>

definition limits_json :: "normalized_limits_dto \<Rightarrow> json" where
  "limits_json n = JObj [(''max_screens'', JNum (nl_max_screens n)), (''primary_flows'', JNum (nl_primary_flows n)),
     (''data_mode'', JStr (nl_data_mode n))]"

definition profile_json :: "company_profile_dto \<Rightarrow> json" where
  "profile_json p = JObj [(''purpose'', JStr (pf_purpose p)), (''target_customer'', JStr (pf_target_customer p)),
     (''constraints'', JArr (map JStr (pf_constraints p))), (''normalized_limits'', limits_json (pf_normalized_limits p)),
     (''sensitive_data_warning_acknowledged'', JBool (pf_acknowledged p))]"

definition company_json :: "create_company_dto \<Rightarrow> json" where
  "company_json dto = JObj [(''name'', JStr (cc_name dto)), (''profile'', profile_json (cc_profile dto))]"

definition company_already_exists :: exn where
  "company_already_exists = Domain (DomainError 409 ''company_already_exists''
     ''The MVP supports one company per founder account.'' (Some ''The founder already has a company'')
     (Some [''get_current_company'']) None)"

definition profile_changed :: exn where
  "profile_changed = Domain (DomainError 412 ''precondition_failed''
     ''Refresh the company profile and retry with its current ETag.'' (Some ''The company profile changed'')
     (Some [''refresh_resource'', ''retry_command'']) None)"

definition no_company :: exn where
  "no_company = Domain (DomainError 404 ''resource_not_found'' ''No company is provisioned for this founder.''
     (Some ''Company not found'') (Some [''create_company'']) None)"

definition new_company :: "env \<Rightarrow> uuid \<Rightarrow> uuid \<Rightarrow> string \<Rightarrow> company_row" where
  "new_company E companyId founderId name =
     \<lparr>co_id = companyId, co_founder_id = founderId, co_name = name, co_status = C_ACTIVE,
      co_current_profile_version_id = None, co_row_version = 1, co_created_at = now_ms E, co_updated_at = now_ms E\<rparr>"

definition new_profile :: "env \<Rightarrow> uuid \<Rightarrow> uuid \<Rightarrow> nat \<Rightarrow> uuid \<Rightarrow> company_profile_dto \<Rightarrow> profile_row" where
  "new_profile E profileId companyId version actorId p =
     \<lparr>cp_id = profileId, cp_company_id = companyId, cp_version = version, cp_purpose = js_trim (pf_purpose p),
      cp_target_customer = js_trim (pf_target_customer p), cp_constraints = pf_constraints p,
      cp_normalized_limits = limits_json (pf_normalized_limits p), cp_acknowledged = pf_acknowledged p,
      cp_created_by = actorId, cp_created_at = now_ms E\<rparr>"

text \<open>\<open>companyQuery\<close>: the companies that satisfy the predicate, joined with their current profile version.\<close>

definition company_rows :: "(company_row \<Rightarrow> bool) \<Rightarrow> db \<Rightarrow> (company_row \<times> profile_row) list" where
  "company_rows predicate d =
     [(c, p). c \<leftarrow> companies d, predicate c, p \<leftarrow> company_profile_versions d,
        cp_company_id p = co_id c, Some (cp_id p) = co_current_profile_version_id c]"

definition toResponse :: "company_row \<times> profile_row \<Rightarrow> json" where
  "toResponse row = (let (c, p) = row in JObj
     [(''id'', JStr (co_id c)), (''name'', JStr (co_name c)), (''status'', JStr (company_status_text (co_status c))),
      (''row_version'', JNum (int (co_row_version c))),
      (''current_profile'', JObj
        [(''id'', JStr (cp_id p)), (''version'', JNum (int (cp_version p))), (''purpose'', JStr (cp_purpose p)),
         (''target_customer'', JStr (cp_target_customer p)), (''constraints'', JArr (map JStr (cp_constraints p))),
         (''normalized_limits'', cp_normalized_limits p),
         (''sensitive_data_warning_acknowledged'', JBool (cp_acknowledged p)),
         (''created_at'', JStr (toISOString (cp_created_at p)))]),
      (''created_at'', JStr (toISOString (co_created_at c)))])"

definition getByIdWithRunner :: "uuid \<Rightarrow> uuid \<Rightarrow> (company_row \<times> profile_row) option call" where
  "getByIdWithRunner companyId founderId = query (\<lambda>d. first_row (company_rows (\<lambda>c. co_id c = companyId \<and>
     co_founder_id c = founderId \<and> co_status c \<noteq> C_DELETED) d))"

text \<open>\<open>this.toResponse(company)\<close> of a company that was not found is the failed access of its first property.\<close>

definition respond :: "int \<Rightarrow> (company_row \<times> profile_row) option \<Rightarrow> exn + int \<times> json" where
  "respond status row =
     (case row of
        None \<Rightarrow> Inl (JsError ''Cannot read properties of undefined (reading 'id')'')
      | Some r \<Rightarrow> Inr (status, toResponse r))"

definition Companies_getCurrent :: "uuid \<Rightarrow> json call" where
  "Companies_getCurrent actorId =
     tx_bind (query (\<lambda>d. first_row (company_rows (\<lambda>c. co_founder_id c = actorId \<and> co_status c \<noteq> C_DELETED) d))) (\<lambda>row.
     tx_bind (tx_require no_company row) (\<lambda>r. tx_return (toResponse r)))"

section \<open>Creation\<close>

definition point_to_profile :: "env \<Rightarrow> uuid \<Rightarrow> uuid \<Rightarrow> uuid \<Rightarrow> nat \<Rightarrow> db \<Rightarrow> db" where
  "point_to_profile E companyId founderId profileId bump d = d\<lparr>companies :=
     upd_where (\<lambda>c. co_id c = companyId \<and> co_founder_id c = founderId)
       (\<lambda>c. c\<lparr>co_current_profile_version_id := Some profileId, co_row_version := co_row_version c + bump,
              co_updated_at := now_ms E\<rparr>) (companies d)\<rparr>"

definition company_event :: "uuid \<Rightarrow> uuid \<Rightarrow> uuid \<Rightarrow> string \<Rightarrow> json \<Rightarrow> append_options" where
  "company_event companyId actorId correlationId type payload =
     \<lparr>ae_companyId = companyId, ae_runId = None, ae_type = type, ae_actorType = ''FOUNDER'', ae_actorId = actorId,
      ae_actorVersion = None, ae_correlationId = correlationId, ae_causationId = None, ae_audience = None,
      ae_dataClassification = None, ae_payload = payload\<rparr>"

definition created_payload :: "uuid \<Rightarrow> uuid \<Rightarrow> json" where
  "created_payload companyId profileId = JObj [(''company_id'', JStr companyId), (''profile_version_id'', JStr profileId),
     (''profile_version'', JNum 1)]"

definition create_company_body :: "env \<Rightarrow> uuid \<Rightarrow> uuid \<Rightarrow> create_company_dto \<Rightarrow> (int \<times> json) call" where
  "create_company_body E actorId correlationId dto =
     tx_bind (query (\<lambda>d. filter (\<lambda>c. co_founder_id c = actorId) (companies d))) (\<lambda>existing.
     tx_then (tx_when (0 < length existing) (tx_throw company_already_exists))
     (tx_bind (newId E) (\<lambda>companyId.
      tx_bind (newId E) (\<lambda>profileId.
      tx_then (insert_company (new_company E companyId actorId (js_trim (cc_name dto))))
      (tx_then (insert_profile (new_profile E profileId companyId 1 actorId (cc_profile dto)))
      (tx_then (execute (point_to_profile E companyId actorId profileId 0))
      (tx_bind (DomainEvent_append E (company_event companyId actorId correlationId ''company_created''
          (created_payload companyId profileId))) (\<lambda>_.
      (tx_bind (getByIdWithRunner companyId actorId) (\<lambda>company. tx_lift (respond 201 company)))))))))))"

definition create_company_command :: "env \<Rightarrow> uuid \<Rightarrow> uuid \<Rightarrow> uuid \<Rightarrow> create_company_dto \<Rightarrow> command_options" where
  "create_company_command E actorId idempotencyKey correlationId dto =
     \<lparr>cx_actorId = actorId, cx_operation = ''companies.create'', cx_idempotencyKey = idempotencyKey,
      cx_request = company_json dto, cx_execute = create_company_body E actorId correlationId dto\<rparr>"

definition Companies_create :: "env \<Rightarrow> request_actor \<Rightarrow> uuid \<Rightarrow> uuid \<Rightarrow> create_company_dto \<Rightarrow> command_result call" where
  "Companies_create E actor idempotencyKey correlationId dto =
     tx_bind (tx_lift (assertCreate (cc_name dto) (cc_profile dto))) (\<lambda>_.
       CommandExecutor_run E (create_company_command E (ra_id actor) idempotencyKey correlationId dto))"

section \<open>Replacing the profile\<close>

definition updated_payload :: "uuid \<Rightarrow> nat \<Rightarrow> json" where
  "updated_payload profileId version = JObj [(''profile_version_id'', JStr profileId), (''profile_version'', JNum (int version))]"

definition update_profile_body :: "env \<Rightarrow> uuid \<Rightarrow> uuid \<Rightarrow> nat \<Rightarrow> company_profile_dto \<Rightarrow> (int \<times> json) call" where
  "update_profile_body E actorId correlationId expectedVersion dto =
     tx_bind (query (\<lambda>d. first_row (company_rows (\<lambda>c. co_founder_id c = actorId \<and> co_status c \<noteq> C_DELETED) d))) (\<lambda>row.
     tx_bind (tx_require no_company row) (\<lambda>(c, current).
     tx_then (tx_when (cp_version current \<noteq> expectedVersion) (tx_throw profile_changed))
     (tx_bind (newId E) (\<lambda>profileId.
      tx_then (insert_profile (new_profile E profileId (co_id c) (cp_version current + 1) actorId dto))
      (tx_then (execute (point_to_profile E (co_id c) actorId profileId 1))
      (tx_bind (DomainEvent_append E (company_event (co_id c) actorId correlationId ''company_profile_version_created''
          (updated_payload profileId (cp_version current + 1)))) (\<lambda>_.
      (tx_bind (getByIdWithRunner (co_id c) actorId) (\<lambda>company. tx_lift (respond 200 company))))))))))"

definition update_profile_command :: "env \<Rightarrow> uuid \<Rightarrow> uuid \<Rightarrow> uuid \<Rightarrow> nat \<Rightarrow> company_profile_dto \<Rightarrow> command_options" where
  "update_profile_command E actorId idempotencyKey correlationId expectedVersion dto =
     \<lparr>cx_actorId = actorId, cx_operation = ''companies.profile.replace'', cx_idempotencyKey = idempotencyKey,
      cx_request = JObj [(''expectedVersion'', JNum (int expectedVersion)), (''dto'', profile_json dto)],
      cx_execute = update_profile_body E actorId correlationId expectedVersion dto\<rparr>"

definition Companies_updateProfile :: "env \<Rightarrow> request_actor \<Rightarrow> uuid \<Rightarrow> nat \<Rightarrow> uuid \<Rightarrow> company_profile_dto \<Rightarrow> command_result call" where
  "Companies_updateProfile E actor idempotencyKey expectedVersion correlationId dto =
     tx_bind (tx_lift (assertProfile dto)) (\<lambda>_.
       CommandExecutor_run E (update_profile_command E (ra_id actor) idempotencyKey correlationId expectedVersion dto))"

section \<open>The history of a profile\<close>

definition profiles_of :: "db \<Rightarrow> uuid \<Rightarrow> profile_row list" where
  "profiles_of d companyId = filter (\<lambda>p. cp_company_id p = companyId) (company_profile_versions d)"

text \<open>
  The versions of a company's profile are numbered from one without gaps, and the company points to the
  last of them.
\<close>

definition history_ok :: "db \<Rightarrow> company_row \<Rightarrow> bool" where
  "history_ok d c \<longleftrightarrow> profiles_of d (co_id c) \<noteq> [] \<and>
     map cp_version (profiles_of d (co_id c)) = [1..<Suc (length (profiles_of d (co_id c)))] \<and>
     co_current_profile_version_id c = Some (cp_id (last (profiles_of d (co_id c))))"

definition companies_ok :: "db \<Rightarrow> bool" where
  "companies_ok d \<longleftrightarrow> distinct (map co_id (companies d)) \<and> distinct (map co_founder_id (companies d)) \<and>
     distinct (map cp_id (company_profile_versions d)) \<and>
     (\<forall>p \<in> set (company_profile_versions d). cp_company_id p \<in> co_id ` set (companies d)) \<and>
     (\<forall>c \<in> set (companies d). history_ok d c)"

lemma first_company_rowD:
  assumes "first_row (company_rows q d) = Some (c, p)"
  shows "c \<in> set (companies d) \<and> q c \<and> p \<in> set (company_profile_versions d) \<and> cp_company_id p = co_id c \<and>
    co_current_profile_version_id c = Some (cp_id p)"
proof -
  from assms have "(c, p) \<in> set (company_rows q d)" by (simp add: first_row_def split: list.splits)
  then show ?thesis by (auto simp: company_rows_def split: if_splits)
qed

lemma current_is_last:
  assumes "companies_ok d" and "first_row (company_rows q d) = Some (c, p)"
  shows "p = last (profiles_of d (co_id c)) \<and> cp_version p = length (profiles_of d (co_id c)) \<and> profiles_of d (co_id c) \<noteq> []"
proof -
  note cp = first_company_rowD [OF assms(2)]
  then have h: "history_ok d c" using assms(1) by (simp add: companies_ok_def)
  then have ne: "profiles_of d (co_id c) \<noteq> []" by (simp add: history_ok_def)
  let ?l = "last (profiles_of d (co_id c))"
  have "?l \<in> set (company_profile_versions d)" using last_in_set [OF ne] by (auto simp: profiles_of_def)
  moreover have "cp_id p = cp_id ?l" using cp h by (simp add: history_ok_def)
  ultimately have "p = ?l" using assms(1) cp by (intro distinct_map_eq [of cp_id]) (simp_all add: companies_ok_def)
  moreover have "cp_version ?l = last (map cp_version (profiles_of d (co_id c)))" using ne by (simp add: last_map)
  moreover have "\<dots> = length (profiles_of d (co_id c))"
    using h ne by (simp add: history_ok_def Suc_le_eq)
  ultimately show ?thesis using ne by simp
qed

lemma insert_company_InrE:
  assumes "insert_company r s = (Inr u, t)"
  obtains "t = s\<lparr>sys_db := sys_db s\<lparr>companies := companies (sys_db s) @ [r]\<rparr>\<rparr>"
    and "co_id r \<notin> co_id ` set (companies (sys_db s))" and "co_founder_id r \<notin> co_founder_id ` set (companies (sys_db s))"
  using assms unfolding insert_company_def by (auto elim!: insert_row_InrE simp: absent_image)

lemma insert_profile_InrE:
  assumes "insert_profile r s = (Inr u, t)"
  obtains "t = s\<lparr>sys_db := sys_db s\<lparr>company_profile_versions := company_profile_versions (sys_db s) @ [r]\<rparr>\<rparr>"
    and "cp_id r \<notin> cp_id ` set (company_profile_versions (sys_db s))" and "cp_company_id r \<in> co_id ` set (companies (sys_db s))"
  using assms unfolding insert_profile_def by (auto elim!: insert_row_InrE simp: absent_image present_image)

text \<open>Adding the next version of a company and pointing to it keeps the histories.\<close>

lemma next_version_kept:
  assumes keys: "distinct (map co_id (companies d))" "distinct (map co_founder_id (companies d))"
      "distinct (map cp_id (company_profile_versions d))"
      "\<forall>p \<in> set (company_profile_versions d). cp_company_id p \<in> co_id ` set (companies d)"
    and others: "\<forall>c \<in> set (companies d). co_id c \<noteq> cid \<longrightarrow> history_ok d c"
    and vs: "map cp_version (profiles_of d cid) = [1..<Suc (length (profiles_of d cid))]"
    and c: "c \<in> set (companies d)" "co_id c = cid" "co_founder_id c = fid"
    and p: "cp_id p \<notin> cp_id ` set (company_profile_versions d)" "cp_company_id p = cid"
      "cp_version p = Suc (length (profiles_of d cid))"
  shows "companies_ok (point_to_profile E cid fid (cp_id p) bump (d\<lparr>company_profile_versions := company_profile_versions d @ [p]\<rparr>))"
    (is "companies_ok ?d")
proof -
  have prof: "profiles_of ?d x = profiles_of d x @ (if x = cid then [p] else [])" for x
    by (simp add: profiles_of_def point_to_profile_def p)
  have ids: "map co_id (companies ?d) = map co_id (companies d)" "map co_founder_id (companies ?d) = map co_founder_id (companies d)"
    by (simp_all add: point_to_profile_def map_upd_where_same)
  then have set: "co_id ` set (companies ?d) = co_id ` set (companies d)" by (metis list.set_map)
  have "history_ok ?d x" if x: "x \<in> set (companies ?d)" for x
  proof -
    from x obtain y where y: "y \<in> set (companies d)" "x = (if co_id y = cid \<and> co_founder_id y = fid then y\<lparr>co_current_profile_version_id :=
        Some (cp_id p), co_row_version := co_row_version y + bump, co_updated_at := now_ms E\<rparr> else y)"
      unfolding point_to_profile_def by (auto elim: in_upd_whereE)
    show ?thesis
    proof (cases "co_id y = cid")
      case True
      with y(1) c keys(1) have "y = c" by (intro distinct_map_eq [of co_id]) simp_all
      with y(2) c have "co_id x = cid" "co_current_profile_version_id x = Some (cp_id p)" by simp_all
      then show ?thesis using vs by (simp add: history_ok_def prof p)
    next
      case False
      with y others show ?thesis by (simp add: history_ok_def prof)
    qed
  qed
  moreover have "distinct (map cp_id (company_profile_versions ?d))" using keys(3) p(1) by (simp add: point_to_profile_def)
  moreover have "\<forall>q \<in> set (company_profile_versions ?d). cp_company_id q \<in> co_id ` set (companies ?d)"
    unfolding set using keys(4) c p(2) by (auto simp: point_to_profile_def)
  ultimately show ?thesis using keys(1,2) ids by (simp add: companies_ok_def)
qed

lemma companies_ok_frame:
  "companies_ok (d\<lparr>run_event_counters := x\<rparr>) = companies_ok d" "companies_ok (d\<lparr>events := y\<rparr>) = companies_ok d"
  "companies_ok (d\<lparr>outbox_messages := z\<rparr>) = companies_ok d" "companies_ok (d\<lparr>idempotency_records := w\<rparr>) = companies_ok d"
  by (simp_all add: companies_ok_def history_ok_def [abs_def] profiles_of_def)

text \<open>What is left when the body of a command has returned.\<close>

lemma create_company_InrE:
  assumes "create_company_body E a k dto s = (Inr x, t)"
  obtains cid pid e q cs ms where "a \<notin> co_founder_id ` set (companies (sys_db s))" and "cid \<notin> co_id ` set (companies (sys_db s))"
    and "pid \<notin> cp_id ` set (company_profile_versions (sys_db s))"
    and "sys_db t = (point_to_profile E cid a pid 0 (sys_db s\<lparr>companies := companies (sys_db s) @ [new_company E cid a (js_trim (cc_name dto))],
        company_profile_versions := company_profile_versions (sys_db s) @ [new_profile E pid cid 1 a (cc_profile dto)]\<rparr>))\<lparr>
        run_event_counters := cs, outbox_messages := ms,
        events := events (sys_db s) @ [new_event E (company_event cid a k ''company_created'' (created_payload cid pid)) e q]\<rparr>"
    and "respond 201 (first_row (company_rows (\<lambda>c. co_id c = cid \<and> co_founder_id c = a \<and> co_status c \<noteq> C_DELETED) (sys_db t))) = Inr x"
proof -
  let ?c = "\<lambda>cid. new_company E cid a (js_trim (cc_name dto))" and ?p = "\<lambda>pid cid. new_profile E pid cid 1 a (cc_profile dto)"
  from assms obtain u0 s0 cid s1 pid s2 u1 s3 u2 s4 e u where
    g: "tx_when (0 < length (filter (\<lambda>c. co_founder_id c = a) (companies (sys_db s)))) (tx_throw company_already_exists) s = (Inr u0, s0)"
    and n: "newId E s0 = (Inr cid, s1)" "newId E s1 = (Inr pid, s2)"
    and c: "insert_company (?c cid) s2 = (Inr u1, s3)" and p: "insert_profile (?p pid cid) s3 = (Inr u2, s4)"
    and e: "DomainEvent_append E (company_event cid a k ''company_created'' (created_payload cid pid))
        (s4\<lparr>sys_db := point_to_profile E cid a pid 0 (sys_db s4)\<rparr>) = (Inr e, u)"
    and x: "respond 201 (first_row (company_rows (\<lambda>c. co_id c = cid \<and> co_founder_id c = a \<and> co_status c \<noteq> C_DELETED) (sys_db u))) = Inr x"
    and t: "t = u"
    unfolding create_company_body_def getByIdWithRunner_def
    by (elim tx_bind_InrE tx_then_InrE query_InrE execute_InrE tx_lift_InrE) (simp only: sum.inject)
  from g have "s0 = s" and fresh: "a \<notin> co_founder_id ` set (companies (sys_db s))"
    by (auto elim!: guard_InrE simp: filter_empty_conv)
  with n have s2: "sys_db s2 = sys_db s" by (auto simp: newId_apply)
  from c s2 have c': "sys_db s3 = sys_db s\<lparr>companies := companies (sys_db s) @ [?c cid]\<rparr>" "cid \<notin> co_id ` set (companies (sys_db s))"
    by (auto elim!: insert_company_InrE simp: new_company_def)
  from p c' have p': "sys_db s4 = sys_db s\<lparr>companies := companies (sys_db s) @ [?c cid],
      company_profile_versions := company_profile_versions (sys_db s) @ [?p pid cid]\<rparr>" "pid \<notin> cp_id ` set (company_profile_versions (sys_db s))"
    by (auto elim!: insert_profile_InrE simp: new_profile_def)
  from e obtain cs q ms where "sys_db u = (point_to_profile E cid a pid 0 (sys_db s4))\<lparr>run_event_counters := cs,
      events := events (point_to_profile E cid a pid 0 (sys_db s4)) @
        [new_event E (company_event cid a k ''company_created'' (created_payload cid pid)) e q], outbox_messages := ms\<rparr>"
    by (cases rule: append_shape) simp
  then have "sys_db t = (point_to_profile E cid a pid 0 (sys_db s\<lparr>companies := companies (sys_db s) @ [?c cid],
        company_profile_versions := company_profile_versions (sys_db s) @ [?p pid cid]\<rparr>))\<lparr>run_event_counters := cs, outbox_messages := ms,
        events := events (sys_db s) @ [new_event E (company_event cid a k ''company_created'' (created_payload cid pid)) e q]\<rparr>"
    unfolding t p'(1) by (simp add: point_to_profile_def)
  from that [OF fresh c'(2) p'(2) this] x t show thesis by simp
qed

lemma update_profile_InrE:
  assumes "update_profile_body E a k v dto s = (Inr x, t)"
  obtains c p pid e q cs ms where "first_row (company_rows (\<lambda>c. co_founder_id c = a \<and> co_status c \<noteq> C_DELETED) (sys_db s)) = Some (c, p)"
    and "cp_version p = v" and "pid \<notin> cp_id ` set (company_profile_versions (sys_db s))"
    and "sys_db t = (point_to_profile E (co_id c) a pid 1 (sys_db s\<lparr>
        company_profile_versions := company_profile_versions (sys_db s) @ [new_profile E pid (co_id c) (v + 1) a dto]\<rparr>))\<lparr>
        run_event_counters := cs, outbox_messages := ms, events := events (sys_db s) @
          [new_event E (company_event (co_id c) a k ''company_profile_version_created'' (updated_payload pid (v + 1))) e q]\<rparr>"
    and "respond 200 (first_row (company_rows (\<lambda>r. co_id r = co_id c \<and> co_founder_id r = a \<and> co_status r \<noteq> C_DELETED) (sys_db t))) = Inr x"
proof -
  from assms obtain r u0 s0 pid s1 u2 s4 e u where
    r: "first_row (company_rows (\<lambda>c. co_founder_id c = a \<and> co_status c \<noteq> C_DELETED) (sys_db s)) = Some r"
    and g: "tx_when (cp_version (snd r) \<noteq> v) (tx_throw profile_changed) s = (Inr u0, s0)"
    and n: "newId E s0 = (Inr pid, s1)"
    and p: "insert_profile (new_profile E pid (co_id (fst r)) (cp_version (snd r) + 1) a dto) s1 = (Inr u2, s4)"
    and e: "DomainEvent_append E (company_event (co_id (fst r)) a k ''company_profile_version_created'' (updated_payload pid (cp_version (snd r) + 1)))
        (s4\<lparr>sys_db := point_to_profile E (co_id (fst r)) a pid 1 (sys_db s4)\<rparr>) = (Inr e, u)"
    and x: "respond 200 (first_row (company_rows (\<lambda>c. co_id c = co_id (fst r) \<and> co_founder_id c = a \<and> co_status c \<noteq> C_DELETED) (sys_db u))) = Inr x"
    and t: "t = u"
    unfolding update_profile_body_def getByIdWithRunner_def case_prod_beta
    by (elim tx_bind_InrE tx_then_InrE query_InrE execute_InrE tx_lift_InrE tx_require_InrE) (simp only: sum.inject)
  from g have v: "cp_version (snd r) = v" "s0 = s" by (auto elim!: guard_InrE)
  with n have s1: "sys_db s1 = sys_db s" by (auto simp: newId_apply)
  from p s1 v have p': "sys_db s4 = sys_db s\<lparr>company_profile_versions := company_profile_versions (sys_db s) @ [new_profile E pid (co_id (fst r)) (v + 1) a dto]\<rparr>"
    "pid \<notin> cp_id ` set (company_profile_versions (sys_db s))"
    by (auto elim!: insert_profile_InrE simp: new_profile_def)
  from e obtain cs q ms where "sys_db u = (point_to_profile E (co_id (fst r)) a pid 1 (sys_db s4))\<lparr>run_event_counters := cs,
      events := events (point_to_profile E (co_id (fst r)) a pid 1 (sys_db s4)) @
        [new_event E (company_event (co_id (fst r)) a k ''company_profile_version_created'' (updated_payload pid (cp_version (snd r) + 1))) e q], outbox_messages := ms\<rparr>"
    by (cases rule: append_shape) simp
  then have "sys_db t = (point_to_profile E (co_id (fst r)) a pid 1 (sys_db s\<lparr>
        company_profile_versions := company_profile_versions (sys_db s) @ [new_profile E pid (co_id (fst r)) (v + 1) a dto]\<rparr>))\<lparr>
        run_event_counters := cs, outbox_messages := ms, events := events (sys_db s) @
          [new_event E (company_event (co_id (fst r)) a k ''company_profile_version_created'' (updated_payload pid (v + 1))) e q]\<rparr>"
    unfolding t p'(1) v(1) by (simp add: point_to_profile_def)
  from that [of "fst r" "snd r", OF _ v(1) p'(2) this] r x t show thesis by simp
qed

lemma first_company_row_eq:
  assumes ok: "companies_ok d" and c: "c \<in> set (companies d)" "q c" "\<And>x. q x \<Longrightarrow> co_id x = co_id c"
    and p: "p \<in> set (company_profile_versions d)" "cp_company_id p = co_id c" "co_current_profile_version_id c = Some (cp_id p)"
  shows "first_row (company_rows q d) = Some (c, p)"
proof -
  from c(1,2) p have mem: "(c, p) \<in> set (company_rows q d)" by (auto simp: company_rows_def)
  then obtain x y where r: "first_row (company_rows q d) = Some (x, y)" by (cases "company_rows q d") (auto simp: first_row_def)
  note xy = first_company_rowD [OF r]
  have d: "distinct (map co_id (companies d))" "distinct (map cp_id (company_profile_versions d))"
    using ok by (simp_all add: companies_ok_def)
  have x: "x = c" using distinct_map_eq [OF d(1) _ c(1)] xy c(3) by blast
  have "y = p" using distinct_map_eq [OF d(2) _ p(1)] xy p(3) unfolding x by simp
  with r x show ?thesis by simp
qed

lemma create_keeps_companies: "commits companies_ok (create_company_body E a k dto)"
proof (rule commitsI)
  fix s :: sys and x t
  assume ok: "companies_ok (sys_db s)" and "create_company_body E a k dto s = (Inr x, t)"
  from this(2) show "companies_ok (sys_db t)"
  proof (cases rule: create_company_InrE)
    case (1 cid pid e q cs ms)
    let ?c = "new_company E cid a (js_trim (cc_name dto))" and ?p = "new_profile E pid cid 1 a (cc_profile dto)"
    let ?d = "sys_db s\<lparr>companies := companies (sys_db s) @ [?c]\<rparr>"
    have none: "profiles_of ?d cid = []"
      using ok 1(2) by (auto simp: profiles_of_def companies_ok_def filter_empty_conv)
    have "companies_ok (point_to_profile E cid a (cp_id ?p) 0 (?d\<lparr>company_profile_versions := company_profile_versions ?d @ [?p]\<rparr>))"
    proof (rule next_version_kept)
      show "\<forall>c \<in> set (companies ?d). co_id c \<noteq> cid \<longrightarrow> history_ok ?d c"
        using ok by (auto simp: companies_ok_def history_ok_def profiles_of_def new_company_def)
      show "?c \<in> set (companies ?d)" "co_id ?c = cid" "co_founder_id ?c = a" by (simp_all add: new_company_def)
      show "map cp_version (profiles_of ?d cid) = [1..<Suc (length (profiles_of ?d cid))]"
        "cp_version ?p = Suc (length (profiles_of ?d cid))" by (simp_all add: none) (simp add: new_profile_def)
    qed (use ok 1(1-3) in \<open>auto simp: companies_ok_def new_company_def new_profile_def\<close>)
    then show ?thesis by (simp add: 1(4) companies_ok_frame new_profile_def)
  qed
qed

lemma update_profile_next:
  assumes "companies_ok d" and "first_row (company_rows q d) = Some (c, p)" and "\<And>c. q c \<Longrightarrow> co_founder_id c = a"
    and "pid \<notin> cp_id ` set (company_profile_versions d)"
  shows "companies_ok (point_to_profile E (co_id c) a pid bump (d\<lparr>company_profile_versions := company_profile_versions d @
      [new_profile E pid (co_id c) (cp_version p + 1) a dto]\<rparr>))"
proof -
  let ?p = "new_profile E pid (co_id c) (cp_version p + 1) a dto"
  note c = first_company_rowD [OF assms(2)] and v = current_is_last [OF assms(1,2), THEN conjunct2, THEN conjunct1]
  have "companies_ok (point_to_profile E (co_id c) a (cp_id ?p) bump (d\<lparr>company_profile_versions := company_profile_versions d @ [?p]\<rparr>))"
  proof (rule next_version_kept)
    show "map cp_version (profiles_of d (co_id c)) = [1..<Suc (length (profiles_of d (co_id c)))]"
      using assms(1) c by (simp add: companies_ok_def history_ok_def)
    show "cp_version ?p = Suc (length (profiles_of d (co_id c)))" using v by (simp add: new_profile_def)
    show "c \<in> set (companies d)" "co_founder_id c = a" using c assms(3) by simp_all
  qed (use assms(1,4) in \<open>auto simp: companies_ok_def new_profile_def\<close>)
  then show ?thesis by (simp add: new_profile_def)
qed

lemma update_keeps_companies: "commits companies_ok (update_profile_body E a k v dto)"
proof (rule commitsI)
  fix s :: sys and x t
  assume ok: "companies_ok (sys_db s)" and "update_profile_body E a k v dto s = (Inr x, t)"
  from this(2) show "companies_ok (sys_db t)"
  proof (cases rule: update_profile_InrE)
    case (1 c p pid e q cs ms)
    from update_profile_next [OF ok 1(1) _ 1(3), of a E 1 dto] show ?thesis
      by (simp add: 1(2,4) companies_ok_frame)
  qed
qed

lemma company_bodies_keep_log:
  "commits event_log_ok (create_company_body E a k dto)" "commits event_log_ok (update_profile_body E a k v pdto)"
  unfolding create_company_body_def update_profile_body_def getByIdWithRunner_def case_prod_beta
  by (intro commits_intros append_commits_log log_commits_execute; simp add: point_to_profile_def log_part_def)+

lemma companies_records_free: "event_log_ok d \<and> companies_ok d \<Longrightarrow>
    event_log_ok (d\<lparr>idempotency_records := rs\<rparr>) \<and> companies_ok (d\<lparr>idempotency_records := rs\<rparr>)"
  using event_log_records_free by (simp add: companies_ok_frame)

interpretation company_creations: command_body "\<lambda>d. event_log_ok d \<and> companies_ok d"
    "\<lambda>(a, k, dto). create_company_body E a k dto" for E
  by unfold_locales
    (auto intro: commits_conj create_keeps_companies company_bodies_keep_log companies_records_free [THEN conjunct1]
      companies_records_free [THEN conjunct2])

interpretation profile_updates: command_body "\<lambda>d. event_log_ok d \<and> companies_ok d"
    "\<lambda>(a, k, v, dto). update_profile_body E a k v dto" for E
  by unfold_locales
    (auto intro: commits_conj update_keeps_companies company_bodies_keep_log companies_records_free [THEN conjunct1]
      companies_records_free [THEN conjunct2])

text \<open>
  The commands on companies, whatever they return or throw, keep one company per founder, the versions
  of every profile numbered from one without gaps with the company pointing to the last of them, and the
  event log numbered and mirrored by the outbox.
\<close>

theorem profile_history_kept:
  "db_keeps (\<lambda>d. event_log_ok d \<and> companies_ok d) (Companies_create E actor key correlationId creation) \<and>
   db_keeps (\<lambda>d. event_log_ok d \<and> companies_ok d) (Companies_updateProfile E actor key version correlationId profile)"
proof
  have "db_keeps (\<lambda>d. event_log_ok d \<and> companies_ok d)
      (CommandExecutor_run E (create_company_command E (ra_id actor) key correlationId creation))"
    by (rule company_creations.command_keeps [where p = "(ra_id actor, correlationId, creation)"])
      (simp add: create_company_command_def)
  then show "db_keeps (\<lambda>d. event_log_ok d \<and> companies_ok d) (Companies_create E actor key correlationId creation)"
    unfolding Companies_create_def by (intro keeps_intros)
next
  have "db_keeps (\<lambda>d. event_log_ok d \<and> companies_ok d)
      (CommandExecutor_run E (update_profile_command E (ra_id actor) key correlationId version profile))"
    by (rule profile_updates.command_keeps [where p = "(ra_id actor, correlationId, version, profile)"])
      (simp add: update_profile_command_def)
  then show "db_keeps (\<lambda>d. event_log_ok d \<and> companies_ok d) (Companies_updateProfile E actor key version correlationId profile)"
    unfolding Companies_updateProfile_def by (intro keeps_intros)
qed

section \<open>What a replacement does\<close>

text \<open>
  C22. A profile is replaced by its next version. A replacement that is answered and not replayed was made
  against the version the client saw; it adds exactly the next version with the submitted profile, keeps every
  earlier version, moves the pointer of the founder's company and its row version, leaves one event, and
  answers with the company and its new profile, whose version is the client's next ETag.
\<close>

theorem profile_replaced:
  assumes "companies_ok (sys_db s)" and "Companies_updateProfile E actor key version correlationId dto s = (Inr r, t)"
    and "\<not> cr_replayed r"
  shows "\<exists>c pid e q. let c' = c\<lparr>co_current_profile_version_id := Some pid, co_row_version := co_row_version c + 1, co_updated_at := now_ms E\<rparr>;
       p' = new_profile E pid (co_id c) (version + 1) (ra_id actor) dto in
     assertProfile dto = Inr () \<and> c \<in> set (companies (sys_db s)) \<and> co_founder_id c = ra_id actor \<and> co_status c \<noteq> C_DELETED \<and>
     length (profiles_of (sys_db s) (co_id c)) = version \<and>
     company_profile_versions (sys_db t) = company_profile_versions (sys_db s) @ [p'] \<and>
     companies (sys_db t) = map (\<lambda>x. if x = c then c' else x) (companies (sys_db s)) \<and>
     events (sys_db t) = events (sys_db s) @ [new_event E (company_event (co_id c) (ra_id actor) correlationId
       ''company_profile_version_created'' (updated_payload pid (version + 1))) e q] \<and>
     cr_status r = 200 \<and> cr_body r = toResponse (c', p')"
proof -
  from assms(2) obtain w where w: "assertProfile dto = Inr w"
    and "CommandExecutor_run E (update_profile_command E (ra_id actor) key correlationId version dto) s = (Inr r, t)"
    unfolding Companies_updateProfile_def by (elim tx_bind_InrE tx_lift_InrE) (simp only: sum.inject)
  from w have w': "assertProfile dto = Inr ()" by simp
  from \<open>CommandExecutor_run E _ s = _\<close> show ?thesis
  proof (cases rule: CommandExecutor_run_InrE)
    case replayed
    with assms(3) show ?thesis by simp
  next
    case (executed rs n s2)
    let ?s = "s\<lparr>sys_next := n, sys_db := sys_db s\<lparr>idempotency_records := rs\<rparr>\<rparr>"
    have ok: "companies_ok (sys_db ?s)" using assms(1) by (simp add: companies_ok_frame)
    from executed(1) have "update_profile_body E (ra_id actor) correlationId version dto ?s = (Inr (cr_status r, cr_body r), s2)"
      by (simp add: update_profile_command_def)
    then show ?thesis
    proof (cases rule: update_profile_InrE)
      case (1 c p pid e q cs ms)
      let ?c = "c\<lparr>co_current_profile_version_id := Some pid, co_row_version := co_row_version c + 1, co_updated_at := now_ms E\<rparr>"
      let ?p = "new_profile E pid (co_id c) (version + 1) (ra_id actor) dto"
      note row = first_company_rowD [OF 1(1)]
      have c: "c \<in> set (companies (sys_db s))" "co_founder_id c = ra_id actor" "co_status c \<noteq> C_DELETED" using row by simp_all
      have len: "length (profiles_of (sys_db s) (co_id c)) = version"
        using current_is_last [OF ok 1(1)] 1(2) by (simp add: profiles_of_def)
      have only: "x \<in> set (companies (sys_db s)) \<Longrightarrow> co_id x = co_id c \<and> co_founder_id x = ra_id actor \<longleftrightarrow> x = c" for x
        using c distinct_map_eq [of co_id "companies (sys_db s)" x c] assms(1) by (auto simp: companies_ok_def)
      have cs: "companies (sys_db s2) = map (\<lambda>x. if x = c then ?c else x) (companies (sys_db s))"
        using only by (auto simp: 1(4) point_to_profile_def upd_where_def)
      have ps: "company_profile_versions (sys_db s2) = company_profile_versions (sys_db s) @ [?p]"
        by (simp add: 1(4) point_to_profile_def)
      have ok2: "companies_ok (sys_db s2)"
        using update_keeps_companies ok \<open>update_profile_body E (ra_id actor) correlationId version dto ?s = _\<close> by (rule commitsD)
      have "first_row (company_rows (\<lambda>r. co_id r = co_id c \<and> co_founder_id r = ra_id actor \<and> co_status r \<noteq> C_DELETED) (sys_db s2)) = Some (?c, ?p)"
        by (rule first_company_row_eq [OF ok2]) (use c in \<open>auto simp: cs ps new_profile_def\<close>)
      with 1(5) have resp: "cr_status r = 200" "cr_body r = toResponse (?c, ?p)" by (simp_all add: respond_def)
      have "sys_db t = complete_record E (update_profile_command E (ra_id actor) key correlationId version dto) (cr_status r) (cr_body r) (sys_db s2)"
        using executed(2) by simp
      then have t: "company_profile_versions (sys_db t) = company_profile_versions (sys_db s) @ [?p]"
        "companies (sys_db t) = map (\<lambda>x. if x = c then ?c else x) (companies (sys_db s))"
        "events (sys_db t) = events (sys_db s) @ [new_event E (company_event (co_id c) (ra_id actor) correlationId
          ''company_profile_version_created'' (updated_payload pid (version + 1))) e q]"
        by (simp_all add: complete_record_def cs ps) (simp add: 1(4))
      show ?thesis
        by (rule exI [of _ c], rule exI [of _ pid], rule exI [of _ e], rule exI [of _ q])
          (use w' c len t resp in \<open>simp only: Let_def simp_thms\<close>)
    qed
  qed
qed

section \<open>A founder can set up a company\<close>

text \<open>For a validated profile the policy adds two rules: the warning is acknowledged and no constraint is blank.\<close>

lemma validated_profile_policy:
  assumes "CompanyProfileDto_ok p"
  shows "assertProfile p = Inr () \<longleftrightarrow> pf_acknowledged p \<and> list_all (\<lambda>c. js_trim c \<noteq> []) (pf_constraints p)"
proof -
  have "between 1 200 c \<Longrightarrow> length (js_trim c) \<le> 200" for c :: string
    using js_trim_length [of c] by (simp add: between_def)
  then have "\<forall>c \<in> set (pf_constraints p). length (js_trim c) \<le> 200"
    using assms by (simp add: CompanyProfileDto_ok_def list_all_iff)
  then have "list_ex (\<lambda>item. length (js_trim item) = 0 \<or> 200 < length (js_trim item)) (pf_constraints p) \<longleftrightarrow>
      \<not> list_all (\<lambda>c. js_trim c \<noteq> []) (pf_constraints p)"
    by (fastforce simp: list_ex_iff list_all_iff)
  then have "profile_violations p = [] \<longleftrightarrow> list_all (\<lambda>c. js_trim c \<noteq> []) (pf_constraints p)"
    using assms by (auto simp: CompanyProfileDto_ok_def NormalizedLimitsDto_ok_def profile_violations_def Let_def between_def)
  then show ?thesis by (simp add: assertProfile_def)
qed

text \<open>The identifiers still to be handed out are not in use in the tables a company command writes.\<close>

definition fresh_supply :: "env \<Rightarrow> sys \<Rightarrow> bool" where
  "fresh_supply E s \<longleftrightarrow> (\<forall>i \<ge> sys_next s. uuid_at E i \<notin> ik_id ` set (idempotency_records (sys_db s)) \<union>
     co_id ` set (companies (sys_db s)) \<union> cp_id ` set (company_profile_versions (sys_db s)) \<union>
     ev_id ` set (events (sys_db s)) \<union> om_id ` set (outbox_messages (sys_db s)))"

lemma first_row_some: "x \<in> set rows \<Longrightarrow> \<exists>r. first_row rows = Some r"
  by (cases rows) (auto simp: first_row_def)

lemma create_company_runs:
  assumes log: "event_log_ok (sys_db s)" and ok: "companies_ok (sys_db s)" and dto: "CreateCompanyDto_ok dto"
    and founder: "a \<in> fo_id ` set (founders (sys_db s))" "a \<notin> co_founder_id ` set (companies (sys_db s))"
    and fresh: "uuid_at E (sys_next s) \<notin> co_id ` set (companies (sys_db s))"
      "uuid_at E (Suc (sys_next s)) \<notin> cp_id ` set (company_profile_versions (sys_db s))"
      "uuid_at E (Suc (Suc (sys_next s))) \<notin> ev_id ` set (events (sys_db s))"
      "uuid_at E (Suc (Suc (Suc (sys_next s)))) \<notin> om_id ` set (outbox_messages (sys_db s))"
  shows "\<exists>body t. create_company_body E a k dto s = (Inr (201, body), t)"
proof -
  let ?cid = "uuid_at E (sys_next s)" and ?pid = "uuid_at E (Suc (sys_next s))"
  let ?c = "new_company E ?cid a (js_trim (cc_name dto))" and ?p = "new_profile E ?pid ?cid 1 a (cc_profile dto)"
  let ?s2 = "s\<lparr>sys_next := Suc (Suc (sys_next s))\<rparr>"
  let ?s3 = "?s2\<lparr>sys_db := sys_db s\<lparr>companies := companies (sys_db s) @ [?c]\<rparr>\<rparr>"
  let ?s4 = "?s2\<lparr>sys_db := sys_db s\<lparr>companies := companies (sys_db s) @ [?c], company_profile_versions := company_profile_versions (sys_db s) @ [?p]\<rparr>\<rparr>"
  let ?s5 = "?s4\<lparr>sys_db := point_to_profile E ?cid a ?pid 0 (sys_db ?s4)\<rparr>"
  let ?e = "company_event ?cid a k ''company_created'' (created_payload ?cid ?pid)"
  from dto have name: "between 2 120 (js_trim (cc_name dto))" "between 10 1000 (js_trim (pf_purpose (cc_profile dto)))"
    "between 3 500 (js_trim (pf_target_customer (cc_profile dto)))"
    by (simp_all add: CreateCompanyDto_ok_def CompanyProfileDto_ok_def)
  have no: "(?cid, 1) \<notin> (\<lambda>x. (cp_company_id x, cp_version x)) ` set (company_profile_versions (sys_db s))"
    using ok fresh(1) by (auto simp: companies_ok_def)
  have q: "filter (\<lambda>c. co_founder_id c = a) (companies (sys_db s)) = []"
    using founder(2) by (auto simp: filter_empty_conv)
  have i: "insert_company ?c ?s2 = (Inr (), ?s3)"
    unfolding insert_company_def
    by (subst insert_row_ok) (use name founder fresh in \<open>simp_all add: new_company_def absent_image present_image\<close>)
  have j: "insert_profile ?p ?s3 = (Inr (), ?s4)"
    unfolding insert_profile_def
    by (subst insert_row_ok)
      (use name founder fresh no in \<open>simp_all add: new_company_def new_profile_def absent_image present_image del: One_nat_def\<close>)
  have "event_log_ok (sys_db ?s5) = event_log_ok (sys_db s)" by (rule event_log_ok_cong) (simp add: log_part_def point_to_profile_def)
  then have e: "DomainEvent_append E ?e ?s5 = (Inr (uuid_at E (sys_next ?s5)), appended_company E ?e ?s5)"
    using log fresh(3,4)
    by (intro append_company_runs) (auto simp: company_event_def point_to_profile_def present_image image_upd_where_same new_company_def)
  have body: "create_company_body E a k dto s = tx_lift (respond 201 (first_row (company_rows (\<lambda>c. co_id c = ?cid \<and> co_founder_id c = a \<and>
      co_status c \<noteq> C_DELETED) (sys_db (appended_company E ?e ?s5))))) (appended_company E ?e ?s5)"
    using i j e unfolding create_company_body_def getByIdWithRunner_def
    by (simp add: tx_bind_def tx_then_def q tx_when_def tx_return_def newId_apply execute_apply query_apply)
  let ?c' = "?c\<lparr>co_current_profile_version_id := Some ?pid, co_row_version := co_row_version ?c + 0, co_updated_at := now_ms E\<rparr>"
  have tabs: "companies (sys_db (appended_company E ?e ?s5)) = companies (sys_db ?s5)"
    "company_profile_versions (sys_db (appended_company E ?e ?s5)) = company_profile_versions (sys_db s) @ [?p]"
    by (simp_all add: appended_company_def Let_def point_to_profile_def)
  have "?c' \<in> set (companies (sys_db ?s5))"
    unfolding point_to_profile_def by simp (simp add: new_company_def)
  then have "(?c', ?p) \<in> set (company_rows (\<lambda>c. co_id c = ?cid \<and> co_founder_id c = a \<and> co_status c \<noteq> C_DELETED) (sys_db (appended_company E ?e ?s5)))"
    unfolding company_rows_def tabs by (auto simp: new_company_def new_profile_def)
  then obtain row where "first_row (company_rows (\<lambda>c. co_id c = ?cid \<and> co_founder_id c = a \<and> co_status c \<noteq> C_DELETED)
      (sys_db (appended_company E ?e ?s5))) = Some row"
    by (elim first_row_some [THEN exE])
  with body show ?thesis by (simp add: respond_def tx_lift_def)
qed

text \<open>
  A founder without a company can set one up. For a body that passed validation, whose warning is
  acknowledged and none of whose constraints is blank, a new command of a founder without a company is
  answered with 201: neither the policy nor a CHECK of the tables refuses what validation let through.
\<close>

theorem company_created:
  assumes "event_log_ok (sys_db s)" and "companies_ok (sys_db s)" and "fresh_supply E s" and "CreateCompanyDto_ok dto"
    and "pf_acknowledged (cc_profile dto)" and "\<forall>c \<in> set (pf_constraints (cc_profile dto)). js_trim c \<noteq> []"
    and "ra_id actor \<in> fo_id ` set (founders (sys_db s))" and "ra_id actor \<notin> co_founder_id ` set (companies (sys_db s))"
    and "absent ik_key (ra_id actor, ''companies.create'', key) (idempotency_records (sys_db s))"
  shows "\<exists>body t. Companies_create E actor key correlationId dto s =
    (Inr \<lparr>cr_status = 201, cr_body = body, cr_replayed = False\<rparr>, t)"
proof -
  let ?o = "create_company_command E (ra_id actor) key correlationId dto"
  let ?s = "s\<lparr>sys_next := Suc (sys_next s), sys_db := sys_db s\<lparr>idempotency_records :=
        idempotency_records (sys_db s) @ [new_idempotency_record E ?o (uuid_at E (sys_next s)) (canonicalDigest E (cx_request ?o))]\<rparr>\<rparr>"
  have f: "uuid_at E i \<notin> ik_id ` set (idempotency_records (sys_db s))" "uuid_at E i \<notin> co_id ` set (companies (sys_db s))"
    "uuid_at E i \<notin> cp_id ` set (company_profile_versions (sys_db s))" "uuid_at E i \<notin> ev_id ` set (events (sys_db s))"
    "uuid_at E i \<notin> om_id ` set (outbox_messages (sys_db s))" if "sys_next s \<le> i" for i
    using assms(3) that by (auto simp: fresh_supply_def)
  have p: "assertCreate (cc_name dto) (cc_profile dto) = Inr ()"
    using assms(4-6) validated_profile_policy [of "cc_profile dto"]
    by (simp add: assertCreate_def assertName_def CreateCompanyDto_ok_def between_def list_all_iff)
  have "\<exists>body t. create_company_body E (ra_id actor) correlationId dto ?s = (Inr (201, body), t)"
    by (rule create_company_runs) (use assms(1,2,4,7,8) f in \<open>simp_all add: companies_ok_frame event_log_records_free\<close>)
  then obtain body t where b: "create_company_body E (ra_id actor) correlationId dto ?s = (Inr (201, body), t)" by blast
  have "CommandExecutor_run E ?o s = (Inr \<lparr>cr_status = 201, cr_body = body, cr_replayed = False\<rparr>,
      t\<lparr>sys_db := complete_record E ?o 201 body (sys_db t)\<rparr>)"
    by (rule CommandExecutor_run_new)
      (use assms(7,9) f(1) [OF order_refl] b in \<open>simp_all add: create_company_command_def command_key_def absent_image present_image\<close>)
  then show ?thesis by (simp add: Companies_create_def tx_bind_def tx_lift_def p)
qed

end
