(* ===== verification/Initiatives.thy ===== *)
theory Initiatives
  imports Qualification Attachments "HOL-Library.List_Lexorder" "HOL-Library.Product_Lexorder"
begin

text \<open>
  \<open>initiatives.service.ts\<close>: the current initiative of a company, its creation, and the command that
  stores a goal version and starts a run for it (\<open>createGoalAndRun\<close>): one transaction that locks the
  initiative, compares its version, and inserts the goal version, its attachment links, the context
  snapshot, the run with its event counter, budgets, qualification and first task, and two events.
\<close>

section \<open>Errors and responses\<close>

definition activeInitiativeExists :: exn where
  "activeInitiativeExists = Domain (DomainError 409 ''active_initiative_exists''
     ''The MVP permits one non-terminal Prototype Initiative per company.''
     (Some ''An active Prototype Initiative already exists'') (Some [''get_active_initiative'']) None)"

definition companyNotFound :: exn where
  "companyNotFound = Domain (DomainError 404 ''resource_not_found''
     ''Provision a company before creating an initiative.'' (Some ''Company not found'') (Some [''create_company'']) None)"

definition initiativeNotFound :: exn where
  "initiativeNotFound = Domain (DomainError 404 ''resource_not_found''
     ''The requested resource does not exist.'' (Some ''Resource not found'') None None)"

definition initiativeChanged :: exn where
  "initiativeChanged = Domain (DomainError 412 ''precondition_failed''
     ''Refresh the initiative and retry with its current ETag.''
     (Some ''The initiative changed'') (Some [''refresh_resource'', ''retry_command'']) None)"

definition initiativeResponse :: "initiative_row \<Rightarrow> json" where
  "initiativeResponse row = JObj [(''id'', JStr (in_id row)), (''type'', JStr (in_type row)),
     (''title'', JStr (in_title row)), (''status'', JStr (initiative_status_text (in_status row))),
     (''current_goal_version'', json_opt JStr (in_current_goal_version_id row)),
     (''row_version'', JNum (int (in_row_version row))), (''created_at'', JStr (toISOString (in_created_at row)))]"

section \<open>The current initiative\<close>

text \<open>\<open>ORDER BY created_at DESC, id DESC\<close>.\<close>

definition newest_first :: "initiative_row \<Rightarrow> timestamp \<times> int list" where
  "newest_first r = (- in_created_at r, map (\<lambda>c. - int (of_char c)) (in_id r))"

definition Initiatives_getCurrent :: "request_actor \<Rightarrow> json call" where
  "Initiatives_getCurrent actor =
     tx_bind (tx_lift (companyScopeFromActor actor)) (\<lambda>companyId.
     tx_bind (query (\<lambda>d. order_limit_1 newest_first
         (filter (\<lambda>r. in_company_id r = companyId \<and> active_prototype r) (initiatives d)))) (\<lambda>row.
     tx_bind (tx_require initiativeNotFound row) (\<lambda>r. tx_return (initiativeResponse r))))"

section \<open>Creation\<close>

record create_initiative_dto =
  ci_type :: string
  ci_title :: string

definition CreateInitiativeDto_ok :: "create_initiative_dto \<Rightarrow> bool" where
  "CreateInitiativeDto_ok dto \<longleftrightarrow> ci_type dto \<in> set [''PROTOTYPE''] \<and> between 3 160 (ci_title dto)"

definition new_initiative :: "env \<Rightarrow> uuid \<Rightarrow> uuid \<Rightarrow> string \<Rightarrow> initiative_row" where
  "new_initiative E initiativeId companyId title =
     \<lparr>in_id = initiativeId, in_company_id = companyId, in_type = ''PROTOTYPE'', in_title = title,
      in_status = I_DRAFT, in_current_goal_version_id = None, in_row_version = 1,
      in_created_at = now_ms E, in_updated_at = now_ms E\<rparr>"

definition initiative_created_event :: "uuid \<Rightarrow> uuid \<Rightarrow> uuid \<Rightarrow> uuid \<Rightarrow> append_options" where
  "initiative_created_event companyId actorId correlationId initiativeId =
     \<lparr>ae_companyId = companyId, ae_runId = None, ae_type = ''initiative_created'', ae_actorType = ''FOUNDER'',
      ae_actorId = actorId, ae_actorVersion = None, ae_correlationId = correlationId, ae_causationId = None,
      ae_audience = None, ae_dataClassification = None,
      ae_payload = JObj [(''initiative_id'', JStr initiativeId), (''type'', JStr ''PROTOTYPE''), (''status'', JStr ''DRAFT'')]\<rparr>"

definition create_initiative_body :: "env \<Rightarrow> uuid \<Rightarrow> uuid \<Rightarrow> uuid \<Rightarrow> create_initiative_dto \<Rightarrow> (int \<times> json) call" where
  "create_initiative_body E companyId actorId correlationId dto =
     tx_bind (query (\<lambda>d. filter (\<lambda>r. in_company_id r = companyId \<and> active_prototype r) (initiatives d))) (\<lambda>existing.
     tx_then (tx_when (0 < length existing) (tx_throw activeInitiativeExists))
     (tx_bind (newId E) (\<lambda>initiativeId.
      tx_then (insert_initiative (new_initiative E initiativeId companyId (js_trim (ci_title dto))))
      (tx_bind (DomainEvent_append E (initiative_created_event companyId actorId correlationId initiativeId)) (\<lambda>_.
       tx_return (201, initiativeResponse (new_initiative E initiativeId companyId (js_trim (ci_title dto)))))))))"

definition create_initiative_command :: "env \<Rightarrow> uuid \<Rightarrow> uuid \<Rightarrow> uuid \<Rightarrow> uuid \<Rightarrow> create_initiative_dto \<Rightarrow> command_options" where
  "create_initiative_command E companyId actorId idempotencyKey correlationId dto =
     \<lparr>cx_actorId = actorId, cx_operation = ''initiatives.create'', cx_idempotencyKey = idempotencyKey,
      cx_request = JObj [(''type'', JStr (ci_type dto)), (''title'', JStr (ci_title dto))],
      cx_execute = create_initiative_body E companyId actorId correlationId dto\<rparr>"

definition require_company :: "request_actor \<Rightarrow> exn + uuid" where
  "require_company actor =
     (case ra_companyId actor of
        None \<Rightarrow> Inl companyNotFound
      | Some c \<Rightarrow> if c = [] then Inl companyNotFound else companyScopeFromActor actor)"

definition Initiatives_create :: "env \<Rightarrow> request_actor \<Rightarrow> uuid \<Rightarrow> uuid \<Rightarrow> create_initiative_dto \<Rightarrow> command_result call" where
  "Initiatives_create E actor idempotencyKey correlationId dto =
     tx_bind (tx_lift (require_company actor)) (\<lambda>companyId.
       tx_catch (CommandExecutor_run E (create_initiative_command E companyId (ra_id actor) idempotencyKey correlationId dto))
         (\<lambda>error. tx_throw (if error = PgError ''initiatives_one_active_prototype'' then activeInitiativeExists else error)))"

section \<open>A goal and its run\<close>

definition PM_EMPLOYEE_DEFINITION_ID :: uuid where
  "PM_EMPLOYEE_DEFINITION_ID = ''019c0000-0000-7000-8000-000000000001''"

definition next_goal_version :: "uuid \<Rightarrow> uuid \<Rightarrow> db \<Rightarrow> nat" where
  "next_goal_version companyId initiativeId d =
     foldr max (map gv_version (filter (\<lambda>g. gv_company_id g = companyId \<and> gv_initiative_id g = initiativeId) (goal_versions d))) 0 + 1"

definition new_goal_version :: "env \<Rightarrow> uuid \<Rightarrow> uuid \<Rightarrow> uuid \<Rightarrow> nat \<Rightarrow> uuid \<Rightarrow> create_goal_dto \<Rightarrow> goal_version_row" where
  "new_goal_version E goalVersionId companyId initiativeId version actorId dto =
     \<lparr>gv_id = goalVersionId, gv_company_id = companyId, gv_initiative_id = initiativeId, gv_version = version,
      gv_schema_version = cg_schema_version dto, gv_structured_goal = canonicalStructuredGoal (cg_goal dto),
      gv_attachment_ids = cg_attachment_ids dto, gv_created_by = actorId, gv_created_at = now_ms E\<rparr>"

definition activate_initiative :: "env \<Rightarrow> uuid \<Rightarrow> uuid \<Rightarrow> uuid \<Rightarrow> db \<Rightarrow> db" where
  "activate_initiative E companyId initiativeId goalVersionId d = d\<lparr>initiatives :=
     upd_where (\<lambda>r. in_company_id r = companyId \<and> in_id r = initiativeId)
       (\<lambda>r. r\<lparr>in_current_goal_version_id := Some goalVersionId, in_status := I_ACTIVE,
              in_row_version := in_row_version r + 1, in_updated_at := now_ms E\<rparr>) (initiatives d)\<rparr>"

definition goal_snapshot :: "env \<Rightarrow> uuid \<Rightarrow> uuid \<Rightarrow> uuid \<Rightarrow> uuid \<Rightarrow> snapshot_row" where
  "goal_snapshot E snapshotId companyId profileVersionId goalVersionId =
     \<lparr>cs_id = snapshotId, cs_company_id = companyId, cs_company_profile_version_id = profileVersionId,
      cs_goal_version_id = goalVersionId, cs_answer_version_ids = [], cs_created_at = now_ms E\<rparr>"

definition goal_run_state :: "bool \<Rightarrow> run_state" where
  "goal_run_state needsClarification = (if needsClarification then R_AWAITING_FOUNDER_INPUT else R_DRAFT)"

definition goal_blocking_reason :: "bool \<Rightarrow> string option" where
  "goal_blocking_reason needsClarification = (if needsClarification then Some ''GOAL_NEEDS_CLARIFICATION'' else None)"

definition goal_run :: "env \<Rightarrow> uuid \<Rightarrow> uuid \<Rightarrow> uuid \<Rightarrow> uuid \<Rightarrow> bool \<Rightarrow> run_row" where
  "goal_run E runId companyId initiativeId snapshotId needsClarification =
     \<lparr>r_id = runId, r_company_id = companyId, r_initiative_id = initiativeId, r_context_snapshot_id = snapshotId,
      r_state = goal_run_state needsClarification, r_stage = S_INTAKE, r_row_version = 1,
      r_workflow_version = workflow_version E, r_policy_version = ''mvp-v1'',
      r_blocking_reason_code = goal_blocking_reason needsClarification, r_failure_reason_code = None,
      r_cancellation_requested_at = None, r_created_at = now_ms E, r_updated_at = now_ms E\<rparr>"

definition first_task :: "env \<Rightarrow> uuid \<Rightarrow> uuid \<Rightarrow> uuid \<Rightarrow> uuid \<Rightarrow> uuid \<Rightarrow> uuid \<Rightarrow> task_row" where
  "first_task E taskId companyId runId snapshotId profileVersionId goalVersionId =
     \<lparr>t_id = taskId, t_company_id = companyId, t_run_id = runId, t_type = ''CREATE_PRODUCT_BRIEF'',
      t_owner_employee_definition_id = Some PM_EMPLOYEE_DEFINITION_ID, t_state = T_QUEUED, t_priority = 100,
      t_input_manifest = JObj [(''context_snapshot_id'', JStr snapshotId),
        (''company_profile_version_id'', JStr profileVersionId), (''goal_version_id'', JStr goalVersionId),
        (''workflow_version'', JStr (workflow_version E)), (''policy_version'', JStr ''mvp-v1'')],
      t_attempt_count = 0, t_row_version = 1, t_lease_owner = None, t_lease_token = None, t_lease_expires_at = None,
      t_available_at = now_ms E, t_blocker_code = None, t_created_at = now_ms E, t_updated_at = now_ms E,
      t_completed_at = None\<rparr>"

definition run_budget :: "uuid \<Rightarrow> uuid \<Rightarrow> string \<Rightarrow> nat \<Rightarrow> budget_row" where
  "run_budget companyId runId category limit = \<lparr>bl_company_id = companyId, bl_run_id = runId, bl_category = category,
     bl_hard_limit = limit, bl_reserved = 0, bl_consumed = 0\<rparr>"

definition run_created_event :: "uuid \<Rightarrow> uuid \<Rightarrow> uuid \<Rightarrow> uuid \<Rightarrow> uuid \<Rightarrow> uuid \<Rightarrow> uuid \<Rightarrow> uuid option \<Rightarrow> bool \<Rightarrow> append_options" where
  "run_created_event companyId runId actorId correlationId initiativeId goalVersionId snapshotId taskId needsClarification =
     \<lparr>ae_companyId = companyId, ae_runId = Some runId, ae_type = ''run_created'', ae_actorType = ''FOUNDER'',
      ae_actorId = actorId, ae_actorVersion = None, ae_correlationId = correlationId, ae_causationId = None,
      ae_audience = None, ae_dataClassification = None,
      ae_payload = JObj [(''initiative_id'', JStr initiativeId), (''goal_version_id'', JStr goalVersionId),
        (''context_snapshot_id'', JStr snapshotId), (''initial_task_id'', json_opt JStr taskId),
        (''state'', JStr (run_state_text (goal_run_state needsClarification))), (''stage'', JStr ''INTAKE'')]\<rparr>"

definition qualification_event :: "uuid \<Rightarrow> uuid \<Rightarrow> uuid \<Rightarrow> uuid \<Rightarrow> uuid \<Rightarrow> public_qualification \<Rightarrow> append_options" where
  "qualification_event companyId runId correlationId goalVersionId qualificationId q =
     \<lparr>ae_companyId = companyId, ae_runId = Some runId, ae_type = ''goal_qualification_recorded'', ae_actorType = ''SYSTEM'',
      ae_actorId = ''goal-qualification/v1'', ae_actorVersion = None, ae_correlationId = correlationId,
      ae_causationId = None, ae_audience = None, ae_dataClassification = None,
      ae_payload = JObj [(''goal_version_id'', JStr goalVersionId), (''qualification_id'', JStr qualificationId),
        (''result'', JStr (result_text (gq_q_result q))),
        (''reason_codes'', JArr (map (\<lambda>c. JStr (reason_text c)) (gq_q_reason_codes q))),
        (''screen_estimate'', JNum (gq_q_screen_estimate q)), (''policy_version'', JStr (gq_q_policy_version q)),
        (''question_count'', JNum (int (length (gq_q_questions q))))]\<rparr>"

definition goal_response :: "goal_version_row \<Rightarrow> public_qualification \<Rightarrow> run_row \<Rightarrow> json" where
  "goal_response g q r = JObj
     [(''goal_version'', JObj [(''id'', JStr (gv_id g)), (''version'', JNum (int (gv_version g))), (''schema_version'', JNum 1),
        (''created_by'', JStr ''FOUNDER''), (''created_at'', JStr (toISOString (gv_created_at g)))]),
      (''qualification'', public_json q),
      (''run'', JObj [(''id'', JStr (r_id r)), (''state'', JStr (run_state_text (r_state r))), (''stage'', JStr ''INTAKE''),
        (''version'', JNum 1), (''context_snapshot_id'', JStr (r_context_snapshot_id r)),
        (''workflow_version'', JStr (r_workflow_version r)), (''policy_version'', JStr ''mvp-v1''),
        (''blocking_reason_code'', json_opt JStr (r_blocking_reason_code r))])]"

text \<open>
  The body after the version check: the inserts, from the profile row that was read (\<open>None\<close> when
  the founder has no such company) and the next version. A company without a profile version fails on the
  NOT NULL column of the snapshot.
\<close>

definition profile_of :: "company_row option \<Rightarrow> exn + uuid" where
  "profile_of row =
     (case row of
        None \<Rightarrow> Inl (JsError ''Cannot read properties of undefined (reading 'current_profile_version_id')'')
      | Some c \<Rightarrow> (case co_current_profile_version_id c of
            None \<Rightarrow> Inl (PgError ''context_snapshots_company_profile_version_id_not_null'')
          | Some p \<Rightarrow> Inr p))"

definition goal_rows :: "env \<Rightarrow> uuid \<Rightarrow> uuid \<Rightarrow> uuid \<Rightarrow> create_goal_dto \<Rightarrow> public_qualification \<Rightarrow> company_row option \<Rightarrow> nat \<Rightarrow>
    uuid \<Rightarrow> uuid \<Rightarrow> uuid \<Rightarrow> uuid option \<Rightarrow> unit call" where
  "goal_rows E companyId actorId initiativeId dto q profileRow goalVersion goalVersionId snapshotId runId taskId =
     tx_then (insert_goal_version (new_goal_version E goalVersionId companyId initiativeId goalVersion actorId dto))
     (tx_then (bindToGoalVersion E companyId goalVersionId (cg_attachment_ids dto))
     (tx_then (execute (activate_initiative E companyId initiativeId goalVersionId))
     (tx_bind (tx_lift (profile_of profileRow)) (\<lambda>profileVersionId.
     tx_then (insert_snapshot (goal_snapshot E snapshotId companyId profileVersionId goalVersionId))
     (tx_then (insert_run (goal_run E runId companyId initiativeId snapshotId (gq_q_result q = Needs_clarification)))
     (tx_then (insert_counter \<lparr>rc_company_id = companyId, rc_run_id = runId, rc_next_sequence = 1\<rparr>)
     (case taskId of None \<Rightarrow> tx_return ()
        | Some i \<Rightarrow> insert_task (first_task E i companyId runId snapshotId profileVersionId goalVersionId))))))))"

definition goal_budgets :: "uuid \<Rightarrow> uuid \<Rightarrow> unit call" where
  "goal_budgets companyId runId =
     tx_then (insert_budget (run_budget companyId runId ''MODEL_TOKENS'' 20000))
       (insert_budget (run_budget companyId runId ''MODEL_COST_MINOR'' 500))"

definition record_goal :: "env \<Rightarrow> uuid \<Rightarrow> uuid \<Rightarrow> uuid \<Rightarrow> uuid \<Rightarrow> create_goal_dto \<Rightarrow> public_qualification \<Rightarrow>
    company_row option \<Rightarrow> nat \<Rightarrow> (int \<times> json) call" where
  "record_goal E companyId actorId correlationId initiativeId dto q profileRow goalVersion =
     (let needsClarification = gq_q_result q = Needs_clarification in
     tx_bind (newId E) (\<lambda>goalVersionId.
     tx_bind (newId E) (\<lambda>snapshotId.
     tx_bind (newId E) (\<lambda>runId.
     tx_bind (if needsClarification then tx_return None else tx_bind (newId E) (\<lambda>i. tx_return (Some i))) (\<lambda>taskId.
     tx_bind (newId E) (\<lambda>qualificationId.
     tx_then (goal_rows E companyId actorId initiativeId dto q profileRow goalVersion goalVersionId snapshotId runId taskId)
     (tx_then (insert_qualification (qualification_row_of q qualificationId companyId initiativeId goalVersionId runId))
     (tx_then (goal_budgets companyId runId)
     (tx_bind (DomainEvent_append E (run_created_event companyId runId actorId correlationId initiativeId goalVersionId
         snapshotId taskId needsClarification)) (\<lambda>_.
     tx_bind (DomainEvent_append E (qualification_event companyId runId correlationId goalVersionId qualificationId q)) (\<lambda>_.
     tx_return (201, goal_response (new_goal_version E goalVersionId companyId initiativeId goalVersion actorId dto) q
       (goal_run E runId companyId initiativeId snapshotId needsClarification)))))))))))))"

definition goal_body :: "env \<Rightarrow> uuid \<Rightarrow> uuid \<Rightarrow> uuid \<Rightarrow> uuid \<Rightarrow> nat \<Rightarrow> create_goal_dto \<Rightarrow> public_qualification \<Rightarrow> (int \<times> json) call" where
  "goal_body E companyId actorId correlationId initiativeId expectedVersion dto q =
     tx_bind (query (\<lambda>d. find (\<lambda>r. in_company_id r = companyId \<and> in_id r = initiativeId \<and>
         in_status r \<in> set [I_DRAFT, I_ACTIVE]) (initiatives d))) (\<lambda>row.
     tx_bind (tx_require initiativeNotFound row) (\<lambda>initiative.
     tx_then (tx_when (in_row_version initiative \<noteq> expectedVersion) (tx_throw initiativeChanged))
     (tx_bind (query (\<lambda>d. find (\<lambda>c. co_id c = companyId \<and> co_founder_id c = actorId) (companies d))) (\<lambda>profileRow.
      tx_bind (query (next_goal_version companyId initiativeId)) (\<lambda>goalVersion.
      record_goal E companyId actorId correlationId initiativeId dto q profileRow goalVersion)))))"

text \<open>The request as it is hashed: the raw body has the fields of its canonical form.\<close>

definition goal_dto_json :: "create_goal_dto \<Rightarrow> json" where
  "goal_dto_json dto = JObj [(''schema_version'', JNum (cg_schema_version dto)),
     (''goal'', canonicalStructuredGoal (cg_goal dto)),
     (''attachment_ids'', JArr (map JStr (cg_attachment_ids dto))), (''start_run'', JBool (cg_start_run dto))]"

definition goal_command :: "env \<Rightarrow> uuid \<Rightarrow> uuid \<Rightarrow> uuid \<Rightarrow> uuid \<Rightarrow> uuid \<Rightarrow> nat \<Rightarrow> create_goal_dto \<Rightarrow> public_qualification \<Rightarrow> command_options" where
  "goal_command E companyId actorId idempotencyKey correlationId initiativeId expectedVersion dto q =
     \<lparr>cx_actorId = actorId, cx_operation = ''initiatives.goals.create_and_start'', cx_idempotencyKey = idempotencyKey,
      cx_request = JObj [(''initiativeId'', JStr initiativeId), (''expectedVersion'', JNum (int expectedVersion)),
        (''dto'', goal_dto_json dto)],
      cx_execute = goal_body E companyId actorId correlationId initiativeId expectedVersion dto q\<rparr>"

definition createGoalAndRun :: "env \<Rightarrow> request_actor \<Rightarrow> uuid \<Rightarrow> nat \<Rightarrow> uuid \<Rightarrow> uuid \<Rightarrow> create_goal_dto \<Rightarrow> command_result call" where
  "createGoalAndRun E actor initiativeId expectedVersion idempotencyKey correlationId dto =
     tx_bind (tx_lift (require_company actor)) (\<lambda>companyId.
     tx_bind (tx_lift (GoalScope_evaluate dto)) (\<lambda>qualification.
       if gq_q_result qualification = Out_of_scope then tx_throw (toOutOfScopeError qualification)
       else CommandExecutor_run E (goal_command E companyId (ra_id actor) idempotencyKey correlationId initiativeId
         expectedVersion dto (publicGoalQualification qualification))))"

section \<open>What a goal command leaves behind\<close>

lemma new_task_id_InrE:
  assumes "(if b then tx_return None else tx_bind (newId E) (\<lambda>i. tx_return (Some i))) s = (Inr x, t)"
  obtains "sys_db t = sys_db s" and "(x = None) = b"
  using assms by (auto simp: tx_return_def tx_bind_def newId_apply split: if_splits)

lemma insert_first_task_InrE:
  assumes "(case x of None \<Rightarrow> tx_return () | Some i \<Rightarrow> insert_task (f i)) s = (Inr u, t)"
  obtains "t = s\<lparr>sys_db := sys_db s\<lparr>tasks := tasks (sys_db s) @ map f (case x of None \<Rightarrow> [] | Some i \<Rightarrow> [i])\<rparr>\<rparr>"
    and "\<forall>i. x = Some i \<longrightarrow> t_id (f i) \<notin> t_id ` set (tasks (sys_db s))"
proof (cases x)
  case None
  with assms show thesis by (intro that) (simp_all add: tx_return_def)
next
  case (Some i)
  with assms have i: "insert_task (f i) s = (Inr u, t)" by simp
  then have "t_id (f i) \<notin> t_id ` set (tasks (sys_db s))"
    unfolding insert_task_def by (elim insert_row_InrE) (simp add: absent_image)
  with Some inserted(11) [OF i] show thesis by (intro that) auto
qed

lemma bind_shape: "bindToGoalVersion E c gv ids s = (Inr u, t) \<Longrightarrow>
    t = s\<lparr>sys_db := sys_db s\<lparr>goal_version_attachments := goal_version_attachments (sys_db s) @
      map2 (new_link c gv) ids [0..<length ids]\<rparr>\<rparr>"
proof -
  assume b: "bindToGoalVersion E c gv ids s = (Inr u, t)"
  show ?thesis
  proof (cases "ids = []")
    case True
    with b show ?thesis by (simp add: bindToGoalVersion_def tx_return_def)
  next
    case False
    with b obtain rows where "bind_entries E c gv rows 0 0 ids s = (Inr u, t)"
      unfolding bindToGoalVersion_def
      by (auto simp: tx_throw_def tx_bind_def tx_then_def query_apply tx_when_def tx_return_def split: if_splits)
    from bind_entries_InrE [OF this] show ?thesis by (auto simp: ATTACHMENT_POLICY_def)
  qed
qed

text \<open>The identifiers of the new rows are new, and the profile version is one of the company.\<close>

definition fresh_goal_rows :: "uuid \<Rightarrow> uuid \<Rightarrow> uuid \<Rightarrow> uuid \<Rightarrow> uuid \<Rightarrow> db \<Rightarrow> bool" where
  "fresh_goal_rows c p gvid sid rid d \<longleftrightarrow> gvid \<notin> gv_id ` set (goal_versions d) \<and> sid \<notin> cs_id ` set (context_snapshots d) \<and>
     rid \<notin> r_id ` set (runs d) \<and> (c, p) \<in> (\<lambda>x. (cp_company_id x, cp_id x)) ` set (company_profile_versions d)"

lemma inserted_fresh:
  "insert_goal_version g s = (Inr u, t) \<Longrightarrow> gv_id g \<notin> gv_id ` set (goal_versions (sys_db s))"
  "insert_snapshot cs s = (Inr u, t) \<Longrightarrow> cs_id cs \<notin> cs_id ` set (context_snapshots (sys_db s)) \<and>
    (cs_company_id cs, cs_company_profile_version_id cs) \<in> (\<lambda>x. (cp_company_id x, cp_id x)) ` set (company_profile_versions (sys_db s))"
  "insert_run r s = (Inr u, t) \<Longrightarrow> r_id r \<notin> r_id ` set (runs (sys_db s))"
  unfolding insert_goal_version_def insert_snapshot_def insert_run_def
  by (elim insert_row_InrE; simp add: absent_image present_image)+

lemma goal_rows_InrE:
  assumes "goal_rows E c a iid dto q row n gvid sid rid tid s = (Inr u, t)"
  obtains p where "profile_of row = Inr p"
    and "sys_db t = sys_db s\<lparr>
        goal_versions := goal_versions (sys_db s) @ [new_goal_version E gvid c iid n a dto],
        goal_version_attachments := goal_version_attachments (sys_db s) @
          map2 (new_link c gvid) (cg_attachment_ids dto) [0..<length (cg_attachment_ids dto)],
        initiatives := initiatives (activate_initiative E c iid gvid (sys_db s)),
        context_snapshots := context_snapshots (sys_db s) @ [goal_snapshot E sid c p gvid],
        runs := runs (sys_db s) @ [goal_run E rid c iid sid (gq_q_result q = Needs_clarification)],
        run_event_counters := run_event_counters (sys_db s) @ [\<lparr>rc_company_id = c, rc_run_id = rid, rc_next_sequence = 1\<rparr>],
        tasks := tasks (sys_db s) @ map (\<lambda>i. first_task E i c rid sid p gvid) (case tid of None \<Rightarrow> [] | Some i \<Rightarrow> [i])\<rparr>"
    and "fresh_goal_rows c p gvid sid rid (sys_db s)"
    and "\<forall>i. tid = Some i \<longrightarrow> i \<notin> t_id ` set (tasks (sys_db s))"
proof -
  from assms obtain p u2 s2 u3 s3 u5 s5 u6 s6 u7 s7 where p: "profile_of row = Inr p"
    and ops: "insert_goal_version (new_goal_version E gvid c iid n a dto) s = (Inr u2, s2)"
      "bindToGoalVersion E c gvid (cg_attachment_ids dto) s2 = (Inr u3, s3)"
      "insert_snapshot (goal_snapshot E sid c p gvid) (s3\<lparr>sys_db := activate_initiative E c iid gvid (sys_db s3)\<rparr>) = (Inr u5, s5)"
      "insert_run (goal_run E rid c iid sid (gq_q_result q = Needs_clarification)) s5 = (Inr u6, s6)"
      "insert_counter \<lparr>rc_company_id = c, rc_run_id = rid, rc_next_sequence = 1\<rparr> s6 = (Inr u7, s7)"
      "(case tid of None \<Rightarrow> tx_return () | Some i \<Rightarrow> insert_task (first_task E i c rid sid p gvid)) s7 = (Inr u, t)"
    unfolding goal_rows_def
    by (elim tx_bind_InrE tx_then_InrE execute_InrE tx_lift_InrE) (simp only: sum.inject)
  from ops(6) have t: "t = s7\<lparr>sys_db := sys_db s7\<lparr>tasks := tasks (sys_db s7) @
      map (\<lambda>i. first_task E i c rid sid p gvid) (case tid of None \<Rightarrow> [] | Some i \<Rightarrow> [i])\<rparr>\<rparr>"
    and new: "\<forall>i. tid = Some i \<longrightarrow> i \<notin> t_id ` set (tasks (sys_db s7))"
    by (auto elim!: insert_first_task_InrE simp: first_task_def)
  note shapes = t inserted(5) [OF ops(1)] bind_shape [OF ops(2)] inserted(6) [OF ops(3)] inserted(7) [OF ops(4)] inserted(8) [OF ops(5)]
  have "fresh_goal_rows c p gvid sid rid (sys_db s)"
    using inserted_fresh(1) [OF ops(1)] inserted_fresh(2) [OF ops(3)] inserted_fresh(3) [OF ops(4)] shapes(2-4)
    by (simp add: fresh_goal_rows_def activate_initiative_def new_goal_version_def goal_snapshot_def goal_run_def)
  with shapes new show thesis
    by (intro that [OF p]) (simp_all add: activate_initiative_def)
qed

lemma goal_budgets_InrE:
  assumes "goal_budgets c rid s = (Inr u, t)"
  obtains "sys_db t = sys_db s\<lparr>budget_ledgers := budget_ledgers (sys_db s) @
      [run_budget c rid ''MODEL_TOKENS'' 20000, run_budget c rid ''MODEL_COST_MINOR'' 500]\<rparr>"
proof -
  from assms obtain u1 s1 where "insert_budget (run_budget c rid ''MODEL_TOKENS'' 20000) s = (Inr u1, s1)"
    "insert_budget (run_budget c rid ''MODEL_COST_MINOR'' 500) s1 = (Inr u, t)"
    unfolding goal_budgets_def by (elim tx_then_InrE) (simp only:)
  then show thesis by (intro that) (auto dest!: inserted(10))
qed

lemma record_goal_InrE:
  assumes "record_goal E c a k iid dto q row n s = (Inr x, t)"
  obtains gvid sid rid tid qid p e1 e2 q1 q2 cs ms where "profile_of row = Inr p"
    and "(tid = None) = (gq_q_result q = Needs_clarification)"
    and "x = (201, goal_response (new_goal_version E gvid c iid n a dto) q
        (goal_run E rid c iid sid (gq_q_result q = Needs_clarification)))"
    and "sys_db t = sys_db s\<lparr>
        goal_versions := goal_versions (sys_db s) @ [new_goal_version E gvid c iid n a dto],
        goal_version_attachments := goal_version_attachments (sys_db s) @
          map2 (new_link c gvid) (cg_attachment_ids dto) [0..<length (cg_attachment_ids dto)],
        initiatives := initiatives (activate_initiative E c iid gvid (sys_db s)),
        context_snapshots := context_snapshots (sys_db s) @ [goal_snapshot E sid c p gvid],
        runs := runs (sys_db s) @ [goal_run E rid c iid sid (gq_q_result q = Needs_clarification)],
        run_event_counters := cs,
        tasks := tasks (sys_db s) @ map (\<lambda>i. first_task E i c rid sid p gvid) (case tid of None \<Rightarrow> [] | Some i \<Rightarrow> [i]),
        goal_qualifications := goal_qualifications (sys_db s) @ [qualification_row_of q qid c iid gvid rid],
        budget_ledgers := budget_ledgers (sys_db s) @ [run_budget c rid ''MODEL_TOKENS'' 20000, run_budget c rid ''MODEL_COST_MINOR'' 500],
        events := events (sys_db s) @ [new_event E (run_created_event c rid a k iid gvid sid tid (gq_q_result q = Needs_clarification)) e1 q1,
          new_event E (qualification_event c rid k gvid qid q) e2 q2],
        outbox_messages := ms\<rparr>"
    and "fresh_goal_rows c p gvid sid rid (sys_db s)" and "\<forall>i. tid = Some i \<longrightarrow> i \<notin> t_id ` set (tasks (sys_db s))"
proof -
  let ?nc = "gq_q_result q = Needs_clarification"
  from assms obtain gvid sa sid sb rid s0 tid s1 qid sc u2 s2 u3 s3 u4 s4 e1 s5 e2 where
    news: "newId E s = (Inr gvid, sa)" "newId E sa = (Inr sid, sb)" "newId E sb = (Inr rid, s0)" "newId E s1 = (Inr qid, sc)"
    and ids: "(if ?nc then tx_return None else tx_bind (newId E) (\<lambda>i. tx_return (Some i))) s0 = (Inr tid, s1)"
    and ops: "goal_rows E c a iid dto q row n gvid sid rid tid sc = (Inr u2, s2)"
      "insert_qualification (qualification_row_of q qid c iid gvid rid) s2 = (Inr u3, s3)"
      "goal_budgets c rid s3 = (Inr u4, s4)"
    and evs: "DomainEvent_append E (run_created_event c rid a k iid gvid sid tid ?nc) s4 = (Inr e1, s5)"
      "DomainEvent_append E (qualification_event c rid k gvid qid q) s5 = (Inr e2, t)"
    and x: "x = (201, goal_response (new_goal_version E gvid c iid n a dto) q (goal_run E rid c iid sid ?nc))"
    unfolding record_goal_def Let_def
    by (elim tx_bind_InrE tx_then_InrE tx_return_InrE) (simp only:)
  from news have "sys_db sa = sys_db s" "sys_db sb = sys_db sa" "sys_db s0 = sys_db sb" "sys_db sc = sys_db s1"
    by (auto elim!: newId_InrE)
  with ids have t: "(tid = None) = ?nc" "sys_db sc = sys_db s" by (auto elim: new_task_id_InrE)
  obtain p where p: "profile_of row = Inr p" and s2: "sys_db s2 = sys_db s\<lparr>
        goal_versions := goal_versions (sys_db s) @ [new_goal_version E gvid c iid n a dto],
        goal_version_attachments := goal_version_attachments (sys_db s) @
          map2 (new_link c gvid) (cg_attachment_ids dto) [0..<length (cg_attachment_ids dto)],
        initiatives := initiatives (activate_initiative E c iid gvid (sys_db s)),
        context_snapshots := context_snapshots (sys_db s) @ [goal_snapshot E sid c p gvid],
        runs := runs (sys_db s) @ [goal_run E rid c iid sid ?nc],
        run_event_counters := run_event_counters (sys_db s) @ [\<lparr>rc_company_id = c, rc_run_id = rid, rc_next_sequence = 1\<rparr>],
        tasks := tasks (sys_db s) @ map (\<lambda>i. first_task E i c rid sid p gvid) (case tid of None \<Rightarrow> [] | Some i \<Rightarrow> [i])\<rparr>"
    and fresh: "fresh_goal_rows c p gvid sid rid (sys_db s)" "\<forall>i. tid = Some i \<longrightarrow> i \<notin> t_id ` set (tasks (sys_db s))"
    using ops(1) by (rule goal_rows_InrE) (simp add: t)
  have s3: "sys_db s3 = sys_db s2\<lparr>goal_qualifications := goal_qualifications (sys_db s2) @ [qualification_row_of q qid c iid gvid rid]\<rparr>"
    using inserted(9) [OF ops(2)] by simp
  from ops(3) have s4: "sys_db s4 = sys_db s3\<lparr>budget_ledgers := budget_ledgers (sys_db s3) @
      [run_budget c rid ''MODEL_TOKENS'' 20000, run_budget c rid ''MODEL_COST_MINOR'' 500]\<rparr>" by (rule goal_budgets_InrE)
  from evs(1) obtain cs1 q1 ms1 where s5: "sys_db s5 = sys_db s4\<lparr>run_event_counters := cs1,
      events := events (sys_db s4) @ [new_event E (run_created_event c rid a k iid gvid sid tid ?nc) e1 q1], outbox_messages := ms1\<rparr>"
    by (rule append_shape)
  from evs(2) obtain cs2 q2 ms2 where s6: "sys_db t = sys_db s5\<lparr>run_event_counters := cs2,
      events := events (sys_db s5) @ [new_event E (qualification_event c rid k gvid qid q) e2 q2], outbox_messages := ms2\<rparr>"
    by (rule append_shape)
  show thesis
    by (rule that [OF p t(1) x, where qid = qid and ?e1.0 = e1 and ?e2.0 = e2 and ?q1.0 = q1 and ?q2.0 = q2 and cs = cs2 and ms = ms2])
      (simp_all add: s6 s5 s4 s3 s2 fresh)
qed

section \<open>One active initiative per company\<close>

text \<open>
  The initiatives of a company: identifiers are unique and a company has at most one draft or active
  prototype, as the partial unique index demands; the activation by a goal is an update, which the
  index would refuse if it broke this.
\<close>

definition initiatives_ok :: "db \<Rightarrow> bool" where
  "initiatives_ok d \<longleftrightarrow> distinct (map in_id (initiatives d)) \<and>
     distinct (map in_company_id (filter active_prototype (initiatives d)))"

lemma goal_body_InrE:
  assumes "goal_body E c a k iid v dto q s = (Inr x, t)"
  obtains i where "find (\<lambda>r. in_company_id r = c \<and> in_id r = iid \<and> in_status r \<in> set [I_DRAFT, I_ACTIVE])
      (initiatives (sys_db s)) = Some i" and "in_row_version i = v"
    and "record_goal E c a k iid dto q (find (\<lambda>x. co_id x = c \<and> co_founder_id x = a) (companies (sys_db s)))
      (next_goal_version c iid (sys_db s)) s = (Inr x, t)"
proof -
  from assms obtain i b u where i: "find (\<lambda>r. in_company_id r = c \<and> in_id r = iid \<and> in_status r \<in> set [I_DRAFT, I_ACTIVE])
      (initiatives (sys_db s)) = Some i"
    and g: "tx_when (in_row_version i \<noteq> v) (tx_throw initiativeChanged) s = (Inr b, u)"
    and r: "record_goal E c a k iid dto q (find (\<lambda>x. co_id x = c \<and> co_founder_id x = a) (companies (sys_db u)))
      (next_goal_version c iid (sys_db u)) u = (Inr x, t)"
    unfolding goal_body_def
    by (elim tx_bind_InrE tx_then_InrE query_InrE tx_require_InrE) (simp only:)
  from g have "in_row_version i = v" "u = s" by (auto elim: guard_InrE)
  with i r show thesis by (intro that) simp_all
qed

lemma activate_active:
  assumes "distinct (map in_id rs)" and "find (\<lambda>r. in_company_id r = c \<and> in_id r = iid \<and> in_status r \<in> set [I_DRAFT, I_ACTIVE]) rs = Some i"
  shows "map in_company_id (filter active_prototype (upd_where (\<lambda>r. in_company_id r = c \<and> in_id r = iid)
      (\<lambda>r. r\<lparr>in_current_goal_version_id := g, in_status := I_ACTIVE, in_row_version := in_row_version r + 1,
             in_updated_at := n\<rparr>) rs)) = map in_company_id (filter active_prototype rs)"
proof -
  have "\<forall>r \<in> set rs. in_company_id r = c \<and> in_id r = iid \<longrightarrow> in_status r \<in> set [I_DRAFT, I_ACTIVE]"
  proof (intro ballI impI)
    fix r
    assume r: "r \<in> set rs" "in_company_id r = c \<and> in_id r = iid"
    note i = find_SomeD [OF assms(2)]
    with assms(1) r have "r = i" by (intro distinct_map_eq [of in_id rs]) simp_all
    with i show "in_status r \<in> set [I_DRAFT, I_ACTIVE]" by simp
  qed
  then show ?thesis by (induction rs) (auto simp: active_prototype_def)
qed

lemma goal_keeps_initiatives: "commits initiatives_ok (goal_body E c a k iid v dto q)"
proof (rule commitsI)
  fix s :: sys and x t
  assume ok: "initiatives_ok (sys_db s)" and "goal_body E c a k iid v dto q s = (Inr x, t)"
  from this(2) obtain i where i: "find (\<lambda>r. in_company_id r = c \<and> in_id r = iid \<and> in_status r \<in> set [I_DRAFT, I_ACTIVE])
      (initiatives (sys_db s)) = Some i"
    and "record_goal E c a k iid dto q (find (\<lambda>x. co_id x = c \<and> co_founder_id x = a) (companies (sys_db s)))
      (next_goal_version c iid (sys_db s)) s = (Inr x, t)" by (rule goal_body_InrE)
  from this(2) obtain gvid where t: "initiatives (sys_db t) = initiatives (activate_initiative E c iid gvid (sys_db s))"
    by (rule record_goal_InrE) simp
  have "map in_id (upd_where (\<lambda>r. in_company_id r = c \<and> in_id r = iid) (\<lambda>r. r\<lparr>in_current_goal_version_id := Some gvid,
      in_status := I_ACTIVE, in_row_version := in_row_version r + 1, in_updated_at := now_ms E\<rparr>) (initiatives (sys_db s))) =
      map in_id (initiatives (sys_db s))" by (rule map_upd_where_same) simp
  with ok activate_active [OF _ i] show "initiatives_ok (sys_db t)"
    by (simp add: initiatives_ok_def t activate_initiative_def)
qed

lemma create_keeps_initiatives: "commits initiatives_ok (create_initiative_body E c a k dto)"
proof -
  have other: "initiatives_ok (d\<lparr>run_event_counters := x\<rparr>) = initiatives_ok d" "initiatives_ok (d\<lparr>events := y\<rparr>) = initiatives_ok d"
    "initiatives_ok (d\<lparr>outbox_messages := z\<rparr>) = initiatives_ok d" for d x y z
    by (simp_all add: initiatives_ok_def)
  have ins: "commits initiatives_ok (insert_initiative r)" for r
    unfolding insert_initiative_def
    by (rule commits_insert) (auto simp: initiatives_ok_def absent_def)
  show ?thesis
    unfolding create_initiative_body_def
    by (intro commits_intros ins db_keeps_commits [OF append_keeps_frame]) (simp_all add: other)
qed

lemma bind_keeps_log: "commits event_log_ok (bindToGoalVersion E c g ids)"
proof -
  have "commits event_log_ok (bind_entries E c g rows n agg ids)" for rows n agg
    by (induction ids arbitrary: n agg) (simp_all add: assertLinkable_def Let_def, (intro commits_intros; assumption?)+)
  then show ?thesis
    unfolding bindToGoalVersion_def by (intro commits_intros)
qed

lemma initiative_bodies_keep_log:
  "commits event_log_ok (create_initiative_body E c a k dto)" "commits event_log_ok (goal_body E c a k iid v gdto q)"
  unfolding create_initiative_body_def goal_body_def record_goal_def goal_rows_def goal_budgets_def Let_def
  by (intro commits_intros append_commits_log bind_keeps_log log_commits_execute; simp add: activate_initiative_def log_part_def)+

lemma initiatives_records_free: "event_log_ok d \<and> initiatives_ok d \<Longrightarrow>
    event_log_ok (d\<lparr>idempotency_records := rs\<rparr>) \<and> initiatives_ok (d\<lparr>idempotency_records := rs\<rparr>)"
  using event_log_records_free by (simp add: initiatives_ok_def)

interpretation creations: command_body "\<lambda>d. event_log_ok d \<and> initiatives_ok d"
    "\<lambda>(c, a, k, dto). create_initiative_body E c a k dto" for E
  by unfold_locales
    (auto intro: commits_conj create_keeps_initiatives initiative_bodies_keep_log initiatives_records_free [THEN conjunct1]
      initiatives_records_free [THEN conjunct2])

interpretation goals: command_body "\<lambda>d. event_log_ok d \<and> initiatives_ok d"
    "\<lambda>(c, a, k, iid, v, dto, q). goal_body E c a k iid v dto q" for E
  by unfold_locales
    (auto intro: commits_conj goal_keeps_initiatives initiative_bodies_keep_log initiatives_records_free [THEN conjunct1]
      initiatives_records_free [THEN conjunct2])

text \<open>
  The commands on initiatives, whatever they return or throw, keep every company at one draft or
  active prototype at most, and the event log numbered without gaps and mirrored by the outbox.
\<close>

theorem one_active_initiative:
  "db_keeps (\<lambda>d. event_log_ok d \<and> initiatives_ok d) (Initiatives_create E actor key correlationId creation) \<and>
   db_keeps (\<lambda>d. event_log_ok d \<and> initiatives_ok d) (createGoalAndRun E actor initiativeId version key correlationId dto)"
proof
  have "db_keeps (\<lambda>d. event_log_ok d \<and> initiatives_ok d)
      (CommandExecutor_run E (create_initiative_command E c (ra_id actor) key correlationId creation))" for c
    by (rule creations.command_keeps [where p = "(c, ra_id actor, correlationId, creation)"])
      (simp add: create_initiative_command_def)
  then show "db_keeps (\<lambda>d. event_log_ok d \<and> initiatives_ok d) (Initiatives_create E actor key correlationId creation)"
    unfolding Initiatives_create_def by (intro keeps_intros)
next
  have "db_keeps (\<lambda>d. event_log_ok d \<and> initiatives_ok d)
      (CommandExecutor_run E (goal_command E c (ra_id actor) key correlationId initiativeId version dto q))" for c q
    by (rule goals.command_keeps [where p = "(c, ra_id actor, correlationId, initiativeId, version, dto, q)"])
      (simp add: goal_command_def)
  then show "db_keeps (\<lambda>d. event_log_ok d \<and> initiatives_ok d) (createGoalAndRun E actor initiativeId version key correlationId dto)"
    unfolding createGoalAndRun_def by (intro keeps_intros)
qed

section \<open>A goal starts one run\<close>

lemma require_company_InrE: "require_company actor = Inr c \<Longrightarrow> ra_companyId actor = Some c \<and> c \<noteq> []"
  by (auto simp: require_company_def companyScopeFromActor_Inr split: option.splits if_splits)

lemma evaluate_Inr: "GoalScope_evaluate dto = Inr q \<Longrightarrow> q = evaluateGoalQualification (cg_goal dto)"
  by (auto simp: GoalScope_evaluate_def split: sum.splits)

text \<open>What a goal command that was not replayed leaves behind.\<close>

lemma createGoalAndRun_started:
  assumes "createGoalAndRun E actor initiativeId version key correlationId dto s = (Inr r, t)" and "\<not> cr_replayed r"
    and "q = publicGoalQualification (evaluateGoalQualification (cg_goal dto))" and "needs = (gq_q_result q = Needs_clarification)"
  obtains c i gvid sid rid tid qid p e1 e2 q1 q2 co where "gq_q_result q \<noteq> Out_of_scope" and "cr_status r = 201" and "ra_companyId actor = Some c"
    and "i \<in> set (initiatives (sys_db s))" and "in_company_id i = c" and "in_id i = initiativeId" and "in_row_version i = version"
    and "in_status i \<in> set [I_DRAFT, I_ACTIVE]"
    and "initiatives (sys_db t) = initiatives (activate_initiative E c initiativeId gvid (sys_db s))"
    and "goal_versions (sys_db t) = goal_versions (sys_db s) @
      [new_goal_version E gvid c initiativeId (next_goal_version c initiativeId (sys_db s)) (ra_id actor) dto]"
    and "context_snapshots (sys_db t) = context_snapshots (sys_db s) @ [goal_snapshot E sid c p gvid]"
    and "runs (sys_db t) = runs (sys_db s) @ [goal_run E rid c initiativeId sid needs]"
    and "tasks (sys_db t) = tasks (sys_db s) @ (if needs then [] else [first_task E tid c rid sid p gvid])"
    and "budget_ledgers (sys_db t) = budget_ledgers (sys_db s) @
      [run_budget c rid ''MODEL_TOKENS'' 20000, run_budget c rid ''MODEL_COST_MINOR'' 500]"
    and "goal_qualifications (sys_db t) = goal_qualifications (sys_db s) @ [qualification_row_of q qid c initiativeId gvid rid]"
    and "events (sys_db t) = events (sys_db s) @
      [new_event E (run_created_event c rid (ra_id actor) correlationId initiativeId gvid sid (if needs then None else Some tid) needs) e1 q1,
       new_event E (qualification_event c rid correlationId gvid qid q) e2 q2]"
    and "human_waits (sys_db t) = human_waits (sys_db s)" and "company_profile_versions (sys_db t) = company_profile_versions (sys_db s)"
    and "fresh_goal_rows c p gvid sid rid (sys_db s)"
    and "co \<in> set (companies (sys_db s))" and "co_id co = c" and "co_founder_id co = ra_id actor" and "co_current_profile_version_id co = Some p"
    and "needs \<or> tid \<notin> t_id ` set (tasks (sys_db s))"
proof -
  from assms(1) obtain c q0 where c: "require_company actor = Inr c" and e: "GoalScope_evaluate dto = Inr q0"
    and r: "(if gq_q_result q0 = Out_of_scope then tx_throw (toOutOfScopeError q0)
       else CommandExecutor_run E (goal_command E c (ra_id actor) key correlationId initiativeId
         version dto (publicGoalQualification q0))) s = (Inr r, t)"
    unfolding createGoalAndRun_def by (elim tx_bind_InrE tx_lift_InrE) (simp only: sum.inject)
  have q: "publicGoalQualification q0 = q" using evaluate_Inr [OF e] assms(3) by simp
  then have res: "gq_q_result q0 = gq_q_result q" by (auto simp: publicGoalQualification_def)
  from r res q have scope: "gq_q_result q \<noteq> Out_of_scope"
    and run: "CommandExecutor_run E (goal_command E c (ra_id actor) key correlationId initiativeId version dto q) s = (Inr r, t)"
    by (auto simp: tx_throw_def split: if_splits)
  from run show thesis
  proof (cases rule: CommandExecutor_run_InrE)
    case replayed
    with assms(2) show thesis by simp
  next
    case (executed rs n s2)
    let ?s = "s\<lparr>sys_next := n, sys_db := sys_db s\<lparr>idempotency_records := rs\<rparr>\<rparr>"
    from executed(1) have "goal_body E c (ra_id actor) correlationId initiativeId version dto q ?s = (Inr (cr_status r, cr_body r), s2)"
      by (simp add: goal_command_def)
    then obtain i where i: "find (\<lambda>r. in_company_id r = c \<and> in_id r = initiativeId \<and> in_status r \<in> set [I_DRAFT, I_ACTIVE])
        (initiatives (sys_db ?s)) = Some i" "in_row_version i = version"
      and rec: "record_goal E c (ra_id actor) correlationId initiativeId dto q
        (find (\<lambda>x. co_id x = c \<and> co_founder_id x = ra_id actor) (companies (sys_db ?s)))
        (next_goal_version c initiativeId (sys_db ?s)) ?s = (Inr (cr_status r, cr_body r), s2)"
      by (rule goal_body_InrE)
    have n: "next_goal_version c initiativeId (sys_db s\<lparr>idempotency_records := rs\<rparr>) = next_goal_version c initiativeId (sys_db s)"
      by (simp add: next_goal_version_def)
    from rec show thesis
    proof (cases rule: record_goal_InrE)
      case (1 gvid sid rid tid qid p e1 e2 q1 q2 cs ms)
      have tid: "tid = (if needs then None else Some (the tid))"
        "map f (case tid of None \<Rightarrow> [] | Some i \<Rightarrow> [i]) = (if needs then [] else [f (the tid)])" for f :: "uuid \<Rightarrow> task_row"
        using 1(2) assms(4) by (cases tid; simp)+
      have db: "initiatives (sys_db t) = initiatives (activate_initiative E c initiativeId gvid (sys_db s))"
        "goal_versions (sys_db t) = goal_versions (sys_db s) @
           [new_goal_version E gvid c initiativeId (next_goal_version c initiativeId (sys_db s)) (ra_id actor) dto]"
        "context_snapshots (sys_db t) = context_snapshots (sys_db s) @ [goal_snapshot E sid c p gvid]"
        "runs (sys_db t) = runs (sys_db s) @ [goal_run E rid c initiativeId sid needs]"
        "tasks (sys_db t) = tasks (sys_db s) @ (if needs then [] else [first_task E (the tid) c rid sid p gvid])"
        "budget_ledgers (sys_db t) = budget_ledgers (sys_db s) @
           [run_budget c rid ''MODEL_TOKENS'' 20000, run_budget c rid ''MODEL_COST_MINOR'' 500]"
        "goal_qualifications (sys_db t) = goal_qualifications (sys_db s) @ [qualification_row_of q qid c initiativeId gvid rid]"
        "events (sys_db t) = events (sys_db s) @
           [new_event E (run_created_event c rid (ra_id actor) correlationId initiativeId gvid sid tid needs) e1 q1,
            new_event E (qualification_event c rid correlationId gvid qid q) e2 q2]"
        "human_waits (sys_db t) = human_waits (sys_db s)" "company_profile_versions (sys_db t) = company_profile_versions (sys_db s)"
        by (simp_all add: executed(2) complete_record_def 1(4) n tid(2) assms(4) activate_initiative_def)
      have i': "i \<in> set (initiatives (sys_db s))" "in_company_id i = c" "in_id i = initiativeId" "in_status i \<in> set [I_DRAFT, I_ACTIVE]"
        using find_SomeD [OF i(1)] by simp_all
      have st: "cr_status r = 201" using 1(3) by simp
      from 1(1) obtain co where co: "find (\<lambda>x. co_id x = c \<and> co_founder_id x = ra_id actor) (companies (sys_db ?s)) = Some co"
        "co_current_profile_version_id co = Some p"
        by (auto simp: profile_of_def split: option.splits)
      have new: "needs \<or> the tid \<notin> t_id ` set (tasks (sys_db s))" using 1(2,6) assms(4) by (cases tid) simp_all
      show thesis
        by (rule that [OF scope st conjunct1 [OF require_company_InrE [OF c]] i'(1-3) i(2) i'(4) db(1-7)])
          (use db(8-) 1(5) find_SomeD [OF co(1)] co(2) tid(1) new in \<open>simp_all add: fresh_goal_rows_def\<close>)
    qed
  qed
qed

text \<open>
  C19. A goal command that is answered and not replayed did all of its work. The goal is not out of scope; the
  initiative was the founder's company's, draft or active, at the version the client named, and is
  active at the next version with the new goal version as its current one; the goal version carries
  the next number; there is one new run, waiting for the founder exactly if the goal needs
  clarification, and otherwise drafted with one queued first task; two budgets, the stored
  qualification and two events belong to this run. No wait is opened, so a run that needs
  clarification has nothing a founder could answer.
\<close>

theorem goal_starts_run:
  assumes "createGoalAndRun E actor initiativeId version key correlationId dto s = (Inr r, t)" and "\<not> cr_replayed r"
    and "q = publicGoalQualification (evaluateGoalQualification (cg_goal dto))" and "needs = (gq_q_result q = Needs_clarification)"
  shows "gq_q_result q \<noteq> Out_of_scope \<and> cr_status r = 201 \<and>
     (\<exists>c i gvid sid rid tid qid p e1 e2 q1 q2. ra_companyId actor = Some c \<and>
       i \<in> set (initiatives (sys_db s)) \<and> in_company_id i = c \<and> in_id i = initiativeId \<and> in_row_version i = version \<and>
       in_status i \<in> set [I_DRAFT, I_ACTIVE] \<and>
       initiatives (sys_db t) = initiatives (activate_initiative E c initiativeId gvid (sys_db s)) \<and>
       goal_versions (sys_db t) = goal_versions (sys_db s) @
         [new_goal_version E gvid c initiativeId (next_goal_version c initiativeId (sys_db s)) (ra_id actor) dto] \<and>
       context_snapshots (sys_db t) = context_snapshots (sys_db s) @ [goal_snapshot E sid c p gvid] \<and>
       runs (sys_db t) = runs (sys_db s) @ [goal_run E rid c initiativeId sid needs] \<and>
       tasks (sys_db t) = tasks (sys_db s) @ (if needs then [] else [first_task E tid c rid sid p gvid]) \<and>
       budget_ledgers (sys_db t) = budget_ledgers (sys_db s) @
         [run_budget c rid ''MODEL_TOKENS'' 20000, run_budget c rid ''MODEL_COST_MINOR'' 500] \<and>
       goal_qualifications (sys_db t) = goal_qualifications (sys_db s) @ [qualification_row_of q qid c initiativeId gvid rid] \<and>
       events (sys_db t) = events (sys_db s) @
         [new_event E (run_created_event c rid (ra_id actor) correlationId initiativeId gvid sid (if needs then None else Some tid) needs) e1 q1,
          new_event E (qualification_event c rid correlationId gvid qid q) e2 q2] \<and>
       human_waits (sys_db t) = human_waits (sys_db s))"
  using createGoalAndRun_started [OF assms]
proof cases
  case (1 c i gvid sid rid tid qid p e1 e2 q1 q2 co)
  show ?thesis
    by (rule conjI [OF 1(1)], rule conjI [OF 1(2)], rule exI [of _ c], rule exI [of _ i], rule exI [of _ gvid],
        rule exI [of _ sid], rule exI [of _ rid], rule exI [of _ tid], rule exI [of _ qid], rule exI [of _ p],
        rule exI [of _ e1], rule exI [of _ e2], rule exI [of _ q1], rule exI [of _ q2])
      (use 1 in \<open>simp only: simp_thms\<close>)
qed

section \<open>Lost updates are refused\<close>

text \<open>
  A goal for a changed initiative is refused. When the initiative has another version than the
  one the client saw, the command fails with 412 \<open>precondition_failed\<close> and the tables are as they were:
  not even the idempotency key is used up, so the client can retry with the current ETag.
\<close>

theorem stale_goal_refused:
  assumes "ra_companyId actor = Some c" and "c \<noteq> []"
    and "GoalScope_evaluate dto = Inr q" and "gq_q_result q \<noteq> Out_of_scope"
    and "find (\<lambda>r. in_company_id r = c \<and> in_id r = initiativeId \<and> in_status r \<in> set [I_DRAFT, I_ACTIVE])
        (initiatives (sys_db s)) = Some i" and "in_row_version i \<noteq> version"
    and "absent ik_key (ra_id actor, ''initiatives.goals.create_and_start'', key) (idempotency_records (sys_db s))"
    and "absent ik_id (uuid_at E (sys_next s)) (idempotency_records (sys_db s))"
    and "present fo_id (ra_id actor) (founders (sys_db s))"
  shows "createGoalAndRun E actor initiativeId version key correlationId dto s =
    (Inl initiativeChanged, s\<lparr>sys_next := Suc (sys_next s)\<rparr>)"
proof -
  let ?o = "goal_command E c (ra_id actor) key correlationId initiativeId version dto (publicGoalQualification q)"
  have o: "command_key ?o = (ra_id actor, ''initiatives.goals.create_and_start'', key)" "cx_actorId ?o = ra_id actor"
    "cx_execute ?o = goal_body E c (ra_id actor) correlationId initiativeId version dto (publicGoalQualification q)"
    by (simp_all add: goal_command_def command_key_def)
  have "goal_body E c (ra_id actor) correlationId initiativeId version dto (publicGoalQualification q) s' = (Inl initiativeChanged, s')"
    if "initiatives (sys_db s') = initiatives (sys_db s)" for s' :: sys
    using assms(5,6) that
    by (simp add: goal_body_def tx_bind_def tx_then_def query_apply tx_require_def tx_return_def tx_when_def tx_throw_def)
  then have "CommandExecutor_run E ?o s = (Inl initiativeChanged, s\<lparr>sys_next := Suc (sys_next s)\<rparr>)"
    using CommandExecutor_run_fails [of ?o s E initiativeChanged] assms(7-9) o by simp
  moreover have "require_company actor = Inr c"
    using assms(1,2) by (simp add: require_company_def companyScopeFromActor_Inr)
  ultimately show ?thesis
    using assms(3,4) by (simp add: createGoalAndRun_def tx_bind_def tx_lift_def)
qed

section \<open>A title that passes validation and fails in the table\<close>

text \<open>
  Validation counts the title before it is trimmed, the table after: for a title of at least
  three characters that is shorter than three once trimmed, the command of a founder without an
  active initiative fails on the CHECK of the table, which no handler turns into a domain error; the
  client sees 500.
\<close>

theorem padded_title_crashes:
  assumes "CreateInitiativeDto_ok dto" and "length (js_trim (ci_title dto)) < 3"
    and "ra_companyId actor = Some c" and "c \<noteq> []"
    and "filter (\<lambda>r. in_company_id r = c \<and> active_prototype r) (initiatives (sys_db s)) = []"
    and "absent ik_key (ra_id actor, ''initiatives.create'', key) (idempotency_records (sys_db s))"
    and "absent ik_id (uuid_at E (sys_next s)) (idempotency_records (sys_db s))"
    and "present fo_id (ra_id actor) (founders (sys_db s))"
  shows "fst (Initiatives_create E actor key correlationId dto s) = Inl (PgError ''initiatives_title_check'') \<and>
    pr_status (catch_exception url traceId (PgError ''initiatives_title_check'')) = 500"
proof -
  let ?o = "create_initiative_command E c (ra_id actor) key correlationId dto"
  have o: "command_key ?o = (ra_id actor, ''initiatives.create'', key)" "cx_actorId ?o = ra_id actor"
    "cx_execute ?o = create_initiative_body E c (ra_id actor) correlationId dto"
    by (simp_all add: create_initiative_command_def command_key_def)
  have ins: "insert_initiative (new_initiative E i c (js_trim (ci_title dto))) s' = (Inl (PgError ''initiatives_title_check''), s')" for i s'
    using assms(2) by (simp add: insert_initiative_def insert_row_def new_initiative_def between_def)
  have "create_initiative_body E c (ra_id actor) correlationId dto s' =
      (Inl (PgError ''initiatives_title_check''), s'\<lparr>sys_next := Suc (sys_next s')\<rparr>)"
    if "initiatives (sys_db s') = initiatives (sys_db s)" for s' :: sys
    using assms(5) that ins
    by (simp add: create_initiative_body_def tx_bind_def tx_then_def query_apply newId_apply tx_return_def tx_when_def)
  then have "fst (CommandExecutor_run E ?o s) = Inl (PgError ''initiatives_title_check'')"
    using CommandExecutor_run_fails [of ?o s E "PgError ''initiatives_title_check''"] assms(6-8) o by simp
  moreover have "require_company actor = Inr c"
    using assms(3,4) by (simp add: require_company_def companyScopeFromActor_Inr)
  ultimately show ?thesis
    by (auto simp: Initiatives_create_def tx_bind_def tx_lift_def tx_catch_def tx_throw_def catch_exception_def toProblem_def
        split: prod.split)
qed

end
