(* ===== verification/Versioned.thy ===== *)
theory Versioned
  imports Companies Initiatives
begin

text \<open>
  Optimistic concurrency. The commands that replace a profile and that add a goal name the version the client
  saw. The locale states what the services promise about such a command, and shows once what clients rely on:
  the commands that take effect form an unbroken sequence of versions, so no update is lost. The profile of a
  founder's company and an initiative interpret it.
\<close>

text \<open>The versions against which the commands of a sequence took effect: those answered and not replayed.\<close>

fun effective :: "('p \<Rightarrow> nat \<Rightarrow> command_result call) \<Rightarrow> ('p \<times> nat) list \<Rightarrow> sys \<Rightarrow> nat list" where
  "effective run [] s = []"
| "effective run ((p, v) # commands) s =
     (case run p v s of
        (Inl e, t) \<Rightarrow> effective run commands t
      | (Inr r, t) \<Rightarrow> if cr_replayed r then effective run commands t else v # effective run commands t)"

locale versioned_resource =
  fixes inv :: "sys \<Rightarrow> bool" and run :: "'p \<Rightarrow> nat \<Rightarrow> command_result call" and version :: "sys \<Rightarrow> nat option"
  assumes run_inv: "inv s \<Longrightarrow> run p v s = (q, t) \<Longrightarrow> inv t"
    and run_applies: "inv s \<Longrightarrow> run p v s = (Inr r, t) \<Longrightarrow> \<not> cr_replayed r \<Longrightarrow> version s = Some v \<and> version t = Some (v + 1)"
    and run_replays: "inv s \<Longrightarrow> run p v s = (Inr r, t) \<Longrightarrow> cr_replayed r \<Longrightarrow> version t = version s"
    and run_refuses: "inv s \<Longrightarrow> run p v s = (Inl e, t) \<Longrightarrow> version t = version s"
begin

lemma effective_consecutive:
  "inv s \<Longrightarrow> effective run commands s = [] \<or>
    (\<exists>v. version s = Some v \<and> effective run commands s = [v..<v + length (effective run commands s)])"
proof (induction commands arbitrary: s)
  case (Cons c commands)
  obtain p v r t where c: "c = (p, v)" and r: "run p v s = (r, t)" by (cases c, cases "run (fst c) (snd c) s") simp
  have inv: "inv t" using Cons.prems r by (rule run_inv)
  note IH = Cons.IH [OF inv]
  show ?case
  proof (cases r)
    case (Inl e)
    with IH run_refuses [OF Cons.prems] r c show ?thesis by simp
  next
    case (Inr x)
    show ?thesis
    proof (cases "cr_replayed x")
      case True
      with IH run_replays [OF Cons.prems] r Inr c show ?thesis by simp
    next
      case False
      with run_applies [OF Cons.prems] r Inr have v: "version s = Some v" "version t = Some (v + 1)" by auto
      with IH have "effective run commands t = [v + 1..<v + 1 + length (effective run commands t)]" by auto
      moreover have "[v..<v + Suc n] = v # [v + 1..<v + 1 + n]" for n by (simp add: upt_conv_Cons)
      ultimately show ?thesis using r Inr False v(1) c by simp
    qed
  qed
qed simp

end

section \<open>The profile of a company\<close>

lemma command_refused: "CommandExecutor_run E opts s = (Inl e, t) \<Longrightarrow> sys_db t = sys_db s"
  unfolding CommandExecutor_run_def Let_def by (rule transaction_Inl)

definition profile_version :: "uuid \<Rightarrow> sys \<Rightarrow> nat option" where
  "profile_version founderId s = map_option (\<lambda>(c, p). cp_version p)
     (first_row (company_rows (\<lambda>c. co_founder_id c = founderId \<and> co_status c \<noteq> C_DELETED) (sys_db s)))"

lemma updateProfile_runs:
  assumes "Companies_updateProfile E actor key v k dto s = (Inr r, t)"
  shows "CommandExecutor_run E (update_profile_command E (ra_id actor) key k v dto) s = (Inr r, t)"
  using assms unfolding Companies_updateProfile_def by (elim tx_bind_InrE tx_lift_InrE) (simp only: sum.inject)

lemma updateProfile_refused:
  assumes "Companies_updateProfile E actor key v k dto s = (Inl e, t)"
  shows "sys_db t = sys_db s"
proof (cases "assertProfile dto")
  case (Inl a)
  with assms show ?thesis by (simp add: Companies_updateProfile_def tx_bind_def tx_lift_def)
next
  case (Inr a)
  with assms have "CommandExecutor_run E (update_profile_command E (ra_id actor) key k v dto) s = (Inl e, t)"
    by (simp add: Companies_updateProfile_def tx_bind_def tx_lift_def)
  then show ?thesis by (rule command_refused)
qed

lemma company_rows_cong:
  assumes "companies d = companies d'" and "company_profile_versions d = company_profile_versions d'"
  shows "company_rows q d = company_rows q d'"
  unfolding company_rows_def assms by (rule refl)

text \<open>A founder has one company, so the query by founder finds it.\<close>

lemma founder_company_row:
  assumes ok: "companies_ok d" and c: "c \<in> set (companies d)" "co_founder_id c = f" "co_status c \<noteq> C_DELETED"
    and p: "p \<in> set (company_profile_versions d)" "cp_company_id p = co_id c" "co_current_profile_version_id c = Some (cp_id p)"
  shows "first_row (company_rows (\<lambda>c. co_founder_id c = f \<and> co_status c \<noteq> C_DELETED) d) = Some (c, p)" (is "first_row (company_rows ?q d) = _")
proof -
  have mem: "(c, p) \<in> set (company_rows ?q d)" using c p by (auto simp: company_rows_def)
  then obtain x y where r: "first_row (company_rows ?q d) = Some (x, y)" using first_row_some [OF mem] by fastforce
  note xy = first_company_rowD [OF r]
  have d: "distinct (map co_founder_id (companies d))" "distinct (map cp_id (company_profile_versions d))"
    using ok by (simp_all add: companies_ok_def)
  have "co_founder_id x = co_founder_id c" using xy c(2) by simp
  then have x: "x = c" using distinct_map_eq [OF d(1) _ c(1)] xy by blast
  have "Some (cp_id y) = Some (cp_id p)" using xy p(3) unfolding x by metis
  then have "y = p" using distinct_map_eq [OF d(2) _ p(1)] xy by blast
  with r x show ?thesis by simp
qed

lemma updateProfile_advances:
  assumes ok: "companies_ok (sys_db s)" and run: "Companies_updateProfile E actor key v k dto s = (Inr r, t)" and new: "\<not> cr_replayed r"
  shows "profile_version (ra_id actor) s = Some v \<and> profile_version (ra_id actor) t = Some (v + 1)"
proof -
  from updateProfile_runs [OF run] show ?thesis
  proof (cases rule: CommandExecutor_run_InrE)
    case replayed
    with new show ?thesis by simp
  next
    case (executed rs n s2)
    let ?s = "s\<lparr>sys_next := n, sys_db := sys_db s\<lparr>idempotency_records := rs\<rparr>\<rparr>"
    let ?q = "\<lambda>c. co_founder_id c = ra_id actor \<and> co_status c \<noteq> C_DELETED"
    have oks: "companies_ok (sys_db ?s)" using ok by (simp add: companies_ok_frame)
    from executed(1) have body: "update_profile_body E (ra_id actor) k v dto ?s = (Inr (cr_status r, cr_body r), s2)"
      by (simp add: update_profile_command_def)
    then have ok2: "companies_ok (sys_db s2)" using update_keeps_companies oks by (blast dest: commitsD)
    from body show ?thesis
    proof (cases rule: update_profile_InrE)
      case (1 c p pid e q cs ms)
      let ?c = "c\<lparr>co_current_profile_version_id := Some pid, co_row_version := co_row_version c + 1, co_updated_at := now_ms E\<rparr>"
      let ?p = "new_profile E pid (co_id c) (v + 1) (ra_id actor) dto"
      note row = first_company_rowD [OF 1(1)]
      have c: "c \<in> set (companies (sys_db s))" "?q c" using row by simp_all
      have cs: "companies (sys_db s2) = upd_where (\<lambda>x. co_id x = co_id c \<and> co_founder_id x = ra_id actor)
          (\<lambda>x. x\<lparr>co_current_profile_version_id := Some pid, co_row_version := co_row_version x + 1, co_updated_at := now_ms E\<rparr>) (companies (sys_db s))"
        and ps: "company_profile_versions (sys_db s2) = company_profile_versions (sys_db s) @ [?p]"
        by (simp_all add: 1(4) point_to_profile_def)
      have "?c \<in> set (companies (sys_db s2))"
        unfolding cs using c by (intro in_upd_where_hit) simp_all
      then have "first_row (company_rows ?q (sys_db s2)) = Some (?c, ?p)"
        by (rule founder_company_row [OF ok2]) (use c row in \<open>auto simp: ps new_profile_def\<close>)
      then have after: "profile_version (ra_id actor) s2 = Some (v + 1)"
        by (simp add: profile_version_def new_profile_def)
      have "sys_db t = complete_record E (update_profile_command E (ra_id actor) key k v dto) (cr_status r) (cr_body r) (sys_db s2)"
        using executed(2) by simp
      then have "companies (sys_db t) = companies (sys_db s2)" "company_profile_versions (sys_db t) = company_profile_versions (sys_db s2)"
        by (simp_all add: complete_record_def)
      with after have "profile_version (ra_id actor) t = Some (v + 1)"
        by (simp add: profile_version_def company_rows_cong [of "sys_db t" "sys_db s2"])
      moreover have "profile_version (ra_id actor) s = Some v"
        using 1(1,2) company_rows_cong [of "sys_db s" "sys_db ?s"] by (simp add: profile_version_def)
      ultimately show ?thesis by simp
    qed
  qed
qed

lemma updateProfile_keeps:
  "db_keeps (\<lambda>d. event_log_ok d \<and> companies_ok d) (Companies_updateProfile E actor key version correlationId profile)"
proof -
  have "db_keeps (\<lambda>d. event_log_ok d \<and> companies_ok d)
      (CommandExecutor_run E (update_profile_command E (ra_id actor) key correlationId version profile))"
    by (rule profile_updates.command_keeps [where p = "(ra_id actor, correlationId, version, profile)"])
      (simp add: update_profile_command_def)
  then show ?thesis unfolding Companies_updateProfile_def by (intro keeps_intros)
qed

definition replace_profile :: "request_actor \<Rightarrow> env \<times> uuid \<times> uuid \<times> company_profile_dto \<Rightarrow> nat \<Rightarrow> command_result call" where
  "replace_profile actor p v = (case p of (E, key, correlationId, dto) \<Rightarrow> Companies_updateProfile E actor key v correlationId dto)"

interpretation profile: versioned_resource "\<lambda>s. event_log_ok (sys_db s) \<and> companies_ok (sys_db s)"
    "replace_profile actor" "profile_version (ra_id actor)" for actor
proof (unfold_locales, goal_cases)
  case (1 s p v q t)
  obtain E key k dto where p: "p = (E, key, k, dto)" by (cases p) auto
  from db_keepsD [OF updateProfile_keeps 1(1), of E actor key v k dto] 1(2) show ?case
    by (simp add: p replace_profile_def)
next
  case (2 s p v r t)
  obtain E key k dto where p: "p = (E, key, k, dto)" by (cases p) auto
  from 2 show ?case by (intro updateProfile_advances [of s E actor key v k dto]) (simp_all add: p replace_profile_def)
next
  case (3 s p v r t)
  obtain E key k dto where p: "p = (E, key, k, dto)" by (cases p) auto
  from 3(2) have "CommandExecutor_run E (update_profile_command E (ra_id actor) key k v dto) s = (Inr r, t)"
    by (intro updateProfile_runs) (simp add: p replace_profile_def)
  then have "sys_db t = sys_db s" by (cases rule: CommandExecutor_run_InrE) (use 3(3) in simp_all)
  then show ?case by (simp add: profile_version_def)
next
  case (4 s p v e t)
  obtain E key k dto where p: "p = (E, key, k, dto)" by (cases p) auto
  from 4(2) have "sys_db t = sys_db s" by (intro updateProfile_refused) (simp add: p replace_profile_def)
  then show ?case by (simp add: profile_version_def)
qed

section \<open>The goals of an initiative\<close>

definition initiative_version :: "uuid \<Rightarrow> uuid \<Rightarrow> sys \<Rightarrow> nat option" where
  "initiative_version companyId initiativeId s = map_option in_row_version
     (find (\<lambda>r. in_company_id r = companyId \<and> in_id r = initiativeId \<and> in_status r \<in> set [I_DRAFT, I_ACTIVE]) (initiatives (sys_db s)))"

lemma initiative_version_cong: "initiatives (sys_db s) = initiatives (sys_db t) \<Longrightarrow> initiative_version c i s = initiative_version c i t"
  by (simp add: initiative_version_def)

lemma find_activated:
  assumes "distinct (map in_id rs)"
    and "find (\<lambda>r. in_company_id r = c \<and> in_id r = iid \<and> in_status r \<in> set [I_DRAFT, I_ACTIVE]) rs = Some i"
  shows "find (\<lambda>r. in_company_id r = c \<and> in_id r = iid \<and> in_status r \<in> set [I_DRAFT, I_ACTIVE])
      (upd_where (\<lambda>r. in_company_id r = c \<and> in_id r = iid) (\<lambda>r. r\<lparr>in_current_goal_version_id := g, in_status := I_ACTIVE,
        in_row_version := in_row_version r + 1, in_updated_at := n\<rparr>) rs) =
    Some (i\<lparr>in_current_goal_version_id := g, in_status := I_ACTIVE, in_row_version := in_row_version i + 1, in_updated_at := n\<rparr>)"
  using assms
proof (induction rs)
  case (Cons r rs)
  show ?case
  proof (cases "in_company_id r = c \<and> in_id r = iid \<and> in_status r \<in> set [I_DRAFT, I_ACTIVE]")
    case True
    with Cons.prems show ?thesis by simp
  next
    case False
    with Cons.prems have i: "find (\<lambda>r. in_company_id r = c \<and> in_id r = iid \<and> in_status r \<in> set [I_DRAFT, I_ACTIVE]) rs = Some i" by auto
    from find_SomeD [OF this] Cons.prems(1) have "in_id r \<noteq> iid" by auto
    with Cons.IH [OF _ i] Cons.prems(1) show ?thesis by simp
  qed
qed simp

lemma createGoalAndRun_runs:
  assumes "createGoalAndRun E actor iid v key k dto s = (Inr r, t)"
  obtains c q where "ra_companyId actor = Some c"
    and "CommandExecutor_run E (goal_command E c (ra_id actor) key k iid v dto q) s = (Inr r, t)"
proof -
  from assms obtain c q where "require_company actor = Inr c"
    and "(if gq_q_result q = Out_of_scope then tx_throw (toOutOfScopeError q)
       else CommandExecutor_run E (goal_command E c (ra_id actor) key k iid v dto (publicGoalQualification q))) s = (Inr r, t)"
    unfolding createGoalAndRun_def by (elim tx_bind_InrE tx_lift_InrE) (simp only: sum.inject)
  then show thesis by (intro that [of c "publicGoalQualification q"]) (auto dest: require_company_InrE simp: tx_throw_def split: if_splits)
qed

lemma createGoalAndRun_refused:
  assumes "createGoalAndRun E actor iid v key k dto s = (Inl e, t)"
  shows "sys_db t = sys_db s"
  using assms command_refused
  by (auto simp: createGoalAndRun_def tx_bind_def tx_lift_def tx_throw_def split: sum.splits if_splits)

lemma createGoalAndRun_advances:
  assumes ok: "initiatives_ok (sys_db s)" and run: "createGoalAndRun E actor iid v key k dto s = (Inr r, t)"
    and c: "ra_companyId actor = Some c" and new: "\<not> cr_replayed r"
  shows "initiative_version c iid s = Some v \<and> initiative_version c iid t = Some (v + 1)"
proof -
  from run c obtain q where "CommandExecutor_run E (goal_command E c (ra_id actor) key k iid v dto q) s = (Inr r, t)"
    by (auto elim: createGoalAndRun_runs)
  then show ?thesis
  proof (cases rule: CommandExecutor_run_InrE)
    case replayed
    with new show ?thesis by simp
  next
    case (executed rs n s2)
    let ?s = "s\<lparr>sys_next := n, sys_db := sys_db s\<lparr>idempotency_records := rs\<rparr>\<rparr>"
    from executed(1) have "goal_body E c (ra_id actor) k iid v dto q ?s = (Inr (cr_status r, cr_body r), s2)"
      by (simp add: goal_command_def)
    then obtain i where i: "find (\<lambda>r. in_company_id r = c \<and> in_id r = iid \<and> in_status r \<in> set [I_DRAFT, I_ACTIVE])
        (initiatives (sys_db ?s)) = Some i" "in_row_version i = v"
      and rec: "record_goal E c (ra_id actor) k iid dto q (find (\<lambda>x. co_id x = c \<and> co_founder_id x = ra_id actor) (companies (sys_db ?s)))
        (next_goal_version c iid (sys_db ?s)) ?s = (Inr (cr_status r, cr_body r), s2)"
      by (rule goal_body_InrE)
    from rec obtain g where "initiatives (sys_db s2) = initiatives (activate_initiative E c iid g (sys_db ?s))"
      by (rule record_goal_InrE) simp
    then have t: "initiatives (sys_db t) = initiatives (activate_initiative E c iid g (sys_db s))"
      by (simp add: executed(2) complete_record_def activate_initiative_def)
    have "distinct (map in_id (initiatives (sys_db s)))" using ok by (simp add: initiatives_ok_def)
    from find_activated [OF this, of c iid i "now_ms E" "Some g"] i show ?thesis
      by (simp add: initiative_version_def t activate_initiative_def)
  qed
qed

lemma createGoalAndRun_keeps:
  "db_keeps (\<lambda>d. event_log_ok d \<and> initiatives_ok d) (createGoalAndRun E actor iid v key k dto)"
proof -
  have "db_keeps (\<lambda>d. event_log_ok d \<and> initiatives_ok d) (CommandExecutor_run E (goal_command E c (ra_id actor) key k iid v dto q))" for c q
    by (rule goals.command_keeps [where p = "(c, ra_id actor, k, iid, v, dto, q)"]) (simp add: goal_command_def)
  then show ?thesis unfolding createGoalAndRun_def by (intro keeps_intros)
qed

definition add_goal :: "request_actor \<Rightarrow> uuid \<Rightarrow> env \<times> uuid \<times> uuid \<times> create_goal_dto \<Rightarrow> nat \<Rightarrow> command_result call" where
  "add_goal actor initiativeId p v = (case p of (E, key, correlationId, dto) \<Rightarrow> createGoalAndRun E actor initiativeId v key correlationId dto)"

interpretation goals_of: versioned_resource "\<lambda>s. event_log_ok (sys_db s) \<and> initiatives_ok (sys_db s)"
    "add_goal actor iid" "initiative_version (case ra_companyId actor of None \<Rightarrow> [] | Some c \<Rightarrow> c) iid" for actor iid
proof (unfold_locales, goal_cases)
  case (1 s p v q t)
  obtain E key k dto where p: "p = (E, key, k, dto)" by (cases p) auto
  from db_keepsD [OF createGoalAndRun_keeps 1(1), of E actor iid v key k dto] 1(2) show ?case
    by (simp add: p add_goal_def)
next
  case (2 s p v r t)
  obtain E key k dto where p: "p = (E, key, k, dto)" by (cases p) auto
  from 2(2) have run: "createGoalAndRun E actor iid v key k dto s = (Inr r, t)" by (simp add: p add_goal_def)
  then obtain c where "ra_companyId actor = Some c" by (rule createGoalAndRun_runs)
  with createGoalAndRun_advances [OF _ run this] 2 show ?case by simp
next
  case (3 s p v r t)
  obtain E key k dto where p: "p = (E, key, k, dto)" by (cases p) auto
  from 3(2) have "createGoalAndRun E actor iid v key k dto s = (Inr r, t)" by (simp add: p add_goal_def)
  then have "sys_db t = sys_db s" by (rule createGoalAndRun_runs) (erule CommandExecutor_run_InrE; use 3(3) in simp)
  then show ?case by (simp add: initiative_version_def)
next
  case (4 s p v e t)
  obtain E key k dto where p: "p = (E, key, k, dto)" by (cases p) auto
  from 4(2) have "sys_db t = sys_db s" by (intro createGoalAndRun_refused) (simp add: p add_goal_def)
  then show ?case by (simp add: initiative_version_def)
qed

text \<open>
  C11. No update of a profile is lost. Of any sequence of replacements that one founder sends, with any keys and
  expected versions, those that take effect name consecutive versions, the first of them the version at the
  start: two commands that saw the same version never both take effect.
\<close>

theorem no_lost_profile_update:
  assumes "event_log_ok (sys_db s)" and "companies_ok (sys_db s)"
  shows "let vs = effective (replace_profile actor) commands s in
    vs = [] \<or> (\<exists>v. profile_version (ra_id actor) s = Some v \<and> vs = [v..<v + length vs])"
  using profile.effective_consecutive [of s actor commands] assms by (simp add: Let_def)

text \<open>
  C12. No goal is lost. Of any sequence of goals that a founder submits for one initiative, those that take
  effect name consecutive versions of the initiative, the first of them the version at the start.
\<close>

theorem no_lost_goal:
  assumes "event_log_ok (sys_db s)" and "initiatives_ok (sys_db s)" and "ra_companyId actor = Some c"
  shows "let vs = effective (add_goal actor initiativeId) commands s in
    vs = [] \<or> (\<exists>v. initiative_version c initiativeId s = Some v \<and> vs = [v..<v + length vs])"
  using goals_of.effective_consecutive [of s actor initiativeId commands] assms by (simp add: Let_def)

end
