(* ===== verification/Controllers.thy ===== *)
theory Controllers
  imports Auth Runs Configuration Versioned Attachments
begin

text \<open>
  The HTTP interface: the controllers of all modules, and the path of a request through the application that
  \<open>main.ts\<close>, \<open>app.module.ts\<close> and \<open>auth.module.ts\<close> assemble: correlation identifier, guard,
  pipes, handler, and the filter that turns an exception into a problem document. Matching a path to its handler
  is the framework's: a request holds the route it was matched to, with its parameters and its parsed body.
\<close>

section \<open>Requests and responses\<close>

datatype route =
    Live
  | Ready
  | Register
  | Dev_token
  | Issue_invite issue_invite_dto
  | Redeem_invite string
  | Sign_out
  | Create_company create_company_dto
  | Current_company
  | Update_profile company_profile_dto
  | Current_initiative
  | Create_initiative create_initiative_dto
  | Create_goal string create_goal_dto
  | Create_attachment create_attachment_dto
  | Get_attachment string
  | Run_attachment string string
  | Get_run string
  | Run_tasks string task_query
  | Run_events string event_query
  | Delete_run string

record http_request =
  rq_url :: string
  rq_authorization :: "string option"
  rq_idempotency_key :: "string option"
  rq_if_match :: "string option"
  rq_correlation_id :: "string option"
  rq_route :: route

datatype http_body = Json json | File "byte list" | Problem problem | No_body

record http_response =
  hr_status :: int
  hr_headers :: "(string \<times> string) list"
  hr_body :: http_body

text \<open>
  What the application gets from outside: the token library, the object store, the probes of the health check,
  and of the validator package the predicates for addresses and identifiers and the messages of a refusal.
\<close>

record http_ports =
  hp_jwt :: jwt
  hp_store :: object_store_port
  hp_probes :: readiness_ports
  hp_isEmail :: "string \<Rightarrow> bool"
  hp_isUUID :: "string \<Rightarrow> bool"
  hp_messages :: "route \<Rightarrow> string list"

text \<open>Reading a property of a JavaScript value, and a value in a template literal.\<close>

definition js_member :: "json option \<Rightarrow> string \<Rightarrow> exn + json option" where
  "js_member v k =
     (if v = None \<or> v = Some JNull then Inl (JsError (''Cannot read properties of undefined (reading '' @ k @ '')''))
      else Inr (json_get k (the v)))"

fun js_text :: "json \<Rightarrow> string" where
  "js_text JNull = ''null''"
| "js_text (JBool b) = (if b then ''true'' else ''false'')"
| "js_text (JNum i) = show_int i"
| "js_text (JStr s) = s"
| "js_text (JArr vs) = js_join '','' (map (\<lambda>v. if v = JNull then [] else js_text v) vs)"
| "js_text (JObj es) = ''[object Object]''"

definition template :: "json option \<Rightarrow> string" where
  "template v = (case v of None \<Rightarrow> ''undefined'' | Some j \<Rightarrow> js_text j)"

text \<open>\<open>formatEtag\<close> of a value that the type checker takes for a number.\<close>

definition etag_of :: "json option \<Rightarrow> string" where
  "etag_of v = [dquote] @ template v @ [dquote]"

lemma etag_of_number: "etag_of (Some (JNum (int n))) = formatEtag n"
  by (simp add: etag_of_def template_def formatEtag_def show_int_def)

definition data_meta :: "json \<Rightarrow> (string \<times> json) list \<Rightarrow> (string \<times> json) list \<Rightarrow> http_body" where
  "data_meta content page meta = Json (JObj ([(''data'', content)] @ page @ [(''meta'', JObj meta)]))"

definition read_response :: "uuid \<Rightarrow> (string \<times> string) list \<Rightarrow> json \<Rightarrow> (string \<times> json) list \<Rightarrow> http_response" where
  "read_response correlationId headers content page = \<lparr>hr_status = 200, hr_headers = headers,
     hr_body = data_meta content page [(''correlation_id'', JStr correlationId)]\<rparr>"

definition command_response :: "uuid \<Rightarrow> int \<Rightarrow> (string \<times> string) list \<Rightarrow> command_result \<Rightarrow> http_response" where
  "command_response correlationId status headers result = \<lparr>hr_status = status, hr_headers = headers,
     hr_body = data_meta (cr_body result) [] [(''correlation_id'', JStr correlationId), (''replayed'', JBool (cr_replayed result))]\<rparr>"

section \<open>CompaniesController\<close>

text \<open>
  The arguments of a service call are evaluated in order, so the headers are checked before the service runs.
  The key is echoed as it came.
\<close>

definition Companies_Controller_create :: "env \<Rightarrow> uuid \<Rightarrow> request_actor \<Rightarrow> string option \<Rightarrow> create_company_dto \<Rightarrow> http_response call" where
  "Companies_Controller_create E correlationId actor key dto =
     tx_bind (tx_lift (requireIdempotencyKey E key)) (\<lambda>idempotencyKey.
     tx_bind (Companies_create E actor idempotencyKey correlationId dto) (\<lambda>result.
     tx_bind (tx_lift (js_member (json_get ''current_profile'' (cr_body result)) ''version'')) (\<lambda>version.
       tx_return (command_response correlationId (cr_status result)
         [(''Location'', ''/api/v1/companies/current''), (''Idempotency-Key'', idempotencyKey), (''ETag'', etag_of version)] result))))"

definition Companies_Controller_getCurrent :: "uuid \<Rightarrow> request_actor \<Rightarrow> http_response call" where
  "Companies_Controller_getCurrent correlationId actor =
     tx_bind (Companies_getCurrent (ra_id actor)) (\<lambda>company.
     tx_bind (tx_lift (js_member (json_get ''current_profile'' company) ''version'')) (\<lambda>version.
       tx_return (read_response correlationId [(''ETag'', etag_of version)] company [])))"

definition Companies_Controller_updateProfile :: "env \<Rightarrow> uuid \<Rightarrow> request_actor \<Rightarrow> string option \<Rightarrow> string option \<Rightarrow> company_profile_dto \<Rightarrow> http_response call" where
  "Companies_Controller_updateProfile E correlationId actor key etag dto =
     tx_bind (tx_lift (requireIdempotencyKey E key)) (\<lambda>idempotencyKey.
     tx_bind (tx_lift (requireEtag etag)) (\<lambda>expectedVersion.
     tx_bind (Companies_updateProfile E actor idempotencyKey expectedVersion correlationId dto) (\<lambda>result.
     tx_bind (tx_lift (js_member (json_get ''current_profile'' (cr_body result)) ''version'')) (\<lambda>version.
       tx_return (command_response correlationId 200 [(''Idempotency-Key'', idempotencyKey), (''ETag'', etag_of version)] result)))))"

section \<open>InitiativesController\<close>

text \<open>\<open>Number(initiative.row_version)\<close> is the number that the service put there.\<close>

definition Initiatives_Controller_getCurrent :: "uuid \<Rightarrow> request_actor \<Rightarrow> http_response call" where
  "Initiatives_Controller_getCurrent correlationId actor =
     tx_bind (Initiatives_getCurrent actor) (\<lambda>initiative.
       tx_return (read_response correlationId [(''ETag'', etag_of (json_get ''row_version'' initiative))] initiative []))"

definition Initiatives_Controller_create :: "env \<Rightarrow> uuid \<Rightarrow> request_actor \<Rightarrow> string option \<Rightarrow> create_initiative_dto \<Rightarrow> http_response call" where
  "Initiatives_Controller_create E correlationId actor key dto =
     tx_bind (tx_lift (requireIdempotencyKey E key)) (\<lambda>idempotencyKey.
     tx_bind (Initiatives_create E actor idempotencyKey correlationId dto) (\<lambda>result.
       tx_return (command_response correlationId (cr_status result)
         [(''Idempotency-Key'', idempotencyKey), (''ETag'', etag_of (json_get ''row_version'' (cr_body result))),
          (''Location'', ''/api/v1/initiatives/'' @ template (json_get ''id'' (cr_body result)))] result)))"

definition Initiatives_Controller_createGoal :: "env \<Rightarrow> uuid \<Rightarrow> request_actor \<Rightarrow> uuid \<Rightarrow> string option \<Rightarrow> string option \<Rightarrow> create_goal_dto \<Rightarrow> http_response call" where
  "Initiatives_Controller_createGoal E correlationId actor initiativeId key etag dto =
     tx_bind (tx_lift (requireEtag etag)) (\<lambda>expectedVersion.
     tx_bind (tx_lift (requireIdempotencyKey E key)) (\<lambda>idempotencyKey.
     tx_bind (createGoalAndRun E actor initiativeId expectedVersion idempotencyKey correlationId dto) (\<lambda>result.
     tx_bind (tx_lift (js_member (json_get ''run'' (cr_body result)) ''id'')) (\<lambda>runId.
       tx_return (command_response correlationId (cr_status result)
         [(''Idempotency-Key'', idempotencyKey), (''ETag'', formatEtag (expectedVersion + 1)),
          (''Location'', ''/api/v1/runs/'' @ template runId)] result)))))"

section \<open>AttachmentsController\<close>

definition Attachments_Controller_create :: "env \<Rightarrow> object_store_port \<Rightarrow> uuid \<Rightarrow> request_actor \<Rightarrow> string option \<Rightarrow> create_attachment_dto \<Rightarrow> http_response call" where
  "Attachments_Controller_create E store correlationId actor key dto =
     tx_bind (tx_lift (requireIdempotencyKey E key)) (\<lambda>idempotencyKey.
     tx_bind (Attachments_ingest E store actor idempotencyKey correlationId dto) (\<lambda>result.
       tx_return (command_response correlationId (cr_status result)
         [(''Idempotency-Key'', idempotencyKey),
          (''Location'', ''/api/v1/attachments/'' @ template (json_get ''id'' (cr_body result)))] result)))"

definition Attachments_Controller_get :: "env \<Rightarrow> uuid \<Rightarrow> request_actor \<Rightarrow> uuid \<Rightarrow> http_response call" where
  "Attachments_Controller_get E correlationId actor attachmentId =
     tx_bind (getMetadata E actor attachmentId) (\<lambda>metadata. tx_return (read_response correlationId [] metadata []))"

section \<open>RunsController\<close>

text \<open>A header cannot be set to a missing value, and a missing name has no \<open>replaceAll\<close>.\<close>

definition required_value :: "string option \<Rightarrow> exn + string" where
  "required_value v = (case v of None \<Rightarrow> Inl (JsError ''Missing value'') | Some s \<Rightarrow> Inr s)"

definition Runs_Controller_retrieveAttachment :: "env \<Rightarrow> object_store_port \<Rightarrow> request_actor \<Rightarrow> uuid \<Rightarrow> uuid \<Rightarrow> http_response call" where
  "Runs_Controller_retrieveAttachment E store actor runId attachmentId =
     tx_bind (retrieveForRun E store actor runId attachmentId) (\<lambda>(body, mediaType, filename).
     tx_bind (tx_lift (required_value mediaType)) (\<lambda>mediaType.
     tx_bind (tx_lift (required_value filename)) (\<lambda>filename.
       tx_return \<lparr>hr_status = 200,
         hr_headers = [(''Content-Type'', mediaType), (''X-Content-Type-Options'', ''nosniff''),
           (''Content-Disposition'', ''attachment; filename='' @ [dquote] @ filter (\<lambda>c. c \<noteq> dquote) filename @ [dquote])],
         hr_body = File body\<rparr>)))"

definition Runs_Controller_get :: "uuid \<Rightarrow> request_actor \<Rightarrow> uuid \<Rightarrow> http_response call" where
  "Runs_Controller_get correlationId actor runId =
     tx_bind (Runs_get actor runId) (\<lambda>run.
       tx_return (read_response correlationId [(''ETag'', etag_of (json_get ''version'' run))] run []))"

definition page_json :: "bool \<Rightarrow> (string \<times> json) list" where
  "page_json hasMore = [(''page'', JObj [(''next_cursor'', JNull), (''has_more'', JBool hasMore)])]"

definition Runs_Controller_tasks :: "uuid \<Rightarrow> request_actor \<Rightarrow> uuid \<Rightarrow> task_query \<Rightarrow> http_response call" where
  "Runs_Controller_tasks correlationId actor runId q =
     tx_bind (Runs_tasks actor runId q) (\<lambda>tasks.
       tx_return (read_response correlationId [] (JArr tasks) (page_json False)))"

definition Runs_Controller_events :: "uuid \<Rightarrow> request_actor \<Rightarrow> uuid \<Rightarrow> event_query \<Rightarrow> http_response call" where
  "Runs_Controller_events correlationId actor runId q =
     tx_bind (Runs_events actor runId q) (\<lambda>(events, hasMore).
       tx_return (read_response correlationId [] (JArr events) (page_json hasMore)))"

definition Runs_Controller_remove :: "request_actor \<Rightarrow> uuid \<Rightarrow> http_response call" where
  "Runs_Controller_remove actor runId =
     tx_bind (denyDelete actor runId) (\<lambda>_. tx_return \<lparr>hr_status = 200, hr_headers = [], hr_body = No_body\<rparr>)"

section \<open>AuthController\<close>

definition invite_json :: "issued_invite \<Rightarrow> json" where
  "invite_json i = JObj [(''invite_id'', JStr (ii_invite_id i)), (''invite_token'', JStr (ii_invite_token i)),
     (''expires_at'', JStr (ii_expires_at i)), (''session_ttl_seconds'', JNum (ii_session_ttl_seconds i))]"

definition grant_json :: "access_grant \<Rightarrow> json" where
  "grant_json g = JObj [(''access_token'', JStr (ag_access_token g)), (''token_type'', JStr ''Bearer''),
     (''expires_in'', JNum (ag_expires_in g)), (''founder_id'', JStr (ag_founder_id g)), (''session_id'', JStr (ag_session_id g))]"

definition data_response :: "int \<Rightarrow> json \<Rightarrow> http_response" where
  "data_response status content = \<lparr>hr_status = status, hr_headers = [], hr_body = Json (JObj [(''data'', content)])\<rparr>"

definition Auth_Controller_issueInvite :: "env \<Rightarrow> issue_invite_dto \<Rightarrow> http_response call" where
  "Auth_Controller_issueInvite E dto = tx_bind (issueInvite E dto) (\<lambda>i. tx_return (data_response 201 (invite_json i)))"

definition Auth_Controller_redeemInvite :: "jwt \<Rightarrow> env \<Rightarrow> string \<Rightarrow> http_response call" where
  "Auth_Controller_redeemInvite J E token = tx_bind (redeemInvite J E token) (\<lambda>g. tx_return (data_response 201 (grant_json g)))"

definition Auth_Controller_signOut :: "env \<Rightarrow> request_actor \<Rightarrow> http_response call" where
  "Auth_Controller_signOut E actor =
     tx_then (signOut E actor) (tx_return \<lparr>hr_status = 204, hr_headers = [], hr_body = No_body\<rparr>)"

section \<open>The path of a request\<close>

text \<open>The routes whose handler carries \<open>@Public()\<close>.\<close>

fun is_public :: "route \<Rightarrow> bool" where
  "is_public Live = True"
| "is_public Ready = True"
| "is_public Register = True"
| "is_public Dev_token = True"
| "is_public (Issue_invite _) = True"
| "is_public (Redeem_invite _) = True"
| "is_public _ = False"

text \<open>\<open>ParseUUIDPipe\<close> on the path parameters and \<open>ValidationPipe\<close> on body and query.\<close>

definition uuid_expected :: exn where
  "uuid_expected = HttpException 400 ''Validation failed (uuid is expected)'' None"

definition invalid_input :: "http_ports \<Rightarrow> route \<Rightarrow> exn" where
  "invalid_input P r = HttpException 400 ''Bad Request Exception'' (Some (JArr (map JStr (hp_messages P r))))"

fun path_parameters :: "route \<Rightarrow> string list" where
  "path_parameters (Create_goal i _) = [i]"
| "path_parameters (Get_attachment a) = [a]"
| "path_parameters (Run_attachment r a) = [r, a]"
| "path_parameters (Get_run r) = [r]"
| "path_parameters (Run_tasks r _) = [r]"
| "path_parameters (Run_events r _) = [r]"
| "path_parameters (Delete_run r) = [r]"
| "path_parameters _ = []"

fun input_ok :: "http_ports \<Rightarrow> route \<Rightarrow> bool" where
  "input_ok P (Issue_invite dto) = IssueInviteDto_ok (hp_isEmail P) dto"
| "input_ok P (Redeem_invite token) = RedeemInviteDto_ok token"
| "input_ok P (Create_company dto) = CreateCompanyDto_ok dto"
| "input_ok P (Update_profile dto) = CompanyProfileDto_ok dto"
| "input_ok P (Create_initiative dto) = CreateInitiativeDto_ok dto"
| "input_ok P (Create_goal _ dto) = CreateGoalDto_ok (hp_isUUID P) dto"
| "input_ok P (Create_attachment dto) = CreateAttachmentDto_ok dto"
| "input_ok P (Run_tasks _ q) = TaskQueryDto_ok q"
| "input_ok P (Run_events _ q) = EventQueryDto_ok q"
| "input_ok P _ = True"

definition run_pipes :: "http_ports \<Rightarrow> route \<Rightarrow> exn + unit" where
  "run_pipes P r =
     (if \<not> list_all (hp_isUUID P) (path_parameters r) then Inl uuid_expected
      else if \<not> input_ok P r then Inl (invalid_input P r) else Inr ())"

fun public_handler :: "http_ports \<Rightarrow> env \<Rightarrow> route \<Rightarrow> http_response call" where
  "public_handler P E Live = tx_return \<lparr>hr_status = 200, hr_headers = [], hr_body = Json (livenessBody ''api'')\<rparr>"
| "public_handler P E Ready = tx_bind (tx_lift (readiness (hp_probes P)))
     (\<lambda>j. tx_return \<lparr>hr_status = 200, hr_headers = [], hr_body = Json j\<rparr>)"
| "public_handler P E (Issue_invite dto) = Auth_Controller_issueInvite E dto"
| "public_handler P E (Redeem_invite token) = Auth_Controller_redeemInvite (hp_jwt P) E token"
| "public_handler P E _ = unavailableRegistration"

fun founder_handler :: "http_ports \<Rightarrow> env \<Rightarrow> uuid \<Rightarrow> http_request \<Rightarrow> request_actor \<Rightarrow> route \<Rightarrow> http_response call" where
  "founder_handler P E cid rq actor Sign_out = Auth_Controller_signOut E actor"
| "founder_handler P E cid rq actor (Create_company dto) = Companies_Controller_create E cid actor (rq_idempotency_key rq) dto"
| "founder_handler P E cid rq actor Current_company = Companies_Controller_getCurrent cid actor"
| "founder_handler P E cid rq actor (Update_profile dto) =
     Companies_Controller_updateProfile E cid actor (rq_idempotency_key rq) (rq_if_match rq) dto"
| "founder_handler P E cid rq actor Current_initiative = Initiatives_Controller_getCurrent cid actor"
| "founder_handler P E cid rq actor (Create_initiative dto) = Initiatives_Controller_create E cid actor (rq_idempotency_key rq) dto"
| "founder_handler P E cid rq actor (Create_goal i dto) =
     Initiatives_Controller_createGoal E cid actor i (rq_idempotency_key rq) (rq_if_match rq) dto"
| "founder_handler P E cid rq actor (Create_attachment dto) =
     Attachments_Controller_create E (hp_store P) cid actor (rq_idempotency_key rq) dto"
| "founder_handler P E cid rq actor (Get_attachment a) = Attachments_Controller_get E cid actor a"
| "founder_handler P E cid rq actor (Run_attachment r a) = Runs_Controller_retrieveAttachment E (hp_store P) actor r a"
| "founder_handler P E cid rq actor (Get_run r) = Runs_Controller_get cid actor r"
| "founder_handler P E cid rq actor (Run_tasks r q) = Runs_Controller_tasks cid actor r q"
| "founder_handler P E cid rq actor (Run_events r q) = Runs_Controller_events cid actor r q"
| "founder_handler P E cid rq actor (Delete_run r) = Runs_Controller_remove actor r"
| "founder_handler P E cid rq actor r = public_handler P E r"

definition handle :: "http_ports \<Rightarrow> env \<Rightarrow> uuid \<Rightarrow> http_request \<Rightarrow> http_response call" where
  "handle P E cid rq =
     tx_bind (canActivate (hp_jwt P) E (is_public (rq_route rq)) (rq_authorization rq)) (\<lambda>attached.
     tx_bind (tx_lift (run_pipes P (rq_route rq))) (\<lambda>_.
       if is_public (rq_route rq) then public_handler P E (rq_route rq)
       else tx_bind (tx_lift (CurrentActor attached)) (\<lambda>actor. founder_handler P E cid rq actor (rq_route rq))))"

definition correlate :: "env \<Rightarrow> string option \<Rightarrow> uuid call" where
  "correlate E supplied s = (correlation_use E (sys_next s) supplied, if supplied = None then s\<lparr>sys_next := Suc (sys_next s)\<rparr> else s)"

text \<open>The headers of the interceptor, which the filter sets as well, with the type of a problem document.\<close>

definition no_store :: "(string \<times> string) list" where
  "no_store = [(''Cache-Control'', ''no-store''), (''Pragma'', ''no-cache'')]"

definition send_problem :: "(string \<times> string) list \<Rightarrow> problem \<Rightarrow> http_response" where
  "send_problem headers p = \<lparr>hr_status = pr_status p,
     hr_headers = headers @ no_store @ [(''Content-Type'', ''application/problem+json'')], hr_body = Problem p\<rparr>"

definition serve :: "http_ports \<Rightarrow> env \<Rightarrow> http_request \<Rightarrow> sys \<Rightarrow> http_response \<times> sys" where
  "serve P E rq s =
     (case correlate E (rq_correlation_id rq) s of
        (Inl e, t) \<Rightarrow> (send_problem [] (catch_exception (rq_url rq) (uuid_at E (sys_next t)) e), t\<lparr>sys_next := Suc (sys_next t)\<rparr>)
      | (Inr cid, t) \<Rightarrow>
          let headers = [(''X-Correlation-Id'', cid)] in
          (case handle P E cid rq t of
             (Inl e, u) \<Rightarrow> (send_problem headers (catch_exception (rq_url rq) cid e), u)
           | (Inr r, u) \<Rightarrow> (r\<lparr>hr_headers := headers @ no_store @ hr_headers r\<rparr>, u)))"

end
