(* ===== verification/Http_Properties.thy ===== *)
theory Http_Properties
  imports Controllers
begin

text \<open>
  What a client of the HTTP interface can rely on: only a live session reaches the handlers behind the guard, a
  refused request leaves the tables as they were, the runs of other companies do not exist for a founder, and the
  ETag of an answer is the version of the resource.
\<close>

section \<open>Requests that fail leave the tables alone\<close>

named_theorems atomic_intros \<open>rules that show that a call which throws has changed no table\<close>

definition atomic :: "'a call \<Rightarrow> bool" where
  "atomic m \<longleftrightarrow> (\<forall>s e t. m s = (Inl e, t) \<longrightarrow> sys_db t = sys_db s)"

definition unchanging :: "'a call \<Rightarrow> bool" where
  "unchanging m \<longleftrightarrow> (\<forall>d. db_keeps (\<lambda>x. x = d) m)"

lemma atomicI: "(\<And>s e t. m s = (Inl e, t) \<Longrightarrow> sys_db t = sys_db s) \<Longrightarrow> atomic m"
  by (simp add: atomic_def)

lemma atomicD: "atomic m \<Longrightarrow> m s = (Inl e, t) \<Longrightarrow> sys_db t = sys_db s"
  by (simp add: atomic_def)

lemma unchangingI: "(\<And>d. db_keeps (\<lambda>x. x = d) m) \<Longrightarrow> unchanging m"
  by (simp add: unchanging_def)

lemma unchangingD: "unchanging m \<Longrightarrow> m s = (r, t) \<Longrightarrow> sys_db t = sys_db s"
  using db_keepsD [of "\<lambda>x. x = sys_db s" m s r t] by (simp add: unchanging_def)

lemma atomic_unchanging: "unchanging m \<Longrightarrow> atomic m"
  by (auto intro: atomicI dest: unchangingD)

lemma atomic_transaction [atomic_intros]: "atomic (transaction m)"
  by (rule atomicI) (rule transaction_Inl)

lemma atomic_command [atomic_intros]: "atomic (CommandExecutor_run E opts)"
  unfolding CommandExecutor_run_def Let_def by (rule atomic_transaction)

lemma atomic_insert [atomic_intros]: "atomic (insert_row checks upd)"
  by (rule atomicI) (auto simp: insert_row_def split: option.splits)

lemma atomic_simple [atomic_intros]: "atomic (tx_return x)" "atomic (tx_throw e)" "atomic (tx_lift q)" "atomic (execute f)"
  by (auto intro!: atomicI simp: tx_return_def tx_throw_def tx_lift_def execute_apply)

lemma atomic_catch_throw [atomic_intros]: "atomic m \<Longrightarrow> atomic (tx_catch m (\<lambda>e. tx_throw (g e)))"
  by (auto intro!: atomicI simp: tx_catch_def tx_throw_def split: prod.splits sum.splits dest: atomicD)

lemma atomic_after_read: "unchanging m \<Longrightarrow> (\<And>x. atomic (f x)) \<Longrightarrow> atomic (tx_bind m f)"
  by (rule atomicI) (auto simp: tx_bind_def split: prod.splits sum.splits dest!: unchangingD, metis atomicD)

lemma atomic_lift_bind [atomic_intros]: "(\<And>x. q = Inr x \<Longrightarrow> atomic (f x)) \<Longrightarrow> atomic (tx_bind (tx_lift q) f)"
  by (rule atomicI) (auto simp: tx_bind_def tx_lift_def split: sum.splits dest: atomicD)

text \<open>Work after a call cannot fail once the call has changed something.\<close>

lemma atomic_then_return:
  assumes "atomic m" and "\<And>s x t. m s = (Inr x, t) \<Longrightarrow> sys_db t = sys_db s \<or> (\<exists>y. g x = Inr y)"
  shows "atomic (tx_bind m (\<lambda>x. tx_bind (tx_lift (g x)) (\<lambda>y. tx_return (f x y))))"
proof (rule atomicI)
  fix s e t
  assume r: "tx_bind m (\<lambda>x. tx_bind (tx_lift (g x)) (\<lambda>y. tx_return (f x y))) s = (Inl e, t)"
  show "sys_db t = sys_db s"
  proof (cases "m s")
    case (Pair z u)
    show ?thesis
    proof (cases z)
      case (Inl a)
      with r Pair atomicD [OF assms(1)] show ?thesis by (auto simp: tx_bind_def)
    next
      case (Inr x)
      with r Pair assms(2) [of s x u] show ?thesis
        by (auto simp: tx_bind_def tx_lift_def tx_return_def split: sum.splits)
    qed
  qed
qed

lemma atomic_return_after [atomic_intros]: "atomic m \<Longrightarrow> atomic (tx_bind m (\<lambda>x. tx_return (f x)))"
  by (rule atomicI) (auto simp: tx_bind_def tx_return_def split: prod.splits sum.splits dest: atomicD)

lemma js_member_version: "js_member (json_get ''current_profile'' (toResponse row)) ''version'' = Inr (Some (JNum (int (cp_version (snd row)))))"
  by (cases row) (simp add: js_member_def json_get_def toResponse_def)

lemma js_member_run: "js_member (json_get ''run'' (goal_response g q r)) ''id'' = Inr (Some (JStr (r_id r)))"
  by (simp add: js_member_def json_get_def goal_response_def)

lemma respond_Inr: "respond n row = Inr x \<Longrightarrow> \<exists>r. snd x = toResponse r"
  unfolding respond_def by (cases row; simp only: option.case sum.inject sum.distinct) (metis snd_conv)

lemma create_company_answer:
  assumes "Companies_create E actor key k dto s = (Inr r, t)"
  shows "sys_db t = sys_db s \<or> (\<exists>row. cr_body r = toResponse row)"
proof -
  from assms have "CommandExecutor_run E (create_company_command E (ra_id actor) key k dto) s = (Inr r, t)"
    unfolding Companies_create_def by (elim tx_bind_InrE tx_lift_InrE) (simp only: sum.inject)
  then show ?thesis
  proof (cases rule: CommandExecutor_run_InrE)
    case (executed rs n s2)
    from executed(1) have "create_company_body E (ra_id actor) k dto (s\<lparr>sys_next := n, sys_db := sys_db s\<lparr>idempotency_records := rs\<rparr>\<rparr>) =
        (Inr (cr_status r, cr_body r), s2)" by (simp add: create_company_command_def)
    then show ?thesis by (cases rule: create_company_InrE) (auto dest: respond_Inr)
  qed simp
qed

lemma update_profile_answer:
  assumes "Companies_updateProfile E actor key v k dto s = (Inr r, t)"
  shows "sys_db t = sys_db s \<or> (\<exists>row. cr_body r = toResponse row)"
  using updateProfile_runs [OF assms]
proof (cases rule: CommandExecutor_run_InrE)
  case (executed rs n s2)
  from executed(1) have "update_profile_body E (ra_id actor) k v dto (s\<lparr>sys_next := n, sys_db := sys_db s\<lparr>idempotency_records := rs\<rparr>\<rparr>) =
      (Inr (cr_status r, cr_body r), s2)" by (simp add: update_profile_command_def)
  then show ?thesis by (cases rule: update_profile_InrE) (auto dest: respond_Inr)
qed simp

lemma goal_answer:
  assumes "createGoalAndRun E actor iid v key k dto s = (Inr r, t)"
  shows "sys_db t = sys_db s \<or> (\<exists>g q x. cr_body r = goal_response g q x)"
proof -
  from assms obtain c q where "CommandExecutor_run E (goal_command E c (ra_id actor) key k iid v dto q) s = (Inr r, t)"
    by (rule createGoalAndRun_runs)
  then show ?thesis
  proof (cases rule: CommandExecutor_run_InrE)
    case (executed rs n s2)
    let ?s = "s\<lparr>sys_next := n, sys_db := sys_db s\<lparr>idempotency_records := rs\<rparr>\<rparr>"
    from executed(1) have "goal_body E c (ra_id actor) k iid v dto q ?s = (Inr (cr_status r, cr_body r), s2)"
      by (simp add: goal_command_def)
    then have "record_goal E c (ra_id actor) k iid dto q (find (\<lambda>x. co_id x = c \<and> co_founder_id x = ra_id actor) (companies (sys_db ?s)))
        (next_goal_version c iid (sys_db ?s)) ?s = (Inr (cr_status r, cr_body r), s2)" by (rule goal_body_InrE)
    then show ?thesis
    proof (cases rule: record_goal_InrE)
      case 1
      from 1(3) show ?thesis by auto
    qed
  qed simp
qed

text \<open>The reads.\<close>

lemma newInviteToken_unchanging: "unchanging (newInviteToken E)"
  by (rule unchangingI, rule db_keepsI) (simp add: newInviteToken_def)

lemma guard_unchanging: "unchanging (canActivate J E b h)"
  unfolding canActivate_def
  by (rule unchangingI) (auto intro!: keeps_intros verifyAccessToken_keeps split: list.split)

lemma reads_unchanging:
  "unchanging (Companies_getCurrent a)" "unchanging (Initiatives_getCurrent actor)" "unchanging (getMetadata E actor i)"
  "unchanging (Runs_get actor i)" "unchanging (Runs_tasks actor i tq)" "unchanging (Runs_events actor i eq)"
  "unchanging (denyDelete actor i)" "unchanging (newId E)" "unchanging (tx_when b (tx_throw e))"
  unfolding Companies_getCurrent_def Initiatives_getCurrent_def getMetadata_def Runs_get_def Runs_tasks_def Runs_events_def
    denyDelete_def assertRun_def
  by (rule unchangingI, (intro keeps_intros)?)+

lemmas reads_atomic = reads_unchanging [THEN atomic_unchanging]

lemma atomic_if [atomic_intros]: "atomic m \<Longrightarrow> atomic k \<Longrightarrow> atomic (if b then m else k)"
  by simp

lemma services_atomic:
  "atomic (Companies_create E actor key cid cdto)" "atomic (Companies_updateProfile E actor key v cid pdto)"
  "atomic (Initiatives_create E actor key cid idto)" "atomic (createGoalAndRun E actor iid v key cid gdto)"
  "atomic (redeemInvite J E token)" "atomic (unavailableRegistration :: 'a call)"
  unfolding Companies_create_def Companies_updateProfile_def Initiatives_create_def createGoalAndRun_def redeemInvite_def Let_def
    unavailableRegistration_def
  by (intro atomic_intros)+

lemma issueInvite_atomic: "atomic (issueInvite E dto)"
  unfolding issueInvite_def tx_then_def assertDevelopmentAdapter_def unavailableRegistration_def insert_invite_def
  by (intro atomic_after_read reads_unchanging newInviteToken_unchanging atomic_intros)

lemma public_handlers_atomic: "atomic (public_handler P E r)"
  by (cases r)
    (simp_all add: services_atomic Auth_Controller_issueInvite_def Auth_Controller_redeemInvite_def issueInvite_atomic atomic_intros)

fun audited :: "route \<Rightarrow> bool" where
  "audited (Create_attachment _) = True"
| "audited (Run_attachment _ _) = True"
| "audited _ = False"

lemma controllers_atomic:
  "atomic (Companies_Controller_create E cid actor key cdto)" "atomic (Companies_Controller_getCurrent cid actor)"
  "atomic (Companies_Controller_updateProfile E cid actor key etag pdto)"
  "atomic (Initiatives_Controller_createGoal E cid actor iid key etag gdto)"
  unfolding Companies_Controller_create_def Companies_Controller_getCurrent_def Companies_Controller_updateProfile_def
    Initiatives_Controller_createGoal_def
  by (intro atomic_lift_bind atomic_then_return services_atomic reads_atomic;
      force dest: create_company_answer update_profile_answer goal_answer unchangingD [OF reads_unchanging(1)]
        simp: js_member_version js_member_run)+

lemma events_atomic: "atomic (Runs_Controller_events cid actor i eq)"
  unfolding Runs_Controller_events_def case_prod_beta by (intro atomic_intros reads_atomic)

lemma founder_handlers_atomic: "\<not> audited r \<Longrightarrow> atomic (founder_handler P E cid rq actor r)"
  by (cases r)
    (simp_all add: controllers_atomic events_atomic public_handlers_atomic del: public_handler.simps,
     simp_all add: Auth_Controller_signOut_def Initiatives_Controller_getCurrent_def Initiatives_Controller_create_def
       Attachments_Controller_get_def Runs_Controller_get_def Runs_Controller_tasks_def
       Runs_Controller_remove_def signOut_def tx_then_def case_prod_beta atomic_intros reads_atomic services_atomic)

lemma handle_atomic: "\<not> audited (rq_route rq) \<Longrightarrow> atomic (handle P E cid rq)"
  unfolding handle_def
  by (intro atomic_after_read guard_unchanging atomic_lift_bind atomic_if public_handlers_atomic founder_handlers_atomic)

text \<open>A handler that returns answers with a body of its own: only the filter writes problem documents.\<close>

definition plain :: "http_response call \<Rightarrow> bool" where
  "plain m \<longleftrightarrow> (\<forall>s r t p. m s = (Inr r, t) \<longrightarrow> hr_body r \<noteq> Problem p)"

lemma plain_intros:
  "(\<And>x. plain (f x)) \<Longrightarrow> plain (tx_bind m f)" "(\<And>p. hr_body r \<noteq> Problem p) \<Longrightarrow> plain (tx_return r)"
  "plain (tx_throw e)" "plain k \<Longrightarrow> plain (tx_then n k)" "(\<And>x y. q = (x, y) \<Longrightarrow> plain (g x y)) \<Longrightarrow> plain (case q of (x, y) \<Rightarrow> g x y)"
  unfolding plain_def tx_then_def
  by (auto simp: tx_bind_def tx_return_def tx_throw_def split: prod.splits sum.splits)

lemma public_handlers_plain: "plain (public_handler P E r)"
  by (cases r)
    (simp_all add: Auth_Controller_issueInvite_def Auth_Controller_redeemInvite_def unavailableRegistration_def data_response_def plain_intros)

lemma founder_handlers_plain: "plain (founder_handler P E cid rq actor r)"
  by (cases r)
    (simp_all add: public_handlers_plain del: public_handler.simps,
     unfold Auth_Controller_signOut_def Companies_Controller_create_def Companies_Controller_getCurrent_def
       Companies_Controller_updateProfile_def Initiatives_Controller_getCurrent_def Initiatives_Controller_create_def
       Initiatives_Controller_createGoal_def Attachments_Controller_create_def Attachments_Controller_get_def
       Runs_Controller_retrieveAttachment_def Runs_Controller_get_def Runs_Controller_tasks_def Runs_Controller_events_def
       Runs_Controller_remove_def,
     (intro plain_intros; simp add: command_response_def read_response_def data_meta_def)+)

lemma handle_plain: "plain (handle P E cid rq)"
  unfolding handle_def by (auto intro!: plain_intros public_handlers_plain founder_handlers_plain)

lemma correlate_db: "correlate E h s = (q, t) \<Longrightarrow> sys_db t = sys_db s"
  by (auto simp: correlate_def split: if_splits)

lemma serve_cases:
  assumes "serve P E rq s = (response, t)"
  obtains (refused) e p where "sys_db t = sys_db s" "correlate E (rq_correlation_id rq) s = (Inl e, s)" "hr_body response = Problem p"
      "hr_status response = 400"
  | (failed) cid u e where "sys_db u = sys_db s" "handle P E cid rq u = (Inl e, t)"
      "response = send_problem [(''X-Correlation-Id'', cid)] (catch_exception (rq_url rq) cid e)"
  | (answered) cid u r where "sys_db u = sys_db s" "handle P E cid rq u = (Inr r, t)" "hr_status response = hr_status r"
      "hr_body response = hr_body r"
proof (cases "correlate E (rq_correlation_id rq) s")
  case (Pair q u)
  note u = correlate_db [OF Pair]
  show thesis
  proof (cases q)
    case (Inl e)
    with Pair have "u = s" "catch_exception (rq_url rq) (uuid_at E (sys_next u)) e = catch_exception (rq_url rq) (uuid_at E (sys_next s)) e"
      "pr_status (catch_exception (rq_url rq) (uuid_at E (sys_next s)) e) = 400"
      by (auto simp: correlate_def correlation_use_def catch_exception_def toProblem_def DomainError_def split: option.splits if_splits)
    with assms Pair Inl show thesis by (intro refused) (auto simp: serve_def send_problem_def)
  next
    case (Inr cid)
    obtain z w where h: "handle P E cid rq u = (z, w)" by (cases "handle P E cid rq u")
    show thesis
    proof (cases z)
      case (Inl e)
      with assms Pair Inr h u show thesis by (intro failed [of u cid e]) (auto simp: serve_def Let_def)
    next
      case (Inr r)
      with assms Pair \<open>q = Inr cid\<close> h u show thesis by (intro answered [of u cid r]) (auto simp: serve_def Let_def)
    qed
  qed
qed

text \<open>
  C8. A request that is answered with a problem document changed no table, whatever the reason: a bad header, a
  missing session, an invalid body, a rule of the domain, a constraint of the database. The exceptions are the
  uploads, whose refusals are audited, and the retrieval of a file, whose grant is recorded before the store
  is read.
\<close>

theorem failed_request_changes_nothing:
  assumes "serve P E rq s = (response, t)" and "hr_body response = Problem p" and "\<not> audited (rq_route rq)"
  shows "sys_db t = sys_db s"
  using assms(1)
proof (cases rule: serve_cases)
  case (failed cid u e)
  with atomicD [OF handle_atomic [OF assms(3)] failed(2)] show ?thesis by simp
next
  case (answered cid u r)
  with handle_plain [of P E cid rq] assms(2) show ?thesis by (auto simp: plain_def)
qed simp

section \<open>The guard\<close>

lemma verify_refusal:
  assumes "verifyAccessToken J E token s = (Inl e, t)"
  shows "\<exists>d. e = Domain d \<and> de_status d = 401"
  using assms unfolding verifyAccessToken_def
  by (auto simp: tx_bind_def tx_then_def tx_lift_def query_apply tx_require_def tx_when_def tx_return_def tx_throw_def
      access_payload_def active_founder_def assertSignedResourceAccess_def sessionInactive_def authenticationRequired_def DomainError_def
      split: option.splits if_splits jwt_outcome.splits prod.splits sum.splits)

lemma guard_cases:
  assumes "canActivate J E False h s = (r, t)"
  obtains (refused) d where "r = Inl (Domain d)" "de_status d = 401"
  | (accepted) actor a token rest where "r = Inr (Some actor)" "h = Some a" "js_split (CHR '' '') a = ''Bearer'' # token # rest"
      "verifyAccessToken J E token s = (Inr actor, t)"
proof (cases "case h of None \<Rightarrow> [] | Some a \<Rightarrow> js_split (CHR '' '') a")
  case Nil
  with assms show thesis by (intro refused) (auto simp: canActivate_def tx_throw_def bearerRequired_def DomainError_def)
next
  case (Cons scheme ps)
  show thesis
  proof (cases "ps = [] \<or> scheme \<noteq> ''Bearer'' \<or> hd ps = []")
    case True
    with assms Cons show thesis
      by (intro refused) (auto simp: canActivate_def tx_throw_def bearerRequired_def DomainError_def split: list.splits if_splits)
  next
    case False
    then obtain token rest where ps: "ps = token # rest" "scheme = ''Bearer''" "token \<noteq> []" by (cases ps) auto
    with Cons obtain a where h: "h = Some a" "js_split (CHR '' '') a = ''Bearer'' # token # rest" by (cases h) auto
    obtain q u where v: "verifyAccessToken J E token s = (q, u)" by (cases "verifyAccessToken J E token s")
    with assms Cons ps have r: "(r, t) = (case q of Inl e \<Rightarrow> (Inl e, u) | Inr x \<Rightarrow> (Inr (Some x), u))"
      by (simp add: canActivate_def tx_bind_def tx_return_def split: sum.splits)
    show thesis
    proof (cases q)
      case (Inl e)
      with v r verify_refusal [of J E token s e u] show thesis by (auto intro: refused)
    next
      case (Inr x)
      with v r h show thesis by (intro accepted [of x a token rest]) auto
    qed
  qed
qed

text \<open>
  C6. A founder's route answers with something else than 400 or 401, or changes a table, only for a request
  whose Authorization header carries a bearer token that verifies and names a session of the table that is active,
  has not expired and belongs to an active founder. So after a sign-out, an expiry or with no token at all, no handler
  behind the guard reads or writes on behalf of the request.
\<close>

theorem protected_routes_need_session:
  assumes "serve P E rq s = (response, t)" and "\<not> is_public (rq_route rq)"
    and "hr_status response \<notin> {400, 401} \<or> sys_db t \<noteq> sys_db s"
  shows "\<exists>header token rest payload. rq_authorization rq = Some header \<and>
    js_split (CHR '' '') header = ''Bearer'' # token # rest \<and>
    jwt_verify (hp_jwt P) (now_ms E) token = Verified payload \<and>
    (\<exists>session \<in> set (founder_sessions (sys_db s)). Some (fs_id session) = pl_sid payload \<and>
       fs_status session = SS_ACTIVE \<and> now_ms E < fs_expires_at session \<and>
       (\<exists>f \<in> set (founders (sys_db s)). fo_id f = fs_founder_id session \<and> fo_status f = F_ACTIVE))"
proof -
  have live: ?thesis if "handle P E cid rq u = (z, t)" "sys_db u = sys_db s" "(\<exists>e. z = Inl e \<and> pr_status (catch_exception [] [] e) \<noteq> 401) \<or>
      (\<exists>x. z = Inr x) \<or> sys_db t \<noteq> sys_db s" for cid u z
  proof -
    obtain g w where g: "canActivate (hp_jwt P) E False (rq_authorization rq) u = (g, w)"
      by (cases "canActivate (hp_jwt P) E False (rq_authorization rq) u")
    note w = unchangingD [OF guard_unchanging g]
    from g show ?thesis
    proof (cases rule: guard_cases)
      case (refused d)
      with g that(1) assms(2) have "z = Inl (Domain d)" "t = w" by (auto simp: handle_def tx_bind_def)
      with refused(2) w that(2,3) show ?thesis by (auto simp: catch_exception_def toProblem_def)
    next
      case (accepted actor a token rest)
      from accepted(4) obtain p session f where p: "access_payload (hp_jwt P) E token = Inr p"
        and x: "token_session p (sys_db u) = Some session" "fs_status session = SS_ACTIVE" "now_ms E < fs_expires_at session"
        and f: "token_founder p (sys_db u) = Some f" "fo_status f = F_ACTIVE" by (rule verifyAccessToken_InrE)
      have v: "jwt_verify (hp_jwt P) (now_ms E) token = Verified p"
        using p by (auto simp: access_payload_def split: jwt_outcome.splits if_splits)
      from x(1) have s: "session \<in> set (founder_sessions (sys_db s))" "Some (fs_id session) = pl_sid p" "Some (fs_founder_id session) = pl_sub p"
        unfolding token_session_def that(2) by (auto dest: find_SomeD)
      from f(1) have "f \<in> set (founders (sys_db s))" "Some (fo_id f) = pl_sub p"
        unfolding token_founder_def that(2) by (auto dest: find_SomeD)
      moreover from this(2) s(3) have "fo_id f = fs_founder_id session" by (metis option.inject)
      ultimately show ?thesis using accepted(2,3) v s(1,2) x(2,3) f(2) by blast
    qed
  qed
  from assms(1) show ?thesis
  proof (cases rule: serve_cases)
    case (refused e p)
    with assms(3) show ?thesis by simp
  next
    case (failed cid u e)
    have "pr_status (catch_exception (rq_url rq) cid e) = pr_status (catch_exception [] [] e)"
      by (simp add: catch_exception_def toProblem_def Let_def split: exn.splits)
    with failed assms(3) show ?thesis by (intro live [OF failed(2,1)]) (auto simp: send_problem_def)
  next
    case (answered cid u r)
    then show ?thesis by (intro live [OF answered(2,1)]) simp
  qed
qed

section \<open>The runs of others\<close>

text \<open>
  A founder cannot tell a run of another company from one that does not exist. Every route of a run answers
  with one and the same 404 whenever the actor's company has no run with that identifier, and changes nothing;
  the refusal to delete a run is given only for a run of one's own.
\<close>

theorem foreign_runs_hidden:
  assumes "\<forall>x \<in> set (runs (sys_db s)). r_id x = runId \<longrightarrow> Some (r_company_id x) \<noteq> ra_companyId actor"
    and "r \<in> set [Get_run runId, Run_tasks runId tq, Run_events runId eq, Delete_run runId, Run_attachment runId attachmentId]"
  shows "founder_handler P E cid rq actor r s = (Inl tenantResourceNotFound, s)"
proof (cases "companyScopeFromActor actor")
  case (Inl e)
  then have "e = tenantResourceNotFound"
    by (auto simp: companyScopeFromActor_def requireCompanyScope_def split: option.splits if_splits)
  with Inl assms(2) show ?thesis
    by (auto simp: Runs_Controller_get_def Runs_Controller_tasks_def Runs_Controller_events_def Runs_Controller_remove_def
        Runs_Controller_retrieveAttachment_def Runs_get_def Runs_tasks_def Runs_events_def denyDelete_def retrieveForRun_def
        tx_bind_def tx_lift_def)
next
  case (Inr c)
  then have c: "ra_companyId actor = Some c" by (simp add: companyScopeFromActor_Inr)
  have own: "x \<in> set (runs (sys_db s)) \<Longrightarrow> r_company_id x = c \<Longrightarrow> r_id x \<noteq> runId" for x
    using assms(1) c by auto
  have none: "find (\<lambda>r. r_company_id r = c \<and> r_id r = runId) (runs (sys_db s)) = None"
    "first_row (run_rows c runId (sys_db s)) = None" "linked_objects c runId attachmentId (sys_db s) = []"
    using own by (auto simp: find_None_iff run_rows_def first_row_def linked_objects_def split: list.splits)
  have same: "runNotFound = tenantResourceNotFound" by (simp add: runNotFound_def tenantResourceNotFound_def)
  from assms(2) Inr none show ?thesis
    by (auto simp: Runs_Controller_get_def Runs_Controller_tasks_def Runs_Controller_events_def Runs_Controller_remove_def
        Runs_Controller_retrieveAttachment_def Runs_get_def Runs_tasks_def Runs_events_def denyDelete_def retrieveForRun_def
        assertRun_def tx_bind_def tx_then_def tx_lift_def query_apply tx_require_def tx_throw_def same)
qed

section \<open>The version in the ETag\<close>

lemma profile_shown:
  assumes "profile_version (ra_id actor) t = Some v"
  shows "\<exists>g. Companies_Controller_getCurrent cid actor t = (Inr g, t) \<and> (''ETag'', formatEtag v) \<in> set (hr_headers g)"
proof -
  from assms obtain c p where row: "first_row (company_rows (\<lambda>c. co_founder_id c = ra_id actor \<and> co_status c \<noteq> C_DELETED) (sys_db t)) = Some (c, p)"
    and v: "cp_version p = v" by (auto simp: profile_version_def)
  show ?thesis
    by (simp add: Companies_Controller_getCurrent_def Companies_getCurrent_def tx_bind_def query_apply row tx_require_def tx_return_def
        tx_lift_def js_member_version read_response_def etag_of_number v)
qed

lemma updateProfile_answer_version:
  assumes "companies_ok (sys_db s)" and "Companies_updateProfile E actor key v k dto s = (Inr r, t)" and "sys_db t \<noteq> sys_db s"
  shows "\<exists>row. cr_body r = toResponse row \<and> cp_version (snd row) = v + 1"
  using updateProfile_runs [OF assms(2)]
proof (cases rule: CommandExecutor_run_InrE)
  case replayed
  with assms(3) show ?thesis by simp
next
  case (executed rs n s2)
  let ?s = "s\<lparr>sys_next := n, sys_db := sys_db s\<lparr>idempotency_records := rs\<rparr>\<rparr>"
  let ?q = "\<lambda>c. co_founder_id c = ra_id actor \<and> co_status c \<noteq> C_DELETED"
  from executed(1) have body: "update_profile_body E (ra_id actor) k v dto ?s = (Inr (cr_status r, cr_body r), s2)"
    by (simp add: update_profile_command_def)
  have "companies_ok (sys_db ?s)" using assms(1) by (simp add: companies_ok_frame)
  from commitsD [OF update_keeps_companies this body] have ok2: "companies_ok (sys_db s2)" .
  have "profile_version (ra_id actor) t = Some (v + 1)"
    using updateProfile_advances [OF assms(1,2) executed(3)] by simp
  then have after: "profile_version (ra_id actor) s2 = Some (v + 1)"
    using company_rows_cong [of "sys_db t" "sys_db s2"] by (simp add: profile_version_def executed(2) complete_record_def)
  from body show ?thesis
  proof (cases rule: update_profile_InrE)
    case (1 c p pid e q cs ms)
    let ?one = "\<lambda>r. co_id r = co_id c \<and> co_founder_id r = ra_id actor \<and> co_status r \<noteq> C_DELETED"
    from 1(5) obtain x y where xy: "first_row (company_rows ?one (sys_db s2)) = Some (x, y)" "cr_body r = toResponse (x, y)"
      by (auto simp: respond_def split: option.splits)
    note m = first_company_rowD [OF xy(1)]
    have "first_row (company_rows ?q (sys_db s2)) = Some (x, y)"
      by (rule founder_company_row [OF ok2]) (use m in simp_all)
    with after xy(2) show ?thesis by (auto simp: profile_version_def)
  qed
qed

text \<open>
  C33. The ETag of an updated profile is current. A profile update that took effect answers with the version after
  the one in \<open>If-Match\<close>, which is the ETag that the next read of the company gives: a client can send the
  ETag of either answer as the \<open>If-Match\<close> of its next command.
\<close>

theorem profile_etag_is_current:
  assumes "companies_ok (sys_db s)" and "sys_db t \<noteq> sys_db s"
    and "Companies_Controller_updateProfile E cid actor key ifMatch dto s = (Inr response, t)"
  shows "\<exists>v g. requireEtag ifMatch = Inr v \<and> (''ETag'', formatEtag (v + 1)) \<in> set (hr_headers response) \<and>
    Companies_Controller_getCurrent cid' actor t = (Inr g, t) \<and> (''ETag'', formatEtag (v + 1)) \<in> set (hr_headers g) \<and>
    requireEtag (Some (formatEtag (v + 1))) = Inr (v + 1)"
proof -
  from assms(3) obtain k v r n u where v: "requireEtag ifMatch = Inr v"
    and up: "Companies_updateProfile E actor k v cid dto s = (Inr r, u)"
    and n: "js_member (json_get ''current_profile'' (cr_body r)) ''version'' = Inr n"
    and resp: "response = command_response cid 200 [(''Idempotency-Key'', k), (''ETag'', etag_of n)] r" and t: "t = u"
    unfolding Companies_Controller_updateProfile_def by (elim tx_bind_InrE tx_lift_InrE tx_return_InrE) (simp only: sum.inject)
  obtain row where row: "cr_body r = toResponse row" "cp_version (snd row) = v + 1"
    using updateProfile_answer_version [OF assms(1) up] assms(2) t by auto
  with n have "n = Some (JNum (int (v + 1)))" by (simp only: row js_member_version sum.inject)
  with resp have "(''ETag'', formatEtag (v + 1)) \<in> set (hr_headers response)"
    by (simp only: etag_of_number) (simp add: command_response_def)
  moreover have "\<not> cr_replayed r"
    using updateProfile_runs [OF up] assms(2) t by (cases rule: CommandExecutor_run_InrE) simp_all
  then have "profile_version (ra_id actor) t = Some (v + 1)"
    using updateProfile_advances [OF assms(1) up] t by simp
  from profile_shown [OF this, of cid'] obtain g where "Companies_Controller_getCurrent cid' actor t = (Inr g, t)"
    "(''ETag'', formatEtag (v + 1)) \<in> set (hr_headers g)" by blast
  moreover have "requireEtag (Some (formatEtag (v + 1))) = Inr (v + 1)" by (rule etag_roundtrip [THEN conjunct1])
  ultimately show ?thesis using v by blast
qed

text \<open>
  The ETag of an accepted goal is current: it is the row version that the initiative has from then on, one more
  than the one in \<open>If-Match\<close>.
\<close>

theorem goal_etag_is_current:
  assumes "initiatives_ok (sys_db s)" and "sys_db t \<noteq> sys_db s"
    and "Initiatives_Controller_createGoal E cid actor initiativeId key ifMatch dto s = (Inr response, t)"
  shows "\<exists>v c. requireEtag ifMatch = Inr v \<and> (''ETag'', formatEtag (v + 1)) \<in> set (hr_headers response) \<and>
    ra_companyId actor = Some c \<and> initiative_version c initiativeId t = Some (v + 1)"
proof -
  from assms(3) obtain k v r n u where v: "requireEtag ifMatch = Inr v"
    and go: "createGoalAndRun E actor initiativeId v k cid dto s = (Inr r, u)"
    and resp: "response = command_response cid (cr_status r) [(''Idempotency-Key'', k), (''ETag'', formatEtag (v + 1)),
      (''Location'', ''/api/v1/runs/'' @ template n)] r" and t: "t = u"
    unfolding Initiatives_Controller_createGoal_def by (elim tx_bind_InrE tx_lift_InrE tx_return_InrE) (simp only: sum.inject)
  from go obtain c q where c: "ra_companyId actor = Some c"
    and run: "CommandExecutor_run E (goal_command E c (ra_id actor) k cid initiativeId v dto q) s = (Inr r, u)"
    by (rule createGoalAndRun_runs)
  have "\<not> cr_replayed r" using run assms(2) t by (cases rule: CommandExecutor_run_InrE) simp_all
  with createGoalAndRun_advances [OF assms(1) go c] t have "initiative_version c initiativeId t = Some (v + 1)" by simp
  with v c resp show ?thesis by (auto simp: command_response_def)
qed

end
