(* ===== verification/Orchestration.thy ===== *)
theory Orchestration
  imports Governance "HOL-Library.List_Lexorder" "HOL-Library.Char_ord" "HOL-Library.Product_Lexorder"
begin

text \<open>
  \<open>src/modules/orchestration\<close>: the model provider port with its deterministic implementation and
  the orchestration worker, which claims a task under a lease, invokes the provider at most once
  per task, and publishes the artifact or blocks the run. One definition per method of
  \<open>OrchestrationWorkerService\<close>; the methods are composed in \<open>processOnce\<close>, and theory
  Worker_System interleaves them for any number of workers that may crash between two calls.
\<close>

section \<open>The model provider\<close>

record model_invocation =
  mi_task_type :: string
  mi_attempt_id :: uuid
  mi_idempotency_key :: string
  mi_context :: json

record model_usage =
  mu_input_tokens :: nat
  mu_output_tokens :: nat
  mu_cost_minor :: string

record model_result =
  mr_output_schema_version :: string
  mr_content :: json
  mr_provider :: string
  mr_model :: string
  mr_model_revision :: string
  mr_usage :: model_usage

type_synonym provider = "model_invocation \<Rightarrow> exn + model_result"

definition usage_json :: "model_usage \<Rightarrow> json" where
  "usage_json u = JObj [(''input_tokens'', JNum (int (mu_input_tokens u))),
     (''output_tokens'', JNum (int (mu_output_tokens u))), (''cost_minor'', JStr (mu_cost_minor u))]"

text \<open>A property whose value is undefined is left out of the JSON text.\<close>

definition field :: "string \<Rightarrow> json option \<Rightarrow> (string \<times> json) list" where
  "field k v = (case v of None \<Rightarrow> [] | Some x \<Rightarrow> [(k, x)])"

definition criterion :: "nat \<Rightarrow> json \<Rightarrow> json" where
  "criterion index item =
     JObj ((''id'', JStr (''AC-'' @ pad_left 3 (show_nat (index + 1)))) # field ''criterion'' (json_get ''text'' item))"

fun criteria :: "nat \<Rightarrow> json list \<Rightarrow> json list" where
  "criteria index [] = []"
| "criteria index (item # items) = criterion index item # criteria (index + 1) items"

text \<open>
  \<open>DeterministicModelProvider.invoke\<close>; \<open>injectFailure\<close> is the test switch
  \<open>DETERMINISTIC_MODEL_FAIL\<close>. The configured delay only lets time pass.
\<close>

definition DeterministicModel_invoke :: "bool \<Rightarrow> provider" where
  "DeterministicModel_invoke injectFailure input =
     (if mi_task_type input \<noteq> ''CREATE_PRODUCT_BRIEF''
      then Inl (JsError (''The deterministic provider does not support '' @ mi_task_type input))
      else if injectFailure then Inl (JsError ''Injected deterministic provider failure'')
      else case (json_get ''goal'' (mi_context input), json_get ''company'' (mi_context input)) of
        (Some goal, Some company) \<Rightarrow>
          (case json_get ''must_haves'' goal of
             Some (JArr items) \<Rightarrow> Inr
               \<lparr>mr_output_schema_version = ''product-brief-v1'',
                mr_content = JObj (
                  field ''problem'' (json_get ''problem'' goal) @
                  field ''primary_persona'' (json_get ''target_user'' goal) @
                  field ''outcome'' (json_get ''desired_outcome'' goal) @
                  [(''assumptions'', JArr [JStr ''Founder-provided scope is accurate'',
                                           JStr ''Prototype uses mock or local data'']),
                   (''in_scope'', JArr items)] @
                  field ''out_of_scope'' (json_get ''non_goals'' goal) @
                  field ''primary_flow'' (json_get ''primary_flow'' goal) @
                  [(''acceptance_criteria'', JArr (criteria 0 items)),
                   (''company_context'', JObj (
                      field ''purpose'' (json_get ''purpose'' company) @
                      field ''target_customer'' (json_get ''target_customer'' company))),
                   (''open_decisions'', JArr [])]),
                mr_provider = ''deterministic'', mr_model = ''fixture-product-manager'',
                mr_model_revision = ''2026-08-12.1'',
                mr_usage = \<lparr>mu_input_tokens = 0, mu_output_tokens = 0, mu_cost_minor = ''0''\<rparr>\<rparr>
           | _ \<Rightarrow> Inl (JsError ''goal.must_haves.map is not a function''))
      | _ \<Rightarrow> Inl (JsError ''Cannot read properties of undefined''))"

section \<open>Claims\<close>

record claimed_task =
  ct_id :: uuid
  ct_company_id :: uuid
  ct_run_id :: uuid
  ct_type :: string
  ct_attempt_count :: nat
  ct_input_manifest :: json
  ct_workflow_version :: string
  ct_lease_token :: uuid
  ct_attempt_id :: uuid
  ct_attempt_number :: nat
  ct_effect_key :: string

text \<open>\<open>tasks t JOIN runs r ON r.id = t.run_id AND r.company_id = t.company_id\<close>.\<close>

definition tasks_with_runs :: "db \<Rightarrow> (task_row \<times> run_row) list" where
  "tasks_with_runs d =
     concat (map (\<lambda>t. map (Pair t)
       (filter (\<lambda>r. r_id r = t_run_id t \<and> r_company_id r = t_company_id t) (runs d))) (tasks d))"

definition run_open :: "run_row \<Rightarrow> bool" where
  "run_open r \<longleftrightarrow> \<not> terminal_run (r_state r) \<and> r_cancellation_requested_at r = None"

text \<open>The WHERE clause of the claim; \<open>locked\<close> are the task rows other transactions hold.\<close>

definition claimable :: "env \<Rightarrow> uuid list \<Rightarrow> uuid option \<Rightarrow> task_row \<times> run_row \<Rightarrow> bool" where
  "claimable E locked runId = (\<lambda>(t, r).
     (t_state t \<in> set [T_QUEUED, T_READY, T_RETRY_WAIT] \<and> t_available_at t \<le> now_ms E \<or>
      t_state t = T_RUNNING \<and> (case t_lease_expires_at t of None \<Rightarrow> False | Some x \<Rightarrow> x < now_ms E)) \<and>
     run_open r \<and> (runId = None \<or> runId = Some (t_run_id t)) \<and> t_id t \<notin> set locked)"

text \<open>\<open>ORDER BY t.priority DESC, t.created_at, t.id ... LIMIT 1\<close>.\<close>

definition claim_rank :: "task_row \<times> run_row \<Rightarrow> int \<times> timestamp \<times> uuid" where
  "claim_rank = (\<lambda>(t, r). (- t_priority t, t_created_at t, t_id t))"

definition claim_candidate :: "env \<Rightarrow> uuid list \<Rightarrow> uuid option \<Rightarrow> db \<Rightarrow> (task_row \<times> run_row) option" where
  "claim_candidate E locked runId d =
     order_limit_1 claim_rank (filter (claimable E locked runId) (tasks_with_runs d))"

definition effect_key_of :: "env \<Rightarrow> uuid \<Rightarrow> string \<Rightarrow> string" where
  "effect_key_of E taskId taskType = canonicalDigest E (JObj [(''provider'', JStr ''deterministic''),
     (''task_id'', JStr taskId), (''task_type'', JStr taskType)])"

definition lease_task :: "env \<Rightarrow> uuid \<Rightarrow> uuid \<Rightarrow> uuid \<Rightarrow> db \<Rightarrow> db" where
  "lease_task E companyId taskId leaseToken d = d\<lparr>tasks :=
     upd_where (\<lambda>t. t_company_id t = companyId \<and> t_id t = taskId)
       (\<lambda>t. t\<lparr>t_state := T_RUNNING, t_lease_owner := Some (worker_id E),
              t_lease_token := Some leaseToken,
              t_lease_expires_at := Some (now_ms E + lease_seconds E * 1000),
              t_attempt_count := t_attempt_count t + 1, t_row_version := t_row_version t + 1,
              t_updated_at := now_ms E\<rparr>) (tasks d)\<rparr>"

definition expire_attempts :: "env \<Rightarrow> uuid \<Rightarrow> uuid \<Rightarrow> db \<Rightarrow> db" where
  "expire_attempts E companyId taskId d = d\<lparr>task_attempts :=
     upd_where (\<lambda>a. ta_company_id a = companyId \<and> ta_task_id a = taskId \<and> ta_status a = A_RUNNING)
       (\<lambda>a. a\<lparr>ta_status := A_ABANDONED, ta_result_class := Some ''LEASE_EXPIRED'',
              ta_completed_at := Some (now_ms E)\<rparr>) (task_attempts d)\<rparr>"

definition model_policy_decision :: "env \<Rightarrow> task_row \<Rightarrow> uuid \<Rightarrow> uuid \<Rightarrow> policy_decision_row" where
  "model_policy_decision E t attemptId policyDecisionId =
     \<lparr>pd_id = policyDecisionId, pd_company_id = t_company_id t, pd_run_id = t_run_id t,
      pd_task_id = Some (t_id t), pd_attempt_id = Some attemptId, pd_actor_type = ''EMPLOYEE'',
      pd_actor_id = ''EMP-PM/v1'', pd_action = ''model.invoke'',
      pd_resource_digest = canonicalDigest E (JObj [(''provider'', JStr ''deterministic''),
        (''task_type'', JStr (t_type t))]),
      pd_context_digest = canonicalDigest E (t_input_manifest t),
      pd_policy_version = ''mvp-v1'', pd_result = ''ALLOW'',
      pd_reason_code = ''deterministic_provider_allowed'',
      pd_expires_at = Some (now_ms E + 30000), pd_occurred_at = now_ms E\<rparr>"

definition runtime_manifest :: "string \<Rightarrow> uuid \<Rightarrow> uuid \<Rightarrow> json" where
  "runtime_manifest workflowVersion policyDecisionId leaseToken =
     JObj [(''workflow_version'', JStr workflowVersion), (''policy_version'', JStr ''mvp-v1''),
           (''policy_decision_id'', JStr policyDecisionId), (''employee_key'', JStr ''EMP-PM''),
           (''employee_version'', JNum 1), (''instruction_version'', JStr ''pm-v1''),
           (''output_schema_version'', JStr ''product-brief-v1''),
           (''rubric_version'', JStr ''pm-v1''), (''provider'', JStr ''deterministic''),
           (''lease_token'', JStr leaseToken)]"

definition running_attempt :: "env \<Rightarrow> task_row \<Rightarrow> run_row \<Rightarrow> uuid \<Rightarrow> uuid \<Rightarrow> uuid \<Rightarrow> attempt_row" where
  "running_attempt E t r leaseToken attemptId policyDecisionId =
     \<lparr>ta_id = attemptId, ta_company_id = t_company_id t, ta_run_id = t_run_id t,
      ta_task_id = t_id t, ta_attempt_number = t_attempt_count t + 1,
      ta_idempotency_key = attemptId, ta_input_manifest = t_input_manifest t,
      ta_runtime_manifest = runtime_manifest (r_workflow_version r) policyDecisionId leaseToken,
      ta_status = A_RUNNING, ta_result_class = None, ta_output_refs = JArr [],
      ta_usage = JObj [], ta_started_at = now_ms E, ta_completed_at = None\<rparr>"

definition running_effect :: "env \<Rightarrow> task_row \<Rightarrow> uuid \<Rightarrow> effect_row" where
  "running_effect E t attemptId =
     \<lparr>me_effect_key = effect_key_of E (t_id t) (t_type t), me_company_id = t_company_id t,
      me_run_id = t_run_id t, me_task_id = t_id t, me_attempt_id = attemptId,
      me_provider = ''deterministic'', me_status = E_RUNNING, me_invocation_count = 0,
      me_output_digest = None, me_usage = JObj [], me_completed_at = None\<rparr>"

definition start_run :: "env \<Rightarrow> uuid \<Rightarrow> uuid \<Rightarrow> db \<Rightarrow> db" where
  "start_run E companyId runId d = d\<lparr>runs :=
     upd_where (\<lambda>r. r_company_id r = companyId \<and> r_id r = runId \<and> r_state r = R_DRAFT)
       (\<lambda>r. r\<lparr>r_state := R_QUALIFYING, r_stage := S_PRODUCT, r_row_version := r_row_version r + 1,
              r_updated_at := now_ms E\<rparr>) (runs d)\<rparr>"

definition task_started_event :: "env \<Rightarrow> task_row \<Rightarrow> uuid \<Rightarrow> uuid \<Rightarrow> append_options" where
  "task_started_event E t attemptId leaseToken =
     \<lparr>ae_companyId = t_company_id t, ae_runId = Some (t_run_id t), ae_type = ''task_started'',
      ae_actorType = ''EMPLOYEE'', ae_actorId = ''EMP-PM'', ae_actorVersion = Some ''1'',
      ae_correlationId = t_run_id t, ae_causationId = Some attemptId, ae_audience = None,
      ae_dataClassification = None,
      ae_payload = JObj [(''task_id'', JStr (t_id t)), (''attempt_id'', JStr attemptId),
        (''attempt_number'', JNum (int (t_attempt_count t + 1))), (''lease_token'', JStr leaseToken),
        (''worker_id'', JStr (worker_id E))]\<rparr>"

definition claimTask :: "env \<Rightarrow> uuid list \<Rightarrow> uuid option \<Rightarrow> claimed_task option call" where
  "claimTask E locked runId = transaction (
     tx_bind (query (claim_candidate E locked runId)) (\<lambda>candidate. case candidate of
       None \<Rightarrow> tx_return None
     | Some (t, r) \<Rightarrow>
         tx_bind (newId E) (\<lambda>leaseToken.
         tx_bind (newId E) (\<lambda>attemptId.
         tx_bind (newId E) (\<lambda>policyDecisionId.
         tx_then (execute (lease_task E (t_company_id t) (t_id t) leaseToken))
        (tx_then (execute (expire_attempts E (t_company_id t) (t_id t)))
        (tx_then (insert_policy_decision (model_policy_decision E t attemptId policyDecisionId))
        (tx_then (insert_attempt (running_attempt E t r leaseToken attemptId policyDecisionId))
        (tx_then (insert_effect_do_nothing (running_effect E t attemptId))
        (tx_then (execute (start_run E (t_company_id t) (t_run_id t)))
        (tx_bind (DomainEvent_append E (task_started_event E t attemptId leaseToken)) (\<lambda>_.
           tx_return (Some \<lparr>ct_id = t_id t, ct_company_id = t_company_id t, ct_run_id = t_run_id t,
             ct_type = t_type t, ct_attempt_count = t_attempt_count t,
             ct_input_manifest = t_input_manifest t, ct_workflow_version = r_workflow_version r,
             ct_lease_token = leaseToken, ct_attempt_id = attemptId,
             ct_attempt_number = t_attempt_count t + 1,
             ct_effect_key = effect_key_of E (t_id t) (t_type t)\<rparr>)))))))))))))"

section \<open>Before the invocation\<close>

definition claimed_row :: "claimed_task \<Rightarrow> db \<Rightarrow> (task_row \<times> run_row) option" where
  "claimed_row claim d =
     find (\<lambda>(t, r). t_company_id t = ct_company_id claim \<and> t_id t = ct_id claim) (tasks_with_runs d)"

definition isLeaseCurrent :: "env \<Rightarrow> claimed_task \<Rightarrow> bool call" where
  "isLeaseCurrent E claim = query (\<lambda>d. case claimed_row claim d of
     None \<Rightarrow> False
   | Some (t, r) \<Rightarrow> t_state t = T_RUNNING \<and> t_lease_token t = Some (ct_lease_token claim) \<and>
       (case t_lease_expires_at t of None \<Rightarrow> False | Some x \<Rightarrow> now_ms E < x) \<and> run_open r)"

definition find_effect :: "claimed_task \<Rightarrow> db \<Rightarrow> effect_row option" where
  "find_effect claim d = find (\<lambda>e. me_company_id e = ct_company_id claim \<and>
     me_effect_key e = ct_effect_key claim) (model_invocation_effects d)"

definition count_invocation :: "claimed_task \<Rightarrow> db \<Rightarrow> db" where
  "count_invocation claim d = d\<lparr>model_invocation_effects :=
     upd_where (\<lambda>e. me_company_id e = ct_company_id claim \<and> me_effect_key e = ct_effect_key claim)
       (\<lambda>e. e\<lparr>me_invocation_count := 1\<rparr>) (model_invocation_effects d)\<rparr>"

definition beginModelInvocation :: "claimed_task \<Rightarrow> bool call" where
  "beginModelInvocation claim = transaction (
     tx_bind (query (find_effect claim)) (\<lambda>current. case current of
       None \<Rightarrow> tx_return False
     | Some e \<Rightarrow>
         if me_status e \<noteq> E_RUNNING \<or> me_invocation_count e \<noteq> 0 then tx_return False
         else tx_then (execute (count_invocation claim)) (tx_return True)))"

text \<open>
  The guard with which \<open>blockUnknownModelOutcome\<close>, \<open>completeTask\<close> and \<open>failTask\<close> start: the claim
  is stale when its task is gone, no longer running, leased to someone else, or its run ended.
\<close>

definition stale_claim :: "claimed_task \<Rightarrow> (task_row \<times> run_row) option \<Rightarrow> bool" where
  "stale_claim claim current =
     (case current of
        None \<Rightarrow> True
      | Some (t, r) \<Rightarrow> t_state t \<noteq> T_RUNNING \<or> t_lease_token t \<noteq> Some (ct_lease_token claim) \<or>
          terminal_run (r_state r))"

definition abandon_attempt :: "env \<Rightarrow> uuid \<Rightarrow> uuid \<Rightarrow> string \<Rightarrow> db \<Rightarrow> db" where
  "abandon_attempt E companyId attemptId resultClass d = d\<lparr>task_attempts :=
     upd_where (\<lambda>a. ta_company_id a = companyId \<and> ta_id a = attemptId \<and> ta_status a = A_RUNNING)
       (\<lambda>a. a\<lparr>ta_status := A_ABANDONED, ta_result_class := Some resultClass,
              ta_completed_at := Some (now_ms E)\<rparr>) (task_attempts d)\<rparr>"

definition abandonAttempt :: "env \<Rightarrow> uuid \<Rightarrow> uuid \<Rightarrow> string \<Rightarrow> unit call" where
  "abandonAttempt E companyId attemptId resultClass =
     execute (abandon_attempt E companyId attemptId resultClass)"

definition release_blocked_task :: "env \<Rightarrow> nat \<Rightarrow> claimed_task \<Rightarrow> db \<Rightarrow> db" where
  "release_blocked_task E bump claim d = d\<lparr>tasks :=
     upd_where (\<lambda>t. t_company_id t = ct_company_id claim \<and> t_id t = ct_id claim \<and>
         t_lease_token t = Some (ct_lease_token claim) \<and> t_state t = T_RUNNING)
       (\<lambda>t. t\<lparr>t_state := T_BLOCKED, t_blocker_code := Some ''model_outcome_reconciliation_required'',
              t_lease_owner := None, t_lease_token := None, t_lease_expires_at := None,
              t_row_version := t_row_version t + bump, t_updated_at := now_ms E\<rparr>) (tasks d)\<rparr>"

definition block_run :: "env \<Rightarrow> claimed_task \<Rightarrow> db \<Rightarrow> db" where
  "block_run E claim d = d\<lparr>runs :=
     upd_where (\<lambda>r. r_company_id r = ct_company_id claim \<and> r_id r = ct_run_id claim \<and> run_open r)
       (\<lambda>r. r\<lparr>r_state := R_BLOCKED,
              r_blocking_reason_code := Some ''model_outcome_reconciliation_required'',
              r_row_version := r_row_version r + 1, r_updated_at := now_ms E\<rparr>) (runs d)\<rparr>"

definition reconciliation_event :: "claimed_task \<Rightarrow> append_options" where
  "reconciliation_event claim =
     \<lparr>ae_companyId = ct_company_id claim, ae_runId = Some (ct_run_id claim),
      ae_type = ''model_outcome_reconciliation_required'', ae_actorType = ''SYSTEM'',
      ae_actorId = ''orchestration-worker/v1'', ae_actorVersion = None,
      ae_correlationId = ct_run_id claim, ae_causationId = Some (ct_attempt_id claim),
      ae_audience = None, ae_dataClassification = None,
      ae_payload = JObj [(''task_id'', JStr (ct_id claim)), (''attempt_id'', JStr (ct_attempt_id claim)),
        (''effect_key'', JStr (ct_effect_key claim)),
        (''reason_code'', JStr ''UNKNOWN_EXTERNAL_OUTCOME'')]\<rparr>"

definition blockUnknownModelOutcome :: "env \<Rightarrow> claimed_task \<Rightarrow> unit call" where
  "blockUnknownModelOutcome E claim = transaction (
     tx_bind (query (claimed_row claim)) (\<lambda>current.
       if stale_claim claim current
       then execute (abandon_attempt E (ct_company_id claim) (ct_attempt_id claim) ''STALE_RECONCILIATION'')
       else tx_then (execute (abandon_attempt E (ct_company_id claim) (ct_attempt_id claim)
                       ''UNKNOWN_EXTERNAL_OUTCOME''))
           (tx_then (execute (release_blocked_task E 1 claim))
           (tx_then (execute (block_run E claim))
           (tx_bind (DomainEvent_append E (reconciliation_event claim)) (\<lambda>_. tx_return ()))))))"

record context_row =
  cr_goal :: json
  cr_purpose :: string
  cr_target_customer :: string

definition find_context :: "uuid \<Rightarrow> uuid \<Rightarrow> db \<Rightarrow> context_row option" where
  "find_context companyId runId d =
     Option.bind (find (\<lambda>r. r_company_id r = companyId \<and> r_id r = runId) (runs d)) (\<lambda>r.
     Option.bind (find (\<lambda>cs. cs_id cs = r_context_snapshot_id r \<and> cs_company_id cs = r_company_id r)
       (context_snapshots d)) (\<lambda>cs.
     Option.bind (find (\<lambda>gv. gv_id gv = cs_goal_version_id cs \<and> gv_company_id gv = cs_company_id cs)
       (goal_versions d)) (\<lambda>gv.
     map_option (\<lambda>cp. \<lparr>cr_goal = gv_structured_goal gv, cr_purpose = cp_purpose cp,
         cr_target_customer = cp_target_customer cp\<rparr>)
       (find (\<lambda>cp. cp_id cp = cs_company_profile_version_id cs \<and> cp_company_id cp = cs_company_id cs)
         (company_profile_versions d)))))"

definition loadContext :: "uuid \<Rightarrow> uuid \<Rightarrow> context_row call" where
  "loadContext companyId runId =
     tx_bind (query (find_context companyId runId))
       (tx_require (JsError ''Frozen run context is missing''))"

section \<open>After the invocation\<close>

definition published_artifact :: "env \<Rightarrow> claimed_task \<Rightarrow> uuid \<Rightarrow> artifact_row" where
  "published_artifact E claim artifactId =
     \<lparr>ar_id = artifactId, ar_company_id = ct_company_id claim, ar_run_id = ct_run_id claim,
      ar_type = ''product_brief'', ar_logical_key = ''product-brief'', ar_current_version_id = None,
      ar_created_at = now_ms E, ar_updated_at = now_ms E\<rparr>"

definition published_version ::
  "env \<Rightarrow> claimed_task \<Rightarrow> uuid \<Rightarrow> model_result \<Rightarrow> uuid \<Rightarrow> uuid \<Rightarrow> artifact_version_row" where
  "published_version E claim attemptId result artifactId artifactVersionId =
     \<lparr>av_id = artifactVersionId, av_company_id = ct_company_id claim, av_run_id = ct_run_id claim,
      av_artifact_id = artifactId, av_version = 1,
      av_schema_version = mr_output_schema_version result, av_content = mr_content result,
      av_checksum = canonicalDigest E (mr_content result),
      av_size_bytes = length (utf8 (stringify (mr_content result))),
      av_creator_type = ''EMPLOYEE'', av_creator_version = ''EMP-PM/v1'',
      av_lineage = JObj [(''context'', ct_input_manifest claim), (''attempt_id'', JStr attemptId)],
      av_lifecycle_state = ''PENDING_APPROVAL'', av_created_at = now_ms E\<rparr>"

definition point_artifact :: "env \<Rightarrow> uuid \<Rightarrow> uuid \<Rightarrow> uuid \<Rightarrow> db \<Rightarrow> db" where
  "point_artifact E companyId artifactId versionId d = d\<lparr>artifacts :=
     upd_where (\<lambda>a. ar_company_id a = companyId \<and> ar_id a = artifactId)
       (\<lambda>a. a\<lparr>ar_current_version_id := Some versionId, ar_updated_at := now_ms E\<rparr>) (artifacts d)\<rparr>"

definition succeed_attempt :: "env \<Rightarrow> uuid \<Rightarrow> uuid \<Rightarrow> uuid \<Rightarrow> model_usage \<Rightarrow> db \<Rightarrow> db" where
  "succeed_attempt E companyId attemptId versionId u d = d\<lparr>task_attempts :=
     upd_where (\<lambda>a. ta_company_id a = companyId \<and> ta_id a = attemptId)
       (\<lambda>a. a\<lparr>ta_status := A_SUCCEEDED, ta_result_class := Some ''SUCCESS'',
              ta_output_refs := JArr [JStr versionId], ta_usage := usage_json u,
              ta_completed_at := Some (now_ms E)\<rparr>) (task_attempts d)\<rparr>"

definition succeed_effect :: "env \<Rightarrow> claimed_task \<Rightarrow> model_result \<Rightarrow> db \<Rightarrow> db" where
  "succeed_effect E claim result d = d\<lparr>model_invocation_effects :=
     upd_where (\<lambda>e. me_company_id e = ct_company_id claim \<and> me_effect_key e = ct_effect_key claim \<and>
         me_status e = E_RUNNING)
       (\<lambda>e. e\<lparr>me_status := E_SUCCEEDED, me_output_digest := Some (canonicalDigest E (mr_content result)),
              me_usage := usage_json (mr_usage result), me_completed_at := Some (now_ms E)\<rparr>)
       (model_invocation_effects d)\<rparr>"

definition unknown_effect :: "env \<Rightarrow> claimed_task \<Rightarrow> db \<Rightarrow> db" where
  "unknown_effect E claim d = d\<lparr>model_invocation_effects :=
     upd_where (\<lambda>e. me_company_id e = ct_company_id claim \<and> me_effect_key e = ct_effect_key claim \<and>
         me_status e = E_RUNNING)
       (\<lambda>e. e\<lparr>me_status := E_UNKNOWN, me_completed_at := Some (now_ms E)\<rparr>)
       (model_invocation_effects d)\<rparr>"

definition succeed_task :: "env \<Rightarrow> claimed_task \<Rightarrow> db \<Rightarrow> db" where
  "succeed_task E claim d = d\<lparr>tasks :=
     upd_where (\<lambda>t. t_company_id t = ct_company_id claim \<and> t_id t = ct_id claim)
       (\<lambda>t. t\<lparr>t_state := T_SUCCEEDED, t_lease_owner := None, t_lease_token := None,
              t_lease_expires_at := None, t_completed_at := Some (now_ms E),
              t_updated_at := now_ms E, t_row_version := t_row_version t + 1\<rparr>) (tasks d)\<rparr>"

definition await_brief_approval :: "env \<Rightarrow> claimed_task \<Rightarrow> db \<Rightarrow> db" where
  "await_brief_approval E claim d = d\<lparr>runs :=
     upd_where (\<lambda>r. r_id r = ct_run_id claim \<and> r_company_id r = ct_company_id claim)
       (\<lambda>r. r\<lparr>r_state := R_AWAITING_BRIEF_APPROVAL, r_stage := S_PRODUCT,
              r_row_version := r_row_version r + 1, r_updated_at := now_ms E\<rparr>) (runs d)\<rparr>"

definition brief_published_event :: "claimed_task \<Rightarrow> uuid \<Rightarrow> nat \<Rightarrow> uuid \<Rightarrow> uuid \<Rightarrow> append_options" where
  "brief_published_event claim attemptId attemptNumber artifactId artifactVersionId =
     \<lparr>ae_companyId = ct_company_id claim, ae_runId = Some (ct_run_id claim),
      ae_type = ''product_brief_published'', ae_actorType = ''EMPLOYEE'', ae_actorId = ''EMP-PM'',
      ae_actorVersion = Some ''1'', ae_correlationId = ct_run_id claim,
      ae_causationId = Some attemptId, ae_audience = None, ae_dataClassification = None,
      ae_payload = JObj [(''task_id'', JStr (ct_id claim)), (''attempt_id'', JStr attemptId),
        (''attempt_number'', JNum (int attemptNumber)), (''artifact_id'', JStr artifactId),
        (''artifact_version_id'', JStr artifactVersionId), (''artifact_version'', JNum 1),
        (''run_state'', JStr ''AWAITING_BRIEF_APPROVAL'')]\<rparr>"

definition stale_completion :: "env \<Rightarrow> claimed_task \<Rightarrow> uuid \<Rightarrow> string \<Rightarrow> unit call" where
  "stale_completion E claim attemptId resultClass =
     tx_then (execute (abandon_attempt E (ct_company_id claim) attemptId resultClass))
       (execute (unknown_effect E claim))"

definition publish_result :: "env \<Rightarrow> claimed_task \<Rightarrow> uuid \<Rightarrow> nat \<Rightarrow> model_result \<Rightarrow> unit call" where
  "publish_result E claim attemptId attemptNumber result =
     tx_bind (newId E) (\<lambda>artifactId.
     tx_bind (newId E) (\<lambda>artifactVersionId.
     tx_then (insert_artifact (published_artifact E claim artifactId))
    (tx_then (insert_artifact_version
        (published_version E claim attemptId result artifactId artifactVersionId))
    (tx_then (execute (point_artifact E (ct_company_id claim) artifactId artifactVersionId))
    (tx_then (execute (succeed_attempt E (ct_company_id claim) attemptId artifactVersionId (mr_usage result)))
    (tx_then (execute (succeed_effect E claim result))
    (tx_then (execute (succeed_task E claim))
    (tx_then (execute (await_brief_approval E claim))
    (tx_bind (DomainEvent_append E
        (brief_published_event claim attemptId attemptNumber artifactId artifactVersionId))
      (\<lambda>_. tx_return ())))))))))) "

definition completeTask :: "env \<Rightarrow> claimed_task \<Rightarrow> uuid \<Rightarrow> nat \<Rightarrow> model_result \<Rightarrow> unit call" where
  "completeTask E claim attemptId attemptNumber result = transaction (
     tx_bind (query (claimed_row claim)) (\<lambda>current.
       if stale_claim claim current then stale_completion E claim attemptId ''STALE_COMPLETION''
       else publish_result E claim attemptId attemptNumber result))"

definition fail_attempt :: "env \<Rightarrow> uuid \<Rightarrow> uuid \<Rightarrow> db \<Rightarrow> db" where
  "fail_attempt E companyId attemptId d = d\<lparr>task_attempts :=
     upd_where (\<lambda>a. ta_company_id a = companyId \<and> ta_id a = attemptId \<and> ta_status a = A_RUNNING)
       (\<lambda>a. a\<lparr>ta_status := A_FAILED, ta_result_class := Some ''UNKNOWN_EXTERNAL_OUTCOME'',
              ta_completed_at := Some (now_ms E)\<rparr>) (task_attempts d)\<rparr>"

text \<open>The error is logged and not used otherwise; unlike the block of an unknown outcome, the
  update of the task does not raise its row version.\<close>

definition failTask :: "env \<Rightarrow> claimed_task \<Rightarrow> uuid \<Rightarrow> exn \<Rightarrow> unit call" where
  "failTask E claim attemptId err = transaction (
     tx_bind (query (claimed_row claim)) (\<lambda>current.
       if stale_claim claim current then stale_completion E claim attemptId ''STALE_FAILURE''
       else tx_then (execute (fail_attempt E (ct_company_id claim) attemptId))
           (tx_then (execute (unknown_effect E claim))
           (tx_then (execute (release_blocked_task E 0 claim))
           (tx_then (execute (block_run E claim))
           (tx_bind (DomainEvent_append E (reconciliation_event (claim\<lparr>ct_attempt_id := attemptId\<rparr>)))
             (\<lambda>_. tx_return ())))))))"

section \<open>One round of a worker\<close>

definition invocation_of :: "claimed_task \<Rightarrow> context_row \<Rightarrow> model_invocation" where
  "invocation_of claim context_row =
     \<lparr>mi_task_type = ct_type claim, mi_attempt_id = ct_attempt_id claim,
      mi_idempotency_key = ct_effect_key claim,
      mi_context = JObj [(''goal'', cr_goal context_row),
        (''company'', JObj [(''purpose'', JStr (cr_purpose context_row)),
                            (''target_customer'', JStr (cr_target_customer context_row))])]\<rparr>"

text \<open>
  \<open>processOnce\<close>, with the provider as a parameter; \<open>clock\<close> gives the time of each database
  access, which is what the lease checks compare.
\<close>

definition processOnce ::
  "env \<Rightarrow> (nat \<Rightarrow> timestamp) \<Rightarrow> uuid list \<Rightarrow> provider \<Rightarrow> uuid option \<Rightarrow> bool call" where
  "processOnce E clock locked invoke runId =
     tx_bind (claimTask (E\<lparr>now_ms := clock 0\<rparr>) locked runId) (\<lambda>claimed. case claimed of
       None \<Rightarrow> tx_return False
     | Some claim \<Rightarrow> tx_catch
        (tx_bind (loadContext (ct_company_id claim) (ct_run_id claim)) (\<lambda>context_row.
         tx_bind (isLeaseCurrent (E\<lparr>now_ms := clock 1\<rparr>) claim) (\<lambda>current.
           if \<not> current
           then tx_then (abandonAttempt (E\<lparr>now_ms := clock 2\<rparr>) (ct_company_id claim)
                  (ct_attempt_id claim) ''STALE_BEFORE_INVOCATION'') (tx_return True)
           else tx_bind (beginModelInvocation claim) (\<lambda>begun.
             if \<not> begun
             then tx_then (blockUnknownModelOutcome (E\<lparr>now_ms := clock 2\<rparr>) claim) (tx_return True)
             else tx_bind (tx_lift (invoke (invocation_of claim context_row))) (\<lambda>result.
                  tx_then (completeTask (E\<lparr>now_ms := clock 3\<rparr>) claim (ct_attempt_id claim)
                    (ct_attempt_number claim) result) (tx_return True))))))
        (\<lambda>err. tx_then (failTask (E\<lparr>now_ms := clock 4\<rparr>) claim (ct_attempt_id claim) err)
                 (tx_return True)))"

end
