(* ===== verification/Task_Lifecycle.thy ===== *)
theory Task_Lifecycle
  imports Orchestration
begin

text \<open>
  Correctness of the orchestration worker's methods: which task is claimed, what a claim, a
  completion and a failure leave in the tables, that a stale worker is fenced off by its lease
  token, that a run that ended is never changed again, that a task has at most one running
  attempt, and that every method commits with the event log invariant.
\<close>

section \<open>The claim\<close>

lemma in_tasks_with_runs:
  "(t, r) \<in> set (tasks_with_runs d) \<longleftrightarrow>
     t \<in> set (tasks d) \<and> r \<in> set (runs d) \<and> r_id r = t_run_id t \<and> r_company_id r = t_company_id t"
  by (auto simp: tasks_with_runs_def)

lemma claimed_row_Some:
  assumes "claimed_row claim d = Some (t, r)"
  shows "t \<in> set (tasks d)" and "r \<in> set (runs d)" and "r_id r = t_run_id t"
    and "r_company_id r = t_company_id t" and "t_company_id t = ct_company_id claim"
    and "t_id t = ct_id claim"
  using assms by (auto simp: claimed_row_def in_tasks_with_runs dest!: find_SomeD)

text \<open>The tables after a claim that found a task.\<close>

definition claim_of :: "env \<Rightarrow> task_row \<Rightarrow> run_row \<Rightarrow> uuid \<Rightarrow> uuid \<Rightarrow> claimed_task" where
  "claim_of E t r leaseToken attemptId =
     \<lparr>ct_id = t_id t, ct_company_id = t_company_id t, ct_run_id = t_run_id t,
      ct_type = t_type t, ct_attempt_count = t_attempt_count t,
      ct_input_manifest = t_input_manifest t, ct_workflow_version = r_workflow_version r,
      ct_lease_token = leaseToken, ct_attempt_id = attemptId,
      ct_attempt_number = t_attempt_count t + 1,
      ct_effect_key = effect_key_of E (t_id t) (t_type t)\<rparr>"

lemma insert_policy_decision_InrE:
  assumes "insert_policy_decision r s = (Inr u, t)"
  obtains "t = s\<lparr>sys_db := sys_db s\<lparr>policy_decisions := policy_decisions (sys_db s) @ [r]\<rparr>\<rparr>"
  using assms unfolding insert_policy_decision_def by (elim insert_row_InrE) (rule that)

lemma insert_attempt_InrE:
  assumes "insert_attempt r s = (Inr u, t)"
  obtains "ta_id r \<notin> ta_id ` set (task_attempts (sys_db s))"
    and "t = s\<lparr>sys_db := sys_db s\<lparr>task_attempts := task_attempts (sys_db s) @ [r]\<rparr>\<rparr>"
  using assms unfolding insert_attempt_def
  by (elim insert_row_InrE) (rule that, auto simp only: list.set ball_simps snd_conv absent_def)

lemma insert_effect_InrE:
  assumes "insert_effect_do_nothing r s = (Inr u, t)"
  obtains (kept) "\<exists>e \<in> set (model_invocation_effects (sys_db s)). (me_company_id e, me_run_id e, me_task_id e)
        = (me_company_id r, me_run_id r, me_task_id r)" "t = s"
  | (added) "me_effect_key r \<notin> me_effect_key ` set (model_invocation_effects (sys_db s))"
      "t = s\<lparr>sys_db := sys_db s\<lparr>model_invocation_effects := model_invocation_effects (sys_db s) @ [r]\<rparr>\<rparr>"
proof (cases "absent (\<lambda>x. (me_company_id x, me_run_id x, me_task_id x))
    (me_company_id r, me_run_id r, me_task_id r) (model_invocation_effects (sys_db s))")
  case True
  with assms show thesis unfolding insert_effect_do_nothing_def
    by (elim tx_bind_InrE query_InrE)
      (simp only: tx_when_apply if_True, elim insert_row_InrE,
       rule added, auto simp only: list.set ball_simps snd_conv absent_def)
next
  case False
  with assms have "t = s" unfolding insert_effect_do_nothing_def
    by (elim tx_bind_InrE query_InrE) (simp only: tx_when_apply if_False prod.inject)
  with False show thesis by (intro kept) (auto simp: absent_def)
qed

lemma effects_same: "model_invocation_effects d = es \<Longrightarrow> d\<lparr>model_invocation_effects := es\<rparr> = d"
  by (cases d) simp

lemma claimTask_InrE:
  assumes "claimTask E locked runId s = (Inr res, t)"
  obtains (none) "res = None" "claim_candidate E locked runId (sys_db s) = None" "t = s"
  | (claimed) x r attemptId leaseToken pdid es cs evs ms where
      "claim_candidate E locked runId (sys_db s) = Some (x, r)"
      "res = Some (claim_of E x r leaseToken attemptId)"
      "attemptId \<notin> ta_id ` set (task_attempts (sys_db s))"
      "leaseToken = uuid_at E (sys_next s)" "attemptId = uuid_at E (Suc (sys_next s))" "sys_next s < sys_next t"
      "es = model_invocation_effects (sys_db s) \<and>
         (\<exists>e \<in> set (model_invocation_effects (sys_db s)). (me_company_id e, me_run_id e, me_task_id e) =
           (t_company_id x, t_run_id x, t_id x)) \<or>
         es = model_invocation_effects (sys_db s) @ [running_effect E x attemptId] \<and>
         effect_key_of E (t_id x) (t_type x) \<notin> me_effect_key ` set (model_invocation_effects (sys_db s))"
      "sys_db t = sys_db s
        \<lparr>tasks := tasks (lease_task E (t_company_id x) (t_id x) leaseToken (sys_db s)),
         policy_decisions := policy_decisions (sys_db s) @ [model_policy_decision E x attemptId pdid],
         task_attempts := task_attempts (expire_attempts E (t_company_id x) (t_id x) (sys_db s)) @
           [running_attempt E x r leaseToken attemptId pdid],
         model_invocation_effects := es,
         runs := runs (start_run E (t_company_id x) (t_run_id x) (sys_db s)),
         run_event_counters := cs, events := evs, outbox_messages := ms\<rparr>"
proof (cases "claim_candidate E locked runId (sys_db s)")
  case None
  with assms none show thesis
    unfolding claimTask_def by (elim transaction_InrE tx_bind_InrE query_InrE) (simp add: tx_return_def)
next
  case (Some c)
  obtain x r where c: "c = (x, r)" by (cases c)
  let ?i = "sys_next s" let ?s3 = "s\<lparr>sys_next := Suc (Suc (Suc ?i))\<rparr>"
  let ?lt = "uuid_at E ?i" let ?at = "uuid_at E (Suc ?i)" let ?pd = "uuid_at E (Suc (Suc ?i))"
  let ?d1 = "lease_task E (t_company_id x) (t_id x) ?lt (sys_db s)"
  let ?d2 = "expire_attempts E (t_company_id x) (t_id x) ?d1"
  let ?d3 = "?d2\<lparr>policy_decisions := policy_decisions ?d2 @ [model_policy_decision E x ?at ?pd]\<rparr>"
  let ?ra = "running_attempt E x r ?lt ?at ?pd"
  let ?d4 = "?d3\<lparr>task_attempts := task_attempts ?d3 @ [?ra]\<rparr>"
  from assms Some c obtain u s5 u' s7 where
    att: "ta_id ?ra \<notin> ta_id ` set (task_attempts ?d3)"
    and eff: "insert_effect_do_nothing (running_effect E x ?at) (?s3\<lparr>sys_db := ?d4\<rparr>) = (Inr u, s5)"
    and app: "DomainEvent_append E (task_started_event E x ?at ?lt)
        (s5\<lparr>sys_db := start_run E (t_company_id x) (t_run_id x) (sys_db s5)\<rparr>) = (Inr u', t)"
    and res: "res = Some (claim_of E x r ?lt ?at)"
    unfolding claimTask_def claim_of_def
    by (elim transaction_InrE tx_bind_InrE query_InrE)
      (simp, elim tx_bind_InrE newId_InrE tx_then_InrE execute_InrE tx_return_InrE
        insert_policy_decision_InrE insert_attempt_InrE, simp)
  have me: "me_effect_key (running_effect E x ?at) = effect_key_of E (t_id x) (t_type x)"
    by (simp add: running_effect_def)
  from eff obtain es where s5: "sys_db s5 = ?d4\<lparr>model_invocation_effects := es\<rparr>" "sys_next s5 = sys_next ?s3"
    and es: "es = model_invocation_effects (sys_db s) \<and>
         (\<exists>e \<in> set (model_invocation_effects (sys_db s)). (me_company_id e, me_run_id e, me_task_id e) =
           (t_company_id x, t_run_id x, t_id x)) \<or>
         es = model_invocation_effects (sys_db s) @ [running_effect E x ?at] \<and>
         effect_key_of E (t_id x) (t_type x) \<notin> me_effect_key ` set (model_invocation_effects (sys_db s))"
  proof (cases rule: insert_effect_InrE)
    case kept
    show thesis
      by (rule that [of "model_invocation_effects (sys_db s)"])
        (use kept(1) in \<open>simp_all add: kept(2) effects_same expire_attempts_def lease_task_def running_effect_def\<close>)
  next
    case added
    show thesis
      by (rule that [of "model_invocation_effects (sys_db s) @ [running_effect E x ?at]"])
        (use added me in \<open>simp_all add: expire_attempts_def lease_task_def\<close>)
  qed
  have fresh: "?at \<notin> ta_id ` set (task_attempts (sys_db s))"
  proof -
    have "ta_id ` set (task_attempts ?d3) = ta_id ` set (task_attempts (sys_db s))"
      by (simp add: expire_attempts_def lease_task_def image_upd_where_same)
    with att show ?thesis by (simp add: running_attempt_def)
  qed
  from app s5(2) have later: "sys_next s < sys_next t" by (auto elim: append_shape)
  from app obtain cs q ms where t: "sys_db t =
      (start_run E (t_company_id x) (t_run_id x) (sys_db s5))\<lparr>run_event_counters := cs,
      events := events (sys_db s5) @ [new_event E (task_started_event E x ?at ?lt) u' q],
      outbox_messages := ms\<rparr>"
    by (rule append_shape) (simp add: start_run_def)
  show thesis
    by (rule claimed [OF Some [unfolded c] res fresh refl refl later es])
      (simp add: t s5 start_run_def expire_attempts_def lease_task_def)
qed

section \<open>Completion and failure\<close>

lemma insert_artifact_InrE:
  assumes "insert_artifact r s = (Inr u, t)"
  obtains "ar_id r \<notin> ar_id ` set (artifacts (sys_db s))"
    and "t = s\<lparr>sys_db := sys_db s\<lparr>artifacts := artifacts (sys_db s) @ [r]\<rparr>\<rparr>"
  using assms unfolding insert_artifact_def
  by (elim insert_row_InrE) (rule that, auto simp only: list.set ball_simps snd_conv absent_def)

lemma insert_artifact_version_InrE:
  assumes "insert_artifact_version r s = (Inr u, t)"
  obtains "t = s\<lparr>sys_db := sys_db s\<lparr>artifact_versions := artifact_versions (sys_db s) @ [r]\<rparr>\<rparr>"
  using assms unfolding insert_artifact_version_def by (elim insert_row_InrE) (rule that)

lemma publish_result_InrE:
  assumes "publish_result E claim a n res s = (Inr u, t)"
  obtains aid avid cs eid q ms where "aid \<notin> ar_id ` set (artifacts (sys_db s))"
    and "sys_db t = sys_db s
      \<lparr>artifacts := artifacts (point_artifact E (ct_company_id claim) aid avid
         (sys_db s\<lparr>artifacts := artifacts (sys_db s) @ [published_artifact E claim aid]\<rparr>)),
       artifact_versions := artifact_versions (sys_db s) @ [published_version E claim a res aid avid],
       task_attempts := task_attempts (succeed_attempt E (ct_company_id claim) a avid (mr_usage res) (sys_db s)),
       model_invocation_effects := model_invocation_effects (succeed_effect E claim res (sys_db s)),
       tasks := tasks (succeed_task E claim (sys_db s)),
       runs := runs (await_brief_approval E claim (sys_db s)),
       run_event_counters := cs,
       events := events (sys_db s) @ [new_event E (brief_published_event claim a n aid avid) eid q],
       outbox_messages := ms\<rparr>"
proof -
  let ?aid = "uuid_at E (sys_next s)" let ?avid = "uuid_at E (Suc (sys_next s))"
  let ?s2 = "s\<lparr>sys_next := Suc (Suc (sys_next s))\<rparr>"
  let ?d = "await_brief_approval E claim (succeed_task E claim (succeed_effect E claim res
     (succeed_attempt E (ct_company_id claim) a ?avid (mr_usage res)
     (point_artifact E (ct_company_id claim) ?aid ?avid
     (sys_db s\<lparr>artifacts := artifacts (sys_db s) @ [published_artifact E claim ?aid],
        artifact_versions := artifact_versions (sys_db s) @ [published_version E claim a res ?aid ?avid]\<rparr>)))))"
  from assms obtain eid where new: "ar_id (published_artifact E claim ?aid) \<notin> ar_id ` set (artifacts (sys_db s))"
    and app: "DomainEvent_append E (brief_published_event claim a n ?aid ?avid) (?s2\<lparr>sys_db := ?d\<rparr>) = (Inr eid, t)"
    unfolding publish_result_def
    by (elim tx_bind_InrE newId_InrE tx_then_InrE execute_InrE tx_return_InrE
        insert_artifact_InrE insert_artifact_version_InrE) simp
  from app obtain cs q ms where "sys_db t = ?d\<lparr>run_event_counters := cs,
      events := events ?d @ [new_event E (brief_published_event claim a n ?aid ?avid) eid q], outbox_messages := ms\<rparr>"
    by (rule append_shape) simp
  then show thesis
    using new by (intro that [where aid = ?aid and avid = ?avid and cs = cs and eid = eid and q = q and ms = ms])
      (simp_all add: published_artifact_def await_brief_approval_def succeed_task_def
        succeed_effect_def succeed_attempt_def point_artifact_def)
qed

lemma completeTask_stale:
  "stale_claim claim (claimed_row claim (sys_db s)) \<Longrightarrow>
    completeTask E claim a n res s = (Inr (), s\<lparr>sys_db := unknown_effect E claim
      (abandon_attempt E (ct_company_id claim) a ''STALE_COMPLETION'' (sys_db s))\<rparr>)"
  by (simp add: completeTask_def stale_completion_def transaction_def tx_bind_def tx_then_def query_apply execute_apply)

lemma failTask_stale:
  "stale_claim claim (claimed_row claim (sys_db s)) \<Longrightarrow>
    failTask E claim a err s = (Inr (), s\<lparr>sys_db := unknown_effect E claim
      (abandon_attempt E (ct_company_id claim) a ''STALE_FAILURE'' (sys_db s))\<rparr>)"
  by (simp add: failTask_def stale_completion_def transaction_def tx_bind_def tx_then_def query_apply execute_apply)

lemma blockUnknown_stale:
  "stale_claim claim (claimed_row claim (sys_db s)) \<Longrightarrow>
    blockUnknownModelOutcome E claim s = (Inr (), s\<lparr>sys_db :=
      abandon_attempt E (ct_company_id claim) (ct_attempt_id claim) ''STALE_RECONCILIATION'' (sys_db s)\<rparr>)"
  by (simp add: blockUnknownModelOutcome_def transaction_def tx_bind_def query_apply execute_apply)

lemma completeTask_current:
  "\<not> stale_claim claim (claimed_row claim (sys_db s)) \<Longrightarrow>
    completeTask E claim a n res s = transaction (publish_result E claim a n res) s"
  by (simp add: completeTask_def transaction_def tx_bind_def query_apply)

lemma current_claimE:
  assumes "\<not> stale_claim claim (claimed_row claim d)"
  obtains t r where "claimed_row claim d = Some (t, r)" "t_state t = T_RUNNING"
    "t_lease_token t = Some (ct_lease_token claim)" "\<not> terminal_run (r_state r)"
  using assms by (auto simp: stale_claim_def split: option.splits)

text \<open>What a claim that lost its lease may still change: its own attempt, and the effect.\<close>

definition own_attempt_abandoned :: "claimed_task \<Rightarrow> attempt_row \<Rightarrow> attempt_row \<Rightarrow> bool" where
  "own_attempt_abandoned claim a b \<longleftrightarrow> b = a \<or>
     ta_id a = ct_attempt_id claim \<and> ta_company_id a = ct_company_id claim \<and>
     ta_status a = A_RUNNING \<and> ta_status b = A_ABANDONED"

definition effect_unknown :: "claimed_task \<Rightarrow> effect_row \<Rightarrow> effect_row \<Rightarrow> bool" where
  "effect_unknown claim e f \<longleftrightarrow> f = e \<or>
     me_effect_key e = ct_effect_key claim \<and> me_company_id e = ct_company_id claim \<and>
     me_status e = E_RUNNING \<and> me_status f = E_UNKNOWN \<and> me_invocation_count f = me_invocation_count e"

definition fenced :: "claimed_task \<Rightarrow> db \<Rightarrow> db \<Rightarrow> bool" where
  "fenced claim d d' \<longleftrightarrow>
     d' = d\<lparr>task_attempts := task_attempts d', model_invocation_effects := model_invocation_effects d'\<rparr> \<and>
     list_all2 (own_attempt_abandoned claim) (task_attempts d) (task_attempts d') \<and>
     list_all2 (effect_unknown claim) (model_invocation_effects d) (model_invocation_effects d')"

lemma list_all2_upd_where:
  "(\<And>r. R r r) \<Longrightarrow> (\<And>r. p r \<Longrightarrow> R r (f r)) \<Longrightarrow> list_all2 R rs (upd_where p f rs)"
  by (induction rs) auto

lemma fenced_abandon:
  "fenced claim d (abandon_attempt E (ct_company_id claim) (ct_attempt_id claim) c d)"
  unfolding fenced_def abandon_attempt_def
  by (auto simp: effects_same own_attempt_abandoned_def list_all2_same effect_unknown_def
      intro!: list_all2_upd_where)

lemma fenced_stale:
  "fenced claim d (unknown_effect E claim (abandon_attempt E (ct_company_id claim) (ct_attempt_id claim) c d))"
  unfolding fenced_def abandon_attempt_def unknown_effect_def
  by (auto simp: own_attempt_abandoned_def effect_unknown_def intro!: list_all2_upd_where)

text \<open>
  C4. Fencing. A worker whose lease was lost (the task was taken over, finished, blocked or
  cancelled, or its run ended) cannot change the task, the run, the artifacts or the events any
  more: completing, failing or blocking returns normally and changes at most the status of the
  worker's own running attempt and of the shared invocation effect.
\<close>

theorem stale_worker_fenced:
  assumes "stale_claim claim (claimed_row claim (sys_db s))"
  shows "\<exists>t u v. completeTask E claim (ct_attempt_id claim) n res s = (Inr (), t) \<and>
      failTask E claim (ct_attempt_id claim) err s = (Inr (), u) \<and>
      blockUnknownModelOutcome E claim s = (Inr (), v) \<and>
      fenced claim (sys_db s) (sys_db t) \<and> fenced claim (sys_db s) (sys_db u) \<and>
      fenced claim (sys_db s) (sys_db v)"
  unfolding completeTask_stale [OF assms] failTask_stale [OF assms] blockUnknown_stale [OF assms]
  by (intro exI conjI; (rule refl)?) (simp_all add: fenced_abandon fenced_stale)

section \<open>Blocking\<close>

lemma failTask_current_InrE:
  assumes "failTask E claim a err s = (Inr u, t)" and "\<not> stale_claim claim (claimed_row claim (sys_db s))"
  obtains cs eid q ms where "sys_db t = sys_db s
      \<lparr>task_attempts := task_attempts (fail_attempt E (ct_company_id claim) a (sys_db s)),
       model_invocation_effects := model_invocation_effects (unknown_effect E claim (sys_db s)),
       tasks := tasks (release_blocked_task E 0 claim (sys_db s)),
       runs := runs (block_run E claim (sys_db s)), run_event_counters := cs,
       events := events (sys_db s) @ [new_event E (reconciliation_event (claim\<lparr>ct_attempt_id := a\<rparr>)) eid q],
       outbox_messages := ms\<rparr>"
proof -
  let ?d = "block_run E claim (release_blocked_task E 0 claim (unknown_effect E claim
     (fail_attempt E (ct_company_id claim) a (sys_db s))))"
  from assms obtain eid where
    "DomainEvent_append E (reconciliation_event (claim\<lparr>ct_attempt_id := a\<rparr>)) (s\<lparr>sys_db := ?d\<rparr>) = (Inr eid, t)"
    unfolding failTask_def
    by (elim transaction_InrE tx_bind_InrE query_InrE)
      (simp, elim tx_then_InrE tx_bind_InrE execute_InrE tx_return_InrE, simp)
  then obtain cs q ms where "sys_db t = ?d\<lparr>run_event_counters := cs,
      events := events ?d @ [new_event E (reconciliation_event (claim\<lparr>ct_attempt_id := a\<rparr>)) eid q],
      outbox_messages := ms\<rparr>"
    by (rule append_shape) simp
  then show thesis
    by (intro that [where cs = cs and eid = eid and q = q and ms = ms])
      (simp_all add: block_run_def release_blocked_task_def unknown_effect_def fail_attempt_def)
qed

lemma blockUnknown_current_InrE:
  assumes "blockUnknownModelOutcome E claim s = (Inr u, t)"
    and "\<not> stale_claim claim (claimed_row claim (sys_db s))"
  obtains cs eid q ms where "sys_db t = sys_db s
      \<lparr>task_attempts := task_attempts (abandon_attempt E (ct_company_id claim) (ct_attempt_id claim)
         ''UNKNOWN_EXTERNAL_OUTCOME'' (sys_db s)),
       tasks := tasks (release_blocked_task E 1 claim (sys_db s)),
       runs := runs (block_run E claim (sys_db s)), run_event_counters := cs,
       events := events (sys_db s) @ [new_event E (reconciliation_event claim) eid q],
       outbox_messages := ms\<rparr>"
proof -
  let ?d = "block_run E claim (release_blocked_task E 1 claim
     (abandon_attempt E (ct_company_id claim) (ct_attempt_id claim) ''UNKNOWN_EXTERNAL_OUTCOME'' (sys_db s)))"
  from assms obtain eid where
    "DomainEvent_append E (reconciliation_event claim) (s\<lparr>sys_db := ?d\<rparr>) = (Inr eid, t)"
    unfolding blockUnknownModelOutcome_def
    by (elim transaction_InrE tx_bind_InrE query_InrE)
      (simp, elim tx_then_InrE tx_bind_InrE execute_InrE tx_return_InrE, simp)
  then obtain cs q ms where "sys_db t = ?d\<lparr>run_event_counters := cs,
      events := events ?d @ [new_event E (reconciliation_event claim) eid q], outbox_messages := ms\<rparr>"
    by (rule append_shape) simp
  then show thesis
    by (intro that [where cs = cs and eid = eid and q = q and ms = ms])
      (simp_all add: block_run_def release_blocked_task_def abandon_attempt_def)
qed

lemma beginModelInvocation_cases:
  obtains (begun) e where "find_effect claim (sys_db s) = Some e" "me_status e = E_RUNNING"
      "me_invocation_count e = 0"
      "beginModelInvocation claim s = (Inr True, s\<lparr>sys_db := count_invocation claim (sys_db s)\<rparr>)"
  | (refused) "beginModelInvocation claim s = (Inr False, s)"
proof (cases "find_effect claim (sys_db s)")
  case None
  then show thesis using refused
    by (simp add: beginModelInvocation_def transaction_def tx_bind_def query_apply tx_return_def)
next
  case (Some e)
  then show thesis
    by (cases "me_status e = E_RUNNING \<and> me_invocation_count e = 0")
      (use begun refused in \<open>auto simp: beginModelInvocation_def transaction_def tx_bind_def tx_then_def
        query_apply execute_apply tx_return_def\<close>)
qed

text \<open>
  A method that throws leaves the tables alone, since each is one transaction; so what holds of
  the tables after a normal return holds after every call.
\<close>

lemma worker_methods_rollback:
  "claimTask E locked runId s = (Inl x, t) \<Longrightarrow> sys_db t = sys_db s"
  "completeTask E claim a n res s = (Inl x, t) \<Longrightarrow> sys_db t = sys_db s"
  "failTask E claim a err s = (Inl x, t) \<Longrightarrow> sys_db t = sys_db s"
  "blockUnknownModelOutcome E claim s = (Inl x, t) \<Longrightarrow> sys_db t = sys_db s"
  unfolding claimTask_def completeTask_def failTask_def blockUnknownModelOutcome_def
  by (blast dest: transaction_Inl)+

section \<open>The event log under the worker\<close>

lemmas worker_updates = lease_task_def expire_attempts_def start_run_def abandon_attempt_def
  unknown_effect_def release_blocked_task_def block_run_def fail_attempt_def point_artifact_def
  succeed_attempt_def succeed_effect_def succeed_task_def await_brief_approval_def count_invocation_def

lemma worker_log:
  "db_keeps event_log_ok (claimTask E locked runId)"
  "db_keeps event_log_ok (beginModelInvocation claim)"
  "db_keeps event_log_ok (completeTask E claim a n res)"
  "db_keeps event_log_ok (failTask E claim a err)"
  "db_keeps event_log_ok (blockUnknownModelOutcome E claim)"
  "db_keeps event_log_ok (abandonAttempt E c a cls)"
  unfolding claimTask_def beginModelInvocation_def completeTask_def failTask_def
    blockUnknownModelOutcome_def stale_completion_def publish_result_def abandonAttempt_def
  by (intro commits_transaction commits_intros log_commits_execute log_keeps_execute;
      simp add: log_part_def worker_updates)+

end
