(* ===== verification/Worker_System.thy ===== *)
theory Worker_System
  imports Task_Lifecycle Reachability
begin

text \<open>
  The orchestration as a system: any number of workers, each running \<open>processOnce\<close> call by call,
  interleaved arbitrarily with each other, with the passage of time and with the transactions of
  the rest of the backend. A worker may crash between any two calls, and its lease may expire at
  any time. The provider may answer anything; the log records the claims for which it was invoked.

  The invariants give the guarantees the leases are for: the provider is invoked at most once
  per effect key, and so at most once per task; at most one worker holds a claim that is not
  stale; a task has at most one running attempt; a run that ended stays as it ended; and the
  event log is well formed in every reachable state.
\<close>

section \<open>States and steps\<close>

datatype pc =
    Idle
  | Claimed claimed_task
  | Loaded claimed_task context_row
  | Checked claimed_task context_row
  | Begun claimed_task context_row
  | Invoked claimed_task model_result
  | Blocking claimed_task
  | Abandoning claimed_task
  | Failing claimed_task exn

fun pc_claim :: "pc \<Rightarrow> claimed_task option" where
  "pc_claim Idle = None"
| "pc_claim (Claimed c) = Some c"
| "pc_claim (Loaded c _) = Some c"
| "pc_claim (Checked c _) = Some c"
| "pc_claim (Begun c _) = Some c"
| "pc_claim (Invoked c _) = Some c"
| "pc_claim (Blocking c) = Some c"
| "pc_claim (Abandoning c) = Some c"
| "pc_claim (Failing c _) = Some c"

record workers =
  w_sys :: sys
  w_pc :: "nat \<Rightarrow> pc"
  w_log :: "claimed_task list"

text \<open>The environment of one call: the process that makes it and the time at which it runs.\<close>

definition at :: "env \<Rightarrow> string \<Rightarrow> timestamp \<Rightarrow> env" where
  "at E w now = E\<lparr>worker_id := w, now_ms := now\<rparr>"

definition task_identity :: "task_row \<Rightarrow> uuid \<times> uuid \<times> uuid \<times> string" where
  "task_identity t = (t_id t, t_company_id t, t_run_id t, t_type t)"

definition running_of :: "uuid \<times> uuid \<Rightarrow> db \<Rightarrow> attempt_row list" where
  "running_of k d = filter (\<lambda>a. (ta_company_id a, ta_task_id a) = k \<and> ta_status a = A_RUNNING) (task_attempts d)"

definition one_running :: "db \<Rightarrow> bool" where
  "one_running d \<longleftrightarrow> (\<forall>k. length (running_of k d) \<le> 1)"

text \<open>
  What the rest of the backend may do in one transaction: anything that leaves the invocation
  effects and the attempts alone, removes or renames no task, keeps the keys of tasks and runs
  unique and commits with the event log invariant.
\<close>

definition outside_worker :: "db \<Rightarrow> db \<Rightarrow> bool" where
  "outside_worker d d' \<longleftrightarrow>
     model_invocation_effects d' = model_invocation_effects d \<and> task_attempts d' = task_attempts d \<and>
     set (map task_identity (tasks d)) \<subseteq> set (map task_identity (tasks d')) \<and>
     distinct (map t_id (tasks d')) \<and> distinct (map r_id (runs d')) \<and>
     (event_log_ok d \<longrightarrow> event_log_ok d')"

definition goto :: "nat \<Rightarrow> pc \<Rightarrow> sys \<Rightarrow> workers \<Rightarrow> workers" where
  "goto i p S w = w\<lparr>w_sys := S, w_pc := (w_pc w)(i := p)\<rparr>"

text \<open>\<open>return p m\<close>: the program counter after a call inside the try block.\<close>

definition on_result :: "claimed_task \<Rightarrow> ('a \<Rightarrow> pc) \<Rightarrow> exn + 'a \<Rightarrow> pc" where
  "on_result c f r = (case r of Inl e \<Rightarrow> Failing c e | Inr x \<Rightarrow> f x)"

text \<open>The steps worker \<open>i\<close> takes; \<open>crash\<close> is the loss of the process.\<close>

inductive worker_step :: "env \<Rightarrow> workers \<Rightarrow> workers \<Rightarrow> bool" for E where
  claim: "w_pc w i = Idle \<Longrightarrow> claimTask (at E p now) locked runId (w_sys w) = (r, S) \<Longrightarrow>
    worker_step E w (goto i (case r of Inr (Some c) \<Rightarrow> Claimed c | _ \<Rightarrow> Idle) S w)"
| load: "w_pc w i = Claimed c \<Longrightarrow> loadContext (ct_company_id c) (ct_run_id c) (w_sys w) = (r, S) \<Longrightarrow>
    worker_step E w (goto i (on_result c (Loaded c) r) S w)"
| check: "w_pc w i = Loaded c ctx \<Longrightarrow> isLeaseCurrent (at E p now) c (w_sys w) = (r, S) \<Longrightarrow>
    worker_step E w (goto i (on_result c (\<lambda>b. if b then Checked c ctx else Abandoning c) r) S w)"
| begin_invocation: "w_pc w i = Checked c ctx \<Longrightarrow> beginModelInvocation c (w_sys w) = (r, S) \<Longrightarrow>
    worker_step E w (goto i (on_result c (\<lambda>b. if b then Begun c ctx else Blocking c) r) S w)"
| invoke: "w_pc w i = Begun c ctx \<Longrightarrow>
    worker_step E w ((goto i (on_result c (Invoked c) response) (w_sys w) w)\<lparr>w_log := w_log w @ [c]\<rparr>)"
| complete: "w_pc w i = Invoked c res \<Longrightarrow>
    completeTask (at E p now) c (ct_attempt_id c) (ct_attempt_number c) res (w_sys w) = (r, S) \<Longrightarrow>
    worker_step E w (goto i (on_result c (\<lambda>_. Idle) r) S w)"
| abandon: "w_pc w i = Abandoning c \<Longrightarrow>
    abandonAttempt (at E p now) (ct_company_id c) (ct_attempt_id c) ''STALE_BEFORE_INVOCATION'' (w_sys w) = (r, S) \<Longrightarrow>
    worker_step E w (goto i (on_result c (\<lambda>_. Idle) r) S w)"
| block: "w_pc w i = Blocking c \<Longrightarrow> blockUnknownModelOutcome (at E p now) c (w_sys w) = (r, S) \<Longrightarrow>
    worker_step E w (goto i (on_result c (\<lambda>_. Idle) r) S w)"
| fail: "w_pc w i = Failing c e \<Longrightarrow> failTask (at E p now) c (ct_attempt_id c) e (w_sys w) = (r, S) \<Longrightarrow>
    worker_step E w (goto i Idle S w)"
| crash: "worker_step E w (goto i Idle (w_sys w) w)"

inductive system_step :: "env \<Rightarrow> workers \<Rightarrow> workers \<Rightarrow> bool" for E where
  worker: "worker_step E w w' \<Longrightarrow> system_step E w w'"
| outside: "outside_worker (sys_db (w_sys w)) (sys_db S) \<Longrightarrow> sys_next (w_sys w) \<le> sys_next S \<Longrightarrow>
    system_step E w (w\<lparr>w_sys := S\<rparr>)"

text \<open>The start: no worker has a claim, and the tables hold what the invariants say.\<close>

definition workers_start :: "workers \<Rightarrow> bool" where
  "workers_start w \<longleftrightarrow> (\<forall>i. w_pc w i = Idle) \<and> w_log w = [] \<and>
     distinct (map me_effect_key (model_invocation_effects (sys_db (w_sys w)))) \<and>
     one_running (sys_db (w_sys w)) \<and> distinct (map t_id (tasks (sys_db (w_sys w)))) \<and>
     distinct (map r_id (runs (sys_db (w_sys w)))) \<and> event_log_ok (sys_db (w_sys w))"

section \<open>What each call keeps\<close>

lemma keeps_ids [keeps_intros]:
  "keeps (\<lambda>s. n \<le> sys_next s) (query f)" "keeps (\<lambda>s. n \<le> sys_next s) (execute g)"
  "keeps (\<lambda>s. n \<le> sys_next s) (newId E)" "keeps (\<lambda>s. n \<le> sys_next s) (insert_row cs upd)"
  by (auto intro!: keepsI simp: query_apply execute_apply newId_apply insert_row_def split: option.splits)

lemma keeps_ids_transaction [keeps_intros]:
  "keeps (\<lambda>s. n \<le> sys_next s) m \<Longrightarrow> keeps (\<lambda>s. n \<le> sys_next s) (transaction m)"
  by (fastforce simp: keeps_def transaction_def split: prod.splits sum.splits)

lemmas call_parts = claimTask_def loadContext_def isLeaseCurrent_def beginModelInvocation_def
  completeTask_def failTask_def blockUnknownModelOutcome_def abandonAttempt_def
  stale_completion_def publish_result_def
  insert_policy_decision_def insert_attempt_def insert_effect_do_nothing_def insert_artifact_def
  insert_artifact_version_def

lemma call_ids:
  "keeps (\<lambda>s. n \<le> sys_next s) (claimTask E locked runId)"
  "keeps (\<lambda>s. n \<le> sys_next s) (loadContext co ru)"
  "keeps (\<lambda>s. n \<le> sys_next s) (isLeaseCurrent E c)"
  "keeps (\<lambda>s. n \<le> sys_next s) (beginModelInvocation c)"
  "keeps (\<lambda>s. n \<le> sys_next s) (completeTask E c a k res)"
  "keeps (\<lambda>s. n \<le> sys_next s) (failTask E c a err)"
  "keeps (\<lambda>s. n \<le> sys_next s) (blockUnknownModelOutcome E c)"
  "keeps (\<lambda>s. n \<le> sys_next s) (abandonAttempt E co a cls)"
  unfolding call_parts append_parts by (intro keeps_intros)+

text \<open>The identity of the tasks and the keys of the runs.\<close>

definition keys_part :: "db \<Rightarrow> (uuid \<times> uuid \<times> uuid \<times> string) list \<times> uuid list" where
  "keys_part d = (map task_identity (tasks d), map r_id (runs d))"

lemma map_identity_upd_where:
  "(\<And>t. task_identity (f t) = task_identity t) \<Longrightarrow> map task_identity (upd_where p f ts) = map task_identity ts"
  "(\<And>r. r_id (g r) = r_id r) \<Longrightarrow> map r_id (upd_where q g rs) = map r_id rs"
  by (rule map_upd_where_same, assumption)+

lemma call_keys:
  "db_keeps (\<lambda>d. keys_part d = k) (claimTask E locked runId)"
  "db_keeps (\<lambda>d. keys_part d = k) (loadContext co ru)"
  "db_keeps (\<lambda>d. keys_part d = k) (isLeaseCurrent E c)"
  "db_keeps (\<lambda>d. keys_part d = k) (beginModelInvocation c)"
  "db_keeps (\<lambda>d. keys_part d = k) (completeTask E c a n res)"
  "db_keeps (\<lambda>d. keys_part d = k) (failTask E c a err)"
  "db_keeps (\<lambda>d. keys_part d = k) (blockUnknownModelOutcome E c)"
  "db_keeps (\<lambda>d. keys_part d = k) (abandonAttempt E co a cls)"
  unfolding call_parts
  by (intro keeps_intros db_keeps_execute db_keeps_insert append_keeps_frame;
      simp add: keys_part_def worker_updates map_identity_upd_where task_identity_def)+

text \<open>The invocation effects: their keys stay distinct and a counted invocation stays counted.\<close>

definition effects_distinct :: "db \<Rightarrow> bool" where
  "effects_distinct d \<longleftrightarrow> distinct (map me_effect_key (model_invocation_effects d))"

definition invoked_key :: "string \<Rightarrow> db \<Rightarrow> bool" where
  "invoked_key k d \<longleftrightarrow> (\<exists>e \<in> set (model_invocation_effects d). me_effect_key e = k \<and> 0 < me_invocation_count e)"

lemma distinct_effects_upd_where:
  "(\<And>e. me_effect_key (f e) = me_effect_key e) \<Longrightarrow>
    distinct (map me_effect_key (upd_where p f es)) = distinct (map me_effect_key es)"
  by (simp add: map_upd_where_same)

lemma invoked_upd_where:
  assumes "\<exists>e \<in> set es. me_effect_key e = k \<and> 0 < me_invocation_count e"
    and "\<And>e. me_effect_key (f e) = me_effect_key e"
    and "\<And>e. 0 < me_invocation_count e \<Longrightarrow> 0 < me_invocation_count (f e)"
  shows "\<exists>e \<in> set (upd_where p f es). me_effect_key e = k \<and> 0 < me_invocation_count e"
proof -
  from assms(1) obtain e where "e \<in> set es" "me_effect_key e = k" "0 < me_invocation_count e" by blast
  then show ?thesis
    by (cases "p e") (use assms(2,3) in_upd_where_hit in_upd_where_keep in \<open>metis\<close>)+
qed

lemma insert_effect_cases:
  "insert_effect_do_nothing r s = (Inr (), s) \<or> (\<exists>n. insert_effect_do_nothing r s = (Inl (PgError n), s)) \<or>
   me_effect_key r \<notin> me_effect_key ` set (model_invocation_effects (sys_db s)) \<and>
   insert_effect_do_nothing r s =
     (Inr (), s\<lparr>sys_db := sys_db s\<lparr>model_invocation_effects := model_invocation_effects (sys_db s) @ [r]\<rparr>\<rparr>)"
proof -
  obtain v t where m: "insert_effect_do_nothing r s = (v, t)" by (cases "insert_effect_do_nothing r s")
  show ?thesis
  proof (cases v)
    case (Inl e)
    with m show ?thesis
      by (auto simp: insert_effect_do_nothing_def tx_bind_def query_apply tx_when_def tx_return_def insert_row_def
          split: if_splits option.splits)
  next
    case (Inr u)
    with m have "insert_effect_do_nothing r s = (Inr u, t)" by simp
    then show ?thesis by (cases rule: insert_effect_InrE) (use m Inr in auto)
  qed
qed

lemma insert_effect_keeps:
  "db_keeps effects_distinct (insert_effect_do_nothing r)"
  "db_keeps (invoked_key k) (insert_effect_do_nothing r)"
proof -
  show "db_keeps effects_distinct (insert_effect_do_nothing r)"
  proof (rule db_keepsI)
    fix s :: sys
    assume "effects_distinct (sys_db s)"
    then show "effects_distinct (sys_db (snd (insert_effect_do_nothing r s)))"
      using insert_effect_cases [of r s] by (auto simp: effects_distinct_def)
  qed
  show "db_keeps (invoked_key k) (insert_effect_do_nothing r)"
  proof (rule db_keepsI)
    fix s :: sys
    assume "invoked_key k (sys_db s)"
    then show "invoked_key k (sys_db (snd (insert_effect_do_nothing r s)))"
      using insert_effect_cases [of r s] by (auto simp: invoked_key_def)
  qed
qed

lemmas claim_parts = claimTask_def loadContext_def isLeaseCurrent_def beginModelInvocation_def
  completeTask_def failTask_def blockUnknownModelOutcome_def abandonAttempt_def
  stale_completion_def publish_result_def
  insert_policy_decision_def insert_attempt_def insert_artifact_def insert_artifact_version_def

lemma call_effects_distinct:
  "db_keeps effects_distinct (claimTask E locked runId)"
  "db_keeps effects_distinct (loadContext co ru)"
  "db_keeps effects_distinct (isLeaseCurrent E c)"
  "db_keeps effects_distinct (beginModelInvocation c)"
  "db_keeps effects_distinct (completeTask E c a n res)"
  "db_keeps effects_distinct (failTask E c a err)"
  "db_keeps effects_distinct (blockUnknownModelOutcome E c)"
  "db_keeps effects_distinct (abandonAttempt E co a cls)"
  unfolding claim_parts
  by (intro keeps_intros insert_effect_keeps db_keeps_execute db_keeps_insert append_keeps_frame;
      simp add: effects_distinct_def worker_updates distinct_effects_upd_where)+

lemma call_invoked:
  "db_keeps (invoked_key k) (claimTask E locked runId)"
  "db_keeps (invoked_key k) (loadContext co ru)"
  "db_keeps (invoked_key k) (isLeaseCurrent E c)"
  "db_keeps (invoked_key k) (beginModelInvocation c)"
  "db_keeps (invoked_key k) (completeTask E c a n res)"
  "db_keeps (invoked_key k) (failTask E c a err)"
  "db_keeps (invoked_key k) (blockUnknownModelOutcome E c)"
  "db_keeps (invoked_key k) (abandonAttempt E co a cls)"
  unfolding claim_parts
  by (intro keeps_intros insert_effect_keeps db_keeps_execute db_keeps_insert append_keeps_frame;
      simp add: invoked_key_def worker_updates invoked_upd_where)+

text \<open>The running attempts of a task.\<close>

lemma filter_upd_where_shrinks:
  "(\<And>a. p a \<Longrightarrow> \<not> q (f a)) \<Longrightarrow> length (filter q (upd_where p f xs)) \<le> length (filter q xs)"
  by (induction xs) auto

lemma one_running_upd_where:
  assumes "one_running d" and "task_attempts d' = upd_where p f (task_attempts d)"
    and "\<And>a. ta_status (f a) \<noteq> A_RUNNING"
  shows "one_running d'"
  unfolding one_running_def running_of_def assms(2)
proof
  fix k
  have "length (filter (\<lambda>a. (ta_company_id a, ta_task_id a) = k \<and> ta_status a = A_RUNNING)
        (upd_where p f (task_attempts d)))
      \<le> length (filter (\<lambda>a. (ta_company_id a, ta_task_id a) = k \<and> ta_status a = A_RUNNING) (task_attempts d))"
    by (rule filter_upd_where_shrinks) (simp add: assms(3))
  also have "\<dots> \<le> 1" using assms(1) unfolding one_running_def running_of_def by blast
  finally show "length (filter (\<lambda>a. (ta_company_id a, ta_task_id a) = k \<and> ta_status a = A_RUNNING)
        (upd_where p f (task_attempts d))) \<le> 1" .
qed

lemma one_running_updates:
  "one_running d \<Longrightarrow> one_running (abandon_attempt E co a cls d)"
  "one_running d \<Longrightarrow> one_running (fail_attempt E co a d)"
  "one_running d \<Longrightarrow> one_running (succeed_attempt E co a v u d)"
  by (erule one_running_upd_where, simp add: worker_updates, simp)+

lemma one_running_cong: "one_running d \<Longrightarrow> task_attempts d' = task_attempts d \<Longrightarrow> one_running d'"
  by (simp add: one_running_def running_of_def)

lemma claimTask_one_running: "db_keeps one_running (claimTask E locked runId)"
proof (rule db_keepsI)
  fix s :: sys
  assume one: "one_running (sys_db s)"
  obtain res t where m: "claimTask E locked runId s = (res, t)" by (cases "claimTask E locked runId s")
  show "one_running (sys_db (snd (claimTask E locked runId s)))"
  proof (cases res)
    case (Inl e)
    with m one show ?thesis by (simp add: worker_methods_rollback(1))
  next
    case (Inr cl)
    from m [unfolded Inr] show ?thesis
    proof (cases rule: claimTask_InrE)
      case none
      with m Inr one show ?thesis by simp
    next
      case (claimed x r attemptId leaseToken pdid es cs evs ms)
      let ?ra = "running_attempt E x r leaseToken attemptId pdid"
      let ?as = "task_attempts (expire_attempts E (t_company_id x) (t_id x) (sys_db s))"
      have at: "task_attempts (sys_db t) = ?as @ [?ra]" using claimed by simp
      have one': "one_running (expire_attempts E (t_company_id x) (t_id x) (sys_db s))"
        by (rule one_running_upd_where [OF one], simp add: expire_attempts_def, simp)
      have none: "running_of (t_company_id x, t_id x) (expire_attempts E (t_company_id x) (t_id x) (sys_db s)) = []"
        by (auto simp: running_of_def expire_attempts_def filter_empty_conv set_upd_where)
      have new: "(ta_company_id ?ra, ta_task_id ?ra) = (t_company_id x, t_id x)" by (simp add: running_attempt_def)
      have split: "running_of k (sys_db t) = running_of k (expire_attempts E (t_company_id x) (t_id x) (sys_db s))
          @ filter (\<lambda>a. (ta_company_id a, ta_task_id a) = k \<and> ta_status a = A_RUNNING) [?ra]" for k
        unfolding running_of_def at filter_append ..
      have "length (running_of k (sys_db t)) \<le> 1" for k
      proof (cases "k = (t_company_id x, t_id x)")
        case True
        with none show ?thesis unfolding split by simp
      next
        case False
        with new have "running_of k (sys_db t) = running_of k (expire_attempts E (t_company_id x) (t_id x) (sys_db s))"
          unfolding split by simp
        with one' show ?thesis by (simp only: one_running_def)
      qed
      then show ?thesis using m unfolding one_running_def by simp
    qed
  qed
qed

lemma call_one_running:
  "db_keeps one_running (loadContext co ru)"
  "db_keeps one_running (isLeaseCurrent E c)"
  "db_keeps one_running (beginModelInvocation c)"
  "db_keeps one_running (completeTask E c a n res)"
  "db_keeps one_running (failTask E c a err)"
  "db_keeps one_running (blockUnknownModelOutcome E c)"
  "db_keeps one_running (abandonAttempt E co a cls)"
  unfolding call_parts
  by (intro keeps_intros db_keeps_execute db_keeps_insert append_keeps_frame;
      (erule one_running_updates | erule one_running_cong, simp add: worker_updates))+

text \<open>Runs that ended.\<close>

lemma call_frozen:
  assumes "terminal_run (r_state r)"
  shows "db_keeps (\<lambda>d. r \<in> set (runs d)) (claimTask E locked runId)"
    and "db_keeps (\<lambda>d. r \<in> set (runs d)) (loadContext co ru)"
    and "db_keeps (\<lambda>d. r \<in> set (runs d)) (isLeaseCurrent E c)"
    and "db_keeps (\<lambda>d. r \<in> set (runs d)) (beginModelInvocation c)"
    and "db_keeps (\<lambda>d. r \<in> set (runs d)) (failTask E c a err)"
    and "db_keeps (\<lambda>d. r \<in> set (runs d)) (blockUnknownModelOutcome E c)"
    and "db_keeps (\<lambda>d. r \<in> set (runs d)) (abandonAttempt E co a cls)"
proof -
  have keep: "r_state r \<noteq> R_DRAFT" "\<not> run_open r"
    using assms by (auto simp: terminal_run_def run_open_def)
  show "db_keeps (\<lambda>d. r \<in> set (runs d)) (claimTask E locked runId)"
    "db_keeps (\<lambda>d. r \<in> set (runs d)) (loadContext co ru)"
    "db_keeps (\<lambda>d. r \<in> set (runs d)) (isLeaseCurrent E c)"
    "db_keeps (\<lambda>d. r \<in> set (runs d)) (beginModelInvocation c)"
    "db_keeps (\<lambda>d. r \<in> set (runs d)) (failTask E c a err)"
    "db_keeps (\<lambda>d. r \<in> set (runs d)) (blockUnknownModelOutcome E c)"
    "db_keeps (\<lambda>d. r \<in> set (runs d)) (abandonAttempt E co a cls)"
    unfolding call_parts
    by (intro keeps_intros db_keeps_execute db_keeps_insert append_keeps_frame;
        simp add: worker_updates in_upd_where_keep keep)+
qed

text \<open>Completing a task changes the run of a claim that is not stale, and that run has not ended.\<close>

lemma completeTask_frozen:
  assumes m: "completeTask E c a n res s = (v, t)" and r: "r \<in> set (runs (sys_db s))"
    and end_r: "terminal_run (r_state r)" and dist: "distinct (map r_id (runs (sys_db s)))"
    and dt: "distinct (map t_id (tasks (sys_db s)))"
    and claim: "(ct_id c, ct_company_id c, ct_run_id c, ct_type c) \<in> task_identity ` set (tasks (sys_db s))"
  shows "r \<in> set (runs (sys_db t))"
proof (cases "stale_claim c (claimed_row c (sys_db s))")
  case True
  with m r show ?thesis by (auto simp: completeTask_stale worker_updates)
next
  case False
  then obtain x q where row: "claimed_row c (sys_db s) = Some (x, q)" and live: "\<not> terminal_run (r_state q)"
    by (rule current_claimE)
  from claim obtain y where y: "y \<in> set (tasks (sys_db s))" "t_id y = ct_id c" "t_run_id y = ct_run_id c"
    by (auto simp: task_identity_def)
  from claimed_row_Some [OF row] y dt have "x = y" by (metis distinct_map_eq)
  with claimed_row_Some [OF row] y have q: "q \<in> set (runs (sys_db s))" "r_id q = ct_run_id c" by auto
  have ne: "r_id r \<noteq> ct_run_id c"
  proof
    assume "r_id r = ct_run_id c"
    with q r dist have "r = q" by (metis distinct_map_eq)
    with live end_r show False by simp
  qed
  show ?thesis
  proof (cases v)
    case (Inl e)
    with m r show ?thesis by (simp add: worker_methods_rollback(2))
  next
    case (Inr u)
    with m False have "publish_result E c a n res s = (Inr u, t)"
      by (simp add: completeTask_current transaction_Inr)
    then show ?thesis
      by (rule publish_result_InrE) (use r ne in \<open>simp add: await_brief_approval_def in_upd_where_keep\<close>)
  qed
qed

section \<open>The invariant of the system\<close>

definition tables_inv :: "db \<Rightarrow> bool" where
  "tables_inv d \<longleftrightarrow> effects_distinct d \<and> one_running d \<and> event_log_ok d \<and>
     distinct (map t_id (tasks d)) \<and> distinct (map r_id (runs d))"

text \<open>How one call may change the tables.\<close>

definition tables_step :: "db \<Rightarrow> db \<Rightarrow> bool" where
  "tables_step d d' \<longleftrightarrow> (tables_inv d \<longrightarrow> tables_inv d') \<and>
     set (map task_identity (tasks d)) \<subseteq> set (map task_identity (tasks d')) \<and>
     (\<forall>k. invoked_key k d \<longrightarrow> invoked_key k d')"

lemma keys_part_distinct:
  assumes "keys_part d = keys_part d'"
  shows "map t_id (tasks d) = map t_id (tasks d')" and "map r_id (runs d) = map r_id (runs d')"
    and "map task_identity (tasks d) = map task_identity (tasks d')"
proof -
  from assms have id: "map task_identity (tasks d) = map task_identity (tasks d')" by (simp add: keys_part_def)
  then have "map fst (map task_identity (tasks d)) = map fst (map task_identity (tasks d'))" by simp
  then show "map t_id (tasks d) = map t_id (tasks d')" by (simp add: comp_def task_identity_def)
  show "map r_id (runs d) = map r_id (runs d')" using assms by (simp add: keys_part_def)
  show "map task_identity (tasks d) = map task_identity (tasks d')" by (rule id)
qed

lemma tables_stepI:
  assumes "m s = (v, t)" and "db_keeps (\<lambda>d. keys_part d = keys_part (sys_db s)) m"
    and "db_keeps effects_distinct m" and "db_keeps one_running m" and "db_keeps event_log_ok m"
    and "\<And>k. db_keeps (invoked_key k) m"
  shows "tables_step (sys_db s) (sys_db t)"
proof -
  have k: "keys_part (sys_db t) = keys_part (sys_db s)" by (rule db_keepsD [OF assms(2) _ assms(1)]) simp
  show ?thesis
    unfolding tables_step_def tables_inv_def
    using keys_part_distinct [OF k] db_keepsD [OF assms(3) _ assms(1)] db_keepsD [OF assms(4) _ assms(1)]
      db_keepsD [OF assms(5) _ assms(1)] db_keepsD [OF assms(6) _ assms(1)] by simp
qed

lemma reads_log:
  "db_keeps event_log_ok (loadContext co ru)" "db_keeps event_log_ok (isLeaseCurrent E c)"
  unfolding loadContext_def isLeaseCurrent_def by (intro keeps_intros)+

lemma call_tables_step:
  "claimTask E locked runId s = (r1, t) \<Longrightarrow> tables_step (sys_db s) (sys_db t)"
  "loadContext co ru s = (r2, t) \<Longrightarrow> tables_step (sys_db s) (sys_db t)"
  "isLeaseCurrent E c s = (r3, t) \<Longrightarrow> tables_step (sys_db s) (sys_db t)"
  "beginModelInvocation c s = (r4, t) \<Longrightarrow> tables_step (sys_db s) (sys_db t)"
  "completeTask E c a n res s = (r5, t) \<Longrightarrow> tables_step (sys_db s) (sys_db t)"
  "failTask E c a err s = (r6, t) \<Longrightarrow> tables_step (sys_db s) (sys_db t)"
  "blockUnknownModelOutcome E c s = (r7, t) \<Longrightarrow> tables_step (sys_db s) (sys_db t)"
  "abandonAttempt E co a cls s = (r8, t) \<Longrightarrow> tables_step (sys_db s) (sys_db t)"
  by (erule tables_stepI; rule call_keys call_effects_distinct claimTask_one_running call_one_running
        worker_log reads_log call_invoked)+

lemma ids_growI:
  fixes s t :: sys
  shows "m s = (v, t) \<Longrightarrow> (\<And>n. keeps (\<lambda>s. n \<le> sys_next s) m) \<Longrightarrow> sys_next s \<le> sys_next t"
  by (metis keepsD order_refl)

lemma call_next:
  "claimTask E locked runId s = (r1, t) \<Longrightarrow> sys_next s \<le> sys_next t"
  "loadContext co ru s = (r2, t) \<Longrightarrow> sys_next s \<le> sys_next t"
  "isLeaseCurrent E c s = (r3, t) \<Longrightarrow> sys_next s \<le> sys_next t"
  "beginModelInvocation c s = (r4, t) \<Longrightarrow> sys_next s \<le> sys_next t"
  "completeTask E c a n res s = (r5, t) \<Longrightarrow> sys_next s \<le> sys_next t"
  "failTask E c a err s = (r6, t) \<Longrightarrow> sys_next s \<le> sys_next t"
  "blockUnknownModelOutcome E c s = (r7, t) \<Longrightarrow> sys_next s \<le> sys_next t"
  "abandonAttempt E co a cls s = (r8, t) \<Longrightarrow> sys_next s \<le> sys_next t"
  by (erule ids_growI; rule call_ids)+

text \<open>
  What holds of the program counters: the lease tokens of the claims were handed out and are held
  by one worker each, every claim is of a task that exists, under the effect key of its task, and
  the invocations that were begun or made are counted, each under a key of its own.
\<close>

definition claims_inv :: "env \<Rightarrow> db \<Rightarrow> nat \<Rightarrow> (nat \<Rightarrow> claimed_task option) \<Rightarrow> bool" where
  "claims_inv E d n f \<longleftrightarrow>
     (\<forall>i c. f i = Some c \<longrightarrow> (\<exists>k < n. ct_lease_token c = uuid_at E k) \<and>
        (ct_id c, ct_company_id c, ct_run_id c, ct_type c) \<in> set (map task_identity (tasks d)) \<and>
        ct_effect_key c = effect_key_of E (ct_id c) (ct_type c)) \<and>
     (\<forall>i j c c'. f i = Some c \<longrightarrow> f j = Some c' \<longrightarrow> ct_lease_token c = ct_lease_token c' \<longrightarrow> i = j)"

fun begun_key :: "pc \<Rightarrow> string option" where
  "begun_key (Begun c _) = Some (ct_effect_key c)"
| "begun_key _ = None"

definition invocations_inv :: "env \<Rightarrow> db \<Rightarrow> (nat \<Rightarrow> string option) \<Rightarrow> claimed_task list \<Rightarrow> bool" where
  "invocations_inv E d g log \<longleftrightarrow>
     distinct (map ct_effect_key log) \<and>
     (\<forall>c \<in> set log. invoked_key (ct_effect_key c) d \<and> ct_effect_key c = effect_key_of E (ct_id c) (ct_type c)) \<and>
     (\<forall>i k. g i = Some k \<longrightarrow> invoked_key k d \<and> k \<notin> ct_effect_key ` set log) \<and>
     (\<forall>i j k. g i = Some k \<longrightarrow> g j = Some k \<longrightarrow> i = j)"

lemma invocations_distinct:
  assumes "invocations_inv E d g log"
  shows "distinct (map ct_effect_key log) \<and> distinct (map (\<lambda>c. (ct_id c, ct_type c)) log)"
proof -
  let ?k = "\<lambda>(i, ty). effect_key_of E i ty" and ?p = "\<lambda>c. (ct_id c, ct_type c)"
  from assms have d: "distinct (map ct_effect_key log)"
    and k: "\<forall>c \<in> set log. ct_effect_key c = effect_key_of E (ct_id c) (ct_type c)"
    by (simp_all add: invocations_inv_def)
  from k have "map ct_effect_key log = map ?k (map ?p log)" by simp
  with d have "distinct (map ?k (map ?p log))" by simp
  then have "distinct (map ?p log)" by (rule distinct_map [THEN iffD1, THEN conjunct1])
  with d show ?thesis by simp
qed

definition workers_inv :: "env \<Rightarrow> workers \<Rightarrow> bool" where
  "workers_inv E w \<longleftrightarrow> tables_inv (sys_db (w_sys w)) \<and>
     claims_inv E (sys_db (w_sys w)) (sys_next (w_sys w)) (\<lambda>i. pc_claim (w_pc w i)) \<and>
     invocations_inv E (sys_db (w_sys w)) (\<lambda>i. begun_key (w_pc w i)) (w_log w)"

lemma claims_inv_keep:
  assumes "claims_inv E d n f" and "tables_step d d'" and "n \<le> n'"
    and "\<And>j c. f' j = Some c \<Longrightarrow> f j = Some c"
  shows "claims_inv E d' n' f'"
proof -
  have "set (map task_identity (tasks d)) \<subseteq> set (map task_identity (tasks d'))"
    using assms(2) by (simp add: tables_step_def)
  with assms(1,3,4) show ?thesis
    unfolding claims_inv_def by (meson less_le_trans subsetD)
qed

lemma invocations_inv_keep:
  assumes "invocations_inv E d g log" and "tables_step d d'"
    and "\<And>j k. g' j = Some k \<Longrightarrow> g j = Some k"
  shows "invocations_inv E d' g' log"
proof -
  have "\<forall>k. invoked_key k d \<longrightarrow> invoked_key k d'" using assms(2) by (simp add: tables_step_def)
  with assms(1,3) show ?thesis unfolding invocations_inv_def by blast
qed

text \<open>A call that takes no new claim and begins no invocation.\<close>

lemma workers_inv_goto:
  assumes inv: "workers_inv E w" and step: "tables_step (sys_db (w_sys w)) (sys_db S)"
    and ids: "sys_next (w_sys w) \<le> sys_next S"
    and p: "pc_claim p = None \<or> pc_claim p = pc_claim (w_pc w i)" and b: "begun_key p = None"
  shows "workers_inv E (goto i p S w)"
proof -
  have "tables_inv (sys_db S)" using inv step by (simp add: workers_inv_def tables_step_def)
  moreover have "claims_inv E (sys_db S) (sys_next S) (\<lambda>j. pc_claim (((w_pc w)(i := p)) j))"
    by (rule claims_inv_keep [where f = "\<lambda>j. pc_claim (w_pc w j)", OF _ step ids]) (use inv p in \<open>auto simp: workers_inv_def split: if_splits\<close>)
  moreover have "invocations_inv E (sys_db S) (\<lambda>j. begun_key (((w_pc w)(i := p)) j)) (w_log w)"
    by (rule invocations_inv_keep [where g = "\<lambda>j. begun_key (w_pc w j)", OF _ step]) (use inv b in \<open>auto simp: workers_inv_def split: if_splits\<close>)
  ultimately show ?thesis by (simp add: workers_inv_def goto_def)
qed

lemma tables_step_refl: "tables_step d d"
  by (simp add: tables_step_def)

lemma effect_key_at [simp]: "effect_key_of (at E p now) k ty = effect_key_of E k ty"
  by (simp add: effect_key_of_def canonicalDigest_def at_def)

lemma workers_inv_claim:
  assumes inv: "workers_inv E w" and uniq: "inj (uuid_at E)"
    and m: "claimTask (at E p now) locked runId (w_sys w) = (Inr (Some c), S)"
  shows "workers_inv E (goto i (Claimed c) S w)"
proof -
  let ?s = "w_sys w" let ?f = "\<lambda>j. pc_claim (w_pc w j)" let ?g = "\<lambda>j. pc_claim (((w_pc w)(i := Claimed c)) j)"
  have step: "tables_step (sys_db ?s) (sys_db S)" by (rule call_tables_step(1) [OF m])
  from inv have cl: "claims_inv E (sys_db ?s) (sys_next ?s) ?f" by (simp add: workers_inv_def)
  from m obtain x r a where x: "(x, r) \<in> set (tasks_with_runs (sys_db ?s))"
    and c: "c = claim_of (at E p now) x r (uuid_at E (sys_next ?s)) a" and n: "sys_next ?s < sys_next S"
    by (cases rule: claimTask_InrE)
      (auto simp: at_def claim_candidate_def dest!: order_limit_1_Some)
  have new: "ct_lease_token c = uuid_at E (sys_next ?s)" "ct_effect_key c = effect_key_of E (ct_id c) (ct_type c)"
    and id: "(ct_id c, ct_company_id c, ct_run_id c, ct_type c) = task_identity x"
    using c by (simp_all add: claim_of_def task_identity_def)
  have "x \<in> set (tasks (sys_db ?s))" using x by (simp add: in_tasks_with_runs)
  with step id have mem: "(ct_id c, ct_company_id c, ct_run_id c, ct_type c) \<in> set (map task_identity (tasks (sys_db S)))"
    unfolding tables_step_def by auto
  have fresh: "ct_lease_token c' \<noteq> ct_lease_token c" if "?f j = Some c'" for j c'
  proof
    assume "ct_lease_token c' = ct_lease_token c"
    with that cl new obtain k where "k < sys_next ?s" "uuid_at E k = uuid_at E (sys_next ?s)"
      unfolding claims_inv_def by metis
    with uniq show False by (auto dest: injD)
  qed
  have old: "claims_inv E (sys_db S) (sys_next S) ?f"
    by (rule claims_inv_keep [OF cl step]) (use n in auto)
  have "claims_inv E (sys_db S) (sys_next S) ?g"
    unfolding claims_inv_def
  proof (intro conjI allI impI)
    fix j d
    assume "?g j = Some d"
    then show "\<exists>k < sys_next S. ct_lease_token d = uuid_at E k"
      "(ct_id d, ct_company_id d, ct_run_id d, ct_type d) \<in> set (map task_identity (tasks (sys_db S)))"
      "ct_effect_key d = effect_key_of E (ct_id d) (ct_type d)"
      using old new n mem unfolding claims_inv_def by (auto split: if_splits)
  next
    fix j k d e
    assume "?g j = Some d" and "?g k = Some e" and "ct_lease_token d = ct_lease_token e"
    then show "j = k"
      using old fresh unfolding claims_inv_def by (auto split: if_splits)
  qed
  moreover have "invocations_inv E (sys_db S) (\<lambda>j. begun_key (((w_pc w)(i := Claimed c)) j)) (w_log w)"
    by (rule invocations_inv_keep [where g = "\<lambda>j. begun_key (w_pc w j)", OF _ step])
      (use inv in \<open>auto simp: workers_inv_def split: if_splits\<close>)
  ultimately show ?thesis
    using inv step by (simp add: workers_inv_def goto_def tables_step_def)
qed

text \<open>An invocation is begun only when its key is not counted, and then it is counted.\<close>

lemma begin_counts:
  assumes "effects_distinct (sys_db s)" and "beginModelInvocation c s = (Inr True, t)"
  shows "\<not> invoked_key (ct_effect_key c) (sys_db s)" and "invoked_key (ct_effect_key c) (sys_db t)"
proof -
  obtain e where e: "find_effect c (sys_db s) = Some e" "me_invocation_count e = 0"
    "t = s\<lparr>sys_db := count_invocation c (sys_db s)\<rparr>"
    using assms(2) by (cases rule: beginModelInvocation_cases [of c s]) auto
  then have mem: "e \<in> set (model_invocation_effects (sys_db s))" "me_effect_key e = ct_effect_key c"
    "me_company_id e = ct_company_id c" by (auto simp: find_effect_def dest!: find_SomeD)
  show "\<not> invoked_key (ct_effect_key c) (sys_db s)"
    using assms(1) mem e(2) unfolding invoked_key_def effects_distinct_def
    by (metis distinct_map_eq less_irrefl)
  have "e\<lparr>me_invocation_count := 1\<rparr> \<in> set (model_invocation_effects (sys_db t))"
    using mem e(3) by (auto simp: count_invocation_def intro!: in_upd_where_hit)
  then show "invoked_key (ct_effect_key c) (sys_db t)"
    using mem unfolding invoked_key_def by (intro bexI [of _ "e\<lparr>me_invocation_count := 1\<rparr>"]) simp_all
qed

lemma workers_inv_begin:
  assumes inv: "workers_inv E w" and pc: "w_pc w i = Checked c ctx"
    and m: "beginModelInvocation c (w_sys w) = (Inr True, S)"
  shows "workers_inv E (goto i (Begun c ctx) S w)"
proof -
  let ?s = "w_sys w"
  have step: "tables_step (sys_db ?s) (sys_db S)" by (rule call_tables_step(4) [OF m])
  have ids: "sys_next ?s \<le> sys_next S" by (rule call_next(4) [OF m])
  from inv have ed: "effects_distinct (sys_db ?s)"
    and iv: "invocations_inv E (sys_db ?s) (\<lambda>j. begun_key (w_pc w j)) (w_log w)"
    by (simp_all add: workers_inv_def tables_inv_def)
  note b = begin_counts [OF ed m]
  have mono: "invoked_key k (sys_db ?s) \<Longrightarrow> invoked_key k (sys_db S)" for k
    using step by (simp add: tables_step_def)
  have "invocations_inv E (sys_db S) (\<lambda>j. begun_key (((w_pc w)(i := Begun c ctx)) j)) (w_log w)"
    unfolding invocations_inv_def
  proof (intro conjI allI impI ballI)
    show "distinct (map ct_effect_key (w_log w))" using iv by (simp add: invocations_inv_def)
  next
    fix d
    assume "d \<in> set (w_log w)"
    then show "invoked_key (ct_effect_key d) (sys_db S)" "ct_effect_key d = effect_key_of E (ct_id d) (ct_type d)"
      using iv mono by (auto simp: invocations_inv_def)
  next
    fix j k
    assume "begun_key (((w_pc w)(i := Begun c ctx)) j) = Some k"
    then show "invoked_key k (sys_db S)" "k \<notin> ct_effect_key ` set (w_log w)"
      using iv mono b unfolding invocations_inv_def by (auto split: if_splits)
  next
    fix j l k
    assume "begun_key (((w_pc w)(i := Begun c ctx)) j) = Some k"
      and "begun_key (((w_pc w)(i := Begun c ctx)) l) = Some k"
    then show "j = l" using iv b(1) unfolding invocations_inv_def by (auto split: if_splits)
  qed
  moreover have "claims_inv E (sys_db S) (sys_next S) (\<lambda>j. pc_claim (((w_pc w)(i := Begun c ctx)) j))"
    by (rule claims_inv_keep [where f = "\<lambda>j. pc_claim (w_pc w j)", OF _ step ids])
      (use inv pc in \<open>auto simp: workers_inv_def split: if_splits\<close>)
  ultimately show ?thesis
    using inv step by (simp add: workers_inv_def goto_def tables_step_def)
qed

lemma workers_inv_invoke:
  assumes inv: "workers_inv E w" and pc: "w_pc w i = Begun c ctx"
    and p: "pc_claim p = Some c" "begun_key p = None"
  shows "workers_inv E ((goto i p (w_sys w) w)\<lparr>w_log := w_log w @ [c]\<rparr>)"
proof -
  let ?d = "sys_db (w_sys w)"
  from inv have iv: "invocations_inv E ?d (\<lambda>j. begun_key (w_pc w j)) (w_log w)"
    and cl: "claims_inv E ?d (sys_next (w_sys w)) (\<lambda>j. pc_claim (w_pc w j))"
    by (simp_all add: workers_inv_def)
  have bi: "begun_key (w_pc w i) = Some (ct_effect_key c)" using pc by simp
  have key: "ct_effect_key c = effect_key_of E (ct_id c) (ct_type c)"
  proof -
    have "pc_claim (w_pc w i) = Some c" using pc by simp
    with cl show ?thesis unfolding claims_inv_def by blast
  qed
  have "invocations_inv E ?d (\<lambda>j. begun_key (((w_pc w)(i := p)) j)) (w_log w @ [c])"
    unfolding invocations_inv_def
  proof (intro conjI allI impI ballI)
    have "ct_effect_key c \<notin> ct_effect_key ` set (w_log w)" "invoked_key (ct_effect_key c) ?d"
      using iv bi unfolding invocations_inv_def by blast+
    then show "distinct (map ct_effect_key (w_log w @ [c]))"
      using iv by (simp add: invocations_inv_def)
    fix d
    assume "d \<in> set (w_log w @ [c])"
    then show "invoked_key (ct_effect_key d) ?d" "ct_effect_key d = effect_key_of E (ct_id d) (ct_type d)"
      using iv key \<open>invoked_key (ct_effect_key c) ?d\<close> by (auto simp: invocations_inv_def)
  next
    fix j k
    assume "begun_key (((w_pc w)(i := p)) j) = Some k"
    with p(2) have j: "j \<noteq> i" "begun_key (w_pc w j) = Some k" by (auto split: if_splits)
    then show "invoked_key k ?d" using iv unfolding invocations_inv_def by blast
    from j bi iv have "k \<noteq> ct_effect_key c" unfolding invocations_inv_def by blast
    moreover from j iv have "k \<notin> ct_effect_key ` set (w_log w)" unfolding invocations_inv_def by blast
    ultimately show "k \<notin> ct_effect_key ` set (w_log w @ [c])" by simp
  next
    fix j l k
    assume "begun_key (((w_pc w)(i := p)) j) = Some k" and "begun_key (((w_pc w)(i := p)) l) = Some k"
    with p(2) have "begun_key (w_pc w j) = Some k" "begun_key (w_pc w l) = Some k" by (auto split: if_splits)
    with iv show "j = l" unfolding invocations_inv_def by blast
  qed
  moreover have "claims_inv E ?d (sys_next (w_sys w)) (\<lambda>j. pc_claim (((w_pc w)(i := p)) j))"
    by (rule claims_inv_keep [OF cl tables_step_refl order_refl]) (use pc p in \<open>auto split: if_splits\<close>)
  ultimately show ?thesis using inv by (simp add: workers_inv_def goto_def)
qed

text \<open>Every step keeps the invariant.\<close>

lemma worker_step_inv:
  assumes uniq: "inj (uuid_at E)" and step: "worker_step E w w'" and inv: "workers_inv E w"
  shows "workers_inv E w'"
  using step
proof cases
  case (claim i p now locked runId r S)
  have keep: "workers_inv E (goto i Idle S w)"
    using workers_inv_goto [OF inv call_tables_step(1) [OF claim(3)] call_next(1) [OF claim(3)]] by simp
  show ?thesis
  proof (cases r)
    case (Inl e)
    with claim keep show ?thesis by simp
  next
    case (Inr res)
    show ?thesis
    proof (cases res)
      case None
      with Inr claim keep show ?thesis by simp
    next
      case (Some c)
      with Inr claim workers_inv_claim [OF inv uniq, of p now locked runId c S i] show ?thesis by simp
    qed
  qed
next
  case (load i c r S)
  show ?thesis unfolding load(1)
    by (rule workers_inv_goto [OF inv call_tables_step(2) [OF load(3)] call_next(2) [OF load(3)]])
      (simp_all add: on_result_def load(2) split: sum.split)
next
  case (check i c ctx p now r S)
  show ?thesis unfolding check(1)
    by (rule workers_inv_goto [OF inv call_tables_step(3) [OF check(3)] call_next(3) [OF check(3)]])
      (simp_all add: on_result_def check(2) split: sum.split)
next
  case (begin_invocation i c ctx r S)
  have keep: "workers_inv E (goto i p S w)" if "pc_claim p = Some c" "begun_key p = None" for p
    using workers_inv_goto [OF inv call_tables_step(4) [OF begin_invocation(3)] call_next(4) [OF begin_invocation(3)]]
      that begin_invocation(2) by simp
  show ?thesis
  proof (cases "r = Inr True")
    case True
    with begin_invocation workers_inv_begin [OF inv begin_invocation(2), of S] show ?thesis
      by (simp add: on_result_def)
  next
    case False
    then show ?thesis unfolding begin_invocation(1)
      by (intro keep) (auto simp: on_result_def split: sum.split)
  qed
next
  case (invoke i c ctx response)
  show ?thesis unfolding invoke(1)
    by (rule workers_inv_invoke [OF inv invoke(2)]) (simp_all add: on_result_def split: sum.split)
next
  case (complete i c res p now r S)
  show ?thesis unfolding complete(1)
    by (rule workers_inv_goto [OF inv call_tables_step(5) [OF complete(3)] call_next(5) [OF complete(3)]])
      (simp_all add: on_result_def complete(2) split: sum.split)
next
  case (abandon i c p now r S)
  show ?thesis unfolding abandon(1)
    by (rule workers_inv_goto [OF inv call_tables_step(8) [OF abandon(3)] call_next(8) [OF abandon(3)]])
      (simp_all add: on_result_def abandon(2) split: sum.split)
next
  case (block i c p now r S)
  show ?thesis unfolding block(1)
    by (rule workers_inv_goto [OF inv call_tables_step(7) [OF block(3)] call_next(7) [OF block(3)]])
      (simp_all add: on_result_def block(2) split: sum.split)
next
  case (fail i c e p now r S)
  show ?thesis unfolding fail(1)
    by (rule workers_inv_goto [OF inv call_tables_step(6) [OF fail(3)] call_next(6) [OF fail(3)]]) simp_all
next
  case (crash i)
  show ?thesis unfolding crash(1)
    by (rule workers_inv_goto [OF inv tables_step_refl order_refl]) simp_all
qed

lemma outside_tables_step: "outside_worker d d' \<Longrightarrow> tables_step d d'"
  by (auto simp: outside_worker_def tables_step_def tables_inv_def effects_distinct_def invoked_key_def
      one_running_def running_of_def)

lemma system_step_inv:
  assumes "inj (uuid_at E)" and "system_step E w w'" and inv: "workers_inv E w"
  shows "workers_inv E w'"
  using assms(2)
proof cases
  case worker
  then show ?thesis by (rule worker_step_inv [OF assms(1) _ inv])
next
  case (outside S)
  note step = outside_tables_step [OF outside(2)]
  have "claims_inv E (sys_db S) (sys_next S) (\<lambda>i. pc_claim (w_pc w i))"
    by (rule claims_inv_keep [OF _ step outside(3)]) (use inv in \<open>simp_all add: workers_inv_def\<close>)
  moreover have "invocations_inv E (sys_db S) (\<lambda>i. begun_key (w_pc w i)) (w_log w)"
    by (rule invocations_inv_keep [OF _ step]) (use inv in \<open>simp_all add: workers_inv_def\<close>)
  ultimately show ?thesis
    using inv step outside(1) by (simp add: workers_inv_def tables_step_def)
qed

lemma workers_start_inv: "workers_start w \<Longrightarrow> workers_inv E w"
  by (simp add: workers_start_def workers_inv_def tables_inv_def claims_inv_def invocations_inv_def
      effects_distinct_def)

text \<open>
  The contract of an invariant, on the system of workers. Only an environment whose identifiers
  are unique is meant; for any other one the system is given no step.
\<close>

definition unique_step :: "env \<Rightarrow> workers \<Rightarrow> workers \<Rightarrow> bool" where
  "unique_step E w w' \<longleftrightarrow> inj (uuid_at E) \<and> system_step E w w'"

interpretation workers: invariant_of workers_start "unique_step E" "workers_inv E" for E
  by unfold_locales (auto simp: unique_step_def intro: workers_start_inv system_step_inv)

section \<open>Guarantees\<close>

text \<open>
  C3. The provider is invoked at most once per task. In every state that any number of workers
  can reach, through any interleaving, crash, lease expiry, provider answer and transaction of
  the rest of the backend, no two invocations carry the same effect key (the idempotency key
  given to the provider), and no two are of the same task and type.
\<close>

theorem at_most_one_invocation:
  assumes "reach workers_start (unique_step E) w"
  shows "distinct (map ct_effect_key (w_log w)) \<and>
     distinct (map (\<lambda>c. (ct_id c, ct_type c)) (w_log w))"
  using invocations_distinct workers.reach_inv [OF assms] unfolding workers_inv_def by blast

text \<open>
  At most one worker can act on a task. In every reachable state, two workers whose claims
  are on the same task and both not stale are the same worker: a takeover after an expired lease
  fences the previous holder before it can publish, block or fail anything.
\<close>

theorem one_current_holder:
  assumes "reach workers_start (unique_step E) w"
    and "pc_claim (w_pc w i) = Some c" and "pc_claim (w_pc w j) = Some c'"
    and "ct_id c = ct_id c'" and "ct_company_id c = ct_company_id c'"
    and "\<not> stale_claim c (claimed_row c (sys_db (w_sys w)))"
    and "\<not> stale_claim c' (claimed_row c' (sys_db (w_sys w)))"
  shows "i = j"
proof -
  have "claimed_row c (sys_db (w_sys w)) = claimed_row c' (sys_db (w_sys w))"
    using assms(4,5) by (simp add: claimed_row_def)
  with assms(6,7) have "ct_lease_token c = ct_lease_token c'"
    by (auto simp: stale_claim_def split: option.splits)
  moreover have "claims_inv E (sys_db (w_sys w)) (sys_next (w_sys w)) (\<lambda>i. pc_claim (w_pc w i))"
    using workers.reach_inv [OF assms(1)] by (simp add: workers_inv_def)
  ultimately show ?thesis using assms(2,3) unfolding claims_inv_def by blast
qed

text \<open>
  In every reachable state a task has at most one running attempt, and the event log is well
  formed: the events of every run are numbered from 1 without a gap, and every event has exactly
  one outbox message, with its envelope, in the order of the log.
\<close>

theorem running_attempts_and_log:
  assumes "reach workers_start (unique_step E) w"
  shows "one_running (sys_db (w_sys w)) \<and> event_log_ok (sys_db (w_sys w))"
  using workers.reach_inv [OF assms] by (simp add: workers_inv_def tables_inv_def)

text \<open>
  C24. No worker changes a run that ended. Whatever a worker does in a reachable state, a run that
  is cancelled, failed or completed is still there with every column as it was.
\<close>

theorem ended_run_is_final:
  assumes "reach workers_start (unique_step E) w" and "worker_step E w w'"
    and "r \<in> set (runs (sys_db (w_sys w)))" and "terminal_run (r_state r)"
  shows "r \<in> set (runs (sys_db (w_sys w')))"
  using assms(2)
proof cases
  case (complete i c res p now v S)
  have inv: "workers_inv E w" by (rule workers.reach_inv [OF assms(1)])
  have "pc_claim (w_pc w i) = Some c" using complete by simp
  with inv have mem: "(ct_id c, ct_company_id c, ct_run_id c, ct_type c) \<in> task_identity ` set (tasks (sys_db (w_sys w)))"
    unfolding workers_inv_def claims_inv_def set_map by blast
  from inv have "distinct (map r_id (runs (sys_db (w_sys w))))" "distinct (map t_id (tasks (sys_db (w_sys w))))"
    by (simp_all add: workers_inv_def tables_inv_def)
  from completeTask_frozen [OF complete(3) assms(3,4) this mem] complete(1) show ?thesis
    by (simp add: goto_def)
next
  case (claim i p now locked runId v S)
  then show ?thesis using db_keepsD [OF call_frozen(1) [OF assms(4)] assms(3) claim(3)] by (simp add: goto_def)
next
  case (load i c v S)
  then show ?thesis using db_keepsD [OF call_frozen(2) [OF assms(4)] assms(3) load(3)] by (simp add: goto_def)
next
  case (check i c ctx p now v S)
  then show ?thesis using db_keepsD [OF call_frozen(3) [OF assms(4)] assms(3) check(3)] by (simp add: goto_def)
next
  case (begin_invocation i c ctx v S)
  then show ?thesis
    using db_keepsD [OF call_frozen(4) [OF assms(4)] assms(3) begin_invocation(3)] by (simp add: goto_def)
next
  case (invoke i c ctx response)
  then show ?thesis using assms(3) by (simp add: goto_def)
next
  case (abandon i c p now v S)
  then show ?thesis using db_keepsD [OF call_frozen(7) [OF assms(4)] assms(3) abandon(3)] by (simp add: goto_def)
next
  case (block i c p now v S)
  then show ?thesis using db_keepsD [OF call_frozen(6) [OF assms(4)] assms(3) block(3)] by (simp add: goto_def)
next
  case (fail i c e p now v S)
  then show ?thesis using db_keepsD [OF call_frozen(5) [OF assms(4)] assms(3) fail(3)] by (simp add: goto_def)
next
  case (crash i)
  then show ?thesis using assms(3) by (simp add: goto_def)
qed

end
