(* ===== verification/Service.thy ===== *)
theory Service
  imports Http_Properties Worker_System
begin

text \<open>
  The API as a whole: what every request, on whatever route and with whatever outcome, keeps of the tables, and
  that it respects what the workers rely on (\<open>serve_keeps\<close>). The theory Backend puts requests and workers together.
\<close>

section \<open>The invariant of the tables\<close>

text \<open>The foreign key of the context snapshots: the profile versions they name exist.\<close>

definition snapshots_ok :: "db \<Rightarrow> bool" where
  "snapshots_ok d \<longleftrightarrow> (\<forall>cs \<in> set (context_snapshots d). cs_company_profile_version_id cs \<in> cp_id ` set (company_profile_versions d))"

text \<open>What workers rely on, for the effects, attempts and task identities before a request.\<close>

definition worker_rely :: "effect_row list \<Rightarrow> attempt_row list \<Rightarrow> (uuid \<times> uuid \<times> uuid \<times> string) set \<Rightarrow> db \<Rightarrow> bool" where
  "worker_rely M A K d \<longleftrightarrow> model_invocation_effects d = M \<and> task_attempts d = A \<and> K \<subseteq> set (map task_identity (tasks d)) \<and>
     distinct (map t_id (tasks d)) \<and> distinct (map r_id (runs d))"

definition service_ok :: "effect_row list \<Rightarrow> attempt_row list \<Rightarrow> (uuid \<times> uuid \<times> uuid \<times> string) set \<Rightarrow> db \<Rightarrow> bool" where
  "service_ok M A K d \<longleftrightarrow> event_log_ok d \<and> companies_ok d \<and> initiatives_ok d \<and>
     (auth_ok d \<and> snapshots_ok d \<and> worker_rely M A K d)"

abbreviation entity_ok :: "effect_row list \<Rightarrow> attempt_row list \<Rightarrow> (uuid \<times> uuid \<times> uuid \<times> string) set \<Rightarrow> db \<Rightarrow> bool" where
  "entity_ok M A K d \<equiv> auth_ok d \<and> snapshots_ok d \<and> worker_rely M A K d"

lemma service_parts: "service_ok M A K = (\<lambda>d. event_log_ok d \<and> companies_ok d \<and> initiatives_ok d \<and> entity_ok M A K d)"
  by (simp add: service_ok_def [abs_def])

lemmas entity_defs = auth_ok_def tenants_ok_def sessions_ok_def invites_ok_def snapshots_ok_def worker_rely_def
lemmas insert_defs = insert_company_def insert_profile_def insert_initiative_def insert_goal_version_def insert_snapshot_def
  insert_run_def insert_counter_def insert_task_def insert_qualification_def insert_budget_def insert_object_def
  insert_goal_attachment_def insert_grant_def

text \<open>The statements of the commands.\<close>

lemma entity_inserts:
  "commits (entity_ok M A K) (insert_company co)" "commits (entity_ok M A K) (insert_profile cp)"
  "commits (entity_ok M A K) (insert_initiative ini)" "commits (entity_ok M A K) (insert_goal_version gv)"
  "commits (entity_ok M A K) (insert_snapshot cs)" "commits (entity_ok M A K) (insert_run ru)"
  "commits (entity_ok M A K) (insert_counter rc)" "commits (entity_ok M A K) (insert_task tk)"
  "commits (entity_ok M A K) (insert_qualification gq)" "commits (entity_ok M A K) (insert_budget bl)"
  "commits (entity_ok M A K) (insert_object ob)" "commits (entity_ok M A K) (insert_goal_attachment ga)"
  "commits (entity_ok M A K) (insert_grant rg)"
  unfolding insert_defs
  by (rule commits_insert; auto simp: entity_defs absent_image present_image)+

lemma entity_append: "commits (entity_ok M A K) (DomainEvent_append E opts)"
  by (rule db_keeps_commits, rule append_keeps_frame) (simp_all add: entity_defs)

lemma entity_updates:
  "commits (entity_ok M A K) (execute (point_to_profile E c f p b))"
  "commits (entity_ok M A K) (execute (activate_initiative E c i g))"
  by (rule commits_execute; simp add: entity_defs point_to_profile_def activate_initiative_def map_upd_where_same)+

lemmas entity_statements = entity_inserts entity_append entity_updates

lemma entity_bind: "commits (entity_ok M A K) (bindToGoalVersion E c g ids)"
proof -
  have "commits (entity_ok M A K) (bind_entries E c g rows n agg ids)" for rows n agg
    by (induction ids arbitrary: n agg) (simp_all add: assertLinkable_def Let_def, (intro commits_intros entity_statements; assumption?)+)
  then show ?thesis
    unfolding bindToGoalVersion_def by (intro commits_intros)
qed

lemma entity_bodies:
  "commits (entity_ok M A K) (create_company_body E a k cdto)" "commits (entity_ok M A K) (update_profile_body E a k v pdto)"
  "commits (entity_ok M A K) (create_initiative_body E c a k idto)" "commits (entity_ok M A K) (goal_body E c a k iid v gdto q)"
  unfolding create_company_body_def update_profile_body_def getByIdWithRunner_def case_prod_beta
    create_initiative_body_def goal_body_def record_goal_def goal_rows_def goal_budgets_def Let_def
  by (intro commits_intros entity_statements entity_bind)+

lemma companies_other:
  "companies_ok (d\<lparr>initiatives := x1\<rparr>) = companies_ok d" "companies_ok (d\<lparr>goal_versions := x2\<rparr>) = companies_ok d"
  "companies_ok (d\<lparr>goal_version_attachments := x3\<rparr>) = companies_ok d" "companies_ok (d\<lparr>context_snapshots := x4\<rparr>) = companies_ok d"
  "companies_ok (d\<lparr>runs := x5\<rparr>) = companies_ok d" "companies_ok (d\<lparr>tasks := x6\<rparr>) = companies_ok d"
  "companies_ok (d\<lparr>goal_qualifications := x7\<rparr>) = companies_ok d" "companies_ok (d\<lparr>budget_ledgers := x8\<rparr>) = companies_ok d"
  "companies_ok (d\<lparr>object_records := x9\<rparr>) = companies_ok d" "companies_ok (d\<lparr>attachment_retrieval_grants := x10\<rparr>) = companies_ok d"
  "companies_ok (d\<lparr>founders := x11\<rparr>) = companies_ok d" "companies_ok (d\<lparr>founder_invites := x12\<rparr>) = companies_ok d"
  "companies_ok (d\<lparr>founder_sessions := x13\<rparr>) = companies_ok d"
  by (simp_all add: companies_ok_def history_ok_def [abs_def] profiles_of_def)

lemma initiatives_other:
  "initiatives_ok (d\<lparr>companies := x1\<rparr>) = initiatives_ok d" "initiatives_ok (d\<lparr>company_profile_versions := x2\<rparr>) = initiatives_ok d"
  "initiatives_ok (d\<lparr>run_event_counters := x3\<rparr>) = initiatives_ok d" "initiatives_ok (d\<lparr>events := x4\<rparr>) = initiatives_ok d"
  "initiatives_ok (d\<lparr>outbox_messages := x5\<rparr>) = initiatives_ok d" "initiatives_ok (d\<lparr>object_records := x6\<rparr>) = initiatives_ok d"
  "initiatives_ok (d\<lparr>attachment_retrieval_grants := x7\<rparr>) = initiatives_ok d" "initiatives_ok (d\<lparr>founders := x8\<rparr>) = initiatives_ok d"
  "initiatives_ok (d\<lparr>founder_invites := x9\<rparr>) = initiatives_ok d" "initiatives_ok (d\<lparr>founder_sessions := x10\<rparr>) = initiatives_ok d"
  "initiatives_ok (d\<lparr>idempotency_records := x11\<rparr>) = initiatives_ok d"
  by (simp_all add: initiatives_ok_def)

lemmas other_tables = companies_other companies_ok_frame initiatives_other

lemma company_bodies_keep_initiatives:
  "commits initiatives_ok (create_company_body E a k cdto)" "commits initiatives_ok (update_profile_body E a k v pdto)"
  unfolding create_company_body_def update_profile_body_def getByIdWithRunner_def case_prod_beta insert_company_def insert_profile_def
  by (intro commits_intros commits_insert commits_execute db_keeps_commits [OF append_keeps_frame];
      simp add: other_tables point_to_profile_def)+

lemma create_initiative_keeps_companies: "commits companies_ok (create_initiative_body E c a k dto)"
  unfolding create_initiative_body_def insert_initiative_def
  by (intro commits_intros commits_insert db_keeps_commits [OF append_keeps_frame]) (simp_all add: other_tables)

lemma goal_keeps_companies: "commits companies_ok (goal_body E c a k iid v dto q)"
proof (rule commitsI)
  fix s :: sys and x t
  assume ok: "companies_ok (sys_db s)" and "goal_body E c a k iid v dto q s = (Inr x, t)"
  from this(2) have "record_goal E c a k iid dto q (find (\<lambda>x. co_id x = c \<and> co_founder_id x = a) (companies (sys_db s)))
      (next_goal_version c iid (sys_db s)) s = (Inr x, t)" by (rule goal_body_InrE)
  then show "companies_ok (sys_db t)"
    by (cases rule: record_goal_InrE) (use ok in \<open>simp add: other_tables activate_initiative_def\<close>)
qed

section \<open>Every request keeps the tables\<close>

text \<open>The object store is another service: its operations leave the database alone and hand out no identifiers.\<close>

definition store_apart :: "object_store_port \<Rightarrow> bool" where
  "store_apart store \<longleftrightarrow>
     (\<forall>k b s. sys_db (snd (port_put store k b s)) = sys_db s \<and> sys_next (snd (port_put store k b s)) = sys_next s) \<and>
     (\<forall>k s. sys_db (snd (port_get store k s)) = sys_db s \<and> sys_next (snd (port_get store k s)) = sys_next s)"

lemma store_keeps: "store_apart store \<Longrightarrow> db_keeps I (port_put store k b)" "store_apart store \<Longrightarrow> db_keeps I (port_get store k)"
  by (auto intro!: db_keepsI simp: store_apart_def)

lemma ingest_commits:
  assumes "store_apart store" and "\<And>r. commits I (insert_object r)"
    and "\<And>oid. commits I (DomainEvent_append E (ingested_event c a k oid v))"
  shows "commits I (ingest_body E store c a k v body)"
  unfolding ingest_body_def
  by (intro commits_intros assms db_keeps_commits [OF store_keeps(1)])

lemma plain_appends:
  "commits companies_ok (DomainEvent_append E opts)" "commits initiatives_ok (DomainEvent_append E opts)"
  "commits companies_ok (insert_object ob)" "commits initiatives_ok (insert_object ob)"
  "db_keeps companies_ok (insert_grant rg)" "db_keeps initiatives_ok (insert_grant rg)"
  unfolding insert_object_def insert_grant_def
  by (auto intro!: db_keeps_commits [OF append_keeps_frame] commits_insert db_keeps_insert simp: other_tables)

lemma service_bodies:
  "commits (service_ok M A K) (create_company_body E a k cdto)" "commits (service_ok M A K) (update_profile_body E a k v pdto)"
  "commits (service_ok M A K) (create_initiative_body E c a k idto)" "commits (service_ok M A K) (goal_body E c a k iid v gdto q)"
  "store_apart store \<Longrightarrow> commits (service_ok M A K) (ingest_body E store c a k va body)"
  "commits (service_ok M A K) (DomainEvent_append E opts)"
  unfolding service_parts
  by (intro commits_conj entity_bodies entity_statements company_bodies_keep_log create_keeps_companies update_keeps_companies
      company_bodies_keep_initiatives initiative_bodies_keep_log create_keeps_initiatives goal_keeps_initiatives
      create_initiative_keeps_companies goal_keeps_companies plain_appends append_commits_log ingest_commits log_inserts; assumption?)+

lemma service_records_free: "service_ok M A K d \<Longrightarrow> service_ok M A K (d\<lparr>idempotency_records := rs\<rparr>)"
  using event_log_records_free by (simp add: service_ok_def other_tables entity_defs)

lemma service_command:
  assumes "commits (service_ok M A K) (cx_execute opts)"
  shows "db_keeps (service_ok M A K) (CommandExecutor_run E opts)"
proof -
  have "command_body (service_ok M A K) (\<lambda>_ :: unit. cx_execute opts)"
    by unfold_locales (use assms service_records_free in auto)
  then show ?thesis by (rule command_body.command_keeps) simp
qed

lemma service_calls [keeps_intros]:
  "db_keeps (service_ok M A K) (Companies_create E actor key cid cdto)" "db_keeps (service_ok M A K) (Companies_updateProfile E actor key v cid pdto)"
  "db_keeps (service_ok M A K) (Initiatives_create E actor key cid idto)" "db_keeps (service_ok M A K) (createGoalAndRun E actor iid v key cid gdto)"
  unfolding Companies_create_def Companies_updateProfile_def Initiatives_create_def createGoalAndRun_def
  by (intro keeps_intros service_command;
      simp add: create_company_command_def update_profile_command_def create_initiative_command_def goal_command_def service_bodies)+

lemma service_ingest: "store_apart store \<Longrightarrow> db_keeps (service_ok M A K) (Attachments_ingest E store actor key cid dto)"
  unfolding Attachments_ingest_def auditRejection_def
  by (auto intro!: keeps_intros service_command commits_transaction commits_intros service_bodies(6)
      simp: ingest_command_def service_bodies(5) split: exn.split)

text \<open>What the operations on accounts change is seen by \<open>auth_ok\<close> alone.\<close>

lemma accounts_other:
  "event_log_ok (d\<lparr>founders := x1\<rparr>) = event_log_ok d" "event_log_ok (d\<lparr>founder_invites := x2\<rparr>) = event_log_ok d"
  "event_log_ok (d\<lparr>founder_sessions := x3\<rparr>) = event_log_ok d" "event_log_ok (d\<lparr>attachment_retrieval_grants := x4\<rparr>) = event_log_ok d"
  by (rule event_log_ok_cong, simp add: log_part_def)+

lemma service_auth:
  assumes "db_keeps auth_ok m" and "\<And>s r t. m s = (r, t) \<Longrightarrow>
      \<exists>fs is ss. sys_db t = sys_db s\<lparr>founders := fs, founder_invites := is, founder_sessions := ss\<rparr>"
  shows "db_keeps (service_ok M A K) m"
proof (rule db_keepsI)
  fix s :: sys
  assume ok: "service_ok M A K (sys_db s)"
  obtain r t where m: "m s = (r, t)" by (cases "m s")
  from assms(2) [OF m] obtain fs is' ss where t: "sys_db t = sys_db s\<lparr>founders := fs, founder_invites := is', founder_sessions := ss\<rparr>" by blast
  have "auth_ok (sys_db t)" using db_keepsD [OF assms(1) _ m] ok by (simp add: service_ok_def)
  with ok show "service_ok M A K (sys_db (snd (m s)))"
    by (simp add: m service_ok_def) (simp add: t other_tables accounts_other snapshots_ok_def worker_rely_def)
qed

lemma accounts_unchanged: "\<exists>fs is ss. (d :: db) = d\<lparr>founders := fs, founder_invites := is, founder_sessions := ss\<rparr>"
  by (rule exI [of _ "founders d"], rule exI [of _ "founder_invites d"], rule exI [of _ "founder_sessions d"]) simp

lemma issueInvite_accounts:
  assumes "issueInvite E dto s = (r, t)"
  shows "\<exists>fs is ss. sys_db t = sys_db s\<lparr>founders := fs, founder_invites := is, founder_sessions := ss\<rparr>"
proof -
  have "sys_db t = sys_db s \<or> (\<exists>is. sys_db t = sys_db s\<lparr>founder_invites := is\<rparr>)"
    using assms
    by (auto simp: issueInvite_def assertDevelopmentAdapter_def unavailableRegistration_def newInviteToken_def tx_then_def
        tx_bind_def tx_when_def tx_throw_def tx_return_def newId_apply insert_invite_def insert_row_def split: if_splits prod.splits sum.splits option.splits)
  then show ?thesis
  proof
    assume "sys_db t = sys_db s"
    then show ?thesis using accounts_unchanged [of "sys_db s"] by simp
  next
    assume "\<exists>is. sys_db t = sys_db s\<lparr>founder_invites := is\<rparr>"
    then obtain is' where t: "sys_db t = sys_db s\<lparr>founder_invites := is'\<rparr>" ..
    show ?thesis
      by (rule exI [of _ "founders (sys_db s)"], rule exI [of _ is'], rule exI [of _ "founder_sessions (sys_db s)"]) (simp add: t)
  qed
qed

lemma redeemInvite_accounts:
  assumes "redeemInvite J E token s = (r, t)"
  shows "\<exists>fs is ss. sys_db t = sys_db s\<lparr>founders := fs, founder_invites := is, founder_sessions := ss\<rparr>"
proof (cases r)
  case (Inl e)
  with atomicD [OF services_atomic(5)] assms have "sys_db t = sys_db s" by blast
  then show ?thesis using accounts_unchanged [of "sys_db s"] by simp
next
  case (Inr g)
  with assms obtain invite where "accept_invite J E invite s = (Inr g, t)" by (auto elim: redeemInvite_InrE)
  then show ?thesis
  proof (cases rule: accept_invite_InrE)
    case (1 fs f x)
    let ?d = "redeem_invite_row E invite (fo_id f) (sys_db s)"
    show ?thesis
      by (rule exI [of _ fs], rule exI [of _ "founder_invites ?d"], rule exI [of _ "founder_sessions (sys_db s) @ [x]"])
        (simp add: 1(11) redeem_invite_row_def)
  qed
qed

lemma signOut_accounts:
  assumes "signOut E actor s = (r, t)"
  shows "\<exists>fs is ss. sys_db t = sys_db s\<lparr>founders := fs, founder_invites := is, founder_sessions := ss\<rparr>"
proof -
  have t: "sys_db t = sys_db s\<lparr>founder_sessions := founder_sessions (sys_db t)\<rparr>"
    using assms by (auto simp: signOut_def execute_apply)
  show ?thesis
    by (rule exI [of _ "founders (sys_db s)"], rule exI [of _ "founder_invites (sys_db s)"], rule exI [of _ "founder_sessions (sys_db t)"])
      (subst t, simp)
qed

lemma service_accounts [keeps_intros]:
  "db_keeps (service_ok M A K) (issueInvite E dto)" "db_keeps (service_ok M A K) (redeemInvite J E token)"
  "db_keeps (service_ok M A K) (signOut E actor)"
  by (rule service_auth [OF issueInvite_keeps_auth issueInvite_accounts], assumption)
    (rule service_auth [OF redeemInvite_keeps_auth redeemInvite_accounts], assumption,
     rule service_auth [OF signOut_keeps_auth signOut_accounts], assumption)

lemma service_retrieval:
  assumes "store_apart store"
  shows "db_keeps (service_ok M A K) (retrieveForRun E store actor r a)"
proof -
  have "db_keeps (service_ok M A K) (insert_grant rg)" for rg
    unfolding insert_grant_def
    by (rule db_keeps_insert) (simp add: service_ok_def other_tables entity_defs event_log_ok_cong [of "d\<lparr>attachment_retrieval_grants := x\<rparr>" d for d x] log_part_def)
  with store_keeps(2) [OF assms] show ?thesis
    unfolding retrieveForRun_def by (intro keeps_intros)
qed

lemma unchanging_keeps: "unchanging m \<Longrightarrow> db_keeps I m"
  by (rule db_keepsI) (metis unchangingD prod.collapse)

lemma service_reads [keeps_intros]:
  "db_keeps I (Companies_getCurrent a)" "db_keeps I (Initiatives_getCurrent actor)" "db_keeps I (getMetadata E actor i)"
  "db_keeps I (Runs_get actor i)" "db_keeps I (Runs_tasks actor i tq)" "db_keeps I (Runs_events actor i eq)"
  "db_keeps I (denyDelete actor i)" "db_keeps I (canActivate J E b h)"
  by (intro unchanging_keeps reads_unchanging guard_unchanging)+

lemma public_handlers_keep: "db_keeps (service_ok M A K) (public_handler P E r)"
  by (cases r)
    (simp_all add: Auth_Controller_issueInvite_def Auth_Controller_redeemInvite_def unavailableRegistration_def keeps_intros)

lemmas controller_defs = Auth_Controller_signOut_def Companies_Controller_create_def Companies_Controller_getCurrent_def
  Companies_Controller_updateProfile_def Initiatives_Controller_getCurrent_def Initiatives_Controller_create_def
  Initiatives_Controller_createGoal_def Attachments_Controller_create_def Attachments_Controller_get_def
  Runs_Controller_retrieveAttachment_def Runs_Controller_get_def Runs_Controller_tasks_def Runs_Controller_events_def
  Runs_Controller_remove_def

lemma founder_handlers_keep:
  assumes "store_apart (hp_store P)"
  shows "db_keeps (service_ok M A K) (founder_handler P E cid rq actor r)"
  by (cases r)
    (simp_all add: public_handlers_keep del: public_handler.simps,
     unfold controller_defs, (intro keeps_intros service_ingest service_retrieval assms)+)

lemma handle_keeps:
  assumes "store_apart (hp_store P)"
  shows "db_keeps (service_ok M A K) (handle P E cid rq)"
  unfolding handle_def by (intro keeps_intros public_handlers_keep founder_handlers_keep assms)

lemma serve_result:
  assumes "serve P E rq s = (response, t)"
  obtains cid u q where "handle P E cid rq u = (q, t)" and "sys_db u = sys_db s" | "sys_db t = sys_db s"
  using assms by (cases rule: serve_cases) auto

lemma serve_keeps:
  assumes "store_apart (hp_store P)" and "service_ok M A K (sys_db s)" and "serve P E rq s = (response, t)"
  shows "service_ok M A K (sys_db t)"
  using assms(3)
proof (cases rule: serve_result)
  case (1 cid u q)
  with db_keepsD [OF handle_keeps [OF assms(1)] _ 1(1)] assms(2) show ?thesis by simp
qed (use assms(2) in simp)

end
