(* ===== verification/Outbox.thy ===== *)
theory Outbox
  imports Governance Reachability "HOL-Library.List_Lexorder" "HOL-Library.Char_ord" "HOL-Library.Product_Lexorder"
begin

text \<open>
  \<open>src/modules/orchestration/outbox-publisher.service.ts\<close> and \<open>worker-loop.service.ts\<close>: a
  publisher claims an outbox message under a lease, lets the local consumer project the event
  once (a receipt and a projection in one transaction), and marks the message published if it
  still holds the lease. The theory also interleaves any number of publishers, which may crash
  between two calls, with the transactions that append events.
\<close>

section \<open>The publisher\<close>

record publish_options =
  po_eventId :: "uuid option"
  po_stopAfterConsumerCommit :: bool

record claimed_message =
  cm_id :: uuid
  cm_event_id :: uuid
  cm_envelope :: json
  cm_lease_token :: uuid

definition projectionPart :: "json option \<Rightarrow> string \<Rightarrow> string" where
  "projectionPart v fallback = (case v of Some (JStr s) \<Rightarrow> s | Some (JNum n) \<Rightarrow> show_int n | _ \<Rightarrow> fallback)"

text \<open>\<open>left ?? right\<close>.\<close>

definition nullish :: "json option \<Rightarrow> json option \<Rightarrow> json option" where
  "nullish l r = (case l of None \<Rightarrow> r | Some JNull \<Rightarrow> r | v \<Rightarrow> v)"

definition projection_key :: "json \<Rightarrow> uuid \<Rightarrow> string" where
  "projection_key envelope eventId = js_join '':''
     [projectionPart (json_get ''type'' envelope) ''unknown'',
      projectionPart (json_get ''run_id'' envelope) ''company'',
      projectionPart (nullish (json_get ''run_sequence'' envelope) (json_get ''event_id'' envelope)) eventId]"

definition consumer :: string where
  "consumer = ''local-event-projection/v1''"

definition new_receipt :: "env \<Rightarrow> claimed_message \<Rightarrow> receipt_row" where
  "new_receipt E m = \<lparr>ir_consumer_name = consumer, ir_event_id = cm_event_id m,
     ir_processed_at = Some (now_ms E), ir_result_digest = Some (canonicalDigest E (cm_envelope m))\<rparr>"

definition new_projection :: "env \<Rightarrow> claimed_message \<Rightarrow> projection_row" where
  "new_projection E m =
     (let key = projection_key (cm_envelope m) (cm_event_id m)
      in \<lparr>lp_consumer_name = consumer, lp_event_id = cm_event_id m, lp_projection_key = key,
          lp_result_digest = canonicalDigest E (JObj [(''projectionKey'', JStr key), (''envelope'', cm_envelope m)])\<rparr>)"

definition consume :: "env \<Rightarrow> claimed_message \<Rightarrow> unit call" where
  "consume E message = transaction (
     tx_bind (insert_receipt_returning (new_receipt E message)) (\<lambda>receipt.
       if receipt = [] then tx_return () else insert_projection (new_projection E message)))"

text \<open>The WHERE clause of the claim; \<open>locked\<close> are the rows other transactions hold.\<close>

definition publishable :: "env \<Rightarrow> uuid list \<Rightarrow> uuid option \<Rightarrow> outbox_row \<Rightarrow> bool" where
  "publishable E locked eventId m \<longleftrightarrow>
     om_published_at m = None \<and> om_available_at m \<le> now_ms E \<and>
     (case om_lease_expires_at m of None \<Rightarrow> True | Some x \<Rightarrow> x < now_ms E) \<and>
     (eventId = None \<or> eventId = Some (om_event_id m)) \<and> om_id m \<notin> set locked"

definition message_candidate :: "env \<Rightarrow> uuid list \<Rightarrow> uuid option \<Rightarrow> db \<Rightarrow> outbox_row option" where
  "message_candidate E locked eventId d =
     order_limit_1 (\<lambda>m. (om_available_at m, om_id m))
       (filter (publishable E locked eventId) (outbox_messages d))"

definition lease_message :: "env \<Rightarrow> uuid \<Rightarrow> uuid \<Rightarrow> db \<Rightarrow> db" where
  "lease_message E messageId leaseToken d = d\<lparr>outbox_messages :=
     upd_where (\<lambda>m. om_id m = messageId)
       (\<lambda>m. m\<lparr>om_lease_owner := Some (worker_id E), om_lease_token := Some leaseToken,
              om_lease_expires_at := Some (now_ms E + lease_seconds E * 1000),
              om_attempts := om_attempts m + 1\<rparr>) (outbox_messages d)\<rparr>"

definition claim_message :: "env \<Rightarrow> uuid list \<Rightarrow> uuid option \<Rightarrow> claimed_message option call" where
  "claim_message E locked eventId = transaction (
     tx_bind (query (message_candidate E locked eventId)) (\<lambda>candidate. case candidate of
       None \<Rightarrow> tx_return None
     | Some m \<Rightarrow>
         tx_bind (newId E) (\<lambda>leaseToken.
         tx_then (execute (lease_message E (om_id m) leaseToken))
         (tx_return (Some \<lparr>cm_id = om_id m, cm_event_id = om_event_id m,
            cm_envelope = om_envelope m, cm_lease_token = leaseToken\<rparr>)))))"

definition mark_published :: "env \<Rightarrow> claimed_message \<Rightarrow> db \<Rightarrow> db" where
  "mark_published E message d = d\<lparr>outbox_messages :=
     upd_where (\<lambda>m. om_id m = cm_id message \<and> om_lease_token m = Some (cm_lease_token message) \<and>
         om_published_at m = None)
       (\<lambda>m. m\<lparr>om_published_at := Some (now_ms E), om_lease_owner := None, om_lease_token := None,
              om_lease_expires_at := None\<rparr>) (outbox_messages d)\<rparr>"

definition publish_message :: "env \<Rightarrow> claimed_message \<Rightarrow> unit call" where
  "publish_message E message = transaction (execute (mark_published E message))"

text \<open>\<open>clock\<close> gives the time of the three transactions of one call.\<close>

definition publishOnce :: "env \<Rightarrow> (nat \<Rightarrow> timestamp) \<Rightarrow> uuid list \<Rightarrow> publish_options \<Rightarrow> bool call" where
  "publishOnce E clock locked options =
     tx_bind (claim_message (E\<lparr>now_ms := clock 0\<rparr>) locked (po_eventId options)) (\<lambda>claimed. case claimed of
       None \<Rightarrow> tx_return False
     | Some message \<Rightarrow>
         tx_then (consume (E\<lparr>now_ms := clock 1\<rparr>) message)
         (if po_stopAfterConsumerCommit options then tx_return True
          else tx_then (publish_message (E\<lparr>now_ms := clock 2\<rparr>) message) (tx_return True)))"

section \<open>The worker loop\<close>

text \<open>
  \<open>runLoop\<close>: the rounds it makes until it is stopped, each one call of \<open>publishOnce\<close> and one of
  \<open>processOnce\<close>; the pause after an idle round only lets time pass. A call that throws ends the
  loop with its error.
\<close>

fun runLoop :: "(bool call \<times> bool call) list \<Rightarrow> unit call" where
  "runLoop [] = tx_return ()"
| "runLoop ((publish, process) # rounds) =
     tx_bind publish (\<lambda>published. tx_bind process (\<lambda>processed. runLoop rounds))"

section \<open>One call\<close>

lemma insert_receipt_InrE:
  assumes "insert_receipt_returning r s = (Inr ids, t)"
  obtains (seen) "(ir_consumer_name r, ir_event_id r) \<in> (\<lambda>x. (ir_consumer_name x, ir_event_id x)) ` set (inbox_receipts (sys_db s))"
      "ids = []" "t = s"
  | (new) "(ir_consumer_name r, ir_event_id r) \<notin> (\<lambda>x. (ir_consumer_name x, ir_event_id x)) ` set (inbox_receipts (sys_db s))"
      "present ev_id (ir_event_id r) (events (sys_db s))" "ids = [ir_event_id r]"
      "t = s\<lparr>sys_db := sys_db s\<lparr>inbox_receipts := inbox_receipts (sys_db s) @ [r]\<rparr>\<rparr>"
proof (cases "absent (\<lambda>x. (ir_consumer_name x, ir_event_id x)) (ir_consumer_name r, ir_event_id r)
    (inbox_receipts (sys_db s))")
  case True
  then have n: "(ir_consumer_name r, ir_event_id r) \<notin> (\<lambda>x. (ir_consumer_name x, ir_event_id x)) ` set (inbox_receipts (sys_db s))"
    by (auto simp: absent_def)
  from assms True have "present ev_id (ir_event_id r) (events (sys_db s)) \<and> ids = [ir_event_id r] \<and>
      t = s\<lparr>sys_db := sys_db s\<lparr>inbox_receipts := inbox_receipts (sys_db s) @ [r]\<rparr>\<rparr>"
    unfolding insert_receipt_returning_def
    by (elim tx_bind_InrE query_InrE) (simp, elim tx_then_InrE insert_row_InrE tx_return_InrE, simp)
  with n show thesis by (intro new) auto
next
  case False
  with assms have "ids = [] \<and> t = s" unfolding insert_receipt_returning_def
    by (elim tx_bind_InrE query_InrE) (simp only: if_False tx_return_apply prod.inject sum.inject simp_thms)
  with False show thesis by (intro seen) (auto simp: absent_image)
qed

lemma insert_projection_InrE:
  assumes "insert_projection r s = (Inr u, t)"
  obtains "t = s\<lparr>sys_db := sys_db s\<lparr>local_event_projections := local_event_projections (sys_db s) @ [r]\<rparr>\<rparr>"
  using assms unfolding insert_projection_def by (elim insert_row_InrE) (rule that)

definition projected :: "uuid \<Rightarrow> db \<Rightarrow> bool" where
  "projected eid d \<longleftrightarrow> (consumer, eid) \<in> (\<lambda>x. (ir_consumer_name x, ir_event_id x)) ` set (inbox_receipts d)"

lemma consume_InrE:
  assumes "consume E m s = (Inr u, t)"
  obtains (again) "projected (cm_event_id m) (sys_db s)" "t = s"
  | (first) "\<not> projected (cm_event_id m) (sys_db s)"
      "t = s\<lparr>sys_db := sys_db s\<lparr>inbox_receipts := inbox_receipts (sys_db s) @ [new_receipt E m],
         local_event_projections := local_event_projections (sys_db s) @ [new_projection E m]\<rparr>\<rparr>"
proof -
  from assms obtain ids s1 where r: "insert_receipt_returning (new_receipt E m) s = (Inr ids, s1)"
    and p: "(if ids = [] then tx_return () else insert_projection (new_projection E m)) s1 = (Inr u, t)"
    unfolding consume_def by (elim transaction_InrE tx_bind_InrE)
  from r show thesis
  proof (cases rule: insert_receipt_InrE)
    case seen
    with p show thesis by (intro again) (simp_all add: projected_def new_receipt_def tx_return_def)
  next
    case new
    with p have "insert_projection (new_projection E m) s1 = (Inr u, t)" by simp
    then show thesis
      by (rule insert_projection_InrE) (use new in \<open>intro first, simp_all add: projected_def new_receipt_def\<close>)
  qed
qed

lemma claim_message_InrE:
  assumes "claim_message E locked eventId s = (Inr res, t)"
  obtains (none) "res = None" "t = s" "message_candidate E locked eventId (sys_db s) = None"
  | (claimed) m where "message_candidate E locked eventId (sys_db s) = Some m"
      "res = Some \<lparr>cm_id = om_id m, cm_event_id = om_event_id m, cm_envelope = om_envelope m,
         cm_lease_token = uuid_at E (sys_next s)\<rparr>"
      "sys_db t = lease_message E (om_id m) (uuid_at E (sys_next s)) (sys_db s)" "sys_next t = Suc (sys_next s)"
proof (cases "message_candidate E locked eventId (sys_db s)")
  case None
  with assms none show thesis
    unfolding claim_message_def by (elim transaction_InrE tx_bind_InrE query_InrE) (simp add: tx_return_def)
next
  case (Some m)
  with assms have "res = Some \<lparr>cm_id = om_id m, cm_event_id = om_event_id m, cm_envelope = om_envelope m,
         cm_lease_token = uuid_at E (sys_next s)\<rparr> \<and>
      sys_db t = lease_message E (om_id m) (uuid_at E (sys_next s)) (sys_db s) \<and> sys_next t = Suc (sys_next s)"
    unfolding claim_message_def
    by (elim transaction_InrE tx_bind_InrE query_InrE)
      (simp, elim tx_bind_InrE newId_InrE tx_then_InrE execute_InrE tx_return_InrE, simp)
  with Some show thesis by (intro claimed) auto
qed

lemma message_candidate_in:
  assumes "message_candidate E locked eventId d = Some m"
  shows "m \<in> set (outbox_messages d)" and "publishable E locked eventId m"
  using assms by (auto simp: message_candidate_def dest!: order_limit_1_Some)

section \<open>The projection key identifies the event\<close>

text \<open>Identifiers and event types hold no colon, and no run is called company.\<close>

definition plain :: "string \<Rightarrow> bool" where
  "plain s \<longleftrightarrow> CHR '':'' \<notin> set s"

definition plain_events :: "db \<Rightarrow> bool" where
  "plain_events d \<longleftrightarrow> (\<forall>e \<in> set (events d). plain (ev_id e) \<and> plain (ev_type e) \<and>
     (\<forall>r. ev_run_id e = Some r \<longrightarrow> plain r \<and> r \<noteq> ''company'') \<and>
     (ev_run_id e = None) = (ev_run_sequence e = None))"

lemma plain_digits: "list_all is_digit s \<Longrightarrow> plain s"
  by (auto simp: plain_def list_all_iff is_digit_def)

lemma split_plain:
  "plain a \<Longrightarrow> plain b \<Longrightarrow> a @ CHR '':'' # x = b @ CHR '':'' # y \<longleftrightarrow> a = b \<and> x = y"
  unfolding plain_def
proof (induction a arbitrary: b)
  case Nil
  then show ?case by (cases b) auto
next
  case (Cons c a)
  then show ?case by (cases b) auto
qed

lemma event_key:
  "projection_key (event_envelope e) eid = ev_type e @ '':'' @
     (case ev_run_id e of None \<Rightarrow> ''company'' | Some r \<Rightarrow> r) @ '':'' @
     (case ev_run_sequence e of None \<Rightarrow> ev_id e | Some n \<Rightarrow> show_nat n)"
  by (auto simp: projection_key_def event_envelope_def json_get_def projectionPart_def nullish_def
      json_opt_def show_int_def split: option.split)

lemma projection_key_inj:
  assumes ok: "event_log_ok d" and pl: "plain_events d"
    and e: "e \<in> set (events d)" and f: "f \<in> set (events d)"
    and k: "projection_key (event_envelope e) a = projection_key (event_envelope f) b"
  shows "e = f"
proof -
  let ?r = "\<lambda>e. case ev_run_id e of None \<Rightarrow> ''company'' | Some r \<Rightarrow> r"
  let ?q = "\<lambda>e. case ev_run_sequence e of None \<Rightarrow> ev_id e | Some n \<Rightarrow> show_nat n"
  have p: "plain (ev_type g)" "plain (?r g)" if "g \<in> set (events d)" for g
    using pl that by (auto simp: plain_events_def plain_def split: option.split)
  from k have "ev_type e @ CHR '':'' # ?r e @ CHR '':'' # ?q e = ev_type f @ CHR '':'' # ?r f @ CHR '':'' # ?q f"
    by (simp add: event_key)
  then have r: "?r e = ?r f" and q: "?q e = ?q f"
    using p e f by (simp_all add: split_plain)
  have run: "ev_run_id e = ev_run_id f"
  proof -
    have "\<forall>x. ev_run_id g = Some x \<longrightarrow> x \<noteq> ''company''" if "g \<in> set (events d)" for g
      using pl that by (auto simp: plain_events_def)
    with r e f show ?thesis by (cases "ev_run_id e"; cases "ev_run_id f") auto
  qed
  show ?thesis
  proof (cases "ev_run_id e")
    case None
    with run pl e f have "ev_run_sequence e = None" "ev_run_sequence f = None" by (auto simp: plain_events_def)
    with q have "ev_id e = ev_id f" by simp
    with ok e f show ?thesis by (auto simp: event_log_ok_def intro: distinct_map_eq)
  next
    case (Some rid)
    with run pl e f obtain m n where mn: "ev_run_sequence e = Some m" "ev_run_sequence f = Some n"
      unfolding plain_events_def by (metis not_Some_eq)
    with q have seq: "ev_run_sequence e = ev_run_sequence f" by (simp add: show_nat_inj)
    from ok e Some obtain c where "c \<in> set (run_event_counters d)" "rc_run_id c = rid"
      by (auto simp: event_log_ok_def)
    with ok have "map ev_run_sequence (run_events rid d) = map Some [1..<rc_next_sequence c]"
      by (auto simp: event_log_ok_def list_all_iff numbered_def)
    then have "distinct (map ev_run_sequence (run_events rid d))"
      by (simp add: distinct_map)
    moreover have "e \<in> set (run_events rid d)" "f \<in> set (run_events rid d)"
      using e f Some run by (simp_all add: run_events_def)
    ultimately show ?thesis using seq by (blast intro: distinct_map_eq)
  qed
qed

section \<open>The consumer\<close>

text \<open>The tables of the consumer against the log: one projection per receipt, each of its event.\<close>

definition projection_of :: "env \<Rightarrow> event_row \<Rightarrow> projection_row \<Rightarrow> bool" where
  "projection_of E e p \<longleftrightarrow> lp_event_id p = ev_id e \<and> lp_consumer_name p = consumer \<and>
     lp_projection_key p = projection_key (event_envelope e) (ev_id e) \<and>
     lp_result_digest p = canonicalDigest E (JObj [(''projectionKey'', JStr (lp_projection_key p)),
       (''envelope'', event_envelope e)])"

definition consumer_ok :: "env \<Rightarrow> db \<Rightarrow> bool" where
  "consumer_ok E d \<longleftrightarrow>
     event_log_ok d \<and> plain_events d \<and> distinct (map om_id (outbox_messages d)) \<and>
     map (\<lambda>r. (ir_consumer_name r, ir_event_id r)) (inbox_receipts d) =
       map (\<lambda>p. (lp_consumer_name p, lp_event_id p)) (local_event_projections d) \<and>
     distinct (map lp_event_id (local_event_projections d)) \<and>
     (\<forall>p \<in> set (local_event_projections d). \<exists>e \<in> set (events d). projection_of E e p) \<and>
     (\<forall>m \<in> set (outbox_messages d). om_published_at m \<noteq> None \<longrightarrow> projected (om_event_id m) d)"

text \<open>A claimed message carries the event id and the envelope of a row of the outbox.\<close>

definition carried :: "claimed_message \<Rightarrow> db \<Rightarrow> bool" where
  "carried m d \<longleftrightarrow> (cm_event_id m, cm_envelope m) \<in> (\<lambda>r. (om_event_id r, om_envelope r)) ` set (outbox_messages d)"

lemma carried_event:
  assumes "event_log_ok d" and "carried m d"
  obtains e where "e \<in> set (events d)" "ev_id e = cm_event_id m" "event_envelope e = cm_envelope m"
proof -
  let ?f = "\<lambda>(i, t, v). (i, v)"
  have "map ?f (map message_content (outbox_messages d)) = map ?f (map event_content (events d))"
    using assms(1) by (simp only: event_log_ok_def)
  then have "map (\<lambda>r. (om_event_id r, om_envelope r)) (outbox_messages d) = map (\<lambda>e. (ev_id e, event_envelope e)) (events d)"
    by (simp add: comp_def message_content_def event_content_def)
  then have "(\<lambda>r. (om_event_id r, om_envelope r)) ` set (outbox_messages d) = (\<lambda>e. (ev_id e, event_envelope e)) ` set (events d)"
    by (metis list.set_map)
  with assms(2) show thesis using that by (auto simp: carried_def)
qed

lemma projected_iff:
  assumes "consumer_ok E d"
  shows "projected i d \<longleftrightarrow> i \<in> lp_event_id ` set (local_event_projections d)"
proof -
  have eq: "(\<lambda>r. (ir_consumer_name r, ir_event_id r)) ` set (inbox_receipts d) =
      (\<lambda>p. (lp_consumer_name p, lp_event_id p)) ` set (local_event_projections d)"
    using assms unfolding consumer_ok_def by (metis list.set_map)
  have "\<forall>p \<in> set (local_event_projections d). lp_consumer_name p = consumer"
    using assms by (auto simp: consumer_ok_def projection_of_def)
  with eq show ?thesis unfolding projected_def by (auto simp: image_iff)
qed

lemma new_projection_of:
  assumes "ev_id e = cm_event_id m" and "event_envelope e = cm_envelope m"
    and "canonicalDigest E = canonicalDigest E'"
  shows "projection_of E e (new_projection E' m)"
  using assms by (simp add: projection_of_def new_projection_def Let_def)

text \<open>Consuming a message of the outbox always returns, and leaves its event projected once.\<close>

lemma consume_returns:
  assumes ok: "consumer_ok E d" and d: "d = sys_db s" and m: "carried m d"
  shows "\<exists>t. consume E' m s = (Inr (), t)"
proof (cases "projected (cm_event_id m) d")
  case True
  then have "insert_receipt_returning (new_receipt E' m) s = (Inr [], s)"
    unfolding insert_receipt_returning_def tx_bind_def query_apply
    using d by (simp add: absent_image projected_def new_receipt_def tx_return_def)
  then show ?thesis by (simp add: consume_def transaction_def tx_bind_def tx_return_def)
next
  case False
  have log: "event_log_ok d" and pl: "plain_events d" using ok by (simp_all add: consumer_ok_def)
  from carried_event [OF log m] obtain e where
    e: "e \<in> set (events d)" "ev_id e = cm_event_id m" "event_envelope e = cm_envelope m" .
  let ?s = "s\<lparr>sys_db := d\<lparr>inbox_receipts := inbox_receipts d @ [new_receipt E' m]\<rparr>\<rparr>"
  have ev: "present ev_id (cm_event_id m) (events d)" using e by (auto simp: present_def)
  have r: "insert_receipt_returning (new_receipt E' m) s = (Inr [cm_event_id m], ?s)"
    using False ev d
    by (simp add: insert_receipt_returning_def tx_bind_def tx_then_def query_apply absent_image projected_def
        new_receipt_def insert_row_def tx_return_def)
  have noevent: "cm_event_id m \<notin> lp_event_id ` set (local_event_projections d)"
    using False projected_iff [OF ok] by simp
  have nokey: "lp_projection_key p \<noteq> projection_key (cm_envelope m) (cm_event_id m)"
    if p: "p \<in> set (local_event_projections d)" for p
  proof
    assume k: "lp_projection_key p = projection_key (cm_envelope m) (cm_event_id m)"
    from ok p obtain f where f: "f \<in> set (events d)" "projection_of E f p" by (auto simp: consumer_ok_def)
    with k e have "projection_key (event_envelope f) (ev_id f) = projection_key (event_envelope e) (ev_id e)"
      by (simp add: projection_of_def)
    with projection_key_inj [OF log pl f(1) e(1)] have "f = e" by blast
    with f(2) e(2) have "lp_event_id p = cm_event_id m" by (simp add: projection_of_def)
    with p noevent show False by (metis image_eqI)
  qed
  have "\<exists>t. insert_projection (new_projection E' m) ?s = (Inr (), t)"
    unfolding insert_projection_def
    by (rule exI, rule insert_row_ok)
      (use noevent nokey ev in \<open>auto simp: absent_def new_projection_def Let_def image_iff\<close>)
  then show ?thesis
    by (auto simp: consume_def transaction_def tx_bind_def r)
qed

lemma consume_keeps:
  assumes ok: "consumer_ok E (sys_db s)" and m: "carried m (sys_db s)"
    and c: "consume E' m s = (Inr u, t)" and dg: "canonicalDigest E = canonicalDigest E'"
  shows "consumer_ok E (sys_db t) \<and> projected (cm_event_id m) (sys_db t) \<and>
     outbox_messages (sys_db t) = outbox_messages (sys_db s) \<and> events (sys_db t) = events (sys_db s) \<and>
     (\<forall>i. projected i (sys_db s) \<longrightarrow> projected i (sys_db t))"
  using c
proof (cases rule: consume_InrE)
  case again
  with ok show ?thesis by simp
next
  case first
  let ?d = "sys_db s"
  have log: "event_log_ok ?d" using ok by (simp add: consumer_ok_def)
  from carried_event [OF log m] obtain e where
    e: "e \<in> set (events ?d)" "ev_id e = cm_event_id m" "event_envelope e = cm_envelope m" .
  have new: "projection_of E e (new_projection E' m)" by (rule new_projection_of [OF e(2,3) dg])
  have noevent: "lp_event_id (new_projection E' m) \<notin> lp_event_id ` set (local_event_projections ?d)"
    using first(1) projected_iff [OF ok] by (simp add: new_projection_def Let_def)
  have pr: "projected i (sys_db t)" if "projected i ?d \<or> i = cm_event_id m" for i
    using that first(2) by (auto simp: projected_def new_receipt_def)
  have logt: "event_log_ok (sys_db t)"
    using log event_log_ok_cong [of "sys_db t" ?d] first(2) by (simp add: log_part_def)
  have "consumer_ok E (sys_db t)"
    using ok logt noevent new e pr first(2)
    by (auto simp: consumer_ok_def plain_events_def new_receipt_def new_projection_def Let_def)
  with pr first(2) show ?thesis by auto
qed

lemma lease_message_same:
  "map message_content (outbox_messages (lease_message E i k d)) = map message_content (outbox_messages d)"
  "map om_id (outbox_messages (lease_message E i k d)) = map om_id (outbox_messages d)"
  "(\<lambda>r. (om_event_id r, om_envelope r)) ` set (outbox_messages (lease_message E i k d)) =
     (\<lambda>r. (om_event_id r, om_envelope r)) ` set (outbox_messages d)"
  by (simp_all add: lease_message_def map_upd_where_same image_upd_where_same message_content_def)

lemma mark_published_same:
  "map message_content (outbox_messages (mark_published E m d)) = map message_content (outbox_messages d)"
  "map om_id (outbox_messages (mark_published E m d)) = map om_id (outbox_messages d)"
  "(\<lambda>r. (om_event_id r, om_envelope r)) ` set (outbox_messages (mark_published E m d)) =
     (\<lambda>r. (om_event_id r, om_envelope r)) ` set (outbox_messages d)"
  by (simp_all add: mark_published_def map_upd_where_same image_upd_where_same message_content_def)

text \<open>An update of the outbox that publishes only projected events keeps the tables well formed.\<close>

lemma consumer_ok_outbox:
  assumes "consumer_ok E d" and "map message_content ms = map message_content (outbox_messages d)"
    and "map om_id ms = map om_id (outbox_messages d)"
    and "\<And>m. m \<in> set ms \<Longrightarrow> om_published_at m \<noteq> None \<Longrightarrow> projected (om_event_id m) d"
  shows "consumer_ok E (d\<lparr>outbox_messages := ms\<rparr>)"
proof -
  have "event_log_ok (d\<lparr>outbox_messages := ms\<rparr>)"
    using assms(1,2) event_log_ok_cong [of "d\<lparr>outbox_messages := ms\<rparr>" d]
    by (simp add: log_part_def consumer_ok_def)
  with assms show ?thesis by (auto simp: consumer_ok_def plain_events_def projected_def)
qed

lemma lease_keeps: "consumer_ok E d \<Longrightarrow> consumer_ok E (lease_message E' i k d)"
proof -
  assume ok: "consumer_ok E d"
  have "consumer_ok E (d\<lparr>outbox_messages := outbox_messages (lease_message E' i k d)\<rparr>)"
    by (rule consumer_ok_outbox [OF ok lease_message_same(1,2)])
      (use ok in \<open>auto simp: lease_message_def consumer_ok_def elim!: in_upd_whereE split: if_splits\<close>)
  then show ?thesis by (simp add: lease_message_def)
qed

lemma publish_keeps:
  assumes ok: "consumer_ok E d" and p: "projected (cm_event_id m) d"
    and row: "\<forall>r \<in> set (outbox_messages d). om_id r = cm_id m \<longrightarrow> om_event_id r = cm_event_id m"
  shows "consumer_ok E (mark_published E' m d)"
proof -
  have "consumer_ok E (d\<lparr>outbox_messages := outbox_messages (mark_published E' m d)\<rparr>)"
    by (rule consumer_ok_outbox [OF ok mark_published_same(1,2)])
      (use ok p row in \<open>auto simp: mark_published_def consumer_ok_def elim!: in_upd_whereE split: if_splits\<close>)
  then show ?thesis by (simp add: mark_published_def)
qed

section \<open>Publishers as a system\<close>

datatype publisher_pc = P_Idle | P_Claimed claimed_message | P_Consumed claimed_message

record publishers =
  p_sys :: sys
  p_pc :: "nat \<Rightarrow> publisher_pc"

definition p_goto :: "nat \<Rightarrow> publisher_pc \<Rightarrow> sys \<Rightarrow> publishers \<Rightarrow> publishers" where
  "p_goto i pc S w = w\<lparr>p_sys := S, p_pc := (p_pc w)(i := pc)\<rparr>"

definition p_at :: "env \<Rightarrow> string \<Rightarrow> timestamp \<Rightarrow> env" where
  "p_at E w now = E\<lparr>worker_id := w, now_ms := now\<rparr>"

text \<open>
  The transactions of the rest of the backend append events with their messages, in the plain
  identifiers the backend hands out, and leave the consumer's tables and the messages alone.
\<close>

definition outside_publisher :: "db \<Rightarrow> db \<Rightarrow> bool" where
  "outside_publisher d d' \<longleftrightarrow>
     inbox_receipts d' = inbox_receipts d \<and> local_event_projections d' = local_event_projections d \<and>
     (\<exists>es. events d' = events d @ es) \<and>
     (\<exists>ms. outbox_messages d' = outbox_messages d @ ms \<and> (\<forall>m \<in> set ms. om_published_at m = None)) \<and>
     distinct (map om_id (outbox_messages d')) \<and> event_log_ok d' \<and> plain_events d'"

inductive publisher_step :: "env \<Rightarrow> publishers \<Rightarrow> publishers \<Rightarrow> bool" for E where
  p_claim: "p_pc w i = P_Idle \<Longrightarrow> claim_message (p_at E k now) locked eventId (p_sys w) = (r, S) \<Longrightarrow>
    publisher_step E w (p_goto i (case r of Inr (Some m) \<Rightarrow> P_Claimed m | _ \<Rightarrow> P_Idle) S w)"
| p_consume: "p_pc w i = P_Claimed m \<Longrightarrow> consume (p_at E k now) m (p_sys w) = (r, S) \<Longrightarrow>
    publisher_step E w (p_goto i (case r of Inr _ \<Rightarrow> P_Consumed m | Inl _ \<Rightarrow> P_Idle) S w)"
| p_publish: "p_pc w i = P_Consumed m \<Longrightarrow> publish_message (p_at E k now) m (p_sys w) = (r, S) \<Longrightarrow>
    publisher_step E w (p_goto i P_Idle S w)"
| p_crash: "publisher_step E w (p_goto i P_Idle (p_sys w) w)"
| p_outside: "outside_publisher (sys_db (p_sys w)) (sys_db S) \<Longrightarrow> publisher_step E w (w\<lparr>p_sys := S\<rparr>)"

inductive_cases publisher_stepE: "publisher_step E w w'"

definition publishers_start :: "env \<Rightarrow> publishers \<Rightarrow> bool" where
  "publishers_start E w \<longleftrightarrow> (\<forall>i. p_pc w i = P_Idle) \<and> consumer_ok E (sys_db (p_sys w))"

text \<open>What a publisher knows of the message it carries.\<close>

definition row_content :: "outbox_row \<Rightarrow> uuid \<times> uuid \<times> json" where
  "row_content r = (om_id r, om_event_id r, om_envelope r)"

definition holds_row :: "claimed_message \<Rightarrow> db \<Rightarrow> bool" where
  "holds_row m d \<longleftrightarrow> (cm_id m, cm_event_id m, cm_envelope m) \<in> row_content ` set (outbox_messages d)"

lemma holds_rowI:
  "r \<in> set (outbox_messages d) \<Longrightarrow> om_id r = cm_id m \<Longrightarrow> om_event_id r = cm_event_id m \<Longrightarrow>
    om_envelope r = cm_envelope m \<Longrightarrow> holds_row m d"
  unfolding holds_row_def by (rule image_eqI) (simp_all add: row_content_def)

lemma holds_rowE:
  assumes "holds_row m d"
  obtains r where "r \<in> set (outbox_messages d)" "om_id r = cm_id m" "om_event_id r = cm_event_id m"
    "om_envelope r = cm_envelope m"
  using assms unfolding holds_row_def by (auto simp: row_content_def)

fun pc_ok :: "publisher_pc \<Rightarrow> db \<Rightarrow> bool" where
  "pc_ok P_Idle d = True"
| "pc_ok (P_Claimed m) d = holds_row m d"
| "pc_ok (P_Consumed m) d = (holds_row m d \<and> projected (cm_event_id m) d)"

definition publishers_inv :: "env \<Rightarrow> publishers \<Rightarrow> bool" where
  "publishers_inv E w \<longleftrightarrow> consumer_ok E (sys_db (p_sys w)) \<and> (\<forall>i. pc_ok (p_pc w i) (sys_db (p_sys w)))"

lemma holds_row_carried: "holds_row m d \<Longrightarrow> carried m d"
  unfolding carried_def by (erule holds_rowE) (rule image_eqI, simp_all)

lemma holds_row_unique:
  assumes "consumer_ok E d" and "holds_row m d"
  shows "\<forall>r \<in> set (outbox_messages d). om_id r = cm_id m \<longrightarrow> om_event_id r = cm_event_id m"
proof (intro ballI impI)
  fix r
  assume r: "r \<in> set (outbox_messages d)" "om_id r = cm_id m"
  from assms(2) obtain q where q: "q \<in> set (outbox_messages d)" "om_id q = cm_id m" "om_event_id q = cm_event_id m"
    by (auto elim: holds_rowE)
  from assms(1) have "distinct (map om_id (outbox_messages d))" by (simp add: consumer_ok_def)
  with r q have "r = q" by (metis distinct_map_eq)
  with q show "om_event_id r = cm_event_id m" by simp
qed

lemma pc_ok_mono:
  assumes "pc_ok pc d"
    and "row_content ` set (outbox_messages d) \<subseteq>
      row_content ` set (outbox_messages d')"
    and "\<And>i. projected i d \<Longrightarrow> projected i d'"
  shows "pc_ok pc d'"
proof -
  have h: "holds_row m d'" if "holds_row m d" for m
    using that assms(2) unfolding holds_row_def by blast
  show ?thesis using assms(1,3) h by (cases pc) auto
qed

lemma same_messages:
  "row_content ` set (outbox_messages (lease_message E i k d)) =
     row_content ` set (outbox_messages d)"
  "row_content ` set (outbox_messages (mark_published E m d)) =
     row_content ` set (outbox_messages d)"
  "projected j (lease_message E i k d) = projected j d" "projected j (mark_published E m d) = projected j d"
  by (simp_all add: lease_message_def mark_published_def image_upd_where_same projected_def row_content_def)

lemma digest_at [simp]: "canonicalDigest (p_at E k now) = canonicalDigest E"
  by (simp add: canonicalDigest_def fun_eq_iff p_at_def)

lemma inv_goto:
  assumes "consumer_ok E (sys_db S)" and "pc_ok pc (sys_db S)" and inv: "publishers_inv E w"
    and "row_content ` set (outbox_messages (sys_db (p_sys w))) \<subseteq>
      row_content ` set (outbox_messages (sys_db S))"
    and "\<And>i. projected i (sys_db (p_sys w)) \<Longrightarrow> projected i (sys_db S)"
  shows "publishers_inv E (p_goto i pc S w)"
proof -
  have "pc_ok (p_pc w j) (sys_db S)" for j
    by (rule pc_ok_mono [OF _ assms(4,5)]) (use inv in \<open>simp_all add: publishers_inv_def\<close>)
  with assms(1,2) show ?thesis by (simp add: publishers_inv_def p_goto_def)
qed

lemma claim_inv:
  assumes inv: "publishers_inv E w" and m: "claim_message (p_at E k now) locked eventId (p_sys w) = (r, S)"
  shows "publishers_inv E (p_goto i (case r of Inr (Some m) \<Rightarrow> P_Claimed m | _ \<Rightarrow> P_Idle) S w)"
proof (cases r)
  case (Inl e)
  from transaction_Inl [OF m [unfolded Inl claim_message_def]] have "sys_db S = sys_db (p_sys w)" .
  then show ?thesis unfolding Inl sum.case by (intro inv_goto [OF _ _ inv]) (use inv in \<open>simp_all add: publishers_inv_def\<close>)
next
  case (Inr res)
  have ok: "consumer_ok E (sys_db (p_sys w))" using inv by (simp add: publishers_inv_def)
  from m [unfolded Inr] show ?thesis
  proof (cases rule: claim_message_InrE)
    case none
    then show ?thesis
      unfolding Inr sum.case none(1) option.case by (intro inv_goto [OF _ _ inv]) (simp_all add: ok)
  next
    case (claimed row)
    let ?c = "\<lparr>cm_id = om_id row, cm_event_id = om_event_id row, cm_envelope = om_envelope row,
         cm_lease_token = uuid_at (p_at E k now) (sys_next (p_sys w))\<rparr>"
    have "holds_row ?c (sys_db (p_sys w))"
      using message_candidate_in(1) [OF claimed(1)] by (auto intro: holds_rowI)
    then have "pc_ok (P_Claimed ?c) (sys_db S)"
      by (intro pc_ok_mono [of "P_Claimed ?c" "sys_db (p_sys w)" "sys_db S"]) (simp_all add: claimed(3) same_messages)
    then show ?thesis
      unfolding Inr sum.case claimed(2) option.case
      by (intro inv_goto [OF _ _ inv]) (simp_all add: claimed(3) same_messages lease_keeps [OF ok])
  qed
qed

lemma consume_inv:
  assumes inv: "publishers_inv E w" and pc: "p_pc w i = P_Claimed m"
    and c: "consume (p_at E k now) m (p_sys w) = (r, S)"
  shows "publishers_inv E (p_goto i (case r of Inr _ \<Rightarrow> P_Consumed m | Inl _ \<Rightarrow> P_Idle) S w)"
proof -
  have ok: "consumer_ok E (sys_db (p_sys w))" and h: "holds_row m (sys_db (p_sys w))"
    using inv pc unfolding publishers_inv_def by (blast, metis pc_ok.simps(2))
  from consume_returns [OF ok refl holds_row_carried [OF h], of "p_at E k now"] c have r: "r = Inr ()" by auto
  note k = consume_keeps [OF ok holds_row_carried [OF h] c [unfolded r] digest_at [symmetric]]
  have "holds_row m (sys_db S)" using h k by (simp add: holds_row_def)
  with k inv r show ?thesis by (intro inv_goto) simp_all
qed

lemma publish_inv:
  assumes inv: "publishers_inv E w" and pc: "p_pc w i = P_Consumed m"
    and c: "publish_message (p_at E k now) m (p_sys w) = (r, S)"
  shows "publishers_inv E (p_goto i P_Idle S w)"
proof -
  have ok: "consumer_ok E (sys_db (p_sys w))" and h: "holds_row m (sys_db (p_sys w))"
    and pr: "projected (cm_event_id m) (sys_db (p_sys w))"
    using inv pc unfolding publishers_inv_def by (blast, (metis pc_ok.simps(3))+)
  have S: "sys_db S = mark_published (p_at E k now) m (sys_db (p_sys w))"
    using c by (auto simp: publish_message_def transaction_def execute_apply)
  show ?thesis
    using publish_keeps [OF ok pr holds_row_unique [OF ok h]] inv
    by (intro inv_goto) (simp_all add: S same_messages)
qed

lemma outside_inv:
  assumes inv: "publishers_inv E w" and o: "outside_publisher (sys_db (p_sys w)) (sys_db S)"
  shows "publishers_inv E (w\<lparr>p_sys := S\<rparr>)"
proof -
  let ?d = "sys_db (p_sys w)" let ?d' = "sys_db S"
  have pr: "projected i ?d' = projected i ?d" for i
    using o by (simp add: outside_publisher_def projected_def)
  obtain es ms where ext: "events ?d' = events ?d @ es" "outbox_messages ?d' = outbox_messages ?d @ ms"
    "\<forall>m \<in> set ms. om_published_at m = None" using o by (auto simp: outside_publisher_def)
  have ok: "consumer_ok E ?d'"
    using inv o ext pr unfolding publishers_inv_def consumer_ok_def outside_publisher_def by auto
  have "pc_ok (p_pc w j) ?d'" for j
    by (rule pc_ok_mono [of _ ?d]) (use inv ext pr in \<open>auto simp: publishers_inv_def\<close>)
  with ok show ?thesis by (simp add: publishers_inv_def)
qed

interpretation publishers: invariant_of "publishers_start E" "publisher_step E" "publishers_inv E" for E
proof unfold_locales
  show "publishers_inv E w" if "publishers_start E w" for w
    using that by (simp add: publishers_start_def publishers_inv_def)
  show "publishers_inv E w'" if inv: "publishers_inv E w" and step: "publisher_step E w w'" for w w'
    using step
  proof cases
    case (p_claim i k now locked eventId r S)
    then show ?thesis using claim_inv [OF inv, of k now locked eventId r S i] by simp
  next
    case (p_consume i m k now r S)
    then show ?thesis using consume_inv [OF inv p_consume(2) p_consume(3)] by simp
  next
    case (p_publish i m k now r S)
    then show ?thesis using publish_inv [OF inv p_publish(2) p_publish(3)] by simp
  next
    case (p_crash i)
    show ?thesis
      unfolding p_crash(1) by (rule inv_goto) (use inv in \<open>simp_all add: publishers_inv_def\<close>)
  next
    case (p_outside S)
    then show ?thesis using outside_inv [OF inv] by simp
  qed
qed

text \<open>The row of a message that still holds the claimed token is the one \<open>mark_published\<close> marks.\<close>

lemma mark_published_hit:
  assumes "r \<in> set (outbox_messages d)" "om_id r = cm_id c" "om_lease_token r = Some (cm_lease_token c)"
    and "om_published_at r = None"
  shows "r\<lparr>om_published_at := Some (now_ms E), om_lease_owner := None, om_lease_token := None,
      om_lease_expires_at := None\<rparr> \<in> set (outbox_messages (mark_published E c d))"
proof -
  let ?f = "\<lambda>m. m\<lparr>om_published_at := Some (now_ms E), om_lease_owner := None, om_lease_token := None,
      om_lease_expires_at := None\<rparr>"
  let ?p = "\<lambda>m. om_id m = cm_id c \<and> om_lease_token m = Some (cm_lease_token c) \<and> om_published_at m = None"
  from assms have "?f r \<in> set (upd_where ?p ?f (outbox_messages d))" by (intro in_upd_where_hit) auto
  then show ?thesis by (simp add: mark_published_def)
qed

section \<open>Guarantees\<close>

text \<open>
  C5. Exactly-once projection. In every state that any number of publishers reach, whatever the
  interleaving, crash or redelivery, no event is projected twice, every projection is the
  projection of its event, and every message that is marked published has been projected: nothing
  is lost between the log and its consumer.
\<close>

theorem exactly_once_projection:
  assumes "reach (publishers_start E) (publisher_step E) w"
  shows "distinct (map lp_event_id (local_event_projections (sys_db (p_sys w)))) \<and>
     (\<forall>p \<in> set (local_event_projections (sys_db (p_sys w))).
        \<exists>e \<in> set (events (sys_db (p_sys w))). projection_of E e p) \<and>
     (\<forall>m \<in> set (outbox_messages (sys_db (p_sys w))). om_published_at m \<noteq> None \<longrightarrow>
        om_event_id m \<in> lp_event_id ` set (local_event_projections (sys_db (p_sys w))))"
proof -
  have ok: "consumer_ok E (sys_db (p_sys w))"
    using publishers.reach_inv [OF assms] by (simp add: publishers_inv_def)
  from projected_iff [OF ok] ok show ?thesis by (simp add: consumer_ok_def)
qed

text \<open>
  C25. Delivery makes progress. From well-formed tables, if some message is due, one call of
  \<open>publishOnce\<close> without the test switch returns true, and the message it claimed, the first one
  due, is then marked published and its event is projected; the uniqueness constraints of the
  consumer's tables never stop it, since distinct events have distinct projection keys.
\<close>

theorem publishOnce_delivers:
  assumes "consumer_ok E (sys_db s)"
    and "message_candidate (E\<lparr>now_ms := clock 0\<rparr>) locked (po_eventId opts) (sys_db s) = Some m"
    and "\<not> po_stopAfterConsumerCommit opts"
  shows "\<exists>t m'. publishOnce E clock locked opts s = (Inr True, t) \<and> m' \<in> set (outbox_messages (sys_db t)) \<and>
     om_id m' = om_id m \<and> om_published_at m' = Some (clock 2) \<and> om_lease_token m' = None \<and>
     projected (om_event_id m) (sys_db t) \<and> consumer_ok E (sys_db t)"
proof -
  let ?E0 = "E\<lparr>now_ms := clock 0\<rparr>" and ?E1 = "E\<lparr>now_ms := clock 1\<rparr>" and ?E2 = "E\<lparr>now_ms := clock 2\<rparr>"
  let ?k = "uuid_at E (sys_next s)" let ?s1 = "s\<lparr>sys_next := Suc (sys_next s), sys_db := lease_message ?E0 (om_id m) ?k (sys_db s)\<rparr>"
  let ?c = "\<lparr>cm_id = om_id m, cm_event_id = om_event_id m, cm_envelope = om_envelope m, cm_lease_token = ?k\<rparr>"
  have cl: "claim_message ?E0 locked (po_eventId opts) s = (Inr (Some ?c), ?s1)"
    using assms(2) by (simp add: claim_message_def transaction_def tx_bind_def tx_then_def query_apply newId_apply
        execute_apply tx_return_def)
  have m: "m \<in> set (outbox_messages (sys_db s))" and un: "om_published_at m = None"
    using message_candidate_in [OF assms(2)] by (simp_all add: publishable_def)
  have ok1: "consumer_ok E (sys_db ?s1)" using lease_keeps [OF assms(1)] by simp
  let ?m1 = "m\<lparr>om_lease_owner := Some (worker_id E), om_lease_token := Some ?k,
      om_lease_expires_at := Some (clock 0 + lease_seconds E * 1000), om_attempts := om_attempts m + 1\<rparr>"
  have m1: "?m1 \<in> set (outbox_messages (sys_db ?s1))"
    using m by (auto simp: lease_message_def intro!: in_upd_where_hit)
  have h: "holds_row ?c (sys_db ?s1)" using m1 by (rule holds_rowI) simp_all
  from consume_returns [OF ok1 refl holds_row_carried [OF h], of ?E1] obtain s2 where
    c: "consume ?E1 ?c ?s1 = (Inr (), s2)" by blast
  have dg: "canonicalDigest E = canonicalDigest ?E1" by (simp add: canonicalDigest_def fun_eq_iff)
  note k = consume_keeps [OF ok1 holds_row_carried [OF h] c dg]
  let ?t = "s2\<lparr>sys_db := mark_published ?E2 ?c (sys_db s2)\<rparr>"
  have p: "publish_message ?E2 ?c s2 = (Inr (), ?t)"
    by (simp add: publish_message_def transaction_def execute_apply)
  have run: "publishOnce E clock locked opts s = (Inr True, ?t)"
    using cl c p assms(3) by (simp add: publishOnce_def tx_bind_def tx_then_def tx_return_def)
  let ?m2 = "?m1\<lparr>om_published_at := Some (clock 2), om_lease_owner := None, om_lease_token := None,
      om_lease_expires_at := None\<rparr>"
  have m1': "?m1 \<in> set (outbox_messages (sys_db s2))" using m1 k by (simp only:)
  have m2: "?m2 \<in> set (outbox_messages (sys_db ?t))"
    using mark_published_hit [OF m1', of ?c ?E2] un by simp
  have h2: "holds_row ?c (sys_db s2)" using h k by (simp add: holds_row_def)
  have ok2: "consumer_ok E (sys_db s2)" and pr: "projected (cm_event_id ?c) (sys_db s2)" using k by (blast, blast)
  have "consumer_ok E (sys_db ?t)"
    using publish_keeps [OF ok2 pr holds_row_unique [OF ok2 h2], of ?E2] by (simp del: digest_at)
  with run m2 k show ?thesis
    by (intro exI [of _ ?t] exI [of _ ?m2]) (simp add: same_messages)
qed

section \<open>The guarantees at a concrete log\<close>

definition sample_event :: event_row where
  "sample_event = \<lparr>ev_id = sample_id 20, ev_schema_version = 1, ev_type = ''run.created.v1'',
     ev_company_id = sample_id 2, ev_run_id = Some (sample_id 7), ev_run_sequence = Some 1,
     ev_actor_type = ''FOUNDER'', ev_actor_id = ''founder-a'', ev_actor_version = None,
     ev_correlation_id = sample_id 21, ev_causation_id = None, ev_audience = ''FOUNDER'',
     ev_data_classification = ''INTERNAL'', ev_payload = JObj [], ev_occurred_at = sample_now\<rparr>"

definition sample_message :: outbox_row where
  "sample_message = (new_message sample_env (sample_id 22) sample_event)\<lparr>om_available_at := sample_now\<rparr>"

definition sample_log :: sys where
  "sample_log = sample_sys\<lparr>sys_db := sample_db\<lparr>events := [sample_event], outbox_messages := [sample_message],
     run_event_counters := [\<lparr>rc_company_id = sample_id 2, rc_run_id = sample_id 7, rc_next_sequence = 2\<rparr>]\<rparr>\<rparr>"

lemma sample_log_rows [simp]:
  "events (sys_db sample_log) = [sample_event]" "outbox_messages (sys_db sample_log) = [sample_message]"
  "inbox_receipts (sys_db sample_log) = []" "local_event_projections (sys_db sample_log) = []"
  "run_event_counters (sys_db sample_log) =
     [\<lparr>rc_company_id = sample_id 2, rc_run_id = sample_id 7, rc_next_sequence = 2\<rparr>]"
  by (simp_all add: sample_log_def sample_state)

lemma sample_message_simps [simp]:
  "om_id sample_message = sample_id 22" "om_event_id sample_message = sample_id 20"
  "om_published_at sample_message = None" "om_available_at sample_message = sample_now"
  "om_lease_expires_at sample_message = None"
  by (simp_all add: sample_message_def new_message_def sample_event_def)

lemma sample_plain: "plain (sample_id n)" "sample_id n \<noteq> ''company''"
proof -
  have "plain (show_nat n)" for n by (rule plain_digits) (simp add: show_nat_digits)
  then show "plain (sample_id n)" by (simp add: sample_id_def plain_def pad_left_def)
qed (simp add: sample_id_def)

lemma sample_log_ok: "consumer_ok sample_env (sys_db sample_log)"
proof -
  have "event_log_ok (sys_db sample_log)"
    by (simp add: event_log_ok_def numbered_def run_events_def sample_event_def sample_message_def
        new_message_def message_content_def event_content_def upt_conv_Cons)
  moreover have "plain_events (sys_db sample_log)"
    by (simp add: plain_events_def sample_event_def sample_plain) (simp add: plain_def)
  ultimately show ?thesis by (simp add: consumer_ok_def)
qed

lemma sample_message_due:
  "message_candidate (sample_env\<lparr>now_ms := sample_now\<rparr>) [] None (sys_db sample_log) = Some sample_message"
  by (simp add: message_candidate_def publishable_def order_limit_1_def)

theorem publishOnce_delivers_witness:
  "\<exists>(t :: sys) m'. publishOnce sample_env (\<lambda>_. sample_now) [] \<lparr>po_eventId = None, po_stopAfterConsumerCommit = False\<rparr>
       sample_log = (Inr True, t) \<and>
     m' \<in> set (outbox_messages (sys_db t)) \<and> om_id m' = sample_id 22 \<and> om_published_at m' = Some sample_now \<and>
     projected (sample_id 20) (sys_db t)"
proof -
  have "message_candidate (sample_env\<lparr>now_ms := (\<lambda>_. sample_now) 0\<rparr>) []
      (po_eventId \<lparr>po_eventId = None, po_stopAfterConsumerCommit = False\<rparr>) (sys_db sample_log) = Some sample_message"
    using sample_message_due by simp
  from publishOnce_delivers [OF sample_log_ok this] show ?thesis by auto
qed

text \<open>One publisher claims the message and lets the consumer project its event.\<close>

theorem exactly_once_projection_witness:
  "\<exists>w. reach (publishers_start sample_env) (publisher_step sample_env) w \<and>
     distinct (map lp_event_id (local_event_projections (sys_db (p_sys w)))) \<and>
     projected (sample_id 20) (sys_db (p_sys w))"
proof -
  let ?reach = "reach (publishers_start sample_env) (publisher_step sample_env)"
  let ?E = "p_at sample_env ''worker-1'' sample_now"
  let ?w0 = "\<lparr>p_sys = sample_log, p_pc = \<lambda>_. P_Idle\<rparr>"
  have r0: "?reach ?w0"
    by (rule reach_start) (simp add: publishers_start_def sample_log_ok)
  have cand: "message_candidate ?E [] None (sys_db sample_log) = Some sample_message"
    by (simp add: message_candidate_def publishable_def order_limit_1_def p_at_def)
  then obtain m S where cl: "claim_message ?E [] None sample_log = (Inr (Some m), S)" and id: "cm_event_id m = sample_id 20"
    by (simp add: claim_message_def tx_run)
  let ?w1 = "p_goto 0 (P_Claimed m) S ?w0"
  have r1: "?reach ?w1"
    using p_claim [of ?w0 0 sample_env "''worker-1''" sample_now "[]" None "Inr (Some m)" S] cl
    by (intro reach_step [OF r0]) simp
  have ok: "consumer_ok sample_env (sys_db S)" and h: "holds_row m (sys_db S)"
    using publishers.reach_inv [OF r1] by (auto simp: publishers_inv_def p_goto_def dest: spec [of _ 0])
  from consume_returns [OF ok refl holds_row_carried [OF h], of ?E] obtain T where c: "consume ?E m S = (Inr (), T)"
    by blast
  let ?w2 = "p_goto 0 (P_Consumed m) T ?w1"
  have r2: "?reach ?w2"
    using p_consume [of ?w1 0 m sample_env "''worker-1''" sample_now "Inr ()" T] c
    by (intro reach_step [OF r1]) (simp add: p_goto_def)
  have "projected (sample_id 20) (sys_db T)"
    using consume_keeps [OF ok holds_row_carried [OF h] c digest_at [symmetric]] id by simp
  with exactly_once_projection [OF r2] r2 show ?thesis by (intro exI [of _ ?w2]) (simp add: p_goto_def)
qed

end
