(* ===== verification/Backend.thy ===== *)
theory Backend
  imports Service Outbox
begin

text \<open>
  The backend as one system: the requests of the API, the workers and the outbox publishers on the same
  tables, in any interleaving. What the worker system assumes of the rest of the backend is here shown of
  every request and of every call of a publisher, and the workers are shown to leave the tables of the API alone.
\<close>

section \<open>Identifiers are handed out once\<close>

abbreviation ids :: "nat \<Rightarrow> 'a call \<Rightarrow> bool" where
  "ids n \<equiv> keeps (\<lambda>s. n \<le> sys_next s)"

lemma ids_statements [keeps_intros]:
  "ids n (newInviteToken E)" "ids n (upsert_founder E f a d)"
  by (auto intro!: keepsI simp: newInviteToken_def upsert_founder_def insert_row_def execute_apply insert_founder_def
      split: option.splits if_splits)

lemma ids_append [keeps_intros]: "ids n (DomainEvent_append E opts)" "ids n (insert_idempotency_do_nothing r)"
  unfolding append_parts insert_idempotency_do_nothing_def by (intro keeps_intros)+

lemma ids_inserts [keeps_intros]:
  "ids n (insert_company co)" "ids n (insert_profile cp)" "ids n (insert_initiative ini)" "ids n (insert_goal_version gv)"
  "ids n (insert_snapshot cs)" "ids n (insert_run ru)" "ids n (insert_counter rc)" "ids n (insert_task tk)"
  "ids n (insert_qualification gq)" "ids n (insert_budget bl)" "ids n (insert_object ob)"
  "ids n (insert_goal_attachment ga)" "ids n (insert_grant rg)" "ids n (insert_invite fi)" "ids n (insert_session fs)"
  unfolding insert_defs insert_invite_def insert_session_def by (rule keeps_ids)+

lemma ids_command:
  assumes "ids n (cx_execute opts)"
  shows "ids n (CommandExecutor_run E opts)"
  unfolding CommandExecutor_run_def by (intro keeps_intros assms)

lemma ids_bind_entries: "ids n (bind_entries E c g rows k agg xs)"
  by (induction xs arbitrary: k agg) (simp_all add: assertLinkable_def Let_def, (intro keeps_intros; assumption?)+)

lemma ids_bodies [keeps_intros]:
  "ids n (create_company_body E a k cdto)" "ids n (update_profile_body E a k v pdto)"
  "ids n (create_initiative_body E c a k idto)" "ids n (goal_body E c a k iid v gdto q)"
  unfolding create_company_body_def update_profile_body_def getByIdWithRunner_def create_initiative_body_def goal_body_def
    record_goal_def goal_rows_def goal_budgets_def bindToGoalVersion_def
  by (intro keeps_intros ids_bind_entries)+

lemma ids_calls [keeps_intros]:
  "ids n (Companies_create E actor key cid cdto)" "ids n (Companies_updateProfile E actor key v cid pdto)"
  "ids n (Initiatives_create E actor key cid idto)" "ids n (createGoalAndRun E actor iid v key cid gdto)"
  unfolding Companies_create_def Companies_updateProfile_def Initiatives_create_def createGoalAndRun_def
  by (intro keeps_intros ids_command;
      simp add: create_company_command_def update_profile_command_def create_initiative_command_def goal_command_def keeps_intros)+

lemma ids_accounts [keeps_intros]:
  "ids n (issueInvite E dto)" "ids n (redeemInvite J E token)" "ids n (signOut E actor)"
  unfolding issueInvite_def assertDevelopmentAdapter_def unavailableRegistration_def redeemInvite_def refuse_invite_def
    accept_invite_def insertSession_def signOut_def
  by (intro keeps_intros)+

lemma ids_case_list [keeps_intros]:
  "(xs = [] \<Longrightarrow> ids n m) \<Longrightarrow> (\<And>x ys. xs = x # ys \<Longrightarrow> ids n (f x ys)) \<Longrightarrow>
    ids n (case xs of [] \<Rightarrow> m | x # ys \<Rightarrow> f x ys)"
  by (simp split: list.split)

lemma ids_reads [keeps_intros]:
  "ids n (Companies_getCurrent a)" "ids n (Initiatives_getCurrent actor)" "ids n (getMetadata E actor i)"
  "ids n (Runs_get actor i)" "ids n (Runs_tasks actor i tq)" "ids n (Runs_events actor i eq)" "ids n (denyDelete actor i)"
  unfolding Companies_getCurrent_def Initiatives_getCurrent_def getMetadata_def Runs_get_def Runs_tasks_def Runs_events_def
    denyDelete_def assertRun_def getByIdWithRunner_def
  by (intro keeps_intros)+

lemma ids_guard [keeps_intros]: "ids n (canActivate J E b h)"
  unfolding canActivate_def verifyAccessToken_def assertSignedResourceAccess_def by (intro keeps_intros)

text \<open>With an object store that hands out no identifiers, so does every request.\<close>

lemma ids_store: "store_apart store \<Longrightarrow> ids n (port_put store k b)" "store_apart store \<Longrightarrow> ids n (port_get store k)"
  by (auto intro!: keepsI simp: store_apart_def)

lemma ids_files:
  assumes "store_apart store"
  shows "ids n (Attachments_ingest E store actor key cid dto)" "ids n (retrieveForRun E store actor r a)"
proof -
  have "ids n (ingest_body E store c a k v body)" for c a k v body
    unfolding ingest_body_def by (intro keeps_intros ids_store assms)
  then show "ids n (Attachments_ingest E store actor key cid dto)"
    unfolding Attachments_ingest_def auditRejection_def
    by (auto intro!: keeps_intros ids_command simp: ingest_command_def split: exn.split)
  show "ids n (retrieveForRun E store actor r a)"
    unfolding retrieveForRun_def by (intro keeps_intros ids_store assms)
qed

lemma ids_public: "ids n (public_handler P E r)"
  by (cases r) (simp_all add: Auth_Controller_issueInvite_def Auth_Controller_redeemInvite_def unavailableRegistration_def keeps_intros)

lemma ids_founder:
  assumes "store_apart (hp_store P)"
  shows "ids n (founder_handler P E cid rq actor r)"
  by (cases r)
    (simp_all add: ids_public del: public_handler.simps, unfold controller_defs, (intro keeps_intros ids_files assms)+)

lemma ids_handle:
  assumes "store_apart (hp_store P)"
  shows "ids n (handle P E cid rq)"
  unfolding handle_def by (intro keeps_intros ids_public ids_founder assms)

lemma serve_ids:
  assumes "store_apart (hp_store P)" and "serve P E rq s = (response, t)"
  shows "sys_next s \<le> sys_next t"
proof -
  have c: "sys_next s \<le> sys_next u" if "correlate E (rq_correlation_id rq) s = (r, u)" for r u
    using that by (auto simp: correlate_def split: if_splits)
  have h: "sys_next u \<le> sys_next v" if "handle P E cid rq u = (r, v)" for cid u r v
    using ids_growI [OF that ids_handle [OF assms(1)]] .
  from assms(2) show ?thesis
    by (fastforce simp: serve_def Let_def split: prod.splits sum.splits dest: c h)
qed

section \<open>What workers and publishers leave alone\<close>

text \<open>The tables of the API that no worker and no publisher writes.\<close>

definition api_part where
  "api_part d = (companies d, company_profile_versions d, initiatives d, (founders d, founder_invites d, founder_sessions d), context_snapshots d)"

definition api_ok :: "db \<Rightarrow> bool" where
  "api_ok d \<longleftrightarrow> companies_ok d \<and> initiatives_ok d \<and> auth_ok d \<and> snapshots_ok d"

lemma api_ok_cong: "api_part d = api_part d' \<Longrightarrow> api_ok d = api_ok d'"
  by (simp add: api_part_def api_ok_def entity_defs companies_ok_def history_ok_def [abs_def] profiles_of_def initiatives_ok_def)

lemma service_ok_parts: "service_ok M A K d \<longleftrightarrow> event_log_ok d \<and> api_ok d \<and> worker_rely M A K d"
  by (auto simp: service_ok_def api_ok_def)

lemma worker_calls_api:
  "db_keeps (\<lambda>d. api_part d = k) (claimTask E locked runId)" "db_keeps (\<lambda>d. api_part d = k) (loadContext co ru)"
  "db_keeps (\<lambda>d. api_part d = k) (isLeaseCurrent E c)" "db_keeps (\<lambda>d. api_part d = k) (beginModelInvocation c)"
  "db_keeps (\<lambda>d. api_part d = k) (completeTask E c a n res)" "db_keeps (\<lambda>d. api_part d = k) (failTask E c a err)"
  "db_keeps (\<lambda>d. api_part d = k) (blockUnknownModelOutcome E c)" "db_keeps (\<lambda>d. api_part d = k) (abandonAttempt E co a cls)"
  unfolding call_parts
  by (intro keeps_intros db_keeps_execute db_keeps_insert append_keeps_frame; simp add: api_part_def worker_updates)+

lemma api_partD:
  assumes "m s = (r, t)" and "\<And>k. db_keeps (\<lambda>d. api_part d = k) m"
  shows "api_part (sys_db t) = api_part (sys_db s)"
  by (rule db_keepsD [OF assms(2) refl assms(1)])

lemma worker_step_api:
  assumes "worker_step E w w'"
  shows "api_part (sys_db (w_sys w')) = api_part (sys_db (w_sys w))"
  using assms by cases (simp_all add: goto_def api_partD [OF _ worker_calls_api(1)] api_partD [OF _ worker_calls_api(2)]
      api_partD [OF _ worker_calls_api(3)] api_partD [OF _ worker_calls_api(4)] api_partD [OF _ worker_calls_api(5)]
      api_partD [OF _ worker_calls_api(6)] api_partD [OF _ worker_calls_api(7)] api_partD [OF _ worker_calls_api(8)])

text \<open>A publisher writes the leases of the outbox, the receipts and the projections.\<close>

lemma service_ok_publish:
  "map message_content ms = map message_content (outbox_messages d) \<Longrightarrow> service_ok M A K (d\<lparr>outbox_messages := ms\<rparr>) = service_ok M A K d"
  "service_ok M A K (d\<lparr>inbox_receipts := rs\<rparr>) = service_ok M A K d"
  "service_ok M A K (d\<lparr>local_event_projections := ps\<rparr>) = service_ok M A K d"
  using event_log_ok_cong [of "d\<lparr>outbox_messages := ms\<rparr>" d] event_log_ok_cong [of "d\<lparr>inbox_receipts := rs\<rparr>" d]
    event_log_ok_cong [of "d\<lparr>local_event_projections := ps\<rparr>" d]
    api_ok_cong [of "d\<lparr>outbox_messages := ms\<rparr>" d] api_ok_cong [of "d\<lparr>inbox_receipts := rs\<rparr>" d]
    api_ok_cong [of "d\<lparr>local_event_projections := ps\<rparr>" d]
  by (simp_all add: service_ok_parts log_part_def api_part_def worker_rely_def)

lemma publisher_calls:
  "db_keeps (service_ok M A K) (claim_message E locked eventId)" "db_keeps (service_ok M A K) (consume E m)"
  "db_keeps (service_ok M A K) (publish_message E m)"
proof -
  have "db_keeps (service_ok M A K) (execute (lease_message E i k))" for i k
    using service_ok_publish(1) [OF lease_message_same(1)]
    by (intro db_keeps_execute) (simp add: lease_message_def)
  then show "db_keeps (service_ok M A K) (claim_message E locked eventId)"
    unfolding claim_message_def by (intro keeps_intros)
  have "db_keeps (service_ok M A K) (insert_receipt_returning r)" "db_keeps (service_ok M A K) (insert_projection q)" for r q
    unfolding insert_receipt_returning_def insert_projection_def
    by (intro keeps_intros db_keeps_insert; simp add: service_ok_publish)+
  then show "db_keeps (service_ok M A K) (consume E m)"
    unfolding consume_def by (intro keeps_intros)
  show "db_keeps (service_ok M A K) (publish_message E m)"
    using service_ok_publish(1) [OF mark_published_same(1)]
    unfolding publish_message_def by (intro keeps_intros db_keeps_execute) (simp add: mark_published_def)
qed

lemma publisher_ids:
  "ids n (claim_message E locked eventId)" "ids n (consume E m)" "ids n (publish_message E m)"
  unfolding claim_message_def consume_def publish_message_def insert_receipt_returning_def insert_projection_def
  by (intro keeps_intros)+

section \<open>The system\<close>

text \<open>One step: a step of a worker, a request with its answer, or a transaction of a publisher, each at a process and a time.\<close>

inductive backend_step :: "http_ports \<Rightarrow> env \<Rightarrow> workers \<Rightarrow> workers \<Rightarrow> bool" for P E where
  worker: "worker_step E w w' \<Longrightarrow> backend_step P E w w'"
| request: "serve P (p_at E p now) rq (w_sys w) = (response, S) \<Longrightarrow> backend_step P E w (w\<lparr>w_sys := S\<rparr>)"
| claim_outbox: "claim_message (p_at E p now) locked eventId (w_sys w) = (r1, S) \<Longrightarrow> backend_step P E w (w\<lparr>w_sys := S\<rparr>)"
| consume_outbox: "consume (p_at E p now) m (w_sys w) = (r2, S) \<Longrightarrow> backend_step P E w (w\<lparr>w_sys := S\<rparr>)"
| publish_outbox: "publish_message (p_at E p now) m (w_sys w) = (r2, S) \<Longrightarrow> backend_step P E w (w\<lparr>w_sys := S\<rparr>)"

definition backend_start :: "workers \<Rightarrow> bool" where
  "backend_start w \<longleftrightarrow> workers_start w \<and> api_ok (sys_db (w_sys w))"

definition backend_inv :: "env \<Rightarrow> workers \<Rightarrow> bool" where
  "backend_inv E w \<longleftrightarrow> workers_inv E w \<and> api_ok (sys_db (w_sys w))"

text \<open>What requests and publishers do is what the workers allow the rest of the backend to do.\<close>

abbreviation service_now :: "db \<Rightarrow> db \<Rightarrow> bool" where
  "service_now d \<equiv> service_ok (model_invocation_effects d) (task_attempts d) (set (map task_identity (tasks d)))"

lemma service_nowI: "tables_inv d \<Longrightarrow> api_ok d \<Longrightarrow> service_now d d"
  by (simp add: service_ok_parts tables_inv_def worker_rely_def)

lemma service_now_outside: "service_now d d' \<Longrightarrow> outside_worker d d' \<and> api_ok d'"
  by (auto simp: service_ok_parts worker_rely_def outside_worker_def)

lemma backend_inv_outside:
  assumes "inj (uuid_at E)" and "backend_inv E w" and "service_now (sys_db (w_sys w)) (sys_db S)" and "sys_next (w_sys w) \<le> sys_next S"
  shows "backend_inv E (w\<lparr>w_sys := S\<rparr>)"
  using service_now_outside [OF assms(3)] assms(2) system_step_inv [OF assms(1) system_step.outside [OF _ assms(4)]]
  by (simp add: backend_inv_def)

lemma backend_inv_call:
  assumes "inj (uuid_at E)" and "backend_inv E w" and "m (w_sys w) = (r, S)"
    and "\<And>M A K. db_keeps (service_ok M A K) m" and "\<And>n. ids n m"
  shows "backend_inv E (w\<lparr>w_sys := S\<rparr>)"
proof (rule backend_inv_outside [OF assms(1,2)])
  have "service_now (sys_db (w_sys w)) (sys_db (w_sys w))"
    using assms(2) by (intro service_nowI) (simp_all add: backend_inv_def workers_inv_def)
  then show "service_now (sys_db (w_sys w)) (sys_db S)" by (rule db_keepsD [OF assms(4) _ assms(3)])
  show "sys_next (w_sys w) \<le> sys_next S" by (rule ids_growI [OF assms(3,5)])
qed

lemma backend_invariant:
  assumes "inj (uuid_at E)" and "store_apart (hp_store P)"
  shows "invariant_of backend_start (backend_step P E) (backend_inv E)"
proof unfold_locales
  fix w :: workers
  assume "backend_start w"
  then show "backend_inv E w" by (simp add: backend_start_def backend_inv_def workers_start_inv)
next
  fix w w'
  assume inv: "backend_inv E w" and step: "backend_step P E w w'"
  from step show "backend_inv E w'"
  proof cases
    case worker
    with inv worker_step_inv [OF assms(1)] api_ok_cong [OF worker_step_api] show ?thesis by (simp add: backend_inv_def)
  next
    case (request p now rq response S)
    have "service_now (sys_db (w_sys w)) (sys_db (w_sys w))"
      using inv by (intro service_nowI) (simp_all add: backend_inv_def workers_inv_def)
    with request show ?thesis
      using backend_inv_outside [OF assms(1) inv] serve_keeps [OF assms(2)] serve_ids [OF assms(2)] by blast
  next
    case (claim_outbox p now locked eventId r1 S)
    then show ?thesis using backend_inv_call [OF assms(1) inv _ publisher_calls(1) publisher_ids(1)] by blast
  next
    case (consume_outbox p now m r2 S)
    then show ?thesis using backend_inv_call [OF assms(1) inv _ publisher_calls(2) publisher_ids(2)] by blast
  next
    case (publish_outbox p now m r2 S)
    then show ?thesis using backend_inv_call [OF assms(1) inv _ publisher_calls(3) publisher_ids(3)] by blast
  qed
qed

text \<open>
  C1. The provider is invoked at most once per task by the whole backend. In every state that workers, requests
  and publishers can reach, in any interleaving and at any times, no two invocations carry the same
  effect key and no two are of the same task and type: what no request and no publisher writes is what the
  workers rely on.
\<close>

theorem backend_at_most_one_invocation:
  assumes "inj (uuid_at E)" and "store_apart (hp_store P)" and "reach backend_start (backend_step P E) w"
  shows "distinct (map ct_effect_key (w_log w)) \<and> distinct (map (\<lambda>c. (ct_id c, ct_type c)) (w_log w))"
  using invocations_distinct invariant_of.reach_inv [OF backend_invariant [OF assms(1,2)] assms(3)]
  unfolding backend_inv_def workers_inv_def by blast

text \<open>
  C2. The tables are well formed in every state of the backend. Whatever requests, workers and publishers have
  done so far, crashed or not: the event log is numbered without gaps and mirrored by the outbox; a task has one running attempt
  at most; every founder has one company at most, with its profile versions numbered and the last one
  current; every company one draft or active prototype at most; and the keys of accounts, sessions and
  invites are unique and every context snapshot names a profile version that exists.
\<close>

theorem backend_tables_ok:
  assumes "inj (uuid_at E)" and "store_apart (hp_store P)" and "reach backend_start (backend_step P E) w"
  shows "event_log_ok (sys_db (w_sys w)) \<and> one_running (sys_db (w_sys w)) \<and> companies_ok (sys_db (w_sys w)) \<and>
    initiatives_ok (sys_db (w_sys w)) \<and> auth_ok (sys_db (w_sys w)) \<and> snapshots_ok (sys_db (w_sys w))"
  using invariant_of.reach_inv [OF backend_invariant [OF assms(1,2)] assms(3)]
  by (simp add: backend_inv_def workers_inv_def tables_inv_def api_ok_def)

end
