(* ===== verification/Task_Properties.thy ===== *)
theory Task_Properties
  imports Task_Lifecycle
begin

text \<open>
  The properties of single calls of the orchestration worker, each applied to the sample
  database: the claim, the completion, the blocking of a failed invocation, and what a stale
  failure does to the shared invocation effect.
\<close>

section \<open>Sample states\<close>

definition sample_claim :: claimed_task where
  "sample_claim = claim_of sample_env sample_task sample_run (sample_uuid 0) (sample_uuid 1)"

definition sample_leased_task :: task_row where
  "sample_leased_task = sample_task\<lparr>t_state := T_RUNNING, t_lease_owner := Some ''worker-1'',
     t_lease_token := Some (sample_uuid 0), t_lease_expires_at := Some (1723435200000 + 60 * 1000),
     t_attempt_count := 1, t_row_version := 2\<rparr>"

text \<open>The sample database after the claim: the task leased, its attempt and effect running.\<close>

definition sample_leased_sys :: sys where
  "sample_leased_sys = sample_sys\<lparr>sys_db := sample_db\<lparr>tasks := [sample_leased_task],
     runs := [sample_run\<lparr>r_state := R_QUALIFYING, r_stage := S_PRODUCT, r_row_version := 2\<rparr>],
     task_attempts := [running_attempt sample_env sample_task sample_run (sample_uuid 0) (sample_uuid 1) (sample_uuid 2)],
     model_invocation_effects := [running_effect sample_env sample_task (sample_uuid 1)]\<rparr>, sys_next := 5\<rparr>"

definition sample_result :: model_result where
  "sample_result = \<lparr>mr_output_schema_version = ''product-brief-v1'', mr_content = JObj [],
     mr_provider = ''deterministic'', mr_model = ''m'', mr_model_revision = ''1'',
     mr_usage = \<lparr>mu_input_tokens = 0, mu_output_tokens = 0, mu_cost_minor = ''0''\<rparr>\<rparr>"

text \<open>The same claim under a lease token that is no longer the task's.\<close>

definition sample_lost_claim :: claimed_task where
  "sample_lost_claim = sample_claim\<lparr>ct_lease_token := sample_uuid 3, ct_attempt_id := sample_uuid 4\<rparr>"

lemmas sample_lease = sample_leased_sys_def sample_leased_task_def sample_claim_def claim_of_def
  sample_lost_claim_def running_attempt_def running_effect_def sample_result_def

lemma sample_candidate:
  "claim_candidate sample_env [] None sample_db = Some (sample_task, sample_run)"
  by (simp add: claim_candidate_def sample_db_def empty_db_def tasks_with_runs_def sample_rows
      claimable_def run_open_def terminal_run_def order_limit_1_def)

lemma sample_claimed_row:
  "claimed_row sample_claim (sys_db sample_leased_sys) =
     Some (sample_leased_task, sample_run\<lparr>r_state := R_QUALIFYING, r_stage := S_PRODUCT, r_row_version := 2\<rparr>)"
  "claimed_row sample_lost_claim (sys_db sample_leased_sys) =
     Some (sample_leased_task, sample_run\<lparr>r_state := R_QUALIFYING, r_stage := S_PRODUCT, r_row_version := 2\<rparr>)"
  by (simp_all add: claimed_row_def tasks_with_runs_def sample_lease sample_state)

lemma sample_lost_is_stale:
  "stale_claim sample_lost_claim (claimed_row sample_lost_claim (sys_db sample_leased_sys))"
  unfolding sample_claimed_row by (simp add: stale_claim_def sample_lease)

lemma sample_claim_is_current:
  "\<not> stale_claim sample_claim (claimed_row sample_claim (sys_db sample_leased_sys))"
  unfolding sample_claimed_row by (simp add: stale_claim_def sample_lease terminal_run_def)

theorem stale_worker_fenced_witness:
  "\<exists>t. completeTask sample_env sample_lost_claim (sample_uuid 4) 2 sample_result sample_leased_sys = (Inr (), t) \<and>
     fenced sample_lost_claim (sys_db sample_leased_sys) (sys_db t)"
  using stale_worker_fenced [OF sample_lost_is_stale, of sample_env 2 sample_result "JsError ''x''"]
  by (auto simp: sample_lost_claim_def)

section \<open>Claiming\<close>

text \<open>
  C23. A worker claims the most urgent claimable task. If the call hands out a claim, the claim is
  of a task that was claimable (queued and due, or running under an expired lease, of a run that
  is open), no claimable task had a higher priority, an earlier creation or, on a tie, a smaller
  id, and the task is now running under a fresh lease token, leased until \<open>lease_seconds\<close> from
  now, with one more attempt counted.
\<close>

theorem claimTask_takes_most_urgent:
  assumes "claimTask E locked runId s = (Inr (Some c), t)"
  shows "\<exists>x r. (x, r) \<in> set (tasks_with_runs (sys_db s)) \<and> claimable E locked runId (x, r) \<and>
     (\<forall>y \<in> set (tasks_with_runs (sys_db s)). claimable E locked runId y \<longrightarrow> claim_rank (x, r) \<le> claim_rank y) \<and>
     c = claim_of E x r (uuid_at E (sys_next s)) (uuid_at E (Suc (sys_next s))) \<and>
     x\<lparr>t_state := T_RUNNING, t_lease_owner := Some (worker_id E),
       t_lease_token := Some (ct_lease_token c),
       t_lease_expires_at := Some (now_ms E + lease_seconds E * 1000),
       t_attempt_count := t_attempt_count x + 1, t_row_version := t_row_version x + 1,
       t_updated_at := now_ms E\<rparr> \<in> set (tasks (sys_db t))"
  using assms
proof (cases rule: claimTask_InrE)
  case none
  then show ?thesis by simp
next
  case (claimed x r attemptId leaseToken pdid es cs evs ms)
  have best: "(x, r) \<in> set (tasks_with_runs (sys_db s)) \<and> claimable E locked runId (x, r) \<and>
     (\<forall>y \<in> set (tasks_with_runs (sys_db s)). claimable E locked runId y \<longrightarrow> claim_rank (x, r) \<le> claim_rank y)"
    using claimed(1) unfolding claim_candidate_def by (auto dest!: order_limit_1_Some)
  then have "x \<in> set (tasks (sys_db s))" by (simp add: in_tasks_with_runs)
  with claimed best show ?thesis
    by (intro exI [of _ x] exI [of _ r]) (auto simp: lease_task_def claim_of_def intro!: in_upd_where_hit)
qed

lemmas worker_run = tx_run sample_state insert_policy_decision_def insert_attempt_def
  insert_effect_do_nothing_def effect_check_def worker_updates model_policy_decision_def
  running_attempt_def running_effect_def DomainEvent_append_def task_started_event_def Let_def
  next_run_sequence_def insert_event_def insert_outbox_def new_event_def new_message_def
  effect_key_of_def insert_artifact_def insert_artifact_version_def published_artifact_def
  published_version_def brief_published_event_def reconciliation_event_def

lemma sample_claimTask:
  "\<exists>t. claimTask sample_env [] None sample_sys = (Inr (Some sample_claim), t)"
proof -
  have c: "claim_candidate sample_env [] None (sys_db sample_sys) = Some (sample_task, sample_run)"
    by (simp add: sample_sys_def sample_candidate)
  show ?thesis
    by (simp add: claimTask_def tx_run c) (simp add: worker_run sample_claim_def claim_of_def)
qed

theorem claimTask_takes_most_urgent_witness:
  "\<exists>t. claimTask sample_env [] None sample_sys = (Inr (Some sample_claim), t) \<and>
     (\<exists>x r. (x, r) \<in> set (tasks_with_runs sample_db) \<and> claimable sample_env [] None (x, r))"
proof -
  obtain t where t: "claimTask sample_env [] None sample_sys = (Inr (Some sample_claim), t)"
    using sample_claimTask by blast
  from claimTask_takes_most_urgent [OF t] t show ?thesis by (auto simp: sample_sys_def)
qed

text \<open>
  A worker is idle exactly when there is nothing to do: the claim returns no task if and only
  if no task is claimable, and then no table changes.
\<close>

theorem claimTask_idle_iff:
  "(fst (claimTask E locked runId s) = Inr None) =
     (filter (claimable E locked runId) (tasks_with_runs (sys_db s)) = []) \<and>
   (claimTask E locked runId s = (Inr None, s)) =
     (filter (claimable E locked runId) (tasks_with_runs (sys_db s)) = [])"
proof -
  have "claim_candidate E locked runId (sys_db s) = None"
    if "claimTask E locked runId s = (Inr None, t)" for t
    using that by (cases rule: claimTask_InrE) auto
  moreover have "claimTask E locked runId s = (Inr None, s)"
    if "claim_candidate E locked runId (sys_db s) = None"
    using that by (simp add: claimTask_def transaction_def tx_bind_def query_apply tx_return_def)
  moreover have "(claim_candidate E locked runId (sys_db s) = None) =
      (filter (claimable E locked runId) (tasks_with_runs (sys_db s)) = [])"
    by (simp add: claim_candidate_def)
  ultimately show ?thesis by (metis fst_conv prod.collapse)
qed

section \<open>Publishing the result\<close>

text \<open>
  What appending an event of the claim's run needs, and what the completion of a current claim
  needs beyond the claim itself: identifiers not handed out before are not in the tables, the
  digest has 64 digits, the run has no brief yet, and the company and the run's event counter
  exist.
\<close>

definition can_append :: "env \<Rightarrow> claimed_task \<Rightarrow> sys \<Rightarrow> bool" where
  "can_append E claim s \<longleftrightarrow> event_log_ok (sys_db s) \<and>
     (\<forall>k \<ge> sys_next s. uuid_at E k \<notin> ev_id ` set (events (sys_db s)) \<and>
        uuid_at E k \<notin> om_id ` set (outbox_messages (sys_db s))) \<and>
     (\<exists>co \<in> set (companies (sys_db s)). co_id co = ct_company_id claim) \<and>
     (\<exists>c \<in> set (run_event_counters (sys_db s)). rc_run_id c = ct_run_id claim \<and>
        rc_company_id c = ct_company_id claim)"

definition can_publish :: "env \<Rightarrow> claimed_task \<Rightarrow> sys \<Rightarrow> bool" where
  "can_publish E claim s \<longleftrightarrow> can_append E claim s \<and>
     (\<forall>k \<ge> sys_next s. uuid_at E k \<notin> ar_id ` set (artifacts (sys_db s)) \<and>
        uuid_at E k \<notin> av_id ` set (artifact_versions (sys_db s)) \<and>
        uuid_at E k \<notin> av_artifact_id ` set (artifact_versions (sys_db s))) \<and>
     (\<forall>v. length (canonicalDigest E v) = 64) \<and>
     (\<forall>a \<in> set (artifacts (sys_db s)). ar_run_id a \<noteq> ct_run_id claim)"

text \<open>Appending an event of the claim's run after the tables outside the log were updated.\<close>

lemma claim_append_succeeds:
  assumes ok: "can_append E claim s" and le: "sys_next s \<le> sys_next u"
    and part: "log_part (sys_db u) = log_part (sys_db s)" "outbox_messages (sys_db u) = outbox_messages (sys_db s)"
      "companies (sys_db u) = companies (sys_db s)"
    and run: "present (\<lambda>x. (r_company_id x, r_id x)) (ct_company_id claim, ct_run_id claim) (runs (sys_db u))"
    and opts: "ae_runId opts = Some (ct_run_id claim)" "ae_companyId opts = ct_company_id claim"
  shows "\<exists>eid t. DomainEvent_append E opts u = (Inr eid, t)"
proof -
  from ok obtain c where c: "c \<in> set (run_event_counters (sys_db s))" "rc_run_id c = ct_run_id claim"
    "rc_company_id c = ct_company_id claim" and co: "present co_id (ct_company_id claim) (companies (sys_db s))"
    by (auto simp: can_append_def present_def)
  have log: "event_log_ok (sys_db u)" using ok event_log_ok_cong [OF part(1)] by (simp add: can_append_def)
  have p: "run_event_counters (sys_db u) = run_event_counters (sys_db s)" "events (sys_db u) = events (sys_db s)"
    using part(1) by (simp_all add: log_part_def)
  have "\<exists>t. DomainEvent_append E opts u = (Inr (uuid_at E (sys_next u)), t)"
    by (rule append_succeeds [OF log opts(1), of c])
      (use ok le part p c co run opts in \<open>simp_all add: can_append_def\<close>)
  then show ?thesis by blast
qed

lemma insert_artifact_succeeds:
  assumes "ar_id r \<notin> ar_id ` set (artifacts (sys_db s))"
    and "\<forall>a \<in> set (artifacts (sys_db s)). ar_run_id a \<noteq> ar_run_id r"
    and "present (\<lambda>x. (r_company_id x, r_id x)) (ar_company_id r, ar_run_id r) (runs (sys_db s))"
  shows "insert_artifact r s = (Inr (), s\<lparr>sys_db := sys_db s\<lparr>artifacts := artifacts (sys_db s) @ [r]\<rparr>\<rparr>)"
  unfolding insert_artifact_def using assms
  by (intro insert_row_ok) (auto simp: absent_def, metis image_eqI)

lemma insert_artifact_version_succeeds:
  assumes "0 < av_version r" and "length (av_checksum r) = 64"
    and "av_id r \<notin> av_id ` set (artifact_versions (sys_db s))"
    and "av_artifact_id r \<notin> av_artifact_id ` set (artifact_versions (sys_db s))"
    and "present (\<lambda>x. (r_company_id x, r_id x)) (av_company_id r, av_run_id r) (runs (sys_db s))"
    and "present (\<lambda>x. (ar_company_id x, ar_id x)) (av_company_id r, av_artifact_id r) (artifacts (sys_db s))"
  shows "insert_artifact_version r s =
    (Inr (), s\<lparr>sys_db := sys_db s\<lparr>artifact_versions := artifact_versions (sys_db s) @ [r]\<rparr>\<rparr>)"
  unfolding insert_artifact_version_def using assms
  by (intro insert_row_ok) (auto simp: absent_def, (metis image_eqI)+)

lemma publish_succeeds:
  assumes ok: "can_publish E claim s"
    and run: "present (\<lambda>x. (r_company_id x, r_id x)) (ct_company_id claim, ct_run_id claim) (runs (sys_db s))"
  shows "\<exists>t. publish_result E claim a n res s = (Inr (), t)"
proof -
  let ?i = "sys_next s" let ?aid = "uuid_at E ?i" let ?avid = "uuid_at E (Suc ?i)"
  let ?s1 = "s\<lparr>sys_next := Suc (Suc ?i)\<rparr>"
  let ?ar = "published_artifact E claim ?aid" let ?av = "published_version E claim a res ?aid ?avid"
  let ?d2 = "sys_db s\<lparr>artifacts := artifacts (sys_db s) @ [?ar], artifact_versions := artifact_versions (sys_db s) @ [?av]\<rparr>"
  let ?d = "await_brief_approval E claim (succeed_task E claim (succeed_effect E claim res
     (succeed_attempt E (ct_company_id claim) a ?avid (mr_usage res)
     (point_artifact E (ct_company_id claim) ?aid ?avid ?d2))))"
  let ?o = "brief_published_event claim a n ?aid ?avid"
  have ar: "insert_artifact ?ar ?s1 = (Inr (), ?s1\<lparr>sys_db := sys_db s\<lparr>artifacts := artifacts (sys_db s) @ [?ar]\<rparr>\<rparr>)"
    using ok run by (subst insert_artifact_succeeds) (auto simp: published_artifact_def can_publish_def)
  have av: "insert_artifact_version ?av (?s1\<lparr>sys_db := sys_db s\<lparr>artifacts := artifacts (sys_db s) @ [?ar]\<rparr>\<rparr>)
      = (Inr (), ?s1\<lparr>sys_db := ?d2\<rparr>)"
    using ok run by (subst insert_artifact_version_succeeds)
      (auto simp: published_version_def published_artifact_def can_publish_def present_def)
  have "\<exists>eid t. DomainEvent_append E ?o (?s1\<lparr>sys_db := ?d\<rparr>) = (Inr eid, t)"
  proof (rule claim_append_succeeds [where s = s and claim = claim])
    show "present (\<lambda>x. (r_company_id x, r_id x)) (ct_company_id claim, ct_run_id claim)
        (runs (sys_db (?s1\<lparr>sys_db := ?d\<rparr>)))"
      using run by (simp add: worker_updates present_upd_where)
  qed (use ok in \<open>simp_all add: can_publish_def log_part_def worker_updates brief_published_event_def\<close>)
  then obtain eid t where "DomainEvent_append E ?o (?s1\<lparr>sys_db := ?d\<rparr>) = (Inr eid, t)" by blast
  with ar av have "publish_result E claim a n res s = (Inr (), t)"
    by (simp add: publish_result_def tx_bind_def tx_then_def newId_apply execute_apply tx_return_def)
  then show ?thesis by blast
qed

text \<open>
  C17. A current claim is completed in full. If the worker still holds the lease of a running task
  whose run is open, and the run has no brief yet, completing the task returns normally and in one
  transaction publishes the artifact version with the digest and the byte length of the content
  and makes it the current version of a new artifact, ends the task as succeeded without a lease,
  moves the run to the founder's approval of the brief, records the outcome on the running
  invocation effect, and appends exactly one event, the publication, to the log, which is well
  formed again.
\<close>

theorem completeTask_publishes:
  assumes "claimed_row claim (sys_db s) = Some (x, r)"
    and "\<not> stale_claim claim (Some (x, r))" and "ct_run_id claim = t_run_id x"
    and "can_publish E claim s"
  shows "\<exists>t aid avid eid q. completeTask E claim (ct_attempt_id claim) n res s = (Inr (), t) \<and>
     published_version E claim (ct_attempt_id claim) res aid avid \<in> set (artifact_versions (sys_db t)) \<and>
     (published_artifact E claim aid)\<lparr>ar_current_version_id := Some avid\<rparr> \<in> set (artifacts (sys_db t)) \<and>
     x\<lparr>t_state := T_SUCCEEDED, t_lease_owner := None, t_lease_token := None, t_lease_expires_at := None,
       t_completed_at := Some (now_ms E), t_updated_at := now_ms E,
       t_row_version := t_row_version x + 1\<rparr> \<in> set (tasks (sys_db t)) \<and>
     r\<lparr>r_state := R_AWAITING_BRIEF_APPROVAL, r_stage := S_PRODUCT, r_row_version := r_row_version r + 1,
       r_updated_at := now_ms E\<rparr> \<in> set (runs (sys_db t)) \<and>
     model_invocation_effects (sys_db t) = model_invocation_effects (succeed_effect E claim res (sys_db s)) \<and>
     events (sys_db t) = events (sys_db s) @
       [new_event E (brief_published_event claim (ct_attempt_id claim) n aid avid) eid q] \<and>
     event_log_ok (sys_db t)"
proof -
  note row = claimed_row_Some [OF assms(1)]
  have run: "present (\<lambda>x. (r_company_id x, r_id x)) (ct_company_id claim, ct_run_id claim) (runs (sys_db s))"
    using row assms(3) by (auto simp: present_def)
  from publish_succeeds [OF assms(4) run] obtain t where
    t: "publish_result E claim (ct_attempt_id claim) n res s = (Inr (), t)" by blast
  then have c: "completeTask E claim (ct_attempt_id claim) n res s = (Inr (), t)"
    using assms(1,2) by (simp add: completeTask_current transaction_Inr)
  from assms(4) have "event_log_ok (sys_db t)"
    using db_keepsD [OF worker_log(3) _ c] by (simp add: can_publish_def can_append_def)
  with c t show ?thesis
  proof (cases rule: publish_result_InrE [OF t])
    case (1 aid avid cs eid q ms)
    have "x\<lparr>t_state := T_SUCCEEDED, t_lease_owner := None, t_lease_token := None, t_lease_expires_at := None,
       t_completed_at := Some (now_ms E), t_updated_at := now_ms E,
       t_row_version := t_row_version x + 1\<rparr> \<in> set (tasks (succeed_task E claim (sys_db s)))"
      using row by (auto simp: succeed_task_def set_upd_where)
    moreover have "r\<lparr>r_state := R_AWAITING_BRIEF_APPROVAL, r_stage := S_PRODUCT, r_row_version := r_row_version r + 1,
       r_updated_at := now_ms E\<rparr> \<in> set (runs (await_brief_approval E claim (sys_db s)))"
      using row assms(3) by (auto simp: await_brief_approval_def set_upd_where)
    moreover have "(published_artifact E claim aid)\<lparr>ar_current_version_id := Some avid\<rparr> \<in> set (artifacts (sys_db t))"
      using 1 by (auto simp: point_artifact_def published_artifact_def set_upd_where)
    ultimately show ?thesis
      using 1 c \<open>event_log_ok (sys_db t)\<close>
      by (intro exI [of _ t] exI [of _ aid] exI [of _ avid] exI [of _ eid] exI [of _ q]) simp
  qed
qed

lemma sample_can_publish: "can_publish sample_env sample_claim sample_leased_sys"
  by (simp add: can_publish_def can_append_def sample_lease sample_state event_log_ok_def numbered_def run_events_def)

theorem completeTask_publishes_witness:
  "\<exists>t. completeTask sample_env sample_claim (sample_uuid 1) 1 sample_result sample_leased_sys = (Inr (), t) \<and>
     event_log_ok (sys_db t)"
proof -
  have "\<not> stale_claim sample_claim (Some (sample_leased_task,
      sample_run\<lparr>r_state := R_QUALIFYING, r_stage := S_PRODUCT, r_row_version := 2\<rparr>))"
    using sample_claim_is_current unfolding sample_claimed_row .
  from completeTask_publishes [OF sample_claimed_row(1) this _ sample_can_publish, of 1 sample_result]
  show ?thesis by (auto simp: sample_lease sample_rows)
qed

section \<open>Failing\<close>

text \<open>
  A failed invocation blocks and is never retried silently. If the worker still holds the
  lease and the run was not cancelled, failing returns normally: the task is blocked for
  reconciliation and free of its lease, the run is blocked with the same reason, the running
  attempt is failed, the running effect is unknown (so no other worker may invoke the provider
  for it), and one event asks for the reconciliation. A blocked task is not claimable.
\<close>

theorem failTask_blocks:
  assumes "claimed_row claim (sys_db s) = Some (x, r)"
    and "\<not> stale_claim claim (Some (x, r))" and "ct_run_id claim = t_run_id x"
    and "r_cancellation_requested_at r = None" and "can_append E claim s"
  shows "\<exists>t x' r' eid q. failTask E claim (ct_attempt_id claim) err s = (Inr (), t) \<and>
     x' \<in> set (tasks (sys_db t)) \<and> t_id x' = ct_id claim \<and> t_state x' = T_BLOCKED \<and>
     t_lease_token x' = None \<and> \<not> claimable E' locked runId (x', r') \<and>
     r' \<in> set (runs (sys_db t)) \<and> r_id r' = ct_run_id claim \<and> r_state r' = R_BLOCKED \<and>
     r_blocking_reason_code r' = Some ''model_outcome_reconciliation_required'' \<and>
     task_attempts (sys_db t) = task_attempts (fail_attempt E (ct_company_id claim) (ct_attempt_id claim) (sys_db s)) \<and>
     model_invocation_effects (sys_db t) = model_invocation_effects (unknown_effect E claim (sys_db s)) \<and>
     events (sys_db t) = events (sys_db s) @ [new_event E (reconciliation_event claim) eid q]"
proof -
  note row = claimed_row_Some [OF assms(1)]
  have cur: "t_state x = T_RUNNING" "t_lease_token x = Some (ct_lease_token claim)" "\<not> terminal_run (r_state r)"
    using assms(2) by (auto simp: stale_claim_def)
  let ?d = "block_run E claim (release_blocked_task E 0 claim (unknown_effect E claim
     (fail_attempt E (ct_company_id claim) (ct_attempt_id claim) (sys_db s))))"
  have "\<exists>eid t. DomainEvent_append E (reconciliation_event claim) (s\<lparr>sys_db := ?d\<rparr>) = (Inr eid, t)"
  proof (rule claim_append_succeeds [where s = s and claim = claim])
    show "present (\<lambda>x. (r_company_id x, r_id x)) (ct_company_id claim, ct_run_id claim)
        (runs (sys_db (s\<lparr>sys_db := ?d\<rparr>)))"
      using row assms(3) by (simp add: worker_updates present_upd_where) (auto simp: present_def)
  qed (use assms(5) in \<open>simp_all add: log_part_def worker_updates reconciliation_event_def\<close>)
  then obtain eid t where
    "DomainEvent_append E (reconciliation_event claim) (s\<lparr>sys_db := ?d\<rparr>) = (Inr eid, t)" by blast
  then have f: "failTask E claim (ct_attempt_id claim) err s = (Inr (), t)"
    using assms(1,2) by (simp add: failTask_def transaction_def tx_bind_def tx_then_def query_apply
        execute_apply tx_return_def)
  let ?x = "x\<lparr>t_state := T_BLOCKED, t_blocker_code := Some ''model_outcome_reconciliation_required'',
      t_lease_owner := None, t_lease_token := None, t_lease_expires_at := None,
      t_row_version := t_row_version x + 0, t_updated_at := now_ms E\<rparr>"
  let ?r = "r\<lparr>r_state := R_BLOCKED, r_blocking_reason_code := Some ''model_outcome_reconciliation_required'',
      r_row_version := r_row_version r + 1, r_updated_at := now_ms E\<rparr>"
  have x: "?x \<in> set (tasks (release_blocked_task E 0 claim (sys_db s)))"
    unfolding release_blocked_task_def using row cur by (auto intro!: in_upd_where_hit)
  have r: "?r \<in> set (runs (block_run E claim (sys_db s)))"
    unfolding block_run_def using row cur assms(3,4)
    by (auto simp: run_open_def intro!: in_upd_where_hit)
  have nc: "\<not> claimable E' locked runId (?x, ?r)" by (simp add: claimable_def)
  show ?thesis
  proof (rule failTask_current_InrE [OF f])
    show "\<not> stale_claim claim (claimed_row claim (sys_db s))" using assms(1,2) by simp
  next
    fix cs eid q ms
    assume "sys_db t = sys_db s
      \<lparr>task_attempts := task_attempts (fail_attempt E (ct_company_id claim) (ct_attempt_id claim) (sys_db s)),
       model_invocation_effects := model_invocation_effects (unknown_effect E claim (sys_db s)),
       tasks := tasks (release_blocked_task E 0 claim (sys_db s)),
       runs := runs (block_run E claim (sys_db s)), run_event_counters := cs,
       events := events (sys_db s) @ [new_event E (reconciliation_event (claim\<lparr>ct_attempt_id := ct_attempt_id claim\<rparr>)) eid q],
       outbox_messages := ms\<rparr>"
    with f x r nc row assms(3) show ?thesis
      by (intro exI [of _ t] exI [of _ ?x] exI [of _ ?r] exI [of _ eid] exI [of _ q]) simp
  qed
qed

theorem failTask_blocks_witness:
  "\<exists>t x'. failTask sample_env sample_claim (sample_uuid 1) (JsError ''x'') sample_leased_sys = (Inr (), t) \<and>
     x' \<in> set (tasks (sys_db t)) \<and> t_state x' = T_BLOCKED"
proof -
  have "\<not> stale_claim sample_claim (Some (sample_leased_task,
      sample_run\<lparr>r_state := R_QUALIFYING, r_stage := S_PRODUCT, r_row_version := 2\<rparr>))"
    using sample_claim_is_current unfolding sample_claimed_row .
  from failTask_blocks [OF sample_claimed_row(1) this _ _ conjunct1 [OF sample_can_publish [unfolded can_publish_def]],
      of "JsError ''x''" sample_env "[]" None]
  show ?thesis by (auto simp: sample_lease sample_rows)
qed

text \<open>
  What a stale failure does to the effect its task shares. A worker that lost its lease and
  then fails turns the running invocation effect of the task into UNKNOWN although another worker
  holds the lease; when that worker completes the task, the task succeeds and the effect stays
  UNKNOWN: the completion only updates a running effect. The recorded outcome of the invocation
  is then wrong for a task that succeeded.
\<close>

theorem stale_failure_spoils_effect:
  assumes "stale_claim old (claimed_row old (sys_db s))"
    and "failTask E old (ct_attempt_id old) err s = (Inr (), u)"
    and "ct_company_id new = ct_company_id old" and "ct_effect_key new = ct_effect_key old"
    and "\<not> stale_claim new (claimed_row new (sys_db u))"
    and "completeTask E' new (ct_attempt_id new) n res u = (Inr (), t)"
    and "e \<in> set (model_invocation_effects (sys_db s))"
    and "me_company_id e = ct_company_id new" and "me_effect_key e = ct_effect_key new"
    and "me_status e = E_RUNNING"
  shows "(\<exists>f \<in> set (model_invocation_effects (sys_db t)). me_effect_key f = ct_effect_key new \<and>
        me_company_id f = ct_company_id new \<and> me_status f = E_UNKNOWN \<and> me_output_digest f = me_output_digest e) \<and>
     (\<exists>x \<in> set (tasks (sys_db t)). t_id x = ct_id new \<and> t_state x = T_SUCCEEDED)"
proof -
  let ?f = "e\<lparr>me_status := E_UNKNOWN, me_completed_at := Some (now_ms E)\<rparr>"
  have "u = s\<lparr>sys_db := unknown_effect E old
      (abandon_attempt E (ct_company_id old) (ct_attempt_id old) ''STALE_FAILURE'' (sys_db s))\<rparr>"
    using failTask_stale [OF assms(1), of E "ct_attempt_id old" err] assms(2) by simp
  then have fu: "?f \<in> set (model_invocation_effects (sys_db u))"
    using assms(3,4,7-10) by (auto simp: unknown_effect_def abandon_attempt_def intro!: in_upd_where_hit)
  from assms(5) obtain x r where row: "claimed_row new (sys_db u) = Some (x, r)"
    by (rule current_claimE)
  have "publish_result E' new (ct_attempt_id new) n res u = (Inr (), t)"
    using assms(5,6) by (simp add: completeTask_current transaction_Inr)
  then show ?thesis
  proof (rule publish_result_InrE)
    fix aid avid cs eid q ms
    assume t: "sys_db t = sys_db u
      \<lparr>artifacts := artifacts (point_artifact E' (ct_company_id new) aid avid
         (sys_db u\<lparr>artifacts := artifacts (sys_db u) @ [published_artifact E' new aid]\<rparr>)),
       artifact_versions := artifact_versions (sys_db u) @ [published_version E' new (ct_attempt_id new) res aid avid],
       task_attempts := task_attempts (succeed_attempt E' (ct_company_id new) (ct_attempt_id new) avid (mr_usage res) (sys_db u)),
       model_invocation_effects := model_invocation_effects (succeed_effect E' new res (sys_db u)),
       tasks := tasks (succeed_task E' new (sys_db u)),
       runs := runs (await_brief_approval E' new (sys_db u)),
       run_event_counters := cs,
       events := events (sys_db u) @ [new_event E' (brief_published_event new (ct_attempt_id new) n aid avid) eid q],
       outbox_messages := ms\<rparr>"
    have "?f \<in> set (model_invocation_effects (sys_db t))"
      using fu unfolding t by (auto simp: succeed_effect_def intro!: in_upd_where_keep)
    moreover have "\<exists>y \<in> set (tasks (sys_db t)). t_id y = ct_id new \<and> t_state y = T_SUCCEEDED"
    proof -
      let ?y = "x\<lparr>t_state := T_SUCCEEDED, t_lease_owner := None, t_lease_token := None,
        t_lease_expires_at := None, t_completed_at := Some (now_ms E'), t_updated_at := now_ms E',
        t_row_version := t_row_version x + 1\<rparr>"
      have "?y \<in> set (tasks (sys_db t))"
        using claimed_row_Some [OF row] unfolding t by (auto simp: succeed_task_def intro!: in_upd_where_hit)
      then show ?thesis using claimed_row_Some [OF row] by (intro bexI [of _ ?y]) simp_all
    qed
    ultimately show ?thesis using assms(8,9) by (intro conjI bexI [of _ ?f]) simp_all
  qed
qed

lemma sample_spoiled:
  "\<exists>u t. failTask sample_env sample_lost_claim (ct_attempt_id sample_lost_claim) (JsError ''x'') sample_leased_sys = (Inr (), u) \<and>
     \<not> stale_claim sample_claim (claimed_row sample_claim (sys_db u)) \<and>
     completeTask sample_env sample_claim (ct_attempt_id sample_claim) 1 sample_result u = (Inr (), t)"
proof -
  let ?d = "unknown_effect sample_env sample_lost_claim (abandon_attempt sample_env
      (ct_company_id sample_lost_claim) (ct_attempt_id sample_lost_claim) ''STALE_FAILURE'' (sys_db sample_leased_sys))"
  let ?u = "sample_leased_sys\<lparr>sys_db := ?d\<rparr>"
  have row: "claimed_row sample_claim (sys_db ?u) = claimed_row sample_claim (sys_db sample_leased_sys)"
    by (simp add: claimed_row_def tasks_with_runs_def worker_updates)
  then have cur: "\<not> stale_claim sample_claim (claimed_row sample_claim (sys_db ?u))"
    using sample_claim_is_current by simp
  have "can_publish sample_env sample_claim ?u"
    using sample_can_publish event_log_ok_cong [of ?d "sys_db sample_leased_sys"]
    by (simp add: can_publish_def can_append_def log_part_def worker_updates)
  moreover have "present (\<lambda>x. (r_company_id x, r_id x)) (ct_company_id sample_claim, ct_run_id sample_claim) (runs ?d)"
    by (simp add: present_def worker_updates sample_lease sample_state)
  ultimately obtain t where "completeTask sample_env sample_claim (ct_attempt_id sample_claim) 1 sample_result ?u = (Inr (), t)"
    using publish_succeeds [of sample_env sample_claim ?u "ct_attempt_id sample_claim" 1 sample_result]
      cur by (auto simp: completeTask_current transaction_Inr)
  with cur show ?thesis
    using failTask_stale [OF sample_lost_is_stale] by blast
qed

theorem stale_failure_spoils_effect_witness:
  "\<exists>t :: sys. (\<exists>f \<in> set (model_invocation_effects (sys_db t)). me_status f = E_UNKNOWN) \<and>
     (\<exists>x \<in> set (tasks (sys_db t)). t_state x = T_SUCCEEDED)"
proof -
  from sample_spoiled obtain u t where
    f: "failTask sample_env sample_lost_claim (ct_attempt_id sample_lost_claim) (JsError ''x'') sample_leased_sys = (Inr (), u)"
    and c: "\<not> stale_claim sample_claim (claimed_row sample_claim (sys_db u))"
    and d: "completeTask sample_env sample_claim (ct_attempt_id sample_claim) 1 sample_result u = (Inr (), t)"
    by blast
  have "running_effect sample_env sample_task (sample_uuid 1) \<in> set (model_invocation_effects (sys_db sample_leased_sys))"
    by (simp add: sample_leased_sys_def)
  from stale_failure_spoils_effect [OF sample_lost_is_stale f _ _ c d this]
  have "(\<exists>f \<in> set (model_invocation_effects (sys_db t)). me_status f = E_UNKNOWN) \<and>
     (\<exists>x \<in> set (tasks (sys_db t)). t_state x = T_SUCCEEDED)"
    by (auto simp: sample_lease sample_rows)
  then show ?thesis by (rule exI)
qed

end
