(* ===== verification/Worker_Witnesses.thy ===== *)
theory Worker_Witnesses
  imports Worker_System Task_Properties
begin

text \<open>
  A run of the worker system on the sample database: one worker claims the queued task, loads its
  context, checks its lease, begins the invocation and makes it. The guarantees of the system are
  applied to the states it passes through.
\<close>

definition sample_workers :: workers where
  "sample_workers = \<lparr>w_sys = sample_sys, w_pc = (\<lambda>_. Idle), w_log = []\<rparr>"

definition sample_claimed_sys :: sys where
  "sample_claimed_sys = snd (claimTask sample_env [] None sample_sys)"

lemma sample_claimed_run:
  "claimTask sample_env [] None sample_sys = (Inr (Some sample_claim), sample_claimed_sys)"
  using sample_claimTask by (auto simp: sample_claimed_sys_def)

lemma sample_claimed_fields:
  "tasks (sys_db sample_claimed_sys) = [sample_leased_task\<lparr>t_updated_at := 1723435200000\<rparr>] \<and>
   runs (sys_db sample_claimed_sys) = [sample_run\<lparr>r_state := R_QUALIFYING, r_stage := S_PRODUCT,
     r_row_version := 2, r_updated_at := 1723435200000\<rparr>] \<and>
   model_invocation_effects (sys_db sample_claimed_sys) = [running_effect sample_env sample_task (sample_uuid 1)] \<and>
   context_snapshots (sys_db sample_claimed_sys) = [sample_snapshot] \<and>
   goal_versions (sys_db sample_claimed_sys) = [sample_goal] \<and>
   company_profile_versions (sys_db sample_claimed_sys) = [sample_profile]"
proof -
  have c: "claim_candidate sample_env [] None (sys_db sample_sys) = Some (sample_task, sample_run)"
    by (simp add: sample_sys_def sample_candidate)
  from sample_claimed_run show ?thesis
  proof (cases rule: claimTask_InrE)
    case (claimed x r attemptId leaseToken pdid es cs evs ms)
    from claimed(1) c have x: "x = sample_task" "r = sample_run" by simp_all
    have d: "sys_db sample_sys = sample_db" "sys_next sample_sys = 0" by (simp_all add: sample_sys_def)
    have "model_invocation_effects sample_db = []" by (simp add: sample_db_def empty_db_def)
    with claimed x d have "es = [running_effect sample_env sample_task (sample_uuid 1)]" by simp
    then show ?thesis
      using claimed x d by (simp add: lease_task_def start_run_def sample_db_def empty_db_def
          sample_leased_task_def sample_rows)
  qed simp
qed

lemma sample_at: "at sample_env ''worker-1'' 1723435200000 = sample_env"
  by (simp add: at_def sample_env_def)

definition sample_context :: context_row where
  "sample_context = \<lparr>cr_goal = gv_structured_goal sample_goal, cr_purpose = cp_purpose sample_profile,
     cr_target_customer = cp_target_customer sample_profile\<rparr>"

lemma sample_load:
  "loadContext (ct_company_id sample_claim) (ct_run_id sample_claim) sample_claimed_sys =
     (Inr sample_context, sample_claimed_sys)"
  using sample_claimed_fields
  by (simp add: loadContext_def tx_run find_context_def sample_context_def sample_claim_def claim_of_def sample_rows)

lemma sample_current: "isLeaseCurrent sample_env sample_claim sample_claimed_sys = (Inr True, sample_claimed_sys)"
  using sample_claimed_fields
  by (simp add: isLeaseCurrent_def query_apply claimed_row_def tasks_with_runs_def sample_lease sample_rows
      run_open_def terminal_run_def)

lemma sample_begin: "\<exists>S. beginModelInvocation sample_claim sample_claimed_sys = (Inr True, S)"
  using sample_claimed_fields
  by (simp add: beginModelInvocation_def tx_run find_effect_def sample_lease sample_rows)

lemma sample_unique: "inj sample_uuid"
  by (simp add: inj_def)

lemma sample_started: "workers_start sample_workers"
  by (simp add: workers_start_def sample_workers_def sample_state one_running_def running_of_def
      event_log_ok_def numbered_def run_events_def)

definition sample_claimed_workers :: workers where
  "sample_claimed_workers = goto 0 (Claimed sample_claim) sample_claimed_sys sample_workers"

lemma sample_claim_step: "worker_step sample_env sample_workers sample_claimed_workers"
  using worker_step.claim [of sample_workers 0 sample_env "''worker-1''" 1723435200000 "[]" None]
    sample_claimed_run
  by (simp add: sample_at sample_claimed_workers_def sample_workers_def)

lemma sample_claimed_reach: "reach workers_start (unique_step sample_env) sample_claimed_workers"
proof (rule reach_step)
  show "reach workers_start (unique_step sample_env) sample_workers"
    using sample_started by (rule reach_start)
qed (simp add: unique_step_def sample_unique system_step.worker sample_claim_step)

lemma sample_invoked: "\<exists>w. (worker_step sample_env)\<^sup>*\<^sup>* sample_workers w \<and> w_log w = [sample_claim]"
proof -
  let ?w1 = sample_claimed_workers
  have p1: "w_pc ?w1 0 = Claimed sample_claim" "w_sys ?w1 = sample_claimed_sys" "w_log ?w1 = []"
    by (simp_all add: sample_claimed_workers_def goto_def sample_workers_def)
  define w2 where "w2 = goto 0 (Loaded sample_claim sample_context) sample_claimed_sys ?w1"
  have s2: "worker_step sample_env ?w1 w2"
    using worker_step.load [OF p1(1), of "Inr sample_context" sample_claimed_sys sample_env] sample_load p1
    by (simp add: w2_def on_result_def)
  have p2: "w_pc w2 0 = Loaded sample_claim sample_context" "w_sys w2 = sample_claimed_sys" "w_log w2 = []"
    using p1 by (simp_all add: w2_def goto_def)
  define w3 where "w3 = goto 0 (Checked sample_claim sample_context) sample_claimed_sys w2"
  have s3: "worker_step sample_env w2 w3"
    using worker_step.check [OF p2(1), of sample_env "''worker-1''" 1723435200000 "Inr True" sample_claimed_sys]
      sample_current p2 by (simp add: w3_def on_result_def sample_at)
  have p3: "w_pc w3 0 = Checked sample_claim sample_context" "w_sys w3 = sample_claimed_sys" "w_log w3 = []"
    using p2 by (simp_all add: w3_def goto_def)
  from sample_begin obtain S where S: "beginModelInvocation sample_claim sample_claimed_sys = (Inr True, S)" by blast
  define w4 where "w4 = goto 0 (Begun sample_claim sample_context) S w3"
  have s4: "worker_step sample_env w3 w4"
    using worker_step.begin_invocation [OF p3(1), of "Inr True" S sample_env] S p3
    by (simp add: w4_def on_result_def)
  have p4: "w_pc w4 0 = Begun sample_claim sample_context" "w_log w4 = []"
    using p3 by (simp_all add: w4_def goto_def)
  define w5 where "w5 = (goto 0 (on_result sample_claim (Invoked sample_claim) (Inr sample_result)) (w_sys w4) w4)
    \<lparr>w_log := w_log w4 @ [sample_claim]\<rparr>"
  have s5: "worker_step sample_env w4 w5"
    unfolding w5_def by (rule worker_step.invoke [OF p4(1)])
  have "(worker_step sample_env)\<^sup>*\<^sup>* sample_workers w5"
    using sample_claim_step s2 s3 s4 s5 by (meson rtranclp.rtrancl_refl rtranclp.rtrancl_into_rtrancl)
  moreover have "w_log w5 = [sample_claim]" by (simp add: w5_def p4(2))
  ultimately show ?thesis by blast
qed

theorem at_most_one_invocation_witness:
  "\<exists>w :: workers. w_log w = [sample_claim] \<and> distinct (map ct_effect_key (w_log w))"
proof -
  from sample_invoked obtain w where w: "(worker_step sample_env)\<^sup>*\<^sup>* sample_workers w" "w_log w = [sample_claim]"
    by blast
  have "(unique_step sample_env)\<^sup>*\<^sup>* sample_workers w"
    using w(1) by (rule rtranclp_mono [THEN predicate2D, rotated]) (auto simp: unique_step_def sample_unique system_step.worker)
  then have "reach workers_start (unique_step sample_env) w" by (rule reach_steps) (rule reach_start, rule sample_started)
  with w(2) at_most_one_invocation show ?thesis by blast
qed

lemma sample_claimed_current:
  "\<not> stale_claim sample_claim (claimed_row sample_claim (sys_db (w_sys sample_claimed_workers)))"
  using sample_claimed_fields
  by (simp add: sample_claimed_workers_def goto_def claimed_row_def tasks_with_runs_def stale_claim_def
      sample_lease sample_rows terminal_run_def)

theorem one_current_holder_witness:
  "\<exists>i c. pc_claim (w_pc sample_claimed_workers i) = Some c \<and> c = sample_claim \<and> i = (0 :: nat)"
proof -
  have p: "pc_claim (w_pc sample_claimed_workers 0) = Some sample_claim"
    by (simp add: sample_claimed_workers_def goto_def)
  from one_current_holder [OF sample_claimed_reach p p refl refl sample_claimed_current sample_claimed_current] p
  show ?thesis by blast
qed

theorem running_attempts_and_log_witness:
  "one_running (sys_db sample_claimed_sys) \<and> event_log_ok (sys_db sample_claimed_sys)"
  using running_attempts_and_log [OF sample_claimed_reach]
  by (simp add: sample_claimed_workers_def goto_def)

text \<open>The same database with the run cancelled: the worker finds nothing to claim.\<close>

definition sample_ended_workers :: workers where
  "sample_ended_workers = sample_workers\<lparr>w_sys := sample_sys\<lparr>sys_db :=
     sample_db\<lparr>runs := [sample_run\<lparr>r_state := R_CANCELED\<rparr>]\<rparr>\<rparr>\<rparr>"

theorem ended_run_is_final_witness:
  "\<exists>w'. worker_step sample_env sample_ended_workers w' \<and>
     sample_run\<lparr>r_state := R_CANCELED\<rparr> \<in> set (runs (sys_db (w_sys w')))"
proof -
  have "workers_start sample_ended_workers"
    by (simp add: workers_start_def sample_ended_workers_def sample_workers_def sample_state one_running_def
        running_of_def event_log_ok_def numbered_def run_events_def)
  then have r: "reach workers_start (unique_step sample_env) sample_ended_workers" by (rule reach_start)
  obtain v S where "claimTask (at sample_env ''w'' 1723435200000) [] None (w_sys sample_ended_workers) = (v, S)"
    by fastforce
  then have st: "\<exists>w'. worker_step sample_env sample_ended_workers w'"
    using worker_step.claim [of sample_ended_workers 0 sample_env "''w''" 1723435200000 "[]" None v S]
    by (auto simp: sample_ended_workers_def sample_workers_def)
  then obtain w' where w': "worker_step sample_env sample_ended_workers w'" by blast
  have "sample_run\<lparr>r_state := R_CANCELED\<rparr> \<in> set (runs (sys_db (w_sys sample_ended_workers)))"
    by (simp add: sample_ended_workers_def sample_sys_def sample_db_def)
  from ended_run_is_final [OF r w' this] w' show ?thesis by (auto simp: terminal_run_def)
qed

end
