(* ===== verification/Auth_Witnesses.thy ===== *)
theory Auth_Witnesses
  imports Auth
begin

text \<open>
  The theorems on authentication at the sample company: a token format that satisfies the laws of a JWT
  (the claims and the second of expiry, each framed by its length), a founder with two sessions, and an
  invite that is issued and redeemed.
\<close>

section \<open>A token format\<close>

definition frame :: "string \<Rightarrow> string" where
  "frame f = replicate (length f) (CHR ''x'') @ CHR '':'' # f"

definition unframe :: "string \<Rightarrow> string \<times> string" where
  "unframe s = (let n = length (takeWhile (\<lambda>c. c = CHR ''x'') s); r = drop (Suc n) s in (take n r, drop n r))"

lemma unframe_frame [simp]: "unframe (frame f @ rest) = (f, rest)"
proof -
  have "takeWhile (\<lambda>c. c = CHR ''x'') (replicate n (CHR ''x'') @ CHR '':'' # g) = replicate n (CHR ''x'')" for n g
    by (induction n) simp_all
  then show ?thesis by (simp add: unframe_def frame_def Let_def)
qed

definition claim_string :: "string option \<Rightarrow> string" where
  "claim_string c = (case c of None \<Rightarrow> [] | Some v \<Rightarrow> CHR ''s'' # v)"

definition string_claim :: "string \<Rightarrow> string option" where
  "string_claim s = (case s of [] \<Rightarrow> None | _ # v \<Rightarrow> Some v)"

lemma string_claim_string [simp]: "string_claim (claim_string c) = c"
  by (cases c) (simp_all add: claim_string_def string_claim_def)

definition sign_frames :: "timestamp \<Rightarrow> access_token_payload \<Rightarrow> int \<Rightarrow> string" where
  "sign_frames t p ttl = frame (claim_string (pl_sub p)) @ frame (claim_string (pl_auth_subject p)) @
     frame (claim_string (pl_type p)) @ frame (claim_string (pl_sid p)) @ frame (claim_string (pl_jti p)) @
     frame (show_nat (nat (t div 1000 + ttl))) @ frame (show_nat (nat (- (t div 1000 + ttl)))) @ []"

definition verify_frames :: "timestamp \<Rightarrow> string \<Rightarrow> jwt_outcome" where
  "verify_frames t token =
     (let (sub, s1) = unframe token; (subject, s2) = unframe s1; (kind, s3) = unframe s2; (sid, s4) = unframe s3;
          (jti, s5) = unframe s4; (e1, s6) = unframe s5; (e2, s7) = unframe s6;
          p = \<lparr>pl_sub = string_claim sub, pl_auth_subject = string_claim subject, pl_type = string_claim kind,
               pl_sid = string_claim sid, pl_jti = string_claim jti\<rparr>;
          expiry = int (parse_nat e1) - int (parse_nat e2)
      in if s7 \<noteq> [] then OtherJwtError
         else if expiry \<le> t div 1000 then TokenExpiredError else Verified p)"

definition sample_jwt :: jwt where
  "sample_jwt = \<lparr>jwt_sign = sign_frames, jwt_verify = verify_frames\<rparr>"

lemma unframe_last: "unframe (frame f) = (f, [])"
  using unframe_frame [of f "[]"] by simp

lemma verify_signed:
  "verify_frames t (sign_frames t' p ttl) = (if t' div 1000 + ttl \<le> t div 1000 then TokenExpiredError else Verified p)"
proof -
  define e where "e = t' div 1000 + ttl"
  define a b where "a = show_nat (nat e)" and "b = show_nat (nat (- e))"
  have e: "int (parse_nat a) - int (parse_nat b) = e" by (simp add: a_def b_def)
  have shape: "sign_frames t' p ttl = frame (claim_string (pl_sub p)) @ frame (claim_string (pl_auth_subject p)) @
     frame (claim_string (pl_type p)) @ frame (claim_string (pl_sid p)) @ frame (claim_string (pl_jti p)) @ frame a @ frame b"
    by (simp add: sign_frames_def a_def b_def e_def)
  show ?thesis
    unfolding verify_frames_def e_def [symmetric] by (subst shape) (simp add: Let_def unframe_last e [symmetric])
qed

lemma sample_jwt_laws: "jwt_laws sample_jwt"
  by (simp add: jwt_laws_def sample_jwt_def verify_signed)

section \<open>Two sessions\<close>

definition sample_session :: "nat \<Rightarrow> session_row" where
  "sample_session n = \<lparr>fs_id = sample_id n, fs_founder_id = sample_id 1, fs_status = SS_ACTIVE,
     fs_expires_at = 1723436100000, fs_revoked_at = None\<rparr>"

definition signed_in :: sys where
  "signed_in = sample_sys\<lparr>sys_db := sample_db\<lparr>founder_sessions := [sample_session 90, sample_session 91]\<rparr>\<rparr>"

definition sample_token :: "nat \<Rightarrow> string" where
  "sample_token n = sign_frames 1723435200000 (token_payload sample_founder (sample_session n)) 900"

definition session_actor :: "nat \<Rightarrow> request_actor" where
  "session_actor n = \<lparr>ra_id = sample_id 1, ra_authSubject = ''founder-a'', ra_companyId = Some (sample_id 2),
     ra_sessionId = sample_id n\<rparr>"

lemma signed_in_tables:
  "founders (sys_db signed_in) = [sample_founder]" "companies (sys_db signed_in) = [sample_company]"
  "founder_sessions (sys_db signed_in) = [sample_session 90, sample_session 91]" "founder_invites (sys_db signed_in) = []"
  by (simp_all add: signed_in_def sample_sys_def initial_sys_def sample_db_def empty_db_def)

lemma signed_in_ok: "auth_ok (sys_db signed_in)"
  by (simp add: auth_ok_def tenants_ok_def sessions_ok_def invites_ok_def signed_in_tables sample_session_def sample_founder_def)

lemma sample_token_verified:
  "jwt_verify sample_jwt 1723435200000 (sample_token n) = Verified (token_payload sample_founder (sample_session n))"
  by (simp add: sample_jwt_def sample_token_def verify_signed)

lemma sample_live: "live_company (sys_db signed_in) (sample_id 1) = Some (sample_id 2)"
  by (simp add: live_company_def signed_in_tables sample_company_def)

theorem bearer_token_accepted_iff_witness:
  "fst (verifyAccessToken sample_jwt sample_env (sample_token 90) signed_in) = Inr (session_actor 90)"
proof -
  let ?v = "verifyAccessToken sample_jwt sample_env (sample_token 90) signed_in"
  have "?v = (fst ?v, snd ?v)" by simp
  note iff = bearer_token_accepted_iff [OF signed_in_ok this, of "session_actor 90"]
  show ?thesis
    by (rule iff [THEN conjunct2, THEN iffD2])
      (simp add: session_actor_def sample_token_verified token_payload_def sample_live [simplified] signed_in_tables sample_session_def
        sample_founder_def)
qed

lemma signed_in_verified:
  assumes "n = 90 \<or> n = 91"
  shows "verifyAccessToken sample_jwt sample_env (sample_token n) signed_in = (Inr (session_actor n), signed_in)"
proof -
  have "pl_sid (token_payload sample_founder (sample_session n)) = Some (sample_id n)"
    "access_payload sample_jwt sample_env (sample_token n) = Inr (token_payload sample_founder (sample_session n))"
    by (simp_all add: access_payload_Inr sample_token_verified token_payload_def sample_session_def)
  with assms show ?thesis
    by (auto simp: verifyAccessToken_def first_founder_row sample_live [simplified] tx_run token_payload_def active_founder_def
        assertSignedResourceAccess_def signedResourceAccessAllowed_def session_actor_def signed_in_tables sample_session_def
        sample_founder_def)
qed

text \<open>Signing out of the first session leaves the second one usable.\<close>

definition signed_out :: sys where
  "signed_out = snd (signOut sample_env (session_actor 90) signed_in)"

lemma signed_out_tables:
  "founders (sys_db signed_out) = [sample_founder]" "companies (sys_db signed_out) = [sample_company]"
  "founder_sessions (sys_db signed_out) = [(sample_session 90)\<lparr>fs_status := SS_REVOKED, fs_revoked_at := Some 1723435200000\<rparr>, sample_session 91]"
  by (simp_all add: signed_out_def signOut_def execute_apply signed_in_tables session_actor_def sample_session_def)

lemma second_session_verified:
  "verifyAccessToken sample_jwt sample_env (sample_token 91) signed_out = (Inr (session_actor 91), signed_out)"
proof -
  have "pl_sid (token_payload sample_founder (sample_session 91)) = Some (sample_id 91)"
    "access_payload sample_jwt sample_env (sample_token 91) = Inr (token_payload sample_founder (sample_session 91))"
    by (simp_all add: access_payload_Inr sample_token_verified token_payload_def sample_session_def)
  moreover have "live_company (sys_db signed_out) (sample_id 1) = Some (sample_id 2)"
    by (simp add: live_company_def signed_out_tables sample_company_def)
  ultimately show ?thesis
    by (auto simp: verifyAccessToken_def first_founder_row tx_run token_payload_def active_founder_def
        assertSignedResourceAccess_def signedResourceAccessAllowed_def session_actor_def signed_out_tables sample_session_def
        sample_founder_def)
qed

theorem sign_out_ends_session_witness: "ra_sessionId (session_actor 91) \<noteq> ra_sessionId (session_actor 90)"
proof (rule sign_out_ends_session)
  show "signOut sample_env (session_actor 90) signed_in = (fst (signOut sample_env (session_actor 90) signed_in), signed_out)"
    by (simp add: signed_out_def)
  show "(auth_step sample_jwt)\<^sup>*\<^sup>* signed_out signed_out" by simp
qed (auto intro: signed_in_ok signed_in_verified second_session_verified)

section \<open>An invite\<close>

definition dev_env :: env where
  "dev_env = sample_env\<lparr>auth_mode := ''development''\<rparr>"

definition sample_invitation :: issue_invite_dto where
  "sample_invitation = \<lparr>iv_email = ''bob@acme.test'', iv_display_name = ''Bob'', iv_invite_ttl_seconds = None, iv_session_ttl_seconds = Some 600\<rparr>"

lemma sample_subject: "founderAuthSubject ''bob@acme.test'' = ''founder:bob@acme.test''"
  by code_simp

lemma signed_in_next: "sys_next signed_in = 0"
  by (simp add: signed_in_def sample_sys_def initial_sys_def)

lemma dev_env_simps [simp]: "uuid_at dev_env = sample_uuid" "now_ms dev_env = 1723435200000" "sha256_hex dev_env = sample_hash"
  "auth_mode dev_env = ''development''" "app_environment dev_env = ''test''"
  by (simp_all add: dev_env_def sample_env_def)

lemma sample_issued: "\<exists>i t. issueInvite dev_env sample_invitation signed_in = (Inr i, t) \<and> sys_next t = 2 \<and>
    auth_ok (sys_db t) \<and> founders (sys_db t) = [sample_founder]"
proof -
  let ?r = "issueInvite dev_env sample_invitation signed_in"
  have "\<exists>i t. ?r = (Inr i, t) \<and> sys_next t = 2 \<and> founders (sys_db t) = [sample_founder]"
    by (simp add: issueInvite_def assertDevelopmentAdapter_def newInviteToken_def tx_run insert_invite_def signed_in_tables
        signed_in_next new_invite_def sample_invitation_def between_def hashInviteToken_def DEFAULT_INVITE_TTL_SECONDS_def)
  then obtain i t where i: "?r = (Inr i, t)" "sys_next t = 2" "founders (sys_db t) = [sample_founder]" by blast
  with db_keepsD [OF issueInvite_keeps_auth signed_in_ok i(1)] show ?thesis by blast
qed

theorem issued_invite_redeemable_witness:
  "\<exists>i t g u. issueInvite dev_env sample_invitation signed_in = (Inr i, t) \<and>
     redeemInvite sample_jwt dev_env (ii_invite_token i) t = (Inr g, u) \<and>
     (\<exists>f \<in> set (founders (sys_db u)). fo_id f = ag_founder_id g \<and> fo_display_name f = ''Bob'')"
proof -
  obtain i t where i: "issueInvite dev_env sample_invitation signed_in = (Inr i, t)" "sys_next t = 2" using sample_issued by blast
  show ?thesis
    using issued_invite_redeemable [OF signed_in_ok i(1), of dev_env sample_jwt] i
    by (auto simp: sample_invitation_def sample_subject signed_in_tables sample_founder_def sample_session_def
        dev_env_def sample_env_def)
qed

definition sample_invite :: invite_row where
  "sample_invite = \<lparr>fi_id = sample_id 95, fi_email = ''bob@acme.test'', fi_display_name = ''Bob'',
     fi_token_hash = hashInviteToken sample_env ''a-secret-invite-token'', fi_status = V_PENDING, fi_expires_at = 1723435300000,
     fi_session_ttl_seconds = 600, fi_redeemed_founder_id = None, fi_updated_at = sample_now\<rparr>"

definition invited :: sys where
  "invited = signed_in\<lparr>sys_db := (sys_db signed_in)\<lparr>founder_invites := [sample_invite]\<rparr>\<rparr>"

lemma invited_ok: "auth_ok (sys_db invited)"
  using signed_in_ok by (simp add: auth_ok_def tenants_ok_def sessions_ok_def invites_ok_def invited_def sample_invite_def)

lemma sample_redeemed:
  "\<exists>g t. redeemInvite sample_jwt sample_env ''a-secret-invite-token'' invited = (Inr g, t) \<and> ag_expires_in g = 600"
  by (simp add: redeemInvite_def Let_def accept_invite_def upsert_founder_def first_founder_row active_founder_def insertSession_def
      tx_run insert_founder_def insert_session_def issueAccessToken_def session_ttl_def invite_expired_def sample_subject
      invited_def sample_invite_def signed_in_tables sample_founder_def sample_session_def signed_in_next)

theorem invite_redeemed_once_witness:
  "\<exists>g t. redeemInvite sample_jwt sample_env ''a-secret-invite-token'' invited = (Inr g, t) \<and>
     redeemInvite sample_jwt sample_env ''a-secret-invite-token'' t = (Inl invalidInvite, t)"
proof -
  obtain g t where "redeemInvite sample_jwt sample_env ''a-secret-invite-token'' invited = (Inr g, t)" using sample_redeemed by blast
  moreover from invite_redeemed_once [OF invited_ok this rtranclp.rtrancl_refl refl]
  have "redeemInvite sample_jwt sample_env ''a-secret-invite-token'' t = (Inl invalidInvite, t)" .
  ultimately show ?thesis by blast
qed

theorem redeemed_token_authenticates_witness:
  "\<exists>g t actor. redeemInvite sample_jwt sample_env ''a-secret-invite-token'' invited = (Inr g, t) \<and>
     verifyAccessToken sample_jwt (sample_env\<lparr>now_ms := 1723435799000\<rparr>) (ag_access_token g) t = (Inr actor, t)"
proof -
  obtain g t where g: "redeemInvite sample_jwt sample_env ''a-secret-invite-token'' invited = (Inr g, t)" "ag_expires_in g = 600"
    using sample_redeemed by blast
  from redeemed_token_authenticates [OF sample_jwt_laws invited_ok g(1), of "sample_env\<lparr>now_ms := 1723435799000\<rparr>"] g(2)
  have "\<exists>actor. verifyAccessToken sample_jwt (sample_env\<lparr>now_ms := 1723435799000\<rparr>) (ag_access_token g) t = (Inr actor, t)"
    by auto
  with g(1) show ?thesis by blast
qed

theorem expired_mark_rolled_back_witness:
  "redeemInvite sample_jwt (sample_env\<lparr>now_ms := 1723435300000\<rparr>) ''a-secret-invite-token'' invited = (Inl invalidInvite, invited)"
proof -
  have "reach no_expired_invite (auth_step sample_jwt) invited"
    by (rule reach_start) (simp add: no_expired_invite_def invited_def sample_invite_def)
  then show ?thesis
    by (intro expired_mark_rolled_back [where invite = sample_invite, THEN conjunct1])
      (simp_all add: invited_def sample_invite_def hashInviteToken_def)
qed

end
