(* ===== verification/Company_Witnesses.thy ===== *)
theory Company_Witnesses
  imports Companies
begin

text \<open>The theorems on companies at the sample company and at a second founder who has none.\<close>

definition sample_limits :: normalized_limits_dto where
  "sample_limits = \<lparr>nl_max_screens = 5, nl_primary_flows = 1, nl_data_mode = ''mock_or_local''\<rparr>"

definition sample_profile_dto :: company_profile_dto where
  "sample_profile_dto = \<lparr>pf_purpose = ''Help teams plan'', pf_target_customer = ''teams'', pf_constraints = [''no accounts''],
     pf_normalized_limits = sample_limits, pf_acknowledged = True\<rparr>"

definition sample_company_dto :: create_company_dto where
  "sample_company_dto = \<lparr>cc_name = ''Beta'', cc_profile = sample_profile_dto\<rparr>"

definition founder_actor :: "nat \<Rightarrow> request_actor" where
  "founder_actor n = \<lparr>ra_id = sample_id n, ra_authSubject = ''founder'', ra_companyId = None, ra_sessionId = sample_id 90\<rparr>"

definition two_founders :: sys where
  "two_founders = sample_sys\<lparr>sys_db := sample_db\<lparr>founders := [sample_founder, sample_founder\<lparr>fo_id := sample_id 20, fo_auth_subject := ''founder-b''\<rparr>]\<rparr>\<rparr>"

lemma two_founders_tables:
  "founders (sys_db two_founders) = [sample_founder, sample_founder\<lparr>fo_id := sample_id 20, fo_auth_subject := ''founder-b''\<rparr>]"
  "companies (sys_db two_founders) = [sample_company]" "company_profile_versions (sys_db two_founders) = [sample_profile]"
  "idempotency_records (sys_db two_founders) = []" "events (sys_db two_founders) = []" "outbox_messages (sys_db two_founders) = []"
  "run_event_counters (sys_db two_founders) = [\<lparr>rc_company_id = sample_id 2, rc_run_id = sample_id 7, rc_next_sequence = 1\<rparr>]"
  "sys_next two_founders = 0"
  by (simp_all add: two_founders_def sample_sys_def initial_sys_def sample_db_def empty_db_def)

lemma two_founders_ok: "companies_ok (sys_db two_founders)" "event_log_ok (sys_db two_founders)"
  by (simp_all add: companies_ok_def history_ok_def profiles_of_def two_founders_tables sample_company_def sample_profile_def
      event_log_ok_def numbered_def run_events_def)

lemma sample_company_dto_ok: "CreateCompanyDto_ok sample_company_dto" "CompanyProfileDto_ok sample_profile_dto"
  by code_simp+

theorem company_created_witness:
  "\<exists>body t. Companies_create sample_env (founder_actor 20) (sample_id 30) (sample_id 31) sample_company_dto two_founders =
    (Inr \<lparr>cr_status = 201, cr_body = body, cr_replayed = False\<rparr>, t)"
proof (rule company_created)
  show "CreateCompanyDto_ok sample_company_dto" by (rule sample_company_dto_ok(1))
  show "fresh_supply sample_env two_founders"
    by (simp add: fresh_supply_def two_founders_tables sample_company_def sample_profile_def)
  have "js_trim ''no accounts'' = ''no accounts''" by code_simp
  then show "\<forall>c \<in> set (pf_constraints (cc_profile sample_company_dto)). js_trim c \<noteq> []"
    by (simp add: sample_company_dto_def sample_profile_dto_def)
qed (simp_all add: two_founders_ok two_founders_tables founder_actor_def sample_company_def sample_founder_def
    absent_def sample_company_dto_def sample_profile_dto_def)

lemma sample_policy: "assertProfile sample_profile_dto = Inr ()"
  by code_simp

lemma sample_trims: "js_trim (pf_purpose sample_profile_dto) = ''Help teams plan''" "js_trim (pf_target_customer sample_profile_dto) = ''teams''"
  by code_simp+

lemma sample_replacement: "\<exists>r t. Companies_updateProfile sample_env (founder_actor 1) (sample_id 30) 1 (sample_id 31) sample_profile_dto two_founders =
    (Inr r, t) \<and> \<not> cr_replayed r"
proof -
  let ?o = "update_profile_command sample_env (sample_id 1) (sample_id 30) (sample_id 31) 1 sample_profile_dto"
  let ?s = "two_founders\<lparr>sys_next := Suc (sys_next two_founders), sys_db := sys_db two_founders\<lparr>idempotency_records :=
        idempotency_records (sys_db two_founders) @ [new_idempotency_record sample_env ?o (uuid_at sample_env (sys_next two_founders))
          (canonicalDigest sample_env (cx_request ?o))]\<rparr>\<rparr>"
  have "\<exists>b t. update_profile_body sample_env (sample_id 1) (sample_id 31) 1 sample_profile_dto ?s = (Inr (200, b), t)"
    by (simp add: update_profile_body_def company_rows_def first_row_def tx_run two_founders_tables insert_profile_def new_profile_def
        sample_trims between_def append_parts getByIdWithRunner_def company_event_def new_event_def new_message_def Let_def
        point_to_profile_def respond_def)
      (simp add: sample_company_def sample_profile_def sample_founder_def)
  then obtain b t where b: "update_profile_body sample_env (sample_id 1) (sample_id 31) 1 sample_profile_dto ?s = (Inr (200, b), t)" by blast
  have "CommandExecutor_run sample_env ?o two_founders = (Inr \<lparr>cr_status = 200, cr_body = b, cr_replayed = False\<rparr>,
      t\<lparr>sys_db := complete_record sample_env ?o 200 b (sys_db t)\<rparr>)"
    by (rule CommandExecutor_run_new)
      (use b in \<open>simp_all add: update_profile_command_def command_key_def absent_def present_def two_founders_tables sample_founder_def\<close>)
  then show ?thesis
    by (simp add: Companies_updateProfile_def tx_bind_def tx_lift_def sample_policy founder_actor_def)
qed

theorem profile_replaced_witness:
  "\<exists>r t. Companies_updateProfile sample_env (founder_actor 1) (sample_id 30) 1 (sample_id 31) sample_profile_dto two_founders = (Inr r, t) \<and>
     cr_status r = 200"
proof -
  obtain r t where r: "Companies_updateProfile sample_env (founder_actor 1) (sample_id 30) 1 (sample_id 31) sample_profile_dto two_founders = (Inr r, t)"
    "\<not> cr_replayed r" using sample_replacement by blast
  from profile_replaced [OF two_founders_ok(1) r] have "cr_status r = 200" unfolding Let_def by blast
  with r(1) show ?thesis by blast
qed

end
