(* ===== verification/Run_Witnesses.thy ===== *)
theory Run_Witnesses
  imports Runs
begin

text \<open>The theorems on the reads of a run at the sample run with three events, and beside a run of another company.\<close>

definition founder_reader :: request_actor where
  "founder_reader = \<lparr>ra_id = sample_id 1, ra_authSubject = ''founder-a'', ra_companyId = Some (sample_id 2),
     ra_sessionId = sample_id 90\<rparr>"

definition sample_event :: "nat \<Rightarrow> event_row" where
  "sample_event n = \<lparr>ev_id = sample_id (100 + n), ev_schema_version = 1, ev_type = ''run_created'', ev_company_id = sample_id 2,
     ev_run_id = Some (sample_id 7), ev_run_sequence = Some n, ev_actor_type = ''SYSTEM'', ev_actor_id = ''worker'',
     ev_actor_version = None, ev_correlation_id = sample_id 50, ev_causation_id = None, ev_audience = ''FOUNDER'',
     ev_data_classification = ''INTERNAL'', ev_payload = JObj [], ev_occurred_at = sample_now\<rparr>"

definition three_events :: sys where
  "three_events = sample_sys\<lparr>sys_db := sample_db\<lparr>events := [sample_event 1, sample_event 2, sample_event 3],
     outbox_messages := map (\<lambda>e. new_message sample_env (sample_id 200) e) [sample_event 1, sample_event 2, sample_event 3],
     run_event_counters := [\<lparr>rc_company_id = sample_id 2, rc_run_id = sample_id 7, rc_next_sequence = 4\<rparr>]\<rparr>\<rparr>"

lemma three_events_tables:
  "events (sys_db three_events) = [sample_event 1, sample_event 2, sample_event 3]" "runs (sys_db three_events) = [sample_run]"
  "outbox_messages (sys_db three_events) = map (\<lambda>e. new_message sample_env (sample_id 200) e) [sample_event 1, sample_event 2, sample_event 3]"
  "run_event_counters (sys_db three_events) = [\<lparr>rc_company_id = sample_id 2, rc_run_id = sample_id 7, rc_next_sequence = 4\<rparr>]"
  by (simp_all add: three_events_def sample_sys_def initial_sys_def sample_db_def empty_db_def)

lemma three_events_of_run: "run_events (sample_id 7) (sys_db three_events) = [sample_event 1, sample_event 2, sample_event 3]"
  by (simp add: run_events_def three_events_tables sample_event_def)

theorem event_pages_complete_witness:
  "follow_pages founder_reader (sample_id 7) 2 0 5 three_events = Some (map event_entry [sample_event 1, sample_event 2, sample_event 3])"
proof -
  have "[1..<4] = [1, 2, Suc (Suc (Suc 0))]" by (simp add: upt_rec)
  then have "event_log_ok (sys_db three_events)"
    unfolding event_log_ok_def three_events_tables
    by (simp add: numbered_def three_events_of_run message_new_event) (simp add: sample_event_def)
  moreover have "own_events (sample_id 2) (sys_db three_events)"
    by (simp add: own_events_def three_events_tables sample_event_def sample_run_def)
  moreover have "find (\<lambda>r. r_company_id r = sample_id 2 \<and> r_id r = sample_id 7) (runs (sys_db three_events)) = Some sample_run"
    by (simp add: three_events_tables sample_run_def)
  ultimately show ?thesis
    using event_pages_complete [of three_events "sample_id 2" founder_reader "sample_id 7" sample_run 2 5]
    by (simp add: three_events_of_run founder_reader_def)
qed

definition foreign_run :: sys where
  "foreign_run = sample_sys\<lparr>sys_db := sample_db\<lparr>runs := [sample_run\<lparr>r_id := sample_id 70, r_company_id := sample_id 60\<rparr>, sample_run]\<rparr>\<rparr>"

theorem run_reads_isolated_witness:
  "fst (Runs_get founder_reader (sample_id 7) foreign_run) = fst (Runs_get founder_reader (sample_id 7) sample_sys)"
proof -
  have "same_view (sample_id 2) (sys_db foreign_run) (sys_db sample_sys)"
    by (simp add: same_view_def own_rows_def foreign_run_def sample_sys_def sample_db_def sample_run_def)
  from run_reads_isolated [OF _ this] show ?thesis by (simp add: founder_reader_def)
qed

end
