(* ===== verification/Delivery.thy ===== *)
theory Delivery
  imports Versioned Task_Lifecycle
begin

text \<open>
  From the founder to the employee: the run that an accepted goal starts is claimable at once, and the worker that claims
  its task loads the goal the founder submitted together with the profile the company had then.
\<close>

text \<open>The foreign key of the tasks: their runs exist.\<close>

definition tasks_refer :: "db \<Rightarrow> bool" where
  "tasks_refer d \<longleftrightarrow> (\<forall>x \<in> set (tasks d). t_run_id x \<in> r_id ` set (runs d))"

lemma find_appended: "(\<And>x. x \<in> set xs \<Longrightarrow> \<not> p x) \<Longrightarrow> p y \<Longrightarrow> find p (xs @ [y]) = Some y"
proof -
  assume "\<And>x. x \<in> set xs \<Longrightarrow> \<not> p x" and y: "p y"
  then have "find p xs = None" by (auto simp: find_None_iff)
  with y show ?thesis by (simp add: find_app)
qed

text \<open>What the run is frozen to.\<close>

lemma new_run_context:
  assumes "fresh_goal_rows c (cp_id p) gvid sid rid d" and "distinct (map cp_id (company_profile_versions d))"
    and "p \<in> set (company_profile_versions d)" and "cp_company_id p = c"
    and "runs d' = runs d @ [goal_run E rid c iid sid needs]"
    and "context_snapshots d' = context_snapshots d @ [goal_snapshot E sid c (cp_id p) gvid]"
    and "goal_versions d' = goal_versions d @ [new_goal_version E gvid c iid n a dto]"
    and "company_profile_versions d' = company_profile_versions d"
  shows "find_context c rid d' = Some \<lparr>cr_goal = canonicalStructuredGoal (cg_goal dto), cr_purpose = cp_purpose p,
    cr_target_customer = cp_target_customer p\<rparr>"
proof -
  have r: "find (\<lambda>r. r_company_id r = c \<and> r_id r = rid) (runs d') = Some (goal_run E rid c iid sid needs)"
    unfolding assms(5) using assms(1) by (intro find_appended) (auto simp: fresh_goal_rows_def goal_run_def)
  have s: "find (\<lambda>cs. cs_id cs = sid \<and> cs_company_id cs = c) (context_snapshots d') = Some (goal_snapshot E sid c (cp_id p) gvid)"
    unfolding assms(6) using assms(1) by (intro find_appended) (auto simp: fresh_goal_rows_def goal_snapshot_def)
  have g: "find (\<lambda>gv. gv_id gv = gvid \<and> gv_company_id gv = c) (goal_versions d') = Some (new_goal_version E gvid c iid n a dto)"
    unfolding assms(7) using assms(1) by (intro find_appended) (auto simp: fresh_goal_rows_def new_goal_version_def)
  have "find (\<lambda>cp. cp_id cp = cp_id p \<and> cp_company_id cp = c) (company_profile_versions d) = Some p"
    by (rule find_unique [OF assms(2,3)]) (simp_all add: assms(4))
  moreover have "r_context_snapshot_id (goal_run E rid c iid sid needs) = sid" "r_company_id (goal_run E rid c iid sid needs) = c"
    "cs_goal_version_id (goal_snapshot E sid c (cp_id p) gvid) = gvid" "cs_company_id (goal_snapshot E sid c (cp_id p) gvid) = c"
    "cs_company_profile_version_id (goal_snapshot E sid c (cp_id p) gvid) = cp_id p"
    "gv_structured_goal (new_goal_version E gvid c iid n a dto) = canonicalStructuredGoal (cg_goal dto)"
    by (simp_all add: goal_run_def goal_snapshot_def new_goal_version_def)
  ultimately show ?thesis
    by (simp only: find_context_def r s g assms(8) bind.bind_lunit option.map)
qed

lemma find_upd_where:
  "(\<And>r. p (g r) = p r) \<Longrightarrow> find p (upd_where q g xs) = map_option (\<lambda>r. if q r then g r else r) (find p xs)"
  by (induction xs) auto

lemma find_context_started: "find_context c rid (d\<lparr>runs := runs (start_run E c' rid' d)\<rparr>) = find_context c rid d"
  by (cases "find (\<lambda>r. r_company_id r = c \<and> r_id r = rid) (runs d)")
    (simp_all add: find_context_def start_run_def find_upd_where)

section \<open>The backend while a task waits\<close>

text \<open>
  What workers and founders do while the task of a new run waits: the calls of the workers, each in the environment of the
  process that makes it, and the goals other requests submit. The claims are those of \<open>processOnce()\<close>, without a run.
\<close>

datatype backend_call =
    Claims "uuid list"
  | Begins claimed_task
  | Completes claimed_task uuid nat model_result
  | Fails claimed_task uuid exn
  | Blocks claimed_task
  | Abandons claimed_task string
  | Submits request_actor uuid nat uuid uuid create_goal_dto

fun perform :: "env \<Rightarrow> backend_call \<Rightarrow> claimed_task option call" where
  "perform E (Claims locked) = claimTask E locked None"
| "perform E (Begins c) = tx_then (beginModelInvocation c) (tx_return None)"
| "perform E (Completes c a n res) = tx_then (completeTask E c a n res) (tx_return None)"
| "perform E (Fails c a err) = tx_then (failTask E c a err) (tx_return None)"
| "perform E (Blocks c) = tx_then (blockUnknownModelOutcome E c) (tx_return None)"
| "perform E (Abandons c cls) = tx_then (abandonAttempt E (ct_company_id c) (ct_attempt_id c) cls) (tx_return None)"
| "perform E (Submits actor iid v key k dto) = tx_then (createGoalAndRun E actor iid v key k dto) (tx_return None)"

text \<open>The claims that a sequence of calls hands out, in their order; a call that throws hands out none.\<close>

fun handed_out :: "(env \<times> backend_call) list \<Rightarrow> sys \<Rightarrow> claimed_task list \<times> sys" where
  "handed_out [] s = ([], s)"
| "handed_out ((E, m) # ms) s = (case perform E m s of (r, s1) \<Rightarrow> case handed_out ms s1 of (cs, u) \<Rightarrow>
     ((case r of Inr (Some c) \<Rightarrow> c # cs | _ \<Rightarrow> cs), u))"

text \<open>
  The calls that are considered for a task: they run after \<open>start\<close> and before the first of the leases they hand out has
  expired; no claim skips the task because someone holds its row; the claims on which workers work are for other tasks; and a goal
  is submitted later than \<open>start\<close>.
\<close>

fun concerns :: "backend_call \<Rightarrow> claimed_task option" where
  "concerns (Begins c) = Some c"
| "concerns (Completes c _ _ _) = Some c"
| "concerns (Fails c _ _) = Some c"
| "concerns (Blocks c) = Some c"
| "concerns (Abandons c _) = Some c"
| "concerns _ = None"

definition meanwhile :: "timestamp \<Rightarrow> timestamp \<Rightarrow> task_row \<Rightarrow> env \<times> backend_call \<Rightarrow> bool" where
  "meanwhile start until task = (\<lambda>(E, m).
     start \<le> now_ms E \<and> now_ms E \<le> until \<and> until \<le> now_ms E + lease_seconds E * 1000 \<and>
     (case m of Claims locked \<Rightarrow> t_id task \<notin> set locked | Submits _ _ _ _ _ _ \<Rightarrow> start < now_ms E
      | _ \<Rightarrow> (case concerns m of None \<Rightarrow> True | Some c \<Rightarrow> ct_id c \<noteq> t_id task \<and> ct_run_id c \<noteq> t_run_id task)))"

definition task_key :: "task_row \<Rightarrow> uuid \<times> uuid" where "task_key x = (t_company_id x, t_id x)"

definition claim_key :: "claimed_task \<Rightarrow> uuid \<times> uuid" where "claim_key c = (ct_company_id c, ct_id c)"

definition turn_of :: "task_row \<Rightarrow> int \<times> timestamp \<times> uuid" where
  "turn_of x = (- t_priority x, t_created_at x, t_id x)"

lemma claim_rank_turn: "claim_rank (x, r) = turn_of x"
  by (simp add: claim_rank_def turn_of_def)

text \<open>A task that no claim takes before \<open>until\<close>.\<close>

definition held :: "timestamp \<Rightarrow> task_row \<Rightarrow> bool" where
  "held until x \<longleftrightarrow> t_state x \<notin> {T_QUEUED, T_READY, T_RETRY_WAIT} \<and>
     (t_state x = T_RUNNING \<longrightarrow> (case t_lease_expires_at x of None \<Rightarrow> True | Some e \<Rightarrow> until \<le> e))"

lemma held_not_claimable: "held until x \<Longrightarrow> now_ms E \<le> until \<Longrightarrow> \<not> claimable E locked runId (x, r)"
  by (auto simp: held_def claimable_def split: option.splits)

text \<open>
  What every such call leaves alone: it keeps the task, its run and the rows its context is read from, never lets go of a
  task that is held, and adds only tasks of other runs whose turn is later.
\<close>

definition task_kept :: "timestamp \<Rightarrow> task_row \<Rightarrow> (task_row \<Rightarrow> task_row) \<Rightarrow> bool" where
  "task_kept until task f \<longleftrightarrow> f task = task \<and>
     (\<forall>x. task_key (f x) = task_key x \<and> turn_of (f x) = turn_of x \<and> t_run_id (f x) = t_run_id x \<and> (held until x \<longrightarrow> held until (f x)))"

definition run_kept :: "run_row \<Rightarrow> (run_row \<Rightarrow> run_row) \<Rightarrow> bool" where
  "run_kept run g \<longleftrightarrow> g run = run \<and>
     (\<forall>r. r_id (g r) = r_id r \<and> r_company_id (g r) = r_company_id r \<and> r_context_snapshot_id (g r) = r_context_snapshot_id r)"

definition context_extended :: "db \<Rightarrow> db \<Rightarrow> bool" where
  "context_extended d d' \<longleftrightarrow> (\<exists>cs. context_snapshots d' = context_snapshots d @ cs) \<and>
     (\<exists>gs. goal_versions d' = goal_versions d @ gs) \<and> (\<exists>ps. company_profile_versions d' = company_profile_versions d @ ps)"

definition leaves_waiting :: "timestamp \<Rightarrow> task_row \<Rightarrow> run_row \<Rightarrow> db \<Rightarrow> db \<Rightarrow> bool" where
  "leaves_waiting until task run d d' \<longleftrightarrow> context_extended d d' \<and>
     (\<exists>f new. tasks d' = map f (tasks d) @ new \<and> task_kept until task f \<and>
        (\<forall>x \<in> set new. t_id x \<notin> t_id ` set (tasks d) \<and> t_run_id x \<notin> r_id ` set (runs d) \<and> turn_of task < turn_of x)) \<and>
     (\<exists>g new. runs d' = map g (runs d) @ new \<and> run_kept run g)"

text \<open>Calls that only update rows: one update of the tasks and one of the runs.\<close>

lemma leaves_updated:
  assumes "tasks d' = upd_where p f (tasks d)" and "runs d' = upd_where q g (runs d)"
    and "context_snapshots d' = context_snapshots d" and "goal_versions d' = goal_versions d"
    and "company_profile_versions d' = company_profile_versions d"
    and "\<not> p task" and "\<not> q run"
    and "\<And>x. task_key (f x) = task_key x \<and> turn_of (f x) = turn_of x \<and> t_run_id (f x) = t_run_id x" and "\<And>x. held until x \<Longrightarrow> held until (f x)"
    and "\<And>r. r_id (g r) = r_id r \<and> r_company_id (g r) = r_company_id r \<and> r_context_snapshot_id (g r) = r_context_snapshot_id r"
  shows "leaves_waiting until task run d d'"
  unfolding leaves_waiting_def context_extended_def
proof (intro conjI)
  show "\<exists>h new. tasks d' = map h (tasks d) @ new \<and> task_kept until task h \<and>
      (\<forall>x \<in> set new. t_id x \<notin> t_id ` set (tasks d) \<and> t_run_id x \<notin> r_id ` set (runs d) \<and> turn_of task < turn_of x)"
    by (rule exI [of _ "\<lambda>x. if p x then f x else x"], rule exI [of _ "[]"])
      (use assms(1,6,8,9) in \<open>simp add: upd_where_def task_kept_def\<close>)
  show "\<exists>h new. runs d' = map h (runs d) @ new \<and> run_kept run h"
    by (rule exI [of _ "\<lambda>r. if q r then g r else r"], rule exI [of _ "[]"])
      (use assms(2,7,10) in \<open>simp add: upd_where_def run_kept_def\<close>)
qed (simp_all add: assms(3-5))

text \<open>An update of one table is a pair of updates, the other of which changes no row.\<close>

lemma upd_none: "upd_where (\<lambda>_. False) f xs = xs"
  by (simp add: upd_where_def)

lemma leaves_same:
  assumes "tasks d' = tasks d" and "runs d' = runs d" and "context_snapshots d' = context_snapshots d"
    and "goal_versions d' = goal_versions d" and "company_profile_versions d' = company_profile_versions d"
  shows "leaves_waiting until task run d d'"
  by (rule leaves_updated [where p = "\<lambda>_. False" and q = "\<lambda>_. False" and f = id and g = id]) (simp_all add: assms upd_none)

section \<open>Every such call leaves the waiting task alone\<close>

lemma tx_then_None: "tx_then m (tx_return None) s = (r, t) \<Longrightarrow> \<exists>x. m s = (x, t) \<and> (r = Inr None \<or> (\<exists>e. x = Inl e \<and> r = Inl e))"
  by (cases "m s") (auto simp: tx_then_def tx_bind_def tx_return_def split: sum.splits)

text \<open>The two updates after an invocation: the task and its run are blocked, or the task succeeded and its brief awaits approval.\<close>

lemma leaves_released:
  assumes "ct_id c \<noteq> t_id task" and "ct_run_id c \<noteq> r_id run" and "context_snapshots d' = context_snapshots d"
    and "goal_versions d' = goal_versions d" and "company_profile_versions d' = company_profile_versions d"
  shows "tasks d' = tasks (release_blocked_task E n c d) \<Longrightarrow> runs d' = runs (block_run E c d) \<Longrightarrow> leaves_waiting until task run d d'"
    and "tasks d' = tasks (succeed_task E c d) \<Longrightarrow> runs d' = runs (await_brief_approval E c d) \<Longrightarrow> leaves_waiting until task run d d'"
proof -
  assume "tasks d' = tasks (release_blocked_task E n c d)" "runs d' = runs (block_run E c d)"
  note rows = this [unfolded release_blocked_task_def block_run_def, simplified]
  show "leaves_waiting until task run d d'"
    by (rule leaves_updated [OF rows assms(3-5)]) (use assms(1,2) in \<open>simp_all add: task_key_def turn_of_def held_def\<close>)
next
  assume "tasks d' = tasks (succeed_task E c d)" "runs d' = runs (await_brief_approval E c d)"
  note rows = this [unfolded succeed_task_def await_brief_approval_def, simplified]
  show "leaves_waiting until task run d d'"
    by (rule leaves_updated [OF rows assms(3-5)]) (use assms(1,2) in \<open>simp_all add: task_key_def turn_of_def held_def\<close>)
qed

lemma leaves_run:
  assumes "ct_id c \<noteq> t_id task" and "ct_run_id c \<noteq> r_id run"
  shows "completeTask E c a n res s = (x, t) \<Longrightarrow> leaves_waiting until task run (sys_db s) (sys_db t)"
    and "failTask E c a err s = (y, t) \<Longrightarrow> leaves_waiting until task run (sys_db s) (sys_db t)"
    and "blockUnknownModelOutcome E c s = (z, t) \<Longrightarrow> leaves_waiting until task run (sys_db s) (sys_db t)"
proof -
  assume run: "completeTask E c a n res s = (x, t)"
  show "leaves_waiting until task run (sys_db s) (sys_db t)"
  proof (cases x)
    case (Inl e)
    with run show ?thesis by (auto dest!: worker_methods_rollback(2) intro!: leaves_same)
  next
    case (Inr u)
    show ?thesis
    proof (cases "stale_claim c (claimed_row c (sys_db s))")
      case True
      with run show ?thesis by (auto simp: completeTask_stale worker_updates intro!: leaves_same)
    next
      case False
      with run Inr have "publish_result E c a n res s = (Inr u, t)"
        by (auto simp: completeTask_current elim: transaction_InrE)
      then show ?thesis
        by (rule publish_result_InrE)
          (rule leaves_released(2) [OF assms], simp_all)
    qed
  qed
next
  assume run: "failTask E c a err s = (y, t)"
  show "leaves_waiting until task run (sys_db s) (sys_db t)"
  proof (cases y)
    case (Inl e)
    with run show ?thesis by (auto dest!: worker_methods_rollback(3) intro!: leaves_same)
  next
    case (Inr u)
    show ?thesis
    proof (cases "stale_claim c (claimed_row c (sys_db s))")
      case True
      with run show ?thesis by (auto simp: failTask_stale worker_updates intro!: leaves_same)
    next
      case False
      with run Inr show ?thesis
        by (elim failTask_current_InrE [rotated])
          (rule leaves_released(1) [OF assms], simp_all)
    qed
  qed
next
  assume run: "blockUnknownModelOutcome E c s = (z, t)"
  show "leaves_waiting until task run (sys_db s) (sys_db t)"
  proof (cases z)
    case (Inl e)
    with run show ?thesis by (auto dest!: worker_methods_rollback(4) intro!: leaves_same)
  next
    case (Inr u)
    show ?thesis
    proof (cases "stale_claim c (claimed_row c (sys_db s))")
      case True
      with run show ?thesis by (auto simp: blockUnknown_stale worker_updates intro!: leaves_same)
    next
      case False
      with run Inr show ?thesis
        by (elim blockUnknown_current_InrE [rotated])
          (rule leaves_released(1) [OF assms], simp_all)
    qed
  qed
qed

lemma leaves_submitted:
  assumes "createGoalAndRun E actor iid v key k dto s = (x, t)" and "run \<in> set (runs (sys_db s))"
    and "t_priority task = 100" and "t_created_at task < now_ms E"
  shows "leaves_waiting until task run (sys_db s) (sys_db t)"
proof (cases x)
  case (Inl e)
  with assms(1) createGoalAndRun_refused show ?thesis by (auto intro!: leaves_same)
next
  case (Inr r)
  show ?thesis
  proof (cases "cr_replayed r")
    case True
    from assms(1) Inr obtain c q where "CommandExecutor_run E (goal_command E c (ra_id actor) key k iid v dto q) s = (Inr r, t)"
      by (auto elim: createGoalAndRun_runs)
    from this True have "sys_db t = sys_db s" by (elim CommandExecutor_run_InrE) simp_all
    then show ?thesis by (simp add: leaves_same)
  next
    case False
    from createGoalAndRun_started [OF assms(1) [unfolded Inr] False refl refl] show ?thesis
    proof cases
      case (1 c i gvid sid rid tid qid p e1 e2 q1 q2 co)
      let ?needs = "gq_q_result (publicGoalQualification (evaluateGoalQualification (cg_goal dto))) = Needs_clarification"
      let ?new = "if ?needs then [] else [first_task E tid c rid sid p gvid]"
      have new: "t_id y \<notin> t_id ` set (tasks (sys_db s)) \<and> t_run_id y \<notin> r_id ` set (runs (sys_db s)) \<and> turn_of task < turn_of y"
        if "y \<in> set ?new" for y
        using that 1(19,24) assms(3,4) by (auto simp: first_task_def turn_of_def fresh_goal_rows_def split: if_splits)
      show ?thesis
        unfolding leaves_waiting_def context_extended_def
        by (intro conjI exI [of _ id] exI [of _ ?new] exI [of _ "[goal_run E rid c iid sid ?needs]"])
          (use 1(10-13,18) new in \<open>simp_all add: task_kept_def run_kept_def\<close>)
    qed
  qed
qed

text \<open>All calls but the claims; none of them hands out a claim.\<close>

lemma perform_leaves:
  assumes "meanwhile start until task (E, m)" and "perform E m s = (r, t)" and "\<And>locked. m \<noteq> Claims locked"
    and "run \<in> set (runs (sys_db s))" and "t_run_id task = r_id run" and "t_priority task = 100" and "t_created_at task \<le> start"
  shows "leaves_waiting until task run (sys_db s) (sys_db t) \<and> (\<forall>c. r \<noteq> Inr (Some c))"
proof (cases m)
  case (Claims locked)
  with assms(3) [of locked] show ?thesis by simp
next
  case (Begins c)
  with assms(2) have "tx_then (beginModelInvocation c) (tx_return None) s = (r, t)" by simp
  from tx_then_None [OF this] obtain x where x: "beginModelInvocation c s = (x, t)" "\<forall>c. r \<noteq> Inr (Some c)" by auto
  from beginModelInvocation_cases [of c s] have "sys_db t = sys_db s \<or> sys_db t = count_invocation c (sys_db s)"
    by cases (use x(1) in auto)
  with x(2) show ?thesis by (auto intro!: leaves_same simp: count_invocation_def)
next
  case (Completes c a n res)
  with assms(1,2,5) tx_then_None [of "completeTask E c a n res" s r t] show ?thesis
    by (auto simp: meanwhile_def intro!: leaves_run(1) [of c])
next
  case (Fails c a err)
  with assms(1,2,5) tx_then_None [of "failTask E c a err" s r t] show ?thesis
    by (auto simp: meanwhile_def intro!: leaves_run(2) [of c])
next
  case (Blocks c)
  with assms(1,2,5) tx_then_None [of "blockUnknownModelOutcome E c" s r t] show ?thesis
    by (auto simp: meanwhile_def intro!: leaves_run(3) [of c])
next
  case (Abandons c cls)
  with assms(2) show ?thesis
    by (auto simp: tx_then_def tx_bind_def abandonAttempt_def execute_apply tx_return_def abandon_attempt_def intro!: leaves_same)
next
  case (Submits actor iid v key k dto)
  with assms(1,2,4,6,7) tx_then_None [of "createGoalAndRun E actor iid v key k dto" s r t] show ?thesis
    by (auto simp: meanwhile_def intro!: leaves_submitted)
qed

section \<open>Whose turn it is\<close>

text \<open>
  The state while the task waits: the task and its run are as they were submitted, the context is the submitted one, every
  task whose turn is not later is one of those in \<open>before\<close>, and the tasks in \<open>taken\<close>, which were handed out since,
  are held.
\<close>

definition waiting :: "timestamp \<Rightarrow> task_row \<Rightarrow> run_row \<Rightarrow> context_row \<Rightarrow> (uuid \<times> uuid) set \<Rightarrow> (uuid \<times> uuid) set \<Rightarrow> db \<Rightarrow> bool" where
  "waiting until task run context before taken d \<longleftrightarrow> task \<in> set (tasks d) \<and> run \<in> set (runs d) \<and>
     find_context (r_company_id run) (r_id run) d = Some context \<and>
     (\<forall>x \<in> set (tasks d). t_id x = t_id task \<or> t_run_id x = r_id run \<longrightarrow> x = task) \<and>
     (\<forall>x \<in> set (tasks d). turn_of x \<le> turn_of task \<longrightarrow> x = task \<or> task_key x \<in> before) \<and>
     (\<forall>x \<in> set (tasks d). task_key x \<in> taken \<longrightarrow> held until x) \<and> taken \<subseteq> before \<and> taken \<subseteq> task_key ` set (tasks d)"

text \<open>What a submitted task and its run look like until the claim.\<close>

definition submitted :: "timestamp \<Rightarrow> task_row \<Rightarrow> run_row \<Rightarrow> bool" where
  "submitted start task run \<longleftrightarrow> t_state task = T_QUEUED \<and> t_available_at task \<le> start \<and> t_created_at task \<le> start \<and>
     t_priority task = 100 \<and> t_attempt_count task = 0 \<and> run_open run \<and> t_run_id task = r_id run \<and> t_company_id task = r_company_id run"

lemma find_map: "find p (map g xs) = map_option g (find (\<lambda>x. p (g x)) xs)"
  by (induction xs) auto

lemma find_context_extended:
  assumes "find_context c rid d = Some context" and "context_extended d d'"
    and "runs d' = map g (runs d) @ new" and "run_kept run g"
  shows "find_context c rid d' = Some context"
proof -
  from assms(2) obtain cs gs ps where ext: "context_snapshots d' = context_snapshots d @ cs" "goal_versions d' = goal_versions d @ gs"
    "company_profile_versions d' = company_profile_versions d @ ps" by (auto simp: context_extended_def)
  have g: "r_id (g r) = r_id r" "r_company_id (g r) = r_company_id r" "r_context_snapshot_id (g r) = r_context_snapshot_id r" for r
    using assms(4) by (simp_all add: run_kept_def)
  from assms(1) show ?thesis
    by (auto simp: find_context_def ext assms(3) find_app find_map g bind_eq_Some_conv)
qed

lemma waiting_kept:
  assumes w: "waiting until task run context before taken d" and "leaves_waiting until task run d d'"
  shows "waiting until task run context before taken d'"
proof -
  from assms(2) obtain f new g new' where d': "tasks d' = map f (tasks d) @ new" "runs d' = map g (runs d) @ new'"
    and f: "task_kept until task f" and g: "run_kept run g" and ext: "context_extended d d'"
    and new: "\<forall>x \<in> set new. t_id x \<notin> t_id ` set (tasks d) \<and> t_run_id x \<notin> r_id ` set (runs d) \<and> turn_of task < turn_of x"
    by (auto simp: leaves_waiting_def)
  have keys: "task_key (f y) = task_key y" "turn_of (f y) = turn_of y" "t_run_id (f y) = t_run_id y" for y
    using f by (simp_all add: task_kept_def)
  have id: "t_id (f y) = t_id y" for y using keys(1) [of y] by (simp add: task_key_def)
  have old: "\<exists>y \<in> set (tasks d). x = f y" if "x \<in> set (tasks d')" "x \<notin> set new" for x using that d'(1) by auto
  have "task \<in> set (tasks d)" "f task = task" "run \<in> set (runs d)" "g run = run"
    using w f g by (simp_all add: waiting_def task_kept_def run_kept_def)
  then have mem: "task \<in> set (tasks d')" "run \<in> set (runs d')"
    unfolding d' by (metis Un_iff image_eqI list.set_map set_append)+
  have own: "x = task" if x: "x \<in> set (tasks d')" "t_id x = t_id task \<or> t_run_id x = r_id run" for x
  proof (cases "x \<in> set new")
    case True
    with new x(2) w show ?thesis unfolding waiting_def by (metis image_eqI)
  next
    case False
    with old x(1) obtain y where y: "y \<in> set (tasks d)" "x = f y" by blast
    with x(2) w have "y = task" by (auto simp: waiting_def id keys)
    with y(2) f show ?thesis by (simp add: task_kept_def)
  qed
  have turn: "x = task \<or> task_key x \<in> before" if x: "x \<in> set (tasks d')" "turn_of x \<le> turn_of task" for x
  proof -
    have "x \<notin> set new" using new x(2) by force
    with old x(1) obtain y where y: "y \<in> set (tasks d)" "x = f y" by blast
    with x(2) w have "y = task \<or> task_key y \<in> before" by (simp add: waiting_def keys)
    with y(2) f show ?thesis by (auto simp: task_kept_def keys)
  qed
  have hold: "held until x" if x: "x \<in> set (tasks d')" "task_key x \<in> taken" for x
  proof -
    have "x \<notin> set new"
    proof
      assume "x \<in> set new"
      moreover obtain y where "y \<in> set (tasks d)" "task_key y = task_key x" using x(2) w by (auto simp: waiting_def)
      ultimately have "t_id x \<in> t_id ` set (tasks d)" "t_id x \<notin> t_id ` set (tasks d)"
        using new by (force simp: task_key_def image_iff, blast)
      then show False by blast
    qed
    with old x(1) obtain y where y: "y \<in> set (tasks d)" "x = f y" by blast
    with x(2) w have "held until y" by (simp add: waiting_def keys)
    with y(2) f show ?thesis by (simp add: task_kept_def)
  qed
  have "task_key ` set (tasks d) \<subseteq> task_key ` set (tasks d')"
    by (simp add: d'(1) image_Un image_image keys(1))
  with w have present: "taken \<subseteq> task_key ` set (tasks d')" and known: "taken \<subseteq> before" by (auto simp: waiting_def)
  have goal: "find_context (r_company_id run) (r_id run) d' = Some context"
    using find_context_extended [OF _ ext d'(2) g] w by (simp add: waiting_def)
  show ?thesis
    unfolding waiting_def by (intro conjI ballI impI mem goal present known) (simp_all add: own turn hold)
qed

lemma waiting_claim:
  assumes w: "waiting until task run context before taken (sys_db s)" and "submitted start task run"
    and "meanwhile start until task (E, Claims locked)" and "runId \<in> {None, Some (r_id run)}"
    and c: "claimTask E locked runId s = (Inr res, u)"
  obtains (mine) cl where "res = Some cl" "ct_id cl = t_id task" "ct_run_id cl = r_id run" "ct_attempt_number cl = 1"
      "loadContext (ct_company_id cl) (ct_run_id cl) u = (Inr context, u)"
  | (other) cl where "res = Some cl" "ct_id cl \<noteq> t_id task" "claim_key cl \<in> before - taken"
      "waiting until task run context before (insert (claim_key cl) taken) (sys_db u)"
proof -
  from assms(2,3,4) have "claimable E locked runId (task, run)"
    by (auto simp: meanwhile_def submitted_def claimable_def)
  moreover have "(task, run) \<in> set (tasks_with_runs (sys_db s))"
    using w assms(2) by (simp add: waiting_def submitted_def in_tasks_with_runs)
  ultimately have ready: "(task, run) \<in> set (filter (claimable E locked runId) (tasks_with_runs (sys_db s)))" by simp
  from c show thesis
  proof (cases rule: claimTask_InrE)
    case none
    with ready show thesis by (auto simp: claim_candidate_def filter_empty_conv)
  next
    case (claimed x r attemptId leaseToken pdid es cs evs ms)
    from order_limit_1_Some [OF claimed(1) [unfolded claim_candidate_def]] ready
    have x: "x \<in> set (tasks (sys_db s))" "claimable E locked runId (x, r)" and best: "turn_of x \<le> turn_of task"
      by (auto simp: in_tasks_with_runs) (metis claim_rank_turn)
    let ?c = "claim_of E x r leaseToken attemptId"
    show thesis
    proof (cases "x = task")
      case True
      have "find_context (t_company_id x) (t_run_id x) (sys_db u) =
          find_context (t_company_id x) (t_run_id x) (sys_db s\<lparr>runs := runs (start_run E (t_company_id x) (t_run_id x) (sys_db s))\<rparr>)"
        unfolding claimed(8) by (simp add: find_context_def)
      then have "find_context (t_company_id x) (t_run_id x) (sys_db u) = Some context"
        unfolding find_context_started using w True assms(2) by (simp add: waiting_def submitted_def)
      with claimed(2) True assms(2) show thesis
        by (intro mine [of ?c])
          (simp_all add: claim_of_def submitted_def loadContext_def tx_bind_def query_apply tx_require_def tx_return_def)
    next
      case False
      with w x(1) best have other_x: "t_id x \<noteq> t_id task" "t_run_id x \<noteq> r_id run" "task_key x \<in> before"
        by (auto simp: waiting_def)
      from assms(3) have "now_ms E \<le> until" by (simp add: meanwhile_def)
      with w x(1,2) held_not_claimable have free: "task_key x \<notin> taken" by (auto simp: waiting_def)
      have rows: "tasks (sys_db u) = tasks (lease_task E (t_company_id x) (t_id x) leaseToken (sys_db s))"
        "runs (sys_db u) = runs (start_run E (t_company_id x) (t_run_id x) (sys_db s))"
        "context_snapshots (sys_db u) = context_snapshots (sys_db s)" "goal_versions (sys_db u) = goal_versions (sys_db s)"
        "company_profile_versions (sys_db u) = company_profile_versions (sys_db s)"
        by (simp_all add: claimed(8))
      note upds = rows(1) [unfolded lease_task_def, simplified] rows(2) [unfolded start_run_def, simplified]
      have leased: "until \<le> now_ms E + lease_seconds E * 1000" using assms(3) by (simp add: meanwhile_def)
      have "leaves_waiting until task run (sys_db s) (sys_db u)"
        by (rule leaves_updated [OF upds rows(3-5)])
          (use other_x leased in \<open>simp_all add: task_key_def turn_of_def held_def\<close>)
      with w have kept: "waiting until task run context before taken (sys_db u)" by (rule waiting_kept)
      have "held until y" if "y \<in> set (tasks (sys_db u))" "task_key y = task_key x" for y
        using that leased unfolding upds(1) by (auto simp: set_upd_where task_key_def held_def split: if_splits)
      moreover have "task_key x \<in> task_key ` set (tasks (sys_db u))"
        using x(1) unfolding upds(1) by (subst image_upd_where_same) (simp_all add: task_key_def)
      ultimately have "waiting until task run context before (insert (task_key x) taken) (sys_db u)"
        using kept other_x(3) unfolding waiting_def by blast
      moreover have "claim_key ?c = task_key x" "ct_id ?c = t_id x" by (simp_all add: claim_key_def task_key_def claim_of_def)
      ultimately show thesis using other_x free claimed(2) by (intro other [of ?c]) simp_all
    qed
  qed
qed

lemma waiting_calls:
  assumes "waiting until task run context before taken (sys_db s)" and "submitted start task run"
    and "\<forall>m \<in> set calls. meanwhile start until task m" and "handed_out calls s = (cs, u)" and "t_id task \<notin> ct_id ` set cs"
    and "finite taken"
  shows "\<exists>taken'. waiting until task run context before taken' (sys_db u) \<and> finite taken' \<and> card taken' = card taken + length cs"
  using assms(1,3-6)
proof (induction calls arbitrary: s cs taken)
  case Nil
  then show ?case by auto
next
  case (Cons m calls)
  obtain E b where m: "m = (E, b)" by (cases m)
  obtain r s1 where r: "perform E b s = (r, s1)" by (cases "perform E b s")
  obtain cs1 where rest: "handed_out calls s1 = (cs1, u)" and cs: "cs = (case r of Inr (Some c) \<Rightarrow> c # cs1 | _ \<Rightarrow> cs1)"
    using Cons.prems(3) by (auto simp: m r split: prod.splits)
  have mw: "meanwhile start until task (E, b)" using Cons.prems(2) m by simp
  have run: "run \<in> set (runs (sys_db s))" using Cons.prems(1) by (simp add: waiting_def)
  have quiet: ?case if "waiting until task run context before taken (sys_db s1)" "\<forall>c. r \<noteq> Inr (Some c)"
  proof -
    from that(2) cs have "cs = cs1" by (auto split: sum.splits option.splits)
    with Cons.IH [OF that(1) _ rest] Cons.prems(2,4,5) show ?thesis by simp
  qed
  show ?case
  proof (cases "\<exists>locked. b = Claims locked")
    case False
    with perform_leaves [OF mw r _ run] assms(2) have "leaves_waiting until task run (sys_db s) (sys_db s1)" "\<forall>c. r \<noteq> Inr (Some c)"
      by (auto simp: submitted_def)
    with quiet waiting_kept [OF Cons.prems(1)] show ?thesis by blast
  next
    case True
    then obtain locked where b: "b = Claims locked" by blast
    show ?thesis
    proof (cases r)
      case (Inl e)
      with r b have "sys_db s1 = sys_db s" by (auto dest: worker_methods_rollback(1))
      with quiet Cons.prems(1) Inl show ?thesis by simp
    next
      case (Inr res)
      with r b have "claimTask E locked None s = (Inr res, s1)" by simp
      with Cons.prems(1) assms(2) mw [unfolded b] _ show ?thesis
      proof (rule waiting_claim)
        fix cl assume "res = Some cl" "ct_id cl = t_id task"
        with Cons.prems(4) cs Inr show ?thesis by simp
      next
        fix cl assume cl: "res = Some cl" "claim_key cl \<in> before - taken"
          and w: "waiting until task run context before (insert (claim_key cl) taken) (sys_db s1)"
        from cs Inr cl(1) have c: "cs = cl # cs1" by simp
        from Cons.IH [OF w _ rest] Cons.prems(2,4,5) c obtain taken' where
          "waiting until task run context before taken' (sys_db u)" "finite taken'" "card taken' = card (insert (claim_key cl) taken) + length cs1"
          by auto
        with cl(2) Cons.prems(5) c show ?thesis by (intro exI [of _ taken']) simp
      qed simp
    qed
  qed
qed

section \<open>The submitted goal reaches a worker\<close>

text \<open>
  C18. The goal a founder submitted is taken up by the workers in its turn and unchanged. When a goal command was answered, was not
  replayed and needs no clarification, there is one new run with one new task. Consider any calls that workers and other founders
  make from then on: claims without a run as \<open>processOnce()\<close> makes them, work on claims for other tasks, and later goals, all
  before a lease given out since expires. As long as none of the claims handed out is for this task: there were at most as many
  of them as there were tasks in the table whose turn (priority, then age, then identifier) is not after this one's; the next claim, without a
  run or for this run, never finds nothing to do; and if it hands out a claim, then either this is the first attempt of this task, and the context
  the worker then loads is the goal as submitted with the purpose and the target customer of the profile version that was
  current for the founder's company, or fewer claims than that number were handed out before. So after that number of claims for other tasks the next claim is
  for this one. A claim that fails with a database error hands out nothing and is not counted.
\<close>

theorem submitted_goal_reaches_worker:
  assumes "createGoalAndRun E actor initiativeId version key correlationId dto s = (Inr r, t)" and "\<not> cr_replayed r"
    and "gq_q_result (publicGoalQualification (evaluateGoalQualification (cg_goal dto))) \<noteq> Needs_clarification"
    and "companies_ok (sys_db s)" and "tasks_refer (sys_db s)"
  shows "\<exists>run task p co. runs (sys_db t) = runs (sys_db s) @ [run] \<and> tasks (sys_db t) = tasks (sys_db s) @ [task] \<and>
     t_run_id task = r_id run \<and> t_id task \<notin> t_id ` set (tasks (sys_db s)) \<and>
     co \<in> set (companies (sys_db s)) \<and> co_founder_id co = ra_id actor \<and> co_current_profile_version_id co = Some (cp_id p) \<and>
     p \<in> set (company_profile_versions (sys_db s)) \<and>
     (\<forall>until calls cs u earlier.
        (\<forall>m \<in> set calls. meanwhile (now_ms E) until task m) \<and> handed_out calls t = (cs, u) \<and> t_id task \<notin> ct_id ` set cs \<and>
        earlier = length (filter (\<lambda>x. claim_rank (x, run) \<le> claim_rank (task, run)) (tasks (sys_db s))) \<longrightarrow>
        length cs \<le> earlier \<and>
        (\<forall>E' locked runId c v. meanwhile (now_ms E) until task (E', Claims locked) \<and> runId \<in> {None, Some (r_id run)} \<longrightarrow>
           fst (claimTask E' locked runId u) \<noteq> Inr None \<and>
           (claimTask E' locked runId u = (Inr (Some c), v) \<longrightarrow>
              (if ct_id c = t_id task
               then ct_run_id c = r_id run \<and> ct_attempt_number c = 1 \<and>
                 loadContext (ct_company_id c) (ct_run_id c) v =
                   (Inr \<lparr>cr_goal = canonicalStructuredGoal (cg_goal dto), cr_purpose = cp_purpose p,
                      cr_target_customer = cp_target_customer p\<rparr>, v)
               else length cs < earlier))))"
  using createGoalAndRun_started [OF assms(1,2) refl refl]
proof cases
  case (1 c i gvid sid rid tid qid pid e1 e2 q1 q2 co)
  let ?run = "goal_run E rid c initiativeId sid False" and ?task = "first_task E tid c rid sid pid gvid"
  have tables: "runs (sys_db t) = runs (sys_db s) @ [?run]" "tasks (sys_db t) = tasks (sys_db s) @ [?task]"
    using 1(12,13) assms(3) by simp_all
  from 1(19) obtain p where p: "p \<in> set (company_profile_versions (sys_db s))" "cp_company_id p = c" "cp_id p = pid"
    by (auto simp: fresh_goal_rows_def)
  let ?ctx = "\<lparr>cr_goal = canonicalStructuredGoal (cg_goal dto), cr_purpose = cp_purpose p, cr_target_customer = cp_target_customer p\<rparr>"
  let ?old = "filter (\<lambda>x. claim_rank (x, ?run) \<le> claim_rank (?task, ?run)) (tasks (sys_db s))"
  let ?before = "task_key ` set ?old"
  have "distinct (map cp_id (company_profile_versions (sys_db s)))" using assms(4) by (simp add: companies_ok_def)
  from new_run_context [OF _ this p(1,2) tables(1) _ 1(10) 1(18)] 1(11,19) p(3)
  have ctx: "find_context c rid (sys_db t) = Some ?ctx" by simp
  have row: "t_id ?task = tid" "t_run_id ?task = rid" "r_id ?run = rid" "r_company_id ?run = c" by (simp_all add: goal_run_def first_task_def)
  have new: "tid \<notin> t_id ` set (tasks (sys_db s))" using 1(24) assms(3) by blast
  have sub: "submitted (now_ms E) ?task ?run"
    by (simp add: submitted_def first_task_def goal_run_def goal_run_state_def run_open_def terminal_run_def)
  have own: "t_run_id x \<noteq> rid" if "x \<in> set (tasks (sys_db s))" for x
    using that assms(5) 1(19) unfolding tasks_refer_def fresh_goal_rows_def by metis
  have start: "waiting until ?task ?run ?ctx ?before {} (sys_db t)" for until
    using new own ctx by (auto simp: waiting_def tables row claim_rank_turn)
  have reach: "length cs \<le> length ?old \<and>
      (\<forall>E' locked runId c v. meanwhile (now_ms E) until ?task (E', Claims locked) \<and> runId \<in> {None, Some (r_id ?run)} \<longrightarrow>
         fst (claimTask E' locked runId u) \<noteq> Inr None \<and>
         (claimTask E' locked runId u = (Inr (Some c), v) \<longrightarrow>
            (if ct_id c = t_id ?task
             then ct_run_id c = r_id ?run \<and> ct_attempt_number c = 1 \<and> loadContext (ct_company_id c) (ct_run_id c) v = (Inr ?ctx, v)
             else length cs < length ?old)))"
    if calls: "\<forall>m \<in> set calls. meanwhile (now_ms E) until ?task m" "handed_out calls t = (cs, u)" "t_id ?task \<notin> ct_id ` set cs"
    for until calls cs u
  proof -
    from waiting_calls [OF start sub calls] obtain taken where
      w: "waiting until ?task ?run ?ctx ?before taken (sys_db u)" and fin: "finite taken" "card taken = length cs" by auto
    have size: "card X \<le> length ?old" if "X \<subseteq> ?before" for X
      using card_mono [OF _ that] card_image_le [of "set ?old" task_key] card_length [of ?old] by force
    have "length cs \<le> length ?old" using w fin(2) size [of taken] by (simp add: waiting_def)
    moreover have "fst (claimTask E' locked runId u) \<noteq> Inr None \<and>
         (claimTask E' locked runId u = (Inr (Some cl), v) \<longrightarrow>
            (if ct_id cl = t_id ?task
             then ct_run_id cl = r_id ?run \<and> ct_attempt_number cl = 1 \<and> loadContext (ct_company_id cl) (ct_run_id cl) v = (Inr ?ctx, v)
             else length cs < length ?old))"
      if next_claim: "meanwhile (now_ms E) until ?task (E', Claims locked)" "runId \<in> {None, Some (r_id ?run)}" for E' locked runId cl v
    proof -
      note claim = waiting_claim [OF w sub next_claim]
      have "fst (claimTask E' locked runId u) \<noteq> Inr None"
      proof
        assume "fst (claimTask E' locked runId u) = Inr None"
        then obtain v' where "claimTask E' locked runId u = (Inr None, v')" by (metis prod.collapse)
        then show False by (rule claim) simp_all
      qed
      moreover have "if ct_id cl = t_id ?task
             then ct_run_id cl = r_id ?run \<and> ct_attempt_number cl = 1 \<and> loadContext (ct_company_id cl) (ct_run_id cl) v = (Inr ?ctx, v)
             else length cs < length ?old" if "claimTask E' locked runId u = (Inr (Some cl), v)"
        using that
      proof (rule claim)
        fix c' assume other: "Some cl = Some c'" "ct_id c' \<noteq> t_id ?task" "claim_key c' \<in> ?before - taken"
        then have "insert (claim_key cl) taken \<subseteq> ?before" "claim_key cl \<notin> taken" using w by (auto simp: waiting_def)
        with size [of "insert (claim_key cl) taken"] fin other(1,2) show ?thesis by simp
      qed simp
      ultimately show ?thesis by blast
    qed
    ultimately show ?thesis by blast
  qed
  have all: "(\<forall>until calls cs u earlier.
        (\<forall>m \<in> set calls. meanwhile (now_ms E) until ?task m) \<and> handed_out calls t = (cs, u) \<and> t_id ?task \<notin> ct_id ` set cs \<and>
        earlier = length (filter (\<lambda>x. claim_rank (x, ?run) \<le> claim_rank (?task, ?run)) (tasks (sys_db s))) \<longrightarrow>
        length cs \<le> earlier \<and>
        (\<forall>E' locked runId c v. meanwhile (now_ms E) until ?task (E', Claims locked) \<and> runId \<in> {None, Some (r_id ?run)} \<longrightarrow>
           fst (claimTask E' locked runId u) \<noteq> Inr None \<and>
           (claimTask E' locked runId u = (Inr (Some c), v) \<longrightarrow>
              (if ct_id c = t_id ?task
               then ct_run_id c = r_id ?run \<and> ct_attempt_number c = 1 \<and>
                 loadContext (ct_company_id c) (ct_run_id c) v =
                   (Inr ?ctx, v)
               else length cs < earlier))))"
    by (intro allI impI, elim conjE, hypsubst) (rule reach)
  show ?thesis
    by (rule exI [of _ ?run], rule exI [of _ ?task], rule exI [of _ p], rule exI [of _ co], intro conjI; (rule all)?)
      (use tables 1(20,22,23) p row new in simp_all)
qed

end
