(* ===== verification/Initiative_Witnesses.thy ===== *)
theory Initiative_Witnesses
  imports Delivery Attachment_Witnesses
begin

text \<open>
  The theorems on initiatives at the sample company: goals without a word, which no phrase of the policy can match. The one
  without any text needs clarification; the one whose texts are exclamation marks is qualified.
\<close>

abbreviation small_constraints :: goal_constraints where
  "small_constraints \<equiv> \<lparr>gc_max_screens = 3, gc_primary_flows = 1, gc_client_only = True, gc_data_mode = ''mock_or_local''\<rparr>"

definition blank_goal :: structured_goal where
  "blank_goal = \<lparr>sg_target_user = [], sg_problem = [], sg_desired_outcome = [], sg_primary_flow = [],
     sg_must_haves = [], sg_non_goals = [], sg_visual_direction = [],
     sg_constraints = small_constraints, sg_reference_ids = []\<rparr>"

abbreviation signs :: string where
  "signs \<equiv> ''!!!!!!!!!!!!!!!!!!!!''"

definition signs_goal :: structured_goal where
  "signs_goal = \<lparr>sg_target_user = signs, sg_problem = signs, sg_desired_outcome = signs, sg_primary_flow = signs,
     sg_must_haves = [\<lparr>mh_id = ''MH-001'', mh_text = signs\<rparr>], sg_non_goals = [], sg_visual_direction = [],
     sg_constraints = small_constraints, sg_reference_ids = []\<rparr>"

definition signs_goal_dto :: create_goal_dto where
  "signs_goal_dto = \<lparr>cg_schema_version = 1, cg_goal = signs_goal, cg_attachment_ids = [], cg_start_run = True\<rparr>"

definition blank_goal_dto :: create_goal_dto where
  "blank_goal_dto = \<lparr>cg_schema_version = 1, cg_goal = blank_goal, cg_attachment_ids = [], cg_start_run = True\<rparr>"

fun starts_with_bound :: "rx \<Rightarrow> bool" where
  "starts_with_bound (Seq Bound r) = True"
| "starts_with_bound r = False"

text \<open>A text without word characters has no word boundary, so a pattern that starts with one is not found.\<close>

lemma word_at_none: "list_all (\<lambda>c. \<not> is_word c) text \<Longrightarrow> \<not> word_at text"
  by (cases "text") auto

lemma no_bound_no_match:
  assumes "starts_with_bound r" and "list_all (\<lambda>c. \<not> is_word c) text"
  shows "\<not> occurs r text"
proof
  assume "occurs r text"
  then obtain pre w post q where t: "text = pre @ w @ post" and m: "matches (Seq Bound q) (rev pre) w post"
    using assms(1) by (cases r rule: starts_with_bound.cases) (auto simp: occurs_def)
  then have "word_at (rev pre) \<noteq> word_at (w @ post)"
    by (auto simp: matches_simps)
  moreover have "\<not> word_at (rev pre)" "\<not> word_at (w @ post)"
    using assms(2) by (intro word_at_none; simp add: t list_all_iff)+
  ultimately show False by blast
qed

lemma patterns_start_with_bound:
  "list_all starts_with_bound (category_patterns @ persona_patterns @ [template_pattern, screen_pattern])"
  "list_all (\<lambda>e. list_all starts_with_bound (dc_patterns e)) DENIED_CAPABILITY_PATTERNS"
  by code_simp+

lemma blank_text: "list_all (\<lambda>c. \<not> is_word c) (requestedText blank_goal)"
  by (simp add: requestedText_def blank_goal_def is_word_def)

lemma signs_text: "list_all (\<lambda>c. \<not> is_word c) (requestedText signs_goal)"
  by (simp add: requestedText_def signs_goal_def is_word_def)

lemma wordless_screens:
  assumes "list_all (\<lambda>c. \<not> is_word c) text"
  shows "screenEstimateFromText text = 0"
proof -
  have "\<not> occurs screen_pattern text"
    using patterns_start_with_bound(1) assms by (intro no_bound_no_match) simp_all
  then have "rx_exec screen_pattern [] text = None"
    unfolding rx_test_occurs [symmetric] rx_test_def by blast
  then show ?thesis by (simp add: screenEstimateFromText_def matchAll_def rx_all_none)
qed

lemma wordless_in_scope:
  assumes "list_all (\<lambda>c. \<not> is_word c) (requestedText goal)" and "sg_constraints goal = small_constraints"
  shows "all_findings goal = []"
proof -
  have n: "\<not> occurs p (requestedText goal)" if "starts_with_bound p" for p
    by (rule no_bound_no_match [OF that assms(1)])
  have "rule_findings goal = []"
    using some_rule_finding [of goal] n patterns_start_with_bound(1) wordless_screens [OF assms(1)] assms(2)
    by (auto simp: list_all_iff)
  moreover have "capability_findings (requestedText goal) = []"
    using some_capability_finding [of "requestedText goal"] n patterns_start_with_bound(2)
    by (auto simp: list_all_iff)
  ultimately show ?thesis by (simp add: all_findings_def)
qed

lemma blank_in_scope: "all_findings blank_goal = []"
  by (rule wordless_in_scope [OF blank_text]) (simp add: blank_goal_def)

lemma signs_in_scope: "all_findings signs_goal = []"
  by (rule wordless_in_scope [OF signs_text]) (simp add: signs_goal_def)

lemma signs_questions: "clarifications signs_goal = []"
  by code_simp

lemma signs_result: "gq_q_result (evaluateGoalQualification signs_goal) = Qualified"
  using signs_in_scope signs_questions by (cases signs_goal rule: evaluate_cases) simp_all

lemma blank_questions: "clarifications blank_goal \<noteq> []"
  by code_simp

lemma blank_result: "gq_q_result (evaluateGoalQualification blank_goal) = Needs_clarification"
  using blank_in_scope blank_questions by (cases blank_goal rule: evaluate_cases) simp_all

lemma blank_evaluated: "GoalScope_evaluate blank_goal_dto = Inr (evaluateGoalQualification blank_goal)"
  by (simp add: GoalScope_evaluate_def assertCommand_def blank_goal_dto_def) (simp add: blank_goal_def)

abbreviation blank_result_of :: public_qualification where
  "blank_result_of \<equiv> publicGoalQualification (evaluateGoalQualification blank_goal)"

lemma blank_public: "gq_q_result blank_result_of = Needs_clarification" "gq_q_proposal blank_result_of = None"
  "between 1 5 (gq_q_questions blank_result_of)" "0 \<le> gq_q_screen_estimate blank_result_of"
proof -
  show "gq_q_result blank_result_of = Needs_clarification" "gq_q_proposal blank_result_of = None"
    "between 1 5 (gq_q_questions blank_result_of)"
    using blank_result
    by (cases blank_goal rule: evaluate_cases;
      simp add: publicGoalQualification_def between_def clarifications_bound Suc_le_eq)+
  show "0 \<le> gq_q_screen_estimate blank_result_of"
    using estimate_nonneg [of "requestedText blank_goal"]
    by (simp add: publicGoalQualification_def evaluate_estimate le_max_iff_disj)
qed

lemma sample_present: "present fo_id (sample_id 1) (founders (sys_db sample_sys))"
  by (simp add: sample_state present_def)

text \<open>The row of the blank goal's qualification, as the table's checks see it.\<close>

lemma blank_row_inserted:
  assumes "absent gq_id qid (goal_qualifications (sys_db s))"
    and "absent (\<lambda>x. (gq_company_id x, gq_goal_version_id x)) (cid, gvid) (goal_qualifications (sys_db s))"
    and "present (\<lambda>x. (in_company_id x, in_id x)) (cid, iid) (initiatives (sys_db s))"
    and "present (\<lambda>x. (gv_company_id x, gv_id x)) (cid, gvid) (goal_versions (sys_db s))"
    and "present (\<lambda>x. (r_company_id x, r_id x)) (cid, rid) (runs (sys_db s))"
  shows "insert_qualification (qualification_row_of blank_result_of qid cid iid gvid rid) s =
    (Inr (), s\<lparr>sys_db := sys_db s\<lparr>goal_qualifications := goal_qualifications (sys_db s) @
      [qualification_row_of blank_result_of qid cid iid gvid rid]\<rparr>\<rparr>)"
  unfolding insert_qualification_def using assms blank_public
  by (intro insert_row_ok) (simp add: qualification_row_of_def between_def)

lemmas goal_run_simps = goal_body_def record_goal_def goal_rows_def goal_budgets_def tx_bind_def tx_then_def query_apply newId_apply
  execute_apply tx_lift_def tx_require_def tx_when_def tx_return_def bindToGoalVersion_def
  insert_goal_version_def insert_snapshot_def insert_run_def insert_counter_def insert_budget_def insert_row_def
  new_goal_version_def goal_snapshot_def goal_run_def run_budget_def profile_of_def activate_initiative_def
  DomainEvent_append_def next_run_sequence_def run_created_event_def qualification_event_def Let_def insert_event_def
  insert_outbox_def new_event_def new_message_def sample_state absent_def present_def next_goal_version_def

lemma blank_goal_runs:
  "\<exists>b t. goal_body sample_env (sample_id 2) (sample_id 1) (sample_id 10) (sample_id 4) 2 blank_goal_dto blank_result_of
      (sample_sys\<lparr>sys_next := 1, sys_db := sys_db sample_sys\<lparr>idempotency_records := rs\<rparr>\<rparr>) = (Inr (201, b), t)"
  by (simp add: goal_run_simps blank_public(1) blank_goal_dto_def blank_row_inserted)

text \<open>The command at the sample initiative, once its body is known to run.\<close>

lemma sample_goal_accepted:
  assumes "q = evaluateGoalQualification (cg_goal dto)" and "GoalScope_evaluate dto = Inr q" and "gq_q_result q \<noteq> Out_of_scope"
    and "\<And>rs. \<exists>b t. goal_body sample_env (sample_id 2) (sample_id 1) (sample_id 10) (sample_id 4) 2 dto (publicGoalQualification q)
      (sample_sys\<lparr>sys_next := 1, sys_db := sys_db sample_sys\<lparr>idempotency_records := rs\<rparr>\<rparr>) = (Inr (201, b), t)"
  shows "\<exists>b t. createGoalAndRun sample_env sample_actor (sample_id 4) 2 (sample_id 9) (sample_id 10) dto sample_sys =
    (Inr \<lparr>cr_status = 201, cr_body = b, cr_replayed = False\<rparr>, t) \<and> runs (sys_db t) \<noteq> runs (sys_db sample_sys)"
proof -
  let ?o = "goal_command sample_env (sample_id 2) (sample_id 1) (sample_id 9) (sample_id 10) (sample_id 4) 2 dto (publicGoalQualification q)"
  from assms(4) obtain b s2 where body: "cx_execute ?o (sample_sys\<lparr>sys_next := Suc (sys_next sample_sys), sys_db := sys_db sample_sys\<lparr>idempotency_records :=
        idempotency_records (sys_db sample_sys) @ [new_idempotency_record sample_env ?o (uuid_at sample_env (sys_next sample_sys))
          (canonicalDigest sample_env (cx_request ?o))]\<rparr>\<rparr>) = (Inr (201, b), s2)"
    by (simp add: goal_command_def sample_sys_def initial_sys_def) blast
  let ?t = "s2\<lparr>sys_db := complete_record sample_env ?o 201 b (sys_db s2)\<rparr>"
  have "CommandExecutor_run sample_env ?o sample_sys = (Inr \<lparr>cr_status = 201, cr_body = b, cr_replayed = False\<rparr>, ?t)"
    by (rule CommandExecutor_run_new [OF _ _ _ body])
      (simp_all add: sample_state absent_def present_def goal_command_def)
  then have run: "createGoalAndRun sample_env sample_actor (sample_id 4) 2 (sample_id 9) (sample_id 10) dto
      sample_sys = (Inr \<lparr>cr_status = 201, cr_body = b, cr_replayed = False\<rparr>, ?t)"
    by (simp add: createGoalAndRun_def tx_bind_def tx_lift_def require_company_def companyScopeFromActor_def
        requireCompanyScope_def sample_actor_fields(1) assms(2,3)) (simp add: sample_actor_fields(2))
  from body have "goal_body sample_env (sample_id 2) (sample_id 1) (sample_id 10) (sample_id 4) 2 dto (publicGoalQualification q)
      (sample_sys\<lparr>sys_next := Suc (sys_next sample_sys), sys_db := sys_db sample_sys\<lparr>idempotency_records :=
        idempotency_records (sys_db sample_sys) @ [new_idempotency_record sample_env ?o (uuid_at sample_env (sys_next sample_sys))
          (canonicalDigest sample_env (cx_request ?o))]\<rparr>\<rparr>) = (Inr (201, b), s2)" by (simp add: goal_command_def)
  then have "runs (sys_db s2) \<noteq> runs (sys_db sample_sys)"
    by (rule goal_body_InrE) (erule record_goal_InrE, simp)
  with run show ?thesis by (auto simp: complete_record_def)
qed

lemma blank_goal_accepted:
  "\<exists>b t. createGoalAndRun sample_env sample_actor (sample_id 4) 2 (sample_id 9) (sample_id 10) blank_goal_dto sample_sys =
    (Inr \<lparr>cr_status = 201, cr_body = b, cr_replayed = False\<rparr>, t) \<and> runs (sys_db t) \<noteq> runs (sys_db sample_sys)"
proof (rule sample_goal_accepted [OF _ blank_evaluated _ blank_goal_runs])
  show "evaluateGoalQualification blank_goal = evaluateGoalQualification (cg_goal blank_goal_dto)" by (simp add: blank_goal_dto_def)
qed (simp add: blank_result)

text \<open>The qualified goal, which starts a run with a task.\<close>

abbreviation signs_result_of :: public_qualification where
  "signs_result_of \<equiv> publicGoalQualification (evaluateGoalQualification signs_goal)"

lemma signs_evaluated: "GoalScope_evaluate signs_goal_dto = Inr (evaluateGoalQualification signs_goal)"
  by (simp add: GoalScope_evaluate_def assertCommand_def signs_goal_dto_def) (simp add: signs_goal_def)

lemma signs_public: "gq_q_result signs_result_of = Qualified" "gq_q_proposal signs_result_of = None"
  "gq_q_questions signs_result_of = []" "0 \<le> gq_q_screen_estimate signs_result_of"
proof -
  show "gq_q_result signs_result_of = Qualified" "gq_q_proposal signs_result_of = None" "gq_q_questions signs_result_of = []"
    using signs_result by (cases signs_goal rule: evaluate_cases; simp add: publicGoalQualification_def)+
  show "0 \<le> gq_q_screen_estimate signs_result_of"
    using estimate_nonneg [of "requestedText signs_goal"]
    by (simp add: publicGoalQualification_def evaluate_estimate le_max_iff_disj)
qed

lemma signs_row_inserted:
  assumes "absent gq_id qid (goal_qualifications (sys_db s))"
    and "absent (\<lambda>x. (gq_company_id x, gq_goal_version_id x)) (cid, gvid) (goal_qualifications (sys_db s))"
    and "present (\<lambda>x. (in_company_id x, in_id x)) (cid, iid) (initiatives (sys_db s))"
    and "present (\<lambda>x. (gv_company_id x, gv_id x)) (cid, gvid) (goal_versions (sys_db s))"
    and "present (\<lambda>x. (r_company_id x, r_id x)) (cid, rid) (runs (sys_db s))"
  shows "insert_qualification (qualification_row_of signs_result_of qid cid iid gvid rid) s =
    (Inr (), s\<lparr>sys_db := sys_db s\<lparr>goal_qualifications := goal_qualifications (sys_db s) @
      [qualification_row_of signs_result_of qid cid iid gvid rid]\<rparr>\<rparr>)"
  unfolding insert_qualification_def using assms signs_public
  by (intro insert_row_ok) (simp add: qualification_row_of_def)

lemma signs_goal_runs:
  "\<exists>b t. goal_body sample_env (sample_id 2) (sample_id 1) (sample_id 10) (sample_id 4) 2 signs_goal_dto signs_result_of
      (sample_sys\<lparr>sys_next := 1, sys_db := sys_db sample_sys\<lparr>idempotency_records := rs\<rparr>\<rparr>) = (Inr (201, b), t)"
  by (simp add: goal_run_simps signs_public(1) signs_goal_dto_def signs_row_inserted insert_task_def first_task_def PM_EMPLOYEE_DEFINITION_ID_def)

lemma signs_goal_accepted:
  "\<exists>b t. createGoalAndRun sample_env sample_actor (sample_id 4) 2 (sample_id 9) (sample_id 10) signs_goal_dto sample_sys =
    (Inr \<lparr>cr_status = 201, cr_body = b, cr_replayed = False\<rparr>, t) \<and> runs (sys_db t) \<noteq> runs (sys_db sample_sys)"
proof (rule sample_goal_accepted [OF _ signs_evaluated _ signs_goal_runs])
  show "evaluateGoalQualification signs_goal = evaluateGoalQualification (cg_goal signs_goal_dto)" by (simp add: signs_goal_dto_def)
qed (simp add: signs_result)

theorem submitted_goal_reaches_worker_witness:
  "\<exists>r t run. createGoalAndRun sample_env sample_actor (sample_id 4) 2 (sample_id 9) (sample_id 10) signs_goal_dto sample_sys = (Inr r, t) \<and>
     run \<in> set (runs (sys_db t)) \<and> fst (claimTask sample_env [] None t) \<noteq> Inr None"
proof -
  obtain b t where run: "createGoalAndRun sample_env sample_actor (sample_id 4) 2 (sample_id 9) (sample_id 10) signs_goal_dto
      sample_sys = (Inr \<lparr>cr_status = 201, cr_body = b, cr_replayed = False\<rparr>, t)" using signs_goal_accepted by blast
  have needs: "gq_q_result (publicGoalQualification (evaluateGoalQualification (cg_goal signs_goal_dto))) \<noteq> Needs_clarification"
    using signs_public(1) by (simp add: signs_goal_dto_def)
  have tables: "companies_ok (sys_db sample_sys)" "tasks_refer (sys_db sample_sys)"
    by (simp_all add: companies_ok_def history_ok_def profiles_of_def tasks_refer_def sample_state)
  have now: "meanwhile (now_ms sample_env) (now_ms sample_env) x (sample_env, Claims [])" for x
    by (simp add: meanwhile_def sample_env_def)
  have nr: "\<not> cr_replayed \<lparr>cr_status = 201, cr_body = b, cr_replayed = False\<rparr>" by simp
  from submitted_goal_reaches_worker [OF run nr needs tables]
  have "\<exists>w. runs (sys_db t) = runs (sys_db sample_sys) @ [w] \<and> fst (claimTask sample_env [] None t) \<noteq> Inr None"
    by - (elim exE conjE, intro exI conjI, assumption, drule spec [of _ "now_ms sample_env"],
        drule spec [of _ "[] :: (env \<times> backend_call) list"], drule spec [of _ "[] :: claimed_task list"], drule spec [of _ t], drule spec,
        drule mp, intro conjI, simp, simp, simp, rule refl, drule conjunct2, drule spec [of _ sample_env],
        drule spec [of _ "[] :: uuid list"], drule spec [of _ "None :: uuid option"], drule spec, drule spec, drule mp, rule conjI, rule now, simp,
        erule conjunct1)
  then obtain w where "runs (sys_db t) = runs (sys_db sample_sys) @ [w]" "fst (claimTask sample_env [] None t) \<noteq> Inr None" by blast
  with run show ?thesis by (intro exI [of _ "\<lparr>cr_status = 201, cr_body = b, cr_replayed = False\<rparr>"] exI [of _ t] exI [of _ w]) simp
qed

theorem goal_starts_run_witness:
  "\<exists>r (t :: sys) run. createGoalAndRun sample_env sample_actor (sample_id 4) 2 (sample_id 9) (sample_id 10) blank_goal_dto
      sample_sys = (Inr r, t) \<and> run \<in> set (runs (sys_db t)) \<and> r_state run = R_AWAITING_FOUNDER_INPUT \<and>
    human_waits (sys_db t) = []"
proof -
  obtain b t where run: "createGoalAndRun sample_env sample_actor (sample_id 4) 2 (sample_id 9) (sample_id 10) blank_goal_dto
      sample_sys = (Inr \<lparr>cr_status = 201, cr_body = b, cr_replayed = False\<rparr>, t)" using blank_goal_accepted by blast
  have nr: "\<not> cr_replayed \<lparr>cr_status = 201, cr_body = b, cr_replayed = False\<rparr>" by simp
  have q: "blank_result_of = publicGoalQualification (evaluateGoalQualification (cg_goal blank_goal_dto))"
    by (simp add: blank_goal_dto_def)
  from goal_starts_run [OF run nr q refl] obtain c rid sid where
    "runs (sys_db t) = runs (sys_db sample_sys) @ [goal_run sample_env rid c (sample_id 4) sid True]"
    "human_waits (sys_db t) = human_waits (sys_db sample_sys)"
    unfolding blank_public(1) by auto
  with run show ?thesis
    by (intro exI [of _ "\<lparr>cr_status = 201, cr_body = b, cr_replayed = False\<rparr>"] exI [of _ t]
        exI [of _ "goal_run sample_env rid c (sample_id 4) sid True"])
      (simp add: goal_run_def goal_run_state_def sample_state)
qed

theorem stale_goal_refused_witness:
  "fst (createGoalAndRun sample_env sample_actor (sample_id 4) 1 (sample_id 9) (sample_id 10) blank_goal_dto sample_sys) =
    Inl initiativeChanged"
proof -
  have i: "find (\<lambda>r. in_company_id r = sample_id 2 \<and> in_id r = sample_id 4 \<and> in_status r \<in> set [I_DRAFT, I_ACTIVE])
      (initiatives (sys_db sample_sys)) = Some sample_initiative"
    by (simp add: sample_state)
  have q: "gq_q_result (evaluateGoalQualification blank_goal) \<noteq> Out_of_scope" by (simp add: blank_result)
  have "createGoalAndRun sample_env sample_actor (sample_id 4) 1 (sample_id 9) (sample_id 10) blank_goal_dto sample_sys =
    (Inl initiativeChanged, sample_sys\<lparr>sys_next := Suc (sys_next sample_sys)\<rparr>)"
    by (rule stale_goal_refused [OF sample_actor_fields(1) sample_ids_nonempty(1) blank_evaluated q i])
      (simp_all add: sample_state absent_def present_def sample_actor_fields)
  then show ?thesis by simp
qed

theorem padded_title_crashes_witness:
  "\<exists>s :: sys. fst (Initiatives_create sample_env sample_actor (sample_id 9) (sample_id 10)
      \<lparr>ci_type = ''PROTOTYPE'', ci_title = '' ab''\<rparr> s) = Inl (PgError ''initiatives_title_check'')"
proof -
  let ?d = "\<lparr>ci_type = ''PROTOTYPE'', ci_title = '' ab''\<rparr>" and ?s = "sample_sys\<lparr>sys_db := sample_db\<lparr>initiatives := []\<rparr>\<rparr>"
  have d: "CreateInitiativeDto_ok ?d" "length (js_trim (ci_title ?d)) < 3"
    by code_simp+
  have "fst (Initiatives_create sample_env sample_actor (sample_id 9) (sample_id 10) ?d ?s) = Inl (PgError ''initiatives_title_check'') \<and>
    pr_status (catch_exception [] [] (PgError ''initiatives_title_check'')) = 500"
    by (rule padded_title_crashes [OF d sample_actor_fields(1) sample_ids_nonempty(1)])
      (simp_all add: sample_state absent_def present_def sample_actor_fields)
  then show ?thesis by blast
qed

end
