(* ===== verification/Http_Witnesses.thy ===== *)
theory Http_Witnesses
  imports Http_Properties Auth_Witnesses Company_Witnesses Run_Witnesses Initiative_Witnesses
begin

text \<open>The theorems on the HTTP interface and on versions at requests of the sample founder.\<close>

definition sample_http :: http_ports where
  "sample_http = \<lparr>hp_jwt = sample_jwt, hp_store = MemoryObjectStore,
     hp_probes = \<lparr>rp_pingDatabase = Inr (), rp_migrationCompatible = Inr True, rp_pingObjectStore = Inr ()\<rparr>,
     hp_isEmail = (\<lambda>_. True), hp_isUUID = uuid_shape, hp_messages = (\<lambda>_. [])\<rparr>"

definition sample_request :: "string option \<Rightarrow> route \<Rightarrow> http_request" where
  "sample_request authorization r = \<lparr>rq_url = ''/api/v1'', rq_authorization = authorization, rq_idempotency_key = Some (sample_id 30),
     rq_if_match = Some [dquote, CHR ''1'', dquote], rq_correlation_id = None, rq_route = r\<rparr>"

theorem failed_request_changes_nothing_witness:
  "\<exists>response t p. serve sample_http sample_env (sample_request None (Get_run (sample_id 7))) signed_in = (response, t) \<and>
     hr_body response = Problem p \<and> pr_status p = 401 \<and> sys_db t = sys_db signed_in"
proof -
  let ?rq = "sample_request None (Get_run (sample_id 7))"
  obtain response t where r: "serve sample_http sample_env ?rq signed_in = (response, t)"
    by (cases "serve sample_http sample_env ?rq signed_in")
  then have "\<exists>p. hr_body response = Problem p \<and> pr_status p = 401"
    by (auto simp: serve_def correlate_def correlation_use_def sample_request_def handle_def canActivate_def tx_throw_def tx_bind_def
        bearerRequired_def DomainError_def catch_exception_def toProblem_def send_problem_def Let_def)
  then obtain p where p: "hr_body response = Problem p" "pr_status p = 401" by blast
  from failed_request_changes_nothing [OF r p(1)] have "sys_db t = sys_db signed_in" by (simp add: sample_request_def)
  with r p show ?thesis by blast
qed

lemma digits_no_space: "list_all is_digit ds \<Longrightarrow> CHR '' '' \<notin> set ds"
  by (induction ds) (auto simp: is_digit_def)

lemma sample_ids_no_space: "CHR '' '' \<notin> set (sample_id 1)" "CHR '' '' \<notin> set (sample_id 90)"
  by code_simp+

lemma sample_token_no_space: "CHR '' '' \<notin> set (sample_token 90)"
  by (simp add: sample_token_def sign_frames_def frame_def claim_string_def token_payload_def sample_founder_def sample_session_def
      digits_no_space show_nat_digits sample_ids_no_space [simplified])

lemma sample_header: "js_split (CHR '' '') (''Bearer '' @ sample_token 90) = [''Bearer'', sample_token 90]"
  using js_split_append [of "CHR '' ''" "''Bearer''" "sample_token 90"] js_split_none [OF sample_token_no_space] by simp

theorem protected_routes_need_session_witness:
  "\<exists>response t. serve sample_http sample_env (sample_request (Some (''Bearer '' @ sample_token 90)) Sign_out) signed_in = (response, t) \<and>
     hr_status response = 204 \<and> (\<exists>session \<in> set (founder_sessions (sys_db signed_in)). fs_status session = SS_ACTIVE)"
proof -
  let ?rq = "sample_request (Some (''Bearer '' @ sample_token 90)) Sign_out"
  let ?s = "signed_in\<lparr>sys_next := Suc (sys_next signed_in)\<rparr>"
  obtain response t where r: "serve sample_http sample_env ?rq signed_in = (response, t)"
    by (cases "serve sample_http sample_env ?rq signed_in")
  have "verifyAccessToken sample_jwt sample_env (sample_token 90) ?s = (Inr (session_actor 90), ?s)"
  proof -
    have "pl_sid (token_payload sample_founder (sample_session 90)) = Some (sample_id 90)"
      "access_payload sample_jwt sample_env (sample_token 90) = Inr (token_payload sample_founder (sample_session 90))"
      by (simp_all add: access_payload_Inr sample_token_verified token_payload_def sample_session_def)
    then show ?thesis
      by (auto simp: verifyAccessToken_def first_founder_row sample_live [simplified] tx_run token_payload_def active_founder_def
          assertSignedResourceAccess_def signedResourceAccessAllowed_def session_actor_def signed_in_tables sample_session_def
          sample_founder_def)
  qed
  then have g: "canActivate sample_jwt sample_env False (Some (''Bearer '' @ sample_token 90)) ?s = (Inr (Some (session_actor 90)), ?s)"
    using sample_header by (auto simp: canActivate_def tx_bind_def tx_return_def sample_token_def sign_frames_def frame_def)
  have "hr_status response = 204"
    using r g by (auto simp: serve_def correlate_def correlation_use_def sample_request_def handle_def sample_http_def Let_def tx_bind_def
        run_pipes_def tx_lift_def CurrentActor_def Auth_Controller_signOut_def tx_then_def signOut_def execute_apply tx_return_def
        split: prod.splits)
  moreover from this protected_routes_need_session [OF r] have "\<exists>session \<in> set (founder_sessions (sys_db signed_in)). fs_status session = SS_ACTIVE"
    by (auto simp: sample_request_def)
  ultimately show ?thesis using r by blast
qed

theorem foreign_runs_hidden_witness:
  "founder_handler sample_http sample_env (sample_id 31) (sample_request None (Delete_run (sample_id 7)))
     (founder_reader\<lparr>ra_companyId := Some (sample_id 60)\<rparr>) (Delete_run (sample_id 7)) sample_sys = (Inl tenantResourceNotFound, sample_sys)"
proof (rule foreign_runs_hidden)
  show "\<forall>x \<in> set (runs (sys_db sample_sys)). r_id x = sample_id 7 \<longrightarrow>
      Some (r_company_id x) \<noteq> ra_companyId (founder_reader\<lparr>ra_companyId := Some (sample_id 60)\<rparr>)"
    by (simp add: sample_sys_def initial_sys_def sample_db_def sample_run_def)
qed simp

section \<open>Versions\<close>

theorem no_lost_profile_update_witness:
  "effective (replace_profile (founder_actor 1)) [((sample_env, sample_id 30, sample_id 31, sample_profile_dto), 1),
     ((sample_env, sample_id 32, sample_id 31, sample_profile_dto), 1)] two_founders = [1]"
proof -
  let ?c = "\<lambda>k. ((sample_env, sample_id k, sample_id 31, sample_profile_dto), 1 :: nat)"
  obtain r t where r: "Companies_updateProfile sample_env (founder_actor 1) (sample_id 30) 1 (sample_id 31) sample_profile_dto two_founders = (Inr r, t)"
    "\<not> cr_replayed r" using sample_replacement by blast
  have rest: "effective (replace_profile (founder_actor 1)) [?c 32] t \<in> {[], [1]}"
    by (simp split: prod.split sum.split)
  have vs: "effective (replace_profile (founder_actor 1)) [?c 30, ?c 32] two_founders = 1 # effective (replace_profile (founder_actor 1)) [?c 32] t"
    using r by (simp add: replace_profile_def)
  with no_lost_profile_update [OF two_founders_ok(2,1), of "founder_actor 1" "[?c 30, ?c 32]"] rest
  show ?thesis by (auto simp: Let_def)
qed

lemma sample_initiatives_ok: "event_log_ok (sys_db sample_sys)" "initiatives_ok (sys_db sample_sys)"
  by (simp_all add: initiatives_ok_def event_log_ok_def numbered_def run_events_def sample_state)

theorem no_lost_goal_witness:
  "effective (add_goal sample_actor (sample_id 4)) [((sample_env, sample_id 9, sample_id 10, blank_goal_dto), 2),
     ((sample_env, sample_id 32, sample_id 10, blank_goal_dto), 2)] sample_sys = [2]"
proof -
  let ?c = "\<lambda>k. ((sample_env, sample_id k, sample_id 10, blank_goal_dto), 2 :: nat)"
  obtain b t where r: "createGoalAndRun sample_env sample_actor (sample_id 4) 2 (sample_id 9) (sample_id 10) blank_goal_dto sample_sys =
    (Inr \<lparr>cr_status = 201, cr_body = b, cr_replayed = False\<rparr>, t)" using blank_goal_accepted by blast
  have rest: "effective (add_goal sample_actor (sample_id 4)) [?c 32] t \<in> {[], [2]}"
    by (simp split: prod.split sum.split)
  have vs: "effective (add_goal sample_actor (sample_id 4)) [?c 9, ?c 32] sample_sys = 2 # effective (add_goal sample_actor (sample_id 4)) [?c 32] t"
    using r by (simp add: add_goal_def)
  with no_lost_goal [OF sample_initiatives_ok sample_actor_fields(1), of "sample_id 4" "[?c 9, ?c 32]"] rest
  show ?thesis by (auto simp: Let_def)
qed

section \<open>ETags\<close>

lemma sample_keys: "requireIdempotencyKey sample_env (Some (sample_id 30)) = Inr (sample_id 30)"
  "requireIdempotencyKey sample_env (Some (sample_id 9)) = Inr (sample_id 9)"
  by code_simp+

lemma sample_etag: "requireEtag (Some (formatEtag v)) = Inr v"
  by (rule etag_roundtrip [THEN conjunct1])

theorem profile_etag_is_current_witness:
  "\<exists>response t g. Companies_Controller_updateProfile sample_env (sample_id 31) (founder_actor 1) (Some (sample_id 30)) (Some (formatEtag 1))
      sample_profile_dto two_founders = (Inr response, t) \<and> (''ETag'', formatEtag 2) \<in> set (hr_headers response) \<and>
    Companies_Controller_getCurrent (sample_id 33) (founder_actor 1) t = (Inr g, t) \<and> (''ETag'', formatEtag 2) \<in> set (hr_headers g)"
proof -
  obtain r t where r: "Companies_updateProfile sample_env (founder_actor 1) (sample_id 30) 1 (sample_id 31) sample_profile_dto two_founders = (Inr r, t)"
    "\<not> cr_replayed r" using sample_replacement by blast
  have "profile_version (sample_id 1) t = Some 2" "profile_version (sample_id 1) two_founders = Some 1"
    using updateProfile_advances [OF two_founders_ok(1) r] by (simp_all add: founder_actor_def)
  then have new: "sys_db t \<noteq> sys_db two_founders" by (auto simp: profile_version_def)
  obtain row where row: "cr_body r = toResponse row"
    using update_profile_answer [OF r(1)] new by blast
  let ?call = "Companies_Controller_updateProfile sample_env (sample_id 31) (founder_actor 1) (Some (sample_id 30)) (Some (formatEtag 1))
      sample_profile_dto two_founders"
  have "\<exists>response. ?call = (Inr response, t)"
    by (simp add: Companies_Controller_updateProfile_def tx_bind_def tx_lift_def sample_keys sample_etag r(1) [simplified] row
        js_member_version tx_return_def)
  then obtain response where c: "?call = (Inr response, t)" by blast
  from profile_etag_is_current [OF two_founders_ok(1) new c, of "sample_id 33"] obtain v g where
    "requireEtag (Some (formatEtag 1)) = Inr v" "(''ETag'', formatEtag (v + 1)) \<in> set (hr_headers response)"
    "Companies_Controller_getCurrent (sample_id 33) (founder_actor 1) t = (Inr g, t)" "(''ETag'', formatEtag (v + 1)) \<in> set (hr_headers g)"
    by blast
  with c show ?thesis by (auto simp: sample_etag numeral_2_eq_2)
qed

theorem goal_etag_is_current_witness:
  "\<exists>response t. Initiatives_Controller_createGoal sample_env (sample_id 10) sample_actor (sample_id 4) (Some (sample_id 9))
      (Some (formatEtag 2)) blank_goal_dto sample_sys = (Inr response, t) \<and> (''ETag'', formatEtag 3) \<in> set (hr_headers response) \<and>
    initiative_version (sample_id 2) (sample_id 4) t = Some 3"
proof -
  obtain b t where r: "createGoalAndRun sample_env sample_actor (sample_id 4) 2 (sample_id 9) (sample_id 10) blank_goal_dto sample_sys =
    (Inr \<lparr>cr_status = 201, cr_body = b, cr_replayed = False\<rparr>, t)" "runs (sys_db t) \<noteq> runs (sys_db sample_sys)" using blank_goal_accepted by blast
  then have new: "sys_db t \<noteq> sys_db sample_sys" by auto
  from goal_answer [OF r(1)] new obtain g q x where b: "b = goal_response g q x" by auto
  let ?call = "Initiatives_Controller_createGoal sample_env (sample_id 10) sample_actor (sample_id 4) (Some (sample_id 9))
      (Some (formatEtag 2)) blank_goal_dto sample_sys"
  have "\<exists>response. ?call = (Inr response, t)"
    by (simp add: Initiatives_Controller_createGoal_def tx_bind_def tx_lift_def sample_keys sample_etag r(1) b js_member_run tx_return_def)
  then obtain response where c: "?call = (Inr response, t)" by blast
  from goal_etag_is_current [OF sample_initiatives_ok(2) new c] obtain v c' where "requireEtag (Some (formatEtag 2)) = Inr v"
    "(''ETag'', formatEtag (v + 1)) \<in> set (hr_headers response)" "ra_companyId sample_actor = Some c'"
    "initiative_version c' (sample_id 4) t = Some (v + 1)" by blast
  with c show ?thesis by (auto simp: sample_etag sample_actor_fields)
qed

end
