(* ===== verification/Backend_Witnesses.thy ===== *)
theory Backend_Witnesses
  imports Backend Worker_Witnesses Http_Witnesses
begin

text \<open>The backend as a system at the sample database: a worker runs the task of the sample run while requests are answered.\<close>

lemma sample_store_apart: "store_apart (hp_store sample_http)"
  by (auto simp: store_apart_def sample_http_def MemoryObjectStore_def memory_put_def memory_get_def record_call_def
      tx_then_def tx_bind_def tx_gets_def tx_modify_def tx_require_def tx_throw_def tx_return_def split: option.splits)

lemma sample_api_ok: "api_ok (sys_db sample_sys)"
  by (simp add: api_ok_def companies_ok_def history_ok_def profiles_of_def initiatives_ok_def entity_defs sample_state)

lemma sample_backend_start: "backend_start sample_workers"
  by (simp add: backend_start_def sample_started) (simp add: sample_workers_def sample_api_ok)

theorem backend_at_most_one_invocation_witness:
  "\<exists>w :: workers. w_log w = [sample_claim] \<and> distinct (map ct_effect_key (w_log w))"
proof -
  from sample_invoked obtain w where w: "(worker_step sample_env)\<^sup>*\<^sup>* sample_workers w" "w_log w = [sample_claim]"
    by blast
  have "(backend_step sample_http sample_env)\<^sup>*\<^sup>* sample_workers w"
    using w(1) by (rule rtranclp_mono [THEN predicate2D, rotated]) (auto intro: backend_step.worker)
  then have "reach backend_start (backend_step sample_http sample_env) w"
    by (rule reach_steps) (rule reach_start, rule sample_backend_start)
  with backend_at_most_one_invocation [OF _ sample_store_apart] w(2) show ?thesis by (auto simp: sample_unique)
qed

theorem backend_tables_ok_witness:
  "\<exists>response S. serve sample_http (p_at sample_env ''api'' 1723435200000) (sample_request None (Get_run (sample_id 7))) sample_claimed_sys =
     (response, S) \<and> event_log_ok (sys_db S) \<and> one_running (sys_db S)"
proof -
  obtain response S where r: "serve sample_http (p_at sample_env ''api'' 1723435200000)
      (sample_request None (Get_run (sample_id 7))) sample_claimed_sys = (response, S)"
    by fastforce
  let ?w = "sample_claimed_workers"
  have "reach backend_start (backend_step sample_http sample_env) ?w"
    by (rule reach_step, rule reach_start, rule sample_backend_start) (rule backend_step.worker [OF sample_claim_step])
  moreover have "w_sys ?w = sample_claimed_sys" by (simp add: sample_claimed_workers_def goto_def)
  then have "backend_step sample_http sample_env ?w (?w\<lparr>w_sys := S\<rparr>)"
    using r by (intro backend_step.request [of sample_http sample_env "''api''" 1723435200000]) simp
  ultimately have "reach backend_start (backend_step sample_http sample_env) (?w\<lparr>w_sys := S\<rparr>)" by (rule reach_step)
  from backend_tables_ok [OF _ sample_store_apart this] have "event_log_ok (sys_db S) \<and> one_running (sys_db S)"
    by (simp add: sample_unique)
  with r show ?thesis by blast
qed

end
