(* ===== verification/Alpha_Policy_Registry.thy ===== *)
theory Alpha_Policy_Registry
  imports Identifiers
begin

text \<open>
  The closed registries of \<open>scripts/validate-aico-008-policy.mjs\<close>: the configuration keys of each section of the alpha operating
  policy, the values version 1.0.0 gives them, the reason codes and the downstream owners.
\<close>

definition expectedKeys :: "(string \<times> string list) list" where
  "expectedKeys =
     [(''qualification'', [
        ''alpha.v1.goal.categories.allowed'', ''alpha.v1.goal.primary_personas.max'',
        ''alpha.v1.goal.primary_flows.max'', ''alpha.v1.goal.routes.max'', ''alpha.v1.goal.output.platform'',
        ''alpha.v1.goal.template.key'', ''alpha.v1.goal.runtime.client_only'', ''alpha.v1.goal.data.mode'',
        ''alpha.v1.goal.capabilities.denied'', ''alpha.v1.goal.clarification_questions.max'']),
      (''attachments'', [
        ''alpha.v1.attachment.media_types.allowed'', ''alpha.v1.attachment.count.max'',
        ''alpha.v1.attachment.bytes.per_file_max'', ''alpha.v1.attachment.bytes.aggregate_max'',
        ''alpha.v1.attachment.pdf.pages.max'', ''alpha.v1.attachment.image.pixels.max'',
        ''alpha.v1.attachment.validation.required'', ''alpha.v1.attachment.classes.denied'']),
      (''qa'', [
        ''alpha.v1.qa.checks.blocking'', ''alpha.v1.qa.checks.advisory'', ''alpha.v1.qa.regression.required'',
        ''alpha.v1.qa.viewport_widths.required'', ''alpha.v1.qa.accessibility.blocking_severities'']),
      (''budgets'', [
        ''alpha.v1.model.input_tokens.per_invocation_max'', ''alpha.v1.model.output_tokens.per_invocation_max'',
        ''alpha.v1.model.input_tokens.per_run_max'', ''alpha.v1.model.output_tokens.per_run_max'',
        ''alpha.v1.model.cost_micros_usd.per_invocation_max'', ''alpha.v1.model.cost_micros_usd.per_run_max'',
        ''alpha.v1.model.wall_seconds.per_invocation_max'', ''alpha.v1.model.invocations.per_run_max'',
        ''alpha.v1.model.external_provider.enabled'', ''alpha.v1.run.active_wall_seconds.max'',
        ''alpha.v1.sandbox.command_wall_seconds.max'', ''alpha.v1.sandbox.wall_seconds.per_run_max'',
        ''alpha.v1.sandbox.cpu_cores.max'', ''alpha.v1.sandbox.cpu_seconds.per_run_max'',
        ''alpha.v1.sandbox.memory_bytes.max'', ''alpha.v1.sandbox.processes.max'',
        ''alpha.v1.sandbox.writable_bytes.max'', ''alpha.v1.sandbox.files.max'', ''alpha.v1.source.file_bytes.max'',
        ''alpha.v1.source.snapshot_bytes.max'', ''alpha.v1.build.output_bytes.max'',
        ''alpha.v1.command.output_bytes.max'', ''alpha.v1.logs.retained_bytes.per_run_max'',
        ''alpha.v1.storage.bytes.per_run_max'', ''alpha.v1.retry.transient_per_attempt.max'',
        ''alpha.v1.repair.schema_per_invocation.max'', ''alpha.v1.task.attempts.max'',
        ''alpha.v1.provider.sdk_retries.max'', ''alpha.v1.command.retries.max'',
        ''alpha.v1.unknown_outcome.auto_replays.max'', ''alpha.v1.qa.automatic_rework_cycles.max'']),
      (''capacity'', [
        ''alpha.v1.capacity.alpha_founders.max'', ''alpha.v1.capacity.active_runs_per_company.max'',
        ''alpha.v1.capacity.active_runs_global.max'', ''alpha.v1.capacity.active_builds_global.max'',
        ''alpha.v1.capacity.active_model_invocations_global.max'', ''alpha.v1.capacity.test_safety_factor'',
        ''alpha.v1.capacity.test_active_runs.target'', ''alpha.v1.capacity.test_active_builds.target'',
        ''alpha.v1.capacity.test_model_invocations.target''])]"

abbreviation strings :: "string list \<Rightarrow> json" where
  "strings xs \<equiv> JArr (map JStr xs)"

definition expectedValues :: "(string \<times> json) list" where
  "expectedValues =
     [(''alpha.v1.goal.categories.allowed'', strings [
        ''crud_workspace'', ''dashboard_reporting'', ''intake_onboarding'', ''catalog_directory'',
        ''planning_scheduling'', ''content_library'']),
      (''alpha.v1.goal.primary_personas.max'', JNum 1),
      (''alpha.v1.goal.primary_flows.max'', JNum 1),
      (''alpha.v1.goal.routes.max'', JNum 5),
      (''alpha.v1.goal.output.platform'', JStr ''responsive_browser''),
      (''alpha.v1.goal.template.key'', JStr ''react_typescript_template_v1''),
      (''alpha.v1.goal.runtime.client_only'', JBool True),
      (''alpha.v1.goal.data.mode'', JStr ''mock_local_only''),
      (''alpha.v1.goal.capabilities.denied'', strings [
        ''production_deployment'', ''generated_backend'', ''production_database'', ''real_authentication'',
        ''real_payment'', ''email_delivery'', ''third_party_business_api'', ''sensitive_data'', ''native_mobile'',
        ''native_desktop'', ''browser_extension'', ''multi_user_collaboration'', ''multiple_primary_flows'',
        ''multiple_concurrent_initiatives'', ''custom_employees'', ''arbitrary_shell'', ''unrestricted_network'',
        ''external_business_action'']),
      (''alpha.v1.goal.clarification_questions.max'', JNum 5),
      (''alpha.v1.attachment.media_types.allowed'', strings [
        ''text/plain'', ''text/markdown'', ''application/pdf'', ''image/png'', ''image/jpeg'', ''image/webp'']),
      (''alpha.v1.attachment.count.max'', JNum 5),
      (''alpha.v1.attachment.bytes.per_file_max'', JObj [
        (''text/plain'', JNum 262144), (''text/markdown'', JNum 262144), (''application/pdf'', JNum 10485760),
        (''image/png'', JNum 5242880), (''image/jpeg'', JNum 5242880), (''image/webp'', JNum 5242880)]),
      (''alpha.v1.attachment.bytes.aggregate_max'', JNum 20971520),
      (''alpha.v1.attachment.pdf.pages.max'', JNum 50),
      (''alpha.v1.attachment.image.pixels.max'', JNum 20000000),
      (''alpha.v1.attachment.validation.required'', strings [
        ''declared_type_allowlisted'', ''detected_type_allowlisted'', ''declared_matches_detected'', ''byte_limit'',
        ''sha256_verified'', ''malware_scan_clean'', ''active_content_absent'', ''parser_limits_enforced'',
        ''tenant_scope_verified'']),
      (''alpha.v1.attachment.classes.denied'', strings [
        ''archive'', ''svg'', ''html'', ''office_document'', ''executable'', ''script'', ''encrypted_pdf'',
        ''password_protected'', ''polyglot'', ''embedded_file'', ''active_content'', ''unknown_type'']),
      (''alpha.v1.qa.checks.blocking'', strings [
        ''approved_criterion_fail_or_blocked'', ''missing_or_dangling_criterion_evidence'', ''format_failure'',
        ''lint_failure'', ''typecheck_failure'', ''unit_or_route_test_failure'', ''production_build_failure'',
        ''scope_or_screen_mapping_violation'', ''secret_or_sensitive_content_detected'',
        ''tenant_policy_sandbox_or_egress_violation'', ''broken_primary_flow_or_navigation'',
        ''critical_or_serious_accessibility_violation'', ''required_check_not_executed'']),
      (''alpha.v1.qa.checks.advisory'', strings [
        ''minor_or_moderate_accessibility_finding'', ''non_blocking_visual_polish'', ''copy_consistency'',
        ''performance_budget_warning'', ''maintainability_observation'']),
      (''alpha.v1.qa.regression.required'', strings [
        ''format'', ''lint'', ''typecheck'', ''unit_and_route_tests'', ''production_build'',
        ''all_previously_passed_blocking_checks'', ''affected_criteria_screens_and_states'',
        ''primary_flow_navigation'', ''responsive_viewports'', ''critical_and_serious_accessibility'',
        ''secret_scope_egress_and_prototype_labeling'']),
      (''alpha.v1.qa.viewport_widths.required'', JArr [JNum 360, JNum 1440]),
      (''alpha.v1.qa.accessibility.blocking_severities'', strings [''critical'', ''serious'']),
      (''alpha.v1.model.input_tokens.per_invocation_max'', JNum 32768),
      (''alpha.v1.model.output_tokens.per_invocation_max'', JNum 8192),
      (''alpha.v1.model.input_tokens.per_run_max'', JNum 300000),
      (''alpha.v1.model.output_tokens.per_run_max'', JNum 60000),
      (''alpha.v1.model.cost_micros_usd.per_invocation_max'', JNum 2500000),
      (''alpha.v1.model.cost_micros_usd.per_run_max'', JNum 15000000),
      (''alpha.v1.model.wall_seconds.per_invocation_max'', JNum 120),
      (''alpha.v1.model.invocations.per_run_max'', JNum 24),
      (''alpha.v1.model.external_provider.enabled'', JBool False),
      (''alpha.v1.run.active_wall_seconds.max'', JNum 5400),
      (''alpha.v1.sandbox.command_wall_seconds.max'', JNum 300),
      (''alpha.v1.sandbox.wall_seconds.per_run_max'', JNum 1800),
      (''alpha.v1.sandbox.cpu_cores.max'', JNum 2),
      (''alpha.v1.sandbox.cpu_seconds.per_run_max'', JNum 2400),
      (''alpha.v1.sandbox.memory_bytes.max'', JNum 2147483648),
      (''alpha.v1.sandbox.processes.max'', JNum 128),
      (''alpha.v1.sandbox.writable_bytes.max'', JNum 536870912),
      (''alpha.v1.sandbox.files.max'', JNum 5000),
      (''alpha.v1.source.file_bytes.max'', JNum 1048576),
      (''alpha.v1.source.snapshot_bytes.max'', JNum 26214400),
      (''alpha.v1.build.output_bytes.max'', JNum 104857600),
      (''alpha.v1.command.output_bytes.max'', JNum 1048576),
      (''alpha.v1.logs.retained_bytes.per_run_max'', JNum 10485760),
      (''alpha.v1.storage.bytes.per_run_max'', JNum 268435456),
      (''alpha.v1.retry.transient_per_attempt.max'', JNum 1),
      (''alpha.v1.repair.schema_per_invocation.max'', JNum 1),
      (''alpha.v1.task.attempts.max'', JNum 3),
      (''alpha.v1.provider.sdk_retries.max'', JNum 0),
      (''alpha.v1.command.retries.max'', JNum 0),
      (''alpha.v1.unknown_outcome.auto_replays.max'', JNum 0),
      (''alpha.v1.qa.automatic_rework_cycles.max'', JNum 2),
      (''alpha.v1.capacity.alpha_founders.max'', JNum 5),
      (''alpha.v1.capacity.active_runs_per_company.max'', JNum 1),
      (''alpha.v1.capacity.active_runs_global.max'', JNum 2),
      (''alpha.v1.capacity.active_builds_global.max'', JNum 1),
      (''alpha.v1.capacity.active_model_invocations_global.max'', JNum 2),
      (''alpha.v1.capacity.test_safety_factor'', JNum 2),
      (''alpha.v1.capacity.test_active_runs.target'', JNum 4),
      (''alpha.v1.capacity.test_active_builds.target'', JNum 2),
      (''alpha.v1.capacity.test_model_invocations.target'', JNum 4)]"

definition expectedReasonCodes :: "string list" where
  "expectedReasonCodes = [
     ''GOAL_CATEGORY_UNSUPPORTED'', ''GOAL_TOO_MANY_PERSONAS'', ''GOAL_TOO_MANY_FLOWS'', ''GOAL_TOO_MANY_SCREENS'',
     ''GOAL_PLATFORM_UNSUPPORTED'', ''GOAL_TEMPLATE_UNAVAILABLE'', ''GOAL_REQUIRES_BACKEND'',
     ''GOAL_REQUIRES_REAL_DATA'', ''GOAL_CAPABILITY_UNSUPPORTED'', ''GOAL_NEEDS_CLARIFICATION'',
     ''ATTACHMENT_TYPE_UNSUPPORTED'', ''ATTACHMENT_COUNT_EXCEEDED'', ''ATTACHMENT_TOO_LARGE'',
     ''ATTACHMENT_TOTAL_EXCEEDED'', ''ATTACHMENT_PDF_TOO_LONG'', ''ATTACHMENT_IMAGE_TOO_LARGE'',
     ''ATTACHMENT_VALIDATION_FAILED'', ''ATTACHMENT_UNSAFE'', ''QA_BLOCKING_CHECK_FAILED'', ''QA_ADVISORY_FINDING'',
     ''QA_REGRESSION_REQUIRED'', ''QA_VIEWPORT_CHECK_FAILED'', ''QA_ACCESSIBILITY_BLOCKED'',
     ''MODEL_BUDGET_EXHAUSTED'', ''RUN_BUDGET_EXHAUSTED'', ''RUN_TIME_EXHAUSTED'', ''SANDBOX_LIMIT_EXCEEDED'',
     ''RETRY_LIMIT_EXHAUSTED'', ''REWORK_LIMIT_EXHAUSTED'', ''CAPACITY_UNAVAILABLE'', ''ALPHA_COHORT_FULL'',
     ''PROVIDER_DISABLED'']"

definition expectedDownstream :: "string list" where
  "expectedDownstream = [
     ''AICO-017'', ''AICO-019'', ''AICO-033'', ''AICO-047'', ''AICO-051'', ''AICO-060'', ''AICO-064'', ''AICO-072'',
     ''AICO-080'', ''AICO-082'', ''AICO-086'', ''AICO-091'']"

text \<open>The registries name the same keys, in the same order and once.\<close>

lemma expected_keys_match: "concat (map snd expectedKeys) = map fst expectedValues"
  by (simp add: expectedKeys_def expectedValues_def)

lemma expected_keys_distinct: "distinct (map (drop 9) (map fst expectedValues))"
  by code_simp

lemma expected_distinct: "distinct (map fst expectedValues)"
  by (rule distinct_map [THEN iffD1, THEN conjunct1, OF expected_keys_distinct])

lemma expectedReasonCodes_distinct: "distinct expectedReasonCodes"
  by code_simp

end
