(* ===== verification/Js_Values.thy ===== *)
theory Js_Values
  imports Http_Common "HOL-Library.List_Lexorder" "HOL-Library.Char_ord"
begin

text \<open>
  JSON values in the scripts of \<open>scripts/\<close>: the canonical text of a value and its conversion to a string.
\<close>

section \<open>Texts of values\<close>

text \<open>\<open>canonical\<close>: the JSON text with the keys of every object sorted.\<close>

definition canonical :: "json \<Rightarrow> string" where
  "canonical value = stringify (sortJson (\<le>) value)"

text \<open>\<open>String(value)\<close>.\<close>

fun js_to_string :: "json \<Rightarrow> string" where
  "js_to_string JNull = ''null''"
| "js_to_string (JBool b) = (if b then ''true'' else ''false'')"
| "js_to_string (JNum n) = show_int n"
| "js_to_string (JStr s) = s"
| "js_to_string (JArr vs) = js_join '','' (map (\<lambda>v. if v = JNull then [] else js_to_string v) vs)"
| "js_to_string (JObj _) = ''[object Object]''"

section \<open>Canonical texts\<close>

lemma show_nat_head: "is_digit (hd (show_nat n))"
  using show_nat_digits [of n] by (cases "show_nat n") (simp_all add: list_all_iff)

lemma show_int_inj: "show_int m = show_int n \<longleftrightarrow> m = n"
proof
  assume eq: "show_int m = show_int n"
  have minus: "hd (show_nat k) \<noteq> CHR ''-''" for k using show_nat_head [of k] by (auto simp: is_digit_def)
  have cons: "''-'' @ show_nat k \<noteq> show_nat j" for k j using minus [of j] by (metis append_Cons list.sel(1))
  show "m = n"
    using eq cons cons [symmetric] show_nat_inj by (auto simp: show_int_def split: if_splits)
qed simp

lemma show_int_starts: "\<not> is_digit c \<Longrightarrow> c \<noteq> CHR ''-'' \<Longrightarrow> show_int n \<noteq> c # cs" "\<not> is_digit c \<Longrightarrow> c \<noteq> CHR ''-'' \<Longrightarrow> c # cs \<noteq> show_int n"
  using show_nat_head [of "nat n"] by (auto simp: show_int_def split: if_splits) (metis list.sel(1))+

lemma canonical_simps [simp]:
  "canonical JNull = ''null''" "canonical (JBool b) = (if b then ''true'' else ''false'')" "canonical (JNum n) = show_int n"
  "canonical (JStr s) = CHR 0x22 # concat (map escape_char s) @ [CHR 0x22]"
  "canonical (JArr vs) = CHR ''['' # js_join '','' (map canonical vs) @ '']''"
  by (simp_all add: canonical_def [abs_def] comp_def json_string_def)

lemma canonical_object: "\<exists>cs. canonical (JObj es) = CHR ''{'' # cs"
  by (simp add: canonical_def)

lemma not_digits: "\<not> is_digit (CHR ''n'')" "\<not> is_digit (CHR ''t'')" "\<not> is_digit (CHR ''f'')" "\<not> is_digit (CHR 0x22)"
  "\<not> is_digit (CHR ''['')" "\<not> is_digit (CHR ''{'')"
  by (simp_all add: is_digit_def)

lemma canonical_number: "canonical v = show_int n \<longleftrightarrow> v = JNum n"
proof (cases v)
  case (JObj es)
  with canonical_object [of es] show ?thesis using show_int_starts not_digits by auto
qed (simp_all add: show_int_starts not_digits show_int_inj)

lemma canonical_bool: "canonical v = (if b then ''true'' else ''false'') \<longleftrightarrow> v = JBool b"
proof (cases v)
  case (JObj es)
  with canonical_object [of es] show ?thesis by auto
qed (auto simp: show_int_starts not_digits)

text \<open>A list with one more element has another text.\<close>

lemma js_join_snoc_length: "xs \<noteq> [] \<Longrightarrow> length (js_join sep (xs @ [x])) = length (js_join sep xs) + length sep + length x"
  by (induction sep xs rule: js_join.induct) auto

lemma canonical_ne: "canonical v \<noteq> []"
  using show_nat_ne by (cases v) (auto simp: show_int_def simp: canonical_def json_string_def)

lemma canonical_snoc: "canonical (JArr (vs @ [v])) \<noteq> canonical (JArr vs)"
proof (cases "vs = []")
  case True
  then show ?thesis by (simp add: canonical_ne)
next
  case False
  have "length (canonical (JArr (vs @ [v]))) \<noteq> length (canonical (JArr vs))"
    using js_join_snoc_length [of "map canonical vs" "'',''" "canonical v"] False by simp
  then show ?thesis by metis
qed

end
