(* ===== verification/Alpha_Policy.thy ===== *)
theory Alpha_Policy
  imports Alpha_Policy_Registry Js_Values
begin

text \<open>
  \<open>scripts/validate-aico-008-policy.mjs\<close> and \<open>scripts/prove-aico-008-policy-fail-closed.mjs\<close>: the validator that CI runs on the
  alpha operating policy, and the proof script that feeds it deliberately invalid policies.

  The JSON Schema validator (Ajv) is the parameter \<open>schema_errors\<close>, the messages it gives for a document. The document is the record
  of what the script reads; a document of another shape is for Ajv to refuse. The sections are the properties that have entries, in
  document order. \<open>js_number\<close> is the conversion of a string to a number.
\<close>

section \<open>The document\<close>

record policy_entry =
  pe_id :: string
  pe_configuration_key :: string
  pe_value :: json
  pe_owner_roles :: "string list option"
  pe_reason_code :: string
  pe_review_by :: string

record policy_acceptance =
  pa_decision :: string
  pa_candidate_sha :: "string option"
  pa_hosted_run_url :: "string option"
  pa_accepted_by :: "string option"
  pa_accepted_at :: "string option"
  pa_evidence_url :: "string option"

record policy_document =
  po_status :: string
  po_review_by :: string
  po_sections :: "(string \<times> policy_entry list) list"
  po_reason_codes :: "string list"
  po_downstream_owners :: "string list"
  po_acceptance :: policy_acceptance
  po_other :: "(string \<times> json) list"

definition document_entries :: "policy_document \<Rightarrow> policy_entry list" where
  "document_entries policy = concat (map snd (po_sections policy))"

definition findEntry :: "policy_document \<Rightarrow> string \<Rightarrow> policy_entry option" where
  "findEntry policy configurationKey = find (\<lambda>entry. pe_configuration_key entry = configurationKey) (document_entries policy)"

definition section_entries :: "policy_document \<Rightarrow> string \<Rightarrow> policy_entry list" where
  "section_entries policy sectionName = (case map_of (po_sections policy) sectionName of None \<Rightarrow> [] | Some es \<Rightarrow> es)"

definition allEntries :: "policy_document \<Rightarrow> policy_entry list" where
  "allEntries policy = concat (map (\<lambda>(sectionName, _). section_entries policy sectionName) expectedKeys)"

definition policy_value :: "policy_document \<Rightarrow> string \<Rightarrow> json option" where
  "policy_value policy key = map_option pe_value (findEntry policy key)"

section \<open>JavaScript values\<close>

definition equalSet :: "string list \<Rightarrow> string list \<Rightarrow> bool" where
  "equalSet actual expected \<longleftrightarrow> length actual = length expected \<and> list_all2 (=) (sort actual) (sort expected)"

text \<open>Primitive values, where \<open>Number None\<close> is NaN, and the conversions of the operators.\<close>

datatype prim = Undefined | Null | Boolean bool | Number "int option" | Text string

fun to_primitive :: "json option \<Rightarrow> prim" where
  "to_primitive None = Undefined"
| "to_primitive (Some JNull) = Null"
| "to_primitive (Some (JBool b)) = Boolean b"
| "to_primitive (Some (JNum n)) = Number (Some n)"
| "to_primitive (Some v) = Text (js_to_string v)"

fun to_number :: "(string \<Rightarrow> int option) \<Rightarrow> prim \<Rightarrow> int option" where
  "to_number js_number Undefined = None"
| "to_number js_number Null = Some 0"
| "to_number js_number (Boolean b) = Some (if b then 1 else 0)"
| "to_number js_number (Number n) = n"
| "to_number js_number (Text s) = js_number s"

fun prim_text :: "prim \<Rightarrow> string" where
  "prim_text Undefined = ''undefined''"
| "prim_text Null = ''null''"
| "prim_text (Boolean b) = (if b then ''true'' else ''false'')"
| "prim_text (Number None) = ''NaN''"
| "prim_text (Number (Some n)) = show_int n"
| "prim_text (Text s) = s"

text \<open>\<open>a > b\<close>, \<open>a + b\<close> and \<open>a * b\<close>.\<close>

fun js_greater :: "(string \<Rightarrow> int option) \<Rightarrow> prim \<Rightarrow> prim \<Rightarrow> bool" where
  "js_greater js_number (Text s) (Text t) = (t < s)"
| "js_greater js_number a b =
     (case (to_number js_number a, to_number js_number b) of (Some m, Some n) \<Rightarrow> n < m | _ \<Rightarrow> False)"

definition js_plus :: "(string \<Rightarrow> int option) \<Rightarrow> prim \<Rightarrow> prim \<Rightarrow> prim" where
  "js_plus js_number a b =
     (case (a, b) of
        (Text s, _) \<Rightarrow> Text (s @ prim_text b)
      | (_, Text t) \<Rightarrow> Text (prim_text a @ t)
      | _ \<Rightarrow> Number (case (to_number js_number a, to_number js_number b) of (Some m, Some n) \<Rightarrow> Some (m + n) | _ \<Rightarrow> None))"

definition js_times :: "(string \<Rightarrow> int option) \<Rightarrow> prim \<Rightarrow> prim \<Rightarrow> int option" where
  "js_times js_number a b =
     (case (to_number js_number a, to_number js_number b) of (Some m, Some n) \<Rightarrow> Some (m * n) | _ \<Rightarrow> None)"

section \<open>The checks\<close>

definition report :: "bool \<Rightarrow> string \<Rightarrow> string list" where
  "report failed message = (if failed then [message] else [])"

definition registry_errors :: "policy_document \<Rightarrow> string list" where
  "registry_errors policy =
     report (length (js_uniq (map pe_id (allEntries policy))) \<noteq> length (map pe_id (allEntries policy)))
       ''policy entry IDs must be globally unique'' @
     report (length (js_uniq (map pe_configuration_key (allEntries policy))) \<noteq> length (map pe_configuration_key (allEntries policy)))
       ''policy configuration keys must be globally unique'' @
     concat (map (\<lambda>(sectionName, expected).
       report (\<not> equalSet (map pe_configuration_key (section_entries policy sectionName)) expected)
         (sectionName @ '' configuration registry differs from the closed expected set'')) expectedKeys) @
     report (\<not> equalSet (map pe_configuration_key (allEntries policy)) (map fst expectedValues))
       ''global configuration registry differs from the closed expected set''"

definition value_errors :: "policy_document \<Rightarrow> string list" where
  "value_errors policy = concat (map (\<lambda>(configurationKey, expectedValue).
     case findEntry policy configurationKey of
       None \<Rightarrow> [''missing required configuration '' @ configurationKey]
     | Some entry \<Rightarrow>
         report (canonical (pe_value entry) \<noteq> canonical expectedValue) (configurationKey @ '' differs from policy version 1.0.0'') @
         report (pe_owner_roles entry \<in> {None, Some []}) (configurationKey @ '' has no accountable owner role'') @
         report (pe_review_by entry \<noteq> po_review_by policy)
           (configurationKey @ '' review date must equal the policy review date'')) expectedValues)"

definition reason_errors :: "policy_document \<Rightarrow> string list" where
  "reason_errors policy =
     (let actual = po_reason_codes policy;
          referenced = js_uniq (map pe_reason_code (allEntries policy))
      in report (length (js_uniq actual) \<noteq> length actual) ''reason codes must be unique'' @
         report (\<not> equalSet actual expectedReasonCodes) ''reason-code registry differs from the closed expected set'' @
         concat (map (\<lambda>code. report (code \<notin> set actual) (''policy entry references unknown reason code '' @ code)) referenced) @
         concat (map (\<lambda>code. report (code \<notin> set referenced)
           (''reason code '' @ code @ '' is not used by a policy value'')) actual) @
         report (\<not> equalSet (po_downstream_owners policy) expectedDownstream)
           ''downstream owner registry differs from the closed expected set'')"

definition budget_errors :: "(string \<Rightarrow> int option) \<Rightarrow> policy_document \<Rightarrow> string list" where
  "budget_errors js_number policy =
     (let val = \<lambda>key. to_primitive (policy_value policy key);
          exceeds = \<lambda>a b. js_greater js_number (val a) (val b);
          reservedStorage = js_plus js_number (js_plus js_number (js_plus js_number
            (val ''alpha.v1.attachment.bytes.aggregate_max'') (val ''alpha.v1.source.snapshot_bytes.max''))
            (val ''alpha.v1.build.output_bytes.max'')) (val ''alpha.v1.logs.retained_bytes.per_run_max'')
      in report (exceeds ''alpha.v1.model.input_tokens.per_invocation_max'' ''alpha.v1.model.input_tokens.per_run_max'')
           ''per-invocation input tokens exceed the per-run input budget'' @
         report (exceeds ''alpha.v1.model.output_tokens.per_invocation_max'' ''alpha.v1.model.output_tokens.per_run_max'')
           ''per-invocation output tokens exceed the per-run output budget'' @
         report (exceeds ''alpha.v1.model.cost_micros_usd.per_invocation_max'' ''alpha.v1.model.cost_micros_usd.per_run_max'')
           ''per-invocation model cost exceeds the per-run cost budget'' @
         report (exceeds ''alpha.v1.sandbox.wall_seconds.per_run_max'' ''alpha.v1.run.active_wall_seconds.max'')
           ''sandbox wall budget exceeds the run active-wall budget'' @
         report (js_greater js_number reservedStorage (val ''alpha.v1.storage.bytes.per_run_max''))
           ''attachment/source/build/log ceilings exceed total run storage'' @
         report (js_greater js_number (js_plus js_number (val ''alpha.v1.retry.transient_per_attempt.max'') (Number (Some 2)))
             (val ''alpha.v1.task.attempts.max''))
           ''task attempt cap cannot represent initial, retry, and bounded replacement work'')"

definition fixed_value_errors :: "policy_document \<Rightarrow> string list" where
  "fixed_value_errors policy =
     report (policy_value policy ''alpha.v1.provider.sdk_retries.max'' \<noteq> Some (JNum 0)) ''provider SDK retries must remain zero'' @
     report (policy_value policy ''alpha.v1.command.retries.max'' \<noteq> Some (JNum 0)) ''automatic command retries must remain zero'' @
     report (policy_value policy ''alpha.v1.unknown_outcome.auto_replays.max'' \<noteq> Some (JNum 0))
       ''unknown outcomes must never be automatically replayed'' @
     report (policy_value policy ''alpha.v1.qa.automatic_rework_cycles.max'' \<noteq> Some (JNum 2))
       ''automatic QA rework must remain capped at two cycles'' @
     report (policy_value policy ''alpha.v1.model.external_provider.enabled'' \<noteq> Some (JBool False))
       ''external providers must remain disabled in the R0 policy''"

definition capacity_errors :: "(string \<Rightarrow> int option) \<Rightarrow> policy_document \<Rightarrow> string list" where
  "capacity_errors js_number policy = concat (map (\<lambda>(liveKey, testKey).
     report (case js_times js_number (to_primitive (policy_value policy liveKey))
               (to_primitive (policy_value policy ''alpha.v1.capacity.test_safety_factor'')) of
               None \<Rightarrow> True
             | Some n \<Rightarrow> policy_value policy testKey \<noteq> Some (JNum n))
       (testKey @ '' must equal '' @ liveKey @ '' multiplied by the safety factor''))
     [(''alpha.v1.capacity.active_runs_global.max'', ''alpha.v1.capacity.test_active_runs.target''),
      (''alpha.v1.capacity.active_builds_global.max'', ''alpha.v1.capacity.test_active_builds.target''),
      (''alpha.v1.capacity.active_model_invocations_global.max'', ''alpha.v1.capacity.test_model_invocations.target'')])"

definition acceptance_fields :: "policy_acceptance \<Rightarrow> (string \<times> string option) list" where
  "acceptance_fields a = [(''candidate_sha'', pa_candidate_sha a), (''hosted_run_url'', pa_hosted_run_url a),
     (''accepted_by'', pa_accepted_by a), (''accepted_at'', pa_accepted_at a), (''evidence_url'', pa_evidence_url a)]"

definition acceptance_errors :: "bool \<Rightarrow> policy_document \<Rightarrow> string list" where
  "acceptance_errors requireAccepted policy =
     (let a = po_acceptance policy
      in report (po_status policy = ''CANDIDATE'' \<and>
             (pa_decision a \<noteq> ''PENDING'' \<or> \<not> list_all (\<lambda>(_, field). field = None) (acceptance_fields a)))
           ''Candidate policy must keep the owner decision Pending and evidence fields null'' @
         (if po_status policy = ''ACCEPTED'' \<or> requireAccepted
          then report (po_status policy \<noteq> ''ACCEPTED'' \<or> pa_decision a \<noteq> ''ACCEPTED'')
                 ''accepted mode requires ACCEPTED policy and owner decision states'' @
               concat (map (\<lambda>(name, field). report (field \<in> {None, Some []})
                 (''accepted mode requires acceptance.'' @ name)) (acceptance_fields a))
          else []))"

definition requirement_ids :: "string list" where
  "requirement_ids = [''A8-QUAL-01'', ''A8-ATTACH-01'', ''A8-QA-01'', ''A8-BUDGET-01'', ''A8-CAPACITY-01'', ''A8-META-01'',
     ''A8-STOP-01'', ''A8-VALIDATE-01'', ''A8-ACCEPT-01'']"

definition decision_texts :: "string list" where
  "decision_texts = requirement_ids @ [''Candidate for AICO-008 owner acceptance'',
     ''deterministic fixture remains the only enabled R0 model target'', ''agent-authored text'', ''Disputed IDs:** None'']"

definition evidence_texts :: "string list" where
  "evidence_texts = requirement_ids @ [''owner acceptance Pending'', ''passing structural and fail-closed validation'']"

definition missing_texts :: "string \<Rightarrow> string \<Rightarrow> string list \<Rightarrow> string list" where
  "missing_texts path content required = concat (map (\<lambda>requiredText.
     report (\<not> js_includes (js_lower content) (js_lower requiredText))
       (path @ '' is missing required content: '' @ requiredText)) required)"

text \<open>The texts of the decision and of the evidence document.\<close>

record policy_texts =
  pt_decision :: string
  pt_evidence :: string

definition text_errors :: "policy_texts \<Rightarrow> string list" where
  "text_errors texts =
     missing_texts ''docs/policies/alpha-operating-policy-v1.md'' (pt_decision texts) decision_texts @
     missing_texts ''docs/delivery/AICO_008_EVIDENCE.md'' (pt_evidence texts) evidence_texts"

definition policy_errors :: "(policy_document \<Rightarrow> string list) \<Rightarrow> (string \<Rightarrow> int option) \<Rightarrow> policy_texts \<Rightarrow> bool \<Rightarrow>
    policy_document \<Rightarrow> string list" where
  "policy_errors schema_errors js_number texts requireAccepted policy =
     schema_errors policy @ registry_errors policy @ value_errors policy @ reason_errors policy @
     budget_errors js_number policy @ fixed_value_errors policy @ capacity_errors js_number policy @
     acceptance_errors requireAccepted policy @ text_errors texts"

section \<open>Probes\<close>

text \<open>The probes change the document in place; a property of something undefined is a TypeError.\<close>

definition undefined_property :: exn where
  "undefined_property = JsError ''Cannot set properties of undefined''"

fun update_first :: "('a \<Rightarrow> bool) \<Rightarrow> ('a \<Rightarrow> 'a) \<Rightarrow> 'a list \<Rightarrow> 'a list" where
  "update_first p f [] = []"
| "update_first p f (x # xs) = (if p x then f x # xs else x # update_first p f xs)"

fun update_sections :: "('e \<Rightarrow> bool) \<Rightarrow> ('e \<Rightarrow> 'e) \<Rightarrow> (string \<times> 'e list) list \<Rightarrow> (string \<times> 'e list) list" where
  "update_sections p f [] = []"
| "update_sections p f ((name, es) # sections) =
     (if list_ex p es then (name, update_first p f es) # sections else (name, es) # update_sections p f sections)"

definition with_entry :: "string \<Rightarrow> (policy_entry \<Rightarrow> exn + policy_entry) \<Rightarrow> policy_document \<Rightarrow> exn + policy_document" where
  "with_entry key change policy =
     (case findEntry policy key of
        None \<Rightarrow> Inl undefined_property
      | Some entry \<Rightarrow>
          (case change entry of
             Inl e \<Rightarrow> Inl e
           | Inr changed \<Rightarrow> Inr (policy\<lparr>po_sections :=
               update_sections (\<lambda>x. pe_configuration_key x = key) (\<lambda>_. changed) (po_sections policy)\<rparr>)))"

definition set_value :: "string \<Rightarrow> json \<Rightarrow> policy_document \<Rightarrow> exn + policy_document" where
  "set_value key v = with_entry key (\<lambda>entry. Inr (entry\<lparr>pe_value := v\<rparr>))"

definition push_value :: "string \<Rightarrow> json \<Rightarrow> policy_document \<Rightarrow> exn + policy_document" where
  "push_value key v = with_entry key (\<lambda>entry.
     case pe_value entry of JArr vs \<Rightarrow> Inr (entry\<lparr>pe_value := JArr (vs @ [v])\<rparr>) | _ \<Rightarrow> Inl (JsError ''push is not a function''))"

definition duplicate_id :: "policy_document \<Rightarrow> exn + policy_document" where
  "duplicate_id policy =
     (case (section_entries policy ''capacity'', section_entries policy ''qualification'') of
        (_ # _, q # _) \<Rightarrow> Inr (policy\<lparr>po_sections := map (\<lambda>(name, es).
          (name, if name = ''capacity'' then (hd es)\<lparr>pe_id := pe_id q\<rparr> # tl es else es)) (po_sections policy)\<rparr>)
      | _ \<Rightarrow> Inl undefined_property)"

definition probes :: "(string \<times> (policy_document \<Rightarrow> exn + policy_document)) list" where
  "probes =
     [(''schema-extra-property'', \<lambda>policy. Inr (policy\<lparr>po_other := po_other policy @ [(''unreviewed_default'', JBool True)]\<rparr>)),
      (''missing-owner'', with_entry ''alpha.v1.goal.routes.max'' (\<lambda>entry. Inr (entry\<lparr>pe_owner_roles := Some []\<rparr>))),
      (''unbounded-value'', set_value ''alpha.v1.sandbox.memory_bytes.max'' (JStr ''unlimited'')),
      (''unknown-configuration-key'', with_entry ''alpha.v1.goal.routes.max''
        (\<lambda>entry. Inr (entry\<lparr>pe_configuration_key := ''alpha.v1.goal.routes.unreviewed''\<rparr>))),
      (''duplicate-id'', duplicate_id),
      (''unknown-reason-code'', with_entry ''alpha.v1.goal.routes.max'' (\<lambda>entry. Inr (entry\<lparr>pe_reason_code := ''GOAL_UNREVIEWED''\<rparr>))),
      (''screen-limit-weakened'', set_value ''alpha.v1.goal.routes.max'' (JNum 6)),
      (''unsafe-media-allowed'', push_value ''alpha.v1.attachment.media_types.allowed'' (JStr ''image/svg+xml'')),
      (''security-check-advisory'', push_value ''alpha.v1.qa.checks.advisory'' (JStr ''tenant_policy_sandbox_or_egress_violation'')),
      (''rework-limit-weakened'', set_value ''alpha.v1.qa.automatic_rework_cycles.max'' (JNum 3)),
      (''capacity-factor-mismatch'', set_value ''alpha.v1.capacity.test_active_runs.target'' (JNum 3)),
      (''run-cost-unbounded'', set_value ''alpha.v1.model.cost_micros_usd.per_run_max'' (JStr ''unlimited'')),
      (''external-provider-enabled'', set_value ''alpha.v1.model.external_provider.enabled'' (JBool True)),
      (''accepted-without-evidence'', \<lambda>policy. Inr (policy\<lparr>po_status := ''ACCEPTED'',
        po_acceptance := (po_acceptance policy)\<lparr>pa_decision := ''ACCEPTED'', pa_candidate_sha := None\<rparr>\<rparr>)),
      (''missing-downstream-owner'', \<lambda>policy. Inr (policy\<lparr>po_downstream_owners :=
        filter (\<lambda>id. id \<noteq> ''AICO-082'') (po_downstream_owners policy)\<rparr>))]"

text \<open>The run of the validator: the errors it prints, none for exit code 0, or the exception that ends it.\<close>

definition validate_policy :: "(policy_document \<Rightarrow> string list) \<Rightarrow> (string \<Rightarrow> int option) \<Rightarrow> policy_texts \<Rightarrow> bool \<Rightarrow>
    string option \<Rightarrow> policy_document \<Rightarrow> exn + string list" where
  "validate_policy schema_errors js_number texts requireAccepted probe originalPolicy =
     (case (case probe of
              None \<Rightarrow> Inr originalPolicy
            | Some name \<Rightarrow> (case map_of probes name of
                  None \<Rightarrow> Inl (JsError (''Unknown AICO-008 policy failure probe: '' @ name))
                | Some change \<Rightarrow> change originalPolicy)) of
        Inl e \<Rightarrow> Inl e
      | Inr policy \<Rightarrow> Inr (policy_errors schema_errors js_number texts requireAccepted policy))"

section \<open>The fail-closed proof\<close>

definition expected_failures :: "(string \<times> string) list" where
  "expected_failures =
     [(''schema-extra-property'', ''schema / must NOT have additional properties''),
      (''missing-owner'', ''owner_roles must NOT have fewer than 1 items''),
      (''unbounded-value'', ''differs from policy version 1.0.0''),
      (''unknown-configuration-key'', ''configuration registry differs from the closed expected set''),
      (''duplicate-id'', ''policy entry IDs must be globally unique''),
      (''unknown-reason-code'', ''references unknown reason code GOAL_UNREVIEWED''),
      (''screen-limit-weakened'', ''alpha.v1.goal.routes.max differs from policy version 1.0.0''),
      (''unsafe-media-allowed'', ''alpha.v1.attachment.media_types.allowed differs from policy version 1.0.0''),
      (''security-check-advisory'', ''alpha.v1.qa.checks.advisory differs from policy version 1.0.0''),
      (''rework-limit-weakened'', ''automatic QA rework must remain capped at two cycles''),
      (''capacity-factor-mismatch'', ''must equal alpha.v1.capacity.active_runs_global.max multiplied by the safety factor''),
      (''run-cost-unbounded'', ''alpha.v1.model.cost_micros_usd.per_run_max differs from policy version 1.0.0''),
      (''external-provider-enabled'', ''external providers must remain disabled in the R0 policy''),
      (''accepted-without-evidence'', ''accepted mode requires acceptance.candidate_sha''),
      (''missing-downstream-owner'', ''downstream owner registry differs from the closed expected set'')]"

text \<open>
  What the validator process prints: the count and one line per error, or the exception. \<open>run_validator\<close> is the exit of the process:
  \<open>None\<close> for exit code 0 and the output otherwise.
\<close>

definition validator_output :: "exn + string list \<Rightarrow> string option" where
  "validator_output result =
     (case result of
        Inl (JsError message) \<Rightarrow> Some message
      | Inl _ \<Rightarrow> Some []
      | Inr [] \<Rightarrow> None
      | Inr errors \<Rightarrow> Some (js_join [CHR 0x0A]
          ((''AICO-008 alpha policy validation failed ('' @ show_nat (length errors) @ '' issue(s)):'') # map (\<lambda>e. ''- '' @ e) errors)))"

fun prove_fail_closed :: "(string option \<Rightarrow> string option) \<Rightarrow> (string \<times> string) list \<Rightarrow> exn + unit" where
  "prove_fail_closed run_validator [] = Inr ()"
| "prove_fail_closed run_validator ((probe, expectedFailure) # rest) =
     (case run_validator (Some probe) of
        None \<Rightarrow> Inl (JsError (''AICO-008 fail-closed probe unexpectedly passed: '' @ probe))
      | Some output \<Rightarrow>
          if \<not> js_includes output expectedFailure
          then Inl (JsError (''AICO-008 probe '' @ probe @ '' failed for an unexpected reason.''))
          else prove_fail_closed run_validator rest)"

definition prove_policy_fail_closed :: "(string option \<Rightarrow> string option) \<Rightarrow> exn + nat" where
  "prove_policy_fail_closed run_validator =
     (case run_validator None of
        Some output \<Rightarrow> Inl (JsError ''Command failed'')
      | None \<Rightarrow> (case prove_fail_closed run_validator expected_failures of Inl e \<Rightarrow> Inl e | Inr _ \<Rightarrow> Inr (length expected_failures)))"

end
