(* ===== verification/Alpha_Policy_Properties.thy ===== *)
theory Alpha_Policy_Properties
  imports Alpha_Policy
begin

text \<open>
  What the validator of the alpha operating policy accepts, and that the proof script's invalid policies are rejected.
\<close>

section \<open>Reports and registries\<close>

lemma report_Nil [simp]: "report b m = [] \<longleftrightarrow> \<not> b"
  by (simp add: report_def)

lemma in_report [simp]: "e \<in> set (report b m) \<longleftrightarrow> b \<and> e = m"
  by (auto simp: report_def)

lemma equalSet_mset: "equalSet xs ys \<longleftrightarrow> mset xs = mset ys"
proof
  assume "equalSet xs ys"
  then have "sort xs = sort ys" by (simp add: equalSet_def list.rel_eq)
  then show "mset xs = mset ys" by (metis mset_sort)
next
  assume m: "mset xs = mset ys"
  then have "sort xs = sort ys" by (intro properties_for_sort) simp_all
  then show "equalSet xs ys" using mset_eq_length [OF m] by (simp add: equalSet_def list.rel_eq)
qed

lemma js_uniq_distinct: "length (js_uniq xs) = length xs \<longleftrightarrow> distinct xs"
  by (metis card_distinct distinct_card distinct_js_uniq set_js_uniq)

lemma distinct_by_mset: "mset xs = mset ys \<Longrightarrow> distinct ys \<Longrightarrow> distinct xs"
  by (metis mset_eq_imp_distinct_iff)

section \<open>What is accepted\<close>

text \<open>The values a document must have, read off the registry.\<close>

definition has_values :: "policy_document \<Rightarrow> bool" where
  "has_values policy \<longleftrightarrow> (\<forall>(key, expected) \<in> set expectedValues. \<exists>entry. findEntry policy key = Some entry \<and>
     canonical (pe_value entry) = canonical expected)"

lemma value_errors_Nil: "value_errors policy = [] \<longleftrightarrow> (\<forall>(key, expected) \<in> set expectedValues. \<exists>entry.
    findEntry policy key = Some entry \<and> canonical (pe_value entry) = canonical expected \<and>
    pe_owner_roles entry \<notin> {None, Some []} \<and> pe_review_by entry = po_review_by policy)"
  unfolding value_errors_def concat_eq_Nil_conv
  by (fastforce split: option.splits)

lemma registry_errors_Nil: "registry_errors policy = [] \<longleftrightarrow> distinct (map pe_id (allEntries policy)) \<and>
    distinct (map pe_configuration_key (allEntries policy)) \<and>
    (\<forall>(name, keys) \<in> set expectedKeys. mset (map pe_configuration_key (section_entries policy name)) = mset keys) \<and>
    mset (map pe_configuration_key (allEntries policy)) = mset (map fst expectedValues)"
  unfolding registry_errors_def append_is_Nil_conv report_Nil js_uniq_distinct equalSet_mset concat_eq_Nil_conv
  by (auto simp del: mset_map)

lemma reason_errors_Nil: "reason_errors policy = [] \<longleftrightarrow> mset (po_reason_codes policy) = mset expectedReasonCodes \<and>
    set (map pe_reason_code (allEntries policy)) = set expectedReasonCodes \<and>
    mset (po_downstream_owners policy) = mset expectedDownstream"
proof -
  have "set (po_reason_codes policy) = set expectedReasonCodes" if "mset (po_reason_codes policy) = mset expectedReasonCodes"
    using that by (rule mset_eq_setD)
  moreover have "distinct (po_reason_codes policy)" if "mset (po_reason_codes policy) = mset expectedReasonCodes"
    using that expectedReasonCodes_distinct by (rule distinct_by_mset)
  ultimately show ?thesis
    unfolding reason_errors_def Let_def append_is_Nil_conv report_Nil js_uniq_distinct equalSet_mset concat_eq_Nil_conv
    by (auto simp del: mset_map)
qed

text \<open>The registries of the sections already fix the whole registry.\<close>

lemma sections_fix_registry:
  assumes "\<forall>(name, keys) \<in> set expectedKeys. mset (map pe_configuration_key (section_entries policy name)) = mset keys"
  shows "mset (map pe_configuration_key (allEntries policy)) = mset (map fst expectedValues)"
proof -
  have "mset (map pe_configuration_key (concat (map (\<lambda>(name, _). section_entries policy name) xs))) = mset (concat (map snd xs))"
    if "\<forall>(name, keys) \<in> set xs. mset (map pe_configuration_key (section_entries policy name)) = mset keys" for xs
    using that by (induction xs) auto
  from this [OF assms] show ?thesis by (simp only: allEntries_def expected_keys_match)
qed

lemma has_values_number:
  assumes "has_values policy" and "map_of expectedValues key = Some (JNum n)"
  shows "policy_value policy key = Some (JNum n)"
proof -
  from assms obtain entry where "findEntry policy key = Some entry" "canonical (pe_value entry) = canonical (JNum n)"
    by (fastforce simp: has_values_def dest: map_of_SomeD)
  then show ?thesis by (simp add: policy_value_def canonical_number)
qed

lemma has_values_bool:
  assumes "has_values policy" and "map_of expectedValues key = Some (JBool b)"
  shows "policy_value policy key = Some (JBool b)"
proof -
  from assms obtain entry where "findEntry policy key = Some entry" "canonical (pe_value entry) = canonical (JBool b)"
    by (fastforce simp: has_values_def dest: map_of_SomeD)
  then show ?thesis by (simp add: policy_value_def canonical_bool)
qed

lemma registry_numbers:
  "map_of expectedValues ''alpha.v1.model.input_tokens.per_invocation_max'' = Some (JNum 32768)"
  "map_of expectedValues ''alpha.v1.model.input_tokens.per_run_max'' = Some (JNum 300000)"
  "map_of expectedValues ''alpha.v1.model.output_tokens.per_invocation_max'' = Some (JNum 8192)"
  "map_of expectedValues ''alpha.v1.model.output_tokens.per_run_max'' = Some (JNum 60000)"
  "map_of expectedValues ''alpha.v1.model.cost_micros_usd.per_invocation_max'' = Some (JNum 2500000)"
  "map_of expectedValues ''alpha.v1.model.cost_micros_usd.per_run_max'' = Some (JNum 15000000)"
  "map_of expectedValues ''alpha.v1.sandbox.wall_seconds.per_run_max'' = Some (JNum 1800)"
  "map_of expectedValues ''alpha.v1.run.active_wall_seconds.max'' = Some (JNum 5400)"
  "map_of expectedValues ''alpha.v1.attachment.bytes.aggregate_max'' = Some (JNum 20971520)"
  "map_of expectedValues ''alpha.v1.source.snapshot_bytes.max'' = Some (JNum 26214400)"
  "map_of expectedValues ''alpha.v1.build.output_bytes.max'' = Some (JNum 104857600)"
  "map_of expectedValues ''alpha.v1.logs.retained_bytes.per_run_max'' = Some (JNum 10485760)"
  "map_of expectedValues ''alpha.v1.storage.bytes.per_run_max'' = Some (JNum 268435456)"
  "map_of expectedValues ''alpha.v1.retry.transient_per_attempt.max'' = Some (JNum 1)"
  "map_of expectedValues ''alpha.v1.task.attempts.max'' = Some (JNum 3)"
  "map_of expectedValues ''alpha.v1.provider.sdk_retries.max'' = Some (JNum 0)"
  "map_of expectedValues ''alpha.v1.command.retries.max'' = Some (JNum 0)"
  "map_of expectedValues ''alpha.v1.unknown_outcome.auto_replays.max'' = Some (JNum 0)"
  "map_of expectedValues ''alpha.v1.qa.automatic_rework_cycles.max'' = Some (JNum 2)"
  "map_of expectedValues ''alpha.v1.capacity.test_safety_factor'' = Some (JNum 2)"
  "map_of expectedValues ''alpha.v1.capacity.active_runs_global.max'' = Some (JNum 2)"
  "map_of expectedValues ''alpha.v1.capacity.test_active_runs.target'' = Some (JNum 4)"
  "map_of expectedValues ''alpha.v1.capacity.active_builds_global.max'' = Some (JNum 1)"
  "map_of expectedValues ''alpha.v1.capacity.test_active_builds.target'' = Some (JNum 2)"
  "map_of expectedValues ''alpha.v1.capacity.active_model_invocations_global.max'' = Some (JNum 2)"
  "map_of expectedValues ''alpha.v1.capacity.test_model_invocations.target'' = Some (JNum 4)"
  by code_simp+

text \<open>With the registered values the limits are consistent with each other.\<close>

lemma registered_limits_consistent:
  assumes "has_values policy"
  shows "budget_errors js_number policy = []" and "fixed_value_errors policy = []" and "capacity_errors js_number policy = []"
proof -
  note numbers = registry_numbers [THEN has_values_number [OF assms]]
  show "budget_errors js_number policy = []"
    by (simp add: budget_errors_def numbers js_plus_def)
  have "policy_value policy ''alpha.v1.model.external_provider.enabled'' = Some (JBool False)"
    by (rule has_values_bool [OF assms]) code_simp
  then show "fixed_value_errors policy = []"
    by (simp add: fixed_value_errors_def numbers)
  show "capacity_errors js_number policy = []"
    by (simp add: capacity_errors_def numbers js_times_def)
qed

lemma policy_errors_Nil:
  "policy_errors schema_errors js_number texts requireAccepted policy = [] \<longleftrightarrow>
     schema_errors policy = [] \<and> distinct (map pe_id (allEntries policy)) \<and>
     (\<forall>(name, keys) \<in> set expectedKeys. mset (map pe_configuration_key (section_entries policy name)) = mset keys) \<and>
     value_errors policy = [] \<and> reason_errors policy = [] \<and> acceptance_errors requireAccepted policy = [] \<and> text_errors texts = []"
proof -
  have vals: "value_errors policy = [] \<Longrightarrow> has_values policy"
    unfolding value_errors_Nil has_values_def by fast
  have keys: "distinct (map pe_configuration_key (allEntries policy))"
    if "mset (map pe_configuration_key (allEntries policy)) = mset (map fst expectedValues)"
    using that expected_distinct by (rule distinct_by_mset)
  show ?thesis
    unfolding policy_errors_def append_is_Nil_conv registry_errors_Nil
    using vals keys sections_fix_registry registered_limits_consistent by blast
qed

text \<open>
  C37. What CI accepts as the alpha operating policy. The validator prints no error exactly for the documents that the
  schema accepts, whose entries have distinct identifiers and, section by section, the registered keys, each with the registered
  value, an owner and the review date of the policy, whose reason codes are the registered ones and all used, whose downstream owners
  are the registered ones, and whose acceptance and texts are in order. The checks that compare limits with each other (budgets, retries,
  capacity) and the uniqueness of the keys add nothing: the closed registry implies them.
\<close>

theorem policy_accepted_iff:
  "policy_errors schema_errors js_number texts requireAccepted policy = [] \<longleftrightarrow>
     schema_errors policy = [] \<and> distinct (map pe_id (allEntries policy)) \<and>
     (\<forall>(name, keys) \<in> set expectedKeys. mset (map pe_configuration_key (section_entries policy name)) = mset keys) \<and>
     (\<forall>(key, expected) \<in> set expectedValues. \<exists>entry. findEntry policy key = Some entry \<and> canonical (pe_value entry) = canonical expected \<and>
        pe_owner_roles entry \<notin> {None, Some []} \<and> pe_review_by entry = po_review_by policy) \<and>
     mset (po_reason_codes policy) = mset expectedReasonCodes \<and>
     set (map pe_reason_code (allEntries policy)) = set expectedReasonCodes \<and>
     mset (po_downstream_owners policy) = mset expectedDownstream \<and>
     acceptance_errors requireAccepted policy = [] \<and> text_errors texts = []"
  unfolding policy_errors_Nil value_errors_Nil reason_errors_Nil by (simp only: conj_assoc)

end
