(* ===== verification/Alpha_Policy_Probes.thy ===== *)
theory Alpha_Policy_Probes
  imports Alpha_Policy_Properties
begin

text \<open>
  The probes of \<open>prove-aico-008-policy-fail-closed.mjs\<close>: each of the invalid policies is rejected for the reason the script expects.
\<close>

section \<open>The first entry of a document\<close>

lemma update_first_append:
  "update_first p f (xs @ ys) = (if list_ex p xs then update_first p f xs @ ys else xs @ update_first p f ys)"
  by (induction xs) auto

lemma concat_update_sections: "concat (map snd (update_sections p f ss)) = update_first p f (concat (map snd ss))"
  by (induction p f ss rule: update_sections.induct) (auto simp: update_first_append)

lemma names_update_sections [simp]: "map fst (update_sections p f ss) = map fst ss"
  by (induction p f ss rule: update_sections.induct) auto

lemma find_update_first: "find p xs = Some x \<Longrightarrow> p (f x) \<Longrightarrow> find p (update_first p f xs) = Some (f x)"
  by (induction xs) (auto split: if_splits)

lemma find_update_first_other: "(\<And>x. p x \<Longrightarrow> \<not> q x \<and> \<not> q (f x)) \<Longrightarrow> find q (update_first p f xs) = find q xs"
  by (induction xs) auto

lemma in_update_first: "find p xs = Some x \<Longrightarrow> f x \<in> set (update_first p f xs)"
  by (induction xs) (auto split: if_splits)

text \<open>The document in which the entry of a key is replaced.\<close>

definition replaced :: "string \<Rightarrow> policy_entry \<Rightarrow> policy_document \<Rightarrow> policy_document" where
  "replaced key changed policy = policy\<lparr>po_sections :=
     update_sections (\<lambda>x. pe_configuration_key x = key) (\<lambda>_. changed) (po_sections policy)\<rparr>"

lemma with_entry_found:
  "findEntry policy key = Some entry \<Longrightarrow> change entry = Inr changed \<Longrightarrow> with_entry key change policy = Inr (replaced key changed policy)"
  by (simp add: with_entry_def replaced_def)

lemma replaced_simps [simp]:
  "map fst (po_sections (replaced key changed policy)) = map fst (po_sections policy)"
  "po_reason_codes (replaced key changed policy) = po_reason_codes policy"
  by (simp_all add: replaced_def)

lemma replaced_entries:
  "document_entries (replaced key changed policy) =
     update_first (\<lambda>x. pe_configuration_key x = key) (\<lambda>_. changed) (document_entries policy)"
  by (simp add: replaced_def document_entries_def concat_update_sections)

lemma find_replaced: "findEntry policy key = Some entry \<Longrightarrow> pe_configuration_key changed = key \<Longrightarrow>
    findEntry (replaced key changed policy) key = Some changed"
  unfolding findEntry_def replaced_entries by (rule find_update_first) simp_all

lemma find_replaced_other: "pe_configuration_key changed = key \<Longrightarrow> key' \<noteq> key \<Longrightarrow>
    findEntry (replaced key changed policy) key' = findEntry policy key'"
  unfolding findEntry_def replaced_entries by (rule find_update_first_other) auto

lemma value_replaced: "findEntry policy key = Some entry \<Longrightarrow>
    policy_value (replaced key (entry\<lparr>pe_value := v\<rparr>) policy) key' = (if key' = key then Some v else policy_value policy key')"
  using find_replaced [of policy key entry "entry\<lparr>pe_value := v\<rparr>"] find_replaced_other [of "entry\<lparr>pe_value := v\<rparr>" key key' policy]
  by (auto simp: policy_value_def findEntry_def find_Some_iff)

text \<open>The sections of a document.\<close>

definition closed_sections :: "policy_document \<Rightarrow> bool" where
  "closed_sections policy \<longleftrightarrow> distinct (map fst (po_sections policy)) \<and> set (map fst (po_sections policy)) \<subseteq> set (map fst expectedKeys)"

lemma in_allEntries:
  assumes "closed_sections policy" and "e \<in> set (document_entries policy)"
  shows "e \<in> set (allEntries policy)"
proof -
  from assms(2) obtain name es where es: "(name, es) \<in> set (po_sections policy)" "e \<in> set es"
    by (auto simp: document_entries_def)
  with assms(1) have "section_entries policy name = es" "name \<in> set (map fst expectedKeys)"
    by (force simp: section_entries_def closed_sections_def)+
  with es(2) show ?thesis unfolding allEntries_def by fastforce
qed

lemma replaced_in_allEntries:
  assumes "closed_sections policy" and "findEntry policy key = Some entry"
  shows "changed \<in> set (allEntries (replaced key changed policy))"
proof (rule in_allEntries)
  show "closed_sections (replaced key changed policy)" using assms(1) by (simp add: closed_sections_def)
  show "changed \<in> set (document_entries (replaced key changed policy))"
    using assms(2) in_update_first [of _ _ entry "\<lambda>_. changed"] by (simp add: replaced_entries findEntry_def)
qed

section \<open>The output of the validator\<close>

lemma in_js_join: "x \<in> set xs \<Longrightarrow> sublist x (js_join sep xs)"
proof (induction sep xs rule: js_join.induct)
  case (3 sep y z zs)
  have "sublist z' t \<Longrightarrow> sublist z' (y @ sep @ t)" for z' t
    by (metis append_assoc sublist_append_leftI sublist_order.order_trans)
  with 3 show ?case by auto
qed auto

lemma error_is_printed:
  assumes "e \<in> set errors" and "js_includes e expected"
  shows "\<exists>printed. validator_output (Inr errors) = Some printed \<and> js_includes printed expected"
proof -
  let ?lines = "(''AICO-008 alpha policy validation failed ('' @ show_nat (length errors) @ '' issue(s)):'') # map (\<lambda>e. ''- '' @ e) errors"
  have out: "validator_output (Inr errors) = Some (js_join [CHR 0x0A] ?lines)"
    using assms(1) by (auto simp: validator_output_def simp del: append.simps split: list.split)
  have "sublist expected e" using assms(2) by (simp add: js_includes_def)
  also have "sublist e (''- '' @ e)" by (rule sublist_append_leftI)
  also have "sublist (''- '' @ e) (js_join [CHR 0x0A] ?lines)" using assms(1) by (intro in_js_join) simp
  finally show ?thesis using out by (simp add: js_includes_def)
qed

text \<open>Each kind of error is among those of the validator.\<close>

lemma in_policy_errors:
  "e \<in> set (schema_errors policy) \<Longrightarrow> e \<in> set (policy_errors schema_errors js_number texts requireAccepted policy)"
  "e \<in> set (registry_errors policy) \<Longrightarrow> e \<in> set (policy_errors schema_errors js_number texts requireAccepted policy)"
  "e \<in> set (value_errors policy) \<Longrightarrow> e \<in> set (policy_errors schema_errors js_number texts requireAccepted policy)"
  "e \<in> set (reason_errors policy) \<Longrightarrow> e \<in> set (policy_errors schema_errors js_number texts requireAccepted policy)"
  "e \<in> set (fixed_value_errors policy) \<Longrightarrow> e \<in> set (policy_errors schema_errors js_number texts requireAccepted policy)"
  "e \<in> set (capacity_errors js_number policy) \<Longrightarrow> e \<in> set (policy_errors schema_errors js_number texts requireAccepted policy)"
  "e \<in> set (acceptance_errors requireAccepted policy) \<Longrightarrow> e \<in> set (policy_errors schema_errors js_number texts requireAccepted policy)"
  by (simp_all add: policy_errors_def)

lemma prove_fail_closed_passes:
  "(\<And>probe expected. (probe, expected) \<in> set xs \<Longrightarrow> \<exists>printed. run (Some probe) = Some printed \<and> js_includes printed expected) \<Longrightarrow>
    prove_fail_closed run xs = Inr ()"
proof (induction xs)
  case (Cons x xs)
  obtain probe expected where x: "x = (probe, expected)" by (cases x)
  with Cons.prems [of probe expected] obtain printed where "run (Some probe) = Some printed" "js_includes printed expected" by auto
  moreover have "prove_fail_closed run xs = Inr ()" by (rule Cons.IH, rule Cons.prems) simp
  ultimately show ?case by (simp add: x)
qed simp

section \<open>The probes\<close>

text \<open>
  What Ajv says of documents under the schema of the policy: an unknown property of the document and an entry without owners are
  reported, each with its message, and a document with other sections is refused.
\<close>

definition schema_laws :: "(policy_document \<Rightarrow> string list) \<Rightarrow> bool" where
  "schema_laws schema_errors \<longleftrightarrow>
     (\<forall>policy. ''unreviewed_default'' \<in> fst ` set (po_other policy) \<longrightarrow>
        ''schema / must NOT have additional properties'' \<in> set (schema_errors policy)) \<and>
     (\<forall>policy. (\<exists>entry \<in> set (allEntries policy). pe_owner_roles entry = Some []) \<longrightarrow>
        (\<exists>message \<in> set (schema_errors policy). js_includes message ''owner_roles must NOT have fewer than 1 items'')) \<and>
     (\<forall>policy. schema_errors policy = [] \<longrightarrow> set (map fst (po_sections policy)) \<subseteq> set (map fst expectedKeys))"

definition accepted_policy :: "(policy_document \<Rightarrow> string list) \<Rightarrow> (string \<Rightarrow> int option) \<Rightarrow> policy_texts \<Rightarrow> policy_document \<Rightarrow> bool" where
  "accepted_policy schema_errors js_number texts policy \<longleftrightarrow> schema_laws schema_errors \<and> distinct (map fst (po_sections policy)) \<and>
     policy_errors schema_errors js_number texts False policy = []"

definition rejected :: "(policy_document \<Rightarrow> string list) \<Rightarrow> (string \<Rightarrow> int option) \<Rightarrow> policy_texts \<Rightarrow> policy_document \<Rightarrow> string \<Rightarrow> string \<Rightarrow> bool" where
  "rejected schema_errors js_number texts policy probe expected \<longleftrightarrow>
     (\<exists>printed. validator_output (validate_policy schema_errors js_number texts False (Some probe) policy) = Some printed \<and>
       js_includes printed expected)"

lemma rejectedI:
  "map_of probes probe = Some change \<Longrightarrow> change policy = Inr invalid \<Longrightarrow>
   e \<in> set (policy_errors schema_errors js_number texts False invalid) \<Longrightarrow> js_includes e expected \<Longrightarrow>
   rejected schema_errors js_number texts policy probe expected"
  by (simp add: rejected_def validate_policy_def error_is_printed)

lemma accepted_closed: "accepted_policy schema_errors js_number texts policy \<Longrightarrow> closed_sections policy"
  by (simp add: accepted_policy_def schema_laws_def closed_sections_def policy_errors_def)

lemma accepted_values: "accepted_policy schema_errors js_number texts policy \<Longrightarrow> has_values policy"
  using value_errors_Nil [of policy] by (fastforce simp: accepted_policy_def policy_errors_def has_values_def)

lemma accepted_section:
  assumes "accepted_policy schema_errors js_number texts policy" and "(name, keys) \<in> set expectedKeys"
  shows "mset (map pe_configuration_key (section_entries policy name)) = mset keys"
  using assms registry_errors_Nil [of policy] by (fastforce simp: accepted_policy_def policy_errors_def)

lemma accepted_reasons:
  assumes "accepted_policy schema_errors js_number texts policy"
  shows "set (po_reason_codes policy) = set expectedReasonCodes"
  using assms reason_errors_Nil [of policy] by (auto simp: accepted_policy_def policy_errors_def dest: mset_eq_setD)

lemma accepted_entry:
  assumes "accepted_policy schema_errors js_number texts policy" and "map_of expectedValues key = Some expected"
  obtains entry where "findEntry policy key = Some entry" and "canonical (pe_value entry) = canonical expected"
  using accepted_values [OF assms(1)] map_of_SomeD [OF assms(2)] by (fastforce simp: has_values_def)

text \<open>A changed value is reported.\<close>

lemma changed_value_reported:
  assumes "map_of expectedValues key = Some expected" and "policy_value policy key = Some v" and "canonical v \<noteq> canonical expected"
  shows "key @ '' differs from policy version 1.0.0'' \<in> set (value_errors policy)"
proof -
  from assms(2) obtain entry where "findEntry policy key = Some entry" "pe_value entry = v" by (auto simp: policy_value_def)
  with map_of_SomeD [OF assms(1)] assms(3) show ?thesis
    unfolding value_errors_def by (auto simp: report_def intro!: bexI [of _ "(key, expected)"])
qed

lemma set_value_invalid:
  assumes "accepted_policy schema_errors js_number texts policy" and "map_of expectedValues key = Some expected"
  obtains invalid where "set_value key v policy = Inr invalid"
    and "\<And>key'. policy_value invalid key' = (if key' = key then Some v else policy_value policy key')"
proof -
  obtain entry where entry: "findEntry policy key = Some entry" using assms by (rule accepted_entry)
  have "set_value key v policy = Inr (replaced key (entry\<lparr>pe_value := v\<rparr>) policy)"
    unfolding set_value_def by (rule with_entry_found [OF entry]) simp
  then show ?thesis using value_replaced [OF entry] by (rule that [of "replaced key (entry\<lparr>pe_value := v\<rparr>) policy"])
qed

lemma set_value_rejected:
  assumes acc: "accepted_policy schema_errors js_number texts policy" and reg: "map_of expectedValues key = Some expected"
    and probe: "map_of probes probe = Some (set_value key v)" and v: "canonical v \<noteq> canonical expected"
    and e: "js_includes (key @ '' differs from policy version 1.0.0'') message"
  shows "rejected schema_errors js_number texts policy probe message"
proof -
  obtain invalid where invalid: "set_value key v policy = Inr invalid"
    "\<And>key'. policy_value invalid key' = (if key' = key then Some v else policy_value policy key')"
    using set_value_invalid [OF acc reg] by blast
  have "key @ '' differs from policy version 1.0.0'' \<in> set (value_errors invalid)"
    by (rule changed_value_reported [OF reg _ v]) (simp add: invalid(2))
  with probe invalid(1) show ?thesis using e by (rule rejectedI [OF _ _ in_policy_errors(3)])
qed

lemma canonical_other: "v \<noteq> JNum n \<Longrightarrow> canonical v \<noteq> canonical (JNum n)"
  by (simp add: canonical_number)

lemma canonical_list: "canonical v = canonical (JArr ws) \<Longrightarrow> \<exists>vs. v = JArr vs"
proof (cases v)
  case (JObj es)
  with canonical_object [of es] show "canonical v = canonical (JArr ws) \<Longrightarrow> \<exists>vs. v = JArr vs" by auto
qed (auto simp: show_int_starts not_digits split: if_splits)

lemma push_value_rejected:
  assumes acc: "accepted_policy schema_errors js_number texts policy" and reg: "map_of expectedValues key = Some (JArr ws)"
    and probe: "map_of probes probe = Some (push_value key v)"
    and e: "js_includes (key @ '' differs from policy version 1.0.0'') message"
  shows "rejected schema_errors js_number texts policy probe message"
proof -
  obtain entry where entry: "findEntry policy key = Some entry" and can: "canonical (pe_value entry) = canonical (JArr ws)"
    using acc reg by (rule accepted_entry)
  from canonical_list [OF can] obtain vs where vs: "pe_value entry = JArr vs" ..
  let ?invalid = "replaced key (entry\<lparr>pe_value := JArr (vs @ [v])\<rparr>) policy"
  have "push_value key v policy = Inr ?invalid" unfolding push_value_def by (rule with_entry_found [OF entry]) (simp add: vs)
  moreover have "key @ '' differs from policy version 1.0.0'' \<in> set (value_errors ?invalid)"
  proof (rule changed_value_reported [OF reg])
    show "policy_value ?invalid key = Some (JArr (vs @ [v]))" by (simp add: value_replaced [OF entry])
    show "canonical (JArr (vs @ [v])) \<noteq> canonical (JArr ws)" using canonical_snoc can vs by metis
  qed
  ultimately show ?thesis using e by (intro rejectedI [OF probe _ in_policy_errors(3)])
qed

section \<open>Every probe is rejected\<close>

lemma probe_registry:
  "map_of expectedValues ''alpha.v1.goal.routes.max'' = Some (JNum 5)"
  "map_of expectedValues ''alpha.v1.sandbox.memory_bytes.max'' = Some (JNum 2147483648)"
  "map_of expectedValues ''alpha.v1.model.external_provider.enabled'' = Some (JBool False)"
  by code_simp+

lemma pushed_registry:
  "map_of expectedValues ''alpha.v1.attachment.media_types.allowed'' = Some (strings
     [''text/plain'', ''text/markdown'', ''application/pdf'', ''image/png'', ''image/jpeg'', ''image/webp''])"
  "map_of expectedValues ''alpha.v1.qa.checks.advisory'' = Some (strings [''minor_or_moderate_accessibility_finding'',
     ''non_blocking_visual_polish'', ''copy_consistency'', ''performance_budget_warning'', ''maintainability_observation''])"
  by code_simp+

lemma includes_suffix: "js_includes (a @ b) b"
  by (simp add: js_includes_def)

lemma includes_refl [simp]: "js_includes a a"
  by (simp add: js_includes_def)

lemma mset_ne: "x \<in> set xs \<Longrightarrow> x \<notin> set ys \<Longrightarrow> mset xs \<noteq> mset ys" "x \<notin> set xs \<Longrightarrow> x \<in> set ys \<Longrightarrow> mset xs \<noteq> mset ys"
  by (auto dest: mset_eq_setD)

lemma probe_changes:
  "map_of probes ''rework-limit-weakened'' = Some (set_value ''alpha.v1.qa.automatic_rework_cycles.max'' (JNum 3))"
  "map_of probes ''external-provider-enabled'' = Some (set_value ''alpha.v1.model.external_provider.enabled'' (JBool True))"
  "map_of probes ''capacity-factor-mismatch'' = Some (set_value ''alpha.v1.capacity.test_active_runs.target'' (JNum 3))"
  "map_of probes ''unbounded-value'' = Some (set_value ''alpha.v1.sandbox.memory_bytes.max'' (JStr ''unlimited''))"
  "map_of probes ''screen-limit-weakened'' = Some (set_value ''alpha.v1.goal.routes.max'' (JNum 6))"
  "map_of probes ''run-cost-unbounded'' = Some (set_value ''alpha.v1.model.cost_micros_usd.per_run_max'' (JStr ''unlimited''))"
  "map_of probes ''unsafe-media-allowed'' = Some (push_value ''alpha.v1.attachment.media_types.allowed'' (JStr ''image/svg+xml''))"
  "map_of probes ''security-check-advisory'' =
     Some (push_value ''alpha.v1.qa.checks.advisory'' (JStr ''tenant_policy_sandbox_or_egress_violation''))"
  by (simp_all add: probes_def)

lemma value_probes_rejected:
  assumes "accepted_policy schema_errors js_number texts policy"
  shows "rejected schema_errors js_number texts policy ''unbounded-value'' ''differs from policy version 1.0.0''"
    and "rejected schema_errors js_number texts policy ''screen-limit-weakened'' ''alpha.v1.goal.routes.max differs from policy version 1.0.0''"
    and "rejected schema_errors js_number texts policy ''run-cost-unbounded''
      ''alpha.v1.model.cost_micros_usd.per_run_max differs from policy version 1.0.0''"
proof -
  have inc: "js_includes (''alpha.v1.sandbox.memory_bytes.max'' @ '' differs from policy version 1.0.0'') ''differs from policy version 1.0.0''"
    using includes_suffix [of "''alpha.v1.sandbox.memory_bytes.max ''" "''differs from policy version 1.0.0''"] by simp
  show "rejected schema_errors js_number texts policy ''unbounded-value'' ''differs from policy version 1.0.0''"
    by (rule set_value_rejected [OF assms probe_registry(2) probe_changes(4) canonical_other inc]) simp
  show "rejected schema_errors js_number texts policy ''screen-limit-weakened'' ''alpha.v1.goal.routes.max differs from policy version 1.0.0''"
    by (rule set_value_rejected [OF assms probe_registry(1) probe_changes(5) canonical_other]) simp_all
  show "rejected schema_errors js_number texts policy ''run-cost-unbounded''
      ''alpha.v1.model.cost_micros_usd.per_run_max differs from policy version 1.0.0''"
    by (rule set_value_rejected [OF assms registry_numbers(6) probe_changes(6) canonical_other]) simp_all
qed

lemma push_probes_rejected:
  assumes "accepted_policy schema_errors js_number texts policy"
  shows "rejected schema_errors js_number texts policy ''unsafe-media-allowed''
      ''alpha.v1.attachment.media_types.allowed differs from policy version 1.0.0''"
    and "rejected schema_errors js_number texts policy ''security-check-advisory''
      ''alpha.v1.qa.checks.advisory differs from policy version 1.0.0''"
  by (rule push_value_rejected [OF assms pushed_registry(1) probe_changes(7)], simp)
    (rule push_value_rejected [OF assms pushed_registry(2) probe_changes(8)], simp)

lemma limit_probes_rejected:
  assumes acc: "accepted_policy schema_errors js_number texts policy"
  shows "rejected schema_errors js_number texts policy ''rework-limit-weakened'' ''automatic QA rework must remain capped at two cycles''"
    and "rejected schema_errors js_number texts policy ''external-provider-enabled'' ''external providers must remain disabled in the R0 policy''"
    and "rejected schema_errors js_number texts policy ''capacity-factor-mismatch''
      ''must equal alpha.v1.capacity.active_runs_global.max multiplied by the safety factor''"
proof -
  obtain p where p: "set_value ''alpha.v1.qa.automatic_rework_cycles.max'' (JNum 3) policy = Inr p"
    "policy_value p ''alpha.v1.qa.automatic_rework_cycles.max'' = Some (JNum 3)"
    using set_value_invalid [OF acc registry_numbers(19)] by metis
  then have "''automatic QA rework must remain capped at two cycles'' \<in> set (fixed_value_errors p)"
    by (simp add: fixed_value_errors_def)
  with p(1) show "rejected schema_errors js_number texts policy ''rework-limit-weakened'' ''automatic QA rework must remain capped at two cycles''"
    by (intro rejectedI [OF probe_changes(1) _ in_policy_errors(5) includes_refl])
next
  obtain p where p: "set_value ''alpha.v1.model.external_provider.enabled'' (JBool True) policy = Inr p"
    "policy_value p ''alpha.v1.model.external_provider.enabled'' = Some (JBool True)"
    using set_value_invalid [OF acc probe_registry(3)] by metis
  then have "''external providers must remain disabled in the R0 policy'' \<in> set (fixed_value_errors p)"
    by (simp add: fixed_value_errors_def)
  with p(1) show "rejected schema_errors js_number texts policy ''external-provider-enabled'' ''external providers must remain disabled in the R0 policy''"
    by (intro rejectedI [OF probe_changes(2) _ in_policy_errors(5) includes_refl])
next
  note numbers = registry_numbers [THEN has_values_number [OF accepted_values [OF acc]]]
  obtain p where p: "set_value ''alpha.v1.capacity.test_active_runs.target'' (JNum 3) policy = Inr p"
    "\<And>key. policy_value p key = (if key = ''alpha.v1.capacity.test_active_runs.target'' then Some (JNum 3) else policy_value policy key)"
    using set_value_invalid [OF acc registry_numbers(22), of "JNum 3"] by blast
  let ?e = "''alpha.v1.capacity.test_active_runs.target'' @ '' must equal '' @ ''alpha.v1.capacity.active_runs_global.max'' @
    '' multiplied by the safety factor''"
  have "?e \<in> set (capacity_errors js_number p)"
    by (simp add: capacity_errors_def p(2) numbers js_times_def)
  moreover have "js_includes ?e ''must equal alpha.v1.capacity.active_runs_global.max multiplied by the safety factor''"
    using includes_suffix [of "''alpha.v1.capacity.test_active_runs.target ''"
      "''must equal alpha.v1.capacity.active_runs_global.max multiplied by the safety factor''"] by simp
  ultimately show "rejected schema_errors js_number texts policy ''capacity-factor-mismatch''
      ''must equal alpha.v1.capacity.active_runs_global.max multiplied by the safety factor''"
    using p(1) by (intro rejectedI [OF probe_changes(3) _ in_policy_errors(6)])
qed

lemma unregistered: "map_of expectedValues ''alpha.v1.goal.routes.unreviewed'' = None" "''GOAL_UNREVIEWED'' \<notin> set expectedReasonCodes"
  by code_simp+

lemma entry_changes:
  "map_of probes ''missing-owner'' = Some (with_entry ''alpha.v1.goal.routes.max'' (\<lambda>entry. Inr (entry\<lparr>pe_owner_roles := Some []\<rparr>)))"
  "map_of probes ''unknown-configuration-key'' = Some (with_entry ''alpha.v1.goal.routes.max''
     (\<lambda>entry. Inr (entry\<lparr>pe_configuration_key := ''alpha.v1.goal.routes.unreviewed''\<rparr>)))"
  "map_of probes ''unknown-reason-code'' = Some (with_entry ''alpha.v1.goal.routes.max''
     (\<lambda>entry. Inr (entry\<lparr>pe_reason_code := ''GOAL_UNREVIEWED''\<rparr>)))"
  by (simp_all add: probes_def)

lemma entry_probes_rejected:
  assumes acc: "accepted_policy schema_errors js_number texts policy"
  shows "rejected schema_errors js_number texts policy ''missing-owner'' ''owner_roles must NOT have fewer than 1 items''"
    and "rejected schema_errors js_number texts policy ''unknown-configuration-key'' ''configuration registry differs from the closed expected set''"
    and "rejected schema_errors js_number texts policy ''unknown-reason-code'' ''references unknown reason code GOAL_UNREVIEWED''"
proof -
  obtain entry where entry: "findEntry policy ''alpha.v1.goal.routes.max'' = Some entry"
    using acc probe_registry(1) by (rule accepted_entry)
  have changed: "with_entry ''alpha.v1.goal.routes.max'' (\<lambda>entry. Inr (f entry)) policy = Inr (replaced ''alpha.v1.goal.routes.max'' (f entry) policy)" for f
    by (rule with_entry_found [OF entry refl])
  have there: "f entry \<in> set (allEntries (replaced ''alpha.v1.goal.routes.max'' (f entry) policy))" for f
    by (rule replaced_in_allEntries [OF accepted_closed [OF acc] entry])
  show "rejected schema_errors js_number texts policy ''missing-owner'' ''owner_roles must NOT have fewer than 1 items''"
  proof -
    let ?invalid = "replaced ''alpha.v1.goal.routes.max'' (entry\<lparr>pe_owner_roles := Some []\<rparr>) policy"
    have "\<exists>entry \<in> set (allEntries ?invalid). pe_owner_roles entry = Some []" by (rule bexI [OF _ there]) simp
    then obtain m where "m \<in> set (schema_errors ?invalid)" "js_includes m ''owner_roles must NOT have fewer than 1 items''"
      using acc unfolding accepted_policy_def schema_laws_def by blast
    then show ?thesis by (intro rejectedI [OF entry_changes(1) changed in_policy_errors(1)])
  qed
  show "rejected schema_errors js_number texts policy ''unknown-configuration-key'' ''configuration registry differs from the closed expected set''"
  proof -
    let ?invalid = "replaced ''alpha.v1.goal.routes.max'' (entry\<lparr>pe_configuration_key := ''alpha.v1.goal.routes.unreviewed''\<rparr>) policy"
    have "''alpha.v1.goal.routes.unreviewed'' \<in> set (map pe_configuration_key (allEntries ?invalid))"
      using imageI [OF there, of pe_configuration_key "\<lambda>entry. entry\<lparr>pe_configuration_key := ''alpha.v1.goal.routes.unreviewed''\<rparr>"] by simp
    moreover have "''alpha.v1.goal.routes.unreviewed'' \<notin> set (map fst expectedValues)"
      using unregistered(1) by (simp add: map_of_eq_None_iff)
    ultimately have "mset (map pe_configuration_key (allEntries ?invalid)) \<noteq> mset (map fst expectedValues)" by (rule mset_ne)
    then have "''global configuration registry differs from the closed expected set'' \<in> set (registry_errors ?invalid)"
      by (simp add: registry_errors_def equalSet_mset del: mset_map)
    moreover have "js_includes ''global configuration registry differs from the closed expected set''
        ''configuration registry differs from the closed expected set''"
      using includes_suffix [of "''global ''" "''configuration registry differs from the closed expected set''"] by simp
    ultimately show ?thesis by (intro rejectedI [OF entry_changes(2) changed in_policy_errors(2)])
  qed
  show "rejected schema_errors js_number texts policy ''unknown-reason-code'' ''references unknown reason code GOAL_UNREVIEWED''"
  proof -
    let ?invalid = "replaced ''alpha.v1.goal.routes.max'' (entry\<lparr>pe_reason_code := ''GOAL_UNREVIEWED''\<rparr>) policy"
    have "''GOAL_UNREVIEWED'' \<in> set (map pe_reason_code (allEntries ?invalid))"
      using imageI [OF there, of pe_reason_code "\<lambda>entry. entry\<lparr>pe_reason_code := ''GOAL_UNREVIEWED''\<rparr>"] by simp
    then have "''policy entry references unknown reason code '' @ ''GOAL_UNREVIEWED'' \<in> set (reason_errors ?invalid)"
      using unregistered(2) accepted_reasons [OF acc] unfolding reason_errors_def Let_def replaced_simps
      by (fastforce simp: report_def)
    moreover have "js_includes (''policy entry references unknown reason code '' @ ''GOAL_UNREVIEWED'')
        ''references unknown reason code GOAL_UNREVIEWED''"
      using includes_suffix [of "''policy entry ''" "''references unknown reason code GOAL_UNREVIEWED''"] by simp
    ultimately show ?thesis by (intro rejectedI [OF entry_changes(3) changed in_policy_errors(4)])
  qed
qed

text \<open>Two entries with the same identifier, and changes of the document itself.\<close>

lemma document_changes:
  "map_of probes ''duplicate-id'' = Some duplicate_id"
  "map_of probes ''schema-extra-property'' =
     Some (\<lambda>policy. Inr (policy\<lparr>po_other := po_other policy @ [(''unreviewed_default'', JBool True)]\<rparr>))"
  "map_of probes ''accepted-without-evidence'' = Some (\<lambda>policy. Inr (policy\<lparr>po_status := ''ACCEPTED'',
     po_acceptance := (po_acceptance policy)\<lparr>pa_decision := ''ACCEPTED'', pa_candidate_sha := None\<rparr>\<rparr>))"
  "map_of probes ''missing-downstream-owner'' = Some (\<lambda>policy. Inr (policy\<lparr>po_downstream_owners :=
     filter (\<lambda>id. id \<noteq> ''AICO-082'') (po_downstream_owners policy)\<rparr>))"
  by (simp_all add: probes_def)

lemma allEntries_sections: "allEntries policy = section_entries policy ''qualification'' @ section_entries policy ''attachments'' @
    section_entries policy ''qa'' @ section_entries policy ''budgets'' @ section_entries policy ''capacity''"
  by (simp add: allEntries_def expectedKeys_def)

lemma map_of_with_name: "map_of (map (\<lambda>(name, es). (name, f name es)) xs) name = map_option (f name) (map_of xs name)"
  by (induction xs) auto

lemma accepted_section_nonempty:
  assumes "accepted_policy schema_errors js_number texts policy" and "(name, key # keys) \<in> set expectedKeys"
  obtains e es where "section_entries policy name = e # es"
  using accepted_section [OF assms] by (cases "section_entries policy name") auto

lemma section_keys: "\<exists>key keys. (''qualification'', key # keys) \<in> set expectedKeys" "\<exists>key keys. (''capacity'', key # keys) \<in> set expectedKeys"
  by (simp_all add: expectedKeys_def)

lemma duplicate_probe_rejected:
  assumes acc: "accepted_policy schema_errors js_number texts policy"
  shows "rejected schema_errors js_number texts policy ''duplicate-id'' ''policy entry IDs must be globally unique''"
proof -
  obtain q qs c cs where q: "section_entries policy ''qualification'' = q # qs" and c: "section_entries policy ''capacity'' = c # cs"
    using accepted_section_nonempty [OF acc] section_keys by metis
  let ?change = "\<lambda>name es. if name = ''capacity'' then (hd es)\<lparr>pe_id := pe_id q\<rparr> # tl es else es"
  let ?invalid = "policy\<lparr>po_sections := map (\<lambda>(name, es). (name, ?change name es)) (po_sections policy)\<rparr>"
  have d: "duplicate_id policy = Inr ?invalid" by (simp add: duplicate_id_def q c)
  have sections: "section_entries ?invalid name =
      (case map_of (po_sections policy) name of None \<Rightarrow> [] | Some es \<Rightarrow> ?change name es)" for name
    by (simp add: section_entries_def map_of_with_name split: option.splits)
  have "section_entries ?invalid ''qualification'' = q # qs" "section_entries ?invalid ''capacity'' = c\<lparr>pe_id := pe_id q\<rparr> # cs"
    using q c unfolding sections by (auto simp: section_entries_def split: option.splits)
  then have "\<not> distinct (map pe_id (allEntries ?invalid))" by (simp add: allEntries_sections)
  then have e: "''policy entry IDs must be globally unique'' \<in> set (registry_errors ?invalid)"
    unfolding registry_errors_def js_uniq_distinct by (simp add: report_def)
  show ?thesis by (rule rejectedI [OF document_changes(1) d in_policy_errors(2) [OF e] includes_refl])
qed

lemma document_probes_rejected:
  assumes acc: "accepted_policy schema_errors js_number texts policy"
  shows "rejected schema_errors js_number texts policy ''schema-extra-property'' ''schema / must NOT have additional properties''"
    and "rejected schema_errors js_number texts policy ''accepted-without-evidence'' ''accepted mode requires acceptance.candidate_sha''"
    and "rejected schema_errors js_number texts policy ''missing-downstream-owner''
      ''downstream owner registry differs from the closed expected set''"
proof -
  let ?extra = "policy\<lparr>po_other := po_other policy @ [(''unreviewed_default'', JBool True)]\<rparr>"
  have "''schema / must NOT have additional properties'' \<in> set (schema_errors ?extra)"
    using acc unfolding accepted_policy_def schema_laws_def by force
  then show "rejected schema_errors js_number texts policy ''schema-extra-property'' ''schema / must NOT have additional properties''"
    by (rule rejectedI [OF document_changes(2) refl in_policy_errors(1) includes_refl])
  let ?unproven = "policy\<lparr>po_status := ''ACCEPTED'', po_acceptance := (po_acceptance policy)\<lparr>pa_decision := ''ACCEPTED'', pa_candidate_sha := None\<rparr>\<rparr>"
  have "''accepted mode requires acceptance.'' @ ''candidate_sha'' \<in> set (acceptance_errors False ?unproven)"
    by (simp add: acceptance_errors_def acceptance_fields_def report_def)
  then show "rejected schema_errors js_number texts policy ''accepted-without-evidence'' ''accepted mode requires acceptance.candidate_sha''"
    unfolding append.simps by (rule rejectedI [OF document_changes(3) refl in_policy_errors(7) includes_refl])
  let ?missing = "policy\<lparr>po_downstream_owners := filter (\<lambda>id. id \<noteq> ''AICO-082'') (po_downstream_owners policy)\<rparr>"
  have "''AICO-082'' \<in> set expectedDownstream" by (simp add: expectedDownstream_def)
  then have "mset (po_downstream_owners ?missing) \<noteq> mset expectedDownstream" by (intro mset_ne(2) [of "''AICO-082''"]) simp_all
  then have "''downstream owner registry differs from the closed expected set'' \<in> set (reason_errors ?missing)"
    by (simp add: reason_errors_def Let_def equalSet_mset)
  then show "rejected schema_errors js_number texts policy ''missing-downstream-owner''
      ''downstream owner registry differs from the closed expected set''"
    by (rule rejectedI [OF document_changes(4) refl in_policy_errors(4) includes_refl])
qed

text \<open>
  C38. The proof script succeeds. Whatever policy the validator accepts, and not only the one in the repository, the proof script
  finds each of its 15 invalid versions of the policy rejected, with the failure it expects in the output: no check of the validator
  hides behind another one. For the two versions that break the JSON schema the messages are those that Ajv documents (\<open>schema_laws\<close>);
  the other 13 are rejected by the checks of the validator.
\<close>

theorem fail_closed_proof_passes:
  assumes "schema_laws schema_errors" and "distinct (map fst (po_sections policy))"
    and "policy_errors schema_errors js_number texts False policy = []"
  shows "prove_policy_fail_closed (\<lambda>probe. validator_output (validate_policy schema_errors js_number texts False probe policy)) = Inr 15"
proof -
  let ?run = "\<lambda>probe. validator_output (validate_policy schema_errors js_number texts False probe policy)"
  have acc: "accepted_policy schema_errors js_number texts policy" using assms by (simp add: accepted_policy_def)
  note probes = document_probes_rejected [OF acc] entry_probes_rejected [OF acc] value_probes_rejected [OF acc]
    duplicate_probe_rejected [OF acc] push_probes_rejected [OF acc] limit_probes_rejected [OF acc]
  have all: "\<forall>(probe, expected) \<in> set expected_failures. rejected schema_errors js_number texts policy probe expected"
    unfolding expected_failures_def by (simp only: list.set ball_simps prod.case probes simp_thms)
  have "prove_fail_closed ?run expected_failures = Inr ()"
    by (rule prove_fail_closed_passes) (use all in \<open>auto simp: rejected_def\<close>)
  moreover have "?run None = None" using assms(3) by (simp add: validate_policy_def validator_output_def)
  ultimately show ?thesis by (simp add: prove_policy_fail_closed_def expected_failures_def)
qed

end
