(* ===== verification/Alpha_Policy_Limits.thy ===== *)
theory Alpha_Policy_Limits
  imports Alpha_Policy_Properties Qualification Attachment_Validation
begin

text \<open>
  The limits that the service enforces (\<open>QUALIFICATION_POLICY\<close> of the goal qualification and the constants of the attachment policy)
  beside the values of the alpha operating policy.
\<close>

definition enforced_limits :: "(string \<times> json) list" where
  "enforced_limits =
     [(''alpha.v1.goal.categories.allowed'', strings (qp_allowedCategories QUALIFICATION_POLICY)),
      (''alpha.v1.goal.primary_personas.max'', JNum (qp_maxPersonas QUALIFICATION_POLICY)),
      (''alpha.v1.goal.primary_flows.max'', JNum (qp_maxFlows QUALIFICATION_POLICY)),
      (''alpha.v1.goal.routes.max'', JNum (qp_maxScreens QUALIFICATION_POLICY)),
      (''alpha.v1.goal.output.platform'', JStr (qp_platform QUALIFICATION_POLICY)),
      (''alpha.v1.goal.template.key'', JStr (qp_template QUALIFICATION_POLICY)),
      (''alpha.v1.goal.runtime.client_only'', JBool (qp_clientOnly QUALIFICATION_POLICY)),
      (''alpha.v1.goal.capabilities.denied'', strings (qp_deniedCapabilities QUALIFICATION_POLICY)),
      (''alpha.v1.goal.clarification_questions.max'', JNum (int (qp_maxClarificationQuestions QUALIFICATION_POLICY))),
      (''alpha.v1.attachment.media_types.allowed'', strings ATTACHMENT_ALLOWED_MEDIA_TYPES),
      (''alpha.v1.attachment.count.max'', JNum (int (ap_maxCount ATTACHMENT_POLICY))),
      (''alpha.v1.attachment.bytes.per_file_max'', JObj (map (\<lambda>(t, n). (t, JNum (int n))) ATTACHMENT_PER_FILE_MAX_BYTES)),
      (''alpha.v1.attachment.bytes.aggregate_max'', JNum (int (ap_aggregateMaxBytes ATTACHMENT_POLICY))),
      (''alpha.v1.attachment.pdf.pages.max'', JNum (int (ap_pdfPagesMax ATTACHMENT_POLICY))),
      (''alpha.v1.attachment.image.pixels.max'', JNum (int (ap_imagePixelsMax ATTACHMENT_POLICY)))]"

lemma enforced_limits_registered: "set enforced_limits \<subseteq> set expectedValues"
proof -
  have parts: "enforced_limits = take 7 expectedValues @ take 7 (drop 8 expectedValues) @ [expectedValues ! 15]"
    by (simp add: enforced_limits_def expectedValues_def QUALIFICATION_POLICY_def ATTACHMENT_POLICY_def
        ATTACHMENT_ALLOWED_MEDIA_TYPES_def ATTACHMENT_PER_FILE_MAX_BYTES_def)
  have "expectedValues ! 15 \<in> set expectedValues" by (rule nth_mem) (simp add: expectedValues_def)
  then show ?thesis unfolding parts set_append by (auto dest: in_set_takeD in_set_dropD)
qed

lemma registered_data_mode: "map_of expectedValues ''alpha.v1.goal.data.mode'' = Some (JStr ''mock_local_only'')"
  by code_simp

text \<open>
  C36. The service enforces the accepted policy. In every policy that the validator accepts, the values for the goal boundary
  (categories, personas, flows, screens, platform, template, client only, denied capabilities, questions) and for attachments (types,
  count, bytes of a file and of all, pages, pixels) are those of the constants that the qualification and the attachment service
  compare with. Only the data mode goes by another name in the code.
\<close>

theorem enforced_limits_are_policy:
  assumes "policy_errors schema_errors js_number texts requireAccepted policy = []"
  shows "(\<forall>(key, limit) \<in> set enforced_limits. map_option canonical (policy_value policy key) = Some (canonical limit)) \<and>
    map_option canonical (policy_value policy ''alpha.v1.goal.data.mode'') \<noteq> Some (canonical (JStr (qp_dataMode QUALIFICATION_POLICY)))"
proof -
  from assms have "has_values policy"
    using value_errors_Nil [of policy] by (fastforce simp: policy_errors_def has_values_def)
  then have registered: "map_option canonical (policy_value policy key) = Some (canonical limit)" if "(key, limit) \<in> set expectedValues" for key limit
    using that by (fastforce simp: has_values_def policy_value_def)
  have "canonical (JStr ''mock_local_only'') \<noteq> canonical (JStr (qp_dataMode QUALIFICATION_POLICY))"
    unfolding QUALIFICATION_POLICY_def by code_simp
  with registered [OF map_of_SomeD [OF registered_data_mode]] enforced_limits_registered registered show ?thesis by fastforce
qed

end
