(* ===== verification/Alpha_Policy_Document.thy ===== *)
theory Alpha_Policy_Document
  imports Alpha_Policy
begin

text \<open>
  The alpha operating policy of the repository, \<open>docs/policies/alpha-operating-policy-v1.json\<close>. The properties that only the schema
  reads (authority, owners, stop policy, versions, units, rationales, messages) are left out.
\<close>

definition alpha_entry :: "string \<Rightarrow> string \<Rightarrow> json \<Rightarrow> string list \<Rightarrow> string \<Rightarrow> policy_entry" where
  "alpha_entry entryId key v roles reason = \<lparr>pe_id = entryId, pe_configuration_key = key, pe_value = v, pe_owner_roles = Some roles,
     pe_reason_code = reason, pe_review_by = ''2026-11-20''\<rparr>"

definition qualification_entries :: "policy_entry list" where
  "qualification_entries = [
    alpha_entry ''A8V-QUAL-CATEGORIES'' ''alpha.v1.goal.categories.allowed''
      (strings [
        ''crud_workspace'', ''dashboard_reporting'', ''intake_onboarding'', ''catalog_directory'',
        ''planning_scheduling'', ''content_library'']) [''Product'', ''Design''] ''GOAL_CATEGORY_UNSUPPORTED'',
    alpha_entry ''A8V-QUAL-PERSONAS'' ''alpha.v1.goal.primary_personas.max''
      (JNum 1) [''Product''] ''GOAL_TOO_MANY_PERSONAS'',
    alpha_entry ''A8V-QUAL-FLOWS'' ''alpha.v1.goal.primary_flows.max''
      (JNum 1) [''Product'', ''Design''] ''GOAL_TOO_MANY_FLOWS'',
    alpha_entry ''A8V-QUAL-ROUTES'' ''alpha.v1.goal.routes.max''
      (JNum 5) [''Product'', ''Design'', ''Engineering''] ''GOAL_TOO_MANY_SCREENS'',
    alpha_entry ''A8V-QUAL-PLATFORM'' ''alpha.v1.goal.output.platform''
      (JStr ''responsive_browser'') [''Product'', ''Design''] ''GOAL_PLATFORM_UNSUPPORTED'',
    alpha_entry ''A8V-QUAL-TEMPLATE'' ''alpha.v1.goal.template.key''
      (JStr ''react_typescript_template_v1'') [''Design'', ''Engineering'', ''Security''] ''GOAL_TEMPLATE_UNAVAILABLE'',
    alpha_entry ''A8V-QUAL-CLIENT-ONLY'' ''alpha.v1.goal.runtime.client_only''
      (JBool True) [''Product'', ''Engineering'', ''Security''] ''GOAL_REQUIRES_BACKEND'',
    alpha_entry ''A8V-QUAL-MOCK-DATA'' ''alpha.v1.goal.data.mode''
      (JStr ''mock_local_only'') [''Product'', ''Security''] ''GOAL_REQUIRES_REAL_DATA'',
    alpha_entry ''A8V-QUAL-DENIED'' ''alpha.v1.goal.capabilities.denied''
      (strings [
        ''production_deployment'', ''generated_backend'', ''production_database'', ''real_authentication'',
        ''real_payment'', ''email_delivery'', ''third_party_business_api'', ''sensitive_data'', ''native_mobile'',
        ''native_desktop'', ''browser_extension'', ''multi_user_collaboration'', ''multiple_primary_flows'',
        ''multiple_concurrent_initiatives'', ''custom_employees'', ''arbitrary_shell'', ''unrestricted_network'',
        ''external_business_action'']) [''Product'', ''Security''] ''GOAL_CAPABILITY_UNSUPPORTED'',
    alpha_entry ''A8V-QUAL-QUESTIONS'' ''alpha.v1.goal.clarification_questions.max''
      (JNum 5) [''Product''] ''GOAL_NEEDS_CLARIFICATION'']"

definition attachments_entries :: "policy_entry list" where
  "attachments_entries = [
    alpha_entry ''A8V-ATTACH-TYPES'' ''alpha.v1.attachment.media_types.allowed''
      (strings [
        ''text/plain'', ''text/markdown'', ''application/pdf'', ''image/png'', ''image/jpeg'', ''image/webp'']) [''Product'', ''Security''] ''ATTACHMENT_TYPE_UNSUPPORTED'',
    alpha_entry ''A8V-ATTACH-COUNT'' ''alpha.v1.attachment.count.max''
      (JNum 5) [''Product'', ''Security''] ''ATTACHMENT_COUNT_EXCEEDED'',
    alpha_entry ''A8V-ATTACH-PER-FILE'' ''alpha.v1.attachment.bytes.per_file_max''
      (JObj [
        (''text/plain'', JNum 262144), (''text/markdown'', JNum 262144), (''application/pdf'', JNum 10485760),
        (''image/png'', JNum 5242880), (''image/jpeg'', JNum 5242880), (''image/webp'', JNum 5242880)]) [''Security'', ''Engineering''] ''ATTACHMENT_TOO_LARGE'',
    alpha_entry ''A8V-ATTACH-AGGREGATE'' ''alpha.v1.attachment.bytes.aggregate_max''
      (JNum 20971520) [''Security'', ''Engineering''] ''ATTACHMENT_TOTAL_EXCEEDED'',
    alpha_entry ''A8V-ATTACH-PDF-PAGES'' ''alpha.v1.attachment.pdf.pages.max''
      (JNum 50) [''Product'', ''Security''] ''ATTACHMENT_PDF_TOO_LONG'',
    alpha_entry ''A8V-ATTACH-IMAGE-PIXELS'' ''alpha.v1.attachment.image.pixels.max''
      (JNum 20000000) [''Design'', ''Security''] ''ATTACHMENT_IMAGE_TOO_LARGE'',
    alpha_entry ''A8V-ATTACH-VALIDATION'' ''alpha.v1.attachment.validation.required''
      (strings [
        ''declared_type_allowlisted'', ''detected_type_allowlisted'', ''declared_matches_detected'', ''byte_limit'',
        ''sha256_verified'', ''malware_scan_clean'', ''active_content_absent'', ''parser_limits_enforced'',
        ''tenant_scope_verified'']) [''Security'', ''QA''] ''ATTACHMENT_VALIDATION_FAILED'',
    alpha_entry ''A8V-ATTACH-DENIED'' ''alpha.v1.attachment.classes.denied''
      (strings [
        ''archive'', ''svg'', ''html'', ''office_document'', ''executable'', ''script'', ''encrypted_pdf'',
        ''password_protected'', ''polyglot'', ''embedded_file'', ''active_content'', ''unknown_type'']) [''Product'', ''Security''] ''ATTACHMENT_UNSAFE'']"

definition qa_entries :: "policy_entry list" where
  "qa_entries = [
    alpha_entry ''A8V-QA-BLOCKING'' ''alpha.v1.qa.checks.blocking''
      (strings [
        ''approved_criterion_fail_or_blocked'', ''missing_or_dangling_criterion_evidence'', ''format_failure'',
        ''lint_failure'', ''typecheck_failure'', ''unit_or_route_test_failure'', ''production_build_failure'',
        ''scope_or_screen_mapping_violation'', ''secret_or_sensitive_content_detected'',
        ''tenant_policy_sandbox_or_egress_violation'', ''broken_primary_flow_or_navigation'',
        ''critical_or_serious_accessibility_violation'', ''required_check_not_executed'']) [''Product'', ''QA'', ''Security''] ''QA_BLOCKING_CHECK_FAILED'',
    alpha_entry ''A8V-QA-ADVISORY'' ''alpha.v1.qa.checks.advisory''
      (strings [
        ''minor_or_moderate_accessibility_finding'', ''non_blocking_visual_polish'', ''copy_consistency'',
        ''performance_budget_warning'', ''maintainability_observation'']) [''Product'', ''Design'', ''QA''] ''QA_ADVISORY_FINDING'',
    alpha_entry ''A8V-QA-REGRESSION'' ''alpha.v1.qa.regression.required''
      (strings [
        ''format'', ''lint'', ''typecheck'', ''unit_and_route_tests'', ''production_build'',
        ''all_previously_passed_blocking_checks'', ''affected_criteria_screens_and_states'',
        ''primary_flow_navigation'', ''responsive_viewports'', ''critical_and_serious_accessibility'',
        ''secret_scope_egress_and_prototype_labeling'']) [''Design'', ''QA'', ''Security''] ''QA_REGRESSION_REQUIRED'',
    alpha_entry ''A8V-QA-VIEWPORTS'' ''alpha.v1.qa.viewport_widths.required''
      (JArr [JNum 360, JNum 1440]) [''Design'', ''QA''] ''QA_VIEWPORT_CHECK_FAILED'',
    alpha_entry ''A8V-QA-A11Y-SEVERITY'' ''alpha.v1.qa.accessibility.blocking_severities''
      (strings [
        ''critical'', ''serious'']) [''Design'', ''QA''] ''QA_ACCESSIBILITY_BLOCKED'']"

definition budgets_entries :: "policy_entry list" where
  "budgets_entries = [
    alpha_entry ''A8V-MODEL-INPUT-CALL'' ''alpha.v1.model.input_tokens.per_invocation_max''
      (JNum 32768) [''Product'', ''Engineering''] ''MODEL_BUDGET_EXHAUSTED'',
    alpha_entry ''A8V-MODEL-OUTPUT-CALL'' ''alpha.v1.model.output_tokens.per_invocation_max''
      (JNum 8192) [''Product'', ''Engineering''] ''MODEL_BUDGET_EXHAUSTED'',
    alpha_entry ''A8V-MODEL-INPUT-RUN'' ''alpha.v1.model.input_tokens.per_run_max''
      (JNum 300000) [''Product'', ''Engineering''] ''RUN_BUDGET_EXHAUSTED'',
    alpha_entry ''A8V-MODEL-OUTPUT-RUN'' ''alpha.v1.model.output_tokens.per_run_max''
      (JNum 60000) [''Product'', ''Engineering''] ''RUN_BUDGET_EXHAUSTED'',
    alpha_entry ''A8V-MODEL-COST-CALL'' ''alpha.v1.model.cost_micros_usd.per_invocation_max''
      (JNum 2500000) [''Product'', ''Engineering''] ''MODEL_BUDGET_EXHAUSTED'',
    alpha_entry ''A8V-MODEL-COST-RUN'' ''alpha.v1.model.cost_micros_usd.per_run_max''
      (JNum 15000000) [''Product'', ''Engineering'', ''Delivery''] ''RUN_BUDGET_EXHAUSTED'',
    alpha_entry ''A8V-MODEL-TIMEOUT'' ''alpha.v1.model.wall_seconds.per_invocation_max''
      (JNum 120) [''Engineering'', ''QA''] ''MODEL_BUDGET_EXHAUSTED'',
    alpha_entry ''A8V-MODEL-INVOCATIONS'' ''alpha.v1.model.invocations.per_run_max''
      (JNum 24) [''Product'', ''Engineering''] ''RUN_BUDGET_EXHAUSTED'',
    alpha_entry ''A8V-PROVIDER-EXTERNAL'' ''alpha.v1.model.external_provider.enabled''
      (JBool False) [''Product'', ''Security''] ''PROVIDER_DISABLED'',
    alpha_entry ''A8V-RUN-ACTIVE-WALL'' ''alpha.v1.run.active_wall_seconds.max''
      (JNum 5400) [''Product'', ''Engineering'', ''Delivery''] ''RUN_TIME_EXHAUSTED'',
    alpha_entry ''A8V-SANDBOX-COMMAND-WALL'' ''alpha.v1.sandbox.command_wall_seconds.max''
      (JNum 300) [''Engineering'', ''Security''] ''SANDBOX_LIMIT_EXCEEDED'',
    alpha_entry ''A8V-SANDBOX-RUN-WALL'' ''alpha.v1.sandbox.wall_seconds.per_run_max''
      (JNum 1800) [''Engineering'', ''Security''] ''SANDBOX_LIMIT_EXCEEDED'',
    alpha_entry ''A8V-SANDBOX-CPU-CORES'' ''alpha.v1.sandbox.cpu_cores.max''
      (JNum 2) [''Engineering'', ''Security''] ''SANDBOX_LIMIT_EXCEEDED'',
    alpha_entry ''A8V-SANDBOX-CPU-SECONDS'' ''alpha.v1.sandbox.cpu_seconds.per_run_max''
      (JNum 2400) [''Engineering'', ''Security''] ''SANDBOX_LIMIT_EXCEEDED'',
    alpha_entry ''A8V-SANDBOX-MEMORY'' ''alpha.v1.sandbox.memory_bytes.max''
      (JNum 2147483648) [''Engineering'', ''Security''] ''SANDBOX_LIMIT_EXCEEDED'',
    alpha_entry ''A8V-SANDBOX-PIDS'' ''alpha.v1.sandbox.processes.max''
      (JNum 128) [''Engineering'', ''Security''] ''SANDBOX_LIMIT_EXCEEDED'',
    alpha_entry ''A8V-SANDBOX-WRITABLE'' ''alpha.v1.sandbox.writable_bytes.max''
      (JNum 536870912) [''Engineering'', ''Security''] ''SANDBOX_LIMIT_EXCEEDED'',
    alpha_entry ''A8V-SANDBOX-FILES'' ''alpha.v1.sandbox.files.max''
      (JNum 5000) [''Engineering'', ''Security''] ''SANDBOX_LIMIT_EXCEEDED'',
    alpha_entry ''A8V-SOURCE-FILE'' ''alpha.v1.source.file_bytes.max''
      (JNum 1048576) [''Engineering'', ''Security''] ''SANDBOX_LIMIT_EXCEEDED'',
    alpha_entry ''A8V-SOURCE-SNAPSHOT'' ''alpha.v1.source.snapshot_bytes.max''
      (JNum 26214400) [''Engineering'', ''Security''] ''SANDBOX_LIMIT_EXCEEDED'',
    alpha_entry ''A8V-BUILD-OUTPUT'' ''alpha.v1.build.output_bytes.max''
      (JNum 104857600) [''Engineering'', ''Security''] ''SANDBOX_LIMIT_EXCEEDED'',
    alpha_entry ''A8V-COMMAND-OUTPUT'' ''alpha.v1.command.output_bytes.max''
      (JNum 1048576) [''Engineering'', ''Security''] ''SANDBOX_LIMIT_EXCEEDED'',
    alpha_entry ''A8V-LOGS-RUN'' ''alpha.v1.logs.retained_bytes.per_run_max''
      (JNum 10485760) [''Engineering'', ''Security'', ''QA''] ''RUN_BUDGET_EXHAUSTED'',
    alpha_entry ''A8V-STORAGE-RUN'' ''alpha.v1.storage.bytes.per_run_max''
      (JNum 268435456) [''Product'', ''Engineering'', ''Security''] ''RUN_BUDGET_EXHAUSTED'',
    alpha_entry ''A8V-RUNTIME-RETRY'' ''alpha.v1.retry.transient_per_attempt.max''
      (JNum 1) [''Engineering'', ''QA''] ''RETRY_LIMIT_EXHAUSTED'',
    alpha_entry ''A8V-SCHEMA-REPAIR'' ''alpha.v1.repair.schema_per_invocation.max''
      (JNum 1) [''Engineering'', ''QA''] ''RETRY_LIMIT_EXHAUSTED'',
    alpha_entry ''A8V-TASK-ATTEMPTS'' ''alpha.v1.task.attempts.max''
      (JNum 3) [''Engineering'', ''QA''] ''RETRY_LIMIT_EXHAUSTED'',
    alpha_entry ''A8V-SDK-RETRIES'' ''alpha.v1.provider.sdk_retries.max''
      (JNum 0) [''Engineering'', ''Security''] ''RETRY_LIMIT_EXHAUSTED'',
    alpha_entry ''A8V-COMMAND-RETRIES'' ''alpha.v1.command.retries.max''
      (JNum 0) [''Engineering'', ''Security''] ''RETRY_LIMIT_EXHAUSTED'',
    alpha_entry ''A8V-UNKNOWN-REPLAY'' ''alpha.v1.unknown_outcome.auto_replays.max''
      (JNum 0) [''Engineering'', ''Security''] ''RETRY_LIMIT_EXHAUSTED'',
    alpha_entry ''A8V-QA-REWORK'' ''alpha.v1.qa.automatic_rework_cycles.max''
      (JNum 2) [''Product'', ''QA'', ''Delivery''] ''REWORK_LIMIT_EXHAUSTED'']"

definition capacity_entries :: "policy_entry list" where
  "capacity_entries = [
    alpha_entry ''A8V-CAPACITY-FOUNDERS'' ''alpha.v1.capacity.alpha_founders.max''
      (JNum 5) [''Product'', ''Delivery''] ''ALPHA_COHORT_FULL'',
    alpha_entry ''A8V-CAPACITY-COMPANY-RUNS'' ''alpha.v1.capacity.active_runs_per_company.max''
      (JNum 1) [''Product'', ''Engineering''] ''CAPACITY_UNAVAILABLE'',
    alpha_entry ''A8V-CAPACITY-RUNS'' ''alpha.v1.capacity.active_runs_global.max''
      (JNum 2) [''Engineering'', ''Delivery''] ''CAPACITY_UNAVAILABLE'',
    alpha_entry ''A8V-CAPACITY-BUILDS'' ''alpha.v1.capacity.active_builds_global.max''
      (JNum 1) [''Engineering'', ''Security''] ''CAPACITY_UNAVAILABLE'',
    alpha_entry ''A8V-CAPACITY-MODELS'' ''alpha.v1.capacity.active_model_invocations_global.max''
      (JNum 2) [''Engineering'', ''Delivery''] ''CAPACITY_UNAVAILABLE'',
    alpha_entry ''A8V-CAPACITY-FACTOR'' ''alpha.v1.capacity.test_safety_factor''
      (JNum 2) [''Engineering'', ''QA'', ''Delivery''] ''CAPACITY_UNAVAILABLE'',
    alpha_entry ''A8V-CAPACITY-TEST-RUNS'' ''alpha.v1.capacity.test_active_runs.target''
      (JNum 4) [''Engineering'', ''QA'', ''Delivery''] ''CAPACITY_UNAVAILABLE'',
    alpha_entry ''A8V-CAPACITY-TEST-BUILDS'' ''alpha.v1.capacity.test_active_builds.target''
      (JNum 2) [''Engineering'', ''QA'', ''Security''] ''CAPACITY_UNAVAILABLE'',
    alpha_entry ''A8V-CAPACITY-TEST-MODELS'' ''alpha.v1.capacity.test_model_invocations.target''
      (JNum 4) [''Engineering'', ''QA'', ''Delivery''] ''CAPACITY_UNAVAILABLE'']"

definition alphaOperatingPolicy :: policy_document where
  "alphaOperatingPolicy =
     \<lparr>po_status = ''ACCEPTED'', po_review_by = ''2026-11-20'',
      po_sections = [(''qualification'', qualification_entries),
        (''attachments'', attachments_entries),
        (''qa'', qa_entries),
        (''budgets'', budgets_entries),
        (''capacity'', capacity_entries)],
      po_reason_codes = [
        ''GOAL_CATEGORY_UNSUPPORTED'', ''GOAL_TOO_MANY_PERSONAS'', ''GOAL_TOO_MANY_FLOWS'', ''GOAL_TOO_MANY_SCREENS'',
        ''GOAL_PLATFORM_UNSUPPORTED'', ''GOAL_TEMPLATE_UNAVAILABLE'', ''GOAL_REQUIRES_BACKEND'',
        ''GOAL_REQUIRES_REAL_DATA'', ''GOAL_CAPABILITY_UNSUPPORTED'', ''GOAL_NEEDS_CLARIFICATION'',
        ''ATTACHMENT_TYPE_UNSUPPORTED'', ''ATTACHMENT_COUNT_EXCEEDED'', ''ATTACHMENT_TOO_LARGE'',
        ''ATTACHMENT_TOTAL_EXCEEDED'', ''ATTACHMENT_PDF_TOO_LONG'', ''ATTACHMENT_IMAGE_TOO_LARGE'',
        ''ATTACHMENT_VALIDATION_FAILED'', ''ATTACHMENT_UNSAFE'', ''QA_BLOCKING_CHECK_FAILED'',
        ''QA_ADVISORY_FINDING'', ''QA_REGRESSION_REQUIRED'', ''QA_VIEWPORT_CHECK_FAILED'',
        ''QA_ACCESSIBILITY_BLOCKED'', ''MODEL_BUDGET_EXHAUSTED'', ''RUN_BUDGET_EXHAUSTED'', ''RUN_TIME_EXHAUSTED'',
        ''SANDBOX_LIMIT_EXCEEDED'', ''RETRY_LIMIT_EXHAUSTED'', ''REWORK_LIMIT_EXHAUSTED'', ''CAPACITY_UNAVAILABLE'',
        ''ALPHA_COHORT_FULL'', ''PROVIDER_DISABLED''],
      po_downstream_owners = [
        ''AICO-017'', ''AICO-019'', ''AICO-033'', ''AICO-047'', ''AICO-051'', ''AICO-060'', ''AICO-064'',
        ''AICO-072'', ''AICO-080'', ''AICO-082'', ''AICO-086'', ''AICO-091''],
      po_acceptance = \<lparr>pa_decision = ''ACCEPTED'', pa_candidate_sha = Some ''e6d064f89b332145fde888a254197a740041684d'',
        pa_hosted_run_url = Some ''https://github.com/duckvhuynh/aico-backend/actions/runs/31893135845/job/95032289440'',
        pa_accepted_by = Some ''duckvhuynh'', pa_accepted_at = Some ''2026-08-15'',
        pa_evidence_url = Some ''https://github.com/duckvhuynh/aico-backend/pull/30#issuecomment-5303040180''\<rparr>,
      po_other = []\<rparr>"

end
