(* ===== verification/Alpha_Policy_Witnesses.thy ===== *)
theory Alpha_Policy_Witnesses
  imports Alpha_Policy_Probes Alpha_Policy_Limits Alpha_Policy_Document
begin

text \<open>
  The alpha operating policy of the repository is accepted, and the limits that the service enforces are those of an accepted policy.
\<close>

section \<open>The policy of the repository\<close>

lemmas alpha_entries_defs = qualification_entries_def attachments_entries_def qa_entries_def budgets_entries_def capacity_entries_def alpha_entry_def

lemma alpha_sections [simp]:
  "section_entries alphaOperatingPolicy ''qualification'' = qualification_entries"
  "section_entries alphaOperatingPolicy ''attachments'' = attachments_entries"
  "section_entries alphaOperatingPolicy ''qa'' = qa_entries"
  "section_entries alphaOperatingPolicy ''budgets'' = budgets_entries"
  "section_entries alphaOperatingPolicy ''capacity'' = capacity_entries"
  by (simp_all add: section_entries_def alphaOperatingPolicy_def)

lemma alpha_allEntries: "allEntries alphaOperatingPolicy = document_entries alphaOperatingPolicy"
  unfolding allEntries_sections alpha_sections by (simp add: document_entries_def alphaOperatingPolicy_def)

lemma alpha_values: "map (\<lambda>e. (pe_configuration_key e, pe_value e)) (allEntries alphaOperatingPolicy) = expectedValues"
  unfolding allEntries_sections alpha_sections by (simp add: alpha_entries_defs expectedValues_def)

lemma alpha_section_keys:
  "\<forall>(name, keys) \<in> set expectedKeys. mset (map pe_configuration_key (section_entries alphaOperatingPolicy name)) = mset keys"
  unfolding expectedKeys_def list.set ball_simps prod.case alpha_sections by (simp add: alpha_entries_defs)

lemma alpha_owners: "\<forall>e \<in> set (allEntries alphaOperatingPolicy). pe_owner_roles e \<notin> {None, Some []} \<and> pe_review_by e = po_review_by alphaOperatingPolicy"
proof -
  have "list_all (\<lambda>e. pe_owner_roles e \<notin> {None, Some []} \<and> pe_review_by e = ''2026-11-20'') (allEntries alphaOperatingPolicy)"
    unfolding allEntries_sections alpha_sections by (simp add: alpha_entries_defs)
  moreover have "po_review_by alphaOperatingPolicy = ''2026-11-20''" by (simp add: alphaOperatingPolicy_def)
  ultimately show ?thesis by (simp only: list_all_iff)
qed

lemma alpha_ids: "map pe_id (allEntries alphaOperatingPolicy) = map ((@) ''A8V-'') [
     ''QUAL-CATEGORIES'', ''QUAL-PERSONAS'', ''QUAL-FLOWS'', ''QUAL-ROUTES'', ''QUAL-PLATFORM'', ''QUAL-TEMPLATE'',
     ''QUAL-CLIENT-ONLY'', ''QUAL-MOCK-DATA'', ''QUAL-DENIED'', ''QUAL-QUESTIONS'', ''ATTACH-TYPES'',
     ''ATTACH-COUNT'', ''ATTACH-PER-FILE'', ''ATTACH-AGGREGATE'', ''ATTACH-PDF-PAGES'', ''ATTACH-IMAGE-PIXELS'',
     ''ATTACH-VALIDATION'', ''ATTACH-DENIED'', ''QA-BLOCKING'', ''QA-ADVISORY'', ''QA-REGRESSION'', ''QA-VIEWPORTS'',
     ''QA-A11Y-SEVERITY'', ''MODEL-INPUT-CALL'', ''MODEL-OUTPUT-CALL'', ''MODEL-INPUT-RUN'', ''MODEL-OUTPUT-RUN'',
     ''MODEL-COST-CALL'', ''MODEL-COST-RUN'', ''MODEL-TIMEOUT'', ''MODEL-INVOCATIONS'', ''PROVIDER-EXTERNAL'',
     ''RUN-ACTIVE-WALL'', ''SANDBOX-COMMAND-WALL'', ''SANDBOX-RUN-WALL'', ''SANDBOX-CPU-CORES'',
     ''SANDBOX-CPU-SECONDS'', ''SANDBOX-MEMORY'', ''SANDBOX-PIDS'', ''SANDBOX-WRITABLE'', ''SANDBOX-FILES'',
     ''SOURCE-FILE'', ''SOURCE-SNAPSHOT'', ''BUILD-OUTPUT'', ''COMMAND-OUTPUT'', ''LOGS-RUN'', ''STORAGE-RUN'',
     ''RUNTIME-RETRY'', ''SCHEMA-REPAIR'', ''TASK-ATTEMPTS'', ''SDK-RETRIES'', ''COMMAND-RETRIES'',
     ''UNKNOWN-REPLAY'', ''QA-REWORK'', ''CAPACITY-FOUNDERS'', ''CAPACITY-COMPANY-RUNS'', ''CAPACITY-RUNS'',
     ''CAPACITY-BUILDS'', ''CAPACITY-MODELS'', ''CAPACITY-FACTOR'', ''CAPACITY-TEST-RUNS'', ''CAPACITY-TEST-BUILDS'',
     ''CAPACITY-TEST-MODELS'']"
  unfolding allEntries_sections alpha_sections by (simp add: alpha_entries_defs)

lemma alpha_ids_distinct: "distinct (map pe_id (allEntries alphaOperatingPolicy))"
  unfolding alpha_ids distinct_map by (rule conjI, code_simp) (simp add: inj_on_def)

lemma alpha_reason_codes: "set (map pe_reason_code (allEntries alphaOperatingPolicy)) = set expectedReasonCodes"
  by code_simp

lemma alpha_lists: "po_reason_codes alphaOperatingPolicy = expectedReasonCodes" "po_downstream_owners alphaOperatingPolicy = expectedDownstream"
  "acceptance_errors False alphaOperatingPolicy = []" "distinct (map fst (po_sections alphaOperatingPolicy))"
  "set (map fst (po_sections alphaOperatingPolicy)) = set (map fst expectedKeys)" "po_other alphaOperatingPolicy = []"
  by (simp_all add: alphaOperatingPolicy_def expectedReasonCodes_def expectedDownstream_def expectedKeys_def acceptance_errors_def acceptance_fields_def report_def)

lemma find_by_pair:
  assumes "(k, v) \<in> set (map (\<lambda>e. (f e, g e)) es)" and "distinct (map f es)"
  shows "\<exists>e. find (\<lambda>e. f e = k) es = Some e \<and> e \<in> set es \<and> g e = v"
  using assms by (induction es) auto

lemma alpha_value_errors: "value_errors alphaOperatingPolicy = []"
  unfolding value_errors_Nil
proof safe
  fix key expected assume reg: "(key, expected) \<in> set expectedValues"
  have "map pe_configuration_key (allEntries alphaOperatingPolicy) = map fst expectedValues"
    using arg_cong [OF alpha_values, of "map fst"] by (simp add: comp_def)
  then have "distinct (map pe_configuration_key (allEntries alphaOperatingPolicy))" using expected_distinct by simp
  then obtain e where e: "findEntry alphaOperatingPolicy key = Some e" "e \<in> set (allEntries alphaOperatingPolicy)" "pe_value e = expected"
    using find_by_pair [of key expected pe_configuration_key pe_value "allEntries alphaOperatingPolicy"] reg
    unfolding alpha_values findEntry_def alpha_allEntries [symmetric] by blast
  with alpha_owners show "\<exists>entry. findEntry alphaOperatingPolicy key = Some entry \<and> canonical (pe_value entry) = canonical expected \<and>
      pe_owner_roles entry \<notin> {None, Some []} \<and> pe_review_by entry = po_review_by alphaOperatingPolicy" by blast
qed

text \<open>Documents with the required sentences, one after the other.\<close>

definition sample_texts :: policy_texts where
  "sample_texts = \<lparr>pt_decision = concat decision_texts, pt_evidence = concat evidence_texts\<rparr>"

lemma js_lower_concat: "js_lower (concat xs) = concat (map js_lower xs)"
  unfolding js_lower_def [abs_def] by (rule map_concat)

lemma sublist_concat: "x \<in> set xs \<Longrightarrow> sublist x (concat xs)"
  by (metis append.assoc concat.simps(2) concat_append in_set_conv_decomp sublist_def)

lemma missing_texts_concat: "missing_texts path (concat xs) xs = []"
  by (auto simp: missing_texts_def js_includes_def js_lower_concat intro!: sublist_concat)

lemma alpha_policy_accepted:
  assumes "schema_errors alphaOperatingPolicy = []"
  shows "policy_errors schema_errors js_number sample_texts False alphaOperatingPolicy = []"
proof -
  have "reason_errors alphaOperatingPolicy = []"
    unfolding reason_errors_Nil alpha_lists alpha_reason_codes by simp
  moreover have "text_errors sample_texts = []" by (simp add: text_errors_def sample_texts_def missing_texts_concat)
  ultimately show ?thesis
    unfolding policy_errors_Nil using assms alpha_ids_distinct alpha_section_keys alpha_value_errors alpha_lists(3) by simp
qed

theorem policy_accepted_iff_witness:
  "policy_errors (\<lambda>_. []) (\<lambda>_. None) sample_texts False alphaOperatingPolicy = [] \<and>
   distinct (map pe_id (allEntries alphaOperatingPolicy)) \<and> mset (po_reason_codes alphaOperatingPolicy) = mset expectedReasonCodes"
proof -
  have accepted: "policy_errors (\<lambda>_. []) (\<lambda>_. None) sample_texts False alphaOperatingPolicy = []" by (rule alpha_policy_accepted) (rule refl)
  show ?thesis using accepted accepted [unfolded policy_accepted_iff] by blast
qed

theorem enforced_limits_are_policy_witness:
  "map_option canonical (policy_value alphaOperatingPolicy ''alpha.v1.goal.routes.max'') = Some ''5'' \<and>
   map_option canonical (policy_value alphaOperatingPolicy ''alpha.v1.goal.data.mode'') \<noteq> Some (canonical (JStr (qp_dataMode QUALIFICATION_POLICY)))"
proof -
  have accepted: "policy_errors (\<lambda>_. []) (\<lambda>_. None) sample_texts False alphaOperatingPolicy = []" by (rule alpha_policy_accepted) (rule refl)
  have "(''alpha.v1.goal.routes.max'', JNum 5) \<in> set enforced_limits" by (simp add: enforced_limits_def QUALIFICATION_POLICY_def)
  moreover have "canonical (JNum 5) = ''5''" by code_simp
  ultimately show ?thesis using enforced_limits_are_policy [OF accepted] by fastforce
qed

text \<open>A schema validator with the messages of Ajv.\<close>

definition sample_schema_errors :: "policy_document \<Rightarrow> string list" where
  "sample_schema_errors policy =
     report (''unreviewed_default'' \<in> fst ` set (po_other policy) \<or> \<not> set (map fst (po_sections policy)) \<subseteq> set (map fst expectedKeys))
       ''schema / must NOT have additional properties'' @
     report (\<exists>entry \<in> set (allEntries policy). pe_owner_roles entry = Some []) ''schema owner_roles must NOT have fewer than 1 items''"

lemma sample_schema_laws: "schema_laws sample_schema_errors"
proof -
  have "js_includes ''schema owner_roles must NOT have fewer than 1 items'' ''owner_roles must NOT have fewer than 1 items''"
    using includes_suffix [of "''schema ''" "''owner_roles must NOT have fewer than 1 items''"] by simp
  then show ?thesis by (auto simp: schema_laws_def sample_schema_errors_def)
qed

theorem fail_closed_proof_passes_witness:
  "prove_policy_fail_closed (\<lambda>probe. validator_output
     (validate_policy sample_schema_errors (\<lambda>_. None) sample_texts False probe alphaOperatingPolicy)) = Inr 15"
proof (rule fail_closed_proof_passes [OF sample_schema_laws alpha_lists(4)])
  have "sample_schema_errors alphaOperatingPolicy = []"
    using alpha_owners by (auto simp: sample_schema_errors_def alpha_lists simp del: set_map)
  then show "policy_errors sample_schema_errors (\<lambda>_. None) sample_texts False alphaOperatingPolicy = []"
    by (rule alpha_policy_accepted)
qed

end
