(* ===== verification/Ci_Gates.thy ===== *)
theory Ci_Gates
  imports Js_Regex Http_Common
begin

text \<open>
  The canonical verification of CI: \<open>scripts/verify-ci.mjs\<close> with \<open>verification-gates.mjs\<close> (the manifest and the commands of the gates),
  \<open>process-utils.mjs\<close> (the run of a command) and \<open>check-pr-governance.mjs\<close> (the check of a pull request body).

  The state is the list of the processes started so far. The operating system is the parameter \<open>machine\<close>: what spawning a process
  gives after those that ran before, and what a file holds.
\<close>

section \<open>Running a command\<close>

type_synonym env_map = "string \<Rightarrow> string option"

record process =
  pr_executable :: string
  pr_args :: "string list"
  pr_env :: env_map

record spawned =
  sp_error :: "exn option"
  sp_status :: "int option"

record machine =
  mc_env :: env_map
  mc_pid :: nat
  mc_win32 :: bool
  mc_file :: "string \<Rightarrow> exn + string"
  mc_spawn :: "process list \<Rightarrow> process \<Rightarrow> spawned"

type_synonym 'a script = "(exn, process list, 'a) tx"

definition windows_npm :: "machine \<Rightarrow> string \<Rightarrow> bool" where
  "windows_npm M command \<longleftrightarrow> mc_win32 M \<and> command = ''npm''"

definition process_of :: "machine \<Rightarrow> string \<Rightarrow> string list \<Rightarrow> env_map \<Rightarrow> process" where
  "process_of M command args env =
     \<lparr>pr_executable = (if windows_npm M command then (case mc_env M ''ComSpec'' of None \<Rightarrow> ''cmd.exe'' | Some s \<Rightarrow> s) else command),
      pr_args = (if windows_npm M command then [''/d'', ''/s'', ''/c'', ''npm''] @ args else args),
      pr_env = mc_env M ++ env\<rparr>"

definition run_command :: "machine \<Rightarrow> string \<Rightarrow> string list \<Rightarrow> env_map \<Rightarrow> bool \<Rightarrow> spawned script" where
  "run_command M command args env allowFailure started =
     (let p = process_of M command args env;
          result = mc_spawn M started p
      in (case sp_error result of
            Some e \<Rightarrow> Inl e
          | None \<Rightarrow>
              if sp_status result \<noteq> Some 0 \<and> \<not> allowFailure
              then Inl (JsError (command @ '' '' @ js_join '' '' args @ '' failed with exit code '' @
                show_int (case sp_status result of None \<Rightarrow> 1 | Some n \<Rightarrow> n)))
              else Inr result, started @ [p]))"

section \<open>The gates\<close>

definition verificationGates :: "string list" where
  "verificationGates =
     [''install'', ''governance'', ''architecture'', ''provider-decision-evidence'', ''fail-closed'', ''format'', ''lint'',
      ''typecheck'', ''unit-contract'', ''build'', ''audit'', ''compose-config'', ''images'', ''sandbox-proof'', ''preview-proof'',
      ''dependencies'', ''object-init'', ''migrations'', ''policy-approval-proof'', ''storage'', ''workflow-resilience'',
      ''http-smoke'']"

text \<open>\<open>^-?\s*\*\*Status:\*\* Accepted for <issue>\b\<close> under the flag \<open>m\<close>.\<close>

definition status_accepted :: "string \<Rightarrow> rx" where
  "status_accepted issue = seqs [Line_start, Opt (Exact ''-''), Opt (Many Space None), Exact (''**Status:** Accepted for '' @ issue), Bound]"

fun every_accepted :: "machine \<Rightarrow> (string \<times> string) list \<Rightarrow> exn + bool" where
  "every_accepted M [] = Inr True"
| "every_accepted M ((path, issue) # decisions) =
     (case mc_file M path of
        Inl e \<Rightarrow> Inl e
      | Inr text \<Rightarrow> if rx_test (status_accepted issue) text then every_accepted M decisions else Inr False)"

definition resolveArchitectureVerificationScript :: "machine \<Rightarrow> exn + string" where
  "resolveArchitectureVerificationScript M =
     (case every_accepted M [(''docs/architecture/010-preview-isolation-selection.md'', ''AICO-007''),
             (''docs/architecture/011-model-provider-employee-runtime-selection.md'', ''AICO-005'')] of
        Inl e \<Rightarrow> Inl e
      | Inr accepted \<Rightarrow> Inr (if accepted then ''verify:architecture:accepted'' else ''verify:architecture''))"

record setup_spec =
  sc_name :: string
  sc_command :: string
  sc_args :: "string list"
  sc_env :: env_map

record gate_spec = setup_spec +
  sc_before :: "setup_spec list"

definition gate_command :: "string \<Rightarrow> string \<Rightarrow> string list \<Rightarrow> gate_spec" where
  "gate_command name command args = \<lparr>sc_name = name, sc_command = command, sc_args = args, sc_env = Map.empty, sc_before = []\<rparr>"

text \<open>The context of the commands: values that should be nonempty strings.\<close>

record gate_context =
  vc_apiPort :: "json option"
  vc_architectureVerificationScript :: "json option"
  vc_minioPort :: "json option"
  vc_prBody :: "json option"
  vc_project :: "json option"

fun required_text :: "json option \<Rightarrow> string option" where
  "required_text (Some (JStr s)) = (if s = [] then None else Some s)"
| "required_text _ = None"

definition gate_commands :: "string \<Rightarrow> string \<Rightarrow> string \<Rightarrow> string \<Rightarrow> string \<Rightarrow> gate_spec list" where
  "gate_commands apiPort architectureVerificationScript minioPort prBody project =
     [gate_command ''install'' ''npm'' [''ci''],
      (gate_command ''governance'' ''node'' [''scripts/check-pr-governance.mjs''])\<lparr>sc_env := [''PR_BODY'' \<mapsto> prBody]\<rparr>,
      gate_command ''architecture'' ''npm'' [''run'', architectureVerificationScript],
      gate_command ''provider-decision-evidence'' ''npm'' [''run'', ''prove:provider-decision''],
      gate_command ''fail-closed'' ''npm'' [''run'', ''verify:fail-closed''],
      gate_command ''format'' ''npm'' [''run'', ''format:check''],
      gate_command ''lint'' ''npm'' [''run'', ''lint''],
      gate_command ''typecheck'' ''npm'' [''run'', ''typecheck''],
      gate_command ''unit-contract'' ''npm'' [''test''],
      gate_command ''build'' ''npm'' [''run'', ''build''],
      gate_command ''audit'' ''npm'' [''audit'', ''--audit-level=high''],
      gate_command ''compose-config'' ''docker'' [''compose'', ''-p'', project, ''config'', ''--quiet''],
      gate_command ''images'' ''docker'' [''compose'', ''-p'', project, ''build'', ''api'', ''worker'', ''migrate''],
      gate_command ''sandbox-proof'' ''npm'' [''run'', ''prove:sandbox''],
      gate_command ''preview-proof'' ''npm'' [''run'', ''prove:preview''],
      gate_command ''dependencies'' ''docker'' [''compose'', ''-p'', project, ''up'', ''-d'', ''--wait'', ''postgres'', ''minio''],
      gate_command ''object-init'' ''docker'' [''compose'', ''-p'', project, ''up'', ''--no-deps'', ''--abort-on-container-exit'',
        ''--exit-code-from'', ''minio-init'', ''minio-init''],
      gate_command ''migrations'' ''node'' [''scripts/migration-fixture.mjs''],
      gate_command ''policy-approval-proof'' ''node'' [''scripts/policy-approval-proof.mjs''],
      (gate_command ''storage'' ''node'' [''scripts/storage-fixture.mjs''])\<lparr>sc_env :=
        [''OBJECT_STORAGE_ENDPOINT'' \<mapsto> ''http://127.0.0.1:'' @ minioPort, ''OBJECT_STORAGE_BUCKET'' \<mapsto> ''aico-local'',
         ''OBJECT_STORAGE_ACCESS_KEY'' \<mapsto> ''aico'', ''OBJECT_STORAGE_SECRET_KEY'' \<mapsto> ''local-minio-secret'']\<rparr>,
      (gate_command ''workflow-resilience'' ''node'' [''scripts/workflow-resilience-fixture.mjs''])\<lparr>sc_env :=
        [''AICO_BASE_URL'' \<mapsto> ''http://127.0.0.1:'' @ apiPort @ ''/api/v1''],
        sc_before := [\<lparr>sc_name = ''workflow-resilience-start'', sc_command = ''docker'',
          sc_args = [''compose'', ''-p'', project, ''up'', ''-d'', ''--wait'', ''api''], sc_env = Map.empty\<rparr>]\<rparr>,
      (gate_command ''http-smoke'' ''npm'' [''run'', ''test:smoke''])\<lparr>sc_env :=
        [''AICO_BASE_URL'' \<mapsto> ''http://127.0.0.1:'' @ apiPort @ ''/api/v1''],
        sc_before := [\<lparr>sc_name = ''http-smoke-start'', sc_command = ''docker'',
          sc_args = [''compose'', ''-p'', project, ''up'', ''-d'', ''--wait'', ''api'', ''worker''], sc_env = Map.empty\<rparr>]\<rparr>]"

definition createVerificationGateCommands :: "gate_context \<Rightarrow> exn + gate_spec list" where
  "createVerificationGateCommands c =
     (if vc_architectureVerificationScript c \<notin> {Some (JStr ''verify:architecture''), Some (JStr ''verify:architecture:accepted'')}
      then Inl (JsError ''Unknown architecture verification wrapper.'')
      else case find (\<lambda>(name, v). required_text v = None)
          [(''apiPort'', vc_apiPort c), (''minioPort'', vc_minioPort c), (''prBody'', vc_prBody c), (''project'', vc_project c)] of
        Some (name, _) \<Rightarrow> Inl (JsError (''Verification command context '' @ name @ '' is required.''))
      | None \<Rightarrow>
          let text = \<lambda>v. the (required_text v);
              commands = gate_commands (text (vc_apiPort c)) (text (vc_architectureVerificationScript c)) (text (vc_minioPort c))
                (text (vc_prBody c)) (text (vc_project c))
          in if js_join [CHR 0x0A] (map sc_name commands) \<noteq> js_join [CHR 0x0A] verificationGates
             then Inl (JsError ''Verification command factory diverges from the logical gate manifest.'')
             else Inr commands)"

section \<open>The run of all gates\<close>

text \<open>\<open>try { m } finally { f }\<close>.\<close>

definition tx_finally :: "('e, 's, 'a) tx \<Rightarrow> ('e, 's, 'b) tx \<Rightarrow> ('e, 's, 'a) tx" where
  "tx_finally m f s = (case m s of (r, s1) \<Rightarrow> (case f s1 of (Inl e, s2) \<Rightarrow> (Inl e, s2) | (Inr _, s2) \<Rightarrow> (r, s2)))"

definition env_default :: "machine \<Rightarrow> string \<Rightarrow> string \<Rightarrow> string" where
  "env_default M name default_value = (case mc_env M name of None \<Rightarrow> default_value | Some v \<Rightarrow> v)"

definition ci_project :: "machine \<Rightarrow> string" where
  "ci_project M = ''aico-backend-verify-'' @ show_nat (mc_pid M)"

definition ci_environment :: "machine \<Rightarrow> env_map" where
  "ci_environment M =
     [''AICO_VERIFY_PROJECT'' \<mapsto> ci_project M,
      ''AICO_API_PORT'' \<mapsto> env_default M ''AICO_VERIFY_API_PORT'' ''13009'',
      ''AICO_POSTGRES_PORT'' \<mapsto> env_default M ''AICO_VERIFY_POSTGRES_PORT'' ''15439'',
      ''AICO_MINIO_PORT'' \<mapsto> env_default M ''AICO_VERIFY_MINIO_PORT'' ''19009'',
      ''AICO_MINIO_CONSOLE_PORT'' \<mapsto> env_default M ''AICO_VERIFY_MINIO_CONSOLE_PORT'' ''19019'']"

definition pr_body :: "machine \<Rightarrow> exn + string" where
  "pr_body M = (case map_option js_trim (mc_env M ''PR_BODY'') of
     Some (c # cs) \<Rightarrow> Inr (c # cs) | _ \<Rightarrow> mc_file M ''test/fixtures/valid-pr-body.md'')"

definition compose :: "machine \<Rightarrow> string list \<Rightarrow> unit script" where
  "compose M args = tx_then (run_command M ''docker'' ([''compose'', ''-p'', ci_project M] @ args) (ci_environment M) False) (tx_return ())"

definition gate :: "machine \<Rightarrow> string \<Rightarrow> string list \<Rightarrow> env_map \<Rightarrow> unit script" where
  "gate M command args env = tx_then (run_command M command args (ci_environment M ++ env) False) (tx_return ())"

definition run_gate :: "machine \<Rightarrow> gate_spec \<Rightarrow> unit script" where
  "run_gate M spec = tx_then (tx_seq (map (\<lambda>setup. gate M (sc_command setup) (sc_args setup) (sc_env setup)) (sc_before spec)))
     (gate M (sc_command spec) (sc_args spec) (sc_env spec))"

definition ci_gate_commands :: "machine \<Rightarrow> exn + gate_spec list" where
  "ci_gate_commands M =
     (case resolveArchitectureVerificationScript M of
        Inl e \<Rightarrow> Inl e
      | Inr wrapper \<Rightarrow>
          (case pr_body M of
             Inl e \<Rightarrow> Inl e
           | Inr prBody \<Rightarrow> createVerificationGateCommands
               \<lparr>vc_apiPort = Some (JStr (env_default M ''AICO_VERIFY_API_PORT'' ''13009'')),
                vc_architectureVerificationScript = Some (JStr wrapper),
                vc_minioPort = Some (JStr (env_default M ''AICO_VERIFY_MINIO_PORT'' ''19009'')),
                vc_prBody = Some (JStr prBody), vc_project = Some (JStr (ci_project M))\<rparr>))"

definition verify_ci :: "machine \<Rightarrow> unit script" where
  "verify_ci M = tx_bind (tx_lift (ci_gate_commands M)) (\<lambda>gateCommands.
     tx_finally
       (tx_catch (tx_seq (map (run_gate M) gateCommands))
         (\<lambda>e. tx_then (compose M [''logs'', ''--no-color'', ''--tail=200'', ''api'', ''worker'', ''migrate'', ''postgres'', ''minio''])
                (tx_throw e)))
       (compose M [''down'', ''--volumes'', ''--remove-orphans'']))"

section \<open>The check of a pull request body\<close>

definition parent_issue :: rx where
  "parent_issue = seqs [Bound, Lit ''duckvhuynh/aicompanyos#'', Group 1 (Seq (Class (Among ''123456789'')) (Opt (Many Digit None))), Bound]"

definition any_text :: rx where
  "any_text = Opt (Many (Except []) None)"

definition ticked :: rx where
  "ticked = seqs [Lit ''['', Lit ''x'', Lit '']'']"

definition governance_checks :: "(string \<times> rx) list" where
  "governance_checks =
     [(''a parent AI Company OS issue reference'', parent_issue),
      (''the Product and architecture references section'', seqs [Lit ''##'', Many Space None, Lit ''product and architecture references'',
         Bound, any_text, alts (Lit ''mvp_scope'')
           [Seq (Lit ''prd'') (Alt (Class Dash_space) (Lit '':'')), Seq (Lit ''srs'') (Alt (Class Dash_space) (Lit '':'')),
            seqs [Lit ''aico-'', Class Digit, Class Digit, Class Digit], Lit ''adr'', Lit ''architecture'', Lit ''contract'']]),
      (''the Acceptance evidence section'', seqs [Lit ''##'', Many Space None, Lit ''acceptance evidence'', Bound, any_text, ticked]),
      (''a completed MVP scope check'', seqs [Lit ''##'', Many Space None, Lit ''mvp scope check'', Bound, any_text, ticked,
         Many Space None, Lit ''this change is inside the cited parent issue''])]"

text \<open>The lines printed: errors with exit code 1, or the issues found (numbers here are exact).\<close>

definition check_pr_governance :: "machine \<Rightarrow> string list + string" where
  "check_pr_governance M =
     (let body = (case mc_env M ''PR_BODY'' of None \<Rightarrow> [] | Some b \<Rightarrow> b);
          missing = filter (\<lambda>(_, pattern). \<not> rx_test pattern body) governance_checks
      in if missing \<noteq> []
         then Inl (map (\<lambda>(name, _). ''::error title=Missing delivery traceability::Pull request body must include '' @ name @ ''.'') missing @
           [''Follow .github/pull_request_template.md and CONTRIBUTING.md.''])
         else Inr (''Delivery governance passed; parent issue references: '' @
           js_join '', '' (map show_nat (js_uniq (map (\<lambda>g. parse_nat (the (map_of g 1))) (matchAll parent_issue body)))) @ ''.''))"

text \<open>A body that passes names at least one parent issue.\<close>

lemma governance_names_issue:
  assumes "check_pr_governance M = Inr printed" and "mc_env M ''PR_BODY'' = Some body"
  shows "matchAll parent_issue body \<noteq> []"
proof -
  from assms have "rx_test parent_issue body"
    by (auto simp: check_pr_governance_def governance_checks_def Let_def split: if_splits)
  then obtain p where "rx_exec parent_issue [] body = Some p" by (auto simp: rx_test_def)
  then show ?thesis by (subst matchAll_def, subst rx_all.simps) (simp split: prod.splits)
qed

section \<open>Attempts\<close>

text \<open>The first process of a list that does not succeed, when they are run one after the other.\<close>

definition succeeds :: "machine \<Rightarrow> process list \<Rightarrow> process \<Rightarrow> bool" where
  "succeeds M started p \<longleftrightarrow> sp_error (mc_spawn M started p) = None \<and> sp_status (mc_spawn M started p) = Some 0"

fun first_failure :: "machine \<Rightarrow> process list \<Rightarrow> process list \<Rightarrow> nat option" where
  "first_failure M started [] = None"
| "first_failure M started (p # ps) = (if succeeds M started p then map_option Suc (first_failure M (started @ [p]) ps) else Some 0)"

lemma first_failure_append: "first_failure M started (ps @ qs) =
    (case first_failure M started ps of Some k \<Rightarrow> Some k | None \<Rightarrow> map_option (\<lambda>k. length ps + k) (first_failure M (started @ ps) qs))"
proof (induction ps arbitrary: started)
  case Nil
  then show ?case by (cases "first_failure M started qs") simp_all
next
  case (Cons p ps)
  then show ?case by (auto split: option.split simp: option.map_comp comp_def intro: option.map_cong [OF refl])
qed

lemma first_failure_less: "first_failure M started ps = Some k \<Longrightarrow> k < length ps"
  by (induction ps arbitrary: started k) (auto split: if_splits)

text \<open>\<open>attempts M m ps\<close>: the script \<open>m\<close> starts the processes \<open>ps\<close> up to the first that fails, and throws exactly if one does.\<close>

definition attempts :: "machine \<Rightarrow> unit script \<Rightarrow> process list \<Rightarrow> bool" where
  "attempts M m ps \<longleftrightarrow> (\<forall>started. case first_failure M started ps of
     None \<Rightarrow> m started = (Inr (), started @ ps)
   | Some k \<Rightarrow> \<exists>e. m started = (Inl e, started @ take (Suc k) ps))"

lemma attempts_run: "attempts M (tx_then (run_command M command args env False) (tx_return ())) [process_of M command args env]"
  unfolding attempts_def by (auto simp: run_command_def succeeds_def Let_def tx_defs split: option.splits)

lemma attempts_return: "attempts M (tx_return ()) []"
  by (simp add: attempts_def tx_return_def)

lemma attempts_then:
  assumes "attempts M m ps" and "attempts M k qs"
  shows "attempts M (tx_then m k) (ps @ qs)"
  unfolding attempts_def
proof
  fix started
  show "case first_failure M started (ps @ qs) of None \<Rightarrow> tx_then m k started = (Inr (), started @ ps @ qs)
    | Some j \<Rightarrow> \<exists>e. tx_then m k started = (Inl e, started @ take (Suc j) (ps @ qs))"
  proof (cases "first_failure M started ps")
    case None
    with assms(1) have m: "m started = (Inr (), started @ ps)" by (auto simp: attempts_def dest: spec [of _ started])
    have "case first_failure M (started @ ps) qs of None \<Rightarrow> k (started @ ps) = (Inr (), (started @ ps) @ qs)
      | Some j \<Rightarrow> \<exists>e. k (started @ ps) = (Inl e, (started @ ps) @ take (Suc j) qs)"
      using assms(2) unfolding attempts_def ..
    with None m show ?thesis by (auto simp: first_failure_append tx_then_def tx_bind_def split: option.splits)
  next
    case (Some j)
    from Some have le: "Suc j \<le> length ps" by (simp add: first_failure_less Suc_leI)
    have "case first_failure M started ps of None \<Rightarrow> m started = (Inr (), started @ ps)
      | Some j \<Rightarrow> \<exists>e. m started = (Inl e, started @ take (Suc j) ps)"
      using assms(1) unfolding attempts_def ..
    with Some obtain e where "m started = (Inl e, started @ take (Suc j) ps)" by auto
    with Some le show ?thesis by (simp add: first_failure_append tx_then_def tx_bind_def del: take_Suc)
  qed
qed

lemma attempts_seq: "(\<And>x. x \<in> set xs \<Longrightarrow> attempts M (f x) (g x)) \<Longrightarrow> attempts M (tx_seq (map f xs)) (concat (map g xs))"
  by (induction xs) (auto intro: attempts_return attempts_then)

section \<open>What CI runs\<close>

definition planned_process :: "machine \<Rightarrow> 'a setup_spec_scheme \<Rightarrow> process" where
  "planned_process M spec = process_of M (sc_command spec) (sc_args spec) (ci_environment M ++ sc_env spec)"

definition planned :: "machine \<Rightarrow> gate_spec list \<Rightarrow> process list" where
  "planned M specs = concat (map (\<lambda>spec. map (planned_process M) (sc_before spec) @ [planned_process M spec]) specs)"

definition compose_process :: "machine \<Rightarrow> string list \<Rightarrow> process" where
  "compose_process M args = process_of M ''docker'' ([''compose'', ''-p'', ci_project M] @ args) (ci_environment M)"

lemma attempts_gates: "attempts M (tx_seq (map (run_gate M) specs)) (planned M specs)"
  unfolding planned_def
proof (rule attempts_seq)
  fix spec :: gate_spec
  have "attempts M (tx_seq (map (\<lambda>setup. gate M (sc_command setup) (sc_args setup) (sc_env setup)) (sc_before spec)))
      (concat (map (\<lambda>setup. [planned_process M setup]) (sc_before spec)))"
    by (rule attempts_seq) (simp add: gate_def planned_process_def attempts_run)
  then have "attempts M (tx_seq (map (\<lambda>setup. gate M (sc_command setup) (sc_args setup) (sc_env setup)) (sc_before spec)))
      (map (planned_process M) (sc_before spec))" by simp
  then show "attempts M (run_gate M spec) (map (planned_process M) (sc_before spec) @ [planned_process M spec])"
    unfolding run_gate_def by (rule attempts_then) (simp add: gate_def planned_process_def attempts_run)
qed

lemma attempts_compose: "attempts M (compose M args) [compose_process M args]"
  unfolding compose_def compose_process_def by (rule attempts_run)

lemma compose_started: "snd (compose M args started) = started @ [compose_process M args]"
  "fst (compose M args started) = Inr () \<longleftrightarrow> succeeds M started (compose_process M args)"
  using attempts_compose [of M args] unfolding attempts_def by (auto split: if_splits dest: spec [of _ started])

lemma gate_names: "map sc_name (gate_commands apiPort script minioPort prBody project) = verificationGates"
  by (simp add: gate_commands_def gate_command_def verificationGates_def)

lemma created_names: "createVerificationGateCommands c = Inr specs \<Longrightarrow> map sc_name specs = verificationGates"
  by (auto simp: createVerificationGateCommands_def Let_def gate_names split: if_splits option.splits)

text \<open>
  C39. What a run of CI executes. The commands are those of the 22 gates of the manifest, each after its own preparation. If every
  command exits with 0, all of them have been run in this order, followed by the removal of the containers, and CI passes exactly if
  that succeeds as well. If a command fails, no later command is run: the logs are collected, the containers are removed all the same,
  and CI fails.
\<close>

theorem ci_verdict:
  assumes "ci_gate_commands M = Inr specs"
  shows "map sc_name specs = verificationGates \<and>
    (let down = compose_process M [''down'', ''--volumes'', ''--remove-orphans''];
         logs = compose_process M [''logs'', ''--no-color'', ''--tail=200'', ''api'', ''worker'', ''migrate'', ''postgres'', ''minio'']
     in case first_failure M started (planned M specs) of
          None \<Rightarrow> snd (verify_ci M started) = started @ planned M specs @ [down] \<and>
            (fst (verify_ci M started) = Inr () \<longleftrightarrow> succeeds M (started @ planned M specs) down)
        | Some k \<Rightarrow> snd (verify_ci M started) = started @ take (Suc k) (planned M specs) @ [logs, down] \<and>
            fst (verify_ci M started) \<noteq> Inr ())"
proof -
  let ?gates = "tx_seq (map (run_gate M) specs)"
  let ?down = "compose M [''down'', ''--volumes'', ''--remove-orphans'']"
  let ?logs = "compose M [''logs'', ''--no-color'', ''--tail=200'', ''api'', ''worker'', ''migrate'', ''postgres'', ''minio'']"
  have ran: "verify_ci M started = tx_finally (tx_catch ?gates (\<lambda>e. tx_then ?logs (tx_throw e))) ?down started"
    by (simp add: verify_ci_def assms tx_bind_def tx_lift_def)
  have gates: "case first_failure M started (planned M specs) of None \<Rightarrow> ?gates started = (Inr (), started @ planned M specs)
      | Some k \<Rightarrow> \<exists>e. ?gates started = (Inl e, started @ take (Suc k) (planned M specs))"
    using attempts_gates unfolding attempts_def ..
  have cleaned: "snd (tx_finally m ?down s) = snd (m s) @ [compose_process M [''down'', ''--volumes'', ''--remove-orphans'']]"
    "fst (tx_finally m ?down s) = Inr () \<longleftrightarrow> fst (m s) = Inr () \<and>
       succeeds M (snd (m s)) (compose_process M [''down'', ''--volumes'', ''--remove-orphans''])" for m :: "unit script" and s
    using compose_started [of M "[''down'', ''--volumes'', ''--remove-orphans'']" "snd (m s)"]
    by (auto simp: tx_finally_def split: prod.splits sum.splits)
  have caught: "snd ((tx_then ?logs (tx_throw e) :: unit script) s) = s @ [compose_process M
       [''logs'', ''--no-color'', ''--tail=200'', ''api'', ''worker'', ''migrate'', ''postgres'', ''minio'']]"
    "fst (tx_then ?logs (tx_throw e) s) \<noteq> Inr ()" for e :: exn and s
    using compose_started(1) [of M "[''logs'', ''--no-color'', ''--tail=200'', ''api'', ''worker'', ''migrate'', ''postgres'', ''minio'']" s]
    by (auto simp: tx_then_def tx_bind_def tx_throw_def split: prod.splits sum.splits)
  have "map sc_name specs = verificationGates"
    using assms by (auto simp: ci_gate_commands_def created_names split: sum.splits)
  then show ?thesis
    using gates caught unfolding ran cleaned Let_def
    by (cases "first_failure M started (planned M specs)") (auto simp: tx_catch_def)
qed

text \<open>A machine on which every command succeeds but the one with the argument \<open>lint\<close>.\<close>

definition lint_failing_machine :: machine where
  "lint_failing_machine = \<lparr>mc_env = Map.empty, mc_pid = 7, mc_win32 = False, mc_file = (\<lambda>_. Inr ''A body''),
     mc_spawn = (\<lambda>_ p. \<lparr>sp_error = None, sp_status = Some (if ''lint'' \<in> set (pr_args p) then 1 else 0)\<rparr>)\<rparr>"

lemma lint_failing_commands: "ci_gate_commands lint_failing_machine =
    Inr (gate_commands ''13009'' ''verify:architecture'' ''19009'' ''A body'' (ci_project lint_failing_machine))"
proof -
  have "\<not> rx_test (status_accepted ''AICO-007'') ''A body''" by code_simp
  then have "resolveArchitectureVerificationScript lint_failing_machine = Inr ''verify:architecture''"
    by (simp add: resolveArchitectureVerificationScript_def lint_failing_machine_def)
  then show ?thesis
    by (simp add: ci_gate_commands_def pr_body_def env_default_def createVerificationGateCommands_def gate_names ci_project_def
        lint_failing_machine_def)
qed

lemma lint_fails: "first_failure lint_failing_machine []
    (planned lint_failing_machine (gate_commands ''13009'' ''verify:architecture'' ''19009'' ''A body'' project)) = Some 6"
  by (simp add: gate_commands_def gate_command_def planned_def planned_process_def succeeds_def process_of_def windows_npm_def
      lint_failing_machine_def)

theorem ci_verdict_witness:
  "length (snd (verify_ci lint_failing_machine [])) = 9 \<and> fst (verify_ci lint_failing_machine []) \<noteq> Inr ()"
proof -
  let ?plan = "planned lint_failing_machine (gate_commands ''13009'' ''verify:architecture'' ''19009'' ''A body'' (ci_project lint_failing_machine))"
  have "6 < length ?plan" by (rule first_failure_less [OF lint_fails])
  with ci_verdict [OF lint_failing_commands, of "[]"] show ?thesis by (simp add: lint_fails Let_def)
qed

end
