(* ===== verification/Provider_Evidence.thy ===== *)
theory Provider_Evidence
  imports Js_Values Js_Regex
begin

text \<open>
  The checks of \<open>scripts/aico-005-provider-runtime-proof.mjs\<close> on the evidence that the provider proof and its mutation run print, and
  on the manifest it retains. The evidence is JSON, whose objects name each key once and whose numbers are integers here. The lists
  of scenarios and mutations that the proof registers are arguments.
\<close>

section \<open>Registries\<close>

definition EXPECTED_ACCEPTANCE_IDS :: nat where "EXPECTED_ACCEPTANCE_IDS = 13"
definition EXPECTED_FIXTURE_IDS :: nat where "EXPECTED_FIXTURE_IDS = 15"
definition EXPECTED_SCENARIOS :: nat where "EXPECTED_SCENARIOS = 64"
definition EXPECTED_MUTATIONS :: nat where "EXPECTED_MUTATIONS = 30"

definition EXPECTED_ACCEPTANCE_REGISTRY :: "string list" where
  "EXPECTED_ACCEPTANCE_REGISTRY =
     [''A5-T-SUCCESS-01'', ''A5-T-MALFORMED-01'', ''A5-T-REPAIR-01'', ''A5-T-TIMEOUT-01'', ''A5-T-RATE-01'', ''A5-T-CANCEL-01'',
      ''A5-T-SAFETY-01'', ''A5-T-SECRET-01'', ''A5-T-META-01'', ''A5-T-VERSION-01'', ''A5-T-REPLAY-01'', ''A5-T-MUTATION-01'',
      ''A5-T-VERIFY-01'']"

definition two_digits :: "nat \<Rightarrow> string" where
  "two_digits n = pad_left 2 (show_nat n)"

definition EXPECTED_FIXTURE_REGISTRY :: "string list" where
  "EXPECTED_FIXTURE_REGISTRY = map (\<lambda>index. ''A5-FX-'' @ two_digits (index + 1)) [0..<EXPECTED_FIXTURE_IDS]"

definition EXPECTED_MUTATION_REGISTRY :: "string list" where
  "EXPECTED_MUTATION_REGISTRY = map (\<lambda>index. ''A5-M-'' @ two_digits (index + 1)) [0..<EXPECTED_MUTATIONS]"

definition LEDGER_KEYS :: "string list" where
  "LEDGER_KEYS =
     [''artifactEffects'', ''candidateCommits'', ''costEffects'', ''externalProviderCalls'', ''providerCalls'', ''reconciliations'',
      ''repairInvocations'', ''reservations'', ''retrySchedules'', ''sdkRetries'', ''stateEffects'', ''taskEffects'', ''toolEffects'',
      ''workerSleeps'']"

definition SHA256_PATTERN :: "string \<Rightarrow> bool" where
  "SHA256_PATTERN s \<longleftrightarrow> take 7 s = ''sha256:'' \<and> length s = 71 \<and> list_all (\<lambda>c. c \<in> set ''0123456789abcdef'') (drop 7 s)"

definition requireClosedRegistry :: "string \<Rightarrow> json \<Rightarrow> nat \<Rightarrow> (string \<Rightarrow> bool) \<Rightarrow> exn + unit" where
  "requireClosedRegistry name values_list expectedLength pattern =
     (if (case values_list of
            JArr vs \<Rightarrow> length vs = expectedLength \<and> distinct vs \<and>
              list_all (\<lambda>v. case v of JStr s \<Rightarrow> pattern s | _ \<Rightarrow> False) vs
          | _ \<Rightarrow> False)
      then Inr ()
      else Inl (JsError (''AICO-005 '' @ name @ '' registry is not the exact closed '' @ show_nat expectedLength @ ''-item set.'')))"

text \<open>\<open>canonicalDigest\<close> of the proof: the digest of the canonical text.\<close>

definition proof_digest :: "env \<Rightarrow> json \<Rightarrow> string" where
  "proof_digest E v = ''sha256:'' @ sha256_hex E (utf8 (canonical v))"

section \<open>Evidence\<close>

text \<open>The texts of two lists of strings that the script compares are equal exactly if the lists are.\<close>

definition requireExactKeys :: "json \<Rightarrow> string list \<Rightarrow> exn + unit" where
  "requireExactKeys v expectedKeys =
     (case v of
        JObj es \<Rightarrow> if sort (map fst es) = sort expectedKeys then Inr ()
                   else Inl (JsError ''AICO-005 evidence object contains missing or unknown fields.'')
      | _ \<Rightarrow> Inl (JsError ''AICO-005 evidence object is missing or malformed.''))"

definition bounded_count :: "json option \<Rightarrow> bool" where
  "bounded_count v \<longleftrightarrow> (case v of Some (JNum n) \<Rightarrow> \<bar>n\<bar> \<le> 2 ^ 53 - 1 \<and> 0 \<le> n \<and> n \<le> 1000000 | _ \<Rightarrow> False)"

definition requireLedger :: "json \<Rightarrow> exn + unit" where
  "requireLedger v =
     (case requireExactKeys v LEDGER_KEYS of
        Inl e \<Rightarrow> Inl e
      | Inr _ \<Rightarrow>
          (case find (\<lambda>key. \<not> bounded_count (json_get key v)) LEDGER_KEYS of
             Some key \<Rightarrow> Inl (JsError (''AICO-005 side-effect ledger field '' @ key @ '' is unbounded or invalid.''))
           | None \<Rightarrow> Inr ()))"

record scenario =
  sr_id :: string
  sr_acceptanceId :: string
  sr_fixtureId :: string
  sr_expectedReasonClass :: string

record integration_expected =
  ie_acceptanceIds :: json
  ie_fixtureIds :: json
  ie_scenarioIds :: json
  ie_scenarioRegistry :: "scenario list"
  ie_scenarioRegistryDigest :: string
  ie_repositorySha :: string

definition is_text :: "string \<Rightarrow> json \<Rightarrow> string \<Rightarrow> bool" where
  "is_text key v s \<longleftrightarrow> json_get key v = Some (JStr s)"

definition is_number :: "string \<Rightarrow> json \<Rightarrow> nat \<Rightarrow> bool" where
  "is_number key v n \<longleftrightarrow> json_get key v = Some (JNum (int n))"

definition is_flag :: "string \<Rightarrow> json \<Rightarrow> bool \<Rightarrow> bool" where
  "is_flag key v b \<longleftrightarrow> json_get key v = Some (JBool b)"

definition same_text :: "string \<Rightarrow> json \<Rightarrow> json \<Rightarrow> bool" where
  "same_text key v expected \<longleftrightarrow> map_option canonical (json_get key v) = Some (canonical expected)"

text \<open>\<open>SHA256_PATTERN.test\<close> converts its argument to a string.\<close>

definition is_sha256 :: "string \<Rightarrow> json \<Rightarrow> bool" where
  "is_sha256 key v \<longleftrightarrow> (case json_get key v of None \<Rightarrow> False | Some w \<Rightarrow> SHA256_PATTERN (js_to_string w))"

text \<open>An element of an array, and the error of reading a property of one that is not there.\<close>

definition element :: "'a list \<Rightarrow> nat \<Rightarrow> 'a option" where
  "element xs index = (if index < length xs then Some (xs ! index) else None)"

definition undefined_read :: exn where
  "undefined_read = JsError ''Cannot read properties of undefined''"

definition check_scenario :: "env \<Rightarrow> nat \<Rightarrow> json \<Rightarrow> scenario option \<Rightarrow> exn + unit" where
  "check_scenario E index entry expected =
     (case requireExactKeys entry [''acceptanceId'', ''effectTotals'', ''evidenceDigest'', ''ledgerDigest'', ''reasonClass'',
             ''resultClass'', ''scenarioId''] of
        Inl e \<Rightarrow> Inl e
      | Inr _ \<Rightarrow>
          let effectTotals = the (json_get ''effectTotals'' entry)
          in case requireLedger effectTotals of
               Inl e \<Rightarrow> Inl e
             | Inr _ \<Rightarrow> case expected of None \<Rightarrow> Inl undefined_read | Some expectedScenario \<Rightarrow>
                 if \<not> is_text ''scenarioId'' entry (sr_id expectedScenario) \<or>
                    \<not> is_text ''acceptanceId'' entry (sr_acceptanceId expectedScenario) \<or>
                    \<not> is_text ''resultClass'' entry ''PASSED'' \<or>
                    \<not> is_text ''reasonClass'' entry (sr_expectedReasonClass expectedScenario) \<or>
                    \<not> is_sha256 ''ledgerDigest'' entry \<or> \<not> is_sha256 ''evidenceDigest'' entry \<or>
                    json_get ''ledgerDigest'' entry \<noteq> Some (JStr (proof_digest E effectTotals))
                 then Inl (JsError (''AICO-005 scenario evidence is invalid at closed index '' @ show_nat index @ ''.''))
                 else if json_get ''evidenceDigest'' entry \<noteq> Some (JStr (proof_digest E (JObj
                      [(''scenarioId'', the (json_get ''scenarioId'' entry)), (''reasonClass'', the (json_get ''reasonClass'' entry)),
                       (''effectTotals'', effectTotals)])))
                 then Inl (JsError (''AICO-005 scenario evidence digest is invalid at closed index '' @ show_nat index @ ''.''))
                 else Inr ())"

fun check_all :: "(nat \<Rightarrow> json \<Rightarrow> exn + unit) \<Rightarrow> nat \<Rightarrow> json list \<Rightarrow> exn + json list" where
  "check_all check index [] = Inr []"
| "check_all check index (entry # entries) =
     (case check index entry of
        Inl e \<Rightarrow> Inl e
      | Inr _ \<Rightarrow> (case check_all check (Suc index) entries of Inl e \<Rightarrow> Inl e | Inr checked \<Rightarrow> Inr (entry # checked)))"

definition requireIntegrationEvidence :: "env \<Rightarrow> json \<Rightarrow> integration_expected \<Rightarrow> exn + json list" where
  "requireIntegrationEvidence E v expected =
     (case requireExactKeys v [''acceptanceIds'', ''claimClass'', ''dirtyDevelopmentEvidence'', ''evidenceSchema'',
             ''externalProviderCalls'', ''fixtureIds'', ''paidExternalServices'', ''passedScenarios'', ''productionCredentials'',
             ''repositorySha'', ''runtimeClass'', ''scenarioEvidence'', ''scenarioRegistryDigest'', ''selectedScenarios''] of
        Inl e \<Rightarrow> Inl e
      | Inr _ \<Rightarrow>
          if \<not> is_text ''evidenceSchema'' v ''aico-005-provider-runtime-integration/v1'' \<or>
             \<not> is_text ''claimClass'' v ''ARCHITECTURE_TEST_ONLY'' \<or> \<not> is_text ''repositorySha'' v (ie_repositorySha expected) \<or>
             \<not> is_flag ''dirtyDevelopmentEvidence'' v False \<or> \<not> is_text ''runtimeClass'' v ''DETERMINISTIC_IN_MEMORY_PROVIDER_PROOF'' \<or>
             \<not> is_number ''passedScenarios'' v EXPECTED_SCENARIOS \<or>
             \<not> is_text ''scenarioRegistryDigest'' v (ie_scenarioRegistryDigest expected) \<or>
             \<not> is_number ''paidExternalServices'' v 0 \<or> \<not> is_number ''productionCredentials'' v 0 \<or>
             \<not> is_number ''externalProviderCalls'' v 0 \<or> \<not> same_text ''acceptanceIds'' v (ie_acceptanceIds expected) \<or>
             \<not> same_text ''fixtureIds'' v (ie_fixtureIds expected) \<or> \<not> same_text ''selectedScenarios'' v (ie_scenarioIds expected)
          then Inl (JsError ''AICO-005 integration evidence is incomplete or targets the wrong revision.'')
          else case json_get ''scenarioEvidence'' v of
              Some (JArr entries) \<Rightarrow>
                if length entries \<noteq> EXPECTED_SCENARIOS
                then Inl (JsError ''AICO-005 integration evidence does not contain all scenario evidence.'')
                else check_all (\<lambda>index entry. check_scenario E index entry (element (ie_scenarioRegistry expected) index)) 0 entries
            | _ \<Rightarrow> Inl (JsError ''AICO-005 integration evidence does not contain all scenario evidence.''))"

section \<open>Mutation evidence\<close>

text \<open>\<open>===\<close> on the values of two keys of parsed JSON: distinct objects and arrays are never the same.\<close>

definition strictly_equal :: "json option \<Rightarrow> json option \<Rightarrow> bool" where
  "strictly_equal a b \<longleftrightarrow> a = b \<and> (case a of Some (JArr _) \<Rightarrow> False | Some (JObj _) \<Rightarrow> False | _ \<Rightarrow> True)"

record mutation =
  mu_id :: string
  mu_control :: string
  mu_target :: string
  mu_intendedScenarios :: "string list"

definition check_kill :: "nat \<Rightarrow> json \<Rightarrow> mutation option \<Rightarrow> exn + unit" where
  "check_kill index kill registered =
     (case requireExactKeys kill [''control'', ''killedScenarios'', ''mutationId'', ''mutationPatchDigest'', ''restoredDigest'',
             ''resultClass'', ''sourceAfterDigest'', ''sourceBeforeDigest'', ''target''] of
        Inl e \<Rightarrow> Inl e
      | Inr _ \<Rightarrow> case registered of None \<Rightarrow> Inl undefined_read | Some expected \<Rightarrow>
          if \<not> is_text ''mutationId'' kill (mu_id expected) \<or> \<not> is_text ''control'' kill (mu_control expected) \<or>
             \<not> is_text ''target'' kill (mu_target expected) \<or>
             \<not> same_text ''killedScenarios'' kill (JArr (map JStr (mu_intendedScenarios expected))) \<or>
             \<not> is_text ''resultClass'' kill ''KILLED'' \<or> \<not> is_sha256 ''sourceBeforeDigest'' kill \<or>
             \<not> is_sha256 ''mutationPatchDigest'' kill \<or> \<not> is_sha256 ''sourceAfterDigest'' kill \<or>
             \<not> strictly_equal (json_get ''restoredDigest'' kill) (json_get ''sourceBeforeDigest'' kill) \<or>
             strictly_equal (json_get ''sourceAfterDigest'' kill) (json_get ''sourceBeforeDigest'' kill)
          then Inl (JsError (''AICO-005 source-mutation evidence is invalid at closed index '' @ show_nat index @ ''.''))
          else Inr ())"

definition requireMutationEvidence :: "json \<Rightarrow> mutation list \<Rightarrow> exn + json list" where
  "requireMutationEvidence v registry =
     (case requireExactKeys v [''baselinePassed'', ''baselineScenarios'', ''cleanupCompleted'', ''compilationFailureKills'',
             ''controlMutations'', ''evidenceSchema'', ''exactIntendedScenarioFailures'', ''exceptionInjectionMutations'', ''invalidKills'',
             ''isolatedCopy'', ''killedMutations'', ''killedScenarioAssertions'', ''kills'', ''restoredSources'', ''skippedMutations'',
             ''survivingMutations''] of
        Inl e \<Rightarrow> Inl e
      | Inr _ \<Rightarrow>
          (case json_get ''kills'' v of
             Some (JArr kills) \<Rightarrow>
               if \<not> is_text ''evidenceSchema'' v ''aico-005-provider-runtime-source-control-mutations/v1'' \<or>
                  \<not> is_number ''baselineScenarios'' v EXPECTED_SCENARIOS \<or> \<not> is_flag ''baselinePassed'' v True \<or>
                  \<not> is_number ''controlMutations'' v EXPECTED_MUTATIONS \<or> \<not> is_number ''killedMutations'' v EXPECTED_MUTATIONS \<or>
                  \<not> is_number ''killedScenarioAssertions'' v EXPECTED_MUTATIONS \<or> \<not> is_number ''survivingMutations'' v 0 \<or>
                  \<not> is_number ''skippedMutations'' v 0 \<or> \<not> is_number ''invalidKills'' v 0 \<or>
                  \<not> is_number ''exceptionInjectionMutations'' v 0 \<or> \<not> is_number ''compilationFailureKills'' v 0 \<or>
                  \<not> is_flag ''isolatedCopy'' v True \<or> \<not> is_flag ''exactIntendedScenarioFailures'' v True \<or>
                  \<not> is_flag ''restoredSources'' v True \<or> \<not> is_flag ''cleanupCompleted'' v True \<or>
                  length kills \<noteq> EXPECTED_MUTATIONS
               then Inl (JsError ''AICO-005 source-mutation evidence is incomplete or invalid.'')
               else check_all (\<lambda>index kill. check_kill index kill (element registry index)) 0 kills
           | _ \<Rightarrow> Inl (JsError ''AICO-005 source-mutation evidence is incomplete or invalid.'')))"

section \<open>Totals\<close>

definition ledger_count :: "string \<Rightarrow> json \<Rightarrow> int" where
  "ledger_count key ledger = (case json_get key ledger of Some (JNum n) \<Rightarrow> n | _ \<Rightarrow> 0)"

definition sumLedgers :: "json list \<Rightarrow> exn + json" where
  "sumLedgers ledgers =
     (let totals = JObj (map (\<lambda>key. (key, JNum (sum_list (map (ledger_count key) ledgers)))) LEDGER_KEYS)
      in case requireLedger totals of Inl e \<Rightarrow> Inl e | Inr _ \<Rightarrow> Inr totals)"

definition require_no_effects :: "json \<Rightarrow> exn + unit" where
  "require_no_effects effectTotals =
     (if \<not> is_number ''externalProviderCalls'' effectTotals 0 \<or> \<not> is_number ''sdkRetries'' effectTotals 0 \<or>
         \<not> is_number ''workerSleeps'' effectTotals 0
      then Inl (JsError ''AICO-005 proof recorded a prohibited external/retry/sleep effect.'')
      else Inr ())"

text \<open>The evidence of a run of the proof, up to the totals of its effects.\<close>

definition proof_totals :: "env \<Rightarrow> json \<Rightarrow> integration_expected \<Rightarrow> json \<Rightarrow> mutation list \<Rightarrow> exn + json list \<times> json list \<times> json" where
  "proof_totals E integrationEvidence expected mutationEvidence registry =
     (case requireIntegrationEvidence E integrationEvidence expected of
        Inl e \<Rightarrow> Inl e
      | Inr scenarioEvidence \<Rightarrow>
          (case requireMutationEvidence mutationEvidence registry of
             Inl e \<Rightarrow> Inl e
           | Inr mutationKills \<Rightarrow>
               (case sumLedgers (map (\<lambda>entry. the (json_get ''effectTotals'' entry)) scenarioEvidence) of
                  Inl e \<Rightarrow> Inl e
                | Inr effectTotals \<Rightarrow>
                    (case require_no_effects effectTotals of
                       Inl e \<Rightarrow> Inl e | Inr _ \<Rightarrow> Inr (scenarioEvidence, mutationKills, effectTotals)))))"

section \<open>The retained manifest\<close>

fun times_rx :: "nat \<Rightarrow> rx \<Rightarrow> rx" where
  "times_rx 0 r = Eps"
| "times_rx (Suc n) r = Seq r (times_rx n r)"

definition lower_letters :: string where "lower_letters = ''abcdefghijklmnopqrstuvwxyz''"
definition upper_letters :: string where "upper_letters = ''ABCDEFGHIJKLMNOPQRSTUVWXYZ''"
definition digit_letters :: string where "digit_letters = ''0123456789''"

definition prohibitedPatterns :: "rx list" where
  "prohibitedPatterns =
     [seqs [Exact ''-----BEGIN '', Opt (alts (Exact ''RSA '') [Exact ''EC '', Exact ''OPENSSH '']), Exact ''PRIVATE KEY-----''],
      seqs [Bound, Exact ''sk-'', times_rx 20 (Class (Of (lower_letters @ upper_letters @ digit_letters @ ''_-''))),
        Opt (Many (Of (lower_letters @ upper_letters @ digit_letters @ ''_-'')) None), Bound],
      seqs [Bound, Exact ''AKIA'', times_rx 16 (Class (Of (digit_letters @ upper_letters))), Bound],
      seqs [Bound, Lit ''bearer'', Many Space None, times_rx 12 (Class (Among (lower_letters @ digit_letters @ ''._~+/=-''))),
        Opt (Many (Among (lower_letters @ digit_letters @ ''._~+/=-'')) None), Bound]]"

definition oversized :: "string \<Rightarrow> string \<Rightarrow> exn + unit" where
  "oversized what path = Inl (JsError (''AICO-005 retained evidence contains an oversized '' @ what @ '' at '' @ path @ ''.''))"

fun assertBoundedStrings :: "json \<Rightarrow> string \<Rightarrow> exn + unit"
  and bounded_entries :: "json list \<Rightarrow> nat \<Rightarrow> string \<Rightarrow> exn + unit"
  and bounded_fields :: "(string \<times> json) list \<Rightarrow> string \<Rightarrow> exn + unit" where
  "assertBoundedStrings (JStr s) path = (if 512 < length (utf8 s) then oversized ''string'' path else Inr ())"
| "assertBoundedStrings (JArr vs) path = (if 128 < length vs then oversized ''array'' path else bounded_entries vs 0 path)"
| "assertBoundedStrings (JObj es) path = bounded_fields es path"
| "assertBoundedStrings _ path = Inr ()"
| "bounded_entries [] index path = Inr ()"
| "bounded_entries (v # vs) index path =
     (case assertBoundedStrings v (path @ ''/'' @ show_nat index) of Inl e \<Rightarrow> Inl e | Inr _ \<Rightarrow> bounded_entries vs (Suc index) path)"
| "bounded_fields [] path = Inr ()"
| "bounded_fields ((key, v) # es) path =
     (if 128 < length (utf8 key) then oversized ''key'' path
      else case assertBoundedStrings v (path @ ''/'' @ key) of Inl e \<Rightarrow> Inl e | Inr _ \<Rightarrow> bounded_fields es path)"

text \<open>The serialized manifest is the canonical text of the manifest with a line feed; parsing it gives the manifest back.\<close>

definition assertEvidenceSafe :: "json \<Rightarrow> exn + unit" where
  "assertEvidenceSafe manifest =
     (if list_ex (\<lambda>pattern. rx_test pattern (canonical manifest @ [CHR 0x0A])) prohibitedPatterns
      then Inl (JsError ''AICO-005 retained evidence contains prohibited secret material.'')
      else assertBoundedStrings manifest ''#'')"

definition MAX_MANIFEST_BYTES :: nat where "MAX_MANIFEST_BYTES = 65536"

definition retainable :: "json \<Rightarrow> exn + unit" where
  "retainable manifest =
     (case assertEvidenceSafe manifest of
        Inl e \<Rightarrow> Inl e
      | Inr _ \<Rightarrow> if MAX_MANIFEST_BYTES < length (utf8 (canonical manifest @ [CHR 0x0A]))
                 then Inl (JsError ''AICO-005 provider-runtime evidence exceeded the 65,536-byte bound.'') else Inr ())"

definition durationBucket :: "int \<Rightarrow> string" where
  "durationBucket milliseconds =
     (if milliseconds < 60000 then ''UNDER_1_MINUTE''
      else if milliseconds < 300000 then ''ONE_TO_FIVE_MINUTES''
      else if milliseconds < 900000 then ''FIVE_TO_FIFTEEN_MINUTES''
      else if milliseconds < 1800000 then ''FIFTEEN_TO_THIRTY_MINUTES''
      else ''THIRTY_MINUTES_OR_MORE'')"

section \<open>What accepted evidence shows\<close>

lemma check_all_Inr: "check_all check index entries = Inr checked \<Longrightarrow>
    checked = entries \<and> (\<forall>i < length entries. check (index + i) (entries ! i) = Inr ())"
proof (induction check index entries arbitrary: checked rule: check_all.induct)
  case (2 check index entry entries)
  from "2.prems" obtain rest where rest: "check index entry = Inr ()" "check_all check (Suc index) entries = Inr rest" "checked = entry # rest"
    by (auto split: sum.splits)
  from "2.IH" [OF rest(1,2)] rest show ?case by (auto simp: less_Suc_eq_0_disj nth_Cons')
qed simp

lemma check_all_list: "check_all check 0 entries = Inr checked \<Longrightarrow>
    checked = entries \<and> (\<forall>i < length entries. check i (entries ! i) = Inr ())"
  using check_all_Inr [of check 0 entries checked] by simp

lemma requireLedger_Inr: "requireLedger v = Inr () \<Longrightarrow> key \<in> set LEDGER_KEYS \<Longrightarrow>
    \<exists>n. json_get key v = Some (JNum n) \<and> 0 \<le> n \<and> n \<le> 1000000"
proof -
  assume "requireLedger v = Inr ()" "key \<in> set LEDGER_KEYS"
  then have "bounded_count (json_get key v)"
    by (auto simp: requireLedger_def find_None_iff split: sum.splits option.splits)
  then show ?thesis by (auto simp: bounded_count_def split: option.splits json.splits)
qed

lemma exact_keys_present: "requireExactKeys v keys = Inr () \<Longrightarrow> key \<in> set keys \<Longrightarrow> \<exists>w. json_get key v = Some w"
proof -
  assume "requireExactKeys v keys = Inr ()" "key \<in> set keys"
  then obtain es where es: "v = JObj es" "sort (map fst es) = sort keys"
    by (auto simp: requireExactKeys_def split: json.splits if_splits)
  then have "set (map fst es) = set keys" by (metis set_sort)
  with \<open>key \<in> set keys\<close> have "map_of es key \<noteq> None" by (simp add: map_of_eq_None_iff)
  then show ?thesis by (simp add: json_get_def es(1))
qed

lemma map_of_keys: "key \<in> set keys \<Longrightarrow> map_of (map (\<lambda>key. (key, f key)) keys) key = Some (f key)"
  by (induction keys) auto

lemma check_scenario_Inr:
  assumes "check_scenario E index entry expected = Inr ()"
  obtains expectedScenario effectTotals where "expected = Some expectedScenario"
    and "json_get ''scenarioId'' entry = Some (JStr (sr_id expectedScenario))"
    and "json_get ''resultClass'' entry = Some (JStr ''PASSED'')"
    and "json_get ''effectTotals'' entry = Some effectTotals" and "requireLedger effectTotals = Inr ()"
    and "json_get ''ledgerDigest'' entry = Some (JStr (proof_digest E effectTotals))"
proof -
  from assms have "requireExactKeys entry [''acceptanceId'', ''effectTotals'', ''evidenceDigest'', ''ledgerDigest'', ''reasonClass'',
      ''resultClass'', ''scenarioId''] = Inr ()" by (simp add: check_scenario_def split: sum.splits)
  from exact_keys_present [OF this, of "''effectTotals''"] obtain effectTotals where t: "json_get ''effectTotals'' entry = Some effectTotals" by auto
  from assms t have "requireLedger effectTotals = Inr ()"
    by (simp add: check_scenario_def split: sum.splits)
  with assms t that show thesis
    by (auto simp: check_scenario_def is_text_def split: sum.splits option.splits if_splits)
qed

lemma check_kill_Inr:
  assumes "check_kill index kill registered = Inr ()"
  obtains expected where "registered = Some expected" and "json_get ''mutationId'' kill = Some (JStr (mu_id expected))"
    and "json_get ''restoredDigest'' kill = json_get ''sourceBeforeDigest'' kill"
    and "json_get ''sourceAfterDigest'' kill \<noteq> json_get ''sourceBeforeDigest'' kill"
    and "json_get ''resultClass'' kill = Some (JStr ''KILLED'')"
    and "map_option canonical (json_get ''killedScenarios'' kill) = Some (canonical (JArr (map JStr (mu_intendedScenarios expected))))"
    and "json_get ''control'' kill = Some (JStr (mu_control expected))" and "json_get ''target'' kill = Some (JStr (mu_target expected))"
    and "is_sha256 ''sourceBeforeDigest'' kill" and "is_sha256 ''sourceAfterDigest'' kill"
  using assms by (auto simp: check_kill_def is_text_def same_text_def strictly_equal_def split: sum.splits option.splits if_splits)

lemma requireIntegrationEvidence_Inr:
  assumes "requireIntegrationEvidence E v expected = Inr entries"
  shows "length entries = EXPECTED_SCENARIOS \<and>
    (\<forall>i < EXPECTED_SCENARIOS. check_scenario E i (entries ! i) (element (ie_scenarioRegistry expected) i) = Inr ())"
  using assms by (auto simp: requireIntegrationEvidence_def dest!: check_all_list split: sum.splits option.splits json.splits if_splits)

lemma requireMutationEvidence_Inr:
  assumes "requireMutationEvidence v registry = Inr kills"
  shows "length kills = EXPECTED_MUTATIONS \<and> (\<forall>i < EXPECTED_MUTATIONS. check_kill i (kills ! i) (element registry i) = Inr ())"
  using assms by (auto simp: requireMutationEvidence_def dest!: check_all_list split: sum.splits option.splits json.splits if_splits)

lemma total_zero:
  assumes "sumLedgers ledgers = Inr totals" and "key \<in> set LEDGER_KEYS" and "is_number key totals 0"
    and "ledger \<in> set ledgers" and "\<forall>ledger \<in> set ledgers. requireLedger ledger = Inr ()"
  shows "json_get key ledger = Some (JNum 0)"
proof -
  have "totals = JObj (map (\<lambda>key. (key, JNum (sum_list (map (ledger_count key) ledgers)))) LEDGER_KEYS)"
    using assms(1) by (simp add: sumLedgers_def Let_def split: sum.splits)
  with assms(2,3) have "sum_list (map (ledger_count key) ledgers) = 0"
    by (simp add: is_number_def json_get_def map_of_keys)
  moreover have "\<forall>x \<in> set (map (ledger_count key) ledgers). 0 \<le> x"
    using assms(2,5) requireLedger_Inr by (force simp: ledger_count_def)
  ultimately have "ledger_count key ledger = 0"
    using assms(4) sum_list_nonneg_eq_0_iff [of "map (ledger_count key) ledgers"] by auto
  with requireLedger_Inr [of ledger key] assms(2,4,5) show ?thesis by (auto simp: ledger_count_def)
qed

text \<open>
  C40. What an accepted proof run shows. The evidence the script accepts has exactly the 64 registered scenarios, in their order and
  all passed, each with a ledger of side effects to which its digest is bound, and no scenario of them called an external provider,
  let the SDK retry or slept in a worker: the script tests only the totals, and these are zero only if every ledger is. It has the 30
  registered mutations, in their order and of the registered control and target: each is reported as killed, by exactly the scenarios that were
  to fail (compared as canonical text), it changed its source, and the source was restored.
\<close>

theorem accepted_proof_effect_free:
  assumes "proof_totals E integrationEvidence expected mutationEvidence registry = Inr (entries, kills, totals)"
  shows "length entries = 64 \<and> length kills = 30 \<and>
    (\<forall>i < 64. \<exists>scenario ledger. element (ie_scenarioRegistry expected) i = Some scenario \<and>
       json_get ''scenarioId'' (entries ! i) = Some (JStr (sr_id scenario)) \<and> json_get ''resultClass'' (entries ! i) = Some (JStr ''PASSED'') \<and>
       json_get ''effectTotals'' (entries ! i) = Some ledger \<and> json_get ''ledgerDigest'' (entries ! i) = Some (JStr (proof_digest E ledger)) \<and>
       json_get ''externalProviderCalls'' ledger = Some (JNum 0) \<and> json_get ''sdkRetries'' ledger = Some (JNum 0) \<and>
       json_get ''workerSleeps'' ledger = Some (JNum 0)) \<and>
    (\<forall>i < 30. \<exists>mutation. element registry i = Some mutation \<and> json_get ''mutationId'' (kills ! i) = Some (JStr (mu_id mutation)) \<and>
       json_get ''control'' (kills ! i) = Some (JStr (mu_control mutation)) \<and> json_get ''target'' (kills ! i) = Some (JStr (mu_target mutation)) \<and>
       json_get ''resultClass'' (kills ! i) = Some (JStr ''KILLED'') \<and>
       map_option canonical (json_get ''killedScenarios'' (kills ! i)) = Some (canonical (JArr (map JStr (mu_intendedScenarios mutation)))) \<and>
       is_sha256 ''sourceBeforeDigest'' (kills ! i) \<and> is_sha256 ''sourceAfterDigest'' (kills ! i) \<and>
       json_get ''restoredDigest'' (kills ! i) = json_get ''sourceBeforeDigest'' (kills ! i) \<and>
       json_get ''sourceAfterDigest'' (kills ! i) \<noteq> json_get ''sourceBeforeDigest'' (kills ! i))"
proof -
  from assms obtain no where runs: "requireIntegrationEvidence E integrationEvidence expected = Inr entries"
    "requireMutationEvidence mutationEvidence registry = Inr kills"
    "sumLedgers (map (\<lambda>entry. the (json_get ''effectTotals'' entry)) entries) = Inr totals" "require_no_effects totals = Inr no"
    by (auto simp: proof_totals_def split: sum.splits)
  note I = requireIntegrationEvidence_Inr [OF runs(1)] and K = requireMutationEvidence_Inr [OF runs(2)]
  have zero: "is_number ''externalProviderCalls'' totals 0" "is_number ''sdkRetries'' totals 0" "is_number ''workerSleeps'' totals 0"
    using runs(4) by (auto simp: require_no_effects_def split: if_splits)
  have ledgers: "\<forall>ledger \<in> set (map (\<lambda>entry. the (json_get ''effectTotals'' entry)) entries). requireLedger ledger = Inr ()"
    using I by (auto simp: in_set_conv_nth elim: check_scenario_Inr) (metis check_scenario_Inr option.sel)
  have scenario: "\<exists>scenario ledger. element (ie_scenarioRegistry expected) i = Some scenario \<and>
       json_get ''scenarioId'' (entries ! i) = Some (JStr (sr_id scenario)) \<and> json_get ''resultClass'' (entries ! i) = Some (JStr ''PASSED'') \<and>
       json_get ''effectTotals'' (entries ! i) = Some ledger \<and> json_get ''ledgerDigest'' (entries ! i) = Some (JStr (proof_digest E ledger)) \<and>
       json_get ''externalProviderCalls'' ledger = Some (JNum 0) \<and> json_get ''sdkRetries'' ledger = Some (JNum 0) \<and>
       json_get ''workerSleeps'' ledger = Some (JNum 0)" if i: "i < 64" for i
  proof -
    from I i have "check_scenario E i (entries ! i) (element (ie_scenarioRegistry expected) i) = Inr ()"
      by (simp add: EXPECTED_SCENARIOS_def)
    then obtain scenario ledger where s: "element (ie_scenarioRegistry expected) i = Some scenario"
      "json_get ''scenarioId'' (entries ! i) = Some (JStr (sr_id scenario))" "json_get ''resultClass'' (entries ! i) = Some (JStr ''PASSED'')"
      "json_get ''effectTotals'' (entries ! i) = Some ledger" "json_get ''ledgerDigest'' (entries ! i) = Some (JStr (proof_digest E ledger))"
      by (rule check_scenario_Inr)
    have "entries ! i \<in> set entries" using I i by (simp add: EXPECTED_SCENARIOS_def)
    then have "ledger \<in> set (map (\<lambda>entry. the (json_get ''effectTotals'' entry)) entries)"
      using s(4) by (force simp: image_iff)
    then have "key \<in> set LEDGER_KEYS \<Longrightarrow> is_number key totals 0 \<Longrightarrow> json_get key ledger = Some (JNum 0)" for key
      using total_zero [OF runs(3)] ledgers by blast
    with s zero show ?thesis by (simp add: LEDGER_KEYS_def)
  qed
  have kill: "\<exists>mutation. element registry i = Some mutation \<and> json_get ''mutationId'' (kills ! i) = Some (JStr (mu_id mutation)) \<and>
       json_get ''control'' (kills ! i) = Some (JStr (mu_control mutation)) \<and> json_get ''target'' (kills ! i) = Some (JStr (mu_target mutation)) \<and>
       json_get ''resultClass'' (kills ! i) = Some (JStr ''KILLED'') \<and>
       map_option canonical (json_get ''killedScenarios'' (kills ! i)) = Some (canonical (JArr (map JStr (mu_intendedScenarios mutation)))) \<and>
       is_sha256 ''sourceBeforeDigest'' (kills ! i) \<and> is_sha256 ''sourceAfterDigest'' (kills ! i) \<and>
       json_get ''restoredDigest'' (kills ! i) = json_get ''sourceBeforeDigest'' (kills ! i) \<and>
       json_get ''sourceAfterDigest'' (kills ! i) \<noteq> json_get ''sourceBeforeDigest'' (kills ! i)" if "i < 30" for i
  proof -
    from K that have "check_kill i (kills ! i) (element registry i) = Inr ()" by (simp add: EXPECTED_MUTATIONS_def)
    then show ?thesis by (rule check_kill_Inr) simp
  qed
  show ?thesis
    using I K scenario kill by (simp add: EXPECTED_SCENARIOS_def EXPECTED_MUTATIONS_def)
qed

end
