(* ===== verification/Provider_Witnesses.thy ===== *)
theory Provider_Witnesses
  imports Provider_Evidence Samples
begin

text \<open>A small record of evidence at which the theorem on accepted proof runs is applied.\<close>

definition sample_ledger :: json where
  "sample_ledger = JObj (map (\<lambda>key. (key, JNum 0)) LEDGER_KEYS)"

definition sample_scenario :: scenario where
  "sample_scenario = \<lparr>sr_id = ''A5-S-SUCCESS'', sr_acceptanceId = ''A5-T-SUCCESS-01'', sr_fixtureId = ''A5-FX-01'', sr_expectedReasonClass = ''NONE''\<rparr>"

definition sample_entry :: json where
  "sample_entry = JObj [(''acceptanceId'', JStr ''A5-T-SUCCESS-01''), (''effectTotals'', sample_ledger),
     (''evidenceDigest'', JStr (proof_digest sample_env (JObj [(''scenarioId'', JStr ''A5-S-SUCCESS''), (''reasonClass'', JStr ''NONE''),
        (''effectTotals'', sample_ledger)]))),
     (''ledgerDigest'', JStr (proof_digest sample_env sample_ledger)), (''reasonClass'', JStr ''NONE''),
     (''resultClass'', JStr ''PASSED''), (''scenarioId'', JStr ''A5-S-SUCCESS'')]"

definition sample_expected :: integration_expected where
  "sample_expected = \<lparr>ie_acceptanceIds = JArr [], ie_fixtureIds = JArr [], ie_scenarioIds = JArr [],
     ie_scenarioRegistry = replicate 64 sample_scenario, ie_scenarioRegistryDigest = ''d'', ie_repositorySha = ''s''\<rparr>"

definition sample_integration :: json where
  "sample_integration = JObj [(''acceptanceIds'', JArr []), (''claimClass'', JStr ''ARCHITECTURE_TEST_ONLY''),
     (''dirtyDevelopmentEvidence'', JBool False), (''evidenceSchema'', JStr ''aico-005-provider-runtime-integration/v1''),
     (''externalProviderCalls'', JNum 0), (''fixtureIds'', JArr []), (''paidExternalServices'', JNum 0), (''passedScenarios'', JNum 64),
     (''productionCredentials'', JNum 0), (''repositorySha'', JStr ''s''),
     (''runtimeClass'', JStr ''DETERMINISTIC_IN_MEMORY_PROVIDER_PROOF''), (''scenarioEvidence'', JArr (replicate 64 sample_entry)),
     (''scenarioRegistryDigest'', JStr ''d''), (''selectedScenarios'', JArr [])]"

definition sample_sha :: "char \<Rightarrow> json" where
  "sample_sha c = JStr (''sha256:'' @ replicate 64 c)"

definition sample_mutation :: mutation where
  "sample_mutation = \<lparr>mu_id = ''A5-M-01'', mu_control = ''c'', mu_target = ''t'', mu_intendedScenarios = [''A5-S-SUCCESS'']\<rparr>"

definition sample_kill :: json where
  "sample_kill = JObj [(''control'', JStr ''c''), (''killedScenarios'', JArr [JStr ''A5-S-SUCCESS'']), (''mutationId'', JStr ''A5-M-01''),
     (''mutationPatchDigest'', sample_sha (CHR ''1'')), (''restoredDigest'', sample_sha (CHR ''2'')), (''resultClass'', JStr ''KILLED''),
     (''sourceAfterDigest'', sample_sha (CHR ''3'')), (''sourceBeforeDigest'', sample_sha (CHR ''2'')), (''target'', JStr ''t'')]"

definition sample_mutations :: json where
  "sample_mutations = JObj [(''baselinePassed'', JBool True), (''baselineScenarios'', JNum 64), (''cleanupCompleted'', JBool True),
     (''compilationFailureKills'', JNum 0), (''controlMutations'', JNum 30),
     (''evidenceSchema'', JStr ''aico-005-provider-runtime-source-control-mutations/v1''), (''exactIntendedScenarioFailures'', JBool True),
     (''exceptionInjectionMutations'', JNum 0), (''invalidKills'', JNum 0), (''isolatedCopy'', JBool True), (''killedMutations'', JNum 30),
     (''killedScenarioAssertions'', JNum 30), (''kills'', JArr (replicate 30 sample_kill)), (''restoredSources'', JBool True),
     (''skippedMutations'', JNum 0), (''survivingMutations'', JNum 0)]"

lemma hex_digit_lower: "hex_digit (n mod 16) \<in> set ''0123456789abcdef''"
proof -
  have "list_all (\<lambda>k. hex_digit k \<in> set ''0123456789abcdef'') [0..<16]" by code_simp
  then show ?thesis by (simp only: list_all_iff set_upt atLeastLessThan_iff) simp
qed

lemma proof_digest_shape: "SHA256_PATTERN (proof_digest sample_env v)"
proof -
  have "c \<in> set ''0123456789abcdef''" if "c \<in> set (sample_hash bs)" for c bs
  proof -
    from that have "c \<in> (\<lambda>b. hex_digit (nat (uint b mod 16))) ` set bs \<or> c = CHR ''0''"
      unfolding sample_hash_def by (auto dest!: in_set_takeD split: if_splits)
    then show ?thesis using hex_digit_lower by (auto simp: nat_mod_distrib)
  qed
  then show ?thesis by (simp add: SHA256_PATTERN_def proof_digest_def sample_env_def list_all_iff)
qed

lemma sample_ledger_ok: "requireLedger sample_ledger = Inr ()"
  by code_simp

lemma check_all_replicate: "(\<And>i. i < n \<Longrightarrow> check (index + i) entry = Inr ()) \<Longrightarrow> check_all check index (replicate n entry) = Inr (replicate n entry)"
proof (induction n arbitrary: index)
  case (Suc n)
  have "check index entry = Inr ()" using Suc.prems [of 0] by simp
  moreover have "check_all check (Suc index) (replicate n entry) = Inr (replicate n entry)"
    using Suc.prems [of "Suc i" for i] by (intro Suc.IH) simp
  ultimately show ?case by simp
qed simp

lemma sample_entry_ok: "check_scenario sample_env i sample_entry (Some sample_scenario) = Inr ()"
  by (simp add: check_scenario_def sample_entry_def sample_scenario_def requireExactKeys_def json_get_def is_text_def is_sha256_def
      sample_ledger_ok proof_digest_shape)

lemma sample_kill_ok: "check_kill i sample_kill (Some sample_mutation) = Inr ()"
  by (simp add: check_kill_def sample_kill_def sample_mutation_def requireExactKeys_def json_get_def is_text_def is_sha256_def
      same_text_def strictly_equal_def sample_sha_def SHA256_PATTERN_def list_all_iff)

lemma sample_evidence_accepted:
  "requireIntegrationEvidence sample_env sample_integration sample_expected = Inr (replicate 64 sample_entry)"
  "requireMutationEvidence sample_mutations (replicate 30 sample_mutation) = Inr (replicate 30 sample_kill)"
proof -
  have "check_all (\<lambda>index entry. check_scenario sample_env index entry (element (replicate 64 sample_scenario) index)) 0 (replicate 64 sample_entry)
      = Inr (replicate 64 sample_entry)"
    by (rule check_all_replicate) (simp add: element_def sample_entry_ok)
  then show "requireIntegrationEvidence sample_env sample_integration sample_expected = Inr (replicate 64 sample_entry)"
    by (simp add: requireIntegrationEvidence_def sample_integration_def sample_expected_def requireExactKeys_def json_get_def
        is_text_def is_number_def is_flag_def same_text_def EXPECTED_SCENARIOS_def)
  have "check_all (\<lambda>index kill. check_kill index kill (element (replicate 30 sample_mutation) index)) 0 (replicate 30 sample_kill)
      = Inr (replicate 30 sample_kill)"
    by (rule check_all_replicate) (simp add: element_def sample_kill_ok)
  then show "requireMutationEvidence sample_mutations (replicate 30 sample_mutation) = Inr (replicate 30 sample_kill)"
    by (simp add: requireMutationEvidence_def sample_mutations_def requireExactKeys_def json_get_def
        is_text_def is_number_def is_flag_def EXPECTED_SCENARIOS_def EXPECTED_MUTATIONS_def)
qed

lemma sample_totals: "sumLedgers (map (\<lambda>entry. the (json_get ''effectTotals'' entry)) (replicate 64 sample_entry)) = Inr sample_ledger"
proof -
  have "json_get ''effectTotals'' sample_entry = Some sample_ledger" by (simp add: json_get_def sample_entry_def)
  moreover have "sum_list (map (ledger_count key) (replicate n sample_ledger)) = 0" for key n
  proof -
    have "ledger_count key sample_ledger = 0"
      by (auto simp: ledger_count_def sample_ledger_def json_get_def map_of_map_restrict restrict_map_def split: option.splits json.splits)
    then show ?thesis by (induction n) simp_all
  qed
  ultimately show ?thesis using sample_ledger_ok by (simp add: sumLedgers_def sample_ledger_def)
qed

theorem accepted_proof_effect_free_witness:
  "\<exists>entries kills totals. proof_totals sample_env sample_integration sample_expected sample_mutations (replicate 30 sample_mutation) =
     Inr (entries, kills, totals) \<and> length entries = 64 \<and> length kills = 30"
proof -
  have "is_number key sample_ledger 0" if "key \<in> set LEDGER_KEYS" for key
    using that by (simp add: is_number_def sample_ledger_def json_get_def map_of_keys)
  then have "require_no_effects sample_ledger = Inr ()" by (simp add: require_no_effects_def LEDGER_KEYS_def)
  then have run: "proof_totals sample_env sample_integration sample_expected sample_mutations (replicate 30 sample_mutation) =
      Inr (replicate 64 sample_entry, replicate 30 sample_kill, sample_ledger)"
    unfolding proof_totals_def sample_evidence_accepted sum.case sample_totals by simp
  from run accepted_proof_effect_free [OF run] show ?thesis by blast
qed

end
