(* ===== verification/Spec2Isabelle.thy ===== *)
theory Spec2Isabelle
  imports Durable_Wait_Witnesses Qualification_Witnesses Attachment_Witnesses Backend_Witnesses Alpha_Policy_Witnesses Ci_Gates
    Provider_Witnesses
begin

text \<open>
  Verification of the AICO backend, a NestJS service over PostgreSQL in which founders set up a company, submit goals
  for a prototype and follow the runs that a worker process carries out. Paths are relative to \<open>src/src\<close>.

  \<^bold>\<open>The program.\<close> Two processes share one database. The API (\<open>main.ts\<close>) authenticates a founder, checks headers and
  body, and runs a command of a service; every command is one serializable transaction with an idempotency record
  (\<open>modules/governance/command-executor.service.ts\<close>) and leaves its events in an append-only log mirrored by an outbox
  (\<open>domain-event.service.ts\<close>). The worker (\<open>worker.ts\<close>) leases queued tasks, invokes the model provider at most once per
  effect, publishes the result (\<open>modules/orchestration/orchestration-worker.service.ts\<close>) and delivers the outbox
  (\<open>outbox-publisher.service.ts\<close>). Uploaded files go to an object store and their records to the database.

  \<^bold>\<open>How it is modelled.\<close> A method is a state transformer \<open>'a call\<close> (theory \<open>Prelude\<close>): it takes the state \<open>sys\<close> (the
  tables, the object store and the supply of identifiers) and returns an error or a result with the state it leaves.
  A thrown error keeps the state reached; \<open>transaction\<close> restores the tables, and nothing else. A table is the list of
  its rows, a row a record with the columns of the migration (theory \<open>Schema\<close>), an INSERT tests the CHECK, UNIQUE and
  FOREIGN KEY constraints in the order of the server (theory \<open>Tables\<close>). The record \<open>env\<close> holds what a call gets from
  its process: the clock, the stock of identifiers and random bytes, SHA-256, the collation, the configuration.
  Concurrency is interleaving of whole transactions (the commands are serializable or lock the rows they read first),
  with a crash possible between any two; theories \<open>Worker_System\<close> and \<open>Outbox\<close> state it as step relations over any number
  of processes. Strings are lists of 8-bit characters; a length in the code counts UTF-16 units and here characters.

  \<^bold>\<open>Theories.\<close>
  \<^item> \<open>Prelude\<close>, \<open>Reachability\<close>: calls and their elimination rules, updates of rows, decimal numbers; the locale
    \<open>invariant_of\<close> for invariants of step relations.
  \<^item> \<open>Identifiers\<close>, \<open>Http_Common\<close> (\<open>common/\<close>): JSON and the canonical digest; domain errors, problem documents, headers,
    tenancy, object keys.
  \<^item> \<open>Schema\<close>, \<open>Tables\<close> (\<open>infrastructure/database/migrations\<close>): rows, constraints, \<open>query\<close>, \<open>execute\<close>, \<open>transaction\<close>, and the
    predicates \<open>db_keeps\<close> (kept by every outcome) and \<open>commits\<close> (true after a body that returned).
  \<^item> \<open>Governance\<close> (\<open>modules/governance\<close>): \<open>DomainEvent_append\<close> and \<open>CommandExecutor_run\<close>, the invariant of the log
    \<open>event_log_ok\<close> (each run numbered without gaps, the outbox its mirror), replay and key reuse; the locale \<open>command_body\<close>
    lifts what a body commits to the whole command.
  \<^item> \<open>Orchestration\<close>, \<open>Task_Lifecycle\<close>, \<open>Task_Properties\<close>, \<open>Worker_System\<close>: the worker's methods, what each leaves behind,
    and the system of workers: one invocation per effect, fencing of stale workers, one running attempt per task, final runs.
  \<^item> \<open>Outbox\<close>: the publishers; every event is projected once, and a due message is delivered. \<open>runLoop\<close> of the worker loop takes
    the list of its rounds, because it runs until the process is stopped.
  \<^item> \<open>Durable_Wait\<close> (\<open>modules/durability-spike\<close>): suspension on a human wait, answers, cancellation; a wait is answered once.
  \<^item> \<open>Js_Regex\<close>, \<open>Qualification\<close> (\<open>modules/initiatives\<close> policy): a backtracking matcher for the patterns in the code (its
    repetition consumes input or stops, so it is total), the qualification of goals and its equivalence with the declared boundary.
  \<^item> \<open>Encodings\<close>, \<open>Attachment_Validation\<close>, \<open>Objects\<close>, \<open>Attachments\<close>: UTF-8 and Base64, the checks on a file (the JPEG scan with at
    most one round more than bytes, shown to be enough), the object store port as a locale with the store in memory as its
    interpretation, access to objects as a refinement of a map, upload, binding and retrieval.
  \<^item> \<open>Initiatives\<close>, \<open>Companies\<close>, \<open>Runs\<close>, \<open>Auth\<close>, \<open>Configuration\<close> (the modules of these names, \<open>config/\<close>, \<open>modules/health\<close>): every
    operation, invariants of their tables, functional results, isolation of tenants, life of tokens, redaction.
  \<^item> \<open>Versioned\<close>: optimistic concurrency as a locale, interpreted for profiles and for the goals of an initiative: the commands that
    take effect name consecutive versions.
  \<^item> \<open>Controllers\<close>, \<open>Http_Properties\<close>: all handlers, and the path of a request (\<open>serve\<close>): what gets past the guard, what a failed
    request leaves, what an ETag means.
  \<^item> \<open>Service\<close>, \<open>Backend\<close>: what every request keeps of the tables, and the backend as one system of requests, workers and
    publishers on the same database: what the workers rely on is shown of every request and of every publisher, and the
    invariants of all components hold in every reachable state.
  \<^item> \<open>Delivery\<close>: from the request to the worker: while workers claim, work and crash and founders submit later goals, the task of a
    submitted goal is claimed after at most as many other claims as there were tasks before it, and the worker loads the submitted goal.
  \<^item> \<open>Alpha_Policy_Registry\<close>, \<open>Alpha_Policy\<close>, \<open>Alpha_Policy_Properties\<close>, \<open>Alpha_Policy_Probes\<close> (\<open>validate-aico-008-policy.mjs\<close> and
    \<open>prove-aico-008-policy-fail-closed.mjs\<close> of \<open>scripts/\<close>, beside \<open>src/src\<close>): the validator of the policy that fixes the limits of the
    alpha, which documents it accepts, and the proof script, which succeeds on all of these; \<open>Alpha_Policy_Document\<close> is the policy in
    the repository, \<open>Alpha_Policy_Limits\<close> compares its values with the constants of the service.
  \<^item> \<open>Js_Values\<close>, \<open>Ci_Gates\<close>, \<open>Provider_Evidence\<close> (\<open>scripts/\<close>): what a run of CI executes and when it passes; the checks on the
    evidence of the provider proof, and what evidence that passes them shows.
  \<^item> \<open>Samples\<close> and the theories named \<open>..._Witnesses\<close>: a concrete environment and database, at which the theorems are applied.

  \<^bold>\<open>Parameters.\<close> Code outside the repository is an argument: the JWT library (\<open>jwt\<close>, with \<open>jwt_laws\<close>), the Joi conversions
  (\<open>joi\<close>), the validators of addresses and UUIDs, the object store (\<open>object_store_port\<close>), SHA-256, the uuid package, ICU collation,
  the JSON Schema validator of the policy, and the processes that CI starts.
  Each theorem that assumes a law of one of them is applied to a concrete function in its witness.

  \<^bold>\<open>Not modelled.\<close> Wiring of the framework (\<open>*.module.ts\<close>, \<open>main.ts\<close>, \<open>worker.ts\<close>, data source, logging, helmet, body parsing, route
  matching); the texts of validation messages of the packages; the down migrations, query indexes and the tables that no service
  writes (approvals, objects, task edges, tool invocations); the pauses of the worker loop; deadlock and serialization failures of the
  server, which end a transaction like any other error; the command line of the wait fixture; and the other files of
  \<open>scripts/\<close>, which check documents and build evidence in CI or run smoke tests.
\<close>

section \<open>A run does not see later changes of the profile\<close>

lemma map_concat_cong: "(\<And>x. x \<in> set xs \<Longrightarrow> f x = g x) \<Longrightarrow> concat (map f xs) = concat (map g xs)"
  by (metis map_ext)

lemma run_rows_new_profile:
  assumes "snapshots_ok d" and "cp_id p \<notin> cp_id ` set (company_profile_versions d)"
  shows "run_rows c i (d\<lparr>company_profile_versions := company_profile_versions d @ [p]\<rparr>) = run_rows c i d"
proof -
  have "cs \<in> set (context_snapshots d) \<Longrightarrow> cp_id p \<noteq> cs_company_profile_version_id cs" for cs
    using assms by (auto simp: snapshots_ok_def)
  then show ?thesis by (auto simp: run_rows_def intro!: map_concat_cong)
qed

lemma run_rows_cong:
  assumes "runs d = runs d'" and "context_snapshots d = context_snapshots d'" and "company_profile_versions d = company_profile_versions d'"
    and "goal_versions d = goal_versions d'" and "goal_qualifications d = goal_qualifications d'"
  shows "run_rows c i d = run_rows c i d'"
  unfolding run_rows_def assms by (rule refl)

lemma Runs_get_cong:
  assumes "\<And>c. run_rows c i (sys_db s) = run_rows c i (sys_db t)" and "tasks (sys_db s) = tasks (sys_db t)"
    and "goal_version_attachments (sys_db s) = goal_version_attachments (sys_db t)" and "object_records (sys_db s) = object_records (sys_db t)"
  shows "fst (Runs_get actor i s) = fst (Runs_get actor i t)"
  using assms
  by (auto simp: Runs_get_def tx_bind_def tx_lift_def query_apply tx_require_def tx_throw_def tx_return_def task_counts_def
      frozen_attachments_def split: sum.splits option.splits prod.splits)

text \<open>
  C20. A run keeps the context it was started with. Replacing the profile of a company, whether it succeeds,
  is replayed or is refused, changes nothing that any founder reads of any run by \<open>Runs_get\<close>: its frozen profile is the
  version its snapshot names.
\<close>

theorem profile_change_keeps_runs:
  assumes "snapshots_ok (sys_db s)" and "Companies_updateProfile E actor key version correlationId dto s = (r, t)"
  shows "fst (Runs_get reader runId t) = fst (Runs_get reader runId s)"
proof (cases "sys_db t = sys_db s")
  case True
  then show ?thesis by (intro Runs_get_cong) simp_all
next
  case False
  then obtain x where x: "r = Inr x" using assms(2) updateProfile_refused by (cases r) auto
  with assms(2) have "CommandExecutor_run E (update_profile_command E (ra_id actor) key correlationId version dto) s = (Inr x, t)"
    by (intro updateProfile_runs) simp
  then show ?thesis
  proof (cases rule: CommandExecutor_run_InrE)
    case replayed
    with False show ?thesis by simp
  next
    case (executed rs n s2)
    from executed(1) have "update_profile_body E (ra_id actor) correlationId version dto
        (s\<lparr>sys_next := n, sys_db := sys_db s\<lparr>idempotency_records := rs\<rparr>\<rparr>) = (Inr (cr_status x, cr_body x), s2)"
      by (simp add: update_profile_command_def)
    then show ?thesis
    proof (cases rule: update_profile_InrE)
      case (1 c p pid e q cs ms)
      let ?p = "new_profile E pid (co_id c) (version + 1) (ra_id actor) dto"
      have new: "cp_id ?p \<notin> cp_id ` set (company_profile_versions (sys_db s))" using 1(3) by (simp add: new_profile_def)
      have t: "sys_db t = complete_record E (update_profile_command E (ra_id actor) key correlationId version dto) (cr_status x) (cr_body x) (sys_db s2)"
        using executed(2) by simp
      have "run_rows a runId (sys_db t) = run_rows a runId (sys_db s\<lparr>company_profile_versions := company_profile_versions (sys_db s) @ [?p]\<rparr>)" for a
        by (rule run_rows_cong) (simp_all add: t complete_record_def 1(4) point_to_profile_def)
      with run_rows_new_profile [OF assms(1) new] show ?thesis
        by (intro Runs_get_cong) (simp_all add: t complete_record_def 1(4) point_to_profile_def)
    qed
  qed
qed

theorem profile_change_keeps_runs_witness:
  "\<exists>r t. Companies_updateProfile sample_env (founder_actor 1) (sample_id 30) 1 (sample_id 31) sample_profile_dto two_founders = (r, t) \<and>
     sys_db t \<noteq> sys_db two_founders \<and>
     fst (Runs_get founder_reader (sample_id 7) t) = fst (Runs_get founder_reader (sample_id 7) two_founders)"
proof -
  obtain r t where r: "Companies_updateProfile sample_env (founder_actor 1) (sample_id 30) 1 (sample_id 31) sample_profile_dto two_founders = (Inr r, t)"
    "\<not> cr_replayed r" using sample_replacement by blast
  have "profile_version (sample_id 1) t = Some 2" "profile_version (sample_id 1) two_founders = Some 1"
    using updateProfile_advances [OF two_founders_ok(1) r] by (simp_all add: founder_actor_def)
  then have "sys_db t \<noteq> sys_db two_founders" by (auto simp: profile_version_def)
  moreover have "snapshots_ok (sys_db two_founders)"
    by (simp add: snapshots_ok_def two_founders_def sample_sys_def initial_sys_def sample_db_def empty_db_def sample_snapshot_def sample_profile_def)
  ultimately show ?thesis using profile_change_keeps_runs [OF _ r(1)] r(1) by blast
qed

end
